(* ===== verification/Prelude.thy ===== *)
theory Prelude
  imports Main "HOL-Library.Signed_Division" "HOL-Library.AList"
begin

text \<open>
  What every contract of the workspace shares: the result of a contract call, the
  checked and saturating arithmetic of Rust's fixed-width integers, the host
  environment of a call (ledger time, authorisations, own address), the SEP-41 token
  interface the contracts call, the index lists, and the constants of
  \<^verbatim>\<open>parashield-common\<close>. The generic lemmas on results, lists and maps that the
  component theories use are collected in the theorem collections declared first.
\<close>

named_theorems result_simps \<open>how a composed call succeeds or fails\<close>
named_theorems num_defs \<open>the integer bounds and operations, unfolded\<close>
named_theorems host_defs \<open>the small helpers of a contract, unfolded\<close>

section \<open>Results of contract calls\<close>

text \<open>
  A call either returns or aborts. An abort carries the contract's own error code
  (\<^verbatim>\<open>panic_with_error!\<close>) or is a trap of the host: an arithmetic overflow under
  \<^verbatim>\<open>overflow-checks = true\<close>, an \<^verbatim>\<open>unwrap\<close> of nothing, a failed
  \<^verbatim>\<open>require_auth\<close>, a failing sub-call. Every abort reverts the whole call, so a
  failed call has no new state.
\<close>

datatype 'e failure = Err 'e | Trap

type_synonym ('e, 'a) result = "'e failure + 'a"

abbreviation panic :: "'e \<Rightarrow> ('e, 'a) result" where
  "panic e \<equiv> Inl (Err e)"

abbreviation trap :: "('e, 'a) result" where
  "trap \<equiv> Inl Trap"

definition bindR :: "('e, 'a) result \<Rightarrow> ('a \<Rightarrow> ('e, 'b) result) \<Rightarrow> ('e, 'b) result" where
  "bindR m k = (case m of Inl e \<Rightarrow> Inl e | Inr x \<Rightarrow> k x)"

definition or_panic :: "'e \<Rightarrow> 'a option \<Rightarrow> ('e, 'a) result" where
  "or_panic e x = (case x of None \<Rightarrow> panic e | Some v \<Rightarrow> Inr v)"

definition or_trap :: "'a option \<Rightarrow> ('e, 'a) result" where
  "or_trap x = (case x of None \<Rightarrow> trap | Some v \<Rightarrow> Inr v)"

definition unwrap_or :: "'a \<Rightarrow> 'a option \<Rightarrow> 'a" where
  "unwrap_or d x = (case x of None \<Rightarrow> d | Some v \<Rightarrow> v)"

lemma bindR_Inr [simp]: "bindR (Inr x) k = k x"
  by (simp add: bindR_def)

lemma bindR_Inl [simp]: "bindR (Inl e) k = Inl e"
  by (simp add: bindR_def)

lemma bindR_eq_Inr [result_simps]: "bindR m k = Inr y \<longleftrightarrow> (\<exists>x. m = Inr x \<and> k x = Inr y)"
  by (cases m) simp_all

lemma bindR_eq_Inl [result_simps]:
  "bindR m k = Inl e \<longleftrightarrow> m = Inl e \<or> (\<exists>x. m = Inr x \<and> k x = Inl e)"
  by (cases m) simp_all

lemma if_Inl_eq_Inr [result_simps]:
  "(if b then Inl e else m) = Inr y \<longleftrightarrow> \<not> b \<and> m = Inr y"
  by simp

lemma or_panic_Some [simp]: "or_panic e (Some v) = Inr v"
  by (simp add: or_panic_def)

lemma or_panic_None [simp]: "or_panic e None = panic e"
  by (simp add: or_panic_def)

lemma or_panic_eq_Inr [result_simps]: "or_panic e x = Inr v \<longleftrightarrow> x = Some v"
  by (cases x) (auto simp: or_panic_def)

lemma or_panic_eq_Inl [result_simps]: "or_panic e x = Inl f \<longleftrightarrow> x = None \<and> f = Err e"
  by (cases x) (auto simp: or_panic_def)

lemma or_trap_Some [simp]: "or_trap (Some v) = Inr v"
  by (simp add: or_trap_def)

lemma or_trap_None [simp]: "or_trap None = trap"
  by (simp add: or_trap_def)

lemma or_trap_eq_Inr [result_simps]: "or_trap x = Inr v \<longleftrightarrow> x = Some v"
  by (cases x) (auto simp: or_trap_def)

lemma or_trap_eq_Inl [result_simps]: "or_trap x = Inl f \<longleftrightarrow> x = None \<and> f = Trap"
  by (cases x) (auto simp: or_trap_def)

lemma unwrap_or_simps [simp]: "unwrap_or d None = d" "unwrap_or d (Some v) = v"
  by (simp_all add: unwrap_or_def)

section \<open>Fixed-width integers\<close>

text \<open>
  Values of \<^verbatim>\<open>u32\<close>, \<^verbatim>\<open>u64\<close>, \<^verbatim>\<open>u128\<close> and \<^verbatim>\<open>i128\<close> are integers; their
  width is in the operations. A plain \<^verbatim>\<open>+\<close>, \<^verbatim>\<open>-\<close> or \<^verbatim>\<open>*\<close> traps when the
  result does not fit (the release profile sets \<^verbatim>\<open>overflow-checks\<close>), a
  \<^verbatim>\<open>checked_\<close> operation returns nothing, a \<^verbatim>\<open>saturating_\<close> one stops at the
  bound. Rust's signed division truncates towards zero, which is the library's
  \<open>sdiv\<close>.
\<close>

definition u32_max :: int where "u32_max = 4294967295"
definition u64_max :: int where "u64_max = 18446744073709551615"
definition u128_max :: int where "u128_max = 340282366920938463463374607431768211455"
definition i128_max :: int where "i128_max = 170141183460469231731687303715884105727"
definition i128_min :: int where "i128_min = - 170141183460469231731687303715884105728"

lemmas int_bounds [num_defs] = u32_max_def u64_max_def u128_max_def i128_max_def i128_min_def

definition fits_i128 :: "int \<Rightarrow> bool" where
  [num_defs]: "fits_i128 x \<longleftrightarrow> i128_min \<le> x \<and> x \<le> i128_max"

definition i128 :: "int \<Rightarrow> ('e, int) result" where
  "i128 x = (if fits_i128 x then Inr x else trap)"

definition u32 :: "int \<Rightarrow> ('e, int) result" where
  "u32 x = (if 0 \<le> x \<and> x \<le> u32_max then Inr x else trap)"

definition u64 :: "int \<Rightarrow> ('e, int) result" where
  "u64 x = (if 0 \<le> x \<and> x \<le> u64_max then Inr x else trap)"

definition u128 :: "int \<Rightarrow> ('e, int) result" where
  "u128 x = (if 0 \<le> x \<and> x \<le> u128_max then Inr x else trap)"

definition checked_i128 :: "int \<Rightarrow> int option" where
  "checked_i128 x = (if fits_i128 x then Some x else None)"

definition checked_add :: "int \<Rightarrow> int \<Rightarrow> int option" where
  "checked_add a b = checked_i128 (a + b)"

definition checked_sub :: "int \<Rightarrow> int \<Rightarrow> int option" where
  "checked_sub a b = checked_i128 (a - b)"

definition checked_mul :: "int \<Rightarrow> int \<Rightarrow> int option" where
  "checked_mul a b = checked_i128 (a * b)"

definition checked_div :: "int \<Rightarrow> int \<Rightarrow> int option" where
  "checked_div a b = (if b = 0 then None else checked_i128 (a sdiv b))"

definition checked_u64 :: "int \<Rightarrow> int option" where
  "checked_u64 x = (if 0 \<le> x \<and> x \<le> u64_max then Some x else None)"

definition sat_i128 :: "int \<Rightarrow> int" where
  [num_defs]: "sat_i128 x = max i128_min (min i128_max x)"

definition sat_u64 :: "int \<Rightarrow> int" where
  [num_defs]: "sat_u64 x = max 0 (min u64_max x)"

definition sat_u32 :: "int \<Rightarrow> int" where
  [num_defs]: "sat_u32 x = max 0 (min u32_max x)"

lemma i128_eq_Inr [result_simps]: "i128 x = Inr y \<longleftrightarrow> fits_i128 x \<and> y = x"
  by (auto simp: i128_def)

lemma i128_fits [simp]: "fits_i128 x \<Longrightarrow> i128 x = Inr x"
  by (simp add: i128_def)

lemma u32_eq_Inr [result_simps]: "u32 x = Inr y \<longleftrightarrow> 0 \<le> x \<and> x \<le> u32_max \<and> y = x"
  by (auto simp: u32_def)

lemma u64_eq_Inr [result_simps]: "u64 x = Inr y \<longleftrightarrow> 0 \<le> x \<and> x \<le> u64_max \<and> y = x"
  by (auto simp: u64_def)

lemma u128_eq_Inr [result_simps]: "u128 x = Inr y \<longleftrightarrow> 0 \<le> x \<and> x \<le> u128_max \<and> y = x"
  by (auto simp: u128_def)

lemma checked_i128_eq_Some [result_simps]: "checked_i128 x = Some y \<longleftrightarrow> fits_i128 x \<and> y = x"
  by (auto simp: checked_i128_def)

lemma checked_add_eq_Some [result_simps]: "checked_add a b = Some y \<longleftrightarrow> fits_i128 (a + b) \<and> y = a + b"
  by (simp add: checked_add_def checked_i128_eq_Some)

lemma checked_sub_eq_Some [result_simps]: "checked_sub a b = Some y \<longleftrightarrow> fits_i128 (a - b) \<and> y = a - b"
  by (simp add: checked_sub_def checked_i128_eq_Some)

lemma checked_mul_eq_Some [result_simps]: "checked_mul a b = Some y \<longleftrightarrow> fits_i128 (a * b) \<and> y = a * b"
  by (simp add: checked_mul_def checked_i128_eq_Some)

lemma checked_div_eq_Some [result_simps]:
  "checked_div a b = Some y \<longleftrightarrow> b \<noteq> 0 \<and> fits_i128 (a sdiv b) \<and> y = a sdiv b"
  by (auto simp: checked_div_def checked_i128_eq_Some)

lemma checked_u64_eq_Some [result_simps]: "checked_u64 x = Some y \<longleftrightarrow> 0 \<le> x \<and> x \<le> u64_max \<and> y = x"
  by (auto simp: checked_u64_def)

lemma bind_eq_Some_iff [result_simps]: "Option.bind m f = Some y \<longleftrightarrow> (\<exists>x. m = Some x \<and> f x = Some y)"
  by (cases m) simp_all

lemma sdiv_nonneg: "0 \<le> a \<Longrightarrow> 0 < b \<Longrightarrow> a sdiv b = a div (b::int)"
  by (cases "a = 0") (simp_all add: signed_divide_int_def sgn_if)

lemma sat_i128_id [simp]: "fits_i128 x \<Longrightarrow> sat_i128 x = x"
  by (simp add: num_defs)

lemma sat_i128_fits [simp]: "fits_i128 (sat_i128 x)"
  by (simp add: num_defs)

lemma sat_u64_id: "0 \<le> x \<Longrightarrow> x \<le> u64_max \<Longrightarrow> sat_u64 x = x"
  by (simp add: sat_u64_def)

lemma sat_u64_nonneg [simp]: "0 \<le> sat_u64 x"
  by (simp add: sat_u64_def)

section \<open>Host environment\<close>

text \<open>
  An \<^verbatim>\<open>Address\<close> is its strkey text (the contracts test its length and first
  letter), a \<^verbatim>\<open>Symbol\<close> its characters. The host tells a call the ledger time,
  which addresses have authorised it, and the contract's own address. Soroban does not
  let a sub-call re-enter the contract, so a token call changes the token ledger only.
\<close>

type_synonym address = string
type_synonym symbol = string
type_synonym wasm_hash = string

record env =
  timestamp :: int
  auth :: "address \<Rightarrow> bool"
  this :: address

definition require_auth :: "env \<Rightarrow> address \<Rightarrow> ('e, unit) result" where
  [host_defs]: "require_auth e a = (if auth e a then Inr () else trap)"

definition zero_address :: address where
  "zero_address = ''GAAAAAAAAAAAAAAAAAAAAAAAAAAAAAAAAAAAAAAAAAAAAAAAAAAAAWHF''"

definition symbol_bytes :: "symbol \<Rightarrow> string" where
  [host_defs]: "symbol_bytes s = s"

definition is_account_or_contract :: "address \<Rightarrow> bool" where
  "is_account_or_contract a \<longleftrightarrow>
     length a = 56 \<and> (hd a = CHR ''G'' \<or> hd a = CHR ''C'')"

definition is_contract :: "address \<Rightarrow> bool" where
  "is_contract a \<longleftrightarrow> length a = 56 \<and> hd a = CHR ''C''"

text \<open>Constants of \<^verbatim>\<open>parashield-common\<close> (entry lifetimes are not modelled).\<close>

definition ADMIN_TRANSFER_TIMELOCK :: int where
  "ADMIN_TRANSFER_TIMELOCK = 48 * 60 * 60"

section \<open>The SEP-41 token\<close>

text \<open>
  The token contract is not part of the repository: it is an argument of every
  operation that calls it. The ledger of all tokens is a value of type \<open>'t\<close>;
  \<open>balance_of tk t c a\<close> is the balance of \<open>a\<close> in token contract \<open>c\<close>, and
  \<open>transfer_of tk t c from to n\<close> the ledger after a transfer, or nothing when the
  call fails (no such contract, no authorisation of the payer, insufficient funds).
  \<open>sep41 tk\<close> states what the standard promises of a successful transfer: the
  amount is not negative and moves from the payer to the payee, in that token only.
\<close>

record 't token_ops =
  balance_of :: "'t \<Rightarrow> address \<Rightarrow> address \<Rightarrow> int option"
  transfer_of :: "'t \<Rightarrow> address \<Rightarrow> address \<Rightarrow> address \<Rightarrow> int \<Rightarrow> 't option"

definition balance :: "'t token_ops \<Rightarrow> 't \<Rightarrow> address \<Rightarrow> address \<Rightarrow> int" where
  "balance tk t c a = unwrap_or 0 (balance_of tk t c a)"

definition moved ::
  "'t token_ops \<Rightarrow> 't \<Rightarrow> 't \<Rightarrow> address \<Rightarrow> address \<Rightarrow> address \<Rightarrow> int \<Rightarrow> bool" where
  "moved tk t t' c from to n \<longleftrightarrow> 0 \<le> n \<and>
     (\<forall>d a. balance tk t' d a = balance tk t d a
        + (if d = c \<and> a = to then n else 0) - (if d = c \<and> a = from then n else 0))"

definition sep41 :: "'t token_ops \<Rightarrow> bool" where
  "sep41 tk \<longleftrightarrow>
     (\<forall>t c from to n t'. transfer_of tk t c from to n = Some t' \<longrightarrow> moved tk t t' c from to n)"

lemma sep41_moved: "sep41 tk \<Longrightarrow> transfer_of tk t c from to n = Some t' \<Longrightarrow> moved tk t t' c from to n"
  by (simp add: sep41_def)

lemma moved_balance:
  "moved tk t t' c from to n \<Longrightarrow> balance tk t' d a = balance tk t d a
     + (if d = c \<and> a = to then n else 0) - (if d = c \<and> a = from then n else 0)"
  by (simp add: moved_def)

section \<open>Lists and maps\<close>

text \<open>
  The index lists of the contracts (active products, a user's policies) remove the first
  occurrence of an identifier by its position: \<open>remove1\<close>.
\<close>

lemma remove1_absent: "x \<notin> set xs \<Longrightarrow> remove1 x xs = xs"
  by (induction xs) auto

lemma set_remove1_distinct: "distinct xs \<Longrightarrow> set (remove1 x xs) = set xs - {x}"
  by (rule set_remove1_eq)

lemma map_upd_other: "k \<noteq> j \<Longrightarrow> (m(j \<mapsto> v)) k = m k"
  by simp

section \<open>Sums with finite support\<close>

definition support :: "('a \<Rightarrow> int) \<Rightarrow> 'a set" where
  "support f = {x. f x \<noteq> 0}"

definition total :: "('a \<Rightarrow> int) \<Rightarrow> int" where
  "total f = sum f (support f)"

lemma total_over: "finite A \<Longrightarrow> support f \<subseteq> A \<Longrightarrow> total f = sum f A"
  unfolding total_def by (rule sum.mono_neutral_left) (auto simp: support_def)

lemma support_upd: "finite (support f) \<Longrightarrow> finite (support (f(a := v)))"
  by (rule finite_subset[of _ "insert a (support f)"]) (auto simp: support_def)

lemma total_upd: "finite (support f) \<Longrightarrow> total (f(a := v)) = total f - f a + v"
proof -
  assume fin: "finite (support f)"
  let ?A = "insert a (support f)"
  have "total (f(a := v)) = sum (f(a := v)) ?A"
    using fin by (intro total_over) (auto simp: support_def)
  also have "\<dots> = v + sum f (?A - {a})"
    using fin by (subst sum.remove[of _ a]) (auto intro!: sum.cong)
  also have "sum f (?A - {a}) = sum f ?A - f a"
    using fin by (subst sum.remove[of ?A a]) auto
  also have "sum f ?A = total f"
    using fin by (intro total_over[symmetric]) auto
  finally show ?thesis by (simp add: fun_upd_def)
qed

lemma total_zero [simp]: "total (\<lambda>_. 0) = 0"
  by (simp add: total_def)

lemma total_nonneg: "(\<And>x. 0 \<le> f x) \<Longrightarrow> 0 \<le> total f"
  by (simp add: total_def sum_nonneg)

lemma le_total: "finite (support f) \<Longrightarrow> (\<And>x. 0 \<le> f x) \<Longrightarrow> f a \<le> total f"
  using total_upd[of f a 0] total_nonneg[of "f(a := 0)"] by fastforce

end
