(* ===== verification/Contract_System.thy ===== *)
theory Contract_System
  imports Prelude
begin

text \<open>
  A contract seen from outside: a sequence of successful calls, at ledger times that do
  not go back (a failed call leaves the state as it was). The theory has the runs and
  reachable states of such a system and two interfaces the contracts implement: a state
  invariant, and a role (an administrator, an oracle address) that changes hands only
  after a published delay.
\<close>

section \<open>Runs and reachable states\<close>

text \<open>
  \<open>exec e c s\<close> is the call \<open>c\<close> in environment \<open>e\<close>. A run goes from state \<open>s\<close> at
  ledger time \<open>t\<close> to a later state and time; ledger times fit in \<^verbatim>\<open>u64\<close>.
\<close>

inductive run :: "(env \<Rightarrow> 'c \<Rightarrow> 's \<Rightarrow> ('e, 's) result) \<Rightarrow> int \<Rightarrow> 's \<Rightarrow> int \<Rightarrow> 's \<Rightarrow> bool"
  for exec :: "env \<Rightarrow> 'c \<Rightarrow> 's \<Rightarrow> ('e, 's) result" where
  run_refl: "run exec t s t s"
| run_step: "run exec t s t' s' \<Longrightarrow> t' \<le> timestamp e \<Longrightarrow> timestamp e \<le> u64_max \<Longrightarrow>
     exec e c s' = Inr s'' \<Longrightarrow> run exec t s (timestamp e) s''"

definition reach :: "(env \<Rightarrow> 'c \<Rightarrow> 's \<Rightarrow> ('e, 's) result) \<Rightarrow> 's \<Rightarrow> int \<Rightarrow> 's \<Rightarrow> bool" where
  "reach exec s0 t s \<longleftrightarrow> (\<exists>t0 \<ge> 0. run exec t0 s0 t s)"

lemma run_time: "run exec t s t' s' \<Longrightarrow> t \<le> t'"
  by (induction rule: run.induct) auto

lemma run_trans:
  assumes "run exec t1 s1 t2 s2" and "run exec t0 s0 t1 s1"
  shows "run exec t0 s0 t2 s2"
  using assms by (induction rule: run.induct) (auto intro: run.intros)

lemma reach_start: "0 \<le> t \<Longrightarrow> reach exec s0 t s0"
  unfolding reach_def by (blast intro: run_refl)

lemma reach_step:
  assumes "reach exec s0 t s" "t \<le> timestamp e" "timestamp e \<le> u64_max" "exec e c s = Inr s'"
  shows "reach exec s0 (timestamp e) s'"
  using assms unfolding reach_def by (blast intro: run_step)

lemma reach_run: "reach exec s0 t s \<Longrightarrow> run exec t s t' s' \<Longrightarrow> reach exec s0 t' s'"
  unfolding reach_def by (blast intro: run_trans)

lemma reach_time: "reach exec s0 t s \<Longrightarrow> 0 \<le> t"
  unfolding reach_def by (auto dest: run_time)

text \<open>
  \<open>except P exec\<close> is the system in which no call satisfying \<open>P\<close> succeeds: the runs
  without those calls.
\<close>

definition except ::
  "('c \<Rightarrow> bool) \<Rightarrow> (env \<Rightarrow> 'c \<Rightarrow> 's \<Rightarrow> ('e, 's) result) \<Rightarrow> env \<Rightarrow> 'c \<Rightarrow> 's \<Rightarrow> ('e, 's) result" where
  "except P exec e c s = (if P c then trap else exec e c s)"

lemma except_run: "run (except P exec) t s t' s' \<Longrightarrow> run exec t s t' s'"
  by (induction rule: run.induct) (auto simp: except_def intro: run.intros split: if_splits)

section \<open>Invariants\<close>

text \<open>
  The provider's part is the two laws: the invariant holds before the first call, and
  every successful call keeps it. It may speak of the ledger time.
\<close>

locale invariant_system =
  fixes exec :: "env \<Rightarrow> 'c \<Rightarrow> 's \<Rightarrow> ('e, 's) result"
    and s0 :: 's
    and inv :: "int \<Rightarrow> 's \<Rightarrow> bool"
  assumes inv_start: "0 \<le> t \<Longrightarrow> inv t s0"
    and inv_call: "inv t s \<Longrightarrow> 0 \<le> t \<Longrightarrow> t \<le> timestamp e \<Longrightarrow> timestamp e \<le> u64_max \<Longrightarrow>
          exec e c s = Inr s' \<Longrightarrow> inv (timestamp e) s'"
begin

lemma inv_run: "run exec t s t' s' \<Longrightarrow> 0 \<le> t \<Longrightarrow> inv t s \<Longrightarrow> inv t' s'"
proof (induction rule: run.induct)
  case (run_refl t s)
  then show ?case by simp
next
  case (run_step t s t' s' e c s'')
  then show ?case
    using run_time inv_call[of t' s' e c s''] by fastforce
qed

lemma inv_reach: "reach exec s0 t s \<Longrightarrow> inv t s"
  unfolding reach_def using inv_run inv_start by blast

lemma inv_reach_run: "reach exec s0 t s \<Longrightarrow> run exec t s t' s' \<Longrightarrow> inv t' s'"
  by (rule inv_reach) (rule reach_run)

end

section \<open>A role that changes hands after a delay\<close>

text \<open>
  \<open>holder s\<close> is the address that holds the role, \<open>pending s\<close> the announced successor
  with the first ledger time at which it may take over. A call leaves the role alone,
  installs its first holder, announces a successor while none is announced, withdraws the
  announcement, or completes it once its time has come. Then nobody who is not yet announced
  can hold the role before the whole delay has passed.
\<close>

definition role_step ::
  "int \<Rightarrow> int \<Rightarrow> address option \<Rightarrow> (address \<times> int) option \<Rightarrow>
   address option \<Rightarrow> (address \<times> int) option \<Rightarrow> bool" where
  "role_step delay now h p h' p' \<longleftrightarrow>
     h' = h \<and> (p' = p \<or> p' = None \<or> p = None \<and> (\<exists>a. p' = Some (a, sat_u64 (now + delay))))
   \<or> h = None \<and> p' = p
   \<or> p' = None \<and> (\<exists>a r. p = Some (a, r) \<and> r \<le> now \<and> h' = Some a)"

locale timelocked_role = invariant_system exec s0 inv
  for exec :: "env \<Rightarrow> 'c \<Rightarrow> 's \<Rightarrow> ('e, 's) result"
    and s0 :: 's
    and inv :: "int \<Rightarrow> 's \<Rightarrow> bool" +
  fixes holder :: "'s \<Rightarrow> address option"
    and pending :: "'s \<Rightarrow> (address \<times> int) option"
    and delay :: int
  assumes delay_pos: "0 \<le> delay"
    and role_call: "inv t s \<Longrightarrow> exec e c s = Inr s' \<Longrightarrow>
          role_step delay (timestamp e) (holder s) (pending s) (holder s') (pending s')"
begin

text \<open>
  The part of the history a later holder depends on: an address other than the holder
  and the announced successor of the first state is announced, if at all, with a time at
  least one whole delay after the first state, and is not the holder.
\<close>

lemma run_notice:
  assumes "run exec t s t' s'" "0 \<le> t" "inv t s" "holder s = Some h"
    and "\<And>r. pending s \<noteq> Some (b, r)" "b \<noteq> h" "t + delay \<le> u64_max" "t' < t + delay"
  shows "holder s' \<noteq> None \<and> holder s' \<noteq> Some b \<and> (\<forall>r. pending s' = Some (b, r) \<longrightarrow> t + delay \<le> r)"
  using assms
proof (induction rule: run.induct)
  case (run_refl t s)
  then show ?case by simp
next
  case (run_step t s t' s' e c s'')
  have time: "t \<le> t'" using run_step.hyps(1) by (rule run_time)
  have inv': "inv t' s'" using inv_run run_step by blast
  have IH: "holder s' \<noteq> None" "holder s' \<noteq> Some b"
    "\<And>r. pending s' = Some (b, r) \<Longrightarrow> t + delay \<le> r"
    using run_step by auto
  have later: "t + delay \<le> sat_u64 (timestamp e + delay)"
    using time run_step.hyps run_step.prems delay_pos by (simp add: sat_u64_def)
  show ?case
    using role_call[OF inv' run_step.hyps(4)] IH later run_step.prems(7)
    by (auto simp: role_step_def)
qed

lemma holder_needs_notice:
  assumes "reach exec s0 t s" "holder s = Some h" "run exec t s t' s'"
    and "t + delay \<le> u64_max" "t' < t + delay" "holder s' = Some b"
  shows "b = h \<or> (\<exists>r. pending s = Some (b, r))"
  using run_notice[OF assms(3) reach_time[OF assms(1)] inv_reach[OF assms(1)] assms(2)] assms(4-6)
  by blast

end

end
