(* ===== verification/PE_Types.thy ===== *)
theory PE_Types
  imports Contract_System
begin

text \<open>
  The data of the policy engine (\<^verbatim>\<open>contracts/policy-engine\<close>): products, policies,
  the pending oracle rotation, the error codes, the published events, and the storage
  of the contract as a record with one field per \<^verbatim>\<open>StorageKey\<close>. A field of type
  \<open>option\<close> is an instance entry that may be unset, a map is a family of persistent
  entries. The last three fields are the host's: the installed code, the ledger of the
  tokens, the event log (latest first).
\<close>

datatype trigger_type = Threshold | Binary | Parametric

datatype trigger_comparison = LessThan | GreaterThan | Equal

datatype product_status = ProductActive | ProductPaused | ProductDeprecated

datatype policy_status = PolicyActive | Claimed | Expired | Cancelled

record insurance_product =
  pr_id :: int
  pr_name :: symbol
  pr_category :: symbol
  pr_oracle_key :: symbol
  pr_expected_token :: address
  pr_trigger_type :: trigger_type
  pr_oracle_data_type :: symbol
  pr_trigger_threshold :: int
  pr_trigger_comparison :: trigger_comparison
  pr_coverage_min :: int
  pr_coverage_max :: int
  pr_premium_rate_bps :: int
  pr_max_duration_days :: int
  pr_status :: product_status
  pr_created_at :: int

record batch_buy_item =
  bi_product_id :: int
  bi_coverage_amount :: int
  bi_duration_days :: int
  bi_oracle_key :: symbol
  bi_payment_token :: address

record create_product_params =
  cp_name :: symbol
  cp_category :: symbol
  cp_oracle_key :: symbol
  cp_expected_token :: address
  cp_trigger_type :: trigger_type
  cp_oracle_data_type :: symbol
  cp_trigger_threshold :: int
  cp_trigger_comparison :: trigger_comparison
  cp_coverage_min :: int
  cp_coverage_max :: int
  cp_premium_rate_bps :: int
  cp_max_duration_days :: int

record policy =
  po_id :: int
  po_product_id :: int
  po_policyholder :: address
  po_coverage_amount :: int
  po_premium_paid :: int
  po_oracle_key :: symbol
  po_oracle_data_type :: symbol
  po_trigger_threshold :: int
  po_trigger_comparison :: trigger_comparison
  po_start_time :: int
  po_end_time :: int
  po_status :: policy_status
  po_created_at :: int

record product_stats =
  st_product_id :: int
  st_total_policies :: int
  st_active_policies :: int
  st_total_coverage :: int
  st_total_premium_collected :: int

record pending_oracle_change =
  oc_new_oracle :: address
  oc_execute_after :: int
  oc_guardian_approved :: bool

datatype expiry_state = NotActive | StillActive | ExpiringSoon | Lapsed

record policy_expiry_info =
  ei_policy_id :: int
  ei_state :: expiry_state
  ei_end_time :: int
  ei_seconds_remaining :: int
  ei_warned :: bool

datatype pe_error =
    AlreadyInitialized | NotInitialized | Unauthorized | ProductNotFound | ProductNotActive
  | PolicyNotFound | PolicyNotActive | CoverageOutOfRange | DurationTooLong | InsufficientPool
  | AlreadyClaimed | AlreadyExpired | InvalidPremiumRate | InvalidTriggerThreshold
  | DuplicateProductKey | InvalidCoverageRange | InvalidToken | ClaimsProcessorNotSet
  | InvalidDurationRange | InvalidOracleKey | Overflow | TooManyProducts | InvalidMaxProducts
  | AdminTimelockNotExpired | InvalidAddress | InvalidVersion | AdminTransferPending
  | EmptyBatch | BatchTooLarge | NotExpiringSoon | InvalidWarningWindow | ReasonTooLong
  | DuplicateProductName | InvalidTriggerCombination | InvalidCategory | InvalidStartTime
  | ZeroPremiumRate | CoolingOffActive | OracleChangePending | NoPendingOracleChange
  | OracleTimelockNotExpired | NotOracleGuardian | OracleApprovalRequired
  | AdminCannotBuyPolicy | EmptyDescription | InvalidDescription | UnregisteredOracleDataType
  | InvalidInput

text \<open>
  One constructor per event the contract publishes, with the payload it publishes. (Some
  event structures of \<^verbatim>\<open>types.rs\<close> are never published.)
\<close>

datatype pe_event =
    EvInitialized address address address
  | EvClaimsProcessorUpdated address
  | EvOracleGuardianUpdated address
  | EvOracleChangeProposed pending_oracle_change
  | EvOracleChanged address
  | EvProductCreated int symbol symbol int
  | EvProductPaused int
  | EvBuyPolicy address int int int int
  | EvPolicyCancelled int address int
  | EvPolicyTransferred int address address
  | EvClaimPaid int address int
  | EvPolicyExpired int int
  | EvCategoryRegistered symbol
  | EvCategoryUnregistered symbol
  | EvAdminUpdated address
  | EvMaxProductsUpdated int
  | EvExpiryWindowUpdated int
  | EvPolicyExpiringSoon int address int int int int
  | EvContractUpgraded int int

record 't pe_state =
  pe_initialized :: bool
  pe_admin :: "address option"
  pe_usdc_token :: "address option"
  pe_oracle_address :: "address option"
  pe_claims_processor :: "address option"
  pe_products :: "int \<rightharpoonup> insurance_product"
  pe_policies :: "int \<rightharpoonup> policy"
  pe_user_policies :: "address \<rightharpoonup> int list"
  pe_active_products :: "int list option"
  pe_next_product_id :: "int option"
  pe_next_policy_id :: "int option"
  pe_paused :: "bool option"
  pe_product_key :: "symbol \<times> symbol \<rightharpoonup> int"
  pe_pending_admin :: "address option"
  pe_pending_admin_since :: "int option"
  pe_max_products_per_pool :: "int option"
  pe_pool_product_count :: "symbol \<rightharpoonup> int"
  pe_version :: "int option"
  pe_expiry_warning_window :: "int option"
  pe_expiry_warned :: "int \<rightharpoonup> bool"
  pe_product_name :: "symbol \<rightharpoonup> int"
  pe_last_purchase :: "address \<times> symbol \<rightharpoonup> int"
  pe_oracle_guardian :: "address option"
  pe_pending_oracle_change :: "pending_oracle_change option"
  pe_registered_category :: "symbol \<rightharpoonup> bool"
  pe_category_registry :: "symbol list option"
  pe_registered_oracle_data_type :: "symbol \<rightharpoonup> bool"
  pe_oracle_data_type_registry :: "symbol list option"
  pe_wasm :: "wasm_hash option"
  pe_tokens :: 't
  pe_events :: "pe_event list"

text \<open>The storage of a contract that has just been deployed.\<close>

definition pe_fresh :: "'t \<Rightarrow> 't pe_state" where
  "pe_fresh t = \<lparr>
     pe_initialized = False, pe_admin = None, pe_usdc_token = None, pe_oracle_address = None,
     pe_claims_processor = None, pe_products = Map.empty, pe_policies = Map.empty,
     pe_user_policies = Map.empty, pe_active_products = None, pe_next_product_id = None,
     pe_next_policy_id = None, pe_paused = None, pe_product_key = Map.empty,
     pe_pending_admin = None, pe_pending_admin_since = None, pe_max_products_per_pool = None,
     pe_pool_product_count = Map.empty, pe_version = None, pe_expiry_warning_window = None,
     pe_expiry_warned = Map.empty, pe_product_name = Map.empty, pe_last_purchase = Map.empty,
     pe_oracle_guardian = None, pe_pending_oracle_change = None,
     pe_registered_category = Map.empty, pe_category_registry = None,
     pe_registered_oracle_data_type = Map.empty, pe_oracle_data_type_registry = None,
     pe_wasm = None, pe_tokens = t, pe_events = []\<rparr>"

text \<open>Constants of \<^verbatim>\<open>lib.rs\<close>.\<close>

definition DEFAULT_MAX_PRODUCTS_PER_POOL :: int where [num_defs]: "DEFAULT_MAX_PRODUCTS_PER_POOL = 100"
definition CURRENT_STORAGE_VERSION :: int where [num_defs]: "CURRENT_STORAGE_VERSION = 3"
definition MAX_BATCH_BUY :: int where [num_defs]: "MAX_BATCH_BUY = 20"
definition DEFAULT_EXPIRY_WARNING_WINDOW :: int where
  [num_defs]: "DEFAULT_EXPIRY_WARNING_WINDOW = 7 * 24 * 60 * 60"
definition MAX_EXPIRY_SCAN :: int where [num_defs]: "MAX_EXPIRY_SCAN = 50"
definition MAX_COVERAGE_LIMIT :: int where [num_defs]: "MAX_COVERAGE_LIMIT = 1000000000000"
definition PURCHASE_COOLING_OFF_SECONDS :: int where
  [num_defs]: "PURCHASE_COOLING_OFF_SECONDS = 24 * 60 * 60"
definition ORACLE_CHANGE_TIMELOCK_SECONDS :: int where
  [num_defs]: "ORACLE_CHANGE_TIMELOCK_SECONDS = 48 * 60 * 60"

definition publish :: "pe_event \<Rightarrow> 't pe_state \<Rightarrow> 't pe_state" where
  [host_defs]: "publish ev s = s\<lparr>pe_events := ev # pe_events s\<rparr>"

section \<open>Guards and lookups\<close>

definition require_admin :: "env \<Rightarrow> address \<Rightarrow> 't pe_state \<Rightarrow> (pe_error, unit) result" where
  "require_admin e caller s =
     bindR (or_panic NotInitialized (pe_admin s)) (\<lambda>admin.
     if caller \<noteq> admin then panic Unauthorized else require_auth e caller)"

definition require_claims_processor ::
  "env \<Rightarrow> address \<Rightarrow> 't pe_state \<Rightarrow> (pe_error, unit) result" where
  "require_claims_processor e caller s =
     bindR (or_panic ClaimsProcessorNotSet (pe_claims_processor s)) (\<lambda>cp.
     if caller \<noteq> cp then panic Unauthorized else require_auth e caller)"

definition ensure_not_paused :: "'t pe_state \<Rightarrow> (pe_error, unit) result" where
  "ensure_not_paused s = (if unwrap_or False (pe_paused s) then panic Unauthorized else Inr ())"

definition load_product :: "int \<Rightarrow> 't pe_state \<Rightarrow> (pe_error, insurance_product) result" where
  "load_product i s = or_panic ProductNotFound (pe_products s i)"

definition load_policy :: "int \<Rightarrow> 't pe_state \<Rightarrow> (pe_error, policy) result" where
  "load_policy i s = or_panic PolicyNotFound (pe_policies s i)"

definition require_not_zero_address :: "address \<Rightarrow> (pe_error, unit) result" where
  "require_not_zero_address a = (if a = zero_address then panic InvalidAddress else Inr ())"

text \<open>The identifier counters read, hand out and increment in one storage update.\<close>

definition next_product_id :: "'t pe_state \<Rightarrow> (pe_error, int \<times> 't pe_state) result" where
  "next_product_id s =
     (let i = unwrap_or 1 (pe_next_product_id s)
      in bindR (u128 (i + 1)) (\<lambda>n. Inr (i, s\<lparr>pe_next_product_id := Some n\<rparr>)))"

definition next_policy_id :: "'t pe_state \<Rightarrow> (pe_error, int \<times> 't pe_state) result" where
  "next_policy_id s =
     (let i = unwrap_or 1 (pe_next_policy_id s)
      in bindR (u128 (i + 1)) (\<lambda>n. Inr (i, s\<lparr>pe_next_policy_id := Some n\<rparr>)))"

definition remove_policy_from_user :: "address \<Rightarrow> int \<Rightarrow> 't pe_state \<Rightarrow> 't pe_state" where
  "remove_policy_from_user user i s =
     (let ids = unwrap_or [] (pe_user_policies s user)
      in if i \<in> set ids
         then s\<lparr>pe_user_policies := (pe_user_policies s)(user \<mapsto> remove1 i ids)\<rparr>
         else s)"

definition expiry_warning_window :: "'t pe_state \<Rightarrow> int" where
  "expiry_warning_window s = unwrap_or DEFAULT_EXPIRY_WARNING_WINDOW (pe_expiry_warning_window s)"

lemma require_admin_ok [result_simps]:
  "require_admin e a s = Inr u \<longleftrightarrow> pe_admin s = Some a \<and> auth e a"
  by (auto simp: require_admin_def require_auth_def result_simps)

lemma require_claims_processor_ok [result_simps]:
  "require_claims_processor e a s = Inr u \<longleftrightarrow> pe_claims_processor s = Some a \<and> auth e a"
  by (auto simp: require_claims_processor_def require_auth_def result_simps)

lemma ensure_not_paused_ok [result_simps]:
  "ensure_not_paused s = Inr u \<longleftrightarrow> pe_paused s \<noteq> Some True"
  by (cases "pe_paused s") (auto simp: ensure_not_paused_def)

lemma load_ok [result_simps]:
  "load_product i s = Inr p \<longleftrightarrow> pe_products s i = Some p"
  "load_policy j s = Inr q \<longleftrightarrow> pe_policies s j = Some q"
  by (simp_all add: load_product_def load_policy_def result_simps)

lemma require_not_zero_ok [result_simps]:
  "require_not_zero_address a = Inr u \<longleftrightarrow> a \<noteq> zero_address"
  by (simp add: require_not_zero_address_def)

lemma next_id_ok [result_simps]:
  "next_product_id s = Inr (i, s') \<longleftrightarrow> i = unwrap_or 1 (pe_next_product_id s) \<and>
     0 \<le> i + 1 \<and> i + 1 \<le> u128_max \<and> s' = s\<lparr>pe_next_product_id := Some (i + 1)\<rparr>"
  "next_policy_id s = Inr (i, s') \<longleftrightarrow> i = unwrap_or 1 (pe_next_policy_id s) \<and>
     0 \<le> i + 1 \<and> i + 1 \<le> u128_max \<and> s' = s\<lparr>pe_next_policy_id := Some (i + 1)\<rparr>"
  by (auto simp: next_product_id_def next_policy_id_def Let_def result_simps)

lemma remove_policy_eq:
  "remove_policy_from_user u i s =
     s\<lparr>pe_user_policies := (if i \<in> set (unwrap_or [] (pe_user_policies s u))
        then (pe_user_policies s)(u \<mapsto> remove1 i (unwrap_or [] (pe_user_policies s u)))
        else pe_user_policies s)\<rparr>"
  by (simp add: remove_policy_from_user_def Let_def)

lemma remove_policy_frame [simp]:
  "pe_initialized (remove_policy_from_user u i s) = pe_initialized s"
  "pe_admin (remove_policy_from_user u i s) = pe_admin s"
  "pe_usdc_token (remove_policy_from_user u i s) = pe_usdc_token s"
  "pe_oracle_address (remove_policy_from_user u i s) = pe_oracle_address s"
  "pe_claims_processor (remove_policy_from_user u i s) = pe_claims_processor s"
  "pe_products (remove_policy_from_user u i s) = pe_products s"
  "pe_policies (remove_policy_from_user u i s) = pe_policies s"
  "pe_active_products (remove_policy_from_user u i s) = pe_active_products s"
  "pe_next_product_id (remove_policy_from_user u i s) = pe_next_product_id s"
  "pe_next_policy_id (remove_policy_from_user u i s) = pe_next_policy_id s"
  "pe_paused (remove_policy_from_user u i s) = pe_paused s"
  "pe_product_key (remove_policy_from_user u i s) = pe_product_key s"
  "pe_pending_admin (remove_policy_from_user u i s) = pe_pending_admin s"
  "pe_pending_admin_since (remove_policy_from_user u i s) = pe_pending_admin_since s"
  "pe_max_products_per_pool (remove_policy_from_user u i s) = pe_max_products_per_pool s"
  "pe_pool_product_count (remove_policy_from_user u i s) = pe_pool_product_count s"
  "pe_version (remove_policy_from_user u i s) = pe_version s"
  "pe_expiry_warning_window (remove_policy_from_user u i s) = pe_expiry_warning_window s"
  "pe_expiry_warned (remove_policy_from_user u i s) = pe_expiry_warned s"
  "pe_product_name (remove_policy_from_user u i s) = pe_product_name s"
  "pe_last_purchase (remove_policy_from_user u i s) = pe_last_purchase s"
  "pe_oracle_guardian (remove_policy_from_user u i s) = pe_oracle_guardian s"
  "pe_pending_oracle_change (remove_policy_from_user u i s) = pe_pending_oracle_change s"
  "pe_registered_category (remove_policy_from_user u i s) = pe_registered_category s"
  "pe_category_registry (remove_policy_from_user u i s) = pe_category_registry s"
  "pe_registered_oracle_data_type (remove_policy_from_user u i s) = pe_registered_oracle_data_type s"
  "pe_oracle_data_type_registry (remove_policy_from_user u i s) = pe_oracle_data_type_registry s"
  "pe_wasm (remove_policy_from_user u i s) = pe_wasm s"
  "pe_tokens (remove_policy_from_user u i s) = pe_tokens s"
  "pe_events (remove_policy_from_user u i s) = pe_events s"
  by (simp_all add: remove_policy_from_user_def Let_def)

end
