(* ===== verification/PE_Admin.thy ===== *)
theory PE_Admin
  imports PE_Types
begin

text \<open>
  The administration of the policy engine: initialisation, the claims processor, the
  two-party oracle rotation, the category and data-type registries, the emergency pause,
  the two-step transfer of the admin role, the limits, and upgrades with their storage
  migrations (\<^verbatim>\<open>lib.rs\<close>, "Lifecycle", "Category Registry", "Admin").
\<close>

section \<open>Lifecycle\<close>

definition default_categories :: "symbol list" where
  "default_categories = [''crop'', ''flight'', ''disaster'', ''health'', ''defi'']"

definition default_data_types :: "symbol list" where
  "default_data_types = [''weather'', ''flight'', ''disaster'', ''onchain'', ''defi'', ''health'']"

text \<open>
  The token is probed by a balance query and by a transfer of nothing from the contract
  to itself; whatever that transfer does to the token ledger stays.
\<close>

definition initialize ::
  "'t token_ops \<Rightarrow> env \<Rightarrow> address \<Rightarrow> address \<Rightarrow> address \<Rightarrow> 't pe_state \<Rightarrow>
   (pe_error, 't pe_state) result" where
  "initialize tk e admin usdc_token oracle_address s =
     (if pe_initialized s then panic AlreadyInitialized
      else if \<not> is_account_or_contract admin then panic InvalidAddress
      else if \<not> is_contract usdc_token then panic InvalidAddress
      else if \<not> is_contract oracle_address then panic InvalidAddress
      else bindR (require_not_zero_address oracle_address) (\<lambda>_.
      if balance_of tk (pe_tokens s) usdc_token (this e) = None then panic InvalidToken
      else bindR (or_panic InvalidToken
                    (transfer_of tk (pe_tokens s) usdc_token (this e) (this e) 0)) (\<lambda>t.
      bindR (require_auth e admin) (\<lambda>_.
      Inr (publish (EvInitialized admin usdc_token oracle_address)
        (s\<lparr>pe_tokens := t,
           pe_initialized := True,
           pe_admin := Some admin,
           pe_usdc_token := Some usdc_token,
           pe_oracle_address := Some oracle_address,
           pe_next_product_id := Some 1,
           pe_next_policy_id := Some 1,
           pe_active_products := Some [],
           pe_max_products_per_pool := Some DEFAULT_MAX_PRODUCTS_PER_POOL,
           pe_pending_admin := None,
           pe_registered_category :=
             foldl (\<lambda>m c. m(c \<mapsto> True)) (pe_registered_category s) default_categories,
           pe_category_registry := Some default_categories,
           pe_registered_oracle_data_type :=
             foldl (\<lambda>m c. m(c \<mapsto> True)) (pe_registered_oracle_data_type s) default_data_types,
           pe_oracle_data_type_registry := Some default_data_types\<rparr>))))))"

definition set_claims_processor ::
  "env \<Rightarrow> address \<Rightarrow> address \<Rightarrow> 't pe_state \<Rightarrow> (pe_error, 't pe_state) result" where
  "set_claims_processor e admin claims_processor s =
     bindR (require_admin e admin s) (\<lambda>_.
     Inr (publish (EvClaimsProcessorUpdated claims_processor)
       (s\<lparr>pe_claims_processor := Some claims_processor\<rparr>)))"

section \<open>Oracle rotation\<close>

definition set_oracle_guardian ::
  "env \<Rightarrow> address \<Rightarrow> address \<Rightarrow> 't pe_state \<Rightarrow> (pe_error, 't pe_state) result" where
  "set_oracle_guardian e admin guardian s =
     bindR (require_admin e admin s) (\<lambda>_.
     if guardian = admin then panic NotOracleGuardian
     else Inr (publish (EvOracleGuardianUpdated guardian)
       (s\<lparr>pe_oracle_guardian := Some guardian\<rparr>)))"

definition propose_oracle_change ::
  "env \<Rightarrow> address \<Rightarrow> address \<Rightarrow> 't pe_state \<Rightarrow> (pe_error, 't pe_state) result" where
  "propose_oracle_change e admin new_oracle s =
     bindR (require_admin e admin s) (\<lambda>_.
     if pe_pending_oracle_change s \<noteq> None then panic OracleChangePending
     else if \<not> is_contract new_oracle then panic InvalidAddress
     else bindR (require_not_zero_address new_oracle) (\<lambda>_.
     let change = \<lparr>oc_new_oracle = new_oracle,
                   oc_execute_after = sat_u64 (timestamp e + ORACLE_CHANGE_TIMELOCK_SECONDS),
                   oc_guardian_approved = False\<rparr>
     in Inr (publish (EvOracleChangeProposed change)
          (s\<lparr>pe_pending_oracle_change := Some change\<rparr>))))"

definition approve_oracle_change ::
  "env \<Rightarrow> address \<Rightarrow> 't pe_state \<Rightarrow> (pe_error, 't pe_state) result" where
  "approve_oracle_change e guardian s =
     bindR (require_auth e guardian) (\<lambda>_.
     bindR (or_panic NotOracleGuardian (pe_oracle_guardian s)) (\<lambda>configured.
     if guardian \<noteq> configured then panic NotOracleGuardian
     else bindR (or_panic NoPendingOracleChange (pe_pending_oracle_change s)) (\<lambda>change.
     Inr (s\<lparr>pe_pending_oracle_change := Some (change\<lparr>oc_guardian_approved := True\<rparr>)\<rparr>))))"

definition execute_oracle_change ::
  "env \<Rightarrow> address \<Rightarrow> 't pe_state \<Rightarrow> (pe_error, 't pe_state) result" where
  "execute_oracle_change e admin s =
     bindR (require_admin e admin s) (\<lambda>_.
     bindR (or_panic NoPendingOracleChange (pe_pending_oracle_change s)) (\<lambda>change.
     if \<not> oc_guardian_approved change then panic OracleApprovalRequired
     else if timestamp e < oc_execute_after change then panic OracleTimelockNotExpired
     else Inr (publish (EvOracleChanged (oc_new_oracle change))
       (s\<lparr>pe_oracle_address := Some (oc_new_oracle change),
          pe_pending_oracle_change := None\<rparr>))))"

section \<open>Registries\<close>

definition is_category_registered :: "symbol \<Rightarrow> 't pe_state \<Rightarrow> bool" where
  "is_category_registered c s = unwrap_or False (pe_registered_category s c)"

definition register_category ::
  "env \<Rightarrow> address \<Rightarrow> symbol \<Rightarrow> 't pe_state \<Rightarrow> (pe_error, 't pe_state) result" where
  "register_category e admin category s =
     bindR (require_admin e admin s) (\<lambda>_.
     if \<not> unwrap_or False (pe_registered_category s category)
     then Inr (publish (EvCategoryRegistered category)
            (s\<lparr>pe_registered_category := (pe_registered_category s)(category \<mapsto> True),
               pe_category_registry :=
                 Some (unwrap_or [] (pe_category_registry s) @ [category])\<rparr>))
     else Inr s)"

definition unregister_category ::
  "env \<Rightarrow> address \<Rightarrow> symbol \<Rightarrow> 't pe_state \<Rightarrow> (pe_error, 't pe_state) result" where
  "unregister_category e admin category s =
     bindR (require_admin e admin s) (\<lambda>_.
     if \<not> unwrap_or False (pe_registered_category s category) then panic InvalidCategory
     else Inr (publish (EvCategoryUnregistered category)
       (s\<lparr>pe_registered_category := (pe_registered_category s)(category \<mapsto> False),
          pe_category_registry :=
            Some (filter (\<lambda>c. c \<noteq> category) (unwrap_or [] (pe_category_registry s)))\<rparr>)))"

definition get_registered_categories :: "'t pe_state \<Rightarrow> symbol list" where
  "get_registered_categories s = unwrap_or [] (pe_category_registry s)"

definition register_oracle_data_type ::
  "env \<Rightarrow> address \<Rightarrow> symbol \<Rightarrow> 't pe_state \<Rightarrow> (pe_error, 't pe_state) result" where
  "register_oracle_data_type e admin data_type s =
     bindR (require_admin e admin s) (\<lambda>_.
     if \<not> unwrap_or False (pe_registered_oracle_data_type s data_type)
     then Inr (s\<lparr>pe_registered_oracle_data_type :=
                    (pe_registered_oracle_data_type s)(data_type \<mapsto> True),
                 pe_oracle_data_type_registry :=
                    Some (unwrap_or [] (pe_oracle_data_type_registry s) @ [data_type])\<rparr>)
     else Inr s)"

definition is_oracle_data_type_registered :: "symbol \<Rightarrow> 't pe_state \<Rightarrow> bool" where
  "is_oracle_data_type_registered data_type s =
     (case pe_registered_oracle_data_type s data_type of
        Some b \<Rightarrow> b
      | None \<Rightarrow> data_type = ''weather'' \<or> data_type = ''flight'' \<or> data_type = ''disaster''
              \<or> data_type = ''onchain'' \<or> data_type = ''defi'' \<or> data_type = ''health'')"

definition get_registered_oracle_data_types :: "'t pe_state \<Rightarrow> symbol list" where
  "get_registered_oracle_data_types s =
     unwrap_or [''weather'', ''flight'', ''disaster'', ''onchain'', ''defi'', ''health'']
       (pe_oracle_data_type_registry s)"

section \<open>Emergency pause, admin transfer, limits\<close>

definition emergency_pause :: "env \<Rightarrow> address \<Rightarrow> 't pe_state \<Rightarrow> (pe_error, 't pe_state) result" where
  "emergency_pause e admin s =
     bindR (require_admin e admin s) (\<lambda>_. Inr (s\<lparr>pe_paused := Some True\<rparr>))"

definition emergency_resume :: "env \<Rightarrow> address \<Rightarrow> 't pe_state \<Rightarrow> (pe_error, 't pe_state) result" where
  "emergency_resume e admin s =
     bindR (require_admin e admin s) (\<lambda>_. Inr (s\<lparr>pe_paused := Some False\<rparr>))"

definition propose_new_admin ::
  "env \<Rightarrow> address \<Rightarrow> address \<Rightarrow> 't pe_state \<Rightarrow> (pe_error, 't pe_state) result" where
  "propose_new_admin e admin new_admin s =
     bindR (require_admin e admin s) (\<lambda>_.
     if pe_pending_admin s \<noteq> None then panic AdminTransferPending
     else Inr (s\<lparr>pe_pending_admin := Some new_admin,
                 pe_pending_admin_since := Some (timestamp e)\<rparr>))"

definition cancel_admin_transfer ::
  "env \<Rightarrow> address \<Rightarrow> 't pe_state \<Rightarrow> (pe_error, 't pe_state) result" where
  "cancel_admin_transfer e admin s =
     bindR (require_admin e admin s) (\<lambda>_.
     Inr (s\<lparr>pe_pending_admin := None, pe_pending_admin_since := None\<rparr>))"

definition accept_admin :: "env \<Rightarrow> address \<Rightarrow> 't pe_state \<Rightarrow> (pe_error, 't pe_state) result" where
  "accept_admin e admin s =
     bindR (or_panic Unauthorized (pe_pending_admin s)) (\<lambda>pending_admin.
     if pending_admin \<noteq> admin then panic Unauthorized
     else bindR (require_auth e admin) (\<lambda>_.
     let since = unwrap_or 0 (pe_pending_admin_since s)
     in if timestamp e < sat_u64 (since + ADMIN_TRANSFER_TIMELOCK)
        then panic AdminTimelockNotExpired
        else Inr (publish (EvAdminUpdated admin)
          (s\<lparr>pe_admin := Some admin, pe_pending_admin := None,
             pe_pending_admin_since := None\<rparr>))))"

definition set_max_products_per_pool ::
  "env \<Rightarrow> address \<Rightarrow> int \<Rightarrow> 't pe_state \<Rightarrow> (pe_error, 't pe_state) result" where
  "set_max_products_per_pool e admin max_products s =
     bindR (require_admin e admin s) (\<lambda>_.
     if max_products = 0 then panic InvalidMaxProducts
     else Inr (publish (EvMaxProductsUpdated max_products)
       (s\<lparr>pe_max_products_per_pool := Some max_products\<rparr>)))"

definition set_expiry_warning_window ::
  "env \<Rightarrow> address \<Rightarrow> int \<Rightarrow> 't pe_state \<Rightarrow> (pe_error, 't pe_state) result" where
  "set_expiry_warning_window e admin window s =
     bindR (require_admin e admin s) (\<lambda>_.
     if window = 0 then panic InvalidWarningWindow
     else Inr (publish (EvExpiryWindowUpdated window)
       (s\<lparr>pe_expiry_warning_window := Some window\<rparr>)))"

section \<open>Upgrade and storage migrations\<close>

definition migrate_v1_to_v2 :: "'t pe_state \<Rightarrow> 't pe_state" where
  "migrate_v1_to_v2 s =
     (if pe_max_products_per_pool s = None
      then s\<lparr>pe_max_products_per_pool := Some DEFAULT_MAX_PRODUCTS_PER_POOL\<rparr>
      else s)"

definition migrate_v2_to_v3 :: "'t pe_state \<Rightarrow> 't pe_state" where
  "migrate_v2_to_v3 s = s"

text \<open>The loop of \<^verbatim>\<open>run_migrations\<close>: every round either aborts or raises the version.\<close>

function migration_loop ::
  "int \<Rightarrow> int \<Rightarrow> 't pe_state \<Rightarrow> (pe_error, 't pe_state) result" where
  "migration_loop version new_version s =
     (if version < new_version
      then if version = 1 then migration_loop 2 new_version (migrate_v1_to_v2 s)
           else if version = 2 then migration_loop 3 new_version (migrate_v2_to_v3 s)
           else panic InvalidVersion
      else Inr s)"
  by pat_completeness auto
termination
  by (relation "measure (\<lambda>(v, n, s). nat (n - v))") auto

declare migration_loop.simps [simp del]

definition run_migrations ::
  "int \<Rightarrow> int \<Rightarrow> 't pe_state \<Rightarrow> (pe_error, 't pe_state) result" where
  "run_migrations old_version new_version s =
     (if old_version = 0 \<or> new_version \<le> old_version \<or> new_version > CURRENT_STORAGE_VERSION
      then panic InvalidVersion
      else migration_loop old_version new_version s)"

definition upgrade ::
  "env \<Rightarrow> address \<Rightarrow> wasm_hash \<Rightarrow> int \<Rightarrow> 't pe_state \<Rightarrow> (pe_error, 't pe_state) result" where
  "upgrade e admin new_wasm_hash new_version s =
     bindR (require_admin e admin s) (\<lambda>_.
     let current_version = unwrap_or 1 (pe_version s)
     in if new_version \<le> current_version then panic InvalidVersion
        else bindR (run_migrations current_version new_version s) (\<lambda>s1.
        Inr (publish (EvContractUpgraded current_version new_version)
          (s1\<lparr>pe_version := Some new_version, pe_wasm := Some new_wasm_hash\<rparr>))))"

section \<open>Queries\<close>

definition get_pending_oracle_change :: "'t pe_state \<Rightarrow> pending_oracle_change option" where
  "get_pending_oracle_change s = pe_pending_oracle_change s"

definition get_admin :: "'t pe_state \<Rightarrow> (pe_error, address) result" where
  "get_admin s = or_panic NotInitialized (pe_admin s)"

definition get_pending_admin_since :: "'t pe_state \<Rightarrow> int" where
  "get_pending_admin_since s = unwrap_or 0 (pe_pending_admin_since s)"

definition get_oracle :: "'t pe_state \<Rightarrow> (pe_error, address) result" where
  "get_oracle s = or_panic NotInitialized (pe_oracle_address s)"

definition is_paused :: "'t pe_state \<Rightarrow> bool" where
  "is_paused s = unwrap_or False (pe_paused s)"

definition get_version :: "'t pe_state \<Rightarrow> int" where
  "get_version s = unwrap_or 1 (pe_version s)"

definition get_max_products_per_pool :: "'t pe_state \<Rightarrow> int" where
  "get_max_products_per_pool s =
     unwrap_or DEFAULT_MAX_PRODUCTS_PER_POOL (pe_max_products_per_pool s)"

definition get_pool_product_count :: "symbol \<Rightarrow> 't pe_state \<Rightarrow> int" where
  "get_pool_product_count c s = unwrap_or 0 (pe_pool_product_count s c)"

definition get_expiry_warning_window :: "'t pe_state \<Rightarrow> int" where
  "get_expiry_warning_window s = expiry_warning_window s"

section \<open>When the operations succeed\<close>

lemma initialize_ok [result_simps]:
  "initialize tk e a u o' s = Inr s' \<longleftrightarrow>
     \<not> pe_initialized s \<and> is_account_or_contract a \<and> is_contract u \<and> is_contract o'
     \<and> o' \<noteq> zero_address \<and> balance_of tk (pe_tokens s) u (this e) \<noteq> None \<and> auth e a
     \<and> (\<exists>t. transfer_of tk (pe_tokens s) u (this e) (this e) 0 = Some t \<and>
          s' = s\<lparr>pe_tokens := t, pe_initialized := True, pe_admin := Some a,
           pe_usdc_token := Some u, pe_oracle_address := Some o',
           pe_next_product_id := Some 1, pe_next_policy_id := Some 1,
           pe_active_products := Some [],
           pe_max_products_per_pool := Some DEFAULT_MAX_PRODUCTS_PER_POOL,
           pe_pending_admin := None,
           pe_registered_category :=
             foldl (\<lambda>m c. m(c \<mapsto> True)) (pe_registered_category s) default_categories,
           pe_category_registry := Some default_categories,
           pe_registered_oracle_data_type :=
             foldl (\<lambda>m c. m(c \<mapsto> True)) (pe_registered_oracle_data_type s) default_data_types,
           pe_oracle_data_type_registry := Some default_data_types,
           pe_events := EvInitialized a u o' # pe_events s\<rparr>)"
  unfolding initialize_def
  by (auto simp: result_simps host_defs simp del: foldl_Cons foldl_Nil)

text \<open>
  Every operation here but \<^verbatim>\<open>initialize\<close> leaves the products, the policies and
  their indexes alone.
\<close>

definition same_books :: "'t pe_state \<Rightarrow> 't pe_state \<Rightarrow> bool" where
  "same_books s s' \<longleftrightarrow>
     pe_initialized s' = pe_initialized s \<and> pe_products s' = pe_products s \<and>
     pe_policies s' = pe_policies s \<and> pe_user_policies s' = pe_user_policies s \<and>
     pe_active_products s' = pe_active_products s \<and>
     pe_next_product_id s' = pe_next_product_id s \<and>
     pe_next_policy_id s' = pe_next_policy_id s \<and> pe_product_key s' = pe_product_key s \<and>
     pe_product_name s' = pe_product_name s \<and>
     pe_pool_product_count s' = pe_pool_product_count s \<and>
     pe_last_purchase s' = pe_last_purchase s \<and> pe_expiry_warned s' = pe_expiry_warned s \<and>
     pe_usdc_token s' = pe_usdc_token s \<and> pe_tokens s' = pe_tokens s"

lemma migration_loop_books:
  "migration_loop v n s = Inr s' \<Longrightarrow>
     \<exists>m. s' = s\<lparr>pe_max_products_per_pool := m\<rparr>"
proof (induction v n s rule: migration_loop.induct)
  case (1 v n s)
  have unfold: "migration_loop v n s =
      (if v < n
       then if v = 1 then migration_loop 2 n (migrate_v1_to_v2 s)
            else if v = 2 then migration_loop 3 n (migrate_v2_to_v3 s) else panic InvalidVersion
       else Inr s)"
    by (rule migration_loop.simps)
  have step: "\<exists>m. migrate_v1_to_v2 s = s\<lparr>pe_max_products_per_pool := m\<rparr>"
    by (rule exI[of _ "pe_max_products_per_pool (migrate_v1_to_v2 s)"])
       (simp add: migrate_v1_to_v2_def)
  consider "v < n" "v = 1" | "v < n" "v \<noteq> 1" "v = 2" | "\<not> v < n"
    using "1.prems" unfold by (auto split: if_splits)
  then show ?case
  proof cases
    case 1
    then show ?thesis using "1.IH"(1) "1.prems" unfold step by fastforce
  next
    case 2
    then show ?thesis using "1.IH"(2) "1.prems" unfold by (simp add: migrate_v2_to_v3_def)
  next
    case 3
    then have "s' = s\<lparr>pe_max_products_per_pool := pe_max_products_per_pool s\<rparr>"
      using "1.prems" unfold by simp
    then show ?thesis by blast
  qed
qed

lemma upgrade_ok:
  "upgrade e a h n s = Inr s' \<Longrightarrow>
     \<exists>m. pe_admin s = Some a \<and> s' = s\<lparr>pe_max_products_per_pool := m, pe_version := Some n,
          pe_wasm := Some h,
          pe_events := EvContractUpgraded (unwrap_or 1 (pe_version s)) n # pe_events s\<rparr>"
proof -
  assume "upgrade e a h n s = Inr s'"
  then obtain s1 where adm: "pe_admin s = Some a"
    and loop: "migration_loop (unwrap_or 1 (pe_version s)) n s = Inr s1"
    and s': "s' = publish (EvContractUpgraded (unwrap_or 1 (pe_version s)) n)
                   (s1\<lparr>pe_version := Some n, pe_wasm := Some h\<rparr>)"
    by (auto simp: upgrade_def run_migrations_def Let_def result_simps simp del: unwrap_or_simps)
  from migration_loop_books[OF loop] obtain m where "s1 = s\<lparr>pe_max_products_per_pool := m\<rparr>" ..
  with adm s' show ?thesis by (intro exI[of _ m]) (simp add: publish_def)
qed

end
