(* ===== verification/PE_Products.thy ===== *)
theory PE_Products
  imports PE_Admin
begin

text \<open>
  The product catalogue of the policy engine: creating, pausing and deprecating products
  (\<^verbatim>\<open>lib.rs\<close>, "Product Management"). \<^verbatim>\<open>create_product\<close> is split into the
  validation of its parameters and the insertion into the catalogue and its indexes.
\<close>

section \<open>Creating a product\<close>

definition byte :: "char \<Rightarrow> nat" where
  "byte c = of_char c"

definition is_ascii_letter :: "char \<Rightarrow> bool" where
  "is_ascii_letter c \<longleftrightarrow>
     (97 \<le> byte c \<and> byte c \<le> 122) \<or> (65 \<le> byte c \<and> byte c \<le> 90)"

definition is_ascii_digit :: "char \<Rightarrow> bool" where
  "is_ascii_digit c \<longleftrightarrow> 48 \<le> byte c \<and> byte c \<le> 57"

text \<open>The loop over the bytes of an oracle key: it carries whether a letter was seen.\<close>

fun scan_oracle_key :: "bool \<Rightarrow> string \<Rightarrow> (pe_error, bool) result" where
  "scan_oracle_key has_alpha [] = Inr has_alpha"
| "scan_oracle_key has_alpha (b # bs) =
     (if is_ascii_letter b then scan_oracle_key True bs
      else if \<not> is_ascii_digit b then panic InvalidOracleKey
      else scan_oracle_key has_alpha bs)"

definition validate_oracle_key :: "symbol \<Rightarrow> (pe_error, unit) result" where
  "validate_oracle_key k =
     (if length (symbol_bytes k) < 3 \<or> length (symbol_bytes k) > 9 then panic InvalidOracleKey
      else bindR (scan_oracle_key False (symbol_bytes k)) (\<lambda>has_alpha.
           if \<not> has_alpha then panic InvalidOracleKey else Inr ()))"

definition validate_trigger ::
  "create_product_params \<Rightarrow> 't pe_state \<Rightarrow> (pe_error, unit) result" where
  "validate_trigger p s =
     bindR (case cp_trigger_type p of
              Binary \<Rightarrow> if cp_trigger_comparison p \<noteq> Equal then panic InvalidTriggerCombination
                        else Inr ()
            | _ \<Rightarrow> if cp_trigger_comparison p = Equal then panic InvalidTriggerCombination
                   else Inr ()) (\<lambda>_.
     if \<not> is_oracle_data_type_registered (cp_oracle_data_type p) s
     then panic UnregisteredOracleDataType
     else (case cp_trigger_type p of
              Binary \<Rightarrow>
                if cp_oracle_data_type p \<noteq> ''flight'' \<and> cp_oracle_data_type p \<noteq> ''disaster''
                   \<and> cp_oracle_data_type p \<noteq> ''health''
                then panic InvalidTriggerCombination else Inr ()
            | _ \<Rightarrow>
                if cp_oracle_data_type p \<noteq> ''weather'' \<and> cp_oracle_data_type p \<noteq> ''onchain''
                   \<and> cp_oracle_data_type p \<noteq> ''defi''
                then panic InvalidTriggerCombination else Inr ()))"

definition validate_product ::
  "create_product_params \<Rightarrow> 't pe_state \<Rightarrow> (pe_error, unit) result" where
  "validate_product p s =
     (if \<not> is_category_registered (cp_category p) s then panic InvalidCategory
      else if cp_name p = '''' then panic EmptyDescription
      else if symbol_bytes (cp_name p) = [] then panic EmptyDescription
      else if length (symbol_bytes (cp_name p)) < 3 then panic InvalidDescription
      else bindR (validate_trigger p s) (\<lambda>_.
      if cp_premium_rate_bps p = 0 then panic ZeroPremiumRate
      else if cp_premium_rate_bps p > 5000 then panic InvalidPremiumRate
      else if cp_trigger_threshold p \<le> 0 \<or> cp_trigger_threshold p > 1000000000000000000000
      then panic InvalidTriggerThreshold
      else if cp_coverage_min p \<le> 0 \<or> cp_coverage_max p < cp_coverage_min p
              \<or> cp_coverage_min p \<ge> cp_coverage_max p
      then panic InvalidCoverageRange
      else if cp_coverage_max p > MAX_COVERAGE_LIMIT then panic CoverageOutOfRange
      else if cp_max_duration_days p = 0 \<or> cp_max_duration_days p > 3650
      then panic InvalidDurationRange
      else validate_oracle_key (cp_oracle_key p)))"

definition product_of_params :: "int \<Rightarrow> int \<Rightarrow> create_product_params \<Rightarrow> insurance_product" where
  "product_of_params i now p = \<lparr>
     pr_id = i, pr_name = cp_name p, pr_category = cp_category p,
     pr_oracle_key = cp_oracle_key p, pr_expected_token = cp_expected_token p,
     pr_trigger_type = cp_trigger_type p, pr_oracle_data_type = cp_oracle_data_type p,
     pr_trigger_threshold = cp_trigger_threshold p,
     pr_trigger_comparison = cp_trigger_comparison p,
     pr_coverage_min = cp_coverage_min p, pr_coverage_max = cp_coverage_max p,
     pr_premium_rate_bps = cp_premium_rate_bps p,
     pr_max_duration_days = cp_max_duration_days p,
     pr_status = ProductActive, pr_created_at = now\<rparr>"

definition insert_product ::
  "env \<Rightarrow> create_product_params \<Rightarrow> 't pe_state \<Rightarrow> (pe_error, int \<times> 't pe_state) result" where
  "insert_product e p s =
     (let key = (cp_category p, cp_oracle_key p);
          pool_count = unwrap_or 0 (pe_pool_product_count s (cp_category p));
          max_products = unwrap_or DEFAULT_MAX_PRODUCTS_PER_POOL (pe_max_products_per_pool s)
      in if pe_product_key s key \<noteq> None then panic DuplicateProductKey
         else if pe_product_name s (cp_name p) \<noteq> None then panic DuplicateProductName
         else if pool_count \<ge> max_products then panic TooManyProducts
         else bindR (next_product_id s) (\<lambda>(i, s1).
         let product = product_of_params i (timestamp e) p
         in bindR (u32 (pool_count + 1)) (\<lambda>n.
         Inr (i, publish (EvProductCreated i (pr_name product) (pr_category product)
                            (pr_premium_rate_bps product))
           (s1\<lparr>pe_products := (pe_products s1)(i \<mapsto> product),
               pe_product_key := (pe_product_key s1)(key \<mapsto> i),
               pe_product_name := (pe_product_name s1)(cp_name p \<mapsto> i),
               pe_active_products := Some (unwrap_or [] (pe_active_products s1) @ [i]),
               pe_pool_product_count :=
                 (pe_pool_product_count s1)(cp_category p \<mapsto> n)\<rparr>)))))"

definition create_product ::
  "env \<Rightarrow> address \<Rightarrow> create_product_params \<Rightarrow> 't pe_state \<Rightarrow>
   (pe_error, int \<times> 't pe_state) result" where
  "create_product e admin params s =
     bindR (require_admin e admin s) (\<lambda>_.
     bindR (validate_product params s) (\<lambda>_.
     insert_product e params s))"

section \<open>Pausing and deprecating\<close>

text \<open>
  Both take the product off the active list; the list entry is only written back when
  the product was on it.
\<close>

definition remove_active_product :: "int \<Rightarrow> 't pe_state \<Rightarrow> 't pe_state" where
  "remove_active_product i s =
     (let products = unwrap_or [] (pe_active_products s)
      in if i \<in> set products then s\<lparr>pe_active_products := Some (remove1 i products)\<rparr> else s)"

definition pause_product ::
  "env \<Rightarrow> address \<Rightarrow> int \<Rightarrow> 't pe_state \<Rightarrow> (pe_error, 't pe_state) result" where
  "pause_product e admin product_id s =
     bindR (require_admin e admin s) (\<lambda>_.
     bindR (load_product product_id s) (\<lambda>product.
     let s1 = s\<lparr>pe_products :=
                 (pe_products s)(product_id \<mapsto> product\<lparr>pr_status := ProductPaused\<rparr>)\<rparr>
     in Inr (publish (EvProductPaused product_id) (remove_active_product product_id s1))))"

definition deprecate_product ::
  "env \<Rightarrow> address \<Rightarrow> int \<Rightarrow> 't pe_state \<Rightarrow> (pe_error, 't pe_state) result" where
  "deprecate_product e admin product_id s =
     bindR (require_admin e admin s) (\<lambda>_.
     bindR (load_product product_id s) (\<lambda>product.
     let s1 = s\<lparr>pe_products :=
                 (pe_products s)(product_id \<mapsto> product\<lparr>pr_status := ProductDeprecated\<rparr>)\<rparr>;
         s2 = remove_active_product product_id s1;
         pool_count = unwrap_or 0 (pe_pool_product_count s2 (pr_category product));
         s3 = (if pool_count > 0
               then s2\<lparr>pe_pool_product_count :=
                      (pe_pool_product_count s2)(pr_category product \<mapsto> pool_count - 1)\<rparr>
               else s2);
         s4 = (if pe_product_name s3 (pr_name product) = Some product_id
               then s3\<lparr>pe_product_name := (pe_product_name s3)(pr_name product := None)\<rparr>
               else s3)
     in Inr (s4\<lparr>pe_product_key :=
              (pe_product_key s4)((pr_category product, pr_oracle_key product) := None)\<rparr>)))"

section \<open>Queries\<close>

definition get_product :: "int \<Rightarrow> 't pe_state \<Rightarrow> (pe_error, insurance_product) result" where
  "get_product i s = load_product i s"

definition get_active_products :: "'t pe_state \<Rightarrow> int list" where
  "get_active_products s = unwrap_or [] (pe_active_products s)"

section \<open>What a successful call has checked and done\<close>

text \<open>The terms every stored product satisfies.\<close>

definition product_terms :: "insurance_product \<Rightarrow> bool" where
  "product_terms p \<longleftrightarrow>
     0 < pr_coverage_min p \<and> pr_coverage_min p < pr_coverage_max p
     \<and> pr_coverage_max p \<le> MAX_COVERAGE_LIMIT
     \<and> pr_premium_rate_bps p \<noteq> 0 \<and> pr_premium_rate_bps p \<le> 5000
     \<and> pr_max_duration_days p \<noteq> 0 \<and> pr_max_duration_days p \<le> 3650
     \<and> 0 < pr_trigger_threshold p \<and> pr_trigger_threshold p \<le> 10 ^ 21
     \<and> (pr_trigger_type p = Binary \<longleftrightarrow> pr_trigger_comparison p = Equal)
     \<and> 3 \<le> length (pr_name p)
     \<and> 3 \<le> length (pr_oracle_key p) \<and> length (pr_oracle_key p) \<le> 9
     \<and> (\<forall>c \<in> set (pr_oracle_key p). is_ascii_letter c \<or> is_ascii_digit c)
     \<and> (\<exists>c \<in> set (pr_oracle_key p). is_ascii_letter c)"

lemma scan_oracle_key_ok:
  "scan_oracle_key b bs = Inr r \<longleftrightarrow>
     (\<forall>c \<in> set bs. is_ascii_letter c \<or> is_ascii_digit c) \<and>
     (r \<longleftrightarrow> b \<or> (\<exists>c \<in> set bs. is_ascii_letter c))"
  by (induction b bs rule: scan_oracle_key.induct) auto

lemma validate_oracle_key_ok [result_simps]:
  "validate_oracle_key k = Inr u \<longleftrightarrow>
     3 \<le> length k \<and> length k \<le> 9
     \<and> (\<forall>c \<in> set k. is_ascii_letter c \<or> is_ascii_digit c)
     \<and> (\<exists>c \<in> set k. is_ascii_letter c)"
  by (auto simp: validate_oracle_key_def symbol_bytes_def result_simps scan_oracle_key_ok)

lemma validate_trigger_shape:
  "validate_trigger p s = Inr u \<Longrightarrow>
     cp_trigger_type p = Binary \<longleftrightarrow> cp_trigger_comparison p = Equal"
  by (cases "cp_trigger_type p") (auto simp: validate_trigger_def result_simps split: if_splits)

lemma validate_product_terms:
  assumes "validate_product p s = Inr u"
  shows "product_terms (product_of_params i now p)"
  using assms
  by (auto simp: validate_product_def product_terms_def product_of_params_def result_simps
      symbol_bytes_def dest: validate_trigger_shape)

lemma insert_product_ok [result_simps]:
  "insert_product e p s = Inr (i, s') \<longleftrightarrow>
     i = unwrap_or 1 (pe_next_product_id s) \<and> 0 \<le> i + 1 \<and> i + 1 \<le> u128_max
     \<and> pe_product_key s (cp_category p, cp_oracle_key p) = None
     \<and> pe_product_name s (cp_name p) = None
     \<and> get_pool_product_count (cp_category p) s < get_max_products_per_pool s
     \<and> 0 \<le> get_pool_product_count (cp_category p) s + 1
     \<and> get_pool_product_count (cp_category p) s + 1 \<le> u32_max
     \<and> s' = s\<lparr>pe_next_product_id := Some (i + 1),
         pe_products := (pe_products s)(i \<mapsto> product_of_params i (timestamp e) p),
         pe_product_key := (pe_product_key s)((cp_category p, cp_oracle_key p) \<mapsto> i),
         pe_product_name := (pe_product_name s)(cp_name p \<mapsto> i),
         pe_active_products := Some (unwrap_or [] (pe_active_products s) @ [i]),
         pe_pool_product_count := (pe_pool_product_count s)
            (cp_category p \<mapsto> get_pool_product_count (cp_category p) s + 1),
         pe_events := EvProductCreated i (cp_name p) (cp_category p) (cp_premium_rate_bps p)
                        # pe_events s\<rparr>"
proof -
  have "next_product_id s = Inr x \<longleftrightarrow>
      0 \<le> unwrap_or 1 (pe_next_product_id s) + 1 \<and> unwrap_or 1 (pe_next_product_id s) + 1 \<le> u128_max
      \<and> x = (unwrap_or 1 (pe_next_product_id s),
             s\<lparr>pe_next_product_id := Some (unwrap_or 1 (pe_next_product_id s) + 1)\<rparr>)" for x
    by (cases x) (auto simp: next_id_ok simp del: unwrap_or_simps)
  then show ?thesis
    by (simp add: insert_product_def Let_def bindR_eq_Inr u32_eq_Inr publish_def
        get_pool_product_count_def get_max_products_per_pool_def product_of_params_def
        del: unwrap_or_simps) (auto simp del: unwrap_or_simps)
qed

lemma create_product_ok [result_simps]:
  "create_product e a p s = Inr (i, s') \<longleftrightarrow>
     pe_admin s = Some a \<and> auth e a \<and> validate_product p s = Inr ()
     \<and> insert_product e p s = Inr (i, s')"
  by (auto simp: create_product_def result_simps simp del: insert_product_ok)

lemma remove_active_eq:
  "remove_active_product i s =
     s\<lparr>pe_active_products := (if i \<in> set (get_active_products s)
        then Some (remove1 i (get_active_products s)) else pe_active_products s)\<rparr>"
  by (simp add: remove_active_product_def get_active_products_def Let_def)

lemma pause_product_ok [result_simps]:
  "pause_product e a i s = Inr s' \<longleftrightarrow>
     pe_admin s = Some a \<and> auth e a \<and>
     (\<exists>p. pe_products s i = Some p \<and>
       s' = s\<lparr>pe_products := (pe_products s)(i \<mapsto> p\<lparr>pr_status := ProductPaused\<rparr>),
              pe_active_products := (if i \<in> set (get_active_products s)
                then Some (remove1 i (get_active_products s)) else pe_active_products s),
              pe_events := EvProductPaused i # pe_events s\<rparr>)"
  by (auto simp: pause_product_def Let_def result_simps host_defs remove_active_eq
      get_active_products_def)

lemma deprecate_product_ok [result_simps]:
  "deprecate_product e a i s = Inr s' \<longleftrightarrow>
     pe_admin s = Some a \<and> auth e a \<and>
     (\<exists>p. pe_products s i = Some p \<and>
       s' = s\<lparr>pe_products := (pe_products s)(i \<mapsto> p\<lparr>pr_status := ProductDeprecated\<rparr>),
              pe_active_products := (if i \<in> set (get_active_products s)
                then Some (remove1 i (get_active_products s)) else pe_active_products s),
              pe_pool_product_count := (if 0 < get_pool_product_count (pr_category p) s
                then (pe_pool_product_count s)
                  (pr_category p \<mapsto> get_pool_product_count (pr_category p) s - 1)
                else pe_pool_product_count s),
              pe_product_name := (if pe_product_name s (pr_name p) = Some i
                then (pe_product_name s)(pr_name p := None) else pe_product_name s),
              pe_product_key := (pe_product_key s)((pr_category p, pr_oracle_key p) := None)\<rparr>)"
proof -
  have count: "(if b then r\<lparr>pe_pool_product_count := m\<rparr> else r) =
      r\<lparr>pe_pool_product_count := (if b then m else pe_pool_product_count r)\<rparr>"
    for b m and r :: "'t pe_state" by simp
  have name: "(if b then r\<lparr>pe_product_name := m\<rparr> else r) =
      r\<lparr>pe_product_name := (if b then m else pe_product_name r)\<rparr>"
    for b m and r :: "'t pe_state" by simp
  show ?thesis
    unfolding deprecate_product_def Let_def remove_active_eq count name
      get_active_products_def get_pool_product_count_def
    by (simp add: bindR_eq_Inr require_admin_ok load_ok eq_commute[of s' "_\<lparr>pe_product_key := _\<rparr>"]
        cong: if_cong)
qed

end
