(* ===== verification/PE_Policies.thy ===== *)
theory PE_Policies
  imports PE_Products
begin

text \<open>
  The life of a policy: buying (now, scheduled, at an asserted rate, in a batch),
  cancelling, transferring, and the two settlements of the claims processor
  (\<^verbatim>\<open>lib.rs\<close>, "Policy Lifecycle" and "Status updates"). \<^verbatim>\<open>buy_policy_inner\<close>
  is split where the premium is known: the checks up to the price, then the payment and
  the record.
\<close>

section \<open>Buying\<close>

definition required_premium :: "insurance_product \<Rightarrow> int \<Rightarrow> int \<Rightarrow> int option" where
  "required_premium product coverage_amount duration_days =
     Option.bind (checked_mul coverage_amount (pr_premium_rate_bps product)) (\<lambda>v.
     Option.bind (checked_mul v duration_days) (\<lambda>v.
     Option.bind (checked_div v 365) (\<lambda>v.
     checked_div v 10000)))"

definition cooling_off_active :: "env \<Rightarrow> address \<Rightarrow> symbol \<Rightarrow> 't pe_state \<Rightarrow> bool" where
  "cooling_off_active e buyer oracle_key s =
     (case pe_last_purchase s (buyer, oracle_key) of
        None \<Rightarrow> False
      | Some bought \<Rightarrow> timestamp e < sat_u64 (bought + PURCHASE_COOLING_OFF_SECONDS))"

definition quote_policy ::
  "env \<Rightarrow> address \<Rightarrow> int \<Rightarrow> int \<Rightarrow> int \<Rightarrow> symbol \<Rightarrow> int \<Rightarrow> address \<Rightarrow> 't pe_state \<Rightarrow>
   (pe_error, insurance_product \<times> int) result" where
  "quote_policy e buyer product_id coverage_amount duration_days oracle_key start_time
       payment_token s =
     (if start_time < timestamp e then panic InvalidStartTime
      else if length (symbol_bytes oracle_key) > 32 then panic InvalidOracleKey
      else bindR (or_panic NotInitialized (pe_admin s)) (\<lambda>admin.
      if buyer = admin then panic AdminCannotBuyPolicy
      else if cooling_off_active e buyer oracle_key s then panic CoolingOffActive
      else bindR (load_product product_id s) (\<lambda>product.
      if pr_status product \<noteq> ProductActive then panic ProductNotActive
      else if coverage_amount \<le> 0 then panic CoverageOutOfRange
      else if coverage_amount < pr_coverage_min product
              \<or> coverage_amount > pr_coverage_max product
      then panic CoverageOutOfRange
      else if duration_days = 0 then panic InvalidDurationRange
      else if duration_days > pr_max_duration_days product then panic DurationTooLong
      else if coverage_amount > 1000000000000 then panic CoverageOutOfRange
      else if pr_premium_rate_bps product = 0 \<or> pr_premium_rate_bps product > 5000
      then panic InvalidPremiumRate
      else bindR (or_panic CoverageOutOfRange
                    (required_premium product coverage_amount duration_days)) (\<lambda>premium.
      if premium \<le> 0 then panic ZeroPremiumRate
      else if payment_token \<noteq> pr_expected_token product then panic InvalidToken
      else Inr (product, premium)))))"

definition policy_span ::
  "insurance_product \<Rightarrow> int \<Rightarrow> int \<Rightarrow> (pe_error, int) result" where
  "policy_span product duration_days start_time =
     bindR (or_panic CoverageOutOfRange (checked_u64 (duration_days * 86400))) (\<lambda>duration_secs.
     bindR (or_panic CoverageOutOfRange (checked_u64 (start_time + duration_secs))) (\<lambda>end_time.
     if end_time \<le> start_time then panic InvalidDurationRange
     else let max_duration_secs =
            unwrap_or u64_max (checked_u64 (pr_max_duration_days product * 86400))
          in if sat_u64 (end_time - start_time) > max_duration_secs
                \<or> end_time > sat_u64 (start_time + max_duration_secs)
                \<or> duration_days > pr_max_duration_days product
             then panic DurationTooLong
             else Inr end_time))"

definition new_policy ::
  "int \<Rightarrow> int \<Rightarrow> address \<Rightarrow> int \<Rightarrow> int \<Rightarrow> symbol \<Rightarrow> insurance_product \<Rightarrow> int \<Rightarrow> int \<Rightarrow> int \<Rightarrow>
   policy" where
  "new_policy policy_id product_id buyer coverage_amount premium oracle_key product start_time
       end_time now = \<lparr>
     po_id = policy_id, po_product_id = product_id, po_policyholder = buyer,
     po_coverage_amount = coverage_amount, po_premium_paid = premium,
     po_oracle_key = oracle_key, po_oracle_data_type = pr_oracle_data_type product,
     po_trigger_threshold = pr_trigger_threshold product,
     po_trigger_comparison = pr_trigger_comparison product,
     po_start_time = start_time, po_end_time = end_time, po_status = PolicyActive,
     po_created_at = now\<rparr>"

definition book_policy ::
  "'t token_ops \<Rightarrow> env \<Rightarrow> address \<Rightarrow> int \<Rightarrow> int \<Rightarrow> int \<Rightarrow> symbol \<Rightarrow> int \<Rightarrow> address \<Rightarrow>
   insurance_product \<Rightarrow> int \<Rightarrow> 't pe_state \<Rightarrow> (pe_error, int \<times> 't pe_state) result" where
  "book_policy tk e buyer product_id coverage_amount duration_days oracle_key start_time
       payment_token product premium s =
     bindR (or_trap (transfer_of tk (pe_tokens s) payment_token buyer (this e) premium)) (\<lambda>t.
     bindR (policy_span product duration_days start_time) (\<lambda>end_time.
     bindR (next_policy_id (s\<lparr>pe_tokens := t\<rparr>)) (\<lambda>(policy_id, s1).
     let policy = new_policy policy_id product_id buyer coverage_amount premium oracle_key
                    product start_time end_time (timestamp e)
     in Inr (policy_id, publish (EvBuyPolicy buyer policy_id product_id coverage_amount premium)
          (s1\<lparr>pe_last_purchase := (pe_last_purchase s1)((buyer, oracle_key) \<mapsto> timestamp e),
              pe_policies := (pe_policies s1)(policy_id \<mapsto> policy),
              pe_user_policies := (pe_user_policies s1)
                (buyer \<mapsto> unwrap_or [] (pe_user_policies s1 buyer) @ [policy_id])\<rparr>)))))"

definition buy_policy_inner ::
  "'t token_ops \<Rightarrow> env \<Rightarrow> address \<Rightarrow> int \<Rightarrow> int \<Rightarrow> int \<Rightarrow> symbol \<Rightarrow> int \<Rightarrow> address \<Rightarrow>
   't pe_state \<Rightarrow> (pe_error, int \<times> 't pe_state) result" where
  "buy_policy_inner tk e buyer product_id coverage_amount duration_days oracle_key start_time
       payment_token s =
     bindR (quote_policy e buyer product_id coverage_amount duration_days oracle_key
              start_time payment_token s) (\<lambda>(product, premium).
     book_policy tk e buyer product_id coverage_amount duration_days oracle_key start_time
       payment_token product premium s)"

definition buy_policy ::
  "'t token_ops \<Rightarrow> env \<Rightarrow> address \<Rightarrow> int \<Rightarrow> int \<Rightarrow> int \<Rightarrow> symbol \<Rightarrow> address \<Rightarrow>
   't pe_state \<Rightarrow> (pe_error, int \<times> 't pe_state) result" where
  "buy_policy tk e buyer product_id coverage_amount duration_days oracle_key payment_token s =
     bindR (require_auth e buyer) (\<lambda>_.
     bindR (ensure_not_paused s) (\<lambda>_.
     buy_policy_inner tk e buyer product_id coverage_amount duration_days oracle_key
       (timestamp e) payment_token s))"

definition buy_policy_scheduled ::
  "'t token_ops \<Rightarrow> env \<Rightarrow> address \<Rightarrow> int \<Rightarrow> int \<Rightarrow> int \<Rightarrow> symbol \<Rightarrow> int \<Rightarrow> address \<Rightarrow>
   't pe_state \<Rightarrow> (pe_error, int \<times> 't pe_state) result" where
  "buy_policy_scheduled tk e buyer product_id coverage_amount duration_days oracle_key
       start_time payment_token s =
     bindR (require_auth e buyer) (\<lambda>_.
     bindR (ensure_not_paused s) (\<lambda>_.
     buy_policy_inner tk e buyer product_id coverage_amount duration_days oracle_key
       start_time payment_token s))"

definition buy_policy_with_rate ::
  "'t token_ops \<Rightarrow> env \<Rightarrow> address \<Rightarrow> int \<Rightarrow> int \<Rightarrow> int \<Rightarrow> symbol \<Rightarrow> address \<Rightarrow> int \<Rightarrow>
   't pe_state \<Rightarrow> (pe_error, int \<times> 't pe_state) result" where
  "buy_policy_with_rate tk e buyer product_id coverage_amount duration_days oracle_key
       payment_token rate_bps s =
     bindR (require_auth e buyer) (\<lambda>_.
     bindR (ensure_not_paused s) (\<lambda>_.
     bindR (load_product product_id s) (\<lambda>product.
     if rate_bps \<noteq> pr_premium_rate_bps product \<or> rate_bps = 0 \<or> rate_bps > 5000
     then panic InvalidPremiumRate
     else buy_policy_inner tk e buyer product_id coverage_amount duration_days oracle_key
            (timestamp e) payment_token s)))"

text \<open>The loop of \<^verbatim>\<open>batch_buy_policy\<close>; any failing item aborts the batch.\<close>

fun buy_items ::
  "'t token_ops \<Rightarrow> env \<Rightarrow> address \<Rightarrow> batch_buy_item list \<Rightarrow> 't pe_state \<Rightarrow>
   (pe_error, int list \<times> 't pe_state) result" where
  "buy_items tk e buyer [] s = Inr ([], s)"
| "buy_items tk e buyer (item # items) s =
     bindR (buy_policy_inner tk e buyer (bi_product_id item) (bi_coverage_amount item)
              (bi_duration_days item) (bi_oracle_key item) (timestamp e)
              (bi_payment_token item) s) (\<lambda>(i, s1).
     bindR (buy_items tk e buyer items s1) (\<lambda>(ids, s2). Inr (i # ids, s2)))"

definition batch_buy_policy ::
  "'t token_ops \<Rightarrow> env \<Rightarrow> address \<Rightarrow> batch_buy_item list \<Rightarrow> 't pe_state \<Rightarrow>
   (pe_error, int list \<times> 't pe_state) result" where
  "batch_buy_policy tk e buyer items s =
     bindR (require_auth e buyer) (\<lambda>_.
     bindR (ensure_not_paused s) (\<lambda>_.
     if int (length items) = 0 then panic EmptyBatch
     else if int (length items) > MAX_BATCH_BUY then panic BatchTooLarge
     else buy_items tk e buyer items s))"

section \<open>Cancelling and transferring\<close>

definition cancel_refund :: "env \<Rightarrow> policy \<Rightarrow> (pe_error, int) result" where
  "cancel_refund e policy =
     (let elapsed = sat_u64 (timestamp e - po_start_time policy);
          total_duration = sat_u64 (po_end_time policy - po_start_time policy)
      in if total_duration = 0 then Inr (po_premium_paid policy)
         else let elapsed_capped = min elapsed total_duration
              in bindR (or_panic Overflow
                   (Option.bind (checked_mul (po_premium_paid policy) elapsed_capped)
                      (\<lambda>v. checked_div v total_duration))) (\<lambda>earned.
                 Inr (sat_i128 (po_premium_paid policy - earned))))"

definition pay_refund ::
  "'t token_ops \<Rightarrow> env \<Rightarrow> address \<Rightarrow> address \<Rightarrow> int \<Rightarrow> 't \<Rightarrow> (pe_error, 't) result" where
  "pay_refund tk e usdc policyholder refund t =
     (if refund > 0 then or_trap (transfer_of tk t usdc (this e) policyholder refund) else Inr t)"

definition cancel_policy ::
  "'t token_ops \<Rightarrow> env \<Rightarrow> address \<Rightarrow> int \<Rightarrow> string \<Rightarrow> 't pe_state \<Rightarrow>
   (pe_error, int \<times> 't pe_state) result" where
  "cancel_policy tk e policyholder policy_id reason s =
     bindR (require_auth e policyholder) (\<lambda>_.
     if reason = [] then panic InvalidInput
     else if length reason > 256 then panic ReasonTooLong
     else bindR (load_policy policy_id s) (\<lambda>policy.
     if po_policyholder policy \<noteq> policyholder then panic Unauthorized
     else if po_status policy \<noteq> PolicyActive then panic PolicyNotActive
     else let s1 = remove_policy_from_user policyholder policy_id
                (s\<lparr>pe_policies :=
                     (pe_policies s)(policy_id \<mapsto> policy\<lparr>po_status := Cancelled\<rparr>)\<rparr>)
     in bindR (cancel_refund e policy) (\<lambda>refund.
        bindR (or_panic NotInitialized (pe_usdc_token s1)) (\<lambda>usdc.
        bindR (pay_refund tk e usdc policyholder refund (pe_tokens s1)) (\<lambda>t.
        Inr (refund, publish (EvPolicyCancelled policy_id policyholder refund)
          (s1\<lparr>pe_tokens := t\<rparr>)))))))"

definition transfer_policy ::
  "env \<Rightarrow> address \<Rightarrow> address \<Rightarrow> int \<Rightarrow> 't pe_state \<Rightarrow> (pe_error, 't pe_state) result" where
  "transfer_policy e from to policy_id s =
     bindR (require_auth e from) (\<lambda>_.
     bindR (require_auth e to) (\<lambda>_.
     bindR (ensure_not_paused s) (\<lambda>_.
     if \<not> is_account_or_contract to then panic InvalidAddress
     else bindR (load_policy policy_id s) (\<lambda>policy.
     if po_policyholder policy \<noteq> from then panic Unauthorized
     else if po_status policy \<noteq> PolicyActive then panic PolicyNotActive
     else if from = to then Inr s
     else let s1 = remove_policy_from_user from policy_id
                (s\<lparr>pe_policies :=
                     (pe_policies s)(policy_id \<mapsto> policy\<lparr>po_policyholder := to\<rparr>)\<rparr>)
     in Inr (publish (EvPolicyTransferred policy_id from to)
          (s1\<lparr>pe_user_policies := (pe_user_policies s1)
                (to \<mapsto> unwrap_or [] (pe_user_policies s1 to) @ [policy_id])\<rparr>))))))"

section \<open>Settlement by the claims processor\<close>

definition settleable :: "policy \<Rightarrow> (pe_error, unit) result" where
  "settleable policy =
     (case po_status policy of
        Claimed \<Rightarrow> panic AlreadyClaimed
      | Expired \<Rightarrow> panic AlreadyExpired
      | Cancelled \<Rightarrow> panic PolicyNotActive
      | PolicyActive \<Rightarrow> Inr ())"

definition pay_claim ::
  "'t token_ops \<Rightarrow> env \<Rightarrow> address \<Rightarrow> int \<Rightarrow> 't pe_state \<Rightarrow> (pe_error, 't pe_state) result" where
  "pay_claim tk e caller policy_id s =
     bindR (require_claims_processor e caller s) (\<lambda>_.
     bindR (load_policy policy_id s) (\<lambda>policy.
     bindR (settleable policy) (\<lambda>_.
     bindR (or_panic NotInitialized (pe_usdc_token s)) (\<lambda>usdc.
     bindR (or_panic InsufficientPool
              (transfer_of tk (pe_tokens s) usdc (this e) (po_policyholder policy)
                 (po_coverage_amount policy))) (\<lambda>t.
     Inr (publish (EvClaimPaid policy_id (po_policyholder policy) (po_coverage_amount policy))
       (remove_policy_from_user (po_policyholder policy) policy_id
         (s\<lparr>pe_tokens := t,
            pe_policies := (pe_policies s)(policy_id \<mapsto> policy\<lparr>po_status := Claimed\<rparr>)\<rparr>))))))))"

definition expire_policy ::
  "env \<Rightarrow> address \<Rightarrow> int \<Rightarrow> 't pe_state \<Rightarrow> (pe_error, 't pe_state) result" where
  "expire_policy e caller policy_id s =
     bindR (require_claims_processor e caller s) (\<lambda>_.
     bindR (load_policy policy_id s) (\<lambda>policy.
     bindR (settleable policy) (\<lambda>_.
     Inr (publish (EvPolicyExpired policy_id (timestamp e))
       (remove_policy_from_user (po_policyholder policy) policy_id
         (s\<lparr>pe_policies := (pe_policies s)(policy_id \<mapsto> policy\<lparr>po_status := Expired\<rparr>)\<rparr>))))))"

section \<open>What a successful call has checked and done\<close>

lemma required_premium_eq:
  "required_premium product cov dur = Some v \<Longrightarrow>
     v = (cov * pr_premium_rate_bps product * dur) sdiv 365 sdiv 10000"
  by (auto simp: required_premium_def result_simps)

lemma quote_policy_ok:
  "quote_policy e b pid cov dur key start tok s = Inr (product, premium) \<Longrightarrow>
     timestamp e \<le> start \<and> (\<exists>a. pe_admin s = Some a \<and> b \<noteq> a)
     \<and> \<not> cooling_off_active e b key s \<and> pe_products s pid = Some product
     \<and> pr_status product = ProductActive \<and> 0 < cov \<and> cov \<le> 1000000000000
     \<and> pr_coverage_min product \<le> cov \<and> cov \<le> pr_coverage_max product
     \<and> dur \<noteq> 0 \<and> dur \<le> pr_max_duration_days product
     \<and> pr_premium_rate_bps product \<le> 5000
     \<and> required_premium product cov dur = Some premium \<and> 0 < premium
     \<and> tok = pr_expected_token product"
  by (auto simp: quote_policy_def result_simps)

lemma policy_span_ok:
  "policy_span product dur start = Inr end_time \<Longrightarrow>
     end_time = start + dur * 86400 \<and> start < end_time \<and> dur \<le> pr_max_duration_days product"
  by (auto simp: policy_span_def result_simps Let_def)

lemma book_policy_ok:
  "book_policy tk e b pid cov dur key start tok product premium s = Inr (i, s') \<Longrightarrow>
     \<exists>t. transfer_of tk (pe_tokens s) tok b (this e) premium = Some t
       \<and> policy_span product dur start = Inr (start + dur * 86400)
       \<and> i = unwrap_or 1 (pe_next_policy_id s)
       \<and> s' = s\<lparr>pe_tokens := t, pe_next_policy_id := Some (i + 1),
            pe_last_purchase := (pe_last_purchase s)((b, key) \<mapsto> timestamp e),
            pe_policies := (pe_policies s)(i \<mapsto> new_policy i pid b cov premium key product start
                              (start + dur * 86400) (timestamp e)),
            pe_user_policies := (pe_user_policies s)
                (b \<mapsto> unwrap_or [] (pe_user_policies s b) @ [i]),
            pe_events := EvBuyPolicy b i pid cov premium # pe_events s\<rparr>"
proof -
  assume "book_policy tk e b pid cov dur key start tok product premium s = Inr (i, s')"
  then obtain t end_time s1
    where t: "transfer_of tk (pe_tokens s) tok b (this e) premium = Some t"
      and span: "policy_span product dur start = Inr end_time"
      and ids: "next_policy_id (s\<lparr>pe_tokens := t\<rparr>) = Inr (i, s1)"
      and s': "s' = publish (EvBuyPolicy b i pid cov premium)
          (s1\<lparr>pe_last_purchase := (pe_last_purchase s1)((b, key) \<mapsto> timestamp e),
              pe_policies := (pe_policies s1)(i \<mapsto> new_policy i pid b cov premium key product
                               start end_time (timestamp e)),
              pe_user_policies := (pe_user_policies s1)
                (b \<mapsto> unwrap_or [] (pe_user_policies s1 b) @ [i])\<rparr>)"
    unfolding book_policy_def bindR_eq_Inr or_trap_eq_Inr Let_def by force
  have "end_time = start + dur * 86400" using policy_span_ok[OF span] by simp
  then show ?thesis using t span ids s' by (simp add: next_id_ok publish_def)
qed

lemmas buy_inner_ok = quote_policy_ok book_policy_ok

lemma buy_policy_inner_split:
  "buy_policy_inner tk e b pid cov dur key start tok s = Inr (i, s') \<Longrightarrow>
     \<exists>product premium. quote_policy e b pid cov dur key start tok s = Inr (product, premium)
       \<and> book_policy tk e b pid cov dur key start tok product premium s = Inr (i, s')"
  by (auto simp: buy_policy_inner_def bindR_eq_Inr split: prod.splits)

text \<open>The three ways to buy one policy are \<open>buy_policy_inner\<close> behind further checks.\<close>

lemma buy_variants:
  "buy_policy tk e b pid cov dur key tok s = Inr r \<Longrightarrow>
     buy_policy_inner tk e b pid cov dur key (timestamp e) tok s = Inr r \<and> auth e b
     \<and> pe_paused s \<noteq> Some True"
  "buy_policy_scheduled tk e b pid cov dur key start tok s = Inr r \<Longrightarrow>
     buy_policy_inner tk e b pid cov dur key start tok s = Inr r \<and> auth e b
     \<and> pe_paused s \<noteq> Some True"
  "buy_policy_with_rate tk e b pid cov dur key tok rate s = Inr r \<Longrightarrow>
     buy_policy_inner tk e b pid cov dur key (timestamp e) tok s = Inr r \<and> auth e b
     \<and> pe_paused s \<noteq> Some True"
  by (auto simp: buy_policy_def buy_policy_scheduled_def buy_policy_with_rate_def result_simps
      require_auth_def split: if_splits)

lemma settleable_ok [result_simps]: "settleable p = Inr u \<longleftrightarrow> po_status p = PolicyActive"
  by (cases "po_status p") (simp_all add: settleable_def)

lemma cancel_policy_ok:
  "cancel_policy tk e h i reason s = Inr (refund, s') \<Longrightarrow>
     \<exists>p u t. pe_policies s i = Some p \<and> po_policyholder p = h \<and> po_status p = PolicyActive
       \<and> auth e h \<and> cancel_refund e p = Inr refund \<and> pe_usdc_token s = Some u
       \<and> pay_refund tk e u h refund (pe_tokens s) = Inr t
       \<and> s' = remove_policy_from_user h i
            (s\<lparr>pe_policies := (pe_policies s)(i \<mapsto> p\<lparr>po_status := Cancelled\<rparr>)\<rparr>)
            \<lparr>pe_tokens := t, pe_events := EvPolicyCancelled i h refund # pe_events s\<rparr>"
  by (auto simp: cancel_policy_def bindR_eq_Inr or_panic_eq_Inr load_ok Let_def
      require_auth_def publish_def split: if_splits)

lemma transfer_policy_ok:
  "transfer_policy e f t i s = Inr s' \<Longrightarrow>
     \<exists>p. pe_policies s i = Some p \<and> po_policyholder p = f \<and> po_status p = PolicyActive
       \<and> auth e f \<and> auth e t
       \<and> (if f = t then s' = s
          else let s1 = remove_policy_from_user f i
                 (s\<lparr>pe_policies := (pe_policies s)(i \<mapsto> p\<lparr>po_policyholder := t\<rparr>)\<rparr>)
               in s' = s1\<lparr>pe_user_policies := (pe_user_policies s1)
                     (t \<mapsto> unwrap_or [] (pe_user_policies s1 t) @ [i]),
                    pe_events := EvPolicyTransferred i f t # pe_events s\<rparr>)"
  by (auto simp: transfer_policy_def bindR_eq_Inr load_ok Let_def require_auth_def publish_def
      split: if_splits)

lemma pay_claim_ok:
  "pay_claim tk e c i s = Inr s' \<Longrightarrow>
     \<exists>p u t. pe_policies s i = Some p \<and> po_status p = PolicyActive \<and> auth e c
       \<and> pe_claims_processor s = Some c \<and> pe_usdc_token s = Some u
       \<and> transfer_of tk (pe_tokens s) u (this e) (po_policyholder p) (po_coverage_amount p) = Some t
       \<and> s' = remove_policy_from_user (po_policyholder p) i
            (s\<lparr>pe_tokens := t, pe_policies := (pe_policies s)(i \<mapsto> p\<lparr>po_status := Claimed\<rparr>)\<rparr>)
            \<lparr>pe_events := EvClaimPaid i (po_policyholder p) (po_coverage_amount p) # pe_events s\<rparr>"
  by (auto simp: pay_claim_def result_simps publish_def)

lemma expire_policy_ok:
  "expire_policy e c i s = Inr s' \<Longrightarrow>
     \<exists>p. pe_policies s i = Some p \<and> po_status p = PolicyActive \<and> auth e c
       \<and> pe_claims_processor s = Some c
       \<and> s' = remove_policy_from_user (po_policyholder p) i
            (s\<lparr>pe_policies := (pe_policies s)(i \<mapsto> p\<lparr>po_status := Expired\<rparr>)\<rparr>)
            \<lparr>pe_events := EvPolicyExpired i (timestamp e) # pe_events s\<rparr>"
  by (auto simp: expire_policy_def result_simps publish_def)

end
