(* ===== verification/PE_Queries.thy ===== *)
theory PE_Queries
  imports PE_Policies
begin

text \<open>
  The queries of the policy engine and its permissionless expiry notices
  (\<^verbatim>\<open>lib.rs\<close>, "Queries" and the expiry-warning functions).
\<close>

section \<open>Queries\<close>

definition get_policy :: "int \<Rightarrow> 't pe_state \<Rightarrow> (pe_error, policy) result" where
  "get_policy i s = load_policy i s"

text \<open>
  One round of the statistics loop. The two counters are \<^verbatim>\<open>u32\<close> and trap on
  overflow, the two sums saturate.
\<close>

definition count_policy ::
  "int \<Rightarrow> policy option \<Rightarrow> product_stats \<Rightarrow> (pe_error, product_stats) result" where
  "count_policy product_id entry acc =
     (case entry of
        None \<Rightarrow> Inr acc
      | Some policy \<Rightarrow>
          if po_product_id policy \<noteq> product_id then Inr acc
          else bindR (u32 (st_total_policies acc + 1)) (\<lambda>n.
               bindR (if po_status policy = PolicyActive then u32 (st_active_policies acc + 1)
                      else Inr (st_active_policies acc)) (\<lambda>m.
               Inr (acc\<lparr>st_total_policies := n, st_active_policies := m,
                 st_total_coverage :=
                   sat_i128 (st_total_coverage acc + po_coverage_amount policy),
                 st_total_premium_collected :=
                   sat_i128 (st_total_premium_collected acc + po_premium_paid policy)\<rparr>))))"

fun stats_loop ::
  "int \<Rightarrow> (int \<rightharpoonup> policy) \<Rightarrow> int list \<Rightarrow> product_stats \<Rightarrow> (pe_error, product_stats) result" where
  "stats_loop product_id policies [] acc = Inr acc"
| "stats_loop product_id policies (pid # pids) acc =
     bindR (count_policy product_id (policies pid) acc)
       (\<lambda>acc'. stats_loop product_id policies pids acc')"

definition get_product_stats :: "int \<Rightarrow> 't pe_state \<Rightarrow> (pe_error, product_stats) result" where
  "get_product_stats product_id s =
     (let zero = \<lparr>st_product_id = product_id, st_total_policies = 0, st_active_policies = 0,
                  st_total_coverage = 0, st_total_premium_collected = 0\<rparr>
      in case pe_products s product_id of
           None \<Rightarrow> Inr zero
         | Some _ \<Rightarrow>
             stats_loop product_id (pe_policies s)
               [1 .. unwrap_or 1 (pe_next_policy_id s) - 1] zero)"

text \<open>The page bounds are \<^verbatim>\<open>u32\<close>; \<^verbatim>\<open>offset + limit\<close> traps on overflow.\<close>

definition get_user_policies ::
  "address \<Rightarrow> int \<Rightarrow> int \<Rightarrow> 't pe_state \<Rightarrow> (pe_error, int list) result" where
  "get_user_policies user offset limit s =
     (let all = unwrap_or [] (pe_user_policies s user);
          len = int (length all)
      in if offset \<ge> len then Inr []
         else bindR (u32 (offset + limit)) (\<lambda>stop.
              Inr (map (\<lambda>i. all ! nat i) [offset .. min stop len - 1])))"

definition get_contract_balance ::
  "'t token_ops \<Rightarrow> env \<Rightarrow> 't pe_state \<Rightarrow> (pe_error, int) result" where
  "get_contract_balance tk e s =
     bindR (or_panic NotInitialized (pe_usdc_token s)) (\<lambda>usdc.
     or_trap (balance_of tk (pe_tokens s) usdc (this e)))"

section \<open>Expiry notices\<close>

definition get_policy_expiry_info ::
  "env \<Rightarrow> int \<Rightarrow> 't pe_state \<Rightarrow> (pe_error, policy_expiry_info) result" where
  "get_policy_expiry_info e policy_id s =
     bindR (load_policy policy_id s) (\<lambda>policy.
     let now = timestamp e;
         window = expiry_warning_window s;
         seconds_remaining = sat_u64 (po_end_time policy - now);
         state = (if po_status policy \<noteq> PolicyActive then NotActive
                  else if now \<ge> po_end_time policy then Lapsed
                  else if seconds_remaining \<le> window then ExpiringSoon
                  else StillActive)
     in Inr \<lparr>ei_policy_id = policy_id, ei_state = state, ei_end_time = po_end_time policy,
             ei_seconds_remaining = seconds_remaining,
             ei_warned = (pe_expiry_warned s policy_id \<noteq> None)\<rparr>)"

definition warn_policy :: "int \<Rightarrow> policy \<Rightarrow> int \<Rightarrow> 't pe_state \<Rightarrow> 't pe_state" where
  "warn_policy policy_id policy seconds_remaining s =
     publish (EvPolicyExpiringSoon policy_id (po_policyholder policy) (po_product_id policy)
                (po_coverage_amount policy) (po_end_time policy) seconds_remaining)
       (s\<lparr>pe_expiry_warned := (pe_expiry_warned s)(policy_id \<mapsto> True)\<rparr>)"

definition notify_policy_expiring ::
  "env \<Rightarrow> int \<Rightarrow> 't pe_state \<Rightarrow> (pe_error, 't pe_state) result" where
  "notify_policy_expiring e policy_id s =
     bindR (load_policy policy_id s) (\<lambda>policy.
     if po_status policy \<noteq> PolicyActive then panic PolicyNotActive
     else let now = timestamp e; window = expiry_warning_window s
     in if now \<ge> po_end_time policy then panic NotExpiringSoon
        else bindR (u64 (po_end_time policy - now)) (\<lambda>seconds_remaining.
        if seconds_remaining > window then panic NotExpiringSoon
        else if pe_expiry_warned s policy_id \<noteq> None then panic NotExpiringSoon
        else Inr (warn_policy policy_id policy seconds_remaining s)))"

text \<open>
  The scan visits the indexes from \<^verbatim>\<open>offset\<close>, at most \<^verbatim>\<open>MAX_EXPIRY_SCAN\<close> of
  them: the elements \<open>take MAX_EXPIRY_SCAN (drop offset ids)\<close>, in order.
\<close>

fun notify_loop ::
  "int \<Rightarrow> int \<Rightarrow> int list \<Rightarrow> int \<Rightarrow> 't pe_state \<Rightarrow> (pe_error, int \<times> 't pe_state) result" where
  "notify_loop now window [] emitted s = Inr (emitted, s)"
| "notify_loop now window (policy_id # ids) emitted s =
     (case pe_policies s policy_id of
        None \<Rightarrow> notify_loop now window ids emitted s
      | Some policy \<Rightarrow>
          if po_status policy \<noteq> PolicyActive \<or> now \<ge> po_end_time policy
          then notify_loop now window ids emitted s
          else bindR (u64 (po_end_time policy - now)) (\<lambda>seconds_remaining.
               if seconds_remaining > window then notify_loop now window ids emitted s
               else if pe_expiry_warned s policy_id \<noteq> None
               then notify_loop now window ids emitted s
               else bindR (u32 (emitted + 1)) (\<lambda>n.
                    notify_loop now window ids n
                      (warn_policy policy_id policy seconds_remaining s))))"

definition notify_expiring_policies ::
  "env \<Rightarrow> address \<Rightarrow> int \<Rightarrow> 't pe_state \<Rightarrow> (pe_error, int \<times> 't pe_state) result" where
  "notify_expiring_policies e user offset s =
     (let ids = unwrap_or [] (pe_user_policies s user)
      in notify_loop (timestamp e) (expiry_warning_window s)
           (take (nat MAX_EXPIRY_SCAN) (drop (nat offset) ids)) 0 s)"

end
