(* ===== verification/PE_System.thy ===== *)
theory PE_System
  imports PE_Queries
begin

text \<open>
  The policy engine as a transition system: the entry points that may change its storage
  as one call type with its dispatcher, and the effects its calls are made of. Every
  theorem about all calls is proved once per effect.
\<close>

section \<open>Calls\<close>

datatype pe_call =
    Initialize address address address
  | SetClaimsProcessor address address
  | SetOracleGuardian address address
  | ProposeOracleChange address address
  | ApproveOracleChange address
  | ExecuteOracleChange address
  | CreateProduct address create_product_params
  | PauseProduct address int
  | DeprecateProduct address int
  | BuyPolicy address int int int symbol address
  | BuyPolicyScheduled address int int int symbol int address
  | BuyPolicyWithRate address int int int symbol address int
  | BatchBuyPolicy address "batch_buy_item list"
  | CancelPolicy address int string
  | TransferPolicy address address int
  | PayClaim address int
  | ExpirePolicy address int
  | RegisterCategory address symbol
  | UnregisterCategory address symbol
  | RegisterOracleDataType address symbol
  | EmergencyPause address
  | EmergencyResume address
  | ProposeNewAdmin address address
  | CancelAdminTransfer address
  | AcceptAdmin address
  | SetMaxProductsPerPool address int
  | SetExpiryWarningWindow address int
  | NotifyPolicyExpiring int
  | NotifyExpiringPolicies address int
  | Upgrade address wasm_hash int

text \<open>
  The host converts the arguments of a call to the Rust types of the parameters; a value
  outside the type never reaches the contract.
\<close>

definition is_u32 :: "int \<Rightarrow> bool" where "is_u32 x \<longleftrightarrow> 0 \<le> x \<and> x \<le> u32_max"
definition is_u64 :: "int \<Rightarrow> bool" where "is_u64 x \<longleftrightarrow> 0 \<le> x \<and> x \<le> u64_max"
definition is_u128 :: "int \<Rightarrow> bool" where "is_u128 x \<longleftrightarrow> 0 \<le> x \<and> x \<le> u128_max"

definition typed_item :: "batch_buy_item \<Rightarrow> bool" where
  "typed_item b \<longleftrightarrow> is_u128 (bi_product_id b) \<and> fits_i128 (bi_coverage_amount b)
     \<and> is_u32 (bi_duration_days b)"

fun typed_call :: "pe_call \<Rightarrow> bool" where
  "typed_call (CreateProduct a p) \<longleftrightarrow>
     fits_i128 (cp_trigger_threshold p) \<and> fits_i128 (cp_coverage_min p)
     \<and> fits_i128 (cp_coverage_max p) \<and> is_u32 (cp_premium_rate_bps p)
     \<and> is_u32 (cp_max_duration_days p)"
| "typed_call (PauseProduct a i) \<longleftrightarrow> is_u128 i"
| "typed_call (DeprecateProduct a i) \<longleftrightarrow> is_u128 i"
| "typed_call (BuyPolicy b i c d k t) \<longleftrightarrow> is_u128 i \<and> fits_i128 c \<and> is_u32 d"
| "typed_call (BuyPolicyScheduled b i c d k st t) \<longleftrightarrow>
     is_u128 i \<and> fits_i128 c \<and> is_u32 d \<and> is_u64 st"
| "typed_call (BuyPolicyWithRate b i c d k t r) \<longleftrightarrow> is_u128 i \<and> fits_i128 c \<and> is_u32 d \<and> is_u32 r"
| "typed_call (BatchBuyPolicy b items) \<longleftrightarrow> list_all typed_item items"
| "typed_call (CancelPolicy h i r) \<longleftrightarrow> is_u128 i"
| "typed_call (TransferPolicy f t i) \<longleftrightarrow> is_u128 i"
| "typed_call (PayClaim c i) \<longleftrightarrow> is_u128 i"
| "typed_call (ExpirePolicy c i) \<longleftrightarrow> is_u128 i"
| "typed_call (SetMaxProductsPerPool a m) \<longleftrightarrow> is_u32 m"
| "typed_call (SetExpiryWarningWindow a w) \<longleftrightarrow> is_u64 w"
| "typed_call (NotifyPolicyExpiring i) \<longleftrightarrow> is_u128 i"
| "typed_call (NotifyExpiringPolicies u off) \<longleftrightarrow> is_u32 off"
| "typed_call (Upgrade a h v) \<longleftrightarrow> is_u32 v"
| "typed_call _ \<longleftrightarrow> True"

definition drop_result :: "('e, 'a \<times> 's) result \<Rightarrow> ('e, 's) result" where
  "drop_result r = bindR r (\<lambda>(_, s). Inr s)"

fun dispatch ::
  "'t token_ops \<Rightarrow> env \<Rightarrow> pe_call \<Rightarrow> 't pe_state \<Rightarrow> (pe_error, 't pe_state) result" where
  "dispatch tk e (Initialize a u o') s = initialize tk e a u o' s"
| "dispatch tk e (SetClaimsProcessor a c) s = set_claims_processor e a c s"
| "dispatch tk e (SetOracleGuardian a g) s = set_oracle_guardian e a g s"
| "dispatch tk e (ProposeOracleChange a o') s = propose_oracle_change e a o' s"
| "dispatch tk e (ApproveOracleChange g) s = approve_oracle_change e g s"
| "dispatch tk e (ExecuteOracleChange a) s = execute_oracle_change e a s"
| "dispatch tk e (CreateProduct a p) s = drop_result (create_product e a p s)"
| "dispatch tk e (PauseProduct a i) s = pause_product e a i s"
| "dispatch tk e (DeprecateProduct a i) s = deprecate_product e a i s"
| "dispatch tk e (BuyPolicy b i c d k t) s = drop_result (buy_policy tk e b i c d k t s)"
| "dispatch tk e (BuyPolicyScheduled b i c d k st t) s =
     drop_result (buy_policy_scheduled tk e b i c d k st t s)"
| "dispatch tk e (BuyPolicyWithRate b i c d k t r) s =
     drop_result (buy_policy_with_rate tk e b i c d k t r s)"
| "dispatch tk e (BatchBuyPolicy b items) s = drop_result (batch_buy_policy tk e b items s)"
| "dispatch tk e (CancelPolicy h i r) s = drop_result (cancel_policy tk e h i r s)"
| "dispatch tk e (TransferPolicy f t i) s = transfer_policy e f t i s"
| "dispatch tk e (PayClaim c i) s = pay_claim tk e c i s"
| "dispatch tk e (ExpirePolicy c i) s = expire_policy e c i s"
| "dispatch tk e (RegisterCategory a c) s = register_category e a c s"
| "dispatch tk e (UnregisterCategory a c) s = unregister_category e a c s"
| "dispatch tk e (RegisterOracleDataType a c) s = register_oracle_data_type e a c s"
| "dispatch tk e (EmergencyPause a) s = emergency_pause e a s"
| "dispatch tk e (EmergencyResume a) s = emergency_resume e a s"
| "dispatch tk e (ProposeNewAdmin a n) s = propose_new_admin e a n s"
| "dispatch tk e (CancelAdminTransfer a) s = cancel_admin_transfer e a s"
| "dispatch tk e (AcceptAdmin a) s = accept_admin e a s"
| "dispatch tk e (SetMaxProductsPerPool a m) s = set_max_products_per_pool e a m s"
| "dispatch tk e (SetExpiryWarningWindow a w) s = set_expiry_warning_window e a w s"
| "dispatch tk e (NotifyPolicyExpiring i) s = notify_policy_expiring e i s"
| "dispatch tk e (NotifyExpiringPolicies u off) s =
     drop_result (notify_expiring_policies e u off s)"
| "dispatch tk e (Upgrade a h v) s = upgrade e a h v s"

definition pe_exec ::
  "'t token_ops \<Rightarrow> env \<Rightarrow> pe_call \<Rightarrow> 't pe_state \<Rightarrow> (pe_error, 't pe_state) result" where
  "pe_exec tk e c s = (if typed_call c then dispatch tk e c s else trap)"

lemma drop_result_ok [result_simps]: "drop_result r = Inr s \<longleftrightarrow> (\<exists>x. r = Inr (x, s))"
  by (auto simp: drop_result_def bindR_eq_Inr)

section \<open>Effects\<close>

definition quiet :: "pe_event \<Rightarrow> bool" where
  "quiet ev \<longleftrightarrow> (case ev of EvBuyPolicy _ _ _ _ _ \<Rightarrow> False | EvPolicyCancelled _ _ _ \<Rightarrow> False
     | EvClaimPaid _ _ _ \<Rightarrow> False | EvPolicyExpired _ _ \<Rightarrow> False
     | EvPolicyExpiringSoon _ _ _ _ _ _ \<Rightarrow> False | EvPolicyTransferred _ _ _ \<Rightarrow> False
     | _ \<Rightarrow> True)"

text \<open>The event that settles a policy, and the status it leaves.\<close>

fun settles :: "int \<Rightarrow> pe_event \<Rightarrow> bool" where
  "settles i (EvPolicyCancelled j h r) \<longleftrightarrow> j = i"
| "settles i (EvClaimPaid j h c) \<longleftrightarrow> j = i"
| "settles i (EvPolicyExpired j t) \<longleftrightarrow> j = i"
| "settles i _ \<longleftrightarrow> False"

fun closes_with :: "int \<Rightarrow> policy \<Rightarrow> policy_status \<Rightarrow> pe_event \<Rightarrow> bool" where
  "closes_with i p Cancelled ev \<longleftrightarrow> (\<exists>r. ev = EvPolicyCancelled i (po_policyholder p) r)"
| "closes_with i p Claimed ev \<longleftrightarrow> ev = EvClaimPaid i (po_policyholder p) (po_coverage_amount p)"
| "closes_with i p Expired ev \<longleftrightarrow> (\<exists>t. ev = EvPolicyExpired i t)"
| "closes_with i p PolicyActive ev \<longleftrightarrow> False"

definition ids_of :: "'t pe_state \<Rightarrow> address \<Rightarrow> int list" where
  "ids_of s u = unwrap_or [] (pe_user_policies s u)"

inductive pe_effect :: "int \<Rightarrow> 't pe_state \<Rightarrow> 't pe_state \<Rightarrow> bool" for now :: int where
  eff_admin: "same_books s s' \<Longrightarrow> pe_events s' = evs @ pe_events s \<Longrightarrow> list_all quiet evs \<Longrightarrow>
     pe_admin s \<noteq> None \<or> pe_pending_admin s \<noteq> None \<or> pe_oracle_guardian s \<noteq> None \<Longrightarrow>
     pe_effect now s s'"
| eff_init: "\<not> pe_initialized s \<Longrightarrow> pe_initialized s' \<Longrightarrow> pe_products s' = pe_products s \<Longrightarrow>
     pe_policies s' = pe_policies s \<Longrightarrow> pe_user_policies s' = pe_user_policies s \<Longrightarrow>
     pe_last_purchase s' = pe_last_purchase s \<Longrightarrow> pe_expiry_warned s' = pe_expiry_warned s \<Longrightarrow>
     pe_active_products s' = Some [] \<Longrightarrow> pe_next_product_id s' = Some 1 \<Longrightarrow>
     pe_next_policy_id s' = Some 1 \<Longrightarrow> pe_events s' = ev # pe_events s \<Longrightarrow> quiet ev \<Longrightarrow>
     pe_effect now s s'"
| eff_list: "pe_admin s \<noteq> None \<Longrightarrow> i = unwrap_or 1 (pe_next_product_id s) \<Longrightarrow>
     product_terms p \<Longrightarrow> 0 < pr_premium_rate_bps p \<Longrightarrow> 0 < pr_max_duration_days p \<Longrightarrow>
     pr_id p = i \<Longrightarrow> pr_status p = ProductActive \<Longrightarrow> quiet ev \<Longrightarrow>
     pe_effect now s (s\<lparr>pe_next_product_id := Some (i + 1),
         pe_products := (pe_products s)(i \<mapsto> p),
         pe_product_key := keys, pe_product_name := names,
         pe_active_products := Some (unwrap_or [] (pe_active_products s) @ [i]),
         pe_pool_product_count := counts, pe_events := ev # pe_events s\<rparr>)"
| eff_retire: "pe_admin s \<noteq> None \<Longrightarrow> pe_products s i = Some p \<Longrightarrow> st \<noteq> ProductActive \<Longrightarrow>
     list_all quiet evs \<Longrightarrow>
     pe_effect now s (s\<lparr>pe_products := (pe_products s)(i \<mapsto> p\<lparr>pr_status := st\<rparr>),
         pe_active_products := (if i \<in> set (get_active_products s)
                then Some (remove1 i (get_active_products s)) else pe_active_products s),
         pe_pool_product_count := counts, pe_product_name := names, pe_product_key := keys,
         pe_events := evs @ pe_events s\<rparr>)"
| eff_issue: "pe_admin s \<noteq> None \<Longrightarrow> pe_products s pid = Some product \<Longrightarrow>
     pr_status product = ProductActive \<Longrightarrow> 0 < cov \<Longrightarrow> cov \<le> MAX_COVERAGE_LIMIT \<Longrightarrow>
     pr_coverage_min product \<le> cov \<Longrightarrow> cov \<le> pr_coverage_max product \<Longrightarrow>
     0 < dur \<Longrightarrow> dur \<le> pr_max_duration_days product \<Longrightarrow>
     required_premium product cov dur = Some premium \<Longrightarrow> 0 < premium \<Longrightarrow> now \<le> start \<Longrightarrow>
     i = unwrap_or 1 (pe_next_policy_id s) \<Longrightarrow>
     (case pe_last_purchase s (b, key) of None \<Rightarrow> True
        | Some l \<Rightarrow> sat_u64 (l + PURCHASE_COOLING_OFF_SECONDS) \<le> now) \<Longrightarrow>
     pe_effect now s (s\<lparr>pe_tokens := t, pe_next_policy_id := Some (i + 1),
         pe_last_purchase := (pe_last_purchase s)((b, key) \<mapsto> now),
         pe_policies := (pe_policies s)(i \<mapsto> new_policy i pid b cov premium key product start
                              (start + dur * 86400) now),
         pe_user_policies := (pe_user_policies s)(b \<mapsto> ids_of s b @ [i]),
         pe_events := EvBuyPolicy b i pid cov premium # pe_events s\<rparr>)"
| eff_move: "pe_policies s i = Some p \<Longrightarrow> po_status p = PolicyActive \<Longrightarrow>
     from = po_policyholder p \<Longrightarrow> to \<noteq> from \<Longrightarrow>
     s1 = remove_policy_from_user from i
            (s\<lparr>pe_policies := (pe_policies s)(i \<mapsto> p\<lparr>po_policyholder := to\<rparr>)\<rparr>) \<Longrightarrow>
     pe_effect now s (s1\<lparr>pe_user_policies := (pe_user_policies s1)(to \<mapsto> ids_of s1 to @ [i]),
         pe_events := EvPolicyTransferred i from to # pe_events s\<rparr>)"
| eff_close: "pe_policies s i = Some p \<Longrightarrow> po_status p = PolicyActive \<Longrightarrow>
     closes_with i p st ev \<Longrightarrow>
     s1 = remove_policy_from_user (po_policyholder p) i
            (s\<lparr>pe_policies := (pe_policies s)(i \<mapsto> p\<lparr>po_status := st\<rparr>)\<rparr>) \<Longrightarrow>
     pe_effect now s (s1\<lparr>pe_tokens := t, pe_events := ev # pe_events s\<rparr>)"
| eff_warn: "pe_policies s i = Some p \<Longrightarrow> po_status p = PolicyActive \<Longrightarrow>
     now < po_end_time p \<Longrightarrow> rem = po_end_time p - now \<Longrightarrow> rem \<le> expiry_warning_window s \<Longrightarrow>
     pe_expiry_warned s i = None \<Longrightarrow> pe_effect now s (warn_policy i p rem s)"

definition effects :: "int \<Rightarrow> 't pe_state \<Rightarrow> 't pe_state \<Rightarrow> bool" where
  "effects now = (pe_effect now)\<^sup>*\<^sup>*"

lemma ids_of_remove [simp]:
  "ids_of (remove_policy_from_user u i s) v = (if v = u then remove1 i (ids_of s u) else ids_of s v)"
  by (cases "pe_user_policies s u") (auto simp: ids_of_def remove_policy_eq remove1_absent)

lemma effects_refl [simp, intro]: "effects now s s"
  by (simp add: effects_def)

lemma effects_one [intro]: "pe_effect now s s' \<Longrightarrow> effects now s s'"
  by (auto simp: effects_def)

lemma effects_trans: "effects now s s' \<Longrightarrow> effects now s' s'' \<Longrightarrow> effects now s s''"
  unfolding effects_def by (rule rtranclp_trans)

text \<open>An invariant of the effects is an invariant of their sequences.\<close>

lemma effects_inv:
  assumes "effects now s s'" and "P s" and "\<And>a b. P a \<Longrightarrow> pe_effect now a b \<Longrightarrow> P b"
  shows "P s'"
  using assms(1) unfolding effects_def
  by (induction rule: rtranclp_induct) (auto intro: assms(2,3))

end
