(* ===== verification/PE_Effects.thy ===== *)
theory PE_Effects
  imports PE_System
begin

text \<open>Every successful call of the policy engine is a sequence of its effects.\<close>

lemma admin_effect:
  "same_books s s' \<Longrightarrow> pe_events s' = ev # pe_events s \<Longrightarrow> quiet ev \<Longrightarrow> pe_admin s = Some a \<Longrightarrow>
     effects now s s'"
  "same_books s s' \<Longrightarrow> pe_events s' = pe_events s \<Longrightarrow>
     pe_admin s = Some a \<or> pe_pending_admin s = Some a \<or> pe_oracle_guardian s = Some a \<Longrightarrow>
     effects now s s'"
  by (rule effects_one, rule eff_admin[where evs = "[ev]"], simp_all)
     (rule effects_one, rule eff_admin[where evs = "[]"], auto)

lemmas admin_defs = set_claims_processor_def set_oracle_guardian_def propose_oracle_change_def
  approve_oracle_change_def execute_oracle_change_def register_category_def
  unregister_category_def register_oracle_data_type_def emergency_pause_def
  emergency_resume_def propose_new_admin_def cancel_admin_transfer_def
  set_max_products_per_pool_def set_expiry_warning_window_def

lemma admin_ops_effects:
  "set_claims_processor e a c s = Inr s' \<Longrightarrow> effects now s s'"
  "set_oracle_guardian e a c s = Inr s' \<Longrightarrow> effects now s s'"
  "propose_oracle_change e a c s = Inr s' \<Longrightarrow> effects now s s'"
  "approve_oracle_change e a s = Inr s' \<Longrightarrow> effects now s s'"
  "execute_oracle_change e a s = Inr s' \<Longrightarrow> effects now s s'"
  "emergency_pause e a s = Inr s' \<Longrightarrow> effects now s s'"
  "emergency_resume e a s = Inr s' \<Longrightarrow> effects now s s'"
  "propose_new_admin e a c s = Inr s' \<Longrightarrow> effects now s s'"
  "cancel_admin_transfer e a s = Inr s' \<Longrightarrow> effects now s s'"
  "set_max_products_per_pool e a m s = Inr s' \<Longrightarrow> effects now s s'"
  "set_expiry_warning_window e a m s = Inr s' \<Longrightarrow> effects now s s'"
  by (auto simp: admin_defs result_simps Let_def publish_def same_books_def quiet_def
      intro: admin_effect)

lemma registry_ops_effects:
  "register_category e a c s = Inr s' \<Longrightarrow> effects now s s'"
  "unregister_category e a c s = Inr s' \<Longrightarrow> effects now s s'"
  "register_oracle_data_type e a c s = Inr s' \<Longrightarrow> effects now s s'"
  by (auto simp: admin_defs result_simps publish_def same_books_def quiet_def
      intro: admin_effect split: if_splits)

lemma accept_admin_effects: "accept_admin e a s = Inr s' \<Longrightarrow> effects now s s'"
  by (rule effects_one, rule eff_admin[where evs = "[EvAdminUpdated a]"])
     (auto simp: accept_admin_def result_simps Let_def publish_def same_books_def quiet_def
       split: if_splits)

lemma upgrade_effects: "upgrade e a h v s = Inr s' \<Longrightarrow> effects now s s'"
  by (auto simp: same_books_def quiet_def dest!: upgrade_ok intro: admin_effect)

lemma initialize_effects: "initialize tk e a u o' s = Inr s' \<Longrightarrow> effects now s s'"
  by (rule effects_one, rule eff_init[where ev = "EvInitialized a u o'"])
     (auto simp: initialize_ok quiet_def)

lemma create_product_effects:
  assumes "create_product e a p s = Inr (i, s')" and "typed_call (CreateProduct a p)"
  shows "effects now s s'"
proof -
  from assms(1) have v: "validate_product p s = Inr ()" and ins: "insert_product e p s = Inr (i, s')"
    and adm: "pe_admin s = Some a" by (simp_all add: create_product_ok del: insert_product_ok)
  let ?p = "product_of_params i (timestamp e) p"
  have terms: "product_terms ?p" using v by (rule validate_product_terms)
  then have pos: "0 < pr_premium_rate_bps ?p" "0 < pr_max_duration_days ?p"
    using assms(2) by (auto simp: product_terms_def product_of_params_def is_u32_def)
  have fields: "pr_id ?p = i" "pr_status ?p = ProductActive" by (simp_all add: product_of_params_def)
  show ?thesis
    using ins adm eff_list[OF _ _ terms pos fields, of s
        "EvProductCreated i (cp_name p) (cp_category p) (cp_premium_rate_bps p)" now]
    unfolding insert_product_ok by (auto simp: quiet_def simp del: unwrap_or_simps)
qed

lemma retire_effects:
  "pause_product e a i s = Inr s' \<Longrightarrow> effects now s s'"
  "deprecate_product e a i s = Inr s' \<Longrightarrow> effects now s s'"
proof -
  assume "pause_product e a i s = Inr s'"
  then obtain p where p: "pe_products s i = Some p" "pe_admin s = Some a"
    and s': "s' = s\<lparr>pe_products := (pe_products s)(i \<mapsto> p\<lparr>pr_status := ProductPaused\<rparr>),
              pe_active_products := (if i \<in> set (get_active_products s)
                then Some (remove1 i (get_active_products s)) else pe_active_products s),
              pe_events := EvProductPaused i # pe_events s\<rparr>"
    by (auto simp: pause_product_ok)
  show "effects now s s'"
    using eff_retire[where s = s and i = i and p = p and st = ProductPaused and now = now
        and evs = "[EvProductPaused i]" and counts = "pe_pool_product_count s"
        and names = "pe_product_name s" and keys = "pe_product_key s"] p
    by (auto simp: s' quiet_def)
next
  assume "deprecate_product e a i s = Inr s'"
  then obtain p counts names keys where p: "pe_products s i = Some p" "pe_admin s = Some a"
    and s': "s' = s\<lparr>pe_products := (pe_products s)(i \<mapsto> p\<lparr>pr_status := ProductDeprecated\<rparr>),
              pe_active_products := (if i \<in> set (get_active_products s)
                then Some (remove1 i (get_active_products s)) else pe_active_products s),
              pe_pool_product_count := counts, pe_product_name := names, pe_product_key := keys\<rparr>"
    by (auto simp: deprecate_product_ok)
  show "effects now s s'"
    using eff_retire[where s = s and i = i and p = p and st = ProductDeprecated and now = now
        and evs = "[]" and counts = counts and names = names and keys = keys] p
    by (auto simp: s')
qed

lemma buy_inner_effects:
  assumes "buy_policy_inner tk e b pid cov dur key start tok s = Inr (i, s')" and "is_u32 dur"
  shows "effects (timestamp e) s s'"
proof -
  obtain product premium where
    q: "quote_policy e b pid cov dur key start tok s = Inr (product, premium)"
    and bk: "book_policy tk e b pid cov dur key start tok product premium s = Inr (i, s')"
    using buy_policy_inner_split[OF assms(1)] by blast
  note Q = quote_policy_ok[OF q]
  obtain t where s': "i = unwrap_or 1 (pe_next_policy_id s)"
    "s' = s\<lparr>pe_tokens := t, pe_next_policy_id := Some (i + 1),
            pe_last_purchase := (pe_last_purchase s)((b, key) \<mapsto> timestamp e),
            pe_policies := (pe_policies s)(i \<mapsto> new_policy i pid b cov premium key product start
                              (start + dur * 86400) (timestamp e)),
            pe_user_policies := (pe_user_policies s)
                (b \<mapsto> unwrap_or [] (pe_user_policies s b) @ [i]),
            pe_events := EvBuyPolicy b i pid cov premium # pe_events s\<rparr>"
    using book_policy_ok[OF bk] by blast
  have cool: "case pe_last_purchase s (b, key) of None \<Rightarrow> True
        | Some l \<Rightarrow> sat_u64 (l + PURCHASE_COOLING_OFF_SECONDS) \<le> timestamp e"
    using Q by (auto simp: cooling_off_active_def split: option.splits)
  have dur: "0 < dur" using Q assms(2) by (auto simp: is_u32_def)
  show ?thesis
    using eff_issue[OF _ _ _ _ _ _ _ dur _ _ _ _ s'(1) cool, of pid product cov premium start t] Q
    by (auto simp: s'(2) ids_of_def MAX_COVERAGE_LIMIT_def)
qed

lemma buy_items_effects:
  "buy_items tk e b items s = Inr (ids, s') \<Longrightarrow> list_all typed_item items \<Longrightarrow>
     effects (timestamp e) s s'"
proof (induction items arbitrary: s ids)
  case Nil
  then show ?case by simp
next
  case (Cons item items)
  then obtain i s1 ids' where
    one: "buy_policy_inner tk e b (bi_product_id item) (bi_coverage_amount item)
       (bi_duration_days item) (bi_oracle_key item) (timestamp e) (bi_payment_token item) s
       = Inr (i, s1)"
    and rest: "buy_items tk e b items s1 = Inr (ids', s')"
    by (auto simp: bindR_eq_Inr)
  have "effects (timestamp e) s s1"
    using Cons.prems(2) by (intro buy_inner_effects[OF one]) (simp add: typed_item_def)
  moreover have "effects (timestamp e) s1 s'"
    using Cons.prems(2) by (intro Cons.IH[OF rest]) simp
  ultimately show ?case by (rule effects_trans)
qed

lemma batch_effects:
  "batch_buy_policy tk e b items s = Inr (ids, s') \<Longrightarrow> list_all typed_item items \<Longrightarrow>
     effects (timestamp e) s s'"
  by (auto simp: batch_buy_policy_def bindR_eq_Inr if_Inl_eq_Inr intro: buy_items_effects)

lemma cancel_effects: "cancel_policy tk e h i r s = Inr (x, s') \<Longrightarrow> effects now s s'"
  by (drule cancel_policy_ok, elim exE conjE, simp only:, rule effects_one,
      rule eff_close[where st = Cancelled]) auto

lemma pay_claim_effects: "pay_claim tk e c i s = Inr s' \<Longrightarrow> effects now s s'"
proof -
  assume "pay_claim tk e c i s = Inr s'"
  then obtain p t where p: "pe_policies s i = Some p" "po_status p = PolicyActive"
    and s': "s' = remove_policy_from_user (po_policyholder p) i
            (s\<lparr>pe_tokens := t, pe_policies := (pe_policies s)(i \<mapsto> p\<lparr>po_status := Claimed\<rparr>)\<rparr>)
            \<lparr>pe_events := EvClaimPaid i (po_policyholder p) (po_coverage_amount p) # pe_events s\<rparr>"
    using pay_claim_ok by blast
  have "s' = remove_policy_from_user (po_policyholder p) i
            (s\<lparr>pe_policies := (pe_policies s)(i \<mapsto> p\<lparr>po_status := Claimed\<rparr>)\<rparr>)
            \<lparr>pe_tokens := t,
             pe_events := EvClaimPaid i (po_policyholder p) (po_coverage_amount p) # pe_events s\<rparr>"
    by (simp add: s' remove_policy_eq)
  then show ?thesis
    using eff_close[OF p, of Claimed "EvClaimPaid i (po_policyholder p) (po_coverage_amount p)"]
    by auto
qed

lemma expire_effects: "expire_policy e c i s = Inr s' \<Longrightarrow> effects now s s'"
proof -
  assume "expire_policy e c i s = Inr s'"
  then obtain p where p: "pe_policies s i = Some p" "po_status p = PolicyActive"
    and s': "s' = remove_policy_from_user (po_policyholder p) i
            (s\<lparr>pe_policies := (pe_policies s)(i \<mapsto> p\<lparr>po_status := Expired\<rparr>)\<rparr>)
            \<lparr>pe_tokens := pe_tokens s, pe_events := EvPolicyExpired i (timestamp e) # pe_events s\<rparr>"
    using expire_policy_ok by (fastforce simp: remove_policy_eq)
  then show ?thesis
    using eff_close[OF p, of Expired "EvPolicyExpired i (timestamp e)"] by auto
qed

lemma transfer_effects: "transfer_policy e f t i s = Inr s' \<Longrightarrow> effects now s s'"
  by (drule transfer_policy_ok, elim exE conjE, cases "f = t")
     (auto simp: Let_def ids_of_def intro!: effects_one eff_move[unfolded ids_of_def])

lemma notify_effects:
  "notify_policy_expiring e i s = Inr s' \<Longrightarrow> effects (timestamp e) s s'"
  by (auto simp: notify_policy_expiring_def Let_def result_simps intro!: effects_one eff_warn)

lemma notify_loop_effects:
  "notify_loop now w ids n s = Inr (m, s') \<Longrightarrow> w = expiry_warning_window s \<Longrightarrow> effects now s s'"
proof (induction ids arbitrary: n s)
  case Nil
  then show ?case by simp
next
  case (Cons i ids)
  show ?case
  proof (cases "\<exists>p. pe_policies s i = Some p \<and> po_status p = PolicyActive \<and> now < po_end_time p
      \<and> po_end_time p - now \<le> w \<and> pe_expiry_warned s i = None")
    case False
    then have "notify_loop now w ids n s = Inr (m, s')"
      using Cons.prems(1) by (auto simp: bindR_eq_Inr u64_eq_Inr split: option.splits if_splits)
    then show ?thesis using Cons.IH Cons.prems(2) by blast
  next
    case True
    then obtain p where p: "pe_policies s i = Some p" "po_status p = PolicyActive"
      "now < po_end_time p" "po_end_time p - now \<le> w" "pe_expiry_warned s i = None" by blast
    let ?s = "warn_policy i p (po_end_time p - now) s"
    have rest: "notify_loop now w ids (n + 1) ?s = Inr (m, s')"
      using Cons.prems(1) p by (auto simp: bindR_eq_Inr u64_eq_Inr u32_eq_Inr split: if_splits)
    have "expiry_warning_window ?s = w"
      using Cons.prems(2) by (simp add: warn_policy_def publish_def expiry_warning_window_def)
    then have "effects now ?s s'" using Cons.IH[OF rest] by simp
    moreover have "pe_effect now s ?s"
      using eff_warn[OF p(1,2,3) refl _ p(5)] p(4) Cons.prems(2) by simp
    ultimately show ?thesis using effects_trans effects_one by blast
  qed
qed

lemma notify_all_effects:
  "notify_expiring_policies e u off s = Inr (n, s') \<Longrightarrow> effects (timestamp e) s s'"
  by (auto simp: notify_expiring_policies_def Let_def intro: notify_loop_effects)

lemma buy_effects:
  "buy_policy tk e b pid cov dur key tok s = Inr (i, s') \<Longrightarrow> is_u32 dur \<Longrightarrow>
     effects (timestamp e) s s'"
  "buy_policy_scheduled tk e b pid cov dur key start tok s = Inr (i, s') \<Longrightarrow> is_u32 dur \<Longrightarrow>
     effects (timestamp e) s s'"
  "buy_policy_with_rate tk e b pid cov dur key tok rate s = Inr (i, s') \<Longrightarrow> is_u32 dur \<Longrightarrow>
     effects (timestamp e) s s'"
  using buy_inner_effects buy_variants by metis+

lemma exec_typed: "pe_exec tk e c s = Inr s' \<longleftrightarrow> typed_call c \<and> dispatch tk e c s = Inr s'"
  by (simp add: pe_exec_def)

lemma exec_effects: "pe_exec tk e c s = Inr s' \<Longrightarrow> effects (timestamp e) s s'"
  unfolding exec_typed
  by (cases c; elim conjE; simp only: dispatch.simps typed_call.simps drop_result_ok;
      (elim exE conjE)?)
     (erule initialize_effects admin_ops_effects registry_ops_effects accept_admin_effects
       upgrade_effects retire_effects cancel_effects pay_claim_effects expire_effects
       transfer_effects notify_effects notify_all_effects
       buy_effects batch_effects
       | erule create_product_effects, simp | assumption)+

end
