(* ===== verification/PE_Invariants.thy ===== *)
theory PE_Invariants
  imports PE_Effects
begin

text \<open>
  The invariants of the policy engine, one predicate per aspect of its books, each kept by
  every effect; together they are an invariant of all calls from the empty storage.
\<close>

section \<open>The predicates\<close>

text \<open>Nothing is recorded before \<^verbatim>\<open>initialize\<close>.\<close>

definition inert :: "'t pe_state \<Rightarrow> bool" where
  "inert s \<longleftrightarrow> pe_admin s = None \<and> pe_pending_admin s = None \<and> pe_oracle_guardian s = None
     \<and> pe_oracle_address s = None \<and> pe_products s = Map.empty \<and> pe_policies s = Map.empty \<and> pe_user_policies s = Map.empty
     \<and> pe_last_purchase s = Map.empty \<and> pe_expiry_warned s = Map.empty
     \<and> pe_next_product_id s = None \<and> pe_next_policy_id s = None \<and> pe_active_products s = None
     \<and> pe_events s = []"

definition start_inv :: "'t pe_state \<Rightarrow> bool" where
  "start_inv s \<longleftrightarrow> pe_initialized s \<or> inert s"

text \<open>The catalogue: identifiers below the counter, valid terms, the exact active list.\<close>

definition sound_product :: "int \<Rightarrow> insurance_product \<Rightarrow> bool" where
  "sound_product i p \<longleftrightarrow> pr_id p = i \<and> 1 \<le> i \<and> product_terms p
     \<and> 0 < pr_premium_rate_bps p \<and> 0 < pr_max_duration_days p"

definition catalogue_inv :: "'t pe_state \<Rightarrow> bool" where
  "catalogue_inv s \<longleftrightarrow> 1 \<le> unwrap_or 1 (pe_next_product_id s)
     \<and> (\<forall>i p. pe_products s i = Some p \<longrightarrow>
          sound_product i p \<and> i < unwrap_or 1 (pe_next_product_id s))
     \<and> distinct (get_active_products s)
     \<and> (\<forall>i. i \<in> set (get_active_products s) \<longleftrightarrow>
          (\<exists>p. pe_products s i = Some p \<and> pr_status p = ProductActive))"

text \<open>A policy carries the terms of its product, at the product's price.\<close>

definition issued_under :: "insurance_product \<Rightarrow> policy \<Rightarrow> bool" where
  "issued_under pr p \<longleftrightarrow>
     po_oracle_data_type p = pr_oracle_data_type pr
     \<and> po_trigger_threshold p = pr_trigger_threshold pr
     \<and> po_trigger_comparison p = pr_trigger_comparison pr
     \<and> pr_coverage_min pr \<le> po_coverage_amount p \<and> po_coverage_amount p \<le> pr_coverage_max pr
     \<and> po_created_at p \<le> po_start_time p \<and> 0 < po_premium_paid p
     \<and> (\<exists>days > 0. days \<le> pr_max_duration_days pr
          \<and> po_end_time p = po_start_time p + days * 86400
          \<and> required_premium pr (po_coverage_amount p) days = Some (po_premium_paid p))"

definition policies_inv :: "'t pe_state \<Rightarrow> bool" where
  "policies_inv s \<longleftrightarrow> 1 \<le> unwrap_or 1 (pe_next_policy_id s)
     \<and> (\<forall>i p. pe_policies s i = Some p \<longrightarrow>
          po_id p = i \<and> 1 \<le> i \<and> i < unwrap_or 1 (pe_next_policy_id s)
          \<and> (\<exists>pr. pe_products s (po_product_id p) = Some pr \<and> issued_under pr p))"

text \<open>The index of a user lists the user's active policies, each once.\<close>

definition index_inv :: "'t pe_state \<Rightarrow> bool" where
  "index_inv s \<longleftrightarrow> (\<forall>u. distinct (ids_of s u)
     \<and> (\<forall>i. i \<in> set (ids_of s u) \<longleftrightarrow>
          (\<exists>p. pe_policies s i = Some p \<and> po_status p = PolicyActive \<and> po_policyholder p = u)))"

text \<open>The event log: how a policy was opened, settled and warned about.\<close>

fun opens :: "int \<Rightarrow> pe_event \<Rightarrow> bool" where
  "opens i (EvBuyPolicy b j pid cov premium) \<longleftrightarrow> j = i"
| "opens i _ \<longleftrightarrow> False"

fun warns :: "int \<Rightarrow> pe_event \<Rightarrow> bool" where
  "warns i (EvPolicyExpiringSoon j h pid cov end_time rem) \<longleftrightarrow> j = i"
| "warns i _ \<longleftrightarrow> False"

definition occurrences :: "('a \<Rightarrow> bool) \<Rightarrow> 'a list \<Rightarrow> nat" where
  "occurrences P es = length (filter P es)"

lemma occurrences_simps [simp]:
  "occurrences P [] = 0"
  "occurrences P (e # es) = (if P e then Suc (occurrences P es) else occurrences P es)"
  "occurrences P (es @ fs) = occurrences P es + occurrences P fs"
  by (simp_all add: occurrences_def)

definition opened_inv :: "'t pe_state \<Rightarrow> bool" where
  "opened_inv s \<longleftrightarrow> (\<forall>i. occurrences (opens i) (pe_events s) =
     (if pe_policies s i = None then 0 else 1))"

definition settled_inv :: "'t pe_state \<Rightarrow> bool" where
  "settled_inv s \<longleftrightarrow> (\<forall>i. occurrences (settles i) (pe_events s) =
     (case pe_policies s i of None \<Rightarrow> 0
        | Some p \<Rightarrow> if po_status p = PolicyActive then 0 else 1))"

definition outcome_inv :: "'t pe_state \<Rightarrow> bool" where
  "outcome_inv s \<longleftrightarrow> (\<forall>i p. pe_policies s i = Some p \<longrightarrow> po_status p \<noteq> PolicyActive \<longrightarrow>
     (\<exists>ev \<in> set (pe_events s). closes_with i p (po_status p) ev))"

definition warned_inv :: "'t pe_state \<Rightarrow> bool" where
  "warned_inv s \<longleftrightarrow> (\<forall>i. occurrences (warns i) (pe_events s) =
     (if pe_expiry_warned s i = None then 0 else 1))"

definition clock_inv :: "int \<Rightarrow> 't pe_state \<Rightarrow> bool" where
  "clock_inv now s \<longleftrightarrow> (\<forall>k l. pe_last_purchase s k = Some l \<longrightarrow> 0 \<le> l \<and> l \<le> now)"

definition books_inv :: "int \<Rightarrow> 't pe_state \<Rightarrow> bool" where
  "books_inv now s \<longleftrightarrow> start_inv s \<and> catalogue_inv s \<and> policies_inv s \<and> index_inv s
     \<and> opened_inv s \<and> settled_inv s \<and> outcome_inv s \<and> warned_inv s \<and> clock_inv now s"

section \<open>Every effect keeps them\<close>

lemma quiet_silent:
  "quiet ev \<Longrightarrow> \<not> opens i ev" "quiet ev \<Longrightarrow> \<not> settles i ev" "quiet ev \<Longrightarrow> \<not> warns i ev"
  by (cases ev; simp add: quiet_def)+

lemma quiet_occurrences:
  "list_all quiet evs \<Longrightarrow> occurrences (opens i) evs = 0"
  "list_all quiet evs \<Longrightarrow> occurrences (settles i) evs = 0"
  "list_all quiet evs \<Longrightarrow> occurrences (warns i) evs = 0"
  by (induction evs) (auto simp: quiet_silent)

lemma closing_event:
  "closes_with i p st ev \<Longrightarrow> settles j ev \<longleftrightarrow> j = i"
  "closes_with i p st ev \<Longrightarrow> \<not> opens j ev"
  "closes_with i p st ev \<Longrightarrow> \<not> warns j ev"
  "closes_with i p st ev \<Longrightarrow> st \<noteq> PolicyActive"
  by (cases st; auto)+

lemma active_products_simp [simp]:
  "get_active_products (s\<lparr>pe_active_products := x\<rparr>) = unwrap_or [] x"
  by (simp add: get_active_products_def)

lemma start_effect: "pe_effect now s s' \<Longrightarrow> start_inv s \<Longrightarrow> start_inv s'"
  by (induction rule: pe_effect.induct)
     (auto simp: start_inv_def inert_def same_books_def warn_policy_def publish_def)

lemma catalogue_effect:
  "pe_effect now s s' \<Longrightarrow> start_inv s \<Longrightarrow> catalogue_inv s \<Longrightarrow> catalogue_inv s'"
proof (induction rule: pe_effect.induct)
  case (eff_admin s s' evs)
  then show ?case by (simp add: same_books_def catalogue_inv_def get_active_products_def)
next
  case (eff_init s s' ev)
  then show ?case
    by (simp add: start_inv_def inert_def catalogue_inv_def get_active_products_def)
next
  case (eff_list s i p ev keys names counts)
  then show ?case
    by (auto simp: catalogue_inv_def get_active_products_def sound_product_def intro: less_imp_le)
next
  case (eff_retire s i p st evs counts names keys)
  then show ?case
    by (auto simp: catalogue_inv_def get_active_products_def sound_product_def
        product_terms_def set_remove1_distinct)
qed (auto simp: catalogue_inv_def get_active_products_def warn_policy_def publish_def)

lemma product_retired [simp]: "issued_under (p\<lparr>pr_status := st\<rparr>) q \<longleftrightarrow> issued_under p q"
  by (simp add: issued_under_def required_premium_def)

lemma policies_mono:
  assumes "policies_inv s" "pe_policies s' = pe_policies s"
    "pe_next_policy_id s' = pe_next_policy_id s"
    "\<And>j pr q. pe_products s j = Some pr \<Longrightarrow> issued_under pr q \<Longrightarrow>
       \<exists>pr'. pe_products s' j = Some pr' \<and> issued_under pr' q"
  shows "policies_inv s'"
  using assms(1) unfolding policies_inv_def assms(2,3) by (meson assms(4))

lemma policies_effect:
  "pe_effect now s s' \<Longrightarrow> start_inv s \<Longrightarrow> catalogue_inv s \<Longrightarrow> policies_inv s \<Longrightarrow> policies_inv s'"
proof (induction rule: pe_effect.induct)
  case (eff_admin s s' evs)
  then show ?case by (simp add: same_books_def policies_inv_def)
next
  case (eff_init s s' ev)
  then show ?case by (simp add: start_inv_def inert_def policies_inv_def)
next
  case (eff_list s i p ev keys names counts)
  then have "pe_products s i = None"
    by (cases "pe_products s i") (auto simp: catalogue_inv_def)
  then show ?case by (intro policies_mono[OF eff_list.prems(3)]) auto
next
  case (eff_retire s i p st evs counts names keys)
  then show ?case by (intro policies_mono[OF eff_retire.prems(3)]) auto
next
  case (eff_issue s pid product cov dur premium start i b key t)
  have "issued_under product (new_policy i pid b cov premium key product start
                              (start + dur * 86400) now)"
    using eff_issue by (auto simp: issued_under_def new_policy_def)
  then show ?case
    using eff_issue by (auto simp: policies_inv_def new_policy_def intro: less_imp_le)
next
  case (eff_move s i p "from" to s1)
  then show ?case by (auto simp: policies_inv_def issued_under_def)
next
  case (eff_close s i p st ev s1 t)
  then show ?case by (auto simp: policies_inv_def issued_under_def)
next
  case (eff_warn s i p rem)
  then show ?case by (simp add: policies_inv_def warn_policy_def publish_def)
qed

text \<open>What the effects do to the index of a user.\<close>

lemma ids_of_append:
  "ids_of (s\<lparr>pe_user_policies := (pe_user_policies s)(u \<mapsto> xs), pe_events := es\<rparr>) v =
     (if v = u then xs else ids_of s v)"
  by (simp add: ids_of_def)

lemma ids_of_frame [simp]:
  "ids_of (s\<lparr>pe_tokens := t, pe_events := es\<rparr>) v = ids_of s v"
  "ids_of (s\<lparr>pe_policies := ps\<rparr>) v = ids_of s v"
  by (simp_all add: ids_of_def)

lemma index_effect:
  "pe_effect now s s' \<Longrightarrow> start_inv s \<Longrightarrow> policies_inv s \<Longrightarrow> index_inv s \<Longrightarrow> index_inv s'"
proof (induction rule: pe_effect.induct)
  case (eff_issue s pid product cov dur premium start i b key t)
  then have fresh: "pe_policies s i = None"
    by (cases "pe_policies s i") (auto simp: policies_inv_def)
  then have "i \<notin> set (ids_of s u)" for u
    using eff_issue by (auto simp: index_inv_def)
  then show ?case
    using eff_issue.prems(3) fresh by (auto simp: index_inv_def ids_of_def new_policy_def)
next
  case (eff_move s i p "from" to s1)
  then show ?case by (auto simp: index_inv_def ids_of_append)
next
  case (eff_close s i p st ev s1 t)
  then show ?case by (auto simp: index_inv_def closing_event)
qed (auto simp: index_inv_def ids_of_def same_books_def start_inv_def inert_def
      warn_policy_def publish_def)

text \<open>The event log.\<close>

lemma opened_effect:
  "pe_effect now s s' \<Longrightarrow> start_inv s \<Longrightarrow> policies_inv s \<Longrightarrow> opened_inv s \<Longrightarrow> opened_inv s'"
proof (induction rule: pe_effect.induct)
  case (eff_issue s pid product cov dur premium start i b key t)
  then have "pe_policies s i = None"
    by (cases "pe_policies s i") (auto simp: policies_inv_def)
  then show ?case using eff_issue.prems(3) by (auto simp: opened_inv_def)
qed (auto simp: opened_inv_def same_books_def quiet_occurrences quiet_silent closing_event
      warn_policy_def publish_def)

lemma settled_effect:
  "pe_effect now s s' \<Longrightarrow> start_inv s \<Longrightarrow> policies_inv s \<Longrightarrow> settled_inv s \<Longrightarrow> settled_inv s'"
proof (induction rule: pe_effect.induct)
  case (eff_issue s pid product cov dur premium start i b key t)
  then have "pe_policies s i = None"
    by (cases "pe_policies s i") (auto simp: policies_inv_def)
  then show ?case using eff_issue.prems(3) by (simp add: settled_inv_def new_policy_def)
qed (auto simp: settled_inv_def same_books_def quiet_occurrences quiet_silent closing_event
      warn_policy_def publish_def)

lemma outcome_effect:
  "pe_effect now s s' \<Longrightarrow> start_inv s \<Longrightarrow> policies_inv s \<Longrightarrow> outcome_inv s \<Longrightarrow> outcome_inv s'"
proof (induction rule: pe_effect.induct)
  case (eff_close s i p st ev s1 t)
  have "closes_with i (p\<lparr>po_status := st\<rparr>) st ev"
    using eff_close(3) by (cases st) auto
  then show ?case using eff_close by (auto simp: outcome_inv_def)
qed (fastforce simp: outcome_inv_def same_books_def new_policy_def warn_policy_def publish_def)+

lemma warned_effect:
  "pe_effect now s s' \<Longrightarrow> warned_inv s \<Longrightarrow> warned_inv s'"
  by (induction rule: pe_effect.induct)
     (auto simp: warned_inv_def same_books_def quiet_occurrences quiet_silent closing_event
      warn_policy_def publish_def)

lemma clock_effect:
  "pe_effect now s s' \<Longrightarrow> 0 \<le> now \<Longrightarrow> clock_inv now s \<Longrightarrow> clock_inv now s'"
  by (induction rule: pe_effect.induct)
     (auto simp: clock_inv_def same_books_def warn_policy_def publish_def)

lemma books_effect: "pe_effect now s s' \<Longrightarrow> 0 \<le> now \<Longrightarrow> books_inv now s \<Longrightarrow> books_inv now s'"
  unfolding books_inv_def
  by (intro conjI; elim conjE; (rule start_effect catalogue_effect policies_effect index_effect
        opened_effect settled_effect outcome_effect warned_effect clock_effect; assumption))

section \<open>Every call keeps them\<close>

lemma books_fresh: "0 \<le> now \<Longrightarrow> books_inv now (pe_fresh t)"
  by (simp add: books_inv_def start_inv_def inert_def catalogue_inv_def policies_inv_def
      index_inv_def opened_inv_def settled_inv_def outcome_inv_def warned_inv_def clock_inv_def
      get_active_products_def ids_of_def pe_fresh_def)

lemma books_later: "books_inv t s \<Longrightarrow> t \<le> now \<Longrightarrow> books_inv now s"
  by (fastforce simp: books_inv_def clock_inv_def)

lemma books_call:
  assumes "books_inv t s" "0 \<le> t" "t \<le> timestamp e" "pe_exec tk e c s = Inr s'"
  shows "books_inv (timestamp e) s'"
proof (rule effects_inv[OF exec_effects[OF assms(4)]])
  show "books_inv (timestamp e) s" using assms(1,3) by (rule books_later)
  show "books_inv (timestamp e) b" if "books_inv (timestamp e) a" "pe_effect (timestamp e) a b"
    for a b using books_effect that assms(2,3) by (meson order_trans)
qed

interpretation pe: invariant_system "pe_exec tk" "pe_fresh t" books_inv for tk t
  by unfold_locales (auto intro: books_fresh books_call)

end
