(* ===== verification/PE_Roles.thy ===== *)
theory PE_Roles
  imports PE_Invariants
begin

text \<open>
  The two roles of the policy engine that change hands after a delay: the administrator
  and the oracle address. Both are instances of the time-locked role; the oracle rotation
  also needs the guardian.
\<close>

section \<open>Calls that leave the roles alone\<close>

definition roles_of ::
  "'t pe_state \<Rightarrow> address option \<times> address option \<times> int option \<times> address option
     \<times> address option \<times> pending_oracle_change option" where
  "roles_of s = (pe_admin s, pe_pending_admin s, pe_pending_admin_since s,
     pe_oracle_address s, pe_oracle_guardian s, pe_pending_oracle_change s)"

fun role_call :: "pe_call \<Rightarrow> bool" where
  "role_call (Initialize a u o') \<longleftrightarrow> True"
| "role_call (SetOracleGuardian a g) \<longleftrightarrow> True"
| "role_call (ProposeOracleChange a o') \<longleftrightarrow> True"
| "role_call (ApproveOracleChange g) \<longleftrightarrow> True"
| "role_call (ExecuteOracleChange a) \<longleftrightarrow> True"
| "role_call (ProposeNewAdmin a n) \<longleftrightarrow> True"
| "role_call (CancelAdminTransfer a) \<longleftrightarrow> True"
| "role_call (AcceptAdmin a) \<longleftrightarrow> True"
| "role_call _ \<longleftrightarrow> False"

lemma roles_of_frame [simp]:
  "roles_of (s\<lparr>pe_claims_processor := x1\<rparr>) = roles_of s"
  "roles_of (s\<lparr>pe_products := x2\<rparr>) = roles_of s"
  "roles_of (s\<lparr>pe_policies := x3\<rparr>) = roles_of s"
  "roles_of (s\<lparr>pe_user_policies := x4\<rparr>) = roles_of s"
  "roles_of (s\<lparr>pe_active_products := x5\<rparr>) = roles_of s"
  "roles_of (s\<lparr>pe_next_product_id := x6\<rparr>) = roles_of s"
  "roles_of (s\<lparr>pe_next_policy_id := x7\<rparr>) = roles_of s"
  "roles_of (s\<lparr>pe_paused := x8\<rparr>) = roles_of s"
  "roles_of (s\<lparr>pe_product_key := x9\<rparr>) = roles_of s"
  "roles_of (s\<lparr>pe_max_products_per_pool := x10\<rparr>) = roles_of s"
  "roles_of (s\<lparr>pe_pool_product_count := x11\<rparr>) = roles_of s"
  "roles_of (s\<lparr>pe_version := x12\<rparr>) = roles_of s"
  "roles_of (s\<lparr>pe_expiry_warning_window := x13\<rparr>) = roles_of s"
  "roles_of (s\<lparr>pe_expiry_warned := x14\<rparr>) = roles_of s"
  "roles_of (s\<lparr>pe_product_name := x15\<rparr>) = roles_of s"
  "roles_of (s\<lparr>pe_last_purchase := x16\<rparr>) = roles_of s"
  "roles_of (s\<lparr>pe_registered_category := x17\<rparr>) = roles_of s"
  "roles_of (s\<lparr>pe_category_registry := x18\<rparr>) = roles_of s"
  "roles_of (s\<lparr>pe_registered_oracle_data_type := x19\<rparr>) = roles_of s"
  "roles_of (s\<lparr>pe_oracle_data_type_registry := x20\<rparr>) = roles_of s"
  "roles_of (s\<lparr>pe_wasm := x21\<rparr>) = roles_of s"
  "roles_of (s\<lparr>pe_tokens := x22\<rparr>) = roles_of s"
  "roles_of (s\<lparr>pe_events := x23\<rparr>) = roles_of s"
  "roles_of (remove_policy_from_user u i s) = roles_of s"
  by (simp_all add: roles_of_def)

text \<open>Only an administrative effect can touch a role.\<close>

lemma admin_ops_roles:
  "set_claims_processor e a c s = Inr s' \<Longrightarrow> roles_of s' = roles_of s"
  "register_category e a y s = Inr s' \<Longrightarrow> roles_of s' = roles_of s"
  "unregister_category e a y s = Inr s' \<Longrightarrow> roles_of s' = roles_of s"
  "register_oracle_data_type e a y s = Inr s' \<Longrightarrow> roles_of s' = roles_of s"
  "emergency_pause e a s = Inr s' \<Longrightarrow> roles_of s' = roles_of s"
  "emergency_resume e a s = Inr s' \<Longrightarrow> roles_of s' = roles_of s"
  "set_max_products_per_pool e a m s = Inr s' \<Longrightarrow> roles_of s' = roles_of s"
  "set_expiry_warning_window e a m s = Inr s' \<Longrightarrow> roles_of s' = roles_of s"
  by (auto simp: admin_defs result_simps publish_def split: if_splits)

lemma upgrade_roles: "upgrade e a h v s = Inr s' \<Longrightarrow> roles_of s' = roles_of s"
  by (auto dest!: upgrade_ok)

lemma product_roles:
  "create_product e a p s = Inr (i, s') \<Longrightarrow> roles_of s' = roles_of s"
  "pause_product e a i s = Inr s' \<Longrightarrow> roles_of s' = roles_of s"
  "deprecate_product e a i s = Inr s' \<Longrightarrow> roles_of s' = roles_of s"
  by (auto simp: create_product_ok insert_product_ok pause_product_ok deprecate_product_ok
      simp del: unwrap_or_simps)

lemma buy_inner_roles:
  "buy_policy_inner tk e b pid cov dur key start tok s = Inr (i, s') \<Longrightarrow> roles_of s' = roles_of s"
  by (auto dest!: buy_policy_inner_split book_policy_ok)

lemma buy_roles:
  "buy_policy tk e b pid cov dur key tok s = Inr (i, s') \<Longrightarrow> roles_of s' = roles_of s"
  "buy_policy_scheduled tk e b pid cov dur key start tok s = Inr (i, s') \<Longrightarrow> roles_of s' = roles_of s"
  "buy_policy_with_rate tk e b pid cov dur key tok rate s = Inr (i, s') \<Longrightarrow> roles_of s' = roles_of s"
  using buy_inner_roles buy_variants by metis+

lemma buy_items_roles: "buy_items tk e b items s = Inr (ids, s') \<Longrightarrow> roles_of s' = roles_of s"
  by (induction items arbitrary: s ids) (force simp: bindR_eq_Inr dest: buy_inner_roles)+

lemma batch_roles: "batch_buy_policy tk e b items s = Inr (ids, s') \<Longrightarrow> roles_of s' = roles_of s"
  by (auto simp: batch_buy_policy_def bindR_eq_Inr if_Inl_eq_Inr dest: buy_items_roles)

lemma policy_roles:
  "cancel_policy tk e h i r s = Inr (x, s') \<Longrightarrow> roles_of s' = roles_of s"
  "transfer_policy e f t i s = Inr s' \<Longrightarrow> roles_of s' = roles_of s"
  "pay_claim tk e c i s = Inr s' \<Longrightarrow> roles_of s' = roles_of s"
  "expire_policy e c i s = Inr s' \<Longrightarrow> roles_of s' = roles_of s"
  by (auto dest!: cancel_policy_ok transfer_policy_ok pay_claim_ok expire_policy_ok
      simp: Let_def split: if_splits)

lemma warn_roles [simp]: "roles_of (warn_policy i p r s) = roles_of s"
  by (simp add: warn_policy_def publish_def)

lemma notify_loop_roles:
  "notify_loop now w ids n s = Inr (m, s') \<Longrightarrow> roles_of s' = roles_of s"
  by (induction ids arbitrary: n s)
     (force simp: bindR_eq_Inr split: option.splits if_splits)+

lemma notify_roles:
  "notify_policy_expiring e i s = Inr s' \<Longrightarrow> roles_of s' = roles_of s"
  "notify_expiring_policies e u off s = Inr (n, s') \<Longrightarrow> roles_of s' = roles_of s"
  by (auto simp: notify_policy_expiring_def notify_expiring_policies_def Let_def result_simps
      dest: notify_loop_roles)

lemma exec_roles: "pe_exec tk e c s = Inr s' \<Longrightarrow> \<not> role_call c \<Longrightarrow> roles_of s' = roles_of s"
  unfolding exec_typed
  by (cases c; elim conjE; simp only: dispatch.simps role_call.simps drop_result_ok;
      (elim exE)?)
     (blast intro: admin_ops_roles upgrade_roles product_roles buy_roles batch_roles
       policy_roles notify_roles)+

section \<open>The administrator\<close>

definition pending_admin :: "'t pe_state \<Rightarrow> (address \<times> int) option" where
  "pending_admin s = map_option
     (\<lambda>a. (a, sat_u64 (unwrap_or 0 (pe_pending_admin_since s) + ADMIN_TRANSFER_TIMELOCK)))
     (pe_pending_admin s)"

definition pending_oracle :: "'t pe_state \<Rightarrow> (address \<times> int) option" where
  "pending_oracle s = map_option
     (\<lambda>c. (oc_new_oracle c, oc_execute_after c)) (pe_pending_oracle_change s)"

text \<open>A role call is one of eight; what each does to the two roles.\<close>

lemma role_ops_ok:
  "set_oracle_guardian e a g s = Inr s' \<longleftrightarrow> pe_admin s = Some a \<and> auth e a \<and> g \<noteq> a \<and>
     s' = s\<lparr>pe_oracle_guardian := Some g, pe_events := EvOracleGuardianUpdated g # pe_events s\<rparr>"
  "approve_oracle_change e g s = Inr s' \<longleftrightarrow> auth e g \<and> pe_oracle_guardian s = Some g \<and>
     (\<exists>c. pe_pending_oracle_change s = Some c \<and>
        s' = s\<lparr>pe_pending_oracle_change := Some (c\<lparr>oc_guardian_approved := True\<rparr>)\<rparr>)"
  "execute_oracle_change e a s = Inr s' \<longleftrightarrow> pe_admin s = Some a \<and> auth e a \<and>
     (\<exists>c. pe_pending_oracle_change s = Some c \<and> oc_guardian_approved c
        \<and> oc_execute_after c \<le> timestamp e \<and>
        s' = s\<lparr>pe_oracle_address := Some (oc_new_oracle c), pe_pending_oracle_change := None,
               pe_events := EvOracleChanged (oc_new_oracle c) # pe_events s\<rparr>)"
  "propose_new_admin e a n s = Inr s' \<longleftrightarrow> pe_admin s = Some a \<and> auth e a
     \<and> pe_pending_admin s = None
     \<and> s' = s\<lparr>pe_pending_admin := Some n, pe_pending_admin_since := Some (timestamp e)\<rparr>"
  "cancel_admin_transfer e a s = Inr s' \<longleftrightarrow> pe_admin s = Some a \<and> auth e a
     \<and> s' = s\<lparr>pe_pending_admin := None, pe_pending_admin_since := None\<rparr>"
  "accept_admin e a s = Inr s' \<longleftrightarrow> pe_pending_admin s = Some a \<and> auth e a
     \<and> sat_u64 (unwrap_or 0 (pe_pending_admin_since s) + ADMIN_TRANSFER_TIMELOCK) \<le> timestamp e
     \<and> s' = s\<lparr>pe_admin := Some a, pe_pending_admin := None, pe_pending_admin_since := None,
              pe_events := EvAdminUpdated a # pe_events s\<rparr>"
  unfolding set_oracle_guardian_def approve_oracle_change_def execute_oracle_change_def
    propose_new_admin_def cancel_admin_transfer_def accept_admin_def
  by (auto simp: result_simps Let_def publish_def require_auth_def)

lemma propose_oracle_change_ok:
  "propose_oracle_change e a o' s = Inr s' \<Longrightarrow>
     pe_admin s = Some a \<and> pe_pending_oracle_change s = None \<and>
     (\<exists>c evs. oc_new_oracle c = o' \<and> \<not> oc_guardian_approved c
        \<and> oc_execute_after c = sat_u64 (timestamp e + ORACLE_CHANGE_TIMELOCK_SECONDS)
        \<and> s' = s\<lparr>pe_pending_oracle_change := Some c, pe_events := evs\<rparr>)"
  unfolding propose_oracle_change_def
  by (simp add: result_simps Let_def publish_def)
     (metis pending_oracle_change.select_convs)

lemma initialize_roles:
  "initialize tk e a u o' s = Inr s' \<Longrightarrow> \<not> pe_initialized s \<and> pe_admin s' = Some a
     \<and> pe_pending_admin s' = None \<and> pe_oracle_address s' = Some o'
     \<and> pe_pending_oracle_change s' = pe_pending_oracle_change s"
  by (elim initialize_ok[THEN iffD1, elim_format] exE conjE) simp

text \<open>The calls that touch a role, one case each.\<close>

lemma role_call_cases:
  assumes "pe_exec tk e c s = Inr s'"
  obtains (other) "roles_of s' = roles_of s"
  | (init) a u o' where "initialize tk e a u o' s = Inr s'"
  | (guardian) a g where "set_oracle_guardian e a g s = Inr s'"
  | (propose_oracle) a o' where "propose_oracle_change e a o' s = Inr s'"
  | (approve) g where "c = ApproveOracleChange g" "approve_oracle_change e g s = Inr s'"
  | (execute) a where "execute_oracle_change e a s = Inr s'"
  | (propose_admin) a n where "propose_new_admin e a n s = Inr s'"
  | (cancel) a where "cancel_admin_transfer e a s = Inr s'"
  | (accept) a where "accept_admin e a s = Inr s'"
proof (cases "role_call c")
  case False
  then show ?thesis using exec_roles[OF assms] other by blast
next
  case True
  then show ?thesis using assms that(2-) unfolding exec_typed
    by (cases c) (simp_all only: role_call.simps dispatch.simps, blast+)
qed

lemma role_frame:
  assumes "roles_of s' = roles_of s"
  shows "pe_admin s' = pe_admin s" "pending_admin s' = pending_admin s"
    "pe_oracle_address s' = pe_oracle_address s" "pending_oracle s' = pending_oracle s"
    "pe_oracle_guardian s' = pe_oracle_guardian s"
    "pe_pending_oracle_change s' = pe_pending_oracle_change s"
  using assms by (simp_all add: roles_of_def pending_admin_def pending_oracle_def)

lemma start_none:
  "books_inv t s \<Longrightarrow> \<not> pe_initialized s \<Longrightarrow>
     pe_admin s = None \<and> pe_pending_admin s = None \<and> pe_oracle_address s = None"
  by (simp add: books_inv_def start_inv_def inert_def)

lemma admin_role_step:
  assumes "books_inv t s" and "pe_exec tk e c s = Inr s'"
  shows "role_step ADMIN_TRANSFER_TIMELOCK (timestamp e)
     (pe_admin s) (pending_admin s) (pe_admin s') (pending_admin s')"
  using assms(2)
proof (cases rule: role_call_cases)
  case other
  then show ?thesis by (simp add: role_step_def role_frame[OF other])
next
  case init
  then show ?thesis
    using start_none[OF assms(1)] initialize_roles[OF init] by (simp add: role_step_def pending_admin_def)
next
  case propose_oracle
  then show ?thesis by (auto simp: role_step_def pending_admin_def dest!: propose_oracle_change_ok)
qed (auto simp: role_ops_ok role_step_def pending_admin_def)

interpretation pe_admin_role: timelocked_role "pe_exec tk" "pe_fresh t" books_inv
    pe_admin pending_admin ADMIN_TRANSFER_TIMELOCK for tk t
  by unfold_locales (simp add: ADMIN_TRANSFER_TIMELOCK_def, rule admin_role_step)

section \<open>The oracle address\<close>

lemma oracle_role_step:
  assumes "books_inv t s" and "pe_exec tk e c s = Inr s'"
  shows "role_step ORACLE_CHANGE_TIMELOCK_SECONDS (timestamp e)
     (pe_oracle_address s) (pending_oracle s) (pe_oracle_address s') (pending_oracle s')"
  using assms(2)
proof (cases rule: role_call_cases)
  case other
  then show ?thesis by (simp add: role_step_def role_frame[OF other])
next
  case init
  then show ?thesis
    using start_none[OF assms(1)] initialize_roles[OF init] by (simp add: role_step_def pending_oracle_def)
next
  case propose_oracle
  then show ?thesis by (auto simp: role_step_def pending_oracle_def dest!: propose_oracle_change_ok)
qed (auto simp: role_ops_ok role_step_def pending_oracle_def)

interpretation pe_oracle_role: timelocked_role "pe_exec tk" "pe_fresh t" books_inv
    pe_oracle_address pending_oracle ORACLE_CHANGE_TIMELOCK_SECONDS for tk t
  by unfold_locales (simp add: ORACLE_CHANGE_TIMELOCK_SECONDS_def, rule oracle_role_step)

fun is_approval :: "pe_call \<Rightarrow> bool" where
  "is_approval (ApproveOracleChange g) \<longleftrightarrow> True"
| "is_approval _ \<longleftrightarrow> False"

definition unapproved :: "'t pe_state \<Rightarrow> bool" where
  "unapproved s \<longleftrightarrow> (\<forall>c. pe_pending_oracle_change s = Some c \<longrightarrow> \<not> oc_guardian_approved c)"

lemma unapproved_step:
  assumes "books_inv t s" "pe_exec tk e c s = Inr s'" "\<not> is_approval c" "unapproved s"
    "pe_oracle_address s \<noteq> None"
  shows "unapproved s' \<and> pe_oracle_address s' = pe_oracle_address s"
  using assms(2)
proof (cases rule: role_call_cases)
  case other
  then show ?thesis using assms(4) by (simp add: unapproved_def role_frame[OF other])
next
  case init
  then show ?thesis using start_none[OF assms(1)] initialize_roles[OF init] assms(5) by simp
next
  case propose_oracle
  then show ?thesis by (auto simp: unapproved_def dest!: propose_oracle_change_ok)
qed (use assms(3-5) in \<open>auto simp: role_ops_ok unapproved_def\<close>)

lemma unapproved_run:
  assumes "run (except is_approval (pe_exec tk)) t s t' s'" "books_inv t s" "0 \<le> t"
    "unapproved s" "pe_oracle_address s \<noteq> None"
  shows "unapproved s' \<and> pe_oracle_address s' = pe_oracle_address s"
  using assms
proof (induction rule: run.induct)
  case (run_refl t s)
  then show ?case by simp
next
  case (run_step t s t' s' e c s'')
  have "books_inv t' s'"
    using pe.inv_run[OF except_run[OF run_step.hyps(1)]] run_step.prems by blast
  moreover have "pe_exec tk e c s' = Inr s''" "\<not> is_approval c"
    using run_step.hyps(4) by (auto simp: except_def split: if_splits)
  ultimately show ?case using unapproved_step run_step by metis
qed

end
