(* ===== verification/PE_Book.thy ===== *)
theory PE_Book
  imports PE_Roles
begin

text \<open>
  What the calls of the policy engine amount to: the abstract book of policies they refine,
  what of a stored policy can still change, and the spacing of a buyer's purchases.
\<close>

section \<open>The abstract book\<close>

text \<open>
  The specification knows, for every issued number, only whether the cover is in force, was
  paid out, or ended without payment. Numbers are handed out consecutively; a cover in
  force can change hands, and is closed once.
\<close>

datatype cover = InForce address int | PaidOut address int | Ended

record book =
  bk_next :: int
  bk_cover :: "int \<rightharpoonup> cover"

inductive book_step :: "book \<Rightarrow> book \<Rightarrow> bool" where
  bk_issue: "bk_cover b (bk_next b) = None \<Longrightarrow> 0 < c \<Longrightarrow>
     book_step b (b\<lparr>bk_next := bk_next b + 1,
                    bk_cover := (bk_cover b)(bk_next b \<mapsto> InForce h c)\<rparr>)"
| bk_assign: "bk_cover b i = Some (InForce h c) \<Longrightarrow>
     book_step b (b\<lparr>bk_cover := (bk_cover b)(i \<mapsto> InForce h' c)\<rparr>)"
| bk_pay: "bk_cover b i = Some (InForce h c) \<Longrightarrow>
     book_step b (b\<lparr>bk_cover := (bk_cover b)(i \<mapsto> PaidOut h c)\<rparr>)"
| bk_end: "bk_cover b i = Some (InForce h c) \<Longrightarrow>
     book_step b (b\<lparr>bk_cover := (bk_cover b)(i \<mapsto> Ended)\<rparr>)"

inductive_cases book_stepE [elim]: "book_step b b'"

fun cover_of :: "policy_status \<Rightarrow> address \<Rightarrow> int \<Rightarrow> cover" where
  "cover_of PolicyActive h c = InForce h c"
| "cover_of Claimed h c = PaidOut h c"
| "cover_of Expired h c = Ended"
| "cover_of Cancelled h c = Ended"

definition book_of :: "'t pe_state \<Rightarrow> book" where
  "book_of s = \<lparr>bk_next = unwrap_or 1 (pe_next_policy_id s),
     bk_cover = (\<lambda>i. map_option (\<lambda>p. cover_of (po_status p) (po_policyholder p)
                                    (po_coverage_amount p)) (pe_policies s i))\<rparr>"

lemma book_of_same:
  "pe_policies s' = pe_policies s \<Longrightarrow> pe_next_policy_id s' = pe_next_policy_id s \<Longrightarrow>
     book_of s' = book_of s"
  by (simp add: book_of_def)

lemma book_of_upd:
  assumes "pe_policies s' = (pe_policies s)(i \<mapsto> p)"
  shows "book_of s' = \<lparr>bk_next = unwrap_or 1 (pe_next_policy_id s'),
     bk_cover = (bk_cover (book_of s))(i \<mapsto> cover_of (po_status p) (po_policyholder p)
                                              (po_coverage_amount p))\<rparr>"
  by (auto simp: book_of_def assms)

lemma book_update: "\<lparr>bk_next = bk_next b, bk_cover = m\<rparr> = b\<lparr>bk_cover := m\<rparr>"
  by simp

lemma book_of_fields [simp]:
  "bk_next (book_of s) = unwrap_or 1 (pe_next_policy_id s)"
  "bk_cover (book_of s) i = map_option (\<lambda>p. cover_of (po_status p) (po_policyholder p)
                                    (po_coverage_amount p)) (pe_policies s i)"
  by (simp_all add: book_of_def)

text \<open>One effect is one step of the book, or none.\<close>

lemma book_effect:
  assumes "pe_effect now s s'" "start_inv s" "policies_inv s"
  shows "book_step\<^sup>*\<^sup>* (book_of s) (book_of s')"
  using assms
proof (induction rule: pe_effect.induct)
  case (eff_init s s' ev)
  then have "book_of s' = book_of s"
    by (simp add: book_of_def start_inv_def inert_def)
  then show ?case by simp
next
  case (eff_issue s pid product cov dur premium start i b key t)
  then have "pe_policies s i = None"
    by (cases "pe_policies s i") (auto simp: policies_inv_def)
  then have "book_step (book_of s) ((book_of s)\<lparr>bk_next := bk_next (book_of s) + 1,
      bk_cover := (bk_cover (book_of s))(bk_next (book_of s) \<mapsto> InForce b cov)\<rparr>)"
    using eff_issue by (intro bk_issue) auto
  moreover have "(book_of s)\<lparr>bk_next := bk_next (book_of s) + 1,
      bk_cover := (bk_cover (book_of s))(bk_next (book_of s) \<mapsto> InForce b cov)\<rparr> =
      book_of (s\<lparr>pe_tokens := t, pe_next_policy_id := Some (i + 1),
         pe_last_purchase := (pe_last_purchase s)((b, key) \<mapsto> now),
         pe_policies := (pe_policies s)(i \<mapsto> new_policy i pid b cov premium key product start
                              (start + dur * 86400) now),
         pe_user_policies := (pe_user_policies s)(b \<mapsto> ids_of s b @ [i]),
         pe_events := EvBuyPolicy b i pid cov premium # pe_events s\<rparr>)"
    using eff_issue.hyps(13) by (auto simp: book_of_def new_policy_def)
  ultimately show ?case by simp
next
  case (eff_move s i p "from" to s1)
  have "book_step (book_of s)
      ((book_of s)\<lparr>bk_cover := (bk_cover (book_of s))(i \<mapsto> InForce to (po_coverage_amount p))\<rparr>)"
    using eff_move by (intro bk_assign) auto
  moreover have "(book_of s)\<lparr>bk_cover := (bk_cover (book_of s))
        (i \<mapsto> InForce to (po_coverage_amount p))\<rparr> =
      book_of (s1\<lparr>pe_user_policies := (pe_user_policies s1)(to \<mapsto> ids_of s1 to @ [i]),
         pe_events := EvPolicyTransferred i from to # pe_events s\<rparr>)"
    using eff_move by (auto simp: book_of_def)
  ultimately show ?case by simp
next
  case (eff_close s i p st ev s1 t)
  let ?c = "cover_of st (po_policyholder p) (po_coverage_amount p)"
  have "book_step (book_of s) ((book_of s)\<lparr>bk_cover := (bk_cover (book_of s))(i \<mapsto> ?c)\<rparr>)"
    using eff_close by (cases st) (auto intro: bk_pay bk_end)
  moreover have "(book_of s)\<lparr>bk_cover := (bk_cover (book_of s))(i \<mapsto> ?c)\<rparr> =
      book_of (s1\<lparr>pe_tokens := t, pe_events := ev # pe_events s\<rparr>)"
    using eff_close by (auto simp: book_of_def)
  ultimately show ?case by simp
qed (simp_all add: book_of_def same_books_def warn_policy_def publish_def)

lemma book_effects:
  assumes "effects now s s'" "start_inv s" "catalogue_inv s" "policies_inv s"
  shows "book_step\<^sup>*\<^sup>* (book_of s) (book_of s') \<and> start_inv s' \<and> catalogue_inv s' \<and> policies_inv s'"
  using assms unfolding effects_def
proof (induction rule: rtranclp_induct)
  case base
  then show ?case by simp
next
  case (step b c)
  then show ?case
    using book_effect start_effect catalogue_effect policies_effect by (meson rtranclp_trans)
qed

section \<open>What can change of a policy\<close>

definition ages :: "policy \<Rightarrow> policy \<Rightarrow> bool" where
  "ages p p' \<longleftrightarrow> p' = p\<lparr>po_policyholder := po_policyholder p', po_status := po_status p'\<rparr>
     \<and> (po_status p \<noteq> PolicyActive \<longrightarrow> p' = p)"

lemma ages_refl [simp]: "ages p p"
  by (simp add: ages_def)

lemma ages_trans: "ages p q \<Longrightarrow> ages q r \<Longrightarrow> ages p r"
  by (cases p; cases q; cases r) (auto simp: ages_def)

lemma ages_upd:
  "po_status p = PolicyActive \<Longrightarrow> ages p (p\<lparr>po_policyholder := h\<rparr>)"
  "po_status p = PolicyActive \<Longrightarrow> ages p (p\<lparr>po_status := st\<rparr>)"
  by (simp_all add: ages_def)

lemma ages_effect:
  assumes "pe_effect now s s'" "start_inv s" "policies_inv s" "pe_policies s j = Some q"
  shows "\<exists>q'. pe_policies s' j = Some q' \<and> ages q q'"
  using assms
proof (induction rule: pe_effect.induct)
  case (eff_issue s pid product cov dur premium start i b key t)
  then have "j \<noteq> i" by (auto simp: policies_inv_def)
  then show ?case using eff_issue by simp
qed (auto simp: same_books_def warn_policy_def publish_def ages_upd)

lemma ages_effects:
  assumes "effects now s s'" "books_inv now s" "0 \<le> now" "pe_policies s j = Some q"
  shows "\<exists>q'. pe_policies s' j = Some q' \<and> ages q q'"
proof -
  have "books_inv now s' \<and> (\<exists>q'. pe_policies s' j = Some q' \<and> ages q q')"
    using assms(1)
  proof (rule effects_inv)
    show "books_inv now s \<and> (\<exists>q'. pe_policies s j = Some q' \<and> ages q q')"
      using assms by auto
  next
    fix a b
    assume a: "books_inv now a \<and> (\<exists>q'. pe_policies a j = Some q' \<and> ages q q')"
      and e: "pe_effect now a b"
    then obtain q' where "pe_policies a j = Some q'" "ages q q'" by blast
    then obtain q'' where "pe_policies b j = Some q''" "ages q' q''"
      using ages_effect[OF e] a by (auto simp: books_inv_def)
    then show "books_inv now b \<and> (\<exists>q'. pe_policies b j = Some q' \<and> ages q q')"
      using books_effect[OF e assms(3)] a \<open>ages q q'\<close> ages_trans by blast
  qed
  then show ?thesis by blast
qed

lemma ages_run:
  assumes "run (pe_exec tk) t s t' s'" "books_inv t s" "0 \<le> t" "pe_policies s j = Some q"
  shows "\<exists>q'. pe_policies s' j = Some q' \<and> ages q q'"
  using assms
proof (induction rule: run.induct)
  case (run_refl t s)
  then show ?case by simp
next
  case (run_step t s t' s' e c s'')
  have inv: "books_inv (timestamp e) s'"
    using pe.inv_run[OF run_step.hyps(1)] run_step.prems run_step.hyps(2) books_later by blast
  have "0 \<le> timestamp e" using run_time[OF run_step.hyps(1)] run_step by simp
  moreover obtain q' where "pe_policies s' j = Some q'" "ages q q'" using run_step by blast
  ultimately show ?case
    using ages_effects[OF exec_effects[OF run_step.hyps(4)] inv] ages_trans by blast
qed

section \<open>The spacing of purchases\<close>

definition bought :: "'t pe_state \<Rightarrow> address \<Rightarrow> int \<Rightarrow> bool" where
  "bought s b i \<longleftrightarrow> (\<exists>pid cov premium. EvBuyPolicy b i pid cov premium \<in> set (pe_events s))"

definition apart :: "policy \<Rightarrow> policy \<Rightarrow> bool" where
  "apart p q \<longleftrightarrow> sat_u64 (po_created_at p + PURCHASE_COOLING_OFF_SECONDS) \<le> po_created_at q
     \<or> sat_u64 (po_created_at q + PURCHASE_COOLING_OFF_SECONDS) \<le> po_created_at p"

definition spaced_inv :: "'t pe_state \<Rightarrow> bool" where
  "spaced_inv s \<longleftrightarrow>
     (\<forall>b i. bought s b i \<longrightarrow> (\<exists>p l. pe_policies s i = Some p
        \<and> pe_last_purchase s (b, po_oracle_key p) = Some l \<and> po_created_at p \<le> l))
   \<and> (\<forall>b i j p q. bought s b i \<longrightarrow> bought s b j \<longrightarrow> i \<noteq> j \<longrightarrow> pe_policies s i = Some p \<longrightarrow>
        pe_policies s j = Some q \<longrightarrow> po_oracle_key p = po_oracle_key q \<longrightarrow> apart p q)"

lemma spaced_buy:
  "spaced_inv s \<Longrightarrow> bought s b i \<Longrightarrow> \<exists>p l. pe_policies s i = Some p
     \<and> pe_last_purchase s (b, po_oracle_key p) = Some l \<and> po_created_at p \<le> l"
  by (simp add: spaced_inv_def)

lemma spaced_pair:
  "spaced_inv s \<Longrightarrow> bought s b i \<Longrightarrow> bought s b j \<Longrightarrow> i \<noteq> j \<Longrightarrow> pe_policies s i = Some p \<Longrightarrow>
     pe_policies s j = Some q \<Longrightarrow> po_oracle_key p = po_oracle_key q \<Longrightarrow> apart p q"
  unfolding spaced_inv_def by blast

lemma ages_fields:
  "ages p p' \<Longrightarrow> po_created_at p' = po_created_at p \<and> po_oracle_key p' = po_oracle_key p"
  by (cases p; cases p') (auto simp: ages_def)

lemma spaced_frame:
  assumes "spaced_inv s" "bought s' = bought s" "pe_last_purchase s' = pe_last_purchase s"
    and "\<And>j q. pe_policies s j = Some q \<Longrightarrow> \<exists>q'. pe_policies s' j = Some q' \<and> ages q q'"
  shows "spaced_inv s'"
  unfolding spaced_inv_def
proof (intro conjI allI impI)
  fix b i assume "bought s' b i"
  then obtain p l where p: "pe_policies s i = Some p" "po_created_at p \<le> l"
      "pe_last_purchase s (b, po_oracle_key p) = Some l"
    using spaced_buy[OF assms(1)] unfolding assms(2) by blast
  then obtain p' where "pe_policies s' i = Some p'" "ages p p'" using assms(4) by blast
  then show "\<exists>p l. pe_policies s' i = Some p \<and> pe_last_purchase s' (b, po_oracle_key p) = Some l
      \<and> po_created_at p \<le> l"
    using p ages_fields by (intro exI[of _ p'] exI[of _ l]) (simp add: assms(3))
next
  fix b i j p' q'
  assume bought': "bought s' b i" "bought s' b j" and "i \<noteq> j"
    and pq': "pe_policies s' i = Some p'" "pe_policies s' j = Some q'"
    and key: "po_oracle_key p' = po_oracle_key q'"
  obtain p q where pq: "pe_policies s i = Some p" "pe_policies s j = Some q"
    using bought' spaced_buy[OF assms(1)] unfolding assms(2) by blast
  then have "ages p p'" "ages q q'" using pq' assms(4) by fastforce+
  note same = ages_fields[OF this(1)] ages_fields[OF this(2)]
  have "apart p q"
    using spaced_pair[OF assms(1) _ _ \<open>i \<noteq> j\<close> pq] bought' key same by (simp add: assms(2))
  then show "apart p' q'" using same by (simp add: apart_def)
qed

definition is_buy :: "pe_event \<Rightarrow> bool" where
  "is_buy ev \<longleftrightarrow> (case ev of EvBuyPolicy _ _ _ _ _ \<Rightarrow> True | _ \<Rightarrow> False)"

lemma bought_more:
  "pe_events s' = evs @ pe_events s \<Longrightarrow> list_all (\<lambda>ev. \<not> is_buy ev) evs \<Longrightarrow> bought s' = bought s"
  by (intro ext) (auto simp: bought_def is_buy_def list_all_iff)

lemma not_buy:
  "quiet ev \<Longrightarrow> \<not> is_buy ev" "closes_with i p st ev \<Longrightarrow> \<not> is_buy ev"
  by (cases ev; simp add: quiet_def is_buy_def) (cases st; auto simp: is_buy_def)

lemma apart_sym: "apart p q \<longleftrightarrow> apart q p"
  by (auto simp: apart_def)

lemma spaced_issue:
  assumes "spaced_inv s" "pe_policies s i = None"
    and upd: "pe_policies s' = (pe_policies s)(i \<mapsto> p)"
      "pe_last_purchase s' = (pe_last_purchase s)((b, key) \<mapsto> now)"
      "\<And>c j. bought s' c j \<longleftrightarrow> bought s c j \<or> c = b \<and> j = i"
    and p: "po_created_at p = now" "po_oracle_key p = key"
    and cool: "\<And>l. pe_last_purchase s (b, key) = Some l \<Longrightarrow>
       l \<le> now \<and> sat_u64 (l + PURCHASE_COOLING_OFF_SECONDS) \<le> now"
  shows "spaced_inv s'"
proof -
  note old = spaced_buy[OF assms(1)]
  have new: "apart q p" if j: "bought s b j" "pe_policies s j = Some q" "po_oracle_key q = key" for j q
  proof -
    obtain l where "pe_last_purchase s (b, key) = Some l" "po_created_at q \<le> l"
      using old[OF j(1)] j(2,3) by auto
    then show ?thesis using cool p by (fastforce simp: apart_def sat_u64_def)
  qed
  show ?thesis unfolding spaced_inv_def
  proof (intro conjI allI impI)
    fix c j assume "bought s' c j"
    then consider "c = b" "j = i" | "bought s c j" "j \<noteq> i"
      using upd(3) old assms(2) by fastforce
    then show "\<exists>q l. pe_policies s' j = Some q \<and> pe_last_purchase s' (c, po_oracle_key q) = Some l
        \<and> po_created_at q \<le> l"
    proof cases
      case 1
      then show ?thesis using p by (simp add: upd)
    next
      case 2
      obtain q l where q: "pe_policies s j = Some q" "po_created_at q \<le> l"
        "pe_last_purchase s (c, po_oracle_key q) = Some l" using old[OF 2(1)] by blast
      then show ?thesis using 2(2) cool by (fastforce simp: upd)
    qed
  next
    fix c j k q r
    assume *: "bought s' c j" "bought s' c k" "j \<noteq> k" "pe_policies s' j = Some q"
      "pe_policies s' k = Some r" "po_oracle_key q = po_oracle_key r"
    consider "j = i" "k \<noteq> i" | "k = i" "j \<noteq> i" | "j \<noteq> i" "k \<noteq> i" using *(3) by blast
    then show "apart q r"
    proof cases
      case 1
      then have "q = p" "c = b \<or> bought s c i" "bought s c k" "pe_policies s k = Some r"
        using * by (auto simp: upd)
      then show ?thesis using new[of k r] old[of c i] assms(2) *(6) p(2) apart_sym by fastforce
    next
      case 2
      then have "r = p" "c = b \<or> bought s c i" "bought s c j" "pe_policies s j = Some q"
        using * by (auto simp: upd)
      then show ?thesis using new[of j q] old[of c i] assms(2) *(6) p(2) by fastforce
    next
      case 3
      then show ?thesis using * spaced_pair[OF assms(1)] by (simp add: upd)
    qed
  qed
qed

text \<open>An effect is a purchase, outside the cooling-off period, or none at all.\<close>

definition purchase :: "int \<Rightarrow> 't pe_state \<Rightarrow> 't pe_state \<Rightarrow> bool" where
  "purchase now s s' \<longleftrightarrow> (\<exists>i b key p. i = unwrap_or 1 (pe_next_policy_id s)
     \<and> pe_policies s' = (pe_policies s)(i \<mapsto> p) \<and> po_created_at p = now \<and> po_oracle_key p = key
     \<and> pe_last_purchase s' = (pe_last_purchase s)((b, key) \<mapsto> now)
     \<and> (\<forall>c j. bought s' c j \<longleftrightarrow> bought s c j \<or> c = b \<and> j = i)
     \<and> (\<forall>l. pe_last_purchase s (b, key) = Some l \<longrightarrow>
          sat_u64 (l + PURCHASE_COOLING_OFF_SECONDS) \<le> now))"

lemma purchase_or_not:
  assumes "pe_effect now s s'"
  shows "purchase now s s' \<or> bought s' = bought s \<and> pe_last_purchase s' = pe_last_purchase s"
  using assms
proof (induction rule: pe_effect.induct)
  case (eff_issue s pid product cov dur premium start i b key t)
  then show ?case
    by (intro disjI1, unfold purchase_def, intro exI[of _ i] exI[of _ b] exI[of _ key]
          exI[of _ "new_policy i pid b cov premium key product start (start + dur * 86400) now"])
       (auto simp: new_policy_def bought_def)
next
  case (eff_admin s s' evs)
  then show ?case using bought_more[of s' evs s] by (simp add: same_books_def list_all_iff not_buy)
next
  case (eff_init s s' ev)
  then show ?case using bought_more[of s' "[ev]" s] by (simp add: not_buy)
next
  case (eff_list s i p ev keys names counts)
  then show ?case by (intro disjI2 conjI bought_more[of _ "[ev]"]) (simp_all add: not_buy)
next
  case (eff_retire s i p st evs counts names keys)
  then show ?case by (intro disjI2 conjI bought_more[of _ evs]) (simp_all add: list_all_iff not_buy)
next
  case (eff_move s i p "from" to s1)
  then show ?case
    by (intro disjI2 conjI bought_more[of _ "[EvPolicyTransferred i from to]"])
       (simp_all add: is_buy_def)
next
  case (eff_close s i p st ev s1 t)
  then show ?case by (intro disjI2 conjI bought_more[of _ "[ev]"]) (simp_all add: not_buy)
next
  case (eff_warn s i p rem)
  then show ?case
    by (intro disjI2 conjI bought_more[of _ "[EvPolicyExpiringSoon i (po_policyholder p)
           (po_product_id p) (po_coverage_amount p) (po_end_time p) rem]"])
       (simp_all add: is_buy_def warn_policy_def publish_def)
qed

lemma spaced_effect:
  assumes "pe_effect now s s'" "books_inv now s" "spaced_inv s"
  shows "spaced_inv s'"
  using purchase_or_not[OF assms(1)]
proof
  assume "purchase now s s'"
  then obtain i b key p where buy: "i = unwrap_or 1 (pe_next_policy_id s)"
    "pe_policies s' = (pe_policies s)(i \<mapsto> p)" "po_created_at p = now" "po_oracle_key p = key"
    "pe_last_purchase s' = (pe_last_purchase s)((b, key) \<mapsto> now)"
    "\<And>c j. bought s' c j \<longleftrightarrow> bought s c j \<or> c = b \<and> j = i"
    "\<And>l. pe_last_purchase s (b, key) = Some l \<Longrightarrow>
        sat_u64 (l + PURCHASE_COOLING_OFF_SECONDS) \<le> now"
    unfolding purchase_def by blast
  have "pe_policies s i = None"
    using assms(2) buy(1) by (cases "pe_policies s i") (auto simp: books_inv_def policies_inv_def)
  then show ?thesis
    using assms(2) buy(7)
    by (intro spaced_issue[OF assms(3) _ buy(2,5,6,3,4)]) (auto simp: books_inv_def clock_inv_def)
next
  assume "bought s' = bought s \<and> pe_last_purchase s' = pe_last_purchase s"
  moreover have "start_inv s" "policies_inv s" using assms(2) by (simp_all add: books_inv_def)
  ultimately show ?thesis
    by (intro spaced_frame[OF assms(3)] ages_effect[OF assms(1)]) simp_all
qed

lemma spaced_call:
  assumes "books_inv t s \<and> spaced_inv s" "0 \<le> t" "t \<le> timestamp e" "pe_exec tk e c s = Inr s'"
  shows "books_inv (timestamp e) s' \<and> spaced_inv s'"
proof (rule effects_inv[OF exec_effects[OF assms(4)]])
  show "books_inv (timestamp e) s \<and> spaced_inv s" using assms(1,3) books_later by blast
next
  fix a b
  assume "books_inv (timestamp e) a \<and> spaced_inv a" "pe_effect (timestamp e) a b"
  then show "books_inv (timestamp e) b \<and> spaced_inv b"
    using books_effect spaced_effect assms(2,3) by (meson order_trans)
qed

interpretation pe_spaced: invariant_system "pe_exec tk" "pe_fresh t"
    "\<lambda>now s. books_inv now s \<and> spaced_inv s" for tk t
proof unfold_locales
  show "books_inv now (pe_fresh t) \<and> spaced_inv (pe_fresh t)" if "0 \<le> now" for now
    using books_fresh[OF that, of t] by (simp add: spaced_inv_def bought_def pe_fresh_def)
qed (rule spaced_call)

end
