(* ===== verification/PE_Accounts.thy ===== *)
theory PE_Accounts
  imports PE_Book
begin

text \<open>
  The arithmetic of the policy engine in the states it can reach: the price of a policy,
  the refund of a cancellation, the statistics of a product, the pages of a user's index,
  and the purchases of a batch.
\<close>

section \<open>Premium and refund\<close>

lemma premium_bound:
  assumes "required_premium pr cov days = Some v" "0 \<le> cov" "0 \<le> days" "days \<le> 3650"
    "0 \<le> pr_premium_rate_bps pr" "pr_premium_rate_bps pr \<le> 5000"
  shows "v = cov * pr_premium_rate_bps pr * days div 3650000" "0 \<le> v" "v \<le> 5 * cov"
proof -
  let ?n = "cov * pr_premium_rate_bps pr * days"
  have n: "0 \<le> ?n" using assms by simp
  have v: "v = ?n div 365 div 10000"
    using required_premium_eq[OF assms(1)] n by (simp add: sdiv_nonneg pos_imp_zdiv_nonneg_iff)
  then show "v = ?n div 3650000" by (simp add: zdiv_zmult2_eq[symmetric])
  then show "0 \<le> v" using n by simp
  have "pr_premium_rate_bps pr * days \<le> 5000 * 3650"
    using assms by (intro mult_mono) auto
  then have "?n \<le> cov * (5000 * 3650)"
    using assms(2) by (simp add: mult.assoc mult_left_mono)
  then have "?n div 3650000 \<le> cov * (5000 * 3650) div 3650000" by (rule zdiv_mono1) simp
  then show "v \<le> 5 * cov" using \<open>v = ?n div 3650000\<close> by simp
qed

text \<open>The seconds of its term a policy has run at a given time.\<close>

definition seconds_run :: "int \<Rightarrow> policy \<Rightarrow> int" where
  "seconds_run now p = max 0 (min (now - po_start_time p) (po_end_time p - po_start_time p))"

definition policy_bounds :: "policy \<Rightarrow> bool" where
  "policy_bounds p \<longleftrightarrow>
     0 < po_coverage_amount p \<and> po_coverage_amount p \<le> MAX_COVERAGE_LIMIT
     \<and> 0 < po_premium_paid p \<and> po_premium_paid p \<le> 5 * po_coverage_amount p
     \<and> po_created_at p \<le> po_start_time p
     \<and> po_start_time p < po_end_time p \<and> po_end_time p - po_start_time p \<le> 3650 * 86400"

lemma issued_bounds:
  assumes "issued_under pr p" "sound_product j pr"
  shows "policy_bounds p"
proof -
  obtain days where d: "0 < days" "days \<le> pr_max_duration_days pr"
    "po_end_time p = po_start_time p + days * 86400"
    "required_premium pr (po_coverage_amount p) days = Some (po_premium_paid p)"
    using assms(1) by (auto simp: issued_under_def)
  have "days \<le> 3650" using d assms(2) by (simp add: sound_product_def product_terms_def)
  moreover have "0 < po_coverage_amount p"
    using assms by (auto simp: issued_under_def sound_product_def product_terms_def)
  ultimately have "po_premium_paid p \<le> 5 * po_coverage_amount p"
    using premium_bound(3)[OF d(4)] d(1) assms(2)
    by (simp add: sound_product_def product_terms_def)
  then show ?thesis
    using assms d \<open>days \<le> 3650\<close>
    by (auto simp: policy_bounds_def issued_under_def sound_product_def product_terms_def)
qed

lemma policy_sound:
  assumes "books_inv now s" "pe_policies s i = Some p"
  obtains pr where "pe_products s (po_product_id p) = Some pr" "issued_under pr p"
    "sound_product (po_product_id p) pr" "po_id p = i"
proof -
  have "po_id p = i \<and> (\<exists>pr. pe_products s (po_product_id p) = Some pr \<and> issued_under pr p)"
    using assms by (simp add: books_inv_def policies_inv_def)
  moreover have "sound_product j pr" if "pe_products s j = Some pr" for j pr
    using assms(1) that by (simp add: books_inv_def catalogue_inv_def)
  ultimately show ?thesis using that by blast
qed

lemma policy_in_bounds: "books_inv now s \<Longrightarrow> pe_policies s i = Some p \<Longrightarrow> policy_bounds p"
  by (erule (1) policy_sound) (rule issued_bounds)

lemma refund_exact:
  assumes "policy_bounds p"
  shows "cancel_refund e p = Inr (po_premium_paid p -
     po_premium_paid p * seconds_run (timestamp e) p div (po_end_time p - po_start_time p))"
proof -
  let ?total = "po_end_time p - po_start_time p" and ?run = "seconds_run (timestamp e) p"
  have total: "0 < ?total" "?total \<le> 315360000" using assms by (auto simp: policy_bounds_def)
  have prem: "0 < po_premium_paid p" "po_premium_paid p \<le> 5000000000000"
    using assms by (auto simp: policy_bounds_def num_defs)
  have run: "0 \<le> ?run" "?run \<le> ?total" using total by (auto simp: seconds_run_def)
  have sat: "sat_u64 ?total = ?total" "min (sat_u64 (timestamp e - po_start_time p)) ?total = ?run"
    using total by (auto simp: seconds_run_def num_defs)
  have prod: "0 \<le> po_premium_paid p * ?run" "po_premium_paid p * ?run \<le> po_premium_paid p * ?total"
    using prem run by (auto intro: mult_left_mono)
  moreover have "po_premium_paid p * ?total \<le> 5000000000000 * 315360000"
    using prem total by (intro mult_mono) auto
  ultimately have fits: "fits_i128 (po_premium_paid p * ?run)" by (simp add: num_defs)
  have q: "0 \<le> po_premium_paid p * ?run div ?total" "po_premium_paid p * ?run div ?total \<le> po_premium_paid p"
    using prod total zdiv_mono1[OF prod(2) total(1)] by (auto simp: pos_imp_zdiv_nonneg_iff)
  have "fits_i128 (po_premium_paid p * ?run div ?total)"
    "fits_i128 (po_premium_paid p - po_premium_paid p * ?run div ?total)"
    using q prem by (auto simp: num_defs)
  then show ?thesis
    unfolding cancel_refund_def Let_def sat
    using total fits sdiv_nonneg[OF prod(1) total(1)]
    by (simp add: checked_mul_def checked_div_def checked_i128_def)
qed

lemma refund_bounds:
  assumes "policy_bounds p" "cancel_refund e p = Inr r"
  shows "0 \<le> r" "r \<le> po_premium_paid p"
    "timestamp e \<le> po_start_time p \<Longrightarrow> r = po_premium_paid p"
    "po_end_time p \<le> timestamp e \<Longrightarrow> r = 0"
    "\<lbrakk>cancel_refund e' p = Inr r'; timestamp e \<le> timestamp e'\<rbrakk> \<Longrightarrow> r' \<le> r"
proof -
  let ?P = "po_premium_paid p" and ?T = "po_end_time p - po_start_time p"
  have P: "0 < ?P" and T: "0 < ?T" using assms(1) by (auto simp: policy_bounds_def)
  have r: "r = ?P - ?P * seconds_run (timestamp e) p div ?T"
    using assms(2) refund_exact[OF assms(1), of e] by simp
  have run: "0 \<le> seconds_run t p" "seconds_run t p \<le> ?T" for t using T by (auto simp: seconds_run_def)
  have up: "?P * seconds_run t p div ?T \<le> ?P * seconds_run t' p div ?T" if "t \<le> t'" for t t'
    using that P T by (intro zdiv_mono1 mult_left_mono) (auto simp: seconds_run_def)
  have "?P * seconds_run (timestamp e) p \<le> ?P * ?T" using P run by (intro mult_left_mono) auto
  then have "?P * seconds_run (timestamp e) p div ?T \<le> ?P"
    using zdiv_mono1[of _ "?P * ?T" ?T] T by simp
  then show "0 \<le> r" using r by simp
  show "r \<le> ?P" using r P T run by (simp add: pos_imp_zdiv_nonneg_iff)
  show "timestamp e \<le> po_start_time p \<Longrightarrow> r = ?P" using r by (simp add: seconds_run_def)
  show "po_end_time p \<le> timestamp e \<Longrightarrow> r = 0" using r T by (simp add: seconds_run_def)
  show "r' \<le> r" if "cancel_refund e' p = Inr r'" "timestamp e \<le> timestamp e'"
    using that(1) refund_exact[OF assms(1), of e'] up[OF that(2)] r by simp
qed

section \<open>Statistics\<close>

definition sold_under :: "'t pe_state \<Rightarrow> int \<Rightarrow> policy list" where
  "sold_under s pid = filter (\<lambda>p. po_product_id p = pid)
     (List.map_filter (pe_policies s) [1 .. unwrap_or 1 (pe_next_policy_id s) - 1])"

definition totals :: "policy list \<Rightarrow> product_stats \<Rightarrow> product_stats" where
  "totals ps acc = acc\<lparr>
     st_total_policies := st_total_policies acc + int (length ps),
     st_active_policies := st_active_policies acc
       + int (length (filter (\<lambda>p. po_status p = PolicyActive) ps)),
     st_total_coverage := st_total_coverage acc + sum_list (map po_coverage_amount ps),
     st_total_premium_collected := st_total_premium_collected acc
       + sum_list (map po_premium_paid ps)\<rparr>"

text \<open>
  No saturating sum of the loop saturates: the counters trap first. An accumulator is in
  range when its sums are bounded by its count.
\<close>

definition in_range :: "product_stats \<Rightarrow> bool" where
  "in_range acc \<longleftrightarrow> 0 \<le> st_active_policies acc \<and> st_active_policies acc \<le> st_total_policies acc
     \<and> st_total_policies acc \<le> u32_max
     \<and> 0 \<le> st_total_coverage acc
     \<and> st_total_coverage acc \<le> st_total_policies acc * MAX_COVERAGE_LIMIT
     \<and> 0 \<le> st_total_premium_collected acc
     \<and> st_total_premium_collected acc \<le> st_total_policies acc * (5 * MAX_COVERAGE_LIMIT)"

lemma count_exact:
  assumes "in_range acc" "policy_bounds p" "po_product_id p = pid"
  shows "count_policy pid (Some p) acc =
    (if st_total_policies acc + 1 \<le> u32_max then Inr (totals [p] acc) else trap)"
    and "st_total_policies acc + 1 \<le> u32_max \<Longrightarrow> in_range (totals [p] acc)"
proof -
  have b: "0 < po_coverage_amount p" "po_coverage_amount p \<le> 1000000000000"
    "0 < po_premium_paid p" "po_premium_paid p \<le> 5000000000000"
    using assms(2) by (auto simp: policy_bounds_def num_defs)
  have a: "0 \<le> st_total_policies acc" "st_active_policies acc + 1 \<le> st_total_policies acc + 1"
    "0 \<le> st_active_policies acc"
    "st_total_coverage acc \<le> st_total_policies acc * 1000000000000"
    "st_total_premium_collected acc \<le> st_total_policies acc * 5000000000000"
    "st_total_policies acc \<le> 4294967295" "0 \<le> st_total_coverage acc"
    "0 \<le> st_total_premium_collected acc"
    using assms(1) by (auto simp: in_range_def num_defs)
  have sums: "fits_i128 (st_total_coverage acc + po_coverage_amount p)"
    "fits_i128 (st_total_premium_collected acc + po_premium_paid p)"
    using a b by (auto simp: num_defs)
  show "count_policy pid (Some p) acc =
    (if st_total_policies acc + 1 \<le> u32_max then Inr (totals [p] acc) else trap)"
    using a sums assms(3) by (simp add: count_policy_def u32_def totals_def)
  show "in_range (totals [p] acc)" if "st_total_policies acc + 1 \<le> u32_max"
    using that a b by (auto simp: in_range_def totals_def num_defs)
qed

lemma totals_Cons: "totals (p # ps) acc = totals ps (totals [p] acc)"
  by (simp add: totals_def)

lemma totals_Nil [simp]: "totals [] acc = acc"
  by (simp add: totals_def)

lemma stats_loop_exact:
  assumes "\<And>i p. policies i = Some p \<Longrightarrow> policy_bounds p" "in_range acc"
  shows "stats_loop pid policies is acc =
    (let ps = filter (\<lambda>p. po_product_id p = pid) (List.map_filter policies is)
     in if st_total_policies acc + int (length ps) \<le> u32_max then Inr (totals ps acc) else trap)"
  using assms(2)
proof (induction "is" arbitrary: acc)
  case Nil
  then show ?case by (simp add: in_range_def)
next
  case (Cons i "is")
  show ?case
  proof (cases "\<exists>p. policies i = Some p \<and> po_product_id p = pid")
    case False
    then have "count_policy pid (policies i) acc = Inr acc"
      by (auto simp: count_policy_def split: option.splits)
    moreover have "filter (\<lambda>p. po_product_id p = pid) (List.map_filter policies (i # is))
        = filter (\<lambda>p. po_product_id p = pid) (List.map_filter policies is)"
      using False by (cases "policies i") auto
    ultimately show ?thesis using Cons by (simp only: stats_loop.simps bindR_Inr)
  next
    case True
    then obtain p where p: "policies i = Some p" "po_product_id p = pid" by blast
    note one = count_exact[OF Cons.prems assms(1)[OF p(1)] p(2)]
    have "st_total_policies (totals [p] acc) = st_total_policies acc + 1"
      by (simp add: totals_def)
    moreover have "filter (\<lambda>p. po_product_id p = pid) (List.map_filter policies (i # is))
        = p # filter (\<lambda>p. po_product_id p = pid) (List.map_filter policies is)"
      using p by simp
    ultimately show ?thesis
      using p(1) one Cons.IH[of "totals [p] acc"]
      by (cases "st_total_policies acc + 1 \<le> u32_max")
         (simp_all add: Let_def totals_Cons[of p "filter _ _"] add.assoc)
  qed
qed

lemma stats_exact:
  assumes "books_inv now s"
  shows "get_product_stats pid s =
    (if int (length (sold_under s pid)) \<le> u32_max
     then Inr (totals (sold_under s pid) \<lparr>st_product_id = pid, st_total_policies = 0,
             st_active_policies = 0, st_total_coverage = 0, st_total_premium_collected = 0\<rparr>)
     else trap)"
proof (cases "pe_products s pid")
  case None
  have "po_product_id p \<noteq> pid" if "pe_policies s i = Some p" for i p
    using assms that None by (elim policy_sound) auto
  then have "sold_under s pid = []"
    by (auto simp: sold_under_def map_filter_def filter_empty_conv)
  then show ?thesis using None by (simp add: get_product_stats_def num_defs)
next
  case (Some pr)
  have "in_range \<lparr>st_product_id = pid, st_total_policies = 0,
       st_active_policies = 0, st_total_coverage = 0, st_total_premium_collected = 0\<rparr>"
    by (simp add: in_range_def num_defs)
  from stats_loop_exact[OF policy_in_bounds[OF assms] this] show ?thesis
    using Some by (simp add: get_product_stats_def sold_under_def Let_def)
qed

lemma sold_under_set:
  assumes "books_inv now s"
  shows "set (sold_under s pid) = {p. \<exists>i. pe_policies s i = Some p \<and> po_product_id p = pid}"
    and "distinct (sold_under s pid)"
proof -
  have ids: "po_id p = i \<and> 1 \<le> i \<and> i < unwrap_or 1 (pe_next_policy_id s)"
    if "pe_policies s i = Some p" for i p
    using assms that by (simp add: books_inv_def policies_inv_def)
  then show "set (sold_under s pid) = {p. \<exists>i. pe_policies s i = Some p \<and> po_product_id p = pid}"
    by (force simp: sold_under_def map_filter_def)
  have "inj_on (\<lambda>i. the (pe_policies s i)) {i. pe_policies s i \<noteq> None}"
    using ids by (auto simp: inj_on_def) metis
  then show "distinct (sold_under s pid)"
    unfolding sold_under_def map_filter_def
    by (auto simp: distinct_map comp_def intro!: distinct_filter elim!: inj_on_subset)
qed

section \<open>Pages\<close>

lemma slice_upto:
  "0 \<le> a \<Longrightarrow> a \<le> b \<Longrightarrow> b \<le> int (length xs) \<Longrightarrow>
     map (\<lambda>i. xs ! nat i) [a .. b - 1] = take (nat (b - a)) (drop (nat a) xs)"
  by (intro nth_equalityI) (auto simp: nat_add_distrib nth_upto)

lemma page_exact:
  assumes "0 \<le> offset" "0 \<le> limit"
  shows "get_user_policies u offset limit s =
    (if int (length (ids_of s u)) \<le> offset then Inr []
     else if offset + limit > u32_max then trap
     else Inr (take (nat limit) (drop (nat offset) (ids_of s u))))"
proof -
  let ?xs = "ids_of s u"
  have "map (\<lambda>i. ?xs ! nat i) [offset .. min (offset + limit) (int (length ?xs)) - 1]
      = take (nat limit) (drop (nat offset) ?xs)" if "offset < int (length ?xs)"
  proof (cases "offset + limit \<le> int (length ?xs)")
    case True
    then show ?thesis using slice_upto[of offset "offset + limit" ?xs] assms by simp
  next
    case False
    then have "length (drop (nat offset) ?xs) \<le> nat limit" using that assms by simp
    then show ?thesis
      using slice_upto[of offset "int (length ?xs)" ?xs] False that assms by simp
  qed
  then show ?thesis
    using assms by (auto simp: get_user_policies_def ids_of_def[symmetric] Let_def u32_def)
qed

section \<open>Batches\<close>

lemma buy_inner_fields:
  assumes "buy_policy_inner tk e b pid cov dur key start tok s = Inr (i, s')"
  shows "i = unwrap_or 1 (pe_next_policy_id s)" "pe_next_policy_id s' = Some (i + 1)"
    "pe_last_purchase s' = (pe_last_purchase s)((b, key) \<mapsto> timestamp e)"
    "\<not> cooling_off_active e b key s"
  using assms by (auto dest!: buy_policy_inner_split book_policy_ok quote_policy_ok)

lemma batch_spaced:
  assumes "buy_items tk e b items s = Inr (ids, s')" "timestamp e < u64_max" "0 \<le> timestamp e"
  shows "ids = [unwrap_or 1 (pe_next_policy_id s) ..
            unwrap_or 1 (pe_next_policy_id s) + int (length items) - 1]"
    and "distinct (map bi_oracle_key items)"
    and "\<forall>item \<in> set items. pe_last_purchase s (b, bi_oracle_key item) \<noteq> Some (timestamp e)"
  using assms(1)
proof (induction items arbitrary: s ids)
  case Nil
  { case 1 then show ?case by simp }
  { case 2 then show ?case by simp }
  { case 3 then show ?case by simp }
next
  case (Cons item items)
  have split: "\<exists>i s1 ids'. buy_policy_inner tk e b (bi_product_id item) (bi_coverage_amount item)
       (bi_duration_days item) (bi_oracle_key item) (timestamp e) (bi_payment_token item) s
       = Inr (i, s1) \<and> buy_items tk e b items s1 = Inr (ids', s') \<and> ids = i # ids'"
    if "buy_items tk e b (item # items) s = Inr (ids, s')" for ids s
    using that by (auto simp: bindR_eq_Inr)
  { case 1
    obtain i s1 ids' where *: "buy_policy_inner tk e b (bi_product_id item)
        (bi_coverage_amount item) (bi_duration_days item) (bi_oracle_key item) (timestamp e)
        (bi_payment_token item) s = Inr (i, s1)"
      "buy_items tk e b items s1 = Inr (ids', s')" "ids = i # ids'" using split[OF 1] by blast
    show ?case using buy_inner_fields[OF *(1)] Cons.IH(1)[OF *(2)] *(3)
      by (subst upto_rec1) (auto simp: algebra_simps) }
  { case 2
    obtain i s1 ids' where *: "buy_policy_inner tk e b (bi_product_id item)
        (bi_coverage_amount item) (bi_duration_days item) (bi_oracle_key item) (timestamp e)
        (bi_payment_token item) s = Inr (i, s1)"
      "buy_items tk e b items s1 = Inr (ids', s')" "ids = i # ids'" using split[OF 2] by blast
    show ?case using buy_inner_fields(3)[OF *(1)] Cons.IH(2,3)[OF *(2)] by auto }
  { case 3
    obtain i s1 ids' where *: "buy_policy_inner tk e b (bi_product_id item)
        (bi_coverage_amount item) (bi_duration_days item) (bi_oracle_key item) (timestamp e)
        (bi_payment_token item) s = Inr (i, s1)"
      "buy_items tk e b items s1 = Inr (ids', s')" "ids = i # ids'" using split[OF 3] by blast
    have "pe_last_purchase s (b, bi_oracle_key item) \<noteq> Some (timestamp e)"
      using buy_inner_fields(4)[OF *(1)] assms(2,3)
      by (auto simp: cooling_off_active_def sat_u64_def PURCHASE_COOLING_OFF_SECONDS_def)
    then show ?case using buy_inner_fields(3)[OF *(1)] Cons.IH(3)[OF *(2)]
      by (auto split: if_splits) }
qed

end
