(* ===== verification/Sample.thy ===== *)
theory Sample
  imports PE_Accounts
begin

text \<open>
  Concrete data on which the properties are evaluated: a token ledger that keeps the
  promises of SEP-41, a way to run a list of calls, and a small history of the policy
  engine.
\<close>

section \<open>A token ledger\<close>

type_synonym ledger = "address \<times> address \<Rightarrow> int"

definition ledger_ops :: "ledger token_ops" where
  "ledger_ops = \<lparr>
     balance_of = (\<lambda>t c a. Some (t (c, a))),
     transfer_of = (\<lambda>t c from to n.
       if n < 0 \<or> t (c, from) < n then None
       else Some (let t1 = t((c, from) := t (c, from) - n) in t1((c, to) := t1 (c, to) + n)))\<rparr>"

lemma ledger_sep41: "sep41 ledger_ops"
  by (auto simp: sep41_def moved_def balance_def ledger_ops_def Let_def)

section \<open>Histories\<close>

fun play :: "(env \<Rightarrow> 'c \<Rightarrow> 's \<Rightarrow> ('e, 's) result) \<Rightarrow> (env \<times> 'c) list \<Rightarrow> 's \<Rightarrow> ('e, 's) result" where
  "play exec [] s = Inr s"
| "play exec ((e, c) # cs) s = bindR (exec e c s) (play exec cs)"

fun timely :: "int \<Rightarrow> (env \<times> 'c) list \<Rightarrow> bool" where
  "timely t [] \<longleftrightarrow> True"
| "timely t ((e, c) # cs) \<longleftrightarrow> t \<le> timestamp e \<and> timestamp e \<le> u64_max \<and> timely (timestamp e) cs"

fun ends :: "int \<Rightarrow> (env \<times> 'c) list \<Rightarrow> int" where
  "ends t [] = t"
| "ends t ((e, c) # cs) = ends (timestamp e) cs"

lemma play_run:
  "play exec cs s = Inr s' \<Longrightarrow> timely t cs \<Longrightarrow> run exec t s (ends t cs) s'"
proof (induction cs arbitrary: t s)
  case Nil
  then show ?case by (simp add: run_refl)
next
  case (Cons x cs)
  obtain e c where x: "x = (e, c)" by (cases x)
  obtain s1 where s1: "exec e c s = Inr s1" "play exec cs s1 = Inr s'"
    using Cons.prems(1) by (auto simp: x bindR_eq_Inr)
  have "run exec (timestamp e) s1 (ends (timestamp e) cs) s'"
    using Cons s1 by (simp add: x)
  moreover have "run exec t s (timestamp e) s1"
    using run_step[of exec t s t s e c s1] run_refl[of exec t s] s1(1) Cons.prems(2) by (simp add: x)
  ultimately show ?case using run_trans by (fastforce simp: x)
qed

lemma play_reach:
  "play exec cs s = Inr s' \<Longrightarrow> timely 0 cs \<Longrightarrow> reach exec s (ends 0 cs) s'"
  unfolding reach_def by (intro exI[of _ 0] conjI play_run) simp_all

text \<open>Evaluation of a history whose outcome is tested by \<open>P\<close>.\<close>

definition outcome :: "('s \<Rightarrow> bool) \<Rightarrow> ('e, 's) result \<Rightarrow> bool" where
  "outcome P r = (case r of Inl _ \<Rightarrow> False | Inr s \<Rightarrow> P s)"

lemma outcome_obtain: "outcome P r \<Longrightarrow> \<exists>s. r = Inr s \<and> P s"
  by (cases r) (auto simp: outcome_def)

definition is_at :: "'a option \<Rightarrow> ('a \<Rightarrow> bool) \<Rightarrow> bool" where
  "is_at x P = (case x of None \<Rightarrow> False | Some v \<Rightarrow> P v)"

lemma is_atD: "is_at x P \<Longrightarrow> \<exists>v. x = Some v \<and> P v"
  by (cases x) (auto simp: is_at_def)

section \<open>A history of the policy engine\<close>

definition addr :: "char \<Rightarrow> char \<Rightarrow> address" where
  "addr k c = k # replicate 55 c"

definition engine :: address where "engine = ''engine''"
definition usdc :: address where "usdc = addr CHR ''C'' CHR ''U''"
definition other_token :: address where "other_token = ''other''"
definition feed :: address where "feed = addr CHR ''C'' CHR ''O''"
definition boss :: address where "boss = addr CHR ''G'' CHR ''B''"
definition alice :: address where "alice = ''alice''"
definition bob :: address where "bob = addr CHR ''G'' CHR ''D''"
definition claims :: address where "claims = ''claims''"

definition moment :: "int \<Rightarrow> env" where
  "moment t = \<lparr>timestamp = t, auth = (\<lambda>_. True), this = engine\<rparr>"

definition funds :: "ledger" where
  "funds = (\<lambda>(c, a). if a = alice \<or> a = engine then 10000000 else 0)"

definition crop :: create_product_params where
  "crop = \<lparr>cp_name = ''drought'', cp_category = ''crop'', cp_oracle_key = ''rain1'',
     cp_expected_token = usdc, cp_trigger_type = Threshold, cp_oracle_data_type = ''weather'',
     cp_trigger_threshold = 100, cp_trigger_comparison = LessThan, cp_coverage_min = 1000,
     cp_coverage_max = 1000000, cp_premium_rate_bps = 500, cp_max_duration_days = 365\<rparr>"

definition open_day :: "(env \<times> pe_call) list" where
  "open_day = [(moment 1000, Initialize boss usdc feed), (moment 1001, SetClaimsProcessor boss claims),
     (moment 1002, CreateProduct boss crop),
     (moment 2000, BuyPolicy alice 1 365000 30 ''rain1'' usdc)]"

text \<open>A second product is paid for in another token than the settlement token.\<close>

definition hail :: create_product_params where
  "hail = crop\<lparr>cp_name := ''hail'', cp_oracle_key := ''hail1'', cp_expected_token := other_token\<rparr>"

abbreviation demo_exec :: "env \<Rightarrow> pe_call \<Rightarrow> ledger pe_state \<Rightarrow> (pe_error, ledger pe_state) result" where
  "demo_exec \<equiv> pe_exec ledger_ops"

abbreviation demo_start :: "ledger pe_state" where
  "demo_start \<equiv> pe_fresh funds"

text \<open>A history whose outcome satisfies a test gives a reachable state that does.\<close>

lemma history_reach:
  assumes "outcome P (play exec cs s)" "timely 0 cs"
  obtains s' where "play exec cs s = Inr s'" "reach exec s (ends 0 cs) s'" "P s'"
proof -
  obtain s' where s': "play exec cs s = Inr s'" "P s'" using outcome_obtain[OF assms(1)] by blast
  show ?thesis by (rule that[OF s'(1) play_reach[OF s'(1) assms(2)] s'(2)])
qed

lemma history_then:
  assumes "outcome (\<lambda>s. outcome (P s) (f s)) (play exec cs s0)" "timely 0 cs"
  obtains s r where "reach exec s0 (ends 0 cs) s" "f s = Inr r" "P s r"
proof -
  obtain s where s: "reach exec s0 (ends 0 cs) s" "outcome (P s) (f s)"
    using history_reach[OF assms] by blast
  then obtain r where "f s = Inr r" "P s r" using outcome_obtain by blast
  then show ?thesis by (rule that[OF s(1)])
qed

end
