(* ===== verification/PE_Properties.thy ===== *)
theory PE_Properties
  imports Sample
begin

text \<open>
  The properties of the policy engine, each with an evaluation on a concrete history.
  A reachable state is one the contract can be in after any sequence of successful calls
  by anybody, from the empty storage; \<open>tk\<close> is any token implementation.
\<close>

section \<open>Policies\<close>

definition claimed_day :: "(env \<times> pe_call) list" where
  "claimed_day = open_day @ [(moment 3000, PayClaim claims 1)]"

lemma alice_is_paid:
  obtains s p where "reach demo_exec demo_start 3000 s" "pe_policies s 1 = Some p"
    "po_status p = Claimed" "pe_policies s 2 = None"
    "occurrences (settles 1) (pe_events s) = 1"
proof -
  have "outcome (\<lambda>s. is_at (pe_policies s 1) (\<lambda>p. po_status p = Claimed) \<and> pe_policies s 2 = None
      \<and> occurrences (settles 1) (pe_events s) = 1)
     (play demo_exec claimed_day demo_start)"
    by code_simp
  moreover have "timely 0 claimed_day" "ends 0 claimed_day = 3000" by code_simp+
  ultimately show ?thesis using that by (auto elim!: history_reach dest!: is_atD)
qed

text \<open>
  C1. Every policy is bought once and settled at most once: in a reachable state, policy
  \<open>i\<close> has exactly one settlement event (cancelled, paid or expired) if its status is no
  longer active and none otherwise, exactly one purchase event if it exists, and the event
  log holds the settlement that its status names, with its holder and coverage.
\<close>

theorem policy_settled_once:
  assumes "reach (pe_exec tk) (pe_fresh t0) now s"
  shows "occurrences (settles i) (pe_events s) = (case pe_policies s i of None \<Rightarrow> 0
           | Some p \<Rightarrow> if po_status p = PolicyActive then 0 else 1)
    \<and> occurrences (opens i) (pe_events s) = (if pe_policies s i = None then 0 else 1)
    \<and> (case pe_policies s i of None \<Rightarrow> True
           | Some p \<Rightarrow> po_status p = PolicyActive \<or>
               (\<exists>ev \<in> set (pe_events s). closes_with i p (po_status p) ev))"
  using pe.inv_reach[OF assms]
  by (auto simp: books_inv_def settled_inv_def opened_inv_def outcome_inv_def split: option.splits)

theorem policy_settled_once_witness:
  "\<exists>s p. reach demo_exec demo_start 3000 s \<and> pe_policies s 1 = Some p \<and> po_status p = Claimed
     \<and> occurrences (settles 1) (pe_events s) = 1 \<and> occurrences (opens 1) (pe_events s) = 1
     \<and> (\<exists>ev \<in> set (pe_events s). closes_with 1 p Claimed ev)"
proof -
  obtain s p where s: "reach demo_exec demo_start 3000 s" "pe_policies s 1 = Some p"
    "po_status p = Claimed" by (rule alice_is_paid)
  then show ?thesis using policy_settled_once[OF s(1), of 1] by auto
qed

text \<open>
  C2. The terms of a policy never change: in any later state the policy still exists with
  every field unchanged but the holder and the status, and a policy that is no longer
  active stays exactly as it is.
\<close>

theorem policy_terms_final:
  assumes "reach (pe_exec tk) (pe_fresh t0) t s" and "run (pe_exec tk) t s t' s'"
    and "pe_policies s i = Some p"
  shows "\<exists>p'. pe_policies s' i = Some p'
     \<and> p' = p\<lparr>po_policyholder := po_policyholder p', po_status := po_status p'\<rparr>
     \<and> (po_status p \<noteq> PolicyActive \<longrightarrow> p' = p)"
  using ages_run[OF assms(2) pe.inv_reach[OF assms(1)] reach_time[OF assms(1)] assms(3)]
  by (simp add: ages_def)

lemma alice_is_insured:
  obtains s p where "play demo_exec open_day demo_start = Inr s"
    "reach demo_exec demo_start 2000 s" "pe_policies s 1 = Some p" "po_status p = PolicyActive"
    "po_policyholder p = alice" "po_premium_paid p = 1500" "po_end_time p = 2000 + 30 * 86400"
    "po_start_time p = 2000"
proof -
  have "outcome (\<lambda>s. is_at (pe_policies s 1) (\<lambda>p. po_status p = PolicyActive
       \<and> po_policyholder p = alice \<and> po_premium_paid p = 1500
       \<and> po_end_time p = 2000 + 30 * 86400 \<and> po_start_time p = 2000))
     (play demo_exec open_day demo_start)"
    by code_simp
  moreover have "timely 0 open_day" "ends 0 open_day = 2000" by code_simp+
  ultimately show ?thesis using that by (auto elim!: history_reach dest!: is_atD)
qed

theorem policy_terms_final_witness:
  "\<exists>s s' p p'. run demo_exec 3000 s 3000 s' \<and> pe_policies s 1 = Some p \<and> po_status p = Claimed
     \<and> pe_policies s' 1 = Some p' \<and> p' = p"
proof -
  obtain s p where s: "reach demo_exec demo_start 3000 s" "pe_policies s 1 = Some p"
    "po_status p = Claimed" by (rule alice_is_paid)
  then show ?thesis using policy_terms_final[OF s(1) run_refl s(2)] run_refl[of demo_exec 3000 s] by auto
qed

text \<open>
  C3. The policy engine implements the abstract book of policies: before any call the book
  is empty and its next number is 1, and every successful call, whatever it is, takes the
  book through steps it allows (issue the next number in force, assign a cover in force to
  another holder, pay it, end it) or leaves it alone.
\<close>

theorem engine_refines_book:
  assumes "reach (pe_exec tk) (pe_fresh t0) now s" and "pe_exec tk e c s = Inr s'"
  shows "book_of (pe_fresh t0) = \<lparr>bk_next = 1, bk_cover = Map.empty\<rparr>
     \<and> book_step\<^sup>*\<^sup>* (book_of s) (book_of s')"
proof -
  have "book_of (pe_fresh t0) = \<lparr>bk_next = 1, bk_cover = Map.empty\<rparr>"
    by (simp add: book_of_def pe_fresh_def)
  moreover have "book_step\<^sup>*\<^sup>* (book_of s) (book_of s')"
    using book_effects[OF exec_effects[OF assms(2)]] pe.inv_reach[OF assms(1)]
    by (simp add: books_inv_def)
  ultimately show ?thesis ..
qed

theorem engine_refines_book_witness:
  "\<exists>s s'. demo_exec (moment 3000) (PayClaim claims 1) s = Inr s'
     \<and> book_step\<^sup>*\<^sup>* (book_of s) (book_of s')
     \<and> bk_cover (book_of s) 1 = Some (InForce alice 365000)
     \<and> bk_cover (book_of s') 1 = Some (PaidOut alice 365000)"
proof -
  have "outcome (\<lambda>s. outcome (\<lambda>s'. bk_cover (book_of s) 1 = Some (InForce alice 365000)
        \<and> bk_cover (book_of s') 1 = Some (PaidOut alice 365000))
      (demo_exec (moment 3000) (PayClaim claims 1) s)) (play demo_exec open_day demo_start)"
    by code_simp
  moreover have "timely 0 open_day" "ends 0 open_day = 2000" by code_simp+
  ultimately obtain s s' where s: "reach demo_exec demo_start 2000 s"
    "demo_exec (moment 3000) (PayClaim claims 1) s = Inr s'"
    "bk_cover (book_of s) 1 = Some (InForce alice 365000)
     \<and> bk_cover (book_of s') 1 = Some (PaidOut alice 365000)"
    by (elim history_then) simp_all
  show ?thesis using engine_refines_book[OF s(1,2)] s(2,3) unfolding moment_def by fastforce
qed

text \<open>
  C4. The index of a user is exact: it lists without repetition the policies that are
  active and held by the user, and no others.
\<close>

theorem user_index_exact:
  assumes "reach (pe_exec tk) (pe_fresh t0) now s"
  shows "distinct (ids_of s u) \<and> set (ids_of s u) =
     {i. \<exists>p. pe_policies s i = Some p \<and> po_status p = PolicyActive \<and> po_policyholder p = u}"
  using pe.inv_reach[OF assms] by (auto simp: books_inv_def index_inv_def)

theorem user_index_exact_witness:
  "\<exists>s. reach demo_exec demo_start 2000 s \<and> 1 \<in> set (ids_of s alice)"
proof -
  obtain s p where s: "reach demo_exec demo_start 2000 s" "pe_policies s 1 = Some p"
    "po_status p = PolicyActive" "po_policyholder p = alice" by (rule alice_is_insured)
  then show ?thesis using user_index_exact[OF s(1), of alice] by auto
qed

text \<open>
  C5. Every stored policy was issued under a product that still exists, with the data type,
  threshold and comparison of that product, a coverage inside the product's range, and a
  whole number of days inside the product's limit, at exactly the price
  coverage * rate * days / 3650000 (rounded down), which is positive and at most five
  times the coverage: the rate is a yearly one. The comment of \<^verbatim>\<open>buy_policy\<close>, the README and the
  documents give the flat price coverage * rate / 10000 instead, which the code charges for
  365 days only.
\<close>

theorem policy_priced_by_product:
  assumes "reach (pe_exec tk) (pe_fresh t0) now s" and "pe_policies s i = Some p"
  shows "\<exists>pr days. pe_products s (po_product_id p) = Some pr \<and> po_id p = i
     \<and> po_oracle_data_type p = pr_oracle_data_type pr
     \<and> po_trigger_threshold p = pr_trigger_threshold pr
     \<and> po_trigger_comparison p = pr_trigger_comparison pr
     \<and> pr_coverage_min pr \<le> po_coverage_amount p \<and> po_coverage_amount p \<le> pr_coverage_max pr
     \<and> 0 < days \<and> days \<le> pr_max_duration_days pr
     \<and> po_end_time p = po_start_time p + days * 86400
     \<and> po_premium_paid p = po_coverage_amount p * pr_premium_rate_bps pr * days div 3650000
     \<and> 0 < po_premium_paid p \<and> po_premium_paid p \<le> 5 * po_coverage_amount p"
proof -
  obtain pr where pr: "pe_products s (po_product_id p) = Some pr" "issued_under pr p"
    "sound_product (po_product_id p) pr" "po_id p = i"
    using policy_sound[OF pe.inv_reach[OF assms(1)] assms(2)] by blast
  then obtain days where days: "0 < days" "days \<le> pr_max_duration_days pr"
    "po_end_time p = po_start_time p + days * 86400"
    "required_premium pr (po_coverage_amount p) days = Some (po_premium_paid p)"
    by (auto simp: issued_under_def)
  have "days \<le> 3650" using days pr(3) by (simp add: sound_product_def product_terms_def)
  then have "po_premium_paid p = po_coverage_amount p * pr_premium_rate_bps pr * days div 3650000"
    using premium_bound(1)[OF days(4)] days(1) issued_bounds[OF pr(2,3)] pr(3)
    by (simp add: policy_bounds_def sound_product_def product_terms_def)
  then show ?thesis
    using pr days issued_bounds[OF pr(2,3)]
    by (intro exI[of _ pr] exI[of _ days]) (simp add: issued_under_def policy_bounds_def)
qed

theorem policy_priced_by_product_witness:
  "\<exists>s p. reach demo_exec demo_start 2000 s \<and> pe_policies s 1 = Some p
     \<and> po_premium_paid p = 1500 \<and> 1500 \<le> 5 * po_coverage_amount p"
proof -
  obtain s p where s: "reach demo_exec demo_start 2000 s" "pe_policies s 1 = Some p"
    "po_premium_paid p = 1500" by (rule alice_is_insured)
  then show ?thesis using policy_priced_by_product[OF s(1,2)] by auto
qed

text \<open>
  C6. A buyer who has bought two policies on the same oracle key bought one of them at
  least the cooling-off period (24 hours, up to the end of the clock) after the other,
  whatever was bought, transferred, cancelled or settled in between, and whether the
  purchases were immediate, scheduled or part of a batch.
\<close>

theorem purchases_spaced:
  assumes "reach (pe_exec tk) (pe_fresh t0) now s"
    and "EvBuyPolicy b i pid cov prem \<in> set (pe_events s)"
    and "EvBuyPolicy b j pid' cov' prem' \<in> set (pe_events s)" and "i \<noteq> j"
    and "pe_policies s i = Some p" and "pe_policies s j = Some q"
    and "po_oracle_key p = po_oracle_key q"
  shows "sat_u64 (po_created_at p + PURCHASE_COOLING_OFF_SECONDS) \<le> po_created_at q
     \<or> sat_u64 (po_created_at q + PURCHASE_COOLING_OFF_SECONDS) \<le> po_created_at p"
proof -
  have "bought s b i" "bought s b j" using assms(2,3) by (auto simp: bought_def)
  then have "apart p q"
    using spaced_pair[OF conjunct2[OF pe_spaced.inv_reach[OF assms(1)]]] assms(4-) by blast
  then show ?thesis by (simp add: apart_def)
qed

definition two_days :: "(env \<times> pe_call) list" where
  "two_days = open_day @ [(moment 88400, BuyPolicy alice 1 2000 365 ''rain1'' usdc)]"

theorem purchases_spaced_witness:
  "\<exists>s p q. reach demo_exec demo_start 88400 s \<and> pe_policies s 1 = Some p
     \<and> pe_policies s 2 = Some q
     \<and> (sat_u64 (po_created_at p + 86400) \<le> po_created_at q
         \<or> sat_u64 (po_created_at q + 86400) \<le> po_created_at p)"
proof -
  have "outcome (\<lambda>s. is_at (pe_policies s 1) (\<lambda>p. is_at (pe_policies s 2) (\<lambda>q.
        po_oracle_key p = po_oracle_key q))
      \<and> EvBuyPolicy alice 1 1 365000 1500 \<in> set (pe_events s)
      \<and> EvBuyPolicy alice 2 1 2000 100 \<in> set (pe_events s))
     (play demo_exec two_days demo_start)" by code_simp
  moreover have "timely 0 two_days" "ends 0 two_days = 88400" by code_simp+
  ultimately obtain s p q where s: "reach demo_exec demo_start 88400 s"
    "EvBuyPolicy alice 1 1 365000 1500 \<in> set (pe_events s)"
    "EvBuyPolicy alice 2 1 2000 100 \<in> set (pe_events s)" "pe_policies s 1 = Some p"
    "pe_policies s 2 = Some q" "po_oracle_key p = po_oracle_key q"
    by (auto elim!: history_reach dest!: is_atD)
  show ?thesis
    using purchases_spaced[OF s(1,2,3) _ s(4,5,6)] s(1,4,5)
    by (auto simp: PURCHASE_COOLING_OFF_SECONDS_def)
qed

section \<open>Products\<close>

text \<open>
  C7. The catalogue is exact: the active list holds each active product once and nothing
  else, every stored product is filed under its own number, which is below the next one,
  and satisfies all terms that creation checks (a positive coverage range below the limit,
  a rate of at most 5000 basis points, at most 3650 days, a positive threshold, a binary
  trigger exactly with the equality comparison, a well-formed name and oracle key).
\<close>

theorem catalogue_exact:
  assumes "reach (pe_exec tk) (pe_fresh t0) now s"
  shows "distinct (get_active_products s)
     \<and> set (get_active_products s) =
         {i. \<exists>p. pe_products s i = Some p \<and> pr_status p = ProductActive}
     \<and> {i. pe_products s i \<noteq> None} \<subseteq> {1 ..< unwrap_or 1 (pe_next_product_id s)}
     \<and> {p. \<exists>i. pe_products s i = Some p \<and> (pr_id p \<noteq> i \<or> \<not> product_terms p)} = {}"
  using pe.inv_reach[OF assms]
  by (auto simp: books_inv_def catalogue_inv_def sound_product_def)

theorem catalogue_exact_witness:
  "\<exists>s. reach demo_exec demo_start 2000 s \<and> set (get_active_products s) = {1}
     \<and> {i. \<exists>p. pe_products s i = Some p \<and> pr_status p = ProductActive} = {1}"
proof -
  have "outcome (\<lambda>s. get_active_products s = [1]) (play demo_exec open_day demo_start)"
    by code_simp
  moreover have "timely 0 open_day" "ends 0 open_day = 2000" by code_simp+
  ultimately obtain s where s: "reach demo_exec demo_start 2000 s" "get_active_products s = [1]"
    by (auto elim!: history_reach)
  then show ?thesis using catalogue_exact[OF s(1)] by auto
qed

text \<open>
  A product can be deprecated twice, and then the indexes of the pool forget its
  successor: when product \<open>i\<close> is deprecated, product \<open>j\<close> is created under the same category
  and oracle key, and \<open>i\<close> is deprecated again, then \<open>j\<close> is active but no longer found
  under its key (the guard against a duplicate key passes), and the count of the pool is
  one less than it was with \<open>i\<close> active, although \<open>j\<close> has replaced it.
\<close>

theorem deprecating_twice_drops_successor:
  assumes "pe_products s i = Some p" and "deprecate_product e a i s = Inr s1"
    and "create_product e' a' c s1 = Inr (j, s2)" and "i \<noteq> j"
    and "cp_category c = pr_category p" and "cp_oracle_key c = pr_oracle_key p"
    and "deprecate_product e'' a'' i s2 = Inr s3"
    and "0 < get_pool_product_count (pr_category p) s"
  shows "pe_product_key s2 (pr_category p, pr_oracle_key p) = Some j
     \<and> pe_product_key s3 (pr_category p, pr_oracle_key p) = None
     \<and> pe_products s3 j = Some (product_of_params j (timestamp e') c)
     \<and> pr_status (product_of_params j (timestamp e') c) = ProductActive
     \<and> get_pool_product_count (pr_category p) s3 = get_pool_product_count (pr_category p) s - 1"
proof -
  let ?k = "(pr_category p, pr_oracle_key p)"
  have 1: "pe_products s1 i = Some (p\<lparr>pr_status := ProductDeprecated\<rparr>)"
      "get_pool_product_count (pr_category p) s1 = get_pool_product_count (pr_category p) s - 1"
    using assms(1,2,8) by (auto simp: deprecate_product_ok get_pool_product_count_def)
  have "insert_product e' c s1 = Inr (j, s2)" using assms(3) by (simp add: create_product_ok)
  then have 2: "pe_products s2 = (pe_products s1)(j \<mapsto> product_of_params j (timestamp e') c)"
      "pe_product_key s2 ?k = Some j"
      "get_pool_product_count (pr_category p) s2 = get_pool_product_count (pr_category p) s1 + 1"
    unfolding insert_product_ok using assms(5,6)
    by (auto simp: get_pool_product_count_def simp del: unwrap_or_simps(1))
  have "pe_products s2 i = Some (p\<lparr>pr_status := ProductDeprecated\<rparr>)" using 1 2 assms(4) by simp
  then have 3: "pe_products s3 j = pe_products s2 j" "pe_product_key s3 ?k = None"
      "get_pool_product_count (pr_category p) s3 = get_pool_product_count (pr_category p) s2 - 1"
    using assms(4,7,8) 1 2 by (auto simp: deprecate_product_ok get_pool_product_count_def)
  show ?thesis using 1 2 3 by (simp add: product_of_params_def)
qed

definition one_product :: "ledger pe_state" where
  "one_product = (pe_fresh funds)\<lparr>pe_initialized := True, pe_admin := Some ''boss'',
     pe_next_product_id := Some 2, pe_active_products := Some [1],
     pe_registered_category := [''crop'' \<mapsto> True],
     pe_products := [1 \<mapsto> product_of_params 1 1000 crop],
     pe_product_key := [(''crop'', ''rain1'') \<mapsto> 1], pe_product_name := [''drought'' \<mapsto> 1],
     pe_pool_product_count := [''crop'' \<mapsto> 1]\<rparr>"

definition retire_first :: "ledger pe_state \<Rightarrow> (pe_error, ledger pe_state) result" where
  "retire_first s = deprecate_product (moment 1002) ''boss'' 1 s"

definition replace_first :: "ledger pe_state \<Rightarrow> (pe_error, int \<times> ledger pe_state) result" where
  "replace_first s = create_product (moment 1003) ''boss'' (crop\<lparr>cp_name := ''flood''\<rparr>) s"

definition any_state :: "ledger pe_state \<Rightarrow> bool" where "any_state s \<longleftrightarrow> True"

definition replaced :: "int \<times> ledger pe_state \<Rightarrow> bool" where
  "replaced r \<longleftrightarrow> fst r = 2 \<and> outcome any_state (retire_first (snd r))"

definition retired :: "ledger pe_state \<Rightarrow> bool" where
  "retired s \<longleftrightarrow> outcome replaced (replace_first s)"

lemma one_product_replaced: "outcome retired (retire_first one_product)"
  by code_simp

theorem deprecating_twice_drops_successor_witness:
  "\<exists>(s2 :: ledger pe_state) s3. deprecate_product (moment 1002) ''boss'' 1 s2 = Inr s3
     \<and> pe_product_key s2 (''crop'', ''rain1'') = Some 2
     \<and> pe_product_key s3 (''crop'', ''rain1'') = None \<and> get_pool_product_count ''crop'' s3 = 0"
proof -
  obtain s1 s2 s3 where s: "deprecate_product (moment 1002) ''boss'' 1 one_product = Inr s1"
    "create_product (moment 1003) ''boss'' (crop\<lparr>cp_name := ''flood''\<rparr>) s1 = Inr (2, s2)"
    "deprecate_product (moment 1002) ''boss'' 1 s2 = Inr s3"
    using one_product_replaced unfolding retired_def replaced_def retire_first_def
      replace_first_def by (fastforce dest!: outcome_obtain)
  have p: "pe_products one_product 1 = Some (product_of_params 1 1000 crop)"
    "0 < get_pool_product_count (pr_category (product_of_params 1 1000 crop)) one_product"
    "get_pool_product_count ''crop'' one_product = 1"
    by (simp_all add: one_product_def product_of_params_def crop_def get_pool_product_count_def)
  then show ?thesis
    using deprecating_twice_drops_successor[OF p(1) s(1,2) _ _ _ s(3) p(2)] s(3)
    by (intro exI[of _ s2] exI[of _ s3]) (simp add: product_of_params_def crop_def)
qed

section \<open>Roles\<close>

text \<open>
  C8. Nobody becomes administrator without notice: once there is an administrator, an
  address that is neither the administrator nor announced in a state is not administrator
  in any state reached within the next 48 hours.
\<close>

theorem admin_change_needs_notice:
  assumes "reach (pe_exec tk) (pe_fresh t0) t s" and "pe_admin s = Some a"
    and "run (pe_exec tk) t s t' s'" and "t' < t + ADMIN_TRANSFER_TIMELOCK"
    and "t + ADMIN_TRANSFER_TIMELOCK \<le> u64_max"
  shows "\<exists>b. pe_admin s' = Some b \<and> (b = a \<or> pe_pending_admin s = Some b)"
proof (cases "pe_admin s'")
  case (Some b)
  then show ?thesis
    using pe_admin_role.holder_needs_notice[OF assms(1,2,3,5,4) Some]
    by (auto simp: pending_admin_def)
next
  case None
  have "\<exists>b. b \<noteq> a \<and> pe_pending_admin s \<noteq> Some b"
    by (metis list.distinct(1) not_Cons_self2 option.inject)
  then obtain b where "b \<noteq> a" "\<And>r. pending_admin s \<noteq> Some (b, r)"
    by (auto simp: pending_admin_def)
  then show ?thesis
    using pe_admin_role.run_notice[OF assms(3) reach_time[OF assms(1)] pe.inv_reach[OF assms(1)]
        assms(2)] assms(4,5) None by blast
qed

definition next_calls :: "(env \<times> pe_call) list" where
  "next_calls = [(moment 4000, ProposeNewAdmin boss bob), (moment 5000, ProposeOracleChange boss usdc)]"

definition boss_later :: "ledger pe_state \<Rightarrow> bool" where
  "boss_later s \<longleftrightarrow> pe_pending_admin s = Some bob
     \<and> map_option oc_new_oracle (pe_pending_oracle_change s) = Some usdc"

definition boss_now :: "ledger pe_state \<Rightarrow> bool" where
  "boss_now s \<longleftrightarrow> pe_admin s = Some boss \<and> pe_oracle_address s = Some feed
     \<and> pe_pending_admin s = None \<and> pe_pending_oracle_change s = None
     \<and> outcome boss_later (play (except is_approval demo_exec) next_calls s)"

lemma boss_in_charge:
  obtains s s' where "reach demo_exec demo_start 2000 s" "pe_admin s = Some boss"
    "pe_oracle_address s = Some feed" "pe_pending_admin s = None"
    "pe_pending_oracle_change s = None" "run demo_exec 2000 s 5000 s'"
    "pe_pending_admin s' = Some bob" "run (except is_approval demo_exec) 2000 s 5000 s'"
    "map_option oc_new_oracle (pe_pending_oracle_change s') = Some usdc"
proof -
  have "outcome boss_now (play demo_exec open_day demo_start)" by code_simp
  moreover have "timely 0 open_day" "ends 0 open_day = 2000" by code_simp+
  ultimately obtain s where now: "reach demo_exec demo_start 2000 s" "boss_now s"
    by (auto elim!: history_reach)
  then obtain s' where s: "reach demo_exec demo_start 2000 s"
    "play (except is_approval demo_exec) next_calls s = Inr s'"
    "pe_admin s = Some boss" "pe_oracle_address s = Some feed"
    "pe_pending_admin s = None" "pe_pending_oracle_change s = None" "boss_later s'"
    unfolding boss_now_def by (auto dest!: outcome_obtain)
  have "timely 2000 next_calls" "ends 2000 next_calls = 5000" by code_simp+
  have "run (except is_approval demo_exec) 2000 s 5000 s'"
    using play_run[OF s(2) \<open>timely 2000 next_calls\<close>] \<open>ends 2000 next_calls = 5000\<close> by simp
  from that[OF s(1,3,4,5,6) except_run[OF this] _ this] s(7) show ?thesis
    by (simp add: boss_later_def)
qed

theorem admin_change_needs_notice_witness:
  "\<exists>s s'. run demo_exec 2000 s 5000 s' \<and> pe_pending_admin s' = Some bob
     \<and> pe_admin s' = Some boss"
proof -
  obtain s s' where s: "reach demo_exec demo_start 2000 s" "pe_admin s = Some boss"
    "pe_pending_admin s = None" "run demo_exec 2000 s 5000 s'" "pe_pending_admin s' = Some bob"
    by (rule boss_in_charge)
  show ?thesis
    using admin_change_needs_notice[OF s(1,2,4)] s(3-5)
    by (auto simp: ADMIN_TRANSFER_TIMELOCK_def u64_max_def)
qed

text \<open>
  The oracle address changes only with notice: once it is set, an address that is
  neither the oracle nor proposed in a state is not the oracle in any state reached within
  the next 48 hours.
\<close>

theorem oracle_change_needs_notice:
  assumes "reach (pe_exec tk) (pe_fresh t0) t s" and "pe_oracle_address s = Some a"
    and "run (pe_exec tk) t s t' s'" and "t' < t + ORACLE_CHANGE_TIMELOCK_SECONDS"
    and "t + ORACLE_CHANGE_TIMELOCK_SECONDS \<le> u64_max" and "pe_oracle_address s' = Some b"
  shows "b = a \<or> (\<exists>c. pe_pending_oracle_change s = Some c \<and> oc_new_oracle c = b)"
  using pe_oracle_role.holder_needs_notice[OF assms(1,2,3,5,4,6)]
  by (auto simp: pending_oracle_def)

theorem oracle_change_needs_notice_witness:
  "\<exists>s s'. run demo_exec 2000 s 5000 s' \<and> pe_oracle_address s' = Some feed"
proof -
  obtain s s' where s: "reach demo_exec demo_start 2000 s" "pe_oracle_address s = Some feed"
    "pe_pending_oracle_change s = None" "run demo_exec 2000 s 5000 s'"
    "run (except is_approval demo_exec) 2000 s 5000 s'"
    by (rule boss_in_charge)
  moreover obtain b where "pe_oracle_address s' = Some b"
    using unapproved_run[OF s(5) pe.inv_reach[OF s(1)]] s(2,3) by (auto simp: unapproved_def)
  ultimately show ?thesis
    using oracle_change_needs_notice[OF s(1,2,4)]
    by (fastforce simp: ORACLE_CHANGE_TIMELOCK_SECONDS_def u64_max_def)
qed

text \<open>
  The oracle address never changes without the guardian: in a run in which no approval
  by the guardian succeeds, from a state whose pending change (if any) is not yet approved,
  the oracle stays what it is, however long the run and whatever else happens.
\<close>

theorem oracle_change_needs_guardian:
  assumes "reach (pe_exec tk) (pe_fresh t0) t s" and "pe_oracle_address s = Some a"
    and "unapproved s" and "run (except is_approval (pe_exec tk)) t s t' s'"
  shows "pe_oracle_address s' = Some a"
  using unapproved_run[OF assms(4) pe.inv_reach[OF assms(1)] reach_time[OF assms(1)] assms(3)]
    assms(2) by simp

theorem oracle_change_needs_guardian_witness:
  "\<exists>s s'. run (except is_approval demo_exec) 2000 s 5000 s'
     \<and> map_option oc_new_oracle (pe_pending_oracle_change s') = Some usdc
     \<and> pe_oracle_address s' = Some feed"
proof -
  obtain s s' where s: "reach demo_exec demo_start 2000 s" "pe_oracle_address s = Some feed"
    "pe_pending_oracle_change s = None" "run (except is_approval demo_exec) 2000 s 5000 s'"
    "map_option oc_new_oracle (pe_pending_oracle_change s') = Some usdc"
    by (rule boss_in_charge)
  then have "unapproved s" by (simp add: unapproved_def)
  then show ?thesis using oracle_change_needs_guardian[OF s(1,2) _ s(4)] s(4,5) by blast
qed

section \<open>Money\<close>

text \<open>
  Buying charges exactly the premium: a successful purchase moves the premium of the
  new policy, in the product's payment token, from the buyer, who has authorised the call
  and is not the administrator, to the contract, changes no other balance, and adds the
  next policy number, active, in the buyer's name, with the coverage asked for.
\<close>

theorem purchase_charges_premium:
  assumes "sep41 tk" and "buy_policy tk e b pid cov days key tok s = Inr (i, s')"
  shows "\<exists>pr p. pe_products s pid = Some pr \<and> pr_status pr = ProductActive
     \<and> tok = pr_expected_token pr \<and> auth e b \<and> pe_admin s \<noteq> Some b \<and> pe_paused s \<noteq> Some True
     \<and> i = unwrap_or 1 (pe_next_policy_id s)
     \<and> pe_policies s' = (pe_policies s)(i \<mapsto> p) \<and> po_status p = PolicyActive
     \<and> po_policyholder p = b \<and> po_coverage_amount p = cov \<and> po_product_id p = pid
     \<and> po_start_time p = timestamp e \<and> po_end_time p = timestamp e + days * 86400
     \<and> required_premium pr cov days = Some (po_premium_paid p)
     \<and> moved tk (pe_tokens s) (pe_tokens s') tok b (this e) (po_premium_paid p)"
proof -
  have inner: "buy_policy_inner tk e b pid cov days key (timestamp e) tok s = Inr (i, s')"
    and guards: "auth e b" "pe_paused s \<noteq> Some True"
    using buy_variants(1)[OF assms(2)] by blast+
  then obtain pr prem where q: "quote_policy e b pid cov days key (timestamp e) tok s = Inr (pr, prem)"
    and bk: "book_policy tk e b pid cov days key (timestamp e) tok pr prem s = Inr (i, s')"
    using buy_policy_inner_split by blast
  let ?p = "new_policy i pid b cov prem key pr (timestamp e) (timestamp e + days * 86400) (timestamp e)"
  obtain t where t: "transfer_of tk (pe_tokens s) tok b (this e) prem = Some t"
    "i = unwrap_or 1 (pe_next_policy_id s)" "pe_tokens s' = t"
    "pe_policies s' = (pe_policies s)(i \<mapsto> ?p)"
    using book_policy_ok[OF bk] by auto
  show ?thesis
    using quote_policy_ok[OF q] guards t sep41_moved[OF assms(1) t(1)]
    by (intro exI[of _ pr] exI[of _ ?p]) (auto simp: new_policy_def)
qed

definition on_sale :: "(env \<times> pe_call) list" where
  "on_sale = [(moment 1000, Initialize boss usdc feed), (moment 1001, SetClaimsProcessor boss claims),
     (moment 1002, CreateProduct boss crop)]"

definition alice_buys :: "ledger pe_state \<Rightarrow> (pe_error, int \<times> ledger pe_state) result" where
  "alice_buys s = buy_policy ledger_ops (moment 2000) alice 1 365000 30 ''rain1'' usdc s"

definition first_number :: "int \<times> ledger pe_state \<Rightarrow> bool" where
  "first_number r \<longleftrightarrow> fst r = 1 \<and> balance ledger_ops (pe_tokens (snd r)) usdc alice = 9998500"

definition alice_first :: "ledger pe_state \<Rightarrow> bool" where
  "alice_first s \<longleftrightarrow> outcome first_number (alice_buys s)"

theorem purchase_charges_premium_witness:
  "\<exists>s s' p. buy_policy ledger_ops (moment 2000) alice 1 365000 30 ''rain1'' usdc s = Inr (1, s')
     \<and> pe_policies s' 1 = Some p \<and> po_policyholder p = alice
     \<and> balance ledger_ops (pe_tokens s') usdc alice = 9998500
     \<and> moved ledger_ops (pe_tokens s) (pe_tokens s') usdc alice engine (po_premium_paid p)"
proof -
  have "outcome alice_first (play demo_exec on_sale demo_start)" by code_simp
  then obtain s s' where s: "buy_policy ledger_ops (moment 2000) alice 1 365000 30 ''rain1'' usdc s = Inr (1, s')"
    "balance ledger_ops (pe_tokens s') usdc alice = 9998500"
    unfolding alice_first_def alice_buys_def first_number_def by (auto dest!: outcome_obtain)
  show ?thesis
    using purchase_charges_premium[OF ledger_sep41 s(1)] s
    by (intro exI[of _ s] exI[of _ s']) (auto simp: moment_def)
qed

text \<open>
  C9. A claim pays the whole coverage, once, to the holder: when the claims processor's
  call succeeds, the policy was active, exactly its coverage has moved in the settlement
  token from the contract to its holder, the policy is now claimed and off the holder's
  index, and neither a second payment nor an expiry of it succeeds at any later time.
\<close>

theorem claim_pays_cover_once:
  assumes "sep41 tk" and "reach (pe_exec tk) (pe_fresh t0) now s" and "now \<le> timestamp e"
    and "timestamp e \<le> u64_max" and "is_u128 i" and "pay_claim tk e c i s = Inr s'"
    and "run (pe_exec tk) (timestamp e) s' t'' s''"
  shows "\<exists>p u. pe_policies s i = Some p \<and> po_status p = PolicyActive
     \<and> pe_claims_processor s = Some c \<and> auth e c \<and> pe_usdc_token s = Some u
     \<and> moved tk (pe_tokens s) (pe_tokens s') u (this e) (po_policyholder p) (po_coverage_amount p)
     \<and> pe_policies s'' i = Some (p\<lparr>po_status := Claimed\<rparr>)
     \<and> (\<forall>v. i \<notin> set (ids_of s'' v))
     \<and> pay_claim tk e'' c'' i s'' \<noteq> Inr r \<and> expire_policy e'' c'' i s'' \<noteq> Inr r"
proof -
  obtain p u t where p: "pe_policies s i = Some p" "po_status p = PolicyActive" "auth e c"
    "pe_claims_processor s = Some c" "pe_usdc_token s = Some u"
    "transfer_of tk (pe_tokens s) u (this e) (po_policyholder p) (po_coverage_amount p) = Some t"
    and s': "pe_tokens s' = t" "pe_policies s' = (pe_policies s)(i \<mapsto> p\<lparr>po_status := Claimed\<rparr>)"
    using pay_claim_ok[OF assms(6)] by auto
  have exec: "pe_exec tk e (PayClaim c i) s = Inr s'"
    using assms(5,6) by (simp add: pe_exec_def)
  have r': "reach (pe_exec tk) (pe_fresh t0) (timestamp e) s'"
    using reach_step[OF assms(2,3,4) exec] .
  have "\<exists>q. pe_policies s'' i = Some q \<and> ages (p\<lparr>po_status := Claimed\<rparr>) q"
    using ages_run[OF assms(7) pe.inv_reach[OF r'] reach_time[OF r']] s'(2) by simp
  then have later: "pe_policies s'' i = Some (p\<lparr>po_status := Claimed\<rparr>)"
    by (auto simp: ages_def)
  have "index_inv s''" using pe.inv_reach_run[OF r' assms(7)] by (simp add: books_inv_def)
  then have "\<forall>v. i \<notin> set (ids_of s'' v)" using later by (auto simp: index_inv_def)
  moreover have "pay_claim tk e'' c'' i s'' \<noteq> Inr r" "expire_policy e'' c'' i s'' \<noteq> Inr r"
    using later by (auto dest!: pay_claim_ok expire_policy_ok)
  ultimately show ?thesis
    using p s' later sep41_moved[OF assms(1) p(6)] by blast
qed

definition claim_for_alice :: "ledger pe_state \<Rightarrow> bool" where
  "claim_for_alice s \<longleftrightarrow> outcome any_state (pay_claim ledger_ops (moment 3000) claims 1 s)"

theorem claim_pays_cover_once_witness:
  "\<exists>s s' p. pay_claim ledger_ops (moment 3000) claims 1 s = Inr s' \<and> pe_policies s 1 = Some p
     \<and> moved ledger_ops (pe_tokens s) (pe_tokens s') usdc engine (po_policyholder p)
          (po_coverage_amount p)
     \<and> pay_claim ledger_ops (moment 4000) claims 1 s' \<noteq> Inr s'"
proof -
  have "outcome (\<lambda>s. pe_usdc_token s = Some usdc \<and> claim_for_alice s)
      (play demo_exec open_day demo_start)" by code_simp
  moreover have "timely 0 open_day" "ends 0 open_day = 2000" by code_simp+
  ultimately obtain s where now: "reach demo_exec demo_start 2000 s"
    "pe_usdc_token s = Some usdc" "claim_for_alice s"
    by (auto elim!: history_reach)
  then obtain s' where s: "reach demo_exec demo_start 2000 s" "pe_usdc_token s = Some usdc"
    "pay_claim ledger_ops (moment 3000) claims 1 s = Inr s'"
    unfolding claim_for_alice_def by (auto dest!: outcome_obtain)
  have "timestamp (moment 3000) = 3000" "this (moment 3000) = engine" by (simp_all add: moment_def)
  then show ?thesis
    using claim_pays_cover_once[OF ledger_sep41 s(1) _ _ _ s(3) run_refl,
        of "moment 4000" claims s'] s(2,3)
    by (auto simp: is_u128_def u128_max_def u64_max_def)
qed

text \<open>
  C10. A cancellation refunds the unearned premium: in a reachable state the refund is the
  premium less its share for the seconds already run (rounded down), so it lies between
  zero and the premium, is the whole premium before the start and nothing after the end.
  It is paid to the holder from the contract in the settlement
  token, even when the premium was paid in the product's own token: no other balance
  changes.
\<close>

theorem cancellation_refunds_unearned:
  assumes "sep41 tk" and "reach (pe_exec tk) (pe_fresh t0) now s"
    and "cancel_policy tk e h i reason s = Inr (r, s')"
  shows "\<exists>p u. pe_policies s i = Some p \<and> po_policyholder p = h \<and> auth e h
     \<and> po_status p = PolicyActive \<and> pe_usdc_token s = Some u
     \<and> pe_policies s' i = Some (p\<lparr>po_status := Cancelled\<rparr>)
     \<and> r = po_premium_paid p -
           po_premium_paid p * max 0 (min (timestamp e - po_start_time p)
             (po_end_time p - po_start_time p)) div (po_end_time p - po_start_time p)
     \<and> 0 \<le> r \<and> r \<le> po_premium_paid p
     \<and> (r = po_premium_paid p \<or> po_start_time p < timestamp e)
     \<and> (r = 0 \<or> timestamp e < po_end_time p)
     \<and> moved tk (pe_tokens s) (pe_tokens s') u (this e) h r"
proof -
  obtain p u t where p: "pe_policies s i = Some p" "po_policyholder p = h" "auth e h"
    "po_status p = PolicyActive" "pe_usdc_token s = Some u" "cancel_refund e p = Inr r"
    and pay: "pay_refund tk e u h r (pe_tokens s) = Inr t"
    and s': "pe_tokens s' = t" "pe_policies s' i = Some (p\<lparr>po_status := Cancelled\<rparr>)"
    using cancel_policy_ok[OF assms(3)] by auto
  have b: "policy_bounds p" using policy_in_bounds[OF pe.inv_reach[OF assms(2)] p(1)] .
  note r = refund_bounds[OF b p(6)]
  have "moved tk (pe_tokens s) t u (this e) h r"
  proof (cases "r > 0")
    case True
    then show ?thesis
      using pay sep41_moved[OF assms(1)] by (simp add: pay_refund_def or_trap_eq_Inr)
  next
    case False
    then show ?thesis using pay r(1) by (simp add: pay_refund_def moved_def)
  qed
  moreover have "r = po_premium_paid p - po_premium_paid p * seconds_run (timestamp e) p
      div (po_end_time p - po_start_time p)"
    using refund_exact[OF b, of e] p(6) by simp
  ultimately show ?thesis using p s' r(1,2,3,4) unfolding seconds_run_def by fastforce
qed

definition cancel_for_alice :: "ledger pe_state \<Rightarrow> (pe_error, int \<times> ledger pe_state) result" where
  "cancel_for_alice s = cancel_policy ledger_ops (moment 1298000) alice 1 ''moved'' s"

definition half_back :: "int \<times> ledger pe_state \<Rightarrow> bool" where
  "half_back r \<longleftrightarrow> fst r = 750"

definition cancels_half :: "ledger pe_state \<Rightarrow> bool" where
  "cancels_half s \<longleftrightarrow> outcome half_back (cancel_for_alice s)"

theorem cancellation_refunds_unearned_witness:
  "\<exists>s s' p. cancel_policy ledger_ops (moment 1298000) alice 1 ''moved'' s = Inr (750, s')
     \<and> pe_policies s 1 = Some p \<and> po_premium_paid p = 1500 \<and> 750 \<le> po_premium_paid p"
proof -
  have "outcome (\<lambda>s. is_at (pe_policies s 1) (\<lambda>p. po_premium_paid p = 1500) \<and> cancels_half s)
      (play demo_exec open_day demo_start)" by code_simp
  moreover have "timely 0 open_day" "ends 0 open_day = 2000" by code_simp+
  ultimately obtain s p where now: "reach demo_exec demo_start 2000 s"
    "pe_policies s 1 = Some p" "po_premium_paid p = 1500" "cancels_half s"
    by (auto elim!: history_reach dest!: is_atD)
  then obtain s' where s: "cancel_policy ledger_ops (moment 1298000) alice 1 ''moved'' s = Inr (750, s')"
    unfolding cancels_half_def half_back_def cancel_for_alice_def by (auto dest!: outcome_obtain)
  show ?thesis
    using cancellation_refunds_unearned[OF ledger_sep41 now(1) s] now(2,3) s by auto
qed

text \<open>
  The statistics of a product are exact: in a reachable state the query counts the
  policies ever sold under the product and those still active, and adds up their coverage
  and premiums without saturating; it aborts only when more than \<open>2 ^ 32 - 1\<close> were sold.
\<close>

theorem product_stats_exact:
  assumes "reach (pe_exec tk) (pe_fresh t0) now s"
  shows "\<exists>ps. distinct ps
     \<and> set ps = {p. \<exists>i. pe_policies s i = Some p \<and> po_product_id p = pid}
     \<and> get_product_stats pid s =
       (if int (length ps) \<le> u32_max
        then Inr \<lparr>st_product_id = pid, st_total_policies = int (length ps),
               st_active_policies = int (length (filter (\<lambda>p. po_status p = PolicyActive) ps)),
               st_total_coverage = sum_list (map po_coverage_amount ps),
               st_total_premium_collected = sum_list (map po_premium_paid ps)\<rparr>
        else trap)"
proof -
  note inv = pe.inv_reach[OF assms]
  show ?thesis
    using sold_under_set[OF inv, of pid] stats_exact[OF inv, of pid]
    by (intro exI[of _ "sold_under s pid"]) (simp add: totals_def)
qed

theorem product_stats_exact_witness:
  "\<exists>s ps. reach demo_exec demo_start 88400 s
     \<and> set ps = {p. \<exists>i. pe_policies s i = Some p \<and> po_product_id p = 1}
     \<and> get_product_stats 1 s = Inr \<lparr>st_product_id = 1, st_total_policies = 2,
          st_active_policies = 2, st_total_coverage = 367000, st_total_premium_collected = 1600\<rparr>
     \<and> sum_list (map po_premium_paid ps) = 1600"
proof -
  have "outcome (\<lambda>s. get_product_stats 1 s = Inr \<lparr>st_product_id = 1, st_total_policies = 2,
          st_active_policies = 2, st_total_coverage = 367000, st_total_premium_collected = 1600\<rparr>)
      (play demo_exec two_days demo_start)" by code_simp
  moreover have "timely 0 two_days" "ends 0 two_days = 88400" by code_simp+
  ultimately obtain s where s: "reach demo_exec demo_start 88400 s"
    "get_product_stats 1 s = Inr \<lparr>st_product_id = 1, st_total_policies = 2,
          st_active_policies = 2, st_total_coverage = 367000, st_total_premium_collected = 1600\<rparr>"
    by (auto elim!: history_reach)
  then show ?thesis using product_stats_exact[OF s(1), of 1] by (auto split: if_splits)
qed

text \<open>
  A page of a user's index is the slice it names: with 32-bit bounds, an offset at or
  past the end gives nothing, an offset and limit whose sum exceeds \<open>2 ^ 32 - 1\<close> abort the
  query (even though the slice exists), and every other request returns the next
  \<open>limit\<close> entries from \<open>offset\<close>.
\<close>

theorem user_page_exact:
  assumes "is_u32 offset" and "is_u32 limit"
  shows "get_user_policies u offset limit s =
    (if int (length (ids_of s u)) \<le> offset then Inr []
     else if offset + limit > u32_max then trap
     else Inr (take (nat limit) (drop (nat offset) (ids_of s u))))"
  by (rule page_exact) (use assms in \<open>auto simp: is_u32_def\<close>)

theorem user_page_exact_witness:
  "get_user_policies ''u'' 1 4294967295
      ((pe_fresh funds)\<lparr>pe_user_policies := [''u'' \<mapsto> [3, 5, 8]]\<rparr>) = trap
   \<and> get_user_policies ''u'' 1 9
      ((pe_fresh funds)\<lparr>pe_user_policies := [''u'' \<mapsto> [3, 5, 8]]\<rparr>) = Inr [5, 8]"
  by (simp add: user_page_exact is_u32_def u32_max_def ids_of_def)

text \<open>
  A batch buys its items in order: its policies get consecutive numbers from the next
  one, and its items have pairwise different oracle keys, none of which the buyer bought at
  the same moment before (a batch that names a key twice aborts as a whole).
\<close>

theorem batch_numbers_and_keys:
  assumes "batch_buy_policy tk e b items s = Inr (ids, s')"
    and "0 \<le> timestamp e" and "timestamp e < u64_max"
  shows "ids = [unwrap_or 1 (pe_next_policy_id s) ..
            unwrap_or 1 (pe_next_policy_id s) + int (length items) - 1]
     \<and> 0 < length items \<and> length items \<le> 20 \<and> auth e b
     \<and> distinct (map bi_oracle_key items)
     \<and> (\<forall>item. pe_last_purchase s (b, bi_oracle_key item) \<noteq> Some (timestamp e)
           \<or> item \<notin> set items)"
proof -
  have items: "buy_items tk e b items s = Inr (ids, s')" and n: "items \<noteq> []" "length items \<le> 20"
    and a: "auth e b"
    using assms(1) by (auto simp: batch_buy_policy_def bindR_eq_Inr if_Inl_eq_Inr require_auth_def
        MAX_BATCH_BUY_def split: if_splits)
  show ?thesis using batch_spaced[OF items assms(3,2)] n a by auto
qed

definition two_items :: "batch_buy_item list" where
  "two_items = [\<lparr>bi_product_id = 1, bi_coverage_amount = 365000, bi_duration_days = 30,
       bi_oracle_key = ''rain1'', bi_payment_token = usdc\<rparr>,
     \<lparr>bi_product_id = 1, bi_coverage_amount = 365000, bi_duration_days = 60,
       bi_oracle_key = ''rain2'', bi_payment_token = usdc\<rparr>]"

definition any_batch :: "int list \<times> ledger pe_state \<Rightarrow> bool" where "any_batch r \<longleftrightarrow> True"

definition batch_for_alice :: "ledger pe_state \<Rightarrow> bool" where
  "batch_for_alice s \<longleftrightarrow> pe_next_policy_id s = Some 1
     \<and> outcome any_batch (batch_buy_policy ledger_ops (moment 2000) alice two_items s)"

theorem batch_numbers_and_keys_witness:
  "\<exists>s s'. batch_buy_policy ledger_ops (moment 2000) alice two_items s = Inr ([1, 2], s')
     \<and> distinct (map bi_oracle_key two_items)"
proof -
  have "outcome batch_for_alice (play demo_exec on_sale demo_start)" by code_simp
  then obtain s ids s' where s: "pe_next_policy_id s = Some 1"
    "batch_buy_policy ledger_ops (moment 2000) alice two_items s = Inr (ids, s')"
    unfolding batch_for_alice_def by (auto dest!: outcome_obtain)
  have "timestamp (moment 2000) = 2000" "length two_items = 2" by (simp_all add: moment_def two_items_def)
  then have "ids = [1, 2]" "distinct (map bi_oracle_key two_items)"
    using batch_numbers_and_keys[OF s(2)] s(1) by (simp_all add: u64_max_def upto_rec1)
  then show ?thesis using s(2) by blast
qed

end
