(* ===== verification/RP_Types.thy ===== *)
theory RP_Types
  imports Contract_System
begin

text \<open>
  The data of the risk pool (\<^verbatim>\<open>contracts/risk-pool\<close>): the positions of the liquidity
  providers, their soulbound NFTs, the capital locks, the queued exits, the pending
  administrative actions, the configuration records, the error codes, the published
  events, and the storage of the contract with one field per \<^verbatim>\<open>StorageKey\<close>. Names that
  the policy engine also uses carry the prefix \<open>rp_\<close> or \<open>R\<close>.
\<close>

section \<open>Data\<close>

datatype pool_status = PoolActive | PoolPaused | PoolWindingDown

record premium_split =
  ps_lp_bps :: int
  ps_treas_bps :: int
  ps_backstop_bps :: int

record lp_position =
  lp_provider :: address
  lp_deposited :: int
  lp_shares :: int
  lp_yield_claimed :: int
  lp_yield_debt :: int
  lp_deposited_at :: int
  lp_last_yield_claim :: int
  lp_compound_enabled :: bool
  lp_insurance_enabled :: bool
  lp_insurance_paid :: int

record lp_nft =
  nft_token_id :: int
  nft_provider :: address
  nft_category :: symbol
  nft_minted_at :: int
  nft_shares :: int
  nft_deposited :: int
  nft_active :: bool

record capital_lock =
  lk_policy_id :: int
  lk_amount :: int
  lk_locked_at :: int
  lk_released :: bool

record pool_stats =
  ts_category :: symbol
  ts_total_deposited :: int
  ts_total_locked :: int
  ts_total_shares :: int
  ts_accumulated_premium :: int
  ts_accumulated_backstop :: int
  ts_status :: pool_status

record pool_capacity =
  pc_max_total_deposited :: int
  pc_max_utilization_bps :: int

record capacity_status =
  cs_total_deposited :: int
  cs_total_locked :: int
  cs_max_total_deposited :: int
  cs_utilization_bps :: int
  cs_max_utilization_bps :: int
  cs_remaining_deposit_capacity :: int
  cs_remaining_coverage_capacity :: int

record exit_request =
  ex_provider :: address
  ex_shares :: int
  ex_requested_at :: int
  ex_claimable_at :: int

datatype exit_status = NoExit | ExitPending | ExitClaimable

record exit_info =
  xi_provider :: address
  xi_status :: exit_status
  xi_shares :: int
  xi_requested_at :: int
  xi_claimable_at :: int
  xi_seconds_remaining :: int

record admin_withdrawal_request =
  aw_amount :: int
  aw_requested_at :: int
  aw_execute_after :: int
  aw_executed :: bool

record pending_upgrade =
  pu_wasm_hash :: wasm_hash
  pu_new_version :: int
  pu_approvals :: "address list"

record pending_admin_change =
  pac_new_admin :: address
  pac_approvals :: "address list"

record pending_guardian_removal =
  pg_guardian :: address
  pg_approvals :: "address list"

record pending_parameter_change =
  pp_lp_bps :: int
  pp_treas_bps :: int
  pp_backstop_bps :: int
  pp_proposed_at :: int
  pp_executable_after :: int
  pp_executed :: bool

record dynamic_fee_config =
  df_base_fee_bps :: int
  df_max_fee_bps :: int
  df_min_fee_bps :: int
  df_utilization_threshold_bps :: int
  df_adjustment_per_1pct_bps :: int
  df_enabled :: bool
  df_last_updated :: int

record reinsurance_config =
  ri_reinsurer :: address
  ri_attachment_point :: int
  ri_coverage_limit :: int
  ri_active :: bool

record reinsurance_stats =
  rs_total_premium_paid :: int
  rs_total_recovered :: int
  rs_coverage_remaining :: int

record collateralization_info =
  ci_provider :: address
  ci_position_value :: int
  ci_position_liability :: int
  ci_collateralization_bps :: int

record liquidation_result =
  lr_provider :: address
  lr_shares_seized :: int
  lr_amount_recovered :: int
  lr_previous_ratio_bps :: int

record fee_tier =
  ft_min_deposit :: int
  ft_min_lock_duration :: int
  ft_discount_bps :: int
  ft_name :: symbol

record paginated_lps =
  pl_lps :: "address list"
  pl_total_count :: int

datatype rp_error =
    RAlreadyInitialized | RNotInitialized | RUnauthorized | InsufficientFunds | ZeroAmount
  | PoolNotActive | NoShares | AlreadyLocked | LockNotFound | AlreadyReleased
  | Undercollateralized | PoolCapExceeded | RInvalidToken | TimelockPending | TimelockNotReady
  | NoPendingWithdrawal | InsufficientShares | DepositTooSmall | ROverflow | RInvalidAddress
  | RInvalidVersion | InvalidSplit | NotGuardian | AlreadyApprovedAction | NoPendingUpgrade
  | InvalidThreshold | ParameterChangePending | NoPendingParameterChange
  | ParameterChangeNotReady | RAdminTimelockNotExpired | UtilizationCapExceeded
  | InvalidCapacity | ExitAlreadyQueued | NoExitRequest | ExitDelayNotElapsed
  | ReinsuranceNotConfigured | InvalidReinsuranceConfig | InvalidParameter | InvalidFeeTier
  | RAdminTransferPending | RInvalidCategory | InvalidAmount | ProviderAlreadyHasNft
  | AdminCannotBeLp | ExitDelayTooLong | PoolDrained | Reentrancy | NameTooLong
  | GuardianRemoveBlocked | MinGuardiansUnmet

datatype rp_event =
    RInitialized address address address address symbol address address
  | LiquidityDeposited address int int
  | LiquidityWithdrawn address int int
  | EmergencyWithdrawn address address int int
  | LpPositionTransferred address address int int
  | PremiumDistributed int int int int
  | TreasuryFunded int address
  | BackstopFunded int address
  | YieldClaimed address int
  | PoolCapacityUpdated int int
  | ExitDelayUpdated int
  | ExitRequested address int int
  | ExitCancelled address int
  | ExitClaimed address int int int
  | CapitalLocked int int
  | CapitalReleased int int
  | ReinsuranceConfigured address int int
  | ReinsuranceActiveSet bool
  | ReinsurancePremiumPaid address int int
  | ReinsuranceRecovered int int int int
  | DynamicFeeConfigUpdated int int int int int bool
  | FeeTierUpdated symbol int int int
  | PoolPausedBy address
  | PoolResumedBy address
  | PoolWindingDownBy address
  | PremiumSplitUpdated int int int
  | ParameterChangeScheduled address int int int int
  | ParameterChangeExecuted address int int int
  | ParameterChangeCancelled address
  | AdminWithdrawalScheduled address int int
  | AdminWithdrawalExecuted address int
  | AdminWithdrawalCancelled address
  | RContractUpgraded int int
  | GuardiansUpdated "address list" int
  | UpgradeApproved wasm_hash address int int
  | RAdminUpdated address
  | LpNftMinted int address symbol int
  | LpNftUpdated int address int int bool
  | CompoundYieldToggled address bool
  | PositionLiquidated address int int int

text \<open>
  \<open>rp_wasm\<close>, \<open>rp_tokens\<close> and \<open>rp_events\<close> are the host's; \<open>rp_reinsurer\<close> is the state
  of the reinsurer's contract.
\<close>

record ('t, 'r) rp_state =
  rp_initialized :: bool
  rp_admin :: "address option"
  rp_treasury :: "address option"
  rp_backstop :: "address option"
  rp_usdc_token :: "address option"
  rp_category :: "symbol option"
  rp_total_deposited :: "int option"
  rp_total_locked :: "int option"
  rp_total_shares :: "int option"
  rp_accumulated_premium :: "int option"
  rp_accumulated_backstop :: "int option"
  rp_accumulated_per_share :: "int option"
  rp_status :: "pool_status option"
  rp_positions :: "address \<rightharpoonup> lp_position"
  rp_lp_count :: "int option"
  rp_lp_address :: "int \<rightharpoonup> address"
  rp_locks :: "int \<rightharpoonup> capital_lock"
  rp_withdrawal_request :: "admin_withdrawal_request option"
  rp_pending_admin :: "address option"
  rp_pending_admin_since :: "int option"
  rp_policy_engine :: "address option"
  rp_claims_processor :: "address option"
  rp_version :: "int option"
  rp_premium_split :: "premium_split option"
  rp_guardians :: "address list option"
  rp_guardian_threshold :: "int option"
  rp_pending_upgrade :: "pending_upgrade option"
  rp_pending_admin_change :: "pending_admin_change option"
  rp_pending_guardian_removal :: "pending_guardian_removal option"
  rp_pending_parameter_change :: "pending_parameter_change option"
  rp_next_nft_id :: "int option"
  rp_nfts :: "int \<rightharpoonup> lp_nft"
  rp_provider_nft :: "address \<rightharpoonup> int"
  rp_capacity :: "pool_capacity option"
  rp_exit_delay :: "int option"
  rp_exits :: "address \<rightharpoonup> exit_request"
  rp_queued_exit_shares :: "int option"
  rp_exit_cursor :: "int option"
  rp_dynamic_fee_config :: "dynamic_fee_config option"
  rp_reinsurance :: "reinsurance_config option"
  rp_reinsurance_premium_paid :: "int option"
  rp_reinsurance_recovered :: "int option"
  rp_fee_tiers :: "symbol \<rightharpoonup> fee_tier"
  rp_fee_tier_list :: "symbol list option"
  rp_reentrancy_guard :: bool
  rp_pool_name :: "string option"
  rp_withdrawal_approvals :: "int option"
  rp_wasm :: "wasm_hash option"
  rp_tokens :: 't
  rp_reinsurer :: 'r
  rp_events :: "rp_event list"

definition rp_fresh :: "'t \<Rightarrow> 'r \<Rightarrow> ('t, 'r) rp_state" where
  "rp_fresh t r = \<lparr>
     rp_initialized = False, rp_admin = None, rp_treasury = None, rp_backstop = None,
     rp_usdc_token = None, rp_category = None, rp_total_deposited = None,
     rp_total_locked = None, rp_total_shares = None, rp_accumulated_premium = None,
     rp_accumulated_backstop = None, rp_accumulated_per_share = None, rp_status = None,
     rp_positions = Map.empty, rp_lp_count = None, rp_lp_address = Map.empty,
     rp_locks = Map.empty, rp_withdrawal_request = None, rp_pending_admin = None,
     rp_pending_admin_since = None, rp_policy_engine = None, rp_claims_processor = None,
     rp_version = None, rp_premium_split = None, rp_guardians = None,
     rp_guardian_threshold = None, rp_pending_upgrade = None, rp_pending_admin_change = None,
     rp_pending_guardian_removal = None, rp_pending_parameter_change = None,
     rp_next_nft_id = None, rp_nfts = Map.empty, rp_provider_nft = Map.empty,
     rp_capacity = None, rp_exit_delay = None, rp_exits = Map.empty,
     rp_queued_exit_shares = None, rp_exit_cursor = None, rp_dynamic_fee_config = None,
     rp_reinsurance = None, rp_reinsurance_premium_paid = None,
     rp_reinsurance_recovered = None, rp_fee_tiers = Map.empty, rp_fee_tier_list = None,
     rp_reentrancy_guard = False, rp_pool_name = None, rp_withdrawal_approvals = None,
     rp_wasm = None, rp_tokens = t, rp_reinsurer = r, rp_events = []\<rparr>"

text \<open>Constants of \<^verbatim>\<open>lib.rs\<close>.\<close>

definition DEFAULT_PREMIUM_LP_BPS :: int where [num_defs]: "DEFAULT_PREMIUM_LP_BPS = 8000"
definition DEFAULT_PREMIUM_TREAS_BPS :: int where [num_defs]: "DEFAULT_PREMIUM_TREAS_BPS = 1000"
definition DEFAULT_PREMIUM_BACKSTOP_BPS :: int where
  [num_defs]: "DEFAULT_PREMIUM_BACKSTOP_BPS = 1000"
definition MAX_TOTAL_DEPOSITED :: int where [num_defs]: "MAX_TOTAL_DEPOSITED = 1000000000000000"
definition MIN_DEPOSIT :: int where [num_defs]: "MIN_DEPOSIT = 1000000"
definition MIN_SHARES :: int where [num_defs]: "MIN_SHARES = 1"
definition DEFAULT_MAX_UTILIZATION_BPS :: int where [num_defs]: "DEFAULT_MAX_UTILIZATION_BPS = 10000"
definition MAX_EXIT_DELAY :: int where [num_defs]: "MAX_EXIT_DELAY = 30 * 24 * 60 * 60"
definition MAX_AUTO_EXIT_SCAN :: int where [num_defs]: "MAX_AUTO_EXIT_SCAN = 5"
definition TIMELOCK_SECONDS :: int where [num_defs]: "TIMELOCK_SECONDS = 7 * 24 * 60 * 60"
definition PARAMETER_TIMELOCK_SECONDS :: int where
  [num_defs]: "PARAMETER_TIMELOCK_SECONDS = 2 * 24 * 60 * 60"
definition MIN_GUARDIANS :: int where [num_defs]: "MIN_GUARDIANS = 2"
definition MAX_POOL_NAME_LEN :: int where [num_defs]: "MAX_POOL_NAME_LEN = 32"

text \<open>The counters of the pool, as the code reads them (an unset counter is 0).\<close>

definition total_deposited :: "('t, 'r) rp_state \<Rightarrow> int" where
  "total_deposited s = unwrap_or 0 (rp_total_deposited s)"

definition total_locked :: "('t, 'r) rp_state \<Rightarrow> int" where
  "total_locked s = unwrap_or 0 (rp_total_locked s)"

definition total_shares :: "('t, 'r) rp_state \<Rightarrow> int" where
  "total_shares s = unwrap_or 0 (rp_total_shares s)"

definition acc_per_share :: "('t, 'r) rp_state \<Rightarrow> int" where
  "acc_per_share s = unwrap_or 0 (rp_accumulated_per_share s)"

definition emit :: "rp_event \<Rightarrow> ('t, 'r) rp_state \<Rightarrow> ('t, 'r) rp_state" where
  [host_defs]: "emit ev s = s\<lparr>rp_events := ev # rp_events s\<rparr>"

text \<open>A plain \<^verbatim>\<open>*\<close> followed by \<^verbatim>\<open>/\<close>, both trapping, and the checked pair.\<close>

definition mul_div :: "int \<Rightarrow> int \<Rightarrow> int \<Rightarrow> ('e, int) result" where
  "mul_div a b c = bindR (i128 (a * b)) (\<lambda>v. if c = 0 then trap else i128 (v sdiv c))"

definition checked_mul_div :: "int \<Rightarrow> int \<Rightarrow> int \<Rightarrow> int option" where
  "checked_mul_div a b c = Option.bind (checked_mul a b) (\<lambda>v. checked_div v c)"

text \<open>
  The reentrancy guard: the flag is set for the length of the call and removed when the
  guard is dropped; an abort reverts it with everything else.
\<close>

definition guarded ::
  "(('t, 'r) rp_state \<Rightarrow> (rp_error, 'a \<times> ('t, 'r) rp_state) result) \<Rightarrow> ('t, 'r) rp_state \<Rightarrow>
   (rp_error, 'a \<times> ('t, 'r) rp_state) result" where
  "guarded body s =
     (if rp_reentrancy_guard s then panic Reentrancy
      else bindR (body (s\<lparr>rp_reentrancy_guard := True\<rparr>)) (\<lambda>(x, s').
           Inr (x, s'\<lparr>rp_reentrancy_guard := False\<rparr>)))"

section \<open>Guards\<close>

definition rp_require_protocol_caller ::
  "env \<Rightarrow> address \<Rightarrow> ('t, 'r) rp_state \<Rightarrow> (rp_error, unit) result" where
  "rp_require_protocol_caller e caller s =
     bindR (or_panic RNotInitialized (rp_admin s)) (\<lambda>admin.
     bindR (or_panic RNotInitialized (rp_policy_engine s)) (\<lambda>pe.
     bindR (or_panic RNotInitialized (rp_claims_processor s)) (\<lambda>cp.
     if caller \<noteq> admin \<and> caller \<noteq> pe \<and> caller \<noteq> cp then panic RUnauthorized
     else require_auth e caller)))"

definition rp_require_admin ::
  "env \<Rightarrow> address \<Rightarrow> ('t, 'r) rp_state \<Rightarrow> (rp_error, unit) result" where
  "rp_require_admin e caller s =
     bindR (or_panic RNotInitialized (rp_admin s)) (\<lambda>admin.
     if caller \<noteq> admin then panic RUnauthorized else require_auth e caller)"

definition require_not_admin :: "address \<Rightarrow> ('t, 'r) rp_state \<Rightarrow> (rp_error, unit) result" where
  "require_not_admin caller s =
     (if rp_admin s = Some caller then panic AdminCannotBeLp else Inr ())"

definition validate_stellar_address :: "address \<Rightarrow> (rp_error, unit) result" where
  "validate_stellar_address a =
     (if length a \<noteq> 56 then panic RInvalidAddress
      else if hd a \<noteq> CHR ''G'' \<and> hd a \<noteq> CHR ''C'' then panic RInvalidAddress
      else Inr ())"

definition rp_require_not_zero_address :: "address \<Rightarrow> (rp_error, unit) result" where
  "rp_require_not_zero_address a = (if a = zero_address then panic RInvalidAddress else Inr ())"

definition get_premium_split_bps :: "('t, 'r) rp_state \<Rightarrow> int \<times> int \<times> int" where
  "get_premium_split_bps s =
     (case rp_premium_split s of
        Some split \<Rightarrow> (ps_lp_bps split, ps_treas_bps split, ps_backstop_bps split)
      | None \<Rightarrow> (DEFAULT_PREMIUM_LP_BPS, DEFAULT_PREMIUM_TREAS_BPS, DEFAULT_PREMIUM_BACKSTOP_BPS))"

definition pool_state :: "('t, 'r) rp_state \<Rightarrow> pool_status" where
  "pool_state s = unwrap_or PoolActive (rp_status s)"

definition assert_active :: "('t, 'r) rp_state \<Rightarrow> (rp_error, unit) result" where
  "assert_active s = (if pool_state s \<noteq> PoolActive then panic PoolNotActive else Inr ())"

definition assert_withdrawable :: "('t, 'r) rp_state \<Rightarrow> (rp_error, unit) result" where
  "assert_withdrawable s = (if pool_state s = PoolPaused then panic PoolNotActive else Inr ())"

definition capacity :: "('t, 'r) rp_state \<Rightarrow> pool_capacity" where
  "capacity s = unwrap_or \<lparr>pc_max_total_deposited = MAX_TOTAL_DEPOSITED,
                 pc_max_utilization_bps = DEFAULT_MAX_UTILIZATION_BPS\<rparr> (rp_capacity s)"

definition exit_delay :: "('t, 'r) rp_state \<Rightarrow> int" where
  "exit_delay s = unwrap_or 0 (rp_exit_delay s)"

definition utilization_bps :: "int \<Rightarrow> int \<Rightarrow> int" where
  "utilization_bps locked deposited =
     (if deposited \<le> 0 then 0
      else max 0 (min 10000 (sat_i128 (locked * 10000) sdiv deposited)))"

lemma rp_guards_ok [result_simps]:
  "rp_require_admin e a s = Inr u \<longleftrightarrow> rp_admin s = Some a \<and> auth e a"
  "require_not_admin b s = Inr u \<longleftrightarrow> rp_admin s \<noteq> Some b"
  "assert_active s = Inr u \<longleftrightarrow> pool_state s = PoolActive"
  "assert_withdrawable s = Inr u \<longleftrightarrow> pool_state s \<noteq> PoolPaused"
  "rp_require_not_zero_address a = Inr u \<longleftrightarrow> a \<noteq> zero_address"
  by (auto simp: rp_require_admin_def require_auth_def require_not_admin_def assert_active_def
      assert_withdrawable_def rp_require_not_zero_address_def result_simps)

lemma protocol_caller_ok [result_simps]:
  "rp_require_protocol_caller e a s = Inr u \<longleftrightarrow> auth e a \<and>
     (\<exists>ad pe cp. rp_admin s = Some ad \<and> rp_policy_engine s = Some pe
        \<and> rp_claims_processor s = Some cp \<and> (a = ad \<or> a = pe \<or> a = cp))"
  by (auto simp: rp_require_protocol_caller_def require_auth_def result_simps)

lemma guarded_ok [result_simps]:
  "guarded body s = Inr (x, s') \<longleftrightarrow> \<not> rp_reentrancy_guard s \<and>
     (\<exists>s1. body (s\<lparr>rp_reentrancy_guard := True\<rparr>) = Inr (x, s1)
        \<and> s' = s1\<lparr>rp_reentrancy_guard := False\<rparr>)"
  by (auto simp: guarded_def result_simps split: prod.splits)

lemma mul_div_ok [result_simps]:
  "mul_div a b c = Inr v \<longleftrightarrow> fits_i128 (a * b) \<and> c \<noteq> 0 \<and> fits_i128 ((a * b) sdiv c)
     \<and> v = (a * b) sdiv c"
  by (auto simp: mul_div_def result_simps)

lemma checked_mul_div_ok [result_simps]:
  "checked_mul_div a b c = Some v \<longleftrightarrow> fits_i128 (a * b) \<and> c \<noteq> 0 \<and> fits_i128 ((a * b) sdiv c)
     \<and> v = (a * b) sdiv c"
  by (auto simp: checked_mul_div_def result_simps)

end
