(* ===== verification/RP_Positions.thy ===== *)
theory RP_Positions
  imports RP_Types
begin

text \<open>
  The liquidity side of the risk pool: the settlement of yield, the soulbound NFTs, the
  queue of exits with its sweep, deposits, withdrawals and transfers of positions
  (\<^verbatim>\<open>lib.rs\<close>, "Deposits", "Exit queue", "LP NFT" and the internal helpers they use).
\<close>

section \<open>Yield and NFTs\<close>

text \<open>\<^verbatim>\<open>settle_yield\<close> updates the position in memory and returns what is owed.\<close>

definition settle_yield ::
  "env \<Rightarrow> ('t, 'r) rp_state \<Rightarrow> lp_position \<Rightarrow> (rp_error, int \<times> lp_position) result" where
  "settle_yield e s position =
     (if total_shares s = 0 then Inr (0, position)
      else bindR (mul_div (acc_per_share s) (lp_shares position) 1000000000000) (\<lambda>entitled.
      let claimable = sat_i128 (entitled - lp_yield_debt position)
      in if claimable > 0
         then bindR (i128 (lp_yield_claimed position + claimable)) (\<lambda>claimed.
              Inr (claimable, position\<lparr>lp_yield_claimed := claimed,
                     lp_last_yield_claim := timestamp e, lp_yield_debt := entitled\<rparr>))
         else Inr (claimable, position)))"

definition pay_out_yield ::
  "'t token_ops \<Rightarrow> env \<Rightarrow> address \<Rightarrow> int \<Rightarrow> ('t, 'r) rp_state \<Rightarrow>
   (rp_error, ('t, 'r) rp_state) result" where
  "pay_out_yield tk e provider amount s =
     (if amount \<le> 0 then Inr s
      else bindR (or_trap (rp_usdc_token s)) (\<lambda>usdc.
      bindR (or_trap (transfer_of tk (rp_tokens s) usdc (this e) provider amount)) (\<lambda>t.
      Inr (emit (YieldClaimed provider amount) (s\<lparr>rp_tokens := t\<rparr>)))))"

definition mint_lp_nft ::
  "address \<Rightarrow> symbol \<Rightarrow> int \<Rightarrow> lp_position \<Rightarrow> ('t, 'r) rp_state \<Rightarrow>
   (rp_error, ('t, 'r) rp_state) result" where
  "mint_lp_nft provider category minted_at position s =
     (if rp_provider_nft s provider \<noteq> None then panic ProviderAlreadyHasNft
      else let token_id = unwrap_or 1 (rp_next_nft_id s)
      in bindR (or_panic ROverflow (checked_u64 (token_id + 1))) (\<lambda>next_token_id.
      Inr (emit (LpNftMinted token_id provider category minted_at)
        (s\<lparr>rp_next_nft_id := Some next_token_id,
           rp_nfts := (rp_nfts s)(token_id \<mapsto>
             \<lparr>nft_token_id = token_id, nft_provider = provider, nft_category = category,
              nft_minted_at = minted_at, nft_shares = lp_shares position,
              nft_deposited = lp_deposited position, nft_active = True\<rparr>),
           rp_provider_nft := (rp_provider_nft s)(provider \<mapsto> token_id)\<rparr>))))"

definition update_lp_nft ::
  "address \<Rightarrow> lp_position \<Rightarrow> ('t, 'r) rp_state \<Rightarrow> ('t, 'r) rp_state" where
  "update_lp_nft provider position s =
     (case rp_provider_nft s provider of
        None \<Rightarrow> s
      | Some token_id \<Rightarrow>
          (case rp_nfts s token_id of
             None \<Rightarrow> s
           | Some nft \<Rightarrow>
               emit (LpNftUpdated token_id provider (lp_shares position) (lp_deposited position)
                       (lp_shares position > 0))
                 (s\<lparr>rp_nfts := (rp_nfts s)(token_id \<mapsto>
                      nft\<lparr>nft_shares := lp_shares position,
                          nft_deposited := lp_deposited position,
                          nft_active := (lp_shares position > 0)\<rparr>)\<rparr>)))"

section \<open>Settling a withdrawal\<close>

definition clear_exit_reservation ::
  "address \<Rightarrow> int \<Rightarrow> ('t, 'r) rp_state \<Rightarrow> ('t, 'r) rp_state" where
  "clear_exit_reservation provider shares s =
     s\<lparr>rp_exits := (rp_exits s)(provider := None),
       rp_queued_exit_shares :=
         Some (max 0 (sat_i128 (unwrap_or 0 (rp_queued_exit_shares s) - shares)))\<rparr>"

text \<open>
  The price of a redemption: the checks of \<^verbatim>\<open>withdraw_inner\<close> up to the amount. The
  product \<^verbatim>\<open>position.shares * total_locked\<close> is computed (and may trap) although its
  quotient is not used.
\<close>

definition price_withdrawal ::
  "lp_position \<Rightarrow> int \<Rightarrow> ('t, 'r) rp_state \<Rightarrow> (rp_error, int) result" where
  "price_withdrawal position shares s =
     (if lp_shares position < shares then panic InsufficientFunds
      else if total_shares s = 0 then panic NoShares
      else bindR (if total_shares s > 0
                  then mul_div (lp_shares position) (total_locked s) (total_shares s)
                  else Inr 0) (\<lambda>lp_share_of_locked.
      let available_liquidity = sat_i128 (total_deposited s - total_locked s)
      in if available_liquidity \<le> 0 then panic PoolDrained
         else bindR (or_panic ROverflow
                (checked_mul_div shares (total_deposited s) (total_shares s))) (\<lambda>amount.
         if amount = 0 then panic ZeroAmount
         else if amount > available_liquidity then panic Undercollateralized
         else Inr amount)))"

text \<open>The position and the totals after burning \<open>shares\<close> worth \<open>amount\<close>.\<close>

definition burn_shares ::
  "address \<Rightarrow> lp_position \<Rightarrow> int \<Rightarrow> int \<Rightarrow> ('t, 'r) rp_state \<Rightarrow>
   (rp_error, ('t, 'r) rp_state) result" where
  "burn_shares provider position shares amount s =
     bindR (i128 (lp_shares position - shares)) (\<lambda>left.
     bindR (mul_div (acc_per_share s) left 1000000000000) (\<lambda>debt.
     let position' = position\<lparr>lp_deposited := sat_i128 (lp_deposited position - amount),
                              lp_shares := left, lp_yield_debt := debt\<rparr>
     in bindR (or_panic ROverflow (checked_sub (total_deposited s) amount)) (\<lambda>deposited.
        bindR (i128 (total_shares s - shares)) (\<lambda>outstanding.
        Inr (update_lp_nft provider position'
          (s\<lparr>rp_positions := (rp_positions s)(provider \<mapsto> position'),
             rp_total_deposited := Some deposited,
             rp_total_shares := Some outstanding\<rparr>))))))"

definition withdraw_inner ::
  "'t token_ops \<Rightarrow> env \<Rightarrow> address \<Rightarrow> int \<Rightarrow> ('t, 'r) rp_state \<Rightarrow>
   (rp_error, int \<times> ('t, 'r) rp_state) result" where
  "withdraw_inner tk e provider shares s =
     (if shares \<le> 0 then panic ZeroAmount
      else bindR (assert_withdrawable s) (\<lambda>_.
      bindR (or_panic NoShares (rp_positions s provider)) (\<lambda>position.
      bindR (price_withdrawal position shares s) (\<lambda>amount.
      bindR (settle_yield e s position) (\<lambda>(pending_yield, position).
      bindR (burn_shares provider position shares amount
               (s\<lparr>rp_accumulated_per_share := Some (acc_per_share s)\<rparr>)) (\<lambda>s1.
      let s2 = emit (LiquidityWithdrawn provider shares amount) s1
      in bindR (or_trap (rp_usdc_token s2)) (\<lambda>usdc.
         bindR (or_trap (balance_of tk (rp_tokens s2) usdc (this e))) (\<lambda>contract_balance.
         if contract_balance < amount then panic InsufficientFunds
         else bindR (or_trap (transfer_of tk (rp_tokens s2) usdc (this e) provider amount)) (\<lambda>t.
         bindR (pay_out_yield tk e provider pending_yield (s2\<lparr>rp_tokens := t\<rparr>)) (\<lambda>s3.
         Inr (amount, s3)))))))))))"

text \<open>
  One step of the sweep: slot \<open>(start mod lp_count + step) mod lp_count\<close>. The result is
  the number of exits settled so far with the state.
\<close>

definition sweep_slot ::
  "'t token_ops \<Rightarrow> env \<Rightarrow> address option \<Rightarrow> address \<Rightarrow> int \<Rightarrow> ('t, 'r) rp_state \<Rightarrow>
   (rp_error, int \<times> ('t, 'r) rp_state) result" where
  "sweep_slot tk e skip provider settled s =
     (if skip = Some provider then Inr (settled, s)
      else case rp_exits s provider of
        None \<Rightarrow> Inr (settled, s)
      | Some request \<Rightarrow>
          if timestamp e < ex_claimable_at request then Inr (settled, s)
          else let held = (case rp_positions s provider of None \<Rightarrow> 0 | Some p \<Rightarrow> lp_shares p);
                   shares = min (ex_shares request) held
          in if shares \<le> 0
             then Inr (settled, clear_exit_reservation provider (ex_shares request) s)
             else let available = sat_i128 (total_deposited s - total_locked s)
             in bindR (case checked_mul shares (total_deposited s) of
                         None \<Rightarrow> Inr 0
                       | Some v \<Rightarrow> if total_shares s > 0 then i128 (v sdiv total_shares s) else Inr 0)
                  (\<lambda>amount.
                if amount \<le> 0 \<or> amount > available then Inr (settled, s)
                else bindR (withdraw_inner tk e provider shares
                       (clear_exit_reservation provider (ex_shares request) s)) (\<lambda>(returned, s1).
                     bindR (u32 (settled + 1)) (\<lambda>n.
                     Inr (n, emit (ExitClaimed provider shares returned
                          (sat_u64 (timestamp e - ex_requested_at request))) s1)))))"

fun sweep_loop ::
  "'t token_ops \<Rightarrow> env \<Rightarrow> address option \<Rightarrow> int \<Rightarrow> int \<Rightarrow> int list \<Rightarrow> int \<Rightarrow> ('t, 'r) rp_state \<Rightarrow>
   (rp_error, int \<times> ('t, 'r) rp_state) result" where
  "sweep_loop tk e skip start lp_count [] settled s = Inr (settled, s)"
| "sweep_loop tk e skip start lp_count (step # steps) settled s =
     bindR (u32 (start mod lp_count + step)) (\<lambda>slot.
     bindR (case rp_lp_address s (slot mod lp_count) of
              None \<Rightarrow> Inr (settled, s)
            | Some provider \<Rightarrow> sweep_slot tk e skip provider settled s) (\<lambda>(n, s1).
     sweep_loop tk e skip start lp_count steps n s1))"

definition sweep_expired_exits ::
  "'t token_ops \<Rightarrow> env \<Rightarrow> int \<Rightarrow> address option \<Rightarrow> ('t, 'r) rp_state \<Rightarrow>
   (rp_error, int \<times> ('t, 'r) rp_state) result" where
  "sweep_expired_exits tk e max_scan skip s =
     (let lp_count = unwrap_or 0 (rp_lp_count s)
      in if max_scan = 0 \<or> lp_count = 0 \<or> pool_state s = PoolPaused then Inr (0, s)
         else let scan = min max_scan lp_count; start = unwrap_or 0 (rp_exit_cursor s)
         in bindR (sweep_loop tk e skip start lp_count [0 .. scan - 1] 0 s) (\<lambda>(settled, s1).
            bindR (u32 (start mod lp_count + scan)) (\<lambda>cursor.
            Inr (settled, s1\<lparr>rp_exit_cursor := Some (cursor mod lp_count)\<rparr>))))"

section \<open>Deposits\<close>

definition deposit_checks ::
  "env \<Rightarrow> address \<Rightarrow> int \<Rightarrow> ('t, 'r) rp_state \<Rightarrow> (rp_error, unit) result" where
  "deposit_checks e provider amount s =
     bindR (validate_stellar_address provider) (\<lambda>_.
     bindR (rp_require_not_zero_address provider) (\<lambda>_.
     bindR (require_auth e provider) (\<lambda>_.
     bindR (require_not_admin provider s) (\<lambda>_.
     if amount \<le> 0 then panic ZeroAmount
     else if amount < MIN_DEPOSIT then panic DepositTooSmall
     else if amount mod MIN_DEPOSIT \<noteq> 0 then panic InvalidAmount
     else assert_active s))))"

text \<open>
  The price of a deposit: the checks against the capacity, the shares to mint, and the
  shares burnt for good by the first deposit. \<^verbatim>\<open>as u32\<close> keeps the low 32 bits.
\<close>

definition price_deposit ::
  "int \<Rightarrow> int \<Rightarrow> ('t, 'r) rp_state \<Rightarrow> (rp_error, int \<times> int \<times> int) result" where
  "price_deposit amount min_shares s =
     bindR (or_panic ROverflow (checked_add (total_deposited s) amount)) (\<lambda>new_total_deposited.
     if new_total_deposited > pc_max_total_deposited (capacity s) then panic PoolCapExceeded
     else let current_utilization_bps =
            (if total_deposited s > 0
             then unwrap_or 0 (checked_mul_div (total_locked s) 10000 (total_deposited s)) mod 2 ^ 32
             else 0)
     in if current_utilization_bps \<ge> pc_max_utilization_bps (capacity s) then panic PoolCapExceeded
     else bindR (if total_shares s = 0
                 then bindR (or_panic ROverflow (checked_mul amount 1000000000)) (\<lambda>minted.
                      if minted \<le> 1000 then panic DepositTooSmall
                      else Inr (minted - 1000, 1000))
                 else bindR (or_panic ROverflow
                        (checked_mul_div amount (total_shares s) (total_deposited s))) (\<lambda>v.
                      Inr (v, 0))) (\<lambda>(new_shares, burn).
     if new_shares < MIN_SHARES then panic ZeroAmount
     else if new_shares < min_shares then panic InsufficientShares
     else Inr (new_total_deposited, new_shares, burn)))"

text \<open>The tokens come in, and the balance of the pool must have grown by the amount.\<close>

definition pull_deposit ::
  "'t token_ops \<Rightarrow> env \<Rightarrow> address \<Rightarrow> int \<Rightarrow> ('t, 'r) rp_state \<Rightarrow>
   (rp_error, ('t, 'r) rp_state) result" where
  "pull_deposit tk e provider amount s =
     bindR (or_trap (rp_usdc_token s)) (\<lambda>usdc.
     bindR (or_trap (balance_of tk (rp_tokens s) usdc (this e))) (\<lambda>balance_before.
     bindR (or_panic RInvalidToken (transfer_of tk (rp_tokens s) usdc provider (this e) amount)) (\<lambda>t.
     bindR (or_trap (balance_of tk t usdc (this e))) (\<lambda>balance_after.
     let received = unwrap_or 0 (checked_sub balance_after balance_before)
     in if received \<noteq> amount then panic RInvalidToken
        else Inr (s\<lparr>rp_tokens := t\<rparr>)))))"

text \<open>
  A provider's first position takes the next slot of the address list; \<open>fresh\<close> tells
  whether it is the first.
\<close>

definition open_position ::
  "env \<Rightarrow> address \<Rightarrow> int \<Rightarrow> int \<Rightarrow> bool \<Rightarrow> ('t, 'r) rp_state \<Rightarrow>
   (rp_error, lp_position \<times> ('t, 'r) rp_state) result" where
  "open_position e provider amount shares compound s =
     (let count = unwrap_or 0 (rp_lp_count s)
      in bindR (u32 (count + 1)) (\<lambda>n.
      Inr (\<lparr>lp_provider = provider, lp_deposited = amount, lp_shares = shares,
            lp_yield_claimed = 0, lp_yield_debt = 0, lp_deposited_at = timestamp e,
            lp_last_yield_claim = timestamp e, lp_compound_enabled = compound,
            lp_insurance_enabled = False, lp_insurance_paid = 0\<rparr>,
           s\<lparr>rp_lp_address := (rp_lp_address s)(count \<mapsto> provider), rp_lp_count := Some n\<rparr>)))"

definition credit_position ::
  "env \<Rightarrow> address \<Rightarrow> int \<Rightarrow> int \<Rightarrow> bool \<Rightarrow> ('t, 'r) rp_state \<Rightarrow>
   (rp_error, (bool \<times> int \<times> lp_position) \<times> ('t, 'r) rp_state) result" where
  "credit_position e provider amount new_shares compound s =
     (case rp_positions s provider of
        Some pos \<Rightarrow>
          bindR (settle_yield e s pos) (\<lambda>(pending_yield, pos).
          bindR (or_panic ROverflow (checked_add (lp_deposited pos) amount)) (\<lambda>deposited.
          bindR (or_panic ROverflow (checked_add (lp_shares pos) new_shares)) (\<lambda>shares.
          bindR (or_panic ROverflow (checked_mul_div (acc_per_share s) shares 1000000000000)) (\<lambda>debt.
          Inr ((False, pending_yield, pos\<lparr>lp_deposited := deposited, lp_shares := shares,
                  lp_yield_debt := debt, lp_compound_enabled := compound\<rparr>), s)))))
      | None \<Rightarrow>
          bindR (open_position e provider amount new_shares compound s) (\<lambda>(pos, s1).
          bindR (or_panic ROverflow
                   (checked_mul_div (acc_per_share s1) new_shares 1000000000000)) (\<lambda>debt.
          Inr ((True, 0, pos\<lparr>lp_yield_debt := debt\<rparr>), s1))))"

definition deposit_body ::
  "'t token_ops \<Rightarrow> env \<Rightarrow> address \<Rightarrow> int \<Rightarrow> int \<Rightarrow> bool \<Rightarrow> ('t, 'r) rp_state \<Rightarrow>
   (rp_error, int \<times> ('t, 'r) rp_state) result" where
  "deposit_body tk e provider amount min_shares compound s =
     bindR (deposit_checks e provider amount s) (\<lambda>_.
     bindR (sweep_expired_exits tk e MAX_AUTO_EXIT_SCAN (Some provider) s) (\<lambda>(_, s).
     bindR (price_deposit amount min_shares s) (\<lambda>(new_total_deposited, new_shares, burn).
     bindR (pull_deposit tk e provider amount s) (\<lambda>s1.
     bindR (credit_position e provider amount new_shares compound s1)
       (\<lambda>((is_new_lp, pending_yield, position), s2).
     bindR (or_panic ROverflow (Option.bind (checked_add (total_shares s) new_shares)
                                 (\<lambda>v. checked_add v burn))) (\<lambda>new_total_shares.
     let s3 = emit (LiquidityDeposited provider amount new_shares)
           (s2\<lparr>rp_positions := (rp_positions s2)(provider \<mapsto> position),
               rp_total_deposited := Some new_total_deposited,
               rp_total_shares := Some new_total_shares\<rparr>)
     in bindR (or_trap (rp_category s3)) (\<lambda>category.
        bindR (if is_new_lp then mint_lp_nft provider category (timestamp e) position s3
               else Inr (update_lp_nft provider position s3)) (\<lambda>s4.
        bindR (if compound \<and> pending_yield > 0 then Inr s4
               else pay_out_yield tk e provider pending_yield s4) (\<lambda>s5.
        Inr (new_shares, s5))))))))))"

definition deposit ::
  "'t token_ops \<Rightarrow> env \<Rightarrow> address \<Rightarrow> int \<Rightarrow> int \<Rightarrow> bool \<Rightarrow> ('t, 'r) rp_state \<Rightarrow>
   (rp_error, int \<times> ('t, 'r) rp_state) result" where
  "deposit tk e provider amount min_shares compound s =
     guarded (deposit_body tk e provider amount min_shares compound) s"

definition deposit_with_token ::
  "'t token_ops \<Rightarrow> env \<Rightarrow> address \<Rightarrow> address \<Rightarrow> int \<Rightarrow> int \<Rightarrow> bool \<Rightarrow> ('t, 'r) rp_state \<Rightarrow>
   (rp_error, int \<times> ('t, 'r) rp_state) result" where
  "deposit_with_token tk e provider deposit_token amount min_shares compound s =
     bindR (or_panic RNotInitialized (rp_usdc_token s)) (\<lambda>usdc.
     if deposit_token \<noteq> usdc then panic RInvalidToken
     else deposit tk e provider amount min_shares compound s)"

section \<open>Withdrawals\<close>

definition withdraw ::
  "'t token_ops \<Rightarrow> env \<Rightarrow> address \<Rightarrow> int \<Rightarrow> ('t, 'r) rp_state \<Rightarrow>
   (rp_error, int \<times> ('t, 'r) rp_state) result" where
  "withdraw tk e provider shares s =
     guarded (\<lambda>s.
       bindR (require_auth e provider) (\<lambda>_.
       if shares \<le> 0 then panic ZeroAmount
       else bindR (sweep_expired_exits tk e MAX_AUTO_EXIT_SCAN (Some provider) s) (\<lambda>(_, s1).
       withdraw_inner tk e provider shares s1))) s"

definition emergency_withdraw ::
  "'t token_ops \<Rightarrow> env \<Rightarrow> address \<Rightarrow> address \<Rightarrow> int \<Rightarrow> ('t, 'r) rp_state \<Rightarrow>
   (rp_error, int \<times> ('t, 'r) rp_state) result" where
  "emergency_withdraw tk e provider admin shares s =
     guarded (\<lambda>s.
       bindR (require_auth e provider) (\<lambda>_.
       bindR (rp_require_admin e admin s) (\<lambda>_.
       if shares \<le> 0 then panic ZeroAmount
       else bindR (or_panic NoShares (rp_positions s provider)) (\<lambda>position.
       if lp_shares position < shares then panic InsufficientFunds
       else let available_liquidity = sat_i128 (total_deposited s - total_locked s)
       in if available_liquidity \<le> 0 then panic Undercollateralized
       else bindR (or_panic ROverflow
              (checked_mul_div shares (total_deposited s) (total_shares s))) (\<lambda>amount.
       if amount = 0 then panic ZeroAmount
       else if amount > available_liquidity then panic Undercollateralized
       else bindR (settle_yield e s position) (\<lambda>(pending_yield, position).
       bindR (burn_shares provider position shares amount s) (\<lambda>s1.
       bindR (or_trap (rp_usdc_token s1)) (\<lambda>usdc.
       bindR (i128 (amount + pending_yield)) (\<lambda>total_payout.
       bindR (or_trap (transfer_of tk (rp_tokens s1) usdc (this e) provider total_payout)) (\<lambda>t.
       Inr (amount, emit (EmergencyWithdrawn provider admin amount shares)
                      (s1\<lparr>rp_tokens := t\<rparr>)))))))))))) s"

section \<open>Transfers\<close>

text \<open>The giving side keeps its remaining shares and is paid its yield.\<close>

definition debit_sender ::
  "'t token_ops \<Rightarrow> env \<Rightarrow> address \<Rightarrow> int \<Rightarrow> ('t, 'r) rp_state \<Rightarrow>
   (rp_error, int \<times> ('t, 'r) rp_state) result" where
  "debit_sender tk e from shares s =
     bindR (or_panic NoShares (rp_positions s from)) (\<lambda>from_pos.
     if lp_shares from_pos < shares then panic InsufficientShares
     else bindR (or_panic ROverflow
            (checked_mul_div shares (lp_deposited from_pos) (lp_shares from_pos))) (\<lambda>amount.
     if amount = 0 then panic ZeroAmount
     else bindR (settle_yield e s from_pos) (\<lambda>(pending_yield, from_pos).
     bindR (i128 (lp_shares from_pos - shares)) (\<lambda>left.
     bindR (mul_div (acc_per_share s) left 1000000000000) (\<lambda>debt.
     let from_pos = from_pos\<lparr>lp_deposited := sat_i128 (lp_deposited from_pos - amount),
                             lp_shares := left, lp_yield_debt := debt\<rparr>
     in bindR (pay_out_yield tk e from pending_yield
            (update_lp_nft from from_pos
              (s\<lparr>rp_positions := (rp_positions s)(from \<mapsto> from_pos)\<rparr>))) (\<lambda>s1.
        Inr (amount, s1)))))))"

definition credit_receiver ::
  "'t token_ops \<Rightarrow> env \<Rightarrow> address \<Rightarrow> int \<Rightarrow> int \<Rightarrow> ('t, 'r) rp_state \<Rightarrow>
   (rp_error, (bool \<times> lp_position) \<times> ('t, 'r) rp_state) result" where
  "credit_receiver tk e to amount shares s =
     (case rp_positions s to of
        Some pos \<Rightarrow>
          bindR (settle_yield e s pos) (\<lambda>(pending_yield, pos).
          bindR (i128 (lp_deposited pos + amount)) (\<lambda>deposited.
          bindR (i128 (lp_shares pos + shares)) (\<lambda>held.
          bindR (mul_div (acc_per_share s) held 1000000000000) (\<lambda>debt.
          let pos = pos\<lparr>lp_deposited := deposited, lp_shares := held, lp_yield_debt := debt\<rparr>
          in bindR (pay_out_yield tk e to pending_yield
                 (s\<lparr>rp_positions := (rp_positions s)(to \<mapsto> pos)\<rparr>)) (\<lambda>s1.
             Inr ((False, pos), s1))))))
      | None \<Rightarrow>
          bindR (open_position e to amount shares False s) (\<lambda>(pos, s1).
          bindR (mul_div (acc_per_share s1) shares 1000000000000) (\<lambda>debt.
          let pos = pos\<lparr>lp_yield_debt := debt\<rparr>
          in Inr ((True, pos), s1\<lparr>rp_positions := (rp_positions s1)(to \<mapsto> pos)\<rparr>))))"

definition transfer_position ::
  "'t token_ops \<Rightarrow> env \<Rightarrow> address \<Rightarrow> address \<Rightarrow> int \<Rightarrow> ('t, 'r) rp_state \<Rightarrow>
   (rp_error, int \<times> ('t, 'r) rp_state) result" where
  "transfer_position tk e from to shares s =
     bindR (require_auth e from) (\<lambda>_.
     if shares \<le> 0 then panic ZeroAmount
     else if from = to then panic RInvalidAddress
     else bindR (require_not_admin to s) (\<lambda>_.
     bindR (assert_active s) (\<lambda>_.
     bindR (debit_sender tk e from shares s) (\<lambda>(amount, s1).
     bindR (credit_receiver tk e to amount shares s1) (\<lambda>((is_new_lp, to_pos), s2).
     bindR (or_trap (rp_category s2)) (\<lambda>category.
     bindR (if is_new_lp then mint_lp_nft to category (timestamp e) to_pos s2
            else Inr (update_lp_nft to to_pos s2)) (\<lambda>s3.
     Inr (amount, emit (LpPositionTransferred from to shares amount) s3))))))))"

definition transfer_shares ::
  "'t token_ops \<Rightarrow> env \<Rightarrow> address \<Rightarrow> address \<Rightarrow> int \<Rightarrow> ('t, 'r) rp_state \<Rightarrow>
   (rp_error, int \<times> ('t, 'r) rp_state) result" where
  "transfer_shares tk e from to shares s =
     (if shares \<le> 0 then panic ZeroAmount else transfer_position tk e from to shares s)"

definition claim_yield ::
  "'t token_ops \<Rightarrow> env \<Rightarrow> address \<Rightarrow> ('t, 'r) rp_state \<Rightarrow>
   (rp_error, int \<times> ('t, 'r) rp_state) result" where
  "claim_yield tk e provider s =
     guarded (\<lambda>s.
       bindR (require_auth e provider) (\<lambda>_.
       bindR (or_panic NoShares (rp_positions s provider)) (\<lambda>position.
       bindR (settle_yield e s position) (\<lambda>(claimed, position).
       bindR (pay_out_yield tk e provider claimed
                (if claimed > 0 then s\<lparr>rp_positions := (rp_positions s)(provider \<mapsto> position)\<rparr>
                 else s)) (\<lambda>s1.
       Inr (claimed, s1)))))) s"

definition toggle_compound ::
  "env \<Rightarrow> address \<Rightarrow> bool \<Rightarrow> ('t, 'r) rp_state \<Rightarrow> (rp_error, ('t, 'r) rp_state) result" where
  "toggle_compound e provider enabled s =
     bindR (require_auth e provider) (\<lambda>_.
     bindR (or_panic NoShares (rp_positions s provider)) (\<lambda>position.
     Inr (emit (CompoundYieldToggled provider enabled)
       (s\<lparr>rp_positions := (rp_positions s)
            (provider \<mapsto> position\<lparr>lp_compound_enabled := enabled\<rparr>)\<rparr>))))"

section \<open>The exit queue\<close>

definition set_exit_delay ::
  "env \<Rightarrow> address \<Rightarrow> int \<Rightarrow> ('t, 'r) rp_state \<Rightarrow> (rp_error, ('t, 'r) rp_state) result" where
  "set_exit_delay e admin delay_seconds s =
     bindR (rp_require_admin e admin s) (\<lambda>_.
     if delay_seconds > MAX_EXIT_DELAY then panic ExitDelayTooLong
     else Inr (emit (ExitDelayUpdated delay_seconds) (s\<lparr>rp_exit_delay := Some delay_seconds\<rparr>)))"

definition request_exit ::
  "'t token_ops \<Rightarrow> env \<Rightarrow> address \<Rightarrow> int \<Rightarrow> ('t, 'r) rp_state \<Rightarrow>
   (rp_error, unit \<times> ('t, 'r) rp_state) result" where
  "request_exit tk e provider shares s =
     guarded (\<lambda>s.
       bindR (require_auth e provider) (\<lambda>_.
       if shares \<le> 0 then panic ZeroAmount
       else bindR (assert_withdrawable s) (\<lambda>_.
       bindR (sweep_expired_exits tk e MAX_AUTO_EXIT_SCAN (Some provider) s) (\<lambda>(_, s1).
       bindR (or_panic NoShares (rp_positions s1 provider)) (\<lambda>position.
       let (total, requested_at, claimable_at) =
             (case rp_exits s1 provider of
                Some prev \<Rightarrow> (sat_i128 (ex_shares prev + shares), ex_requested_at prev,
                              ex_claimable_at prev)
              | None \<Rightarrow> (shares, timestamp e, sat_u64 (timestamp e + exit_delay s1)))
       in if lp_shares position < total then panic InsufficientFunds
          else Inr ((), emit (ExitRequested provider shares claimable_at)
            (s1\<lparr>rp_exits := (rp_exits s1)(provider \<mapsto>
                  \<lparr>ex_provider = provider, ex_shares = total, ex_requested_at = requested_at,
                   ex_claimable_at = claimable_at\<rparr>),
                rp_queued_exit_shares :=
                  Some (sat_i128 (unwrap_or 0 (rp_queued_exit_shares s1) + shares))\<rparr>))))))) s"

definition claim_exit ::
  "'t token_ops \<Rightarrow> env \<Rightarrow> address \<Rightarrow> ('t, 'r) rp_state \<Rightarrow>
   (rp_error, int \<times> ('t, 'r) rp_state) result" where
  "claim_exit tk e provider s =
     guarded (\<lambda>s.
       bindR (require_auth e provider) (\<lambda>_.
       bindR (or_panic NoExitRequest (rp_exits s provider)) (\<lambda>request.
       if timestamp e < ex_claimable_at request then panic ExitDelayNotElapsed
       else bindR (withdraw_inner tk e provider (ex_shares request)
              (clear_exit_reservation provider (ex_shares request) s)) (\<lambda>(amount, s1).
       Inr (amount, emit (ExitClaimed provider (ex_shares request) amount
              (sat_u64 (timestamp e - ex_requested_at request))) s1))))) s"

definition process_expired_exits ::
  "'t token_ops \<Rightarrow> env \<Rightarrow> int \<Rightarrow> ('t, 'r) rp_state \<Rightarrow>
   (rp_error, int \<times> ('t, 'r) rp_state) result" where
  "process_expired_exits tk e max_scan s =
     guarded (sweep_expired_exits tk e (min max_scan MAX_AUTO_EXIT_SCAN) None) s"

definition cancel_exit ::
  "env \<Rightarrow> address \<Rightarrow> ('t, 'r) rp_state \<Rightarrow> (rp_error, unit \<times> ('t, 'r) rp_state) result" where
  "cancel_exit e provider s =
     guarded (\<lambda>s.
       bindR (require_auth e provider) (\<lambda>_.
       bindR (or_panic NoExitRequest (rp_exits s provider)) (\<lambda>request.
       Inr ((), emit (ExitCancelled provider (ex_shares request))
         (clear_exit_reservation provider (ex_shares request) s))))) s"

section \<open>Queries\<close>

definition get_exit_delay :: "('t, 'r) rp_state \<Rightarrow> int" where
  "get_exit_delay s = exit_delay s"

definition get_exit_info :: "env \<Rightarrow> address \<Rightarrow> ('t, 'r) rp_state \<Rightarrow> exit_info" where
  "get_exit_info e provider s =
     (case rp_exits s provider of
        None \<Rightarrow> \<lparr>xi_provider = provider, xi_status = NoExit, xi_shares = 0, xi_requested_at = 0,
                 xi_claimable_at = 0, xi_seconds_remaining = 0\<rparr>
      | Some req \<Rightarrow>
          \<lparr>xi_provider = provider,
           xi_status = (if timestamp e \<ge> ex_claimable_at req then ExitClaimable else ExitPending),
           xi_shares = ex_shares req, xi_requested_at = ex_requested_at req,
           xi_claimable_at = ex_claimable_at req,
           xi_seconds_remaining = sat_u64 (ex_claimable_at req - timestamp e)\<rparr>)"

definition get_queued_exit_shares :: "('t, 'r) rp_state \<Rightarrow> int" where
  "get_queued_exit_shares s = unwrap_or 0 (rp_queued_exit_shares s)"

definition get_position :: "address \<Rightarrow> ('t, 'r) rp_state \<Rightarrow> lp_position option" where
  "get_position provider s = rp_positions s provider"

definition get_lp_count :: "('t, 'r) rp_state \<Rightarrow> int" where
  "get_lp_count s = unwrap_or 0 (rp_lp_count s)"

text \<open>The page of slots \<open>offset ..< min (offset + limit) count\<close> whose holder has shares.\<close>

definition lp_in_slot :: "('t, 'r) rp_state \<Rightarrow> int \<Rightarrow> address list" where
  "lp_in_slot s i =
     (case rp_lp_address s i of
        None \<Rightarrow> []
      | Some a \<Rightarrow> (case rp_positions s a of
                     None \<Rightarrow> []
                   | Some p \<Rightarrow> if lp_shares p > 0 then [a] else []))"

definition get_lp_list ::
  "int option \<Rightarrow> int option \<Rightarrow> ('t, 'r) rp_state \<Rightarrow> (rp_error, paginated_lps) result" where
  "get_lp_list offset limit s =
     (let total_count = unwrap_or 0 (rp_lp_count s);
          offset_val = unwrap_or 0 offset;
          limit_val = min (unwrap_or 100 limit) 500
      in if offset_val < total_count
         then bindR (u32 (offset_val + limit_val)) (\<lambda>stop.
              Inr \<lparr>pl_lps = concat (map (lp_in_slot s) [offset_val .. min stop total_count - 1]),
                   pl_total_count = total_count\<rparr>)
         else Inr \<lparr>pl_lps = [], pl_total_count = total_count\<rparr>)"

definition get_lp_nft :: "int \<Rightarrow> ('t, 'r) rp_state \<Rightarrow> lp_nft option" where
  "get_lp_nft token_id s = rp_nfts s token_id"

definition get_provider_nft :: "address \<Rightarrow> ('t, 'r) rp_state \<Rightarrow> int option" where
  "get_provider_nft provider s = rp_provider_nft s provider"

definition get_next_nft_id :: "('t, 'r) rp_state \<Rightarrow> int" where
  "get_next_nft_id s = unwrap_or 1 (rp_next_nft_id s)"

end
