(* ===== verification/RP_Capital.thy ===== *)
theory RP_Capital
  imports RP_Positions
begin

text \<open>
  The risk side of the risk pool: initialisation, premium income, the capital locks of
  policies, reinsurance, capacity, fees, and the liquidation of under-collateralised
  positions (\<^verbatim>\<open>lib.rs\<close>, "Premium and yield", "Capacity limits", "Capital locks",
  "Reinsurance", "Queries", "Fee Tiers").
\<close>

section \<open>Initialisation\<close>

definition rp_initialize ::
  "'t token_ops \<Rightarrow> env \<Rightarrow> address \<Rightarrow> address \<Rightarrow> address \<Rightarrow> address \<Rightarrow> symbol \<Rightarrow> address \<Rightarrow>
   address \<Rightarrow> ('t, 'r) rp_state \<Rightarrow> (rp_error, ('t, 'r) rp_state) result" where
  "rp_initialize tk e admin usdc_token treasury backstop category policy_engine
       claims_processor s =
     (if rp_initialized s then panic RAlreadyInitialized
      else if category = '''' then panic RInvalidCategory
      else bindR (rp_require_not_zero_address admin) (\<lambda>_.
      if \<not> is_account_or_contract admin then panic RInvalidAddress
      else if balance_of tk (rp_tokens s) usdc_token (this e) = None then panic RInvalidToken
      else if \<not> is_contract usdc_token then panic RInvalidAddress
      else if \<not> is_contract treasury then panic RInvalidAddress
      else bindR (require_auth e admin) (\<lambda>_.
      Inr (emit (RInitialized admin usdc_token treasury backstop category policy_engine
                   claims_processor)
        (s\<lparr>rp_initialized := True,
           rp_admin := Some admin,
           rp_usdc_token := Some usdc_token,
           rp_treasury := Some treasury,
           rp_backstop := Some backstop,
           rp_category := Some category,
           rp_policy_engine := Some policy_engine,
           rp_claims_processor := Some claims_processor,
           rp_total_deposited := Some 0,
           rp_total_locked := Some 0,
           rp_total_shares := Some 0,
           rp_accumulated_premium := Some 0,
           rp_accumulated_backstop := Some 0,
           rp_accumulated_per_share := Some 0,
           rp_status := Some PoolActive,
           rp_lp_count := Some 0\<rparr>)))))"

section \<open>Premium\<close>

text \<open>
  The accounting of a premium: the three shares, the yield per share, and the tokens to the
  treasury and the backstop, in this order.
\<close>

definition distribute_premium ::
  "'t token_ops \<Rightarrow> env \<Rightarrow> address \<Rightarrow> int \<Rightarrow> ('t, 'r) rp_state \<Rightarrow>
   (rp_error, ('t, 'r) rp_state) result" where
  "distribute_premium tk e usdc amount s =
     (let (lp_bps, treas_bps, backstop_bps) = get_premium_split_bps s
      in bindR (mul_div amount lp_bps 10000) (\<lambda>lp_share.
      bindR (mul_div amount treas_bps 10000) (\<lambda>treas_share.
      bindR (mul_div amount backstop_bps 10000) (\<lambda>backstop_share.
      bindR (i128 (unwrap_or 0 (rp_accumulated_premium s) + lp_share)) (\<lambda>acc.
      bindR (if total_shares s > 0
             then bindR (or_panic ROverflow
                    (checked_mul_div lp_share 1000000000000 (total_shares s))) (\<lambda>increment.
                  bindR (i128 (acc_per_share s + increment)) (\<lambda>v. Inr (Some v)))
             else Inr (rp_accumulated_per_share s)) (\<lambda>per_share.
      bindR (i128 (unwrap_or 0 (rp_accumulated_backstop s) + backstop_share)) (\<lambda>acc_backstop.
      let s1 = s\<lparr>rp_accumulated_premium := Some acc, rp_accumulated_per_share := per_share,
                 rp_accumulated_backstop := Some acc_backstop\<rparr>
      in bindR (or_trap (rp_treasury s1)) (\<lambda>treasury.
         bindR (or_trap (transfer_of tk (rp_tokens s1) usdc (this e) treasury treas_share)) (\<lambda>t.
         bindR (or_trap (rp_backstop s1)) (\<lambda>backstop.
         bindR (or_trap (transfer_of tk t usdc (this e) backstop backstop_share)) (\<lambda>t'.
         Inr (emit (PremiumDistributed amount lp_share treas_share backstop_share)
                (s1\<lparr>rp_tokens := t'\<rparr>)))))))))))))"

definition receive_premium ::
  "'t token_ops \<Rightarrow> env \<Rightarrow> address \<Rightarrow> int \<Rightarrow> ('t, 'r) rp_state \<Rightarrow>
   (rp_error, unit \<times> ('t, 'r) rp_state) result" where
  "receive_premium tk e caller amount s =
     guarded (\<lambda>s.
       bindR (require_auth e caller) (\<lambda>_.
       if amount \<le> 0 then Inr ((), s)
       else bindR (or_trap (rp_usdc_token s)) (\<lambda>usdc.
       bindR (or_trap (transfer_of tk (rp_tokens s) usdc caller (this e) amount)) (\<lambda>t.
       bindR (distribute_premium tk e usdc amount (s\<lparr>rp_tokens := t\<rparr>)) (\<lambda>s1.
       Inr ((), s1)))))) s"

definition send_premium_to_treasury ::
  "'t token_ops \<Rightarrow> env \<Rightarrow> address \<Rightarrow> int \<Rightarrow> ('t, 'r) rp_state \<Rightarrow>
   (rp_error, unit \<times> ('t, 'r) rp_state) result" where
  "send_premium_to_treasury tk e caller amount s =
     guarded (\<lambda>s.
       bindR (rp_require_admin e caller s) (\<lambda>_.
       if amount \<le> 0 then panic ZeroAmount
       else bindR (or_trap (rp_usdc_token s)) (\<lambda>usdc.
       bindR (or_trap (rp_treasury s)) (\<lambda>treasury.
       bindR (or_trap (transfer_of tk (rp_tokens s) usdc (this e) treasury amount)) (\<lambda>t.
       Inr ((), emit (TreasuryFunded amount treasury) (s\<lparr>rp_tokens := t\<rparr>))))))) s"

definition send_premium_to_backstop ::
  "'t token_ops \<Rightarrow> env \<Rightarrow> address \<Rightarrow> int \<Rightarrow> ('t, 'r) rp_state \<Rightarrow>
   (rp_error, unit \<times> ('t, 'r) rp_state) result" where
  "send_premium_to_backstop tk e caller amount s =
     guarded (\<lambda>s.
       bindR (rp_require_admin e caller s) (\<lambda>_.
       if amount \<le> 0 then panic ZeroAmount
       else bindR (or_trap (rp_usdc_token s)) (\<lambda>usdc.
       bindR (or_trap (rp_backstop s)) (\<lambda>backstop.
       bindR (or_trap (transfer_of tk (rp_tokens s) usdc (this e) backstop amount)) (\<lambda>t.
       Inr ((), emit (BackstopFunded amount backstop) (s\<lparr>rp_tokens := t\<rparr>))))))) s"

definition get_backstop :: "('t, 'r) rp_state \<Rightarrow> (rp_error, address) result" where
  "get_backstop s = or_panic RNotInitialized (rp_backstop s)"

section \<open>Capacity\<close>

definition set_capacity ::
  "env \<Rightarrow> address \<Rightarrow> int \<Rightarrow> int \<Rightarrow> ('t, 'r) rp_state \<Rightarrow> (rp_error, ('t, 'r) rp_state) result" where
  "set_capacity e admin max_total_deposited max_utilization_bps s =
     bindR (rp_require_admin e admin s) (\<lambda>_.
     if max_total_deposited \<le> 0 \<or> max_utilization_bps = 0 \<or> max_utilization_bps > 10000
     then panic InvalidCapacity
     else Inr (emit (PoolCapacityUpdated max_total_deposited max_utilization_bps)
       (s\<lparr>rp_capacity := Some \<lparr>pc_max_total_deposited = max_total_deposited,
                                pc_max_utilization_bps = max_utilization_bps\<rparr>\<rparr>)))"

definition get_capacity :: "('t, 'r) rp_state \<Rightarrow> pool_capacity" where
  "get_capacity s = capacity s"

definition max_lockable :: "('t, 'r) rp_state \<Rightarrow> int" where
  "max_lockable s = sat_i128 (total_deposited s * pc_max_utilization_bps (capacity s)) sdiv 10000"

definition get_capacity_status :: "('t, 'r) rp_state \<Rightarrow> capacity_status" where
  "get_capacity_status s =
     (let cap = capacity s
      in \<lparr>cs_total_deposited = total_deposited s, cs_total_locked = total_locked s,
          cs_max_total_deposited = pc_max_total_deposited cap,
          cs_utilization_bps = utilization_bps (total_locked s) (total_deposited s),
          cs_max_utilization_bps = pc_max_utilization_bps cap,
          cs_remaining_deposit_capacity =
            max 0 (sat_i128 (pc_max_total_deposited cap - total_deposited s)),
          cs_remaining_coverage_capacity =
            max 0 (sat_i128 (max_lockable s - total_locked s))\<rparr>)"

section \<open>Capital locks\<close>

definition lock_for_policy ::
  "env \<Rightarrow> address \<Rightarrow> int \<Rightarrow> int \<Rightarrow> ('t, 'r) rp_state \<Rightarrow> (rp_error, ('t, 'r) rp_state) result" where
  "lock_for_policy e caller policy_id amount s =
     bindR (rp_require_protocol_caller e caller s) (\<lambda>_.
     bindR (assert_active s) (\<lambda>_.
     if amount \<le> 0 then panic ZeroAmount
     else let available = sat_i128 (total_deposited s - total_locked s)
     in if available < amount then panic Undercollateralized
     else if pc_max_utilization_bps (capacity s) < 10000
             \<and> sat_i128 (total_locked s + amount) > max_lockable s
     then panic UtilizationCapExceeded
     else if rp_locks s policy_id \<noteq> None then panic AlreadyLocked
     else bindR (or_panic ROverflow (checked_add (total_locked s) amount)) (\<lambda>locked.
     Inr (emit (CapitalLocked policy_id amount)
       (s\<lparr>rp_locks := (rp_locks s)(policy_id \<mapsto>
            \<lparr>lk_policy_id = policy_id, lk_amount = amount, lk_locked_at = timestamp e,
             lk_released = False\<rparr>),
          rp_total_locked := Some locked\<rparr>)))))"

definition release_lock :: "int \<Rightarrow> capital_lock \<Rightarrow> ('t, 'r) rp_state \<Rightarrow> ('t, 'r) rp_state" where
  "release_lock policy_id lock s =
     s\<lparr>rp_locks := (rp_locks s)(policy_id \<mapsto> lock\<lparr>lk_released := True\<rparr>),
       rp_total_locked := Some (sat_i128 (total_locked s - lk_amount lock))\<rparr>"

definition release_for_claim ::
  "env \<Rightarrow> address \<Rightarrow> int \<Rightarrow> ('t, 'r) rp_state \<Rightarrow> (rp_error, ('t, 'r) rp_state) result" where
  "release_for_claim e caller policy_id s =
     bindR (rp_require_protocol_caller e caller s) (\<lambda>_.
     bindR (or_panic LockNotFound (rp_locks s policy_id)) (\<lambda>lock.
     if lk_amount lock \<le> 0 then panic ZeroAmount
     else if lk_released lock then panic AlreadyReleased
     else Inr (emit (CapitalReleased policy_id (lk_amount lock)) (release_lock policy_id lock s))))"

definition release_for_expiry ::
  "env \<Rightarrow> address \<Rightarrow> int \<Rightarrow> ('t, 'r) rp_state \<Rightarrow> (rp_error, ('t, 'r) rp_state) result" where
  "release_for_expiry e caller policy_id s =
     bindR (rp_require_protocol_caller e caller s) (\<lambda>_.
     bindR (or_panic LockNotFound (rp_locks s policy_id)) (\<lambda>lock.
     if lk_released lock then panic AlreadyReleased
     else Inr (release_lock policy_id lock s)))"

section \<open>Reinsurance\<close>

text \<open>
  The reinsurer is a contract outside the repository: \<open>recover r reinsurer caller policy n\<close>
  is the amount it reports with the state of its world and the token ledger after the
  call, or nothing when the call fails.
\<close>

type_synonym ('t, 'r) reinsurer =
  "'t \<Rightarrow> 'r \<Rightarrow> address \<Rightarrow> address \<Rightarrow> int \<Rightarrow> int \<Rightarrow> (int \<times> 't \<times> 'r) option"

definition set_reinsurance ::
  "('t, 'r) reinsurer \<Rightarrow> env \<Rightarrow> address \<Rightarrow> address \<Rightarrow> int \<Rightarrow> int \<Rightarrow> ('t, 'r) rp_state \<Rightarrow>
   (rp_error, ('t, 'r) rp_state) result" where
  "set_reinsurance recover e admin reinsurer attachment_point coverage_limit s =
     bindR (rp_require_admin e admin s) (\<lambda>_.
     if attachment_point < 0 \<or> coverage_limit < 0 then panic InvalidReinsuranceConfig
     else bindR (or_panic InvalidReinsuranceConfig
            (recover (rp_tokens s) (rp_reinsurer s) reinsurer (this e) 0 0)) (\<lambda>(_, t, r).
     Inr (emit (ReinsuranceConfigured reinsurer attachment_point coverage_limit)
       (s\<lparr>rp_tokens := t, rp_reinsurer := r,
          rp_reinsurance := Some \<lparr>ri_reinsurer = reinsurer,
            ri_attachment_point = attachment_point, ri_coverage_limit = coverage_limit,
            ri_active = True\<rparr>\<rparr>))))"

definition set_reinsurance_active ::
  "env \<Rightarrow> address \<Rightarrow> bool \<Rightarrow> ('t, 'r) rp_state \<Rightarrow> (rp_error, ('t, 'r) rp_state) result" where
  "set_reinsurance_active e admin active s =
     bindR (rp_require_admin e admin s) (\<lambda>_.
     bindR (or_panic ReinsuranceNotConfigured (rp_reinsurance s)) (\<lambda>config.
     Inr (emit (ReinsuranceActiveSet active)
       (s\<lparr>rp_reinsurance := Some (config\<lparr>ri_active := active\<rparr>)\<rparr>))))"

definition send_premium_to_reinsurer ::
  "'t token_ops \<Rightarrow> env \<Rightarrow> address \<Rightarrow> int \<Rightarrow> ('t, 'r) rp_state \<Rightarrow>
   (rp_error, unit \<times> ('t, 'r) rp_state) result" where
  "send_premium_to_reinsurer tk e caller amount s =
     guarded (\<lambda>s.
       bindR (rp_require_admin e caller s) (\<lambda>_.
       if amount \<le> 0 then panic ZeroAmount
       else bindR (or_panic ReinsuranceNotConfigured (rp_reinsurance s)) (\<lambda>config.
       let total_premium_paid = sat_i128 (unwrap_or 0 (rp_reinsurance_premium_paid s) + amount);
           s1 = s\<lparr>rp_reinsurance_premium_paid := Some total_premium_paid\<rparr>
       in bindR (or_trap (rp_usdc_token s1)) (\<lambda>usdc.
          bindR (or_trap (transfer_of tk (rp_tokens s1) usdc (this e) (ri_reinsurer config) amount)) (\<lambda>t.
          Inr ((), emit (ReinsurancePremiumPaid (ri_reinsurer config) amount total_premium_paid)
                 (s1\<lparr>rp_tokens := t\<rparr>))))))) s"

definition clamp :: "int \<Rightarrow> int \<Rightarrow> int \<Rightarrow> int" where
  "clamp lo hi x = max lo (min hi x)"

text \<open>What may be asked of the reinsurer for a loss: nothing, or a positive amount.\<close>

definition recovery_request ::
  "int \<Rightarrow> ('t, 'r) rp_state \<Rightarrow> (rp_error, (reinsurance_config \<times> int) option) result" where
  "recovery_request loss_amount s =
     (if loss_amount \<le> 0 then Inr None
      else case rp_reinsurance s of
        None \<Rightarrow> Inr None
      | Some config \<Rightarrow>
          if \<not> ri_active config \<or> loss_amount \<le> ri_attachment_point config then Inr None
          else bindR (i128 (loss_amount - ri_attachment_point config)) (\<lambda>excess.
          let coverage_remaining = max 0 (sat_i128 (ri_coverage_limit config
                                     - unwrap_or 0 (rp_reinsurance_recovered s)))
          in if coverage_remaining \<le> 0 then Inr None
             else Inr (Some (config, min excess coverage_remaining))))"

text \<open>The reinsurer's report is cut to the request and added to the deposits.\<close>

definition collect_recovery ::
  "('t, 'r) reinsurer \<Rightarrow> env \<Rightarrow> int \<Rightarrow> int \<Rightarrow> reinsurance_config \<Rightarrow> int \<Rightarrow> ('t, 'r) rp_state \<Rightarrow>
   (rp_error, int \<times> ('t, 'r) rp_state) result" where
  "collect_recovery recover e policy_id loss_amount config requested s =
     bindR (or_trap (recover (rp_tokens s) (rp_reinsurer s) (ri_reinsurer config) (this e)
                       policy_id requested)) (\<lambda>(reported, t, r).
     let recovered = clamp 0 requested reported; s1 = s\<lparr>rp_tokens := t, rp_reinsurer := r\<rparr>
     in if recovered > 0
        then bindR (or_panic ROverflow (checked_add (total_deposited s1) recovered)) (\<lambda>deposited.
             let total_recovered =
                   sat_i128 (unwrap_or 0 (rp_reinsurance_recovered s1) + recovered)
             in Inr (recovered,
                  emit (ReinsuranceRecovered policy_id loss_amount recovered
                          (max 0 (sat_i128 (ri_coverage_limit config - total_recovered))))
                    (s1\<lparr>rp_total_deposited := Some deposited,
                        rp_reinsurance_recovered := Some total_recovered\<rparr>)))
        else Inr (recovered, s1))"

definition request_reinsurance_recovery ::
  "('t, 'r) reinsurer \<Rightarrow> env \<Rightarrow> address \<Rightarrow> int \<Rightarrow> int \<Rightarrow> ('t, 'r) rp_state \<Rightarrow>
   (rp_error, int \<times> ('t, 'r) rp_state) result" where
  "request_reinsurance_recovery recover e caller policy_id loss_amount s =
     guarded (\<lambda>s.
       bindR (rp_require_protocol_caller e caller s) (\<lambda>_.
       bindR (recovery_request loss_amount s) (\<lambda>req.
       case req of
         None \<Rightarrow> Inr (0, s)
       | Some (config, requested) \<Rightarrow>
           collect_recovery recover e policy_id loss_amount config requested s))) s"

definition get_reinsurance :: "('t, 'r) rp_state \<Rightarrow> reinsurance_config option" where
  "get_reinsurance s = rp_reinsurance s"

definition get_reinsurance_stats :: "('t, 'r) rp_state \<Rightarrow> reinsurance_stats" where
  "get_reinsurance_stats s =
     (let recovered = unwrap_or 0 (rp_reinsurance_recovered s);
          coverage_limit = unwrap_or 0 (map_option ri_coverage_limit (rp_reinsurance s))
      in \<lparr>rs_total_premium_paid = unwrap_or 0 (rp_reinsurance_premium_paid s),
          rs_total_recovered = recovered,
          rs_coverage_remaining = max 0 (sat_i128 (coverage_limit - recovered))\<rparr>)"

section \<open>Statistics and fees\<close>

definition get_stats :: "('t, 'r) rp_state \<Rightarrow> (rp_error, pool_stats) result" where
  "get_stats s =
     bindR (or_trap (rp_category s)) (\<lambda>category.
     Inr \<lparr>ts_category = category, ts_total_deposited = total_deposited s,
          ts_total_locked = total_locked s, ts_total_shares = total_shares s,
          ts_accumulated_premium = unwrap_or 0 (rp_accumulated_premium s),
          ts_accumulated_backstop = unwrap_or 0 (rp_accumulated_backstop s),
          ts_status = pool_state s\<rparr>)"

definition get_utilization_rate :: "('t, 'r) rp_state \<Rightarrow> int" where
  "get_utilization_rate s =
     (if total_deposited s = 0 then 0
      else let effective_locked =
             sat_i128 (total_locked s + unwrap_or 0 (rp_queued_exit_shares s));
           util_bps = unwrap_or 0 (checked_mul_div effective_locked 10000 (total_deposited s))
      in if util_bps > u32_max then u32_max else util_bps mod 2 ^ 32)"

definition get_dynamic_premium_rate :: "int \<Rightarrow> ('t, 'r) rp_state \<Rightarrow> int" where
  "get_dynamic_premium_rate base_rate_bps s =
     (let util = min (cs_utilization_bps (get_capacity_status s)) 10000;
          scaled = min u128_max (base_rate_bps * min u128_max (10000 + util)) div 10000
      in if scaled > u32_max then u32_max else scaled)"

definition set_dynamic_fee_config ::
  "env \<Rightarrow> address \<Rightarrow> int \<Rightarrow> int \<Rightarrow> int \<Rightarrow> int \<Rightarrow> int \<Rightarrow> bool \<Rightarrow> ('t, 'r) rp_state \<Rightarrow>
   (rp_error, ('t, 'r) rp_state) result" where
  "set_dynamic_fee_config e admin base_fee_bps max_fee_bps min_fee_bps
       utilization_threshold_bps fee_adjustment_per_1pct_bps enabled s =
     bindR (rp_require_admin e admin s) (\<lambda>_.
     if base_fee_bps > 10000 \<or> max_fee_bps > 10000 \<or> min_fee_bps > 10000
     then panic InvalidParameter
     else if min_fee_bps = 0 \<or> base_fee_bps = 0 then panic InvalidParameter
     else if min_fee_bps > base_fee_bps \<or> base_fee_bps > max_fee_bps then panic InvalidParameter
     else if utilization_threshold_bps > 10000 then panic InvalidParameter
     else Inr (emit (DynamicFeeConfigUpdated base_fee_bps max_fee_bps min_fee_bps
                       utilization_threshold_bps fee_adjustment_per_1pct_bps enabled)
       (s\<lparr>rp_dynamic_fee_config := Some \<lparr>df_base_fee_bps = base_fee_bps,
            df_max_fee_bps = max_fee_bps, df_min_fee_bps = min_fee_bps,
            df_utilization_threshold_bps = utilization_threshold_bps,
            df_adjustment_per_1pct_bps = fee_adjustment_per_1pct_bps,
            df_enabled = enabled, df_last_updated = timestamp e\<rparr>\<rparr>)))"

definition get_dynamic_fee_config :: "('t, 'r) rp_state \<Rightarrow> dynamic_fee_config" where
  "get_dynamic_fee_config s =
     unwrap_or \<lparr>df_base_fee_bps = 0, df_max_fee_bps = 1000, df_min_fee_bps = 0,
        df_utilization_threshold_bps = 7000, df_adjustment_per_1pct_bps = 10,
        df_enabled = False, df_last_updated = 0\<rparr> (rp_dynamic_fee_config s)"

definition calculate_dynamic_fee :: "('t, 'r) rp_state \<Rightarrow> int" where
  "calculate_dynamic_fee s =
     (let config = get_dynamic_fee_config s
      in if \<not> df_enabled config then df_base_fee_bps config
         else let util_bps = cs_utilization_bps (get_capacity_status s)
         in if util_bps \<le> df_utilization_threshold_bps config then df_base_fee_bps config
            else let above = sat_u32 (util_bps - df_utilization_threshold_bps config);
                     increase = sat_u32 (above div 100 * df_adjustment_per_1pct_bps config);
                     adjusted = sat_u32 (df_base_fee_bps config + increase)
                 in max (min adjusted (df_max_fee_bps config)) (df_min_fee_bps config))"

definition set_fee_tier ::
  "env \<Rightarrow> address \<Rightarrow> symbol \<Rightarrow> int \<Rightarrow> int \<Rightarrow> int \<Rightarrow> ('t, 'r) rp_state \<Rightarrow>
   (rp_error, ('t, 'r) rp_state) result" where
  "set_fee_tier e admin name min_deposit min_lock_duration discount_bps s =
     bindR (rp_require_admin e admin s) (\<lambda>_.
     if discount_bps > 10000 then panic InvalidFeeTier
     else if min_deposit < 0 then panic InvalidFeeTier
     else let tier = \<lparr>ft_min_deposit = min_deposit, ft_min_lock_duration = min_lock_duration,
                      ft_discount_bps = discount_bps, ft_name = name\<rparr>;
              names = unwrap_or [] (rp_fee_tier_list s);
              s1 = s\<lparr>rp_fee_tiers := (rp_fee_tiers s)(name \<mapsto> tier)\<rparr>
     in Inr (emit (FeeTierUpdated name min_deposit min_lock_duration discount_bps)
          (if name \<in> set names then s1 else s1\<lparr>rp_fee_tier_list := Some (names @ [name])\<rparr>)))"

definition remove_fee_tier ::
  "env \<Rightarrow> address \<Rightarrow> symbol \<Rightarrow> ('t, 'r) rp_state \<Rightarrow> (rp_error, ('t, 'r) rp_state) result" where
  "remove_fee_tier e admin name s =
     bindR (rp_require_admin e admin s) (\<lambda>_.
     if rp_fee_tiers s name = None then panic InvalidFeeTier
     else Inr (s\<lparr>rp_fee_tiers := (rp_fee_tiers s)(name := None),
                 rp_fee_tier_list :=
                   Some (filter (\<lambda>n. n \<noteq> name) (unwrap_or [] (rp_fee_tier_list s)))\<rparr>))"

definition get_fee_tier :: "symbol \<Rightarrow> ('t, 'r) rp_state \<Rightarrow> fee_tier option" where
  "get_fee_tier name s = rp_fee_tiers s name"

definition get_fee_tier_names :: "('t, 'r) rp_state \<Rightarrow> symbol list" where
  "get_fee_tier_names s = unwrap_or [] (rp_fee_tier_list s)"

text \<open>The scan keeps the best discount of the tiers whose conditions are met.\<close>

fun best_discount ::
  "env \<Rightarrow> lp_position \<Rightarrow> (symbol \<rightharpoonup> fee_tier) \<Rightarrow> symbol list \<Rightarrow> int \<Rightarrow> int" where
  "best_discount e position tiers [] best = best"
| "best_discount e position tiers (name # names) best =
     best_discount e position tiers names
       (case tiers name of
          None \<Rightarrow> best
        | Some tier \<Rightarrow>
            if lp_deposited position \<ge> ft_min_deposit tier
               \<and> (ft_min_lock_duration tier = 0
                  \<or> sat_u64 (timestamp e - lp_deposited_at position) \<ge> ft_min_lock_duration tier)
               \<and> ft_discount_bps tier > best
            then ft_discount_bps tier else best)"

definition get_lp_fee_discount :: "env \<Rightarrow> address \<Rightarrow> ('t, 'r) rp_state \<Rightarrow> int" where
  "get_lp_fee_discount e provider s =
     (case rp_positions s provider of
        None \<Rightarrow> 0
      | Some position \<Rightarrow>
          best_discount e position (rp_fee_tiers s) (unwrap_or [] (rp_fee_tier_list s)) 0)"

definition get_premium_split :: "('t, 'r) rp_state \<Rightarrow> premium_split" where
  "get_premium_split s =
     (case get_premium_split_bps s of (l, t, b) \<Rightarrow>
        \<lparr>ps_lp_bps = l, ps_treas_bps = t, ps_backstop_bps = b\<rparr>)"

definition get_available_liquidity :: "('t, 'r) rp_state \<Rightarrow> int" where
  "get_available_liquidity s = sat_i128 (total_deposited s - total_locked s)"

section \<open>Liquidation\<close>

definition get_collateralization_ratio ::
  "address \<Rightarrow> ('t, 'r) rp_state \<Rightarrow> (rp_error, collateralization_info) result" where
  "get_collateralization_ratio provider s =
     bindR (or_panic NoShares (rp_positions s provider)) (\<lambda>position.
     if total_shares s = 0 \<or> lp_shares position = 0
     then Inr \<lparr>ci_provider = provider, ci_position_value = 0, ci_position_liability = 0,
               ci_collateralization_bps = u32_max\<rparr>
     else let available = sat_i128 (total_deposited s - total_locked s);
              position_value =
                unwrap_or 0 (checked_mul_div (lp_shares position) available (total_shares s));
              position_liability =
                unwrap_or 0 (checked_mul_div (lp_shares position) (total_locked s) (total_shares s));
              bps = (if position_liability \<le> 0 then u32_max
                     else let ratio = unwrap_or 0 (checked_mul_div position_value 10000 position_liability)
                          in if ratio > u32_max then u32_max else ratio mod 2 ^ 32)
          in Inr \<lparr>ci_provider = provider, ci_position_value = position_value,
                  ci_position_liability = position_liability, ci_collateralization_bps = bps\<rparr>)"

definition liquidate_position ::
  "env \<Rightarrow> address \<Rightarrow> address \<Rightarrow> ('t, 'r) rp_state \<Rightarrow>
   (rp_error, liquidation_result \<times> ('t, 'r) rp_state) result" where
  "liquidate_position e caller provider s =
     bindR (rp_require_protocol_caller e caller s) (\<lambda>_.
     bindR (or_panic NoShares (rp_positions s provider)) (\<lambda>position.
     bindR (get_collateralization_ratio provider s) (\<lambda>info.
     if ci_collateralization_bps info \<ge> 10000 \<or> ci_position_liability info \<le> 0
     then panic Undercollateralized
     else let undercollateral_bps = sat_u32 (10000 - ci_collateralization_bps info);
              shares_seized =
                unwrap_or 0 (checked_mul_div (lp_shares position) undercollateral_bps 10000)
     in if shares_seized \<le> 0 then panic Undercollateralized
     else let amount_recovered =
                (if total_shares s > 0
                 then unwrap_or 0 (checked_mul_div shares_seized (total_deposited s) (total_shares s))
                 else 0);
              new_position = position\<lparr>
                lp_shares := sat_i128 (lp_shares position - shares_seized),
                lp_deposited := sat_i128 (lp_deposited position - amount_recovered)\<rparr>
     in Inr (\<lparr>lr_provider = provider, lr_shares_seized = shares_seized,
              lr_amount_recovered = amount_recovered,
              lr_previous_ratio_bps = ci_collateralization_bps info\<rparr>,
          emit (PositionLiquidated provider shares_seized amount_recovered
                  (ci_collateralization_bps info))
            (s\<lparr>rp_positions := (if lp_shares new_position \<le> 0
                  then (rp_positions s)(provider := None)
                  else (rp_positions s)(provider \<mapsto> new_position)),
               rp_total_shares := Some (sat_i128 (total_shares s - shares_seized)),
               rp_total_deposited := Some (sat_i128 (total_deposited s - amount_recovered))\<rparr>)))))"

end
