(* ===== verification/RP_Admin.thy ===== *)
theory RP_Admin
  imports RP_Capital
begin

text \<open>
  The administration of the risk pool: its status, the premium split and its announced
  changes, the timelocked withdrawal of the admin, the committee of guardians, upgrades,
  and the transfer of the admin role (\<^verbatim>\<open>lib.rs\<close>, "Admin", from \<^verbatim>\<open>get_admin\<close> on).
\<close>

section \<open>Status\<close>

definition rp_get_admin :: "('t, 'r) rp_state \<Rightarrow> (rp_error, address) result" where
  "rp_get_admin s = or_panic RNotInitialized (rp_admin s)"

definition rp_get_version :: "('t, 'r) rp_state \<Rightarrow> int" where
  "rp_get_version s = unwrap_or 1 (rp_version s)"

definition pause :: "env \<Rightarrow> address \<Rightarrow> ('t, 'r) rp_state \<Rightarrow> (rp_error, ('t, 'r) rp_state) result" where
  "pause e admin s =
     bindR (rp_require_admin e admin s) (\<lambda>_.
     Inr (emit (PoolPausedBy admin) (s\<lparr>rp_status := Some PoolPaused\<rparr>)))"

definition resume :: "env \<Rightarrow> address \<Rightarrow> ('t, 'r) rp_state \<Rightarrow> (rp_error, ('t, 'r) rp_state) result" where
  "resume e admin s =
     bindR (rp_require_admin e admin s) (\<lambda>_.
     Inr (emit (PoolResumedBy admin) (s\<lparr>rp_status := Some PoolActive\<rparr>)))"

definition start_winding_down ::
  "env \<Rightarrow> address \<Rightarrow> ('t, 'r) rp_state \<Rightarrow> (rp_error, ('t, 'r) rp_state) result" where
  "start_winding_down e admin s =
     bindR (rp_require_admin e admin s) (\<lambda>_.
     bindR (assert_active s) (\<lambda>_.
     Inr (emit (PoolWindingDownBy admin) (s\<lparr>rp_status := Some PoolWindingDown\<rparr>))))"

definition set_pool_name ::
  "env \<Rightarrow> address \<Rightarrow> string \<Rightarrow> ('t, 'r) rp_state \<Rightarrow> (rp_error, ('t, 'r) rp_state) result" where
  "set_pool_name e admin name s =
     bindR (rp_require_admin e admin s) (\<lambda>_.
     if length name = 0 \<or> int (length name) > MAX_POOL_NAME_LEN then panic NameTooLong
     else Inr (s\<lparr>rp_pool_name := Some name\<rparr>))"

definition get_pool_name :: "('t, 'r) rp_state \<Rightarrow> string option" where
  "get_pool_name s = rp_pool_name s"

section \<open>The premium split\<close>

definition valid_split :: "int \<Rightarrow> int \<Rightarrow> int \<Rightarrow> bool" where
  "valid_split lp_bps treas_bps backstop_bps \<longleftrightarrow>
     \<not> (lp_bps < 0 \<or> lp_bps > 10000 \<or> treas_bps < 0 \<or> treas_bps > 10000
        \<or> backstop_bps < 0 \<or> backstop_bps > 10000)
     \<and> lp_bps + treas_bps + backstop_bps = 10000"

definition update_premium_split ::
  "env \<Rightarrow> address \<Rightarrow> int \<Rightarrow> int \<Rightarrow> int \<Rightarrow> ('t, 'r) rp_state \<Rightarrow> (rp_error, ('t, 'r) rp_state) result" where
  "update_premium_split e admin lp_bps treas_bps backstop_bps s =
     bindR (rp_require_admin e admin s) (\<lambda>_.
     if \<not> valid_split lp_bps treas_bps backstop_bps then panic InvalidSplit
     else Inr (emit (PremiumSplitUpdated lp_bps treas_bps backstop_bps)
       (s\<lparr>rp_premium_split := Some \<lparr>ps_lp_bps = lp_bps, ps_treas_bps = treas_bps,
                                    ps_backstop_bps = backstop_bps\<rparr>\<rparr>)))"

definition propose_parameter_change ::
  "env \<Rightarrow> address \<Rightarrow> int \<Rightarrow> int \<Rightarrow> int \<Rightarrow> ('t, 'r) rp_state \<Rightarrow> (rp_error, ('t, 'r) rp_state) result" where
  "propose_parameter_change e admin lp_bps treas_bps backstop_bps s =
     bindR (rp_require_admin e admin s) (\<lambda>_.
     if \<not> valid_split lp_bps treas_bps backstop_bps then panic InvalidSplit
     else if rp_pending_parameter_change s \<noteq> None then panic ParameterChangePending
     else bindR (u64 (timestamp e + PARAMETER_TIMELOCK_SECONDS)) (\<lambda>executable_after.
     Inr (emit (ParameterChangeScheduled admin lp_bps treas_bps backstop_bps executable_after)
       (s\<lparr>rp_pending_parameter_change := Some
            \<lparr>pp_lp_bps = lp_bps, pp_treas_bps = treas_bps, pp_backstop_bps = backstop_bps,
             pp_proposed_at = timestamp e, pp_executable_after = executable_after,
             pp_executed = False\<rparr>\<rparr>))))"

text \<open>The record of an executed change stays in the storage, so that it blocks the next.\<close>

definition execute_parameter_change ::
  "env \<Rightarrow> address \<Rightarrow> ('t, 'r) rp_state \<Rightarrow> (rp_error, ('t, 'r) rp_state) result" where
  "execute_parameter_change e admin s =
     bindR (rp_require_admin e admin s) (\<lambda>_.
     bindR (or_panic NoPendingParameterChange (rp_pending_parameter_change s)) (\<lambda>pending.
     if pp_executed pending then panic AlreadyReleased
     else if timestamp e < pp_executable_after pending then panic ParameterChangeNotReady
     else if pp_lp_bps pending < 0 \<or> pp_treas_bps pending < 0 \<or> pp_backstop_bps pending < 0
     then panic InvalidSplit
     else bindR (i128 (pp_lp_bps pending + pp_treas_bps pending)) (\<lambda>v.
     bindR (i128 (v + pp_backstop_bps pending)) (\<lambda>total.
     if total \<noteq> 10000 then panic InvalidSplit
     else Inr (emit (ParameterChangeExecuted admin (pp_lp_bps pending) (pp_treas_bps pending)
                       (pp_backstop_bps pending))
       (s\<lparr>rp_premium_split := Some \<lparr>ps_lp_bps = pp_lp_bps pending,
            ps_treas_bps = pp_treas_bps pending, ps_backstop_bps = pp_backstop_bps pending\<rparr>,
          rp_pending_parameter_change := Some (pending\<lparr>pp_executed := True\<rparr>)\<rparr>))))))"

definition cancel_parameter_change ::
  "env \<Rightarrow> address \<Rightarrow> ('t, 'r) rp_state \<Rightarrow> (rp_error, ('t, 'r) rp_state) result" where
  "cancel_parameter_change e admin s =
     bindR (rp_require_admin e admin s) (\<lambda>_.
     if rp_pending_parameter_change s = None then panic NoPendingParameterChange
     else Inr (emit (ParameterChangeCancelled admin) (s\<lparr>rp_pending_parameter_change := None\<rparr>)))"

definition get_pending_parameter_change :: "('t, 'r) rp_state \<Rightarrow> pending_parameter_change option" where
  "get_pending_parameter_change s = rp_pending_parameter_change s"

section \<open>The admin's withdrawal\<close>

definition get_guardians :: "('t, 'r) rp_state \<Rightarrow> address list" where
  "get_guardians s = unwrap_or [] (rp_guardians s)"

definition get_guardian_threshold :: "('t, 'r) rp_state \<Rightarrow> int" where
  "get_guardian_threshold s = unwrap_or 0 (rp_guardian_threshold s)"

definition require_guardian ::
  "env \<Rightarrow> address \<Rightarrow> ('t, 'r) rp_state \<Rightarrow> (rp_error, unit) result" where
  "require_guardian e guardian s =
     bindR (require_auth e guardian) (\<lambda>_.
     if guardian \<notin> set (get_guardians s) then panic NotGuardian else Inr ())"

definition request_admin_withdrawal ::
  "env \<Rightarrow> address \<Rightarrow> int \<Rightarrow> ('t, 'r) rp_state \<Rightarrow> (rp_error, ('t, 'r) rp_state) result" where
  "request_admin_withdrawal e admin amount s =
     bindR (rp_require_admin e admin s) (\<lambda>_.
     if amount \<le> 0 then panic ZeroAmount
     else if amount > get_available_liquidity s then panic Undercollateralized
     else if rp_withdrawal_request s \<noteq> None then panic TimelockPending
     else if get_guardians s \<noteq> [] \<and> get_guardian_threshold s = 0 then panic InvalidThreshold
     else bindR (u64 (timestamp e + TIMELOCK_SECONDS)) (\<lambda>execute_after.
     Inr (emit (AdminWithdrawalScheduled admin amount execute_after)
       (s\<lparr>rp_withdrawal_approvals := Some 0,
          rp_withdrawal_request := Some
            \<lparr>aw_amount = amount, aw_requested_at = timestamp e, aw_execute_after = execute_after,
             aw_executed = False\<rparr>\<rparr>))))"

text \<open>The approvals are counted; who gave them is not recorded.\<close>

definition approve_admin_withdrawal ::
  "env \<Rightarrow> address \<Rightarrow> ('t, 'r) rp_state \<Rightarrow> (rp_error, ('t, 'r) rp_state) result" where
  "approve_admin_withdrawal e guardian s =
     bindR (require_guardian e guardian s) (\<lambda>_.
     bindR (u32 (unwrap_or 0 (rp_withdrawal_approvals s) + 1)) (\<lambda>approvals.
     Inr (s\<lparr>rp_withdrawal_approvals := Some approvals\<rparr>)))"

definition execute_admin_withdrawal ::
  "'t token_ops \<Rightarrow> env \<Rightarrow> address \<Rightarrow> ('t, 'r) rp_state \<Rightarrow>
   (rp_error, unit \<times> ('t, 'r) rp_state) result" where
  "execute_admin_withdrawal tk e admin s =
     guarded (\<lambda>s.
       bindR (rp_require_admin e admin s) (\<lambda>_.
       bindR (or_panic NoPendingWithdrawal (rp_withdrawal_request s)) (\<lambda>req.
       if aw_executed req then panic AlreadyReleased
       else if get_guardian_threshold s > 0
               \<and> unwrap_or 0 (rp_withdrawal_approvals s) < get_guardian_threshold s
       then panic RUnauthorized
       else if timestamp e < aw_execute_after req then panic TimelockNotReady
       else if aw_amount req > get_available_liquidity s then panic Undercollateralized
       else let s1 = s\<lparr>rp_withdrawal_request := Some (req\<lparr>aw_executed := True\<rparr>),
                       rp_total_deposited := Some (sat_i128 (total_deposited s - aw_amount req))\<rparr>
       in bindR (or_trap (rp_usdc_token s1)) (\<lambda>usdc.
          bindR (or_trap (rp_treasury s1)) (\<lambda>treasury.
          bindR (or_trap (transfer_of tk (rp_tokens s1) usdc (this e) treasury (aw_amount req))) (\<lambda>t.
          Inr ((), emit (AdminWithdrawalExecuted admin (aw_amount req))
                     (s1\<lparr>rp_tokens := t\<rparr>)))))))) s"

definition cancel_admin_withdrawal ::
  "env \<Rightarrow> address \<Rightarrow> ('t, 'r) rp_state \<Rightarrow> (rp_error, ('t, 'r) rp_state) result" where
  "cancel_admin_withdrawal e admin s =
     bindR (rp_require_admin e admin s) (\<lambda>_.
     if rp_withdrawal_request s = None then panic NoPendingWithdrawal
     else Inr (emit (AdminWithdrawalCancelled admin) (s\<lparr>rp_withdrawal_request := None\<rparr>)))"

section \<open>Guardians\<close>

definition set_guardians ::
  "env \<Rightarrow> address \<Rightarrow> address list \<Rightarrow> int \<Rightarrow> ('t, 'r) rp_state \<Rightarrow>
   (rp_error, ('t, 'r) rp_state) result" where
  "set_guardians e admin guardians threshold s =
     bindR (rp_require_admin e admin s) (\<lambda>_.
     if threshold > int (length guardians) then panic InvalidThreshold
     else if \<not> list_all (\<lambda>current. current \<in> set guardians) (get_guardians s)
     then panic GuardianRemoveBlocked
     else Inr (emit (GuardiansUpdated guardians threshold)
       (s\<lparr>rp_guardians := Some guardians, rp_guardian_threshold := Some threshold\<rparr>)))"

definition propose_remove_guardian ::
  "env \<Rightarrow> address \<Rightarrow> address \<Rightarrow> ('t, 'r) rp_state \<Rightarrow> (rp_error, ('t, 'r) rp_state) result" where
  "propose_remove_guardian e admin guardian_to_remove s =
     bindR (rp_require_admin e admin s) (\<lambda>_.
     if get_guardian_threshold s = 0 \<or> get_guardians s = [] then panic NoPendingUpgrade
     else if guardian_to_remove \<notin> set (get_guardians s) then panic NotGuardian
     else if int (length (get_guardians s)) \<le> MIN_GUARDIANS then panic MinGuardiansUnmet
     else if rp_pending_guardian_removal s \<noteq> None then panic RAdminTransferPending
     else Inr (s\<lparr>rp_pending_guardian_removal :=
            Some \<lparr>pg_guardian = guardian_to_remove, pg_approvals = []\<rparr>\<rparr>))"

definition remove_guardian ::
  "address \<Rightarrow> int \<Rightarrow> ('t, 'r) rp_state \<Rightarrow> (rp_error, ('t, 'r) rp_state) result" where
  "remove_guardian guardian_to_remove threshold s =
     (let new_set = filter (\<lambda>g. g \<noteq> guardian_to_remove) (get_guardians s)
      in if int (length new_set) < MIN_GUARDIANS then panic MinGuardiansUnmet
         else let new_threshold = (if threshold > int (length new_set) then int (length new_set)
                                   else threshold)
         in Inr (emit (GuardiansUpdated new_set new_threshold)
              (s\<lparr>rp_guardians := Some new_set, rp_guardian_threshold := Some new_threshold\<rparr>)))"

definition approve_remove_guardian ::
  "env \<Rightarrow> address \<Rightarrow> ('t, 'r) rp_state \<Rightarrow> (rp_error, ('t, 'r) rp_state) result" where
  "approve_remove_guardian e guardian s =
     bindR (require_guardian e guardian s) (\<lambda>_.
     bindR (or_panic NoPendingUpgrade (rp_pending_guardian_removal s)) (\<lambda>pending.
     if guardian = pg_guardian pending then panic RUnauthorized
     else if guardian \<in> set (pg_approvals pending) then panic AlreadyApprovedAction
     else let approvals = pg_approvals pending @ [guardian]; threshold = get_guardian_threshold s
     in if int (length approvals) \<ge> threshold
        then remove_guardian (pg_guardian pending) threshold
               (s\<lparr>rp_pending_guardian_removal := None\<rparr>)
        else Inr (s\<lparr>rp_pending_guardian_removal := Some (pending\<lparr>pg_approvals := approvals\<rparr>)\<rparr>)))"

definition cancel_pending_guardian_removal ::
  "env \<Rightarrow> address \<Rightarrow> ('t, 'r) rp_state \<Rightarrow> (rp_error, ('t, 'r) rp_state) result" where
  "cancel_pending_guardian_removal e admin s =
     bindR (rp_require_admin e admin s) (\<lambda>_.
     if rp_pending_guardian_removal s = None then panic NoPendingUpgrade
     else Inr (s\<lparr>rp_pending_guardian_removal := None\<rparr>))"

definition get_pending_guardian_removal :: "('t, 'r) rp_state \<Rightarrow> pending_guardian_removal option" where
  "get_pending_guardian_removal s = rp_pending_guardian_removal s"

section \<open>Upgrades\<close>

text \<open>\<^verbatim>\<open>run_migrations\<close> is empty in this version.\<close>

definition install_upgrade :: "wasm_hash \<Rightarrow> int \<Rightarrow> ('t, 'r) rp_state \<Rightarrow> ('t, 'r) rp_state" where
  "install_upgrade new_wasm_hash new_version s =
     emit (RContractUpgraded (rp_get_version s) new_version)
       (s\<lparr>rp_version := Some new_version, rp_wasm := Some new_wasm_hash\<rparr>)"

definition rp_upgrade ::
  "env \<Rightarrow> address \<Rightarrow> wasm_hash \<Rightarrow> int \<Rightarrow> ('t, 'r) rp_state \<Rightarrow>
   (rp_error, ('t, 'r) rp_state) result" where
  "rp_upgrade e admin new_wasm_hash new_version s =
     bindR (rp_require_admin e admin s) (\<lambda>_.
     if new_version \<le> rp_get_version s then panic RInvalidVersion
     else if get_guardian_threshold s = 0 then Inr (install_upgrade new_wasm_hash new_version s)
     else Inr (s\<lparr>rp_pending_upgrade := Some \<lparr>pu_wasm_hash = new_wasm_hash,
                  pu_new_version = new_version, pu_approvals = []\<rparr>\<rparr>))"

definition get_pending_upgrade :: "('t, 'r) rp_state \<Rightarrow> pending_upgrade option" where
  "get_pending_upgrade s = rp_pending_upgrade s"

definition approve_upgrade ::
  "env \<Rightarrow> address \<Rightarrow> wasm_hash \<Rightarrow> ('t, 'r) rp_state \<Rightarrow> (rp_error, ('t, 'r) rp_state) result" where
  "approve_upgrade e guardian new_wasm_hash s =
     bindR (require_guardian e guardian s) (\<lambda>_.
     bindR (or_panic NoPendingUpgrade (rp_pending_upgrade s)) (\<lambda>pending.
     if pu_wasm_hash pending \<noteq> new_wasm_hash then panic NoPendingUpgrade
     else if guardian \<in> set (pu_approvals pending) then panic AlreadyApprovedAction
     else let approvals = pu_approvals pending @ [guardian]; threshold = get_guardian_threshold s;
              s1 = emit (UpgradeApproved new_wasm_hash guardian (int (length approvals)) threshold) s
     in if int (length approvals) \<ge> threshold
        then Inr (install_upgrade new_wasm_hash (pu_new_version pending)
               (s1\<lparr>rp_pending_upgrade := None\<rparr>))
        else Inr (s1\<lparr>rp_pending_upgrade := Some (pending\<lparr>pu_approvals := approvals\<rparr>)\<rparr>)))"

definition cancel_pending_upgrade ::
  "env \<Rightarrow> address \<Rightarrow> ('t, 'r) rp_state \<Rightarrow> (rp_error, ('t, 'r) rp_state) result" where
  "cancel_pending_upgrade e admin s =
     bindR (rp_require_admin e admin s) (\<lambda>_.
     if rp_pending_upgrade s = None then panic NoPendingUpgrade
     else Inr (s\<lparr>rp_pending_upgrade := None\<rparr>))"

section \<open>The admin role\<close>

definition rp_get_pending_admin_since :: "('t, 'r) rp_state \<Rightarrow> int" where
  "rp_get_pending_admin_since s = unwrap_or 0 (rp_pending_admin_since s)"

definition rp_propose_new_admin ::
  "env \<Rightarrow> address \<Rightarrow> address \<Rightarrow> ('t, 'r) rp_state \<Rightarrow> (rp_error, ('t, 'r) rp_state) result" where
  "rp_propose_new_admin e admin new_admin s =
     bindR (rp_require_admin e admin s) (\<lambda>_.
     bindR (validate_stellar_address new_admin) (\<lambda>_.
     bindR (rp_require_not_zero_address new_admin) (\<lambda>_.
     if rp_pending_admin s \<noteq> None then panic RAdminTransferPending
     else if get_guardian_threshold s = 0
     then Inr (s\<lparr>rp_pending_admin := Some new_admin, rp_pending_admin_since := Some (timestamp e)\<rparr>)
     else Inr (s\<lparr>rp_pending_admin_change :=
                  Some \<lparr>pac_new_admin = new_admin, pac_approvals = []\<rparr>\<rparr>))))"

definition approve_admin_change ::
  "env \<Rightarrow> address \<Rightarrow> address \<Rightarrow> ('t, 'r) rp_state \<Rightarrow> (rp_error, ('t, 'r) rp_state) result" where
  "approve_admin_change e guardian new_admin s =
     bindR (require_guardian e guardian s) (\<lambda>_.
     bindR (or_panic NoPendingUpgrade (rp_pending_admin_change s)) (\<lambda>pending.
     if pac_new_admin pending \<noteq> new_admin then panic NoPendingUpgrade
     else if guardian \<in> set (pac_approvals pending) then panic AlreadyApprovedAction
     else let approvals = pac_approvals pending @ [guardian]
     in if int (length approvals) \<ge> get_guardian_threshold s
        then Inr (s\<lparr>rp_pending_admin_change := None,
                    rp_pending_admin := Some new_admin,
                    rp_pending_admin_since :=
                      (case rp_pending_admin_since s of
                         None \<Rightarrow> Some (timestamp e) | Some since \<Rightarrow> Some since)\<rparr>)
        else Inr (s\<lparr>rp_pending_admin_change := Some (pending\<lparr>pac_approvals := approvals\<rparr>)\<rparr>)))"

definition rp_accept_admin ::
  "env \<Rightarrow> address \<Rightarrow> ('t, 'r) rp_state \<Rightarrow> (rp_error, ('t, 'r) rp_state) result" where
  "rp_accept_admin e admin s =
     bindR (or_panic RUnauthorized (rp_pending_admin s)) (\<lambda>pending_admin.
     if admin \<noteq> pending_admin then panic RUnauthorized
     else bindR (require_auth e admin) (\<lambda>_.
     bindR (rp_require_not_zero_address admin) (\<lambda>_.
     if timestamp e < sat_u64 (rp_get_pending_admin_since s + ADMIN_TRANSFER_TIMELOCK)
     then panic RAdminTimelockNotExpired
     else Inr (emit (RAdminUpdated admin)
       (s\<lparr>rp_admin := Some admin, rp_pending_admin := None, rp_pending_admin_since := None\<rparr>)))))"

lemma require_guardian_ok [result_simps]:
  "require_guardian e g s = Inr u \<longleftrightarrow> auth e g \<and> g \<in> set (get_guardians s)"
  by (auto simp: require_guardian_def require_auth_def result_simps)

end
