(* ===== verification/RP_System.thy ===== *)
theory RP_System
  imports RP_Admin
begin

text \<open>
  The risk pool as a transition system: the entry points that may change its storage as
  one call type with its dispatcher. \<open>tk\<close> is the token contract and \<open>recover\<close> the
  reinsurer's; both are arguments of the system.
\<close>

section \<open>Calls\<close>

datatype liquidity_call =
    DepositWithToken address address int int bool
  | Deposit address int int bool
  | Withdraw address int
  | EmergencyWithdraw address address int
  | TransferShares address address int
  | TransferPosition address address int
  | ClaimYield address
  | ToggleCompound address bool
  | SetExitDelay address int
  | RequestExit address int
  | ClaimExit address
  | ProcessExpiredExits int
  | CancelExit address

datatype risk_call =
    PoolInitialize address address address address symbol address address
  | ReceivePremium address int
  | SendPremiumToTreasury address int
  | SendPremiumToBackstop address int
  | SetCapacity address int int
  | LockForPolicy address int int
  | ReleaseForClaim address int
  | ReleaseForExpiry address int
  | SetReinsurance address address int int
  | SetReinsuranceActive address bool
  | SendPremiumToReinsurer address int
  | RequestReinsuranceRecovery address int int
  | SetDynamicFeeConfig address int int int int int bool
  | SetFeeTier address symbol int int int
  | RemoveFeeTier address symbol
  | LiquidatePosition address address

datatype admin_call =
    Pause address
  | Resume address
  | StartWindingDown address
  | UpdatePremiumSplit address int int int
  | ProposeParameterChange address int int int
  | ExecuteParameterChange address
  | CancelParameterChange address
  | RequestAdminWithdrawal address int
  | ApproveAdminWithdrawal address
  | ExecuteAdminWithdrawal address
  | CancelAdminWithdrawal address
  | PoolUpgrade address wasm_hash int
  | SetGuardians address "address list" int
  | ProposeRemoveGuardian address address
  | ApproveRemoveGuardian address
  | CancelPendingGuardianRemoval address
  | ApproveUpgrade address wasm_hash
  | CancelPendingUpgrade address
  | PoolProposeNewAdmin address address
  | ApproveAdminChange address address
  | PoolAcceptAdmin address
  | SetPoolName address string

datatype rp_call = Liquidity liquidity_call | Risk risk_call | Administer admin_call

text \<open>A value outside the Rust type of its parameter never reaches the contract.\<close>

definition within :: "int \<Rightarrow> int \<Rightarrow> bool" where
  "within hi x \<longleftrightarrow> 0 \<le> x \<and> x \<le> hi"

primrec liquidity_typed ::
  "liquidity_call \<Rightarrow> bool" where
  "liquidity_typed (DepositWithToken p t n m c) \<longleftrightarrow> fits_i128 n \<and> fits_i128 m"
| "liquidity_typed (Deposit p n m c) \<longleftrightarrow> fits_i128 n \<and> fits_i128 m"
| "liquidity_typed (Withdraw p n) \<longleftrightarrow> fits_i128 n"
| "liquidity_typed (EmergencyWithdraw p a n) \<longleftrightarrow> fits_i128 n"
| "liquidity_typed (TransferShares f t n) \<longleftrightarrow> fits_i128 n"
| "liquidity_typed (TransferPosition f t n) \<longleftrightarrow> fits_i128 n"
| "liquidity_typed (ClaimYield a) \<longleftrightarrow> True"
| "liquidity_typed (ToggleCompound a b) \<longleftrightarrow> True"
| "liquidity_typed (SetExitDelay a d) \<longleftrightarrow> within u64_max d"
| "liquidity_typed (RequestExit p n) \<longleftrightarrow> fits_i128 n"
| "liquidity_typed (ClaimExit a) \<longleftrightarrow> True"
| "liquidity_typed (ProcessExpiredExits n) \<longleftrightarrow> within u32_max n"
| "liquidity_typed (CancelExit a) \<longleftrightarrow> True"

primrec risk_typed ::
  "risk_call \<Rightarrow> bool" where
  "risk_typed (PoolInitialize a b c d e f g) \<longleftrightarrow> True"
| "risk_typed (ReceivePremium c n) \<longleftrightarrow> fits_i128 n"
| "risk_typed (SendPremiumToTreasury c n) \<longleftrightarrow> fits_i128 n"
| "risk_typed (SendPremiumToBackstop c n) \<longleftrightarrow> fits_i128 n"
| "risk_typed (SetCapacity a m u) \<longleftrightarrow> fits_i128 m \<and> within u32_max u"
| "risk_typed (LockForPolicy c i n) \<longleftrightarrow> within u128_max i \<and> fits_i128 n"
| "risk_typed (ReleaseForClaim c i) \<longleftrightarrow> within u128_max i"
| "risk_typed (ReleaseForExpiry c i) \<longleftrightarrow> within u128_max i"
| "risk_typed (SetReinsurance a r p l) \<longleftrightarrow> fits_i128 p \<and> fits_i128 l"
| "risk_typed (SetReinsuranceActive a b) \<longleftrightarrow> True"
| "risk_typed (SendPremiumToReinsurer c n) \<longleftrightarrow> fits_i128 n"
| "risk_typed (RequestReinsuranceRecovery c i n) \<longleftrightarrow> within u128_max i \<and> fits_i128 n"
| "risk_typed (SetDynamicFeeConfig a b mx mn t p en) \<longleftrightarrow> within u32_max b \<and> within u32_max mx
     \<and> within u32_max mn \<and> within u32_max t \<and> within u32_max p"
| "risk_typed (SetFeeTier a n d l b) \<longleftrightarrow> fits_i128 d \<and> within u64_max l \<and> within u32_max b"
| "risk_typed (RemoveFeeTier a b) \<longleftrightarrow> True"
| "risk_typed (LiquidatePosition a b) \<longleftrightarrow> True"

primrec admin_typed ::
  "admin_call \<Rightarrow> bool" where
  "admin_typed (Pause a) \<longleftrightarrow> True"
| "admin_typed (Resume a) \<longleftrightarrow> True"
| "admin_typed (StartWindingDown a) \<longleftrightarrow> True"
| "admin_typed (UpdatePremiumSplit a l t b) \<longleftrightarrow> fits_i128 l \<and> fits_i128 t \<and> fits_i128 b"
| "admin_typed (ProposeParameterChange a l t b) \<longleftrightarrow> fits_i128 l \<and> fits_i128 t \<and> fits_i128 b"
| "admin_typed (ExecuteParameterChange a) \<longleftrightarrow> True"
| "admin_typed (CancelParameterChange a) \<longleftrightarrow> True"
| "admin_typed (RequestAdminWithdrawal a n) \<longleftrightarrow> fits_i128 n"
| "admin_typed (ApproveAdminWithdrawal a) \<longleftrightarrow> True"
| "admin_typed (ExecuteAdminWithdrawal a) \<longleftrightarrow> True"
| "admin_typed (CancelAdminWithdrawal a) \<longleftrightarrow> True"
| "admin_typed (PoolUpgrade a h v) \<longleftrightarrow> within u32_max v"
| "admin_typed (SetGuardians a gs n) \<longleftrightarrow> within u32_max n"
| "admin_typed (ProposeRemoveGuardian a b) \<longleftrightarrow> True"
| "admin_typed (ApproveRemoveGuardian a) \<longleftrightarrow> True"
| "admin_typed (CancelPendingGuardianRemoval a) \<longleftrightarrow> True"
| "admin_typed (ApproveUpgrade a b) \<longleftrightarrow> True"
| "admin_typed (CancelPendingUpgrade a) \<longleftrightarrow> True"
| "admin_typed (PoolProposeNewAdmin a b) \<longleftrightarrow> True"
| "admin_typed (ApproveAdminChange a b) \<longleftrightarrow> True"
| "admin_typed (PoolAcceptAdmin a) \<longleftrightarrow> True"
| "admin_typed (SetPoolName a b) \<longleftrightarrow> True"

primrec rp_typed :: "rp_call \<Rightarrow> bool" where
  "rp_typed (Liquidity c) \<longleftrightarrow> liquidity_typed c"
| "rp_typed (Risk c) \<longleftrightarrow> risk_typed c"
| "rp_typed (Administer c) \<longleftrightarrow> admin_typed c"

definition done_with :: "('e, 'a \<times> 's) result \<Rightarrow> ('e, 's) result" where
  "done_with r = bindR r (\<lambda>(_, s). Inr s)"

lemma done_with_ok [result_simps]: "done_with r = Inr s \<longleftrightarrow> (\<exists>x. r = Inr (x, s))"
  by (auto simp: done_with_def result_simps)

primrec liquidity_dispatch ::
  "'t token_ops \<Rightarrow> ('t, 'r) reinsurer \<Rightarrow> env \<Rightarrow> liquidity_call \<Rightarrow> ('t, 'r) rp_state \<Rightarrow>
   (rp_error, ('t, 'r) rp_state) result" where
  "liquidity_dispatch tk rc e (DepositWithToken p t n m c) s = done_with (deposit_with_token tk e p t n m c s)"
| "liquidity_dispatch tk rc e (Deposit p n m c) s = done_with (deposit tk e p n m c s)"
| "liquidity_dispatch tk rc e (Withdraw p n) s = done_with (withdraw tk e p n s)"
| "liquidity_dispatch tk rc e (EmergencyWithdraw p a n) s = done_with (emergency_withdraw tk e p a n s)"
| "liquidity_dispatch tk rc e (TransferShares f t n) s = done_with (transfer_shares tk e f t n s)"
| "liquidity_dispatch tk rc e (TransferPosition f t n) s = done_with (transfer_position tk e f t n s)"
| "liquidity_dispatch tk rc e (ClaimYield p) s = done_with (claim_yield tk e p s)"
| "liquidity_dispatch tk rc e (ToggleCompound p b) s = toggle_compound e p b s"
| "liquidity_dispatch tk rc e (SetExitDelay a d) s = set_exit_delay e a d s"
| "liquidity_dispatch tk rc e (RequestExit p n) s = done_with (request_exit tk e p n s)"
| "liquidity_dispatch tk rc e (ClaimExit p) s = done_with (claim_exit tk e p s)"
| "liquidity_dispatch tk rc e (ProcessExpiredExits n) s = done_with (process_expired_exits tk e n s)"
| "liquidity_dispatch tk rc e (CancelExit p) s = done_with (cancel_exit e p s)"

primrec risk_dispatch ::
  "'t token_ops \<Rightarrow> ('t, 'r) reinsurer \<Rightarrow> env \<Rightarrow> risk_call \<Rightarrow> ('t, 'r) rp_state \<Rightarrow>
   (rp_error, ('t, 'r) rp_state) result" where
  "risk_dispatch tk rc e (PoolInitialize a u t b c pe cp) s = rp_initialize tk e a u t b c pe cp s"
| "risk_dispatch tk rc e (ReceivePremium c n) s = done_with (receive_premium tk e c n s)"
| "risk_dispatch tk rc e (SendPremiumToTreasury c n) s = done_with (send_premium_to_treasury tk e c n s)"
| "risk_dispatch tk rc e (SendPremiumToBackstop c n) s = done_with (send_premium_to_backstop tk e c n s)"
| "risk_dispatch tk rc e (SetCapacity a m u) s = set_capacity e a m u s"
| "risk_dispatch tk rc e (LockForPolicy c i n) s = lock_for_policy e c i n s"
| "risk_dispatch tk rc e (ReleaseForClaim c i) s = release_for_claim e c i s"
| "risk_dispatch tk rc e (ReleaseForExpiry c i) s = release_for_expiry e c i s"
| "risk_dispatch tk rc e (SetReinsurance a r p l) s = set_reinsurance rc e a r p l s"
| "risk_dispatch tk rc e (SetReinsuranceActive a b) s = set_reinsurance_active e a b s"
| "risk_dispatch tk rc e (SendPremiumToReinsurer c n) s = done_with (send_premium_to_reinsurer tk e c n s)"
| "risk_dispatch tk rc e (RequestReinsuranceRecovery c i n) s =
     done_with (request_reinsurance_recovery rc e c i n s)"
| "risk_dispatch tk rc e (SetDynamicFeeConfig a b mx mn t p en) s =
     set_dynamic_fee_config e a b mx mn t p en s"
| "risk_dispatch tk rc e (SetFeeTier a n d l b) s = set_fee_tier e a n d l b s"
| "risk_dispatch tk rc e (RemoveFeeTier a n) s = remove_fee_tier e a n s"
| "risk_dispatch tk rc e (LiquidatePosition c p) s = done_with (liquidate_position e c p s)"

primrec admin_dispatch ::
  "'t token_ops \<Rightarrow> ('t, 'r) reinsurer \<Rightarrow> env \<Rightarrow> admin_call \<Rightarrow> ('t, 'r) rp_state \<Rightarrow>
   (rp_error, ('t, 'r) rp_state) result" where
  "admin_dispatch tk rc e (Pause a) s = pause e a s"
| "admin_dispatch tk rc e (Resume a) s = resume e a s"
| "admin_dispatch tk rc e (StartWindingDown a) s = start_winding_down e a s"
| "admin_dispatch tk rc e (UpdatePremiumSplit a l t b) s = update_premium_split e a l t b s"
| "admin_dispatch tk rc e (ProposeParameterChange a l t b) s = propose_parameter_change e a l t b s"
| "admin_dispatch tk rc e (ExecuteParameterChange a) s = execute_parameter_change e a s"
| "admin_dispatch tk rc e (CancelParameterChange a) s = cancel_parameter_change e a s"
| "admin_dispatch tk rc e (RequestAdminWithdrawal a n) s = request_admin_withdrawal e a n s"
| "admin_dispatch tk rc e (ApproveAdminWithdrawal g) s = approve_admin_withdrawal e g s"
| "admin_dispatch tk rc e (ExecuteAdminWithdrawal a) s = done_with (execute_admin_withdrawal tk e a s)"
| "admin_dispatch tk rc e (CancelAdminWithdrawal a) s = cancel_admin_withdrawal e a s"
| "admin_dispatch tk rc e (PoolUpgrade a h v) s = rp_upgrade e a h v s"
| "admin_dispatch tk rc e (SetGuardians a gs n) s = set_guardians e a gs n s"
| "admin_dispatch tk rc e (ProposeRemoveGuardian a g) s = propose_remove_guardian e a g s"
| "admin_dispatch tk rc e (ApproveRemoveGuardian g) s = approve_remove_guardian e g s"
| "admin_dispatch tk rc e (CancelPendingGuardianRemoval a) s = cancel_pending_guardian_removal e a s"
| "admin_dispatch tk rc e (ApproveUpgrade g h) s = approve_upgrade e g h s"
| "admin_dispatch tk rc e (CancelPendingUpgrade a) s = cancel_pending_upgrade e a s"
| "admin_dispatch tk rc e (PoolProposeNewAdmin a n) s = rp_propose_new_admin e a n s"
| "admin_dispatch tk rc e (ApproveAdminChange g n) s = approve_admin_change e g n s"
| "admin_dispatch tk rc e (PoolAcceptAdmin a) s = rp_accept_admin e a s"
| "admin_dispatch tk rc e (SetPoolName a n) s = set_pool_name e a n s"

primrec rp_dispatch ::
  "'t token_ops \<Rightarrow> ('t, 'r) reinsurer \<Rightarrow> env \<Rightarrow> rp_call \<Rightarrow> ('t, 'r) rp_state \<Rightarrow>
   (rp_error, ('t, 'r) rp_state) result" where
  "rp_dispatch tk rc e (Liquidity c) s = liquidity_dispatch tk rc e c s"
| "rp_dispatch tk rc e (Risk c) s = risk_dispatch tk rc e c s"
| "rp_dispatch tk rc e (Administer c) s = admin_dispatch tk rc e c s"

definition rp_exec ::
  "'t token_ops \<Rightarrow> ('t, 'r) reinsurer \<Rightarrow> env \<Rightarrow> rp_call \<Rightarrow> ('t, 'r) rp_state \<Rightarrow>
   (rp_error, ('t, 'r) rp_state) result" where
  "rp_exec tk rc e c s = (if rp_typed c then rp_dispatch tk rc e c s else trap)"

lemma rp_exec_ok [result_simps]:
  "rp_exec tk rc e c s = Inr s' \<longleftrightarrow> rp_typed c \<and> rp_dispatch tk rc e c s = Inr s'"
  by (auto simp: rp_exec_def)

end
