(* ===== verification/RP_Book.thy ===== *)
theory RP_Book
  imports RP_System
begin

text \<open>
  The capital of the risk pool as a small book: what is deposited and locked, the shares
  and who holds them, the locks. The theory has its steps, the invariant they keep, and
  what they do to solvency and to the price of a share; \<open>RP_Refine\<close> shows that every
  call of the contract is a sequence of these steps.
\<close>

section \<open>The book and its steps\<close>

record pool =
  p_deposited :: int
  p_locked :: int
  p_shares :: int
  p_held :: "address \<Rightarrow> int"
  p_locks :: "int \<rightharpoonup> capital_lock"

definition earmarked :: "capital_lock option \<Rightarrow> int" where
  "earmarked x = (case x of None \<Rightarrow> 0 | Some l \<Rightarrow> if lk_released l then 0 else lk_amount l)"

definition empty_pool :: pool where
  "empty_pool = \<lparr>p_deposited = 0, p_locked = 0, p_shares = 0, p_held = (\<lambda>_. 0), p_locks = Map.empty\<rparr>"

text \<open>
  The first deposit issues \<open>10\<^sup>9\<close> shares per unit and burns 1000 of them; a later one issues
  shares at the current price, rounded down. Redemptions pay the current price, rounded
  down, out of the capital that is not locked. A seizure takes shares of a holder and
  removes capital worth no more than they are. \<open>drain\<close> is the admin's withdrawal.
\<close>

datatype pool_move = Mint | Burn | Move | Lock | Unlock | Recover | Drain | Seize

inductive pool_step :: "pool_move \<Rightarrow> pool \<Rightarrow> pool \<Rightarrow> bool" where
  step_mint_first: "0 < n \<Longrightarrow> p_shares k = 0 \<Longrightarrow> 0 < n * 1000000000 - 1000 \<Longrightarrow>
     p_deposited k + n \<le> i128_max \<Longrightarrow> n * 1000000000 \<le> i128_max \<Longrightarrow>
     pool_step Mint k (k\<lparr>p_deposited := p_deposited k + n, p_shares := n * 1000000000,
       p_held := (p_held k)(a := p_held k a + (n * 1000000000 - 1000))\<rparr>)"
| step_mint: "0 < n \<Longrightarrow> 0 < p_shares k \<Longrightarrow> 0 < p_deposited k \<Longrightarrow>
     m = n * p_shares k div p_deposited k \<Longrightarrow> 1 \<le> m \<Longrightarrow>
     p_deposited k + n \<le> i128_max \<Longrightarrow> p_shares k + m \<le> i128_max \<Longrightarrow>
     pool_step Mint k (k\<lparr>p_deposited := p_deposited k + n, p_shares := p_shares k + m,
       p_held := (p_held k)(a := p_held k a + m)\<rparr>)"
| step_burn: "0 < n \<Longrightarrow> n \<le> p_held k a \<Longrightarrow> 0 < p_shares k \<Longrightarrow>
     m = n * p_deposited k div p_shares k \<Longrightarrow> 0 < m \<Longrightarrow> m \<le> p_deposited k - p_locked k \<Longrightarrow>
     pool_step Burn k (k\<lparr>p_deposited := p_deposited k - m, p_shares := p_shares k - n,
       p_held := (p_held k)(a := p_held k a - n)\<rparr>)"
| step_move: "0 < n \<Longrightarrow> n \<le> p_held k a \<Longrightarrow> a \<noteq> b \<Longrightarrow>
     pool_step Move k
       (k\<lparr>p_held := (p_held k)(a := p_held k a - n, b := p_held k b + n)\<rparr>)"
| step_lock: "0 < n \<Longrightarrow> n \<le> p_deposited k - p_locked k \<Longrightarrow> p_locks k i = None \<Longrightarrow>
     lk_amount l = n \<Longrightarrow> \<not> lk_released l \<Longrightarrow>
     pool_step Lock k (k\<lparr>p_locked := p_locked k + n, p_locks := (p_locks k)(i \<mapsto> l)\<rparr>)"
| step_unlock: "p_locks k i = Some l \<Longrightarrow> \<not> lk_released l \<Longrightarrow>
     pool_step Unlock k (k\<lparr>p_locked := p_locked k - lk_amount l,
       p_locks := (p_locks k)(i \<mapsto> l\<lparr>lk_released := True\<rparr>)\<rparr>)"
| step_recover: "0 < n \<Longrightarrow> p_deposited k + n \<le> i128_max \<Longrightarrow>
     pool_step Recover k (k\<lparr>p_deposited := p_deposited k + n\<rparr>)"
| step_drain: "0 < n \<Longrightarrow> n \<le> p_deposited k - p_locked k \<Longrightarrow>
     pool_step Drain k (k\<lparr>p_deposited := p_deposited k - n\<rparr>)"
| step_seize: "0 < n \<Longrightarrow> n \<le> p_held k a \<Longrightarrow> 0 < p_shares k \<Longrightarrow>
     0 \<le> m \<Longrightarrow> m \<le> n * p_deposited k div p_shares k \<Longrightarrow>
     pool_step Seize k (k\<lparr>p_deposited := p_deposited k - m, p_shares := p_shares k - n,
       p_held := (p_held k)(a := p_held k a - n)\<rparr>)"

text \<open>A sequence of steps whose kinds satisfy \<open>P\<close>.\<close>

inductive pool_steps :: "(pool_move \<Rightarrow> bool) \<Rightarrow> pool \<Rightarrow> pool \<Rightarrow> bool" for P :: "pool_move \<Rightarrow> bool" where
  steps_refl: "pool_steps P k k"
| steps_step: "pool_steps P k k' \<Longrightarrow> P m \<Longrightarrow> pool_step m k' k'' \<Longrightarrow> pool_steps P k k''"

lemma pool_steps_trans: "pool_steps P k2 k3 \<Longrightarrow> pool_steps P k1 k2 \<Longrightarrow> pool_steps P k1 k3"
  by (induction rule: pool_steps.induct) (auto intro: pool_steps.intros)

lemma pool_steps_one: "pool_step m k k' \<Longrightarrow> P m \<Longrightarrow> pool_steps P k k'"
  using steps_step[OF steps_refl] .

lemma pool_steps_mono: "pool_steps P k k' \<Longrightarrow> (\<And>m. P m \<Longrightarrow> Q m) \<Longrightarrow> pool_steps Q k k'"
  by (induction rule: pool_steps.induct) (auto intro: pool_steps.intros)

section \<open>The invariant of the book\<close>

definition shares_inv :: "pool \<Rightarrow> bool" where
  "shares_inv k \<longleftrightarrow> (\<forall>a. 0 \<le> p_held k a) \<and> finite (support (p_held k))
     \<and> (p_shares k = 0 \<and> total (p_held k) = 0 \<or> p_shares k = total (p_held k) + 1000)
     \<and> p_shares k \<le> i128_max"

definition locks_inv :: "pool \<Rightarrow> bool" where
  "locks_inv k \<longleftrightarrow> (\<forall>i l. p_locks k i = Some l \<longrightarrow> 0 < lk_amount l)
     \<and> finite (support (earmarked \<circ> p_locks k))
     \<and> p_locked k = total (earmarked \<circ> p_locks k) \<and> p_locked k \<le> i128_max"

definition value_inv :: "pool \<Rightarrow> bool" where
  "value_inv k \<longleftrightarrow> 0 \<le> p_deposited k \<and> p_deposited k \<le> i128_max"

definition pool_inv :: "pool \<Rightarrow> bool" where
  "pool_inv k \<longleftrightarrow> shares_inv k \<and> locks_inv k \<and> value_inv k"

lemma earmarked_simps [simp]:
  "earmarked None = 0"
  "earmarked (Some l) = (if lk_released l then 0 else lk_amount l)"
  by (simp_all add: earmarked_def)

lemma earmarked_upd: "earmarked \<circ> m(i \<mapsto> l) = (earmarked \<circ> m)(i := earmarked (Some l))"
  by (rule ext) simp

lemma empty_pool_inv: "pool_inv empty_pool"
  by (simp add: empty_pool_def pool_inv_def shares_inv_def locks_inv_def value_inv_def
      support_def comp_def i128_max_def)

lemma held_le_shares: "shares_inv k \<Longrightarrow> p_held k a \<le> p_shares k"
  using le_total[of "p_held k" a] by (auto simp: shares_inv_def)

lemma shares_nonneg: "shares_inv k \<Longrightarrow> 0 \<le> p_shares k"
  using total_nonneg[of "p_held k"] by (auto simp: shares_inv_def)

lemma held_lt_shares: "shares_inv k \<Longrightarrow> 0 < p_held k a \<Longrightarrow> p_held k a < p_shares k"
  using le_total[of "p_held k" a] by (auto simp: shares_inv_def)

lemma locked_nonneg: "locks_inv k \<Longrightarrow> 0 \<le> p_locked k"
  unfolding locks_inv_def by (auto intro!: total_nonneg simp: earmarked_def less_imp_le split: option.split)

lemma lock_le_locked:
  "locks_inv k \<Longrightarrow> p_locks k i = Some l \<Longrightarrow> \<not> lk_released l \<Longrightarrow> lk_amount l \<le> p_locked k"
  using le_total[of "earmarked \<circ> p_locks k" i]
  by (auto simp: locks_inv_def earmarked_def less_imp_le split: option.splits)

lemma redeemed_le: "0 \<le> d \<Longrightarrow> 0 \<le> n \<Longrightarrow> n \<le> s \<Longrightarrow> 0 < s \<Longrightarrow> n * d div s \<le> (d::int)"
  using zdiv_mono1[of "n * d" "s * d" s] mult_right_mono[of n s d] by simp

lemma shares_step: "pool_step m k k' \<Longrightarrow> shares_inv k \<Longrightarrow> shares_inv k'"
proof (induction rule: pool_step.induct)
  case (step_mint_first n k a)
  then have "total (p_held k) = 0" using total_nonneg[of "p_held k"] by (auto simp: shares_inv_def)
  then show ?case using step_mint_first by (auto simp: shares_inv_def total_upd support_upd)
next
  case (step_burn n k a m)
  then show ?case using held_lt_shares[of k a] by (auto simp: shares_inv_def total_upd support_upd)
next
  case (step_move n k a b)
  then show ?case by (auto simp: shares_inv_def total_upd support_upd)
next
  case (step_seize n k a m)
  then show ?case using held_lt_shares[of k a] by (auto simp: shares_inv_def total_upd support_upd)
qed (auto simp: shares_inv_def total_upd support_upd)

lemma locks_step: "pool_step m k k' \<Longrightarrow> value_inv k \<Longrightarrow> locks_inv k \<Longrightarrow> locks_inv k'"
proof (induction rule: pool_step.induct)
  case (step_lock n k i l)
  then show ?case by (auto simp: locks_inv_def value_inv_def earmarked_upd total_upd support_upd)
next
  case (step_unlock k i l)
  then have "0 < lk_amount l" by (auto simp: locks_inv_def)
  moreover have "p_locked k - lk_amount l \<le> i128_max"
    using calculation step_unlock.prems by (simp add: locks_inv_def)
  ultimately show ?case
    using step_unlock by (auto simp: locks_inv_def earmarked_upd total_upd support_upd)
qed (auto simp: locks_inv_def)

lemma value_step: "pool_step m k k' \<Longrightarrow> pool_inv k \<Longrightarrow> value_inv k'"
proof (induction rule: pool_step.induct)
  case (step_burn n k a m)
  then show ?case using locked_nonneg[of k] by (auto simp: pool_inv_def value_inv_def)
next
  case (step_drain n k)
  then show ?case using locked_nonneg[of k] by (auto simp: pool_inv_def value_inv_def)
next
  case (step_seize n k a m)
  then have "n * p_deposited k div p_shares k \<le> p_deposited k"
    using held_le_shares[of k a] by (intro redeemed_le) (auto simp: pool_inv_def value_inv_def)
  then show ?case using step_seize by (auto simp: pool_inv_def value_inv_def)
qed (auto simp: pool_inv_def value_inv_def)

lemma pool_inv_step: "pool_step m k k' \<Longrightarrow> pool_inv k \<Longrightarrow> pool_inv k'"
  using shares_step locks_step value_step unfolding pool_inv_def by blast

lemma pool_inv_steps: "pool_steps P k k' \<Longrightarrow> pool_inv k \<Longrightarrow> pool_inv k'"
  by (induction rule: pool_steps.induct) (auto dest: pool_inv_step)

section \<open>Solvency and the price of a share\<close>

lemma solvent_step: "pool_step m k k' \<Longrightarrow> pool_inv k \<Longrightarrow> m \<noteq> Seize \<Longrightarrow>
    p_locked k \<le> p_deposited k \<Longrightarrow> p_locked k' \<le> p_deposited k'"
proof (induction rule: pool_step.induct)
  case (step_unlock k i l)
  then have "0 < lk_amount l" by (auto simp: pool_inv_def locks_inv_def)
  then show ?case using step_unlock.prems by simp
qed auto

lemma solvent_steps: "pool_steps P k k' \<Longrightarrow> (\<And>m. P m \<Longrightarrow> m \<noteq> Seize) \<Longrightarrow> pool_inv k \<Longrightarrow>
    p_locked k \<le> p_deposited k \<Longrightarrow> p_locked k' \<le> p_deposited k'"
proof (induction rule: pool_steps.induct)
  case (steps_step k k' m k'')
  then show ?case using solvent_step[of m k' k''] pool_inv_steps[of P k k'] by blast
qed

text \<open>The price \<open>d / s\<close> of a share is compared by cross-multiplication.\<close>

definition price_le :: "pool \<Rightarrow> pool \<Rightarrow> bool" where
  "price_le k k' \<longleftrightarrow> 0 < p_shares k' \<and> p_deposited k * p_shares k' \<le> p_deposited k' * p_shares k"

lemma div_times_le: "0 < (b::int) \<Longrightarrow> a div b * b \<le> a"
  using pos_mod_sign[of b a] div_mult_mod_eq[of a b] by linarith

lemma price_refl: "0 < p_shares k \<Longrightarrow> price_le k k"
  by (simp add: price_le_def)

lemma price_trans:
  assumes "price_le k1 k2" "price_le k2 k3" "0 < p_shares k1" "0 \<le> p_deposited k1"
  shows "price_le k1 k3"
proof -
  let ?d1 = "p_deposited k1" and ?d2 = "p_deposited k2" and ?d3 = "p_deposited k3"
  let ?s1 = "p_shares k1" and ?s2 = "p_shares k2" and ?s3 = "p_shares k3"
  have s: "0 < ?s2" "0 < ?s3" using assms by (auto simp: price_le_def)
  have "?d1 * ?s3 * ?s2 = (?d1 * ?s2) * ?s3" by simp
  also have "\<dots> \<le> (?d2 * ?s1) * ?s3"
    using assms(1) s by (intro mult_right_mono) (auto simp: price_le_def)
  also have "\<dots> = (?d2 * ?s3) * ?s1" by simp
  also have "\<dots> \<le> (?d3 * ?s2) * ?s1"
    using assms(2,3) by (intro mult_right_mono) (auto simp: price_le_def)
  finally have "?d1 * ?s3 * ?s2 \<le> ?d3 * ?s1 * ?s2" by (simp add: ac_simps)
  then show ?thesis using s by (auto simp: price_le_def mult_le_cancel_right)
qed

lemma redeem_price:
  assumes "0 < (s::int)" "m \<le> n * d div s"
  shows "d * (s - n) \<le> (d - m) * s"
proof -
  have "m * s \<le> n * d div s * s" using assms by (intro mult_right_mono) auto
  also have "\<dots> \<le> n * d" using assms(1) by (rule div_times_le)
  finally show ?thesis by (simp add: algebra_simps)
qed

lemma price_step:
  "pool_step m k k' \<Longrightarrow> pool_inv k \<Longrightarrow> m \<noteq> Drain \<Longrightarrow> 0 < p_shares k \<Longrightarrow> price_le k k'"
proof (induction rule: pool_step.induct)
  case (step_mint n k m a)
  then have "m * p_deposited k \<le> n * p_shares k" by (simp add: div_times_le)
  then show ?case using step_mint by (simp add: price_le_def algebra_simps)
next
  case (step_burn n k a m)
  then have "n < p_shares k" using held_lt_shares[of k a] by (auto simp: pool_inv_def)
  moreover have "p_deposited k * (p_shares k - n) \<le> (p_deposited k - m) * p_shares k"
    using step_burn by (intro redeem_price) auto
  ultimately show ?case by (simp add: price_le_def)
next
  case (step_seize n k a m)
  then have "n < p_shares k" using held_lt_shares[of k a] by (auto simp: pool_inv_def)
  moreover have "p_deposited k * (p_shares k - n) \<le> (p_deposited k - m) * p_shares k"
    using step_seize by (intro redeem_price) auto
  ultimately show ?case by (simp add: price_le_def)
next
  case (step_recover n k)
  then show ?case by (simp add: price_le_def algebra_simps)
qed (auto simp: price_le_def)

lemma price_steps: "pool_steps P k k' \<Longrightarrow> (\<And>m. P m \<Longrightarrow> m \<noteq> Drain) \<Longrightarrow> pool_inv k \<Longrightarrow>
    0 < p_shares k \<Longrightarrow> price_le k k'"
proof (induction rule: pool_steps.induct)
  case (steps_refl k)
  then show ?case by (simp add: price_refl)
next
  case (steps_step k k' m k'')
  have 1: "price_le k k'" using steps_step by blast
  then have "price_le k' k''"
    using price_step[of m k' k''] steps_step pool_inv_steps[of P k k'] by (auto simp: price_le_def)
  then show ?case using price_trans[OF 1] steps_step.prems by (auto simp: pool_inv_def value_inv_def)
qed

end
