(* ===== verification/RP_Refine.thy ===== *)
theory RP_Refine
  imports RP_Book
begin

text \<open>
  The storage of the risk pool refines the book of \<open>RP_Book\<close>: every successful call is a
  sequence of its steps, of the kinds \<open>moves\<close> allows for the call, and keeps the
  invariant under which that is so.
\<close>

section \<open>The book of a state\<close>

definition pool_of :: "('t, 'r) rp_state \<Rightarrow> pool" where
  "pool_of s = \<lparr>p_deposited = total_deposited s, p_locked = total_locked s,
     p_shares = total_shares s,
     p_held = (\<lambda>a. case rp_positions s a of None \<Rightarrow> 0 | Some p \<Rightarrow> lp_shares p),
     p_locks = rp_locks s\<rparr>"

text \<open>What is empty before the initialisation.\<close>

definition blank :: "('t, 'r) rp_state \<Rightarrow> bool" where
  "blank s \<longleftrightarrow> rp_admin s = None \<and> rp_pending_admin s = None \<and> rp_usdc_token s = None
     \<and> rp_guardians s = None \<and> rp_lp_count s = None \<and> rp_positions s = Map.empty
     \<and> rp_exits s = Map.empty \<and> pool_of s = empty_pool \<and> rp_withdrawal_request s = None
     \<and> rp_premium_split s = None"

definition request_inv :: "('t, 'r) rp_state \<Rightarrow> bool" where
  "request_inv s \<longleftrightarrow> (\<forall>r. rp_withdrawal_request s = Some r \<longrightarrow> 0 < aw_amount r)"

definition split_inv :: "('t, 'r) rp_state \<Rightarrow> bool" where
  "split_inv s \<longleftrightarrow> (\<forall>p. rp_premium_split s = Some p \<longrightarrow>
     valid_split (ps_lp_bps p) (ps_treas_bps p) (ps_backstop_bps p))"

definition ledger_inv :: "('t, 'r) rp_state \<Rightarrow> bool" where
  "ledger_inv s \<longleftrightarrow> (rp_initialized s \<or> blank s) \<and> request_inv s \<and> split_inv s
     \<and> pool_inv (pool_of s)"

text \<open>What only the initialisation and the administrative calls change.\<close>

definition governance where
  "governance s = (rp_initialized s, rp_admin s, rp_usdc_token s, rp_treasury s, rp_backstop s,
     rp_category s, rp_policy_engine s, rp_claims_processor s, rp_status s, rp_pool_name s,
     rp_premium_split s, rp_pending_parameter_change s, rp_withdrawal_request s,
     rp_withdrawal_approvals s, rp_guardians s, rp_guardian_threshold s,
     rp_pending_guardian_removal s, rp_pending_upgrade s, rp_version s, rp_wasm s,
     rp_pending_admin s, rp_pending_admin_since s, rp_pending_admin_change s)"

lemma governance_updates [simp]:
  "governance (rp_total_deposited_update f0 s) = governance s"
  "governance (rp_total_locked_update f1 s) = governance s"
  "governance (rp_total_shares_update f2 s) = governance s"
  "governance (rp_accumulated_premium_update f3 s) = governance s"
  "governance (rp_accumulated_backstop_update f4 s) = governance s"
  "governance (rp_accumulated_per_share_update f5 s) = governance s"
  "governance (rp_positions_update f6 s) = governance s"
  "governance (rp_lp_count_update f7 s) = governance s"
  "governance (rp_lp_address_update f8 s) = governance s"
  "governance (rp_locks_update f9 s) = governance s"
  "governance (rp_next_nft_id_update f10 s) = governance s"
  "governance (rp_nfts_update f11 s) = governance s"
  "governance (rp_provider_nft_update f12 s) = governance s"
  "governance (rp_capacity_update f13 s) = governance s"
  "governance (rp_exit_delay_update f14 s) = governance s"
  "governance (rp_exits_update f15 s) = governance s"
  "governance (rp_queued_exit_shares_update f16 s) = governance s"
  "governance (rp_exit_cursor_update f17 s) = governance s"
  "governance (rp_dynamic_fee_config_update f18 s) = governance s"
  "governance (rp_reinsurance_update f19 s) = governance s"
  "governance (rp_reinsurance_premium_paid_update f20 s) = governance s"
  "governance (rp_reinsurance_recovered_update f21 s) = governance s"
  "governance (rp_fee_tiers_update f22 s) = governance s"
  "governance (rp_fee_tier_list_update f23 s) = governance s"
  "governance (rp_reentrancy_guard_update f24 s) = governance s"
  "governance (rp_tokens_update f25 s) = governance s"
  "governance (rp_reinsurer_update f26 s) = governance s"
  "governance (rp_events_update f27 s) = governance s"
  by (simp_all add: governance_def)

lemma governance_fields:
  assumes "governance s' = governance s"
  shows "rp_initialized s' = rp_initialized s"
    "rp_admin s' = rp_admin s"
    "rp_usdc_token s' = rp_usdc_token s"
    "rp_treasury s' = rp_treasury s"
    "rp_backstop s' = rp_backstop s"
    "rp_category s' = rp_category s"
    "rp_policy_engine s' = rp_policy_engine s"
    "rp_claims_processor s' = rp_claims_processor s"
    "rp_status s' = rp_status s"
    "rp_pool_name s' = rp_pool_name s"
    "rp_premium_split s' = rp_premium_split s"
    "rp_pending_parameter_change s' = rp_pending_parameter_change s"
    "rp_withdrawal_request s' = rp_withdrawal_request s"
    "rp_withdrawal_approvals s' = rp_withdrawal_approvals s"
    "rp_guardians s' = rp_guardians s"
    "rp_guardian_threshold s' = rp_guardian_threshold s"
    "rp_pending_guardian_removal s' = rp_pending_guardian_removal s"
    "rp_pending_upgrade s' = rp_pending_upgrade s"
    "rp_version s' = rp_version s"
    "rp_wasm s' = rp_wasm s"
    "rp_pending_admin s' = rp_pending_admin s"
    "rp_pending_admin_since s' = rp_pending_admin_since s"
    "rp_pending_admin_change s' = rp_pending_admin_change s"
  using assms by (simp_all add: governance_def)

text \<open>A call advances the book by steps of the kinds \<open>M\<close> and leaves the governance alone.\<close>

definition advances :: "pool_move set \<Rightarrow> ('t, 'r) rp_state \<Rightarrow> ('t, 'r) rp_state \<Rightarrow> bool" where
  "advances M s s' \<longleftrightarrow> pool_steps (\<lambda>m. m \<in> M) (pool_of s) (pool_of s')
     \<and> governance s' = governance s"

lemma advances_refl [simp]: "advances M s s"
  by (simp add: advances_def steps_refl)

lemma advances_trans: "advances M s1 s2 \<Longrightarrow> advances M s2 s3 \<Longrightarrow> advances M s1 s3"
  by (auto simp: advances_def intro: pool_steps_trans)

lemma advances_mono: "advances M s s' \<Longrightarrow> M \<subseteq> N \<Longrightarrow> advances N s s'"
  by (auto simp: advances_def intro: pool_steps_mono)

lemma advances_pool_inv: "advances M s s' \<Longrightarrow> pool_inv (pool_of s) \<Longrightarrow> pool_inv (pool_of s')"
  unfolding advances_def by (blast intro: pool_inv_steps)

lemma advances_step:
  "pool_step m (pool_of s) (pool_of s') \<Longrightarrow> m \<in> M \<Longrightarrow> governance s' = governance s \<Longrightarrow> advances M s s'"
  by (simp add: advances_def pool_steps_one)

lemma advances_same:
  "pool_of s' = pool_of s \<Longrightarrow> governance s' = governance s \<Longrightarrow> advances M s s'"
  by (simp add: advances_def steps_refl)

text \<open>The book reads five fields.\<close>

lemmas book_defs = pool_of_def total_deposited_def total_locked_def total_shares_def

lemma pool_of_cong:
  "rp_total_deposited s' = rp_total_deposited s \<Longrightarrow> rp_total_locked s' = rp_total_locked s \<Longrightarrow>
   rp_total_shares s' = rp_total_shares s \<Longrightarrow> rp_positions s' = rp_positions s \<Longrightarrow>
   rp_locks s' = rp_locks s \<Longrightarrow> pool_of s' = pool_of s"
  by (simp add: book_defs)

lemma pool_of_emit [simp]: "pool_of (emit ev s) = pool_of s"
  by (rule pool_of_cong) (simp_all add: emit_def)

lemma emit_frame [simp]: "governance (emit ev s) = governance s"
  by (simp add: emit_def)

lemma pool_of_guard [simp]: "pool_of (s\<lparr>rp_reentrancy_guard := b\<rparr>) = pool_of s"
  by (rule pool_of_cong) simp_all

lemma pool_of_host [simp]:
  "pool_of (s\<lparr>rp_tokens := t\<rparr>) = pool_of s"
  "pool_of (s\<lparr>rp_exit_cursor := c\<rparr>) = pool_of s"
  by (rule pool_of_cong; simp)+

lemma advances_guarded:
  assumes "guarded body s = Inr (x, s')"
    and "\<And>s1. body (s\<lparr>rp_reentrancy_guard := True\<rparr>) = Inr (x, s1) \<Longrightarrow>
           advances M (s\<lparr>rp_reentrancy_guard := True\<rparr>) s1"
  shows "advances M s s'"
proof -
  obtain s1 where "body (s\<lparr>rp_reentrancy_guard := True\<rparr>) = Inr (x, s1)"
    "s' = s1\<lparr>rp_reentrancy_guard := False\<rparr>"
    using assms(1) by (auto simp: guarded_ok)
  with assms(2)[of s1] show ?thesis by (simp add: advances_def)
qed

section \<open>Liquidity\<close>

lemma settle_yield_frame:
  "settle_yield e s p = Inr (y, p') \<Longrightarrow> lp_shares p' = lp_shares p \<and> lp_deposited p' = lp_deposited p"
  by (auto simp: settle_yield_def Let_def result_simps split: if_splits)

lemma update_lp_nft_frame [simp]:
  "pool_of (update_lp_nft a p s) = pool_of s"
  "governance (update_lp_nft a p s) = governance s"
  by (auto simp: update_lp_nft_def emit_def book_defs split: option.split)

lemma pay_out_yield_frame:
  assumes "pay_out_yield tk e a n s = Inr s'"
  shows "pool_of s' = pool_of s" "governance s' = governance s"
  using assms by (auto simp: pay_out_yield_def result_simps split: if_splits)

lemma mint_lp_nft_frame:
  assumes "mint_lp_nft a c t p s = Inr s'"
  shows "pool_of s' = pool_of s" "governance s' = governance s"
  using assms by (auto simp: mint_lp_nft_def Let_def result_simps emit_def book_defs)

lemma clear_exit_frame [simp]:
  "pool_of (clear_exit_reservation a n s) = pool_of s"
  "governance (clear_exit_reservation a n s) = governance s"
  by (simp_all add: clear_exit_reservation_def book_defs)

lemma pool_of_simps [simp]:
  "p_deposited (pool_of s) = total_deposited s"
  "p_locked (pool_of s) = total_locked s"
  "p_shares (pool_of s) = total_shares s"
  "p_locks (pool_of s) = rp_locks s"
  by (simp_all add: pool_of_def)

lemma held_of_position: "rp_positions s a = Some p \<Longrightarrow> p_held (pool_of s) a = lp_shares p"
  by (simp add: pool_of_def)

text \<open>Under the invariant the saturations have no effect.\<close>

lemma i128_range: "- i128_max \<le> x \<Longrightarrow> x \<le> i128_max \<Longrightarrow> fits_i128 x"
  by (simp add: num_defs)

lemma available_exact:
  assumes "pool_inv (pool_of s)"
  shows "sat_i128 (total_deposited s - total_locked s) = total_deposited s - total_locked s"
proof -
  have "0 \<le> total_locked s" "total_locked s \<le> i128_max"
    using assms locked_nonneg[of "pool_of s"] by (auto simp: pool_inv_def locks_inv_def)
  then show ?thesis
    using assms by (intro sat_i128_id i128_range) (auto simp: pool_inv_def value_inv_def)
qed

lemma pool_inv_bounds:
  assumes "pool_inv (pool_of s)"
  shows "0 \<le> total_deposited s" "0 \<le> total_locked s" "0 \<le> total_shares s"
    "total_deposited s \<le> i128_max" "total_locked s \<le> i128_max" "total_shares s \<le> i128_max"
  using assms locked_nonneg[of "pool_of s"] shares_nonneg[of "pool_of s"]
  by (auto simp: pool_inv_def locks_inv_def value_inv_def shares_inv_def)

lemma position_bounds:
  assumes "pool_inv (pool_of s)" "rp_positions s a = Some p"
  shows "0 \<le> lp_shares p" "lp_shares p \<le> total_shares s"
  using assms held_le_shares[of "pool_of s" a] held_of_position[OF assms(2)]
  by (auto simp: pool_inv_def shares_inv_def dest: spec[of _ a])

lemma price_withdrawal_ok:
  assumes "price_withdrawal p n s = Inr m" "0 < n" "pool_inv (pool_of s)"
  shows "n \<le> lp_shares p" "0 < total_shares s" "m = n * total_deposited s div total_shares s"
    "0 < m" "m \<le> total_deposited s - total_locked s"
proof -
  note b = pool_inv_bounds[OF assms(3)]
  have "n \<le> lp_shares p" and s: "0 < total_shares s"
    and m: "m = n * total_deposited s sdiv total_shares s"
    and pos: "m \<noteq> 0" "m \<le> total_deposited s - total_locked s"
    using assms(1) b available_exact[OF assms(3)]
    by (auto simp: price_withdrawal_def Let_def result_simps split: if_splits)
  moreover have "n * total_deposited s sdiv total_shares s = n * total_deposited s div total_shares s"
    using assms(2) s b by (intro sdiv_nonneg) auto
  moreover have "0 \<le> n * total_deposited s div total_shares s"
    using assms(2) s b by (intro pos_imp_zdiv_nonneg_iff[THEN iffD2]) auto
  ultimately show "n \<le> lp_shares p" "0 < total_shares s"
    "m = n * total_deposited s div total_shares s" "0 < m" "m \<le> total_deposited s - total_locked s"
    by auto
qed

lemma burn_shares_step:
  assumes "burn_shares a p n m s = Inr s'" "rp_positions s a = Some q" "lp_shares p = lp_shares q"
    and "0 < n" "n \<le> lp_shares p" "0 < total_shares s"
    "m = n * total_deposited s div total_shares s" "0 < m" "m \<le> total_deposited s - total_locked s"
  shows "pool_step Burn (pool_of s) (pool_of s')" "governance s' = governance s"
proof -
  obtain p' where s': "s' = update_lp_nft a p'
      (s\<lparr>rp_positions := (rp_positions s)(a \<mapsto> p'),
         rp_total_deposited := Some (total_deposited s - m),
         rp_total_shares := Some (total_shares s - n)\<rparr>)" and p': "lp_shares p' = lp_shares p - n"
    using assms(1) by (auto simp: burn_shares_def Let_def result_simps)
  have "pool_of s' = pool_of (s\<lparr>rp_positions := (rp_positions s)(a \<mapsto> p'),
         rp_total_deposited := Some (total_deposited s - m),
         rp_total_shares := Some (total_shares s - n)\<rparr>)" by (simp add: s')
  also have "\<dots> = (pool_of s)\<lparr>p_deposited := total_deposited s - m, p_shares := total_shares s - n,
      p_held := (p_held (pool_of s))(a := p_held (pool_of s) a - n)\<rparr>"
    using p' assms(2,3) by (auto simp: book_defs)
  finally have "pool_of s' = (pool_of s)\<lparr>p_deposited := total_deposited s - m,
      p_shares := total_shares s - n, p_held := (p_held (pool_of s))(a := p_held (pool_of s) a - n)\<rparr>" .
  then show "pool_step Burn (pool_of s) (pool_of s')"
    using step_burn[of n "pool_of s" a m] assms held_of_position[OF assms(2)] by simp
  show "governance s' = governance s"
    by (simp_all add: s')
qed

lemma withdraw_inner_advances:
  assumes "withdraw_inner tk e a n s = Inr (m, s')" "pool_inv (pool_of s)"
  shows "advances {Burn} s s'"
proof -
  let ?s0 = "s\<lparr>rp_accumulated_per_share := Some (acc_per_share s)\<rparr>"
  have s0: "pool_of ?s0 = pool_of s" by (rule pool_of_cong) simp_all
  obtain p y p' s1 t where n: "0 < n" and p: "rp_positions s a = Some p"
    and m: "price_withdrawal p n s = Inr m" and y: "settle_yield e s p = Inr (y, p')"
    and s1: "burn_shares a p' n m ?s0 = Inr s1"
    and s': "pay_out_yield tk e a y ((emit (LiquidityWithdrawn a n m) s1)\<lparr>rp_tokens := t\<rparr>) = Inr s'"
    using assms(1) by (auto simp: withdraw_inner_def Let_def result_simps split: if_splits)
  note price = price_withdrawal_ok[OF m n assms(2)]
  have "lp_shares p' = lp_shares p" using settle_yield_frame[OF y] by simp
  then have "pool_step Burn (pool_of ?s0) (pool_of s1)" "governance s1 = governance s"
    using burn_shares_step[OF s1, of p] p n price by (auto simp: total_deposited_def total_shares_def total_locked_def)
  then show ?thesis
    using pay_out_yield_frame[OF s'] by (intro advances_step[of Burn]) (simp_all add: s0)
qed

lemma sweep_slot_advances:
  assumes "sweep_slot tk e skip a n s = Inr (n', s')" "pool_inv (pool_of s)"
  shows "advances {Burn} s s'"
proof (cases "rp_exits s a")
  case None
  then show ?thesis using assms(1) by (auto simp: sweep_slot_def split: if_splits)
next
  case (Some r)
  let ?c = "clear_exit_reservation a (ex_shares r) s"
  from assms(1) Some consider "s' = s" | "s' = ?c"
    | k m s1 ev where "withdraw_inner tk e a k ?c = Inr (m, s1)" "s' = emit ev s1"
    by (auto simp: sweep_slot_def Let_def result_simps split: if_splits)
  then show ?thesis
  proof cases
    case 3
    then have "advances {Burn} ?c s1" using withdraw_inner_advances assms(2) by fastforce
    then show ?thesis by (simp add: 3 advances_def)
  qed (auto intro: advances_same)
qed

lemma sweep_loop_advances:
  "sweep_loop tk e skip st cnt steps n s = Inr (n', s') \<Longrightarrow> pool_inv (pool_of s) \<Longrightarrow>
   advances {Burn} s s'"
proof (induction tk e skip st cnt steps n s rule: sweep_loop.induct)
  case (1 tk e skip st cnt n s)
  then show ?case by simp
next
  case (2 tk e skip st cnt i steps n s)
  let ?slot = "st mod cnt + i"
  obtain n1 s1 where s1: "(case rp_lp_address s (?slot mod cnt) of None \<Rightarrow> Inr (n, s)
            | Some a \<Rightarrow> sweep_slot tk e skip a n s) = Inr (n1, s1)"
    and rest: "sweep_loop tk e skip st cnt steps n1 s1 = Inr (n', s')"
    using 2(2) by (auto simp: result_simps)
  have one: "advances {Burn} s s1"
    using s1 sweep_slot_advances 2(3) by (fastforce split: option.splits)
  then have "advances {Burn} s1 s'"
    using 2(1)[OF rest] advances_pool_inv[OF one 2(3)] by blast
  with one show ?case by (rule advances_trans)
qed

lemma sweep_advances:
  assumes "sweep_expired_exits tk e k skip s = Inr (n, s')" "pool_inv (pool_of s)"
  shows "advances {Burn} s s'"
proof -
  let ?cnt = "unwrap_or 0 (rp_lp_count s)" and ?st = "unwrap_or 0 (rp_exit_cursor s)"
  from assms(1) consider "s' = s"
    | s1 c where "sweep_loop tk e skip ?st ?cnt [0 .. min k ?cnt - 1] 0 s = Inr (n, s1)"
        "s' = s1\<lparr>rp_exit_cursor := c\<rparr>"
    by (auto simp: sweep_expired_exits_def Let_def result_simps split: if_splits)
  then show ?thesis
    by cases (use sweep_loop_advances assms(2) in \<open>fastforce simp: advances_def\<close>)+
qed

section \<open>Deposits\<close>

lemma position_upd:
  "rp_total_locked s' = rp_total_locked s \<Longrightarrow> rp_locks s' = rp_locks s \<Longrightarrow>
   rp_positions s' = (rp_positions s)(a \<mapsto> p) \<Longrightarrow>
   pool_of s' = (pool_of s)\<lparr>p_deposited := total_deposited s', p_shares := total_shares s',
     p_held := (p_held (pool_of s))(a := lp_shares p)\<rparr>"
  by (auto simp: book_defs)

lemma credit_position_frame:
  assumes "credit_position e a n m c s = Inr ((is_new, y, p), s')"
  shows "lp_shares p = p_held (pool_of s) a + m" "pool_of s' = pool_of s"
    "governance s' = governance s"
proof -
  have "lp_shares p = p_held (pool_of s) a + m \<and> pool_of s' = pool_of s \<and>
    governance s' = governance s"
  proof (cases "rp_positions s a")
    case None
    then show ?thesis
      using assms by (auto simp: credit_position_def open_position_def Let_def result_simps book_defs)
  next
    case (Some q)
    then show ?thesis
      using assms by (auto simp: credit_position_def result_simps book_defs dest!: settle_yield_frame)
  qed
  then show "lp_shares p = p_held (pool_of s) a + m" "pool_of s' = pool_of s"
    "governance s' = governance s"
    by auto
qed

lemma price_deposit_ok:
  assumes "price_deposit n min_shares s = Inr (d, m, b)" "0 < n" "pool_inv (pool_of s)"
  shows "d = total_deposited s + n" "d \<le> i128_max"
    "total_shares s = 0 \<and> b = 1000 \<and> m = n * 1000000000 - 1000 \<and> 0 < m \<and> n * 1000000000 \<le> i128_max
     \<or> 0 < total_shares s \<and> b = 0 \<and> 0 < total_deposited s
       \<and> m = n * total_shares s div total_deposited s \<and> 1 \<le> m"
proof -
  note b = pool_inv_bounds[OF assms(3)]
  show "d = total_deposited s + n" "d \<le> i128_max"
    using assms(1) by (auto simp: price_deposit_def Let_def result_simps num_defs split: if_splits)
  show "total_shares s = 0 \<and> b = 1000 \<and> m = n * 1000000000 - 1000 \<and> 0 < m \<and> n * 1000000000 \<le> i128_max
     \<or> 0 < total_shares s \<and> b = 0 \<and> 0 < total_deposited s
       \<and> m = n * total_shares s div total_deposited s \<and> 1 \<le> m"
  proof (cases "total_shares s = 0")
    case True
    then show ?thesis
      using assms(1) by (auto simp: price_deposit_def Let_def result_simps fits_i128_def split: if_splits)
  next
    case False
    then have "b = 0" "total_deposited s \<noteq> 0" "1 \<le> m"
      "m = n * total_shares s sdiv total_deposited s"
      using assms(1) by (auto simp: price_deposit_def Let_def result_simps MIN_SHARES_def split: if_splits)
    moreover from this have "n * total_shares s sdiv total_deposited s = n * total_shares s div total_deposited s"
      using assms(2) b by (intro sdiv_nonneg) auto
    ultimately show ?thesis using False b by auto
  qed
qed

lemma pull_deposit_frame:
  assumes "pull_deposit tk e a n s = Inr s'"
  shows "\<exists>t. s' = s\<lparr>rp_tokens := t\<rparr>"
  using assms by (auto simp: pull_deposit_def Let_def result_simps split: if_splits)

lemma deposit_step:
  assumes price: "price_deposit n min_shares s = Inr (d, m, b)" "0 < n" "pool_inv (pool_of s)"
    and s': "total_deposited s' = d" "total_shares s' = total_shares s + m + b"
      "total_shares s' \<le> i128_max" "pool_of s' = (pool_of s)\<lparr>p_deposited := total_deposited s',
         p_shares := total_shares s', p_held := (p_held (pool_of s))(a := p_held (pool_of s) a + m)\<rparr>"
  shows "pool_step Mint (pool_of s) (pool_of s')"
proof -
  note q = price_deposit_ok[OF price]
  from q(3) show ?thesis
  proof (elim disjE conjE)
    assume "total_shares s = 0" "b = 1000" "m = n * 1000000000 - 1000" "0 < m"
      "n * 1000000000 \<le> i128_max"
    then show ?thesis
      using step_mint_first[of n "pool_of s" a] q(1,2) price(2) s' by simp
  next
    assume "0 < total_shares s" "b = 0" "0 < total_deposited s"
      "m = n * total_shares s div total_deposited s" "1 \<le> m"
    then show ?thesis
      using step_mint[of n "pool_of s" m a] q(1,2) price(2) s' by simp
  qed
qed

lemma deposit_body_ok:
  assumes "deposit_body tk e a n min_shares c s = Inr (m, s')"
  obtains k s0 d b where "0 < n" "sweep_expired_exits tk e MAX_AUTO_EXIT_SCAN (Some a) s = Inr (k, s0)"
    "price_deposit n min_shares s0 = Inr (d, m, b)" "total_shares s0 + m + b \<le> i128_max"
    "governance s' = governance s0"
    "pool_of s' = (pool_of s0)\<lparr>p_deposited := d, p_shares := total_shares s0 + m + b,
       p_held := (p_held (pool_of s0))(a := p_held (pool_of s0) a + m)\<rparr>"
proof -
  obtain k s0 d b t isn y p s2 v category s4 where
    checks: "deposit_checks e a n s = Inr ()"
    and sweep: "sweep_expired_exits tk e MAX_AUTO_EXIT_SCAN (Some a) s = Inr (k, s0)"
    and price: "price_deposit n min_shares s0 = Inr (d, m, b)"
    and credit: "credit_position e a n m c (s0\<lparr>rp_tokens := t\<rparr>) = Inr ((isn, y, p), s2)"
    and v: "v = total_shares s0 + m + b" "v \<le> i128_max"
    and s4: "(if isn then mint_lp_nft a category (timestamp e) p
           (emit (LiquidityDeposited a n m) (s2\<lparr>rp_positions := (rp_positions s2)(a \<mapsto> p),
              rp_total_deposited := Some d, rp_total_shares := Some v\<rparr>))
         else Inr (update_lp_nft a p
           (emit (LiquidityDeposited a n m) (s2\<lparr>rp_positions := (rp_positions s2)(a \<mapsto> p),
              rp_total_deposited := Some d, rp_total_shares := Some v\<rparr>)))) = Inr s4"
    and s': "(if c \<and> 0 < y then Inr s4 else pay_out_yield tk e a y s4) = Inr s'"
    using assms
    apply (simp add: deposit_body_def Let_def result_simps fits_i128_def split: prod.splits)
    apply (elim exE conjE)
    apply (frule pull_deposit_frame)
    apply (elim exE)
    apply hypsubst
    apply (rule that; (assumption | simp))
    done
  have n: "0 < n" using checks by (auto simp: deposit_checks_def result_simps split: if_splits)
  note frame = credit_position_frame[OF credit]
  let ?s3 = "s2\<lparr>rp_positions := (rp_positions s2)(a \<mapsto> p),
           rp_total_deposited := Some d, rp_total_shares := Some v\<rparr>"
  have "pool_of ?s3 = (pool_of s0)\<lparr>p_deposited := d, p_shares := v,
      p_held := (p_held (pool_of s0))(a := p_held (pool_of s0) a + m)\<rparr>"
    using position_upd[of ?s3 s2 a p] frame by (simp add: total_deposited_def total_shares_def)
  moreover have "pool_of s4 = pool_of ?s3 \<and> governance s4 = governance ?s3"
    using s4 by (auto dest: mint_lp_nft_frame split: if_splits)
  moreover have "pool_of s' = pool_of s4 \<and> governance s' = governance s4"
    using s' by (auto dest: pay_out_yield_frame split: if_splits)
  ultimately show ?thesis using that[OF n sweep price] v frame by simp
qed

lemma deposit_body_advances:
  assumes "deposit_body tk e a n min_shares c s = Inr (m, s')" "pool_inv (pool_of s)"
  shows "advances {Burn, Mint} s s'"
  using assms(1)
proof (rule deposit_body_ok)
  fix k s0 d b
  assume n: "0 < n" and sweep: "sweep_expired_exits tk e MAX_AUTO_EXIT_SCAN (Some a) s = Inr (k, s0)"
    and price: "price_deposit n min_shares s0 = Inr (d, m, b)"
    and fits: "total_shares s0 + m + b \<le> i128_max" and gov: "governance s' = governance s0"
    and pool: "pool_of s' = (pool_of s0)\<lparr>p_deposited := d, p_shares := total_shares s0 + m + b,
       p_held := (p_held (pool_of s0))(a := p_held (pool_of s0) a + m)\<rparr>"
  have swept: "advances {Burn} s s0" by (rule sweep_advances[OF sweep assms(2)])
  have inv: "pool_inv (pool_of s0)" using advances_pool_inv[OF swept assms(2)] .
  have tot: "total_deposited s' = d" "total_shares s' = total_shares s0 + m + b"
    using arg_cong[OF pool, of p_deposited] arg_cong[OF pool, of p_shares] by simp_all
  have "pool_step Mint (pool_of s0) (pool_of s')"
    using fits pool tot by (intro deposit_step[OF price n inv tot(1), of a]) simp_all
  then have "advances {Burn, Mint} s0 s'" using gov by (intro advances_step[of Mint]) auto
  then show ?thesis using advances_mono[OF swept] advances_trans by blast
qed

section \<open>Withdrawals, transfers and exits\<close>

lemma guard_totals [simp]:
  "total_deposited (s\<lparr>rp_reentrancy_guard := b\<rparr>) = total_deposited s"
  "total_locked (s\<lparr>rp_reentrancy_guard := b\<rparr>) = total_locked s"
  "total_shares (s\<lparr>rp_reentrancy_guard := b\<rparr>) = total_shares s"
  by (simp_all add: total_deposited_def total_locked_def total_shares_def)

lemma emergency_withdraw_advances:
  assumes "emergency_withdraw tk e a admin n s = Inr (m, s')" "pool_inv (pool_of s)"
  shows "advances {Burn} s s'"
proof -
  let ?s = "s\<lparr>rp_reentrancy_guard := True\<rparr>"
  note b = pool_inv_bounds[OF assms(2)]
  obtain p y p' s2 t where *: "0 < n" "rp_positions s a = Some p" "n \<le> lp_shares p"
      "total_shares s \<noteq> 0" "m = n * total_deposited s sdiv total_shares s"
      "m \<noteq> 0" "m \<le> total_deposited s - total_locked s" "settle_yield e ?s p = Inr (y, p')"
      "burn_shares a p' n m ?s = Inr s2"
      "s' = (emit (EmergencyWithdrawn a admin m n) (s2\<lparr>rp_tokens := t\<rparr>))\<lparr>rp_reentrancy_guard := False\<rparr>"
    using assms(1) available_exact[OF assms(2)]
    by (auto simp: emergency_withdraw_def Let_def result_simps split: if_splits)
  have m: "m = n * total_deposited s div total_shares s"
    using * b sdiv_nonneg[of "n * total_deposited s" "total_shares s"] by auto
  moreover have "0 \<le> m" unfolding m using * b by (intro pos_imp_zdiv_nonneg_iff[THEN iffD2]) auto
  ultimately have "pool_step Burn (pool_of ?s) (pool_of s2)" "governance s2 = governance ?s"
    using burn_shares_step[OF *(9), of p] * b settle_yield_frame[OF *(8)] by auto
  then show ?thesis by (intro advances_step[of Burn]) (simp_all add: *)
qed

lemma debit_sender_frame:
  assumes "debit_sender tk e a n s = Inr (m, s')"
  shows "n \<le> p_held (pool_of s) a" "governance s' = governance s"
    "pool_of s' = (pool_of s)\<lparr>p_held := (p_held (pool_of s))(a := p_held (pool_of s) a - n)\<rparr>"
proof -
  obtain p y p' p'' where p: "rp_positions s a = Some p" "n \<le> lp_shares p"
    and y: "settle_yield e s p = Inr (y, p')" and p'': "lp_shares p'' = lp_shares p' - n"
    and s': "pay_out_yield tk e a y (update_lp_nft a p''
        (s\<lparr>rp_positions := (rp_positions s)(a \<mapsto> p'')\<rparr>)) = Inr s'"
    using assms
    apply (simp add: debit_sender_def Let_def result_simps split: prod.splits)
    apply (elim exE conjE)
    apply (rule that; (assumption | simp))
    done
  show "n \<le> p_held (pool_of s) a" using p held_of_position by metis
  show "pool_of s' = (pool_of s)\<lparr>p_held := (p_held (pool_of s))(a := p_held (pool_of s) a - n)\<rparr>"
  proof -
    have "pool_of s' = pool_of (s\<lparr>rp_positions := (rp_positions s)(a \<mapsto> p'')\<rparr>)"
      using pay_out_yield_frame[OF s'] by simp
    then show ?thesis using p p'' settle_yield_frame[OF y] by (auto simp: book_defs)
  qed
  show "governance s' = governance s"
    using pay_out_yield_frame[OF s'] by simp_all
qed

lemma credit_receiver_frame:
  assumes "credit_receiver tk e b m n s = Inr ((isn, p), s')"
  shows "governance s' = governance s
    \<and> pool_of s' = (pool_of s)\<lparr>p_held := (p_held (pool_of s))(b := p_held (pool_of s) b + n)\<rparr>"
proof (cases "rp_positions s b")
  case None
  then show ?thesis
    using assms by (auto simp: credit_receiver_def open_position_def Let_def result_simps book_defs)
next
  case (Some q)
  obtain y q' where y: "settle_yield e s q = Inr (y, q')" and p: "lp_shares p = lp_shares q' + n"
    and s': "pay_out_yield tk e b y (s\<lparr>rp_positions := (rp_positions s)(b \<mapsto> p)\<rparr>) = Inr s'"
    using assms Some by (auto simp: credit_receiver_def Let_def result_simps)
  have "pool_of s' = pool_of (s\<lparr>rp_positions := (rp_positions s)(b \<mapsto> p)\<rparr>)"
    using pay_out_yield_frame[OF s'] by simp
  then show ?thesis
    using pay_out_yield_frame[OF s'] Some p settle_yield_frame[OF y] by (auto simp: book_defs)
qed

lemma transfer_position_advances:
  assumes "transfer_position tk e a b n s = Inr (m, s')" "pool_inv (pool_of s)"
  shows "advances {Move} s s'"
proof -
  obtain s1 isn p s2 s3 category where n: "0 < n" "a \<noteq> b"
    and debit: "debit_sender tk e a n s = Inr (m, s1)"
    and credit: "credit_receiver tk e b m n s1 = Inr ((isn, p), s2)"
    and s3: "(if isn then mint_lp_nft b category (timestamp e) p s2
        else Inr (update_lp_nft b p s2)) = Inr s3"
    and s': "emit (LpPositionTransferred a b n m) s3 = s'"
    using assms(1)
    apply (simp add: transfer_position_def result_simps split: prod.splits)
    apply (elim exE conjE)
    apply (rule that; (assumption | simp))
    done
  note d = debit_sender_frame[OF debit] and c = credit_receiver_frame[OF credit]
  have "pool_of s2 = (pool_of s)\<lparr>p_held := (p_held (pool_of s))
      (a := p_held (pool_of s) a - n, b := p_held (pool_of s) b + n)\<rparr>"
    using c d n by simp
  then have "pool_step Move (pool_of s) (pool_of s2)" using step_move n d(1) by simp
  then show ?thesis
    using s3 s'[symmetric] c d by (intro advances_step[of Move]) (auto dest: mint_lp_nft_frame split: if_splits)
qed

lemma positions_yield:
  assumes "rp_positions s a = Some p" "lp_shares p' = lp_shares p"
  shows "pool_of (s\<lparr>rp_positions := (rp_positions s)(a \<mapsto> p')\<rparr>) = pool_of s"
  using assms by (auto simp: book_defs)

lemma claim_yield_advances:
  assumes "claim_yield tk e a s = Inr (m, s')"
  shows "advances {} s s'"
proof -
  let ?s = "s\<lparr>rp_reentrancy_guard := True\<rparr>"
  obtain p p' s1 where p: "rp_positions s a = Some p" and y: "settle_yield e ?s p = Inr (m, p')"
    and s1: "pay_out_yield tk e a m (if m > 0 then ?s\<lparr>rp_positions := (rp_positions ?s)(a \<mapsto> p')\<rparr>
        else ?s) = Inr s1" and s': "s' = s1\<lparr>rp_reentrancy_guard := False\<rparr>"
    using assms by (auto simp: claim_yield_def result_simps)
  have "pool_of (?s\<lparr>rp_positions := (rp_positions ?s)(a \<mapsto> p')\<rparr>) = pool_of ?s"
    using p settle_yield_frame[OF y] by (intro positions_yield[of _ _ p]) auto
  then show ?thesis using pay_out_yield_frame[OF s1] s' by (intro advances_same) (auto split: if_splits)
qed

lemma toggle_compound_advances: "toggle_compound e a b s = Inr s' \<Longrightarrow> advances {} s s'"
  by (intro advances_same) (auto simp: toggle_compound_def result_simps positions_yield)

lemma exit_queue_frame [simp]:
  "pool_of (s\<lparr>rp_exits := x, rp_queued_exit_shares := q\<rparr>) = pool_of s"
  "pool_of (s\<lparr>rp_exit_delay := d\<rparr>) = pool_of s"
  by (rule pool_of_cong; simp)+

lemma request_exit_advances:
  assumes "request_exit tk e a n s = Inr (u, s')" "pool_inv (pool_of s)"
  shows "advances {Burn} s s'"
  using assms(1) unfolding request_exit_def
proof (rule advances_guarded, goal_cases)
  case (1 s1)
  then obtain k s2 where "sweep_expired_exits tk e MAX_AUTO_EXIT_SCAN (Some a)
      (s\<lparr>rp_reentrancy_guard := True\<rparr>) = Inr (k, s2)" "pool_of s1 = pool_of s2"
      "governance s1 = governance s2"
    by (auto simp: Let_def result_simps split: if_splits prod.splits option.splits)
  then show ?case using sweep_advances assms(2) by (fastforce simp: advances_def)
qed

lemma claim_exit_advances:
  assumes "claim_exit tk e a s = Inr (m, s')" "pool_inv (pool_of s)"
  shows "advances {Burn} s s'"
  using assms(1) unfolding claim_exit_def
proof (rule advances_guarded, goal_cases)
  case (1 s1)
  let ?c = "\<lambda>r :: exit_request. clear_exit_reservation a (ex_shares r) (s\<lparr>rp_reentrancy_guard := True\<rparr>)"
  have "\<exists>r s2 ev. withdraw_inner tk e a (ex_shares r) (?c r) = Inr (m, s2) \<and> emit ev s2 = s1"
    using 1
    apply (simp add: result_simps split: prod.splits)
    apply (elim exE conjE)
    apply (intro exI conjI; assumption)
    done
  then obtain r s2 ev where "withdraw_inner tk e a (ex_shares r) (?c r) = Inr (m, s2)"
      "emit ev s2 = s1" by blast
  then show ?case using withdraw_inner_advances assms(2) by (fastforce simp: advances_def)
qed

lemma withdraw_advances:
  assumes "withdraw tk e a n s = Inr (m, s')" "pool_inv (pool_of s)"
  shows "advances {Burn} s s'"
  using assms(1) unfolding withdraw_def
proof (rule advances_guarded, goal_cases)
  case (1 s1)
  then obtain k s2 where sweep: "sweep_expired_exits tk e MAX_AUTO_EXIT_SCAN (Some a)
      (s\<lparr>rp_reentrancy_guard := True\<rparr>) = Inr (k, s2)" and "withdraw_inner tk e a n s2 = Inr (m, s1)"
    by (auto simp: result_simps split: if_splits)
  moreover have "advances {Burn} (s\<lparr>rp_reentrancy_guard := True\<rparr>) s2"
    using sweep_advances[OF sweep] assms(2) by simp
  ultimately show ?case
    using withdraw_inner_advances advances_trans advances_pool_inv assms(2) pool_of_guard by metis
qed

lemma deposit_advances:
  assumes "deposit tk e a n ms c s = Inr (m, s')" "pool_inv (pool_of s)"
  shows "advances {Burn, Mint} s s'"
  using assms(1) unfolding deposit_def
  by (rule advances_guarded) (rule deposit_body_advances, assumption, simp add: assms(2))

lemma process_exits_advances:
  assumes "process_expired_exits tk e k s = Inr (n, s')" "pool_inv (pool_of s)"
  shows "advances {Burn} s s'"
  using assms(1) unfolding process_expired_exits_def
  by (rule advances_guarded) (rule sweep_advances, assumption, simp add: assms(2))

lemma cancel_exit_advances: "cancel_exit e a s = Inr (u, s') \<Longrightarrow> advances {} s s'"
  by (intro advances_same) (auto simp: cancel_exit_def result_simps)

primrec liquidity_moves :: "liquidity_call \<Rightarrow> pool_move set" where
  "liquidity_moves (DepositWithToken a b c d e) = {Burn, Mint}"
| "liquidity_moves (Deposit a b c d) = {Burn, Mint}"
| "liquidity_moves (Withdraw a b) = {Burn}"
| "liquidity_moves (EmergencyWithdraw a b c) = {Burn}"
| "liquidity_moves (TransferShares a b c) = {Move}"
| "liquidity_moves (TransferPosition a b c) = {Move}"
| "liquidity_moves (ClaimYield a) = {}"
| "liquidity_moves (ToggleCompound a b) = {}"
| "liquidity_moves (SetExitDelay a b) = {}"
| "liquidity_moves (RequestExit a b) = {Burn}"
| "liquidity_moves (ClaimExit a) = {Burn}"
| "liquidity_moves (ProcessExpiredExits a) = {Burn}"
| "liquidity_moves (CancelExit a) = {}"

lemma liquidity_advances:
  assumes "liquidity_dispatch tk rc e c s = Inr s'" "pool_inv (pool_of s)"
  shows "advances (liquidity_moves c) s s'"
proof (cases c)
  case (SetExitDelay a d)
  then show ?thesis using assms(1) by (intro advances_same) (auto simp: set_exit_delay_def result_simps)
qed (use assms in \<open>auto simp: result_simps deposit_with_token_def transfer_shares_def split: if_splits
    intro: deposit_advances withdraw_advances emergency_withdraw_advances transfer_position_advances
      claim_yield_advances toggle_compound_advances request_exit_advances claim_exit_advances
      process_exits_advances cancel_exit_advances\<close>)

section \<open>Locks, recovery and seizure\<close>

lemma lock_advances:
  assumes "lock_for_policy e c i n s = Inr s'" "pool_inv (pool_of s)"
  shows "advances {Lock} s s'"
proof -
  let ?l = "\<lparr>lk_policy_id = i, lk_amount = n, lk_locked_at = timestamp e, lk_released = False\<rparr>"
  have l: "rp_locks s i = None" and n: "0 < n" "n \<le> total_deposited s - total_locked s"
    and s': "s' = emit (CapitalLocked i n) (s\<lparr>rp_locks := (rp_locks s)(i \<mapsto> ?l),
        rp_total_locked := Some (total_locked s + n)\<rparr>)"
    using assms(1) available_exact[OF assms(2)]
    by (auto simp: lock_for_policy_def Let_def result_simps split: if_splits)
  have "pool_of s' = (pool_of s)\<lparr>p_locked := total_locked s + n, p_locks := (rp_locks s)(i \<mapsto> ?l)\<rparr>"
    by (simp add: s' book_defs emit_def)
  then have "pool_step Lock (pool_of s) (pool_of s')"
    using step_lock[of n "pool_of s" i ?l] l n by simp
  then show ?thesis by (intro advances_step[of Lock]) (simp_all add: s')
qed

lemma release_step:
  assumes "rp_locks s i = Some l" "\<not> lk_released l" "pool_inv (pool_of s)"
  shows "advances {Unlock} s (release_lock i l s)"
proof -
  have "0 < lk_amount l" "lk_amount l \<le> total_locked s"
    using assms lock_le_locked[of "pool_of s" i l] by (auto simp: pool_inv_def locks_inv_def)
  then have "sat_i128 (total_locked s - lk_amount l) = total_locked s - lk_amount l"
    using pool_inv_bounds[OF assms(3)] by (intro sat_i128_id i128_range) auto
  then have "pool_of (release_lock i l s) = (pool_of s)\<lparr>p_locked := total_locked s - lk_amount l,
      p_locks := (rp_locks s)(i \<mapsto> l\<lparr>lk_released := True\<rparr>)\<rparr>"
    by (simp add: release_lock_def book_defs)
  then show ?thesis
    using step_unlock[of "pool_of s" i l] assms
    by (intro advances_step[of Unlock]) (simp_all add: release_lock_def)
qed

lemma release_advances:
  assumes "release_for_claim e c i s = Inr s' \<or> release_for_expiry e c i s = Inr s'"
    and "pool_inv (pool_of s)"
  shows "advances {Unlock} s s'"
proof -
  obtain l where l: "rp_locks s i = Some l" "\<not> lk_released l"
    and s': "s' = release_lock i l s \<or> (\<exists>ev. s' = emit ev (release_lock i l s))"
    using assms(1) by (auto simp: release_for_claim_def release_for_expiry_def result_simps split: if_splits)
  show ?thesis using release_step[OF l assms(2)] s' by (auto simp: advances_def)
qed

lemma collect_recovery_step:
  assumes "collect_recovery rc e i n cfg q s = Inr (m, s')"
  shows "advances {Recover} s s'"
proof -
  obtain reported t r where rec: "rc (rp_tokens s) (rp_reinsurer s) (ri_reinsurer cfg) (this e) i q
      = Some (reported, t, r)" and m: "m = clamp 0 q reported"
    using assms by (auto simp: collect_recovery_def Let_def result_simps split: if_splits)
  let ?s1 = "s\<lparr>rp_tokens := t, rp_reinsurer := r\<rparr>"
  have s1: "pool_of ?s1 = pool_of s" by (rule pool_of_cong) simp_all
  show ?thesis
  proof (cases "0 < m")
    case True
    then obtain tr ev where "total_deposited s + m \<le> i128_max"
      "s' = emit ev (?s1\<lparr>rp_total_deposited := Some (total_deposited s + m),
          rp_reinsurance_recovered := tr\<rparr>)"
      using assms rec m
      by (simp add: collect_recovery_def Let_def result_simps fits_i128_def total_deposited_def) blast
    moreover from this have "pool_of s' = (pool_of s)\<lparr>p_deposited := total_deposited s + m\<rparr>"
      by (simp add: book_defs emit_def)
    ultimately show ?thesis
      using step_recover[of m "pool_of s"] True by (intro advances_step[of Recover]) simp_all
  next
    case False
    then have "s' = ?s1" using assms rec m by (simp add: collect_recovery_def Let_def result_simps)
    then show ?thesis using s1 by (intro advances_same) simp_all
  qed
qed

lemma recovery_advances:
  assumes "request_reinsurance_recovery rc e c i n s = Inr (m, s')"
  shows "advances {Recover} s s'"
  using assms unfolding request_reinsurance_recovery_def
  by (rule advances_guarded)
     (auto simp: result_simps intro: collect_recovery_step split: option.splits prod.splits)

lemma seized_le: "0 \<le> h \<Longrightarrow> 0 \<le> u \<Longrightarrow> u \<le> 10000 \<Longrightarrow> h * u sdiv 10000 \<le> (h::int)"
  using mult_left_mono[of u 10000 h] by (simp add: sdiv_nonneg)

lemma collateralization_nonneg:
  "get_collateralization_ratio a s = Inr info \<Longrightarrow> 0 \<le> ci_collateralization_bps info"
  by (auto simp: get_collateralization_ratio_def Let_def result_simps u32_max_def split: if_splits)

lemma liquidate_ok:
  assumes "liquidate_position e c a s = Inr (r, s')" "pool_inv (pool_of s)"
  obtains p n m where "rp_positions s a = Some p" "0 < n" "n \<le> lp_shares p" "0 < total_shares s"
    "0 \<le> m" "m \<le> n * total_deposited s div total_shares s" "m \<le> total_deposited s"
    "lr_shares_seized r = n" "lr_amount_recovered r = m"
    "s' = emit (PositionLiquidated a n m (lr_previous_ratio_bps r))
       (s\<lparr>rp_positions := (if lp_shares p - n \<le> 0 then (rp_positions s)(a := None)
            else (rp_positions s)(a \<mapsto> p\<lparr>lp_shares := lp_shares p - n,
                   lp_deposited := sat_i128 (lp_deposited p - m)\<rparr>)),
          rp_total_shares := Some (total_shares s - n),
          rp_total_deposited := Some (total_deposited s - m)\<rparr>)"
proof -
  let ?amount = "\<lambda>n. if total_shares s > 0
     then unwrap_or 0 (checked_mul_div n (total_deposited s) (total_shares s)) else 0"
  obtain p info where p: "rp_positions s a = Some p"
    and info: "get_collateralization_ratio a s = Inr info" "ci_collateralization_bps info < 10000"
    using assms(1) by (auto simp: liquidate_position_def Let_def result_simps split: if_splits)
  define u where "u = sat_u32 (10000 - ci_collateralization_bps info)"
  define n where "n = unwrap_or 0 (checked_mul_div (lp_shares p) u 10000)"
  define m where "m = ?amount n"
  note b = pool_inv_bounds[OF assms(2)] position_bounds[OF assms(2) p]
  have u: "0 \<le> u" "u \<le> 10000"
    using info collateralization_nonneg[OF info(1)] by (auto simp: u_def num_defs)
  have s': "0 < n" "lr_shares_seized r = n" "lr_amount_recovered r = m"
    "s' = emit (PositionLiquidated a n m (lr_previous_ratio_bps r))
       (s\<lparr>rp_positions := (if sat_i128 (lp_shares p - n) \<le> 0 then (rp_positions s)(a := None)
            else (rp_positions s)(a \<mapsto> p\<lparr>lp_shares := sat_i128 (lp_shares p - n),
                   lp_deposited := sat_i128 (lp_deposited p - m)\<rparr>)),
          rp_total_shares := Some (sat_i128 (total_shares s - n)),
          rp_total_deposited := Some (sat_i128 (total_deposited s - m))\<rparr>)"
    using assms(1) p info
    by (auto simp: liquidate_position_def Let_def result_simps u_def n_def m_def split: if_splits)
  have "n = lp_shares p * u sdiv 10000"
    using s'(1) by (auto simp: n_def unwrap_or_def result_simps split: option.splits)
  then have n: "n \<le> lp_shares p" using seized_le b u by simp
  have S: "0 < total_shares s" using n b s'(1) by simp
  have "m = 0 \<or> m = n * total_deposited s div total_shares s"
    using S b s'(1) by (auto simp: m_def unwrap_or_def result_simps sdiv_nonneg split: option.splits)
  moreover have "0 \<le> n * total_deposited s div total_shares s"
    using S b s'(1) by (intro pos_imp_zdiv_nonneg_iff[THEN iffD2]) auto
  ultimately have m: "0 \<le> m" "m \<le> n * total_deposited s div total_shares s" by auto
  moreover have "n * total_deposited s div total_shares s \<le> total_deposited s"
    using b n S s'(1) by (intro redeemed_le) auto
  ultimately have md: "m \<le> total_deposited s" by simp
  have sat: "sat_i128 (lp_shares p - n) = lp_shares p - n"
    "sat_i128 (total_shares s - n) = total_shares s - n"
    "sat_i128 (total_deposited s - m) = total_deposited s - m"
    using b n m md s'(1) by (auto intro!: sat_i128_id i128_range)
  show ?thesis
    by (rule that[OF p s'(1) n S m md s'(2,3)]) (use s'(4) sat in simp)
qed

lemma liquidate_advances:
  assumes "liquidate_position e c a s = Inr (r, s')" "pool_inv (pool_of s)"
  shows "advances {Seize} s s'"
  using assms
proof (rule liquidate_ok)
  fix p n m
  assume *: "rp_positions s a = Some p" "0 < n" "n \<le> lp_shares p" "0 < total_shares s"
    "0 \<le> m" "m \<le> n * total_deposited s div total_shares s"
  assume s': "s' = emit (PositionLiquidated a n m (lr_previous_ratio_bps r))
       (s\<lparr>rp_positions := (if lp_shares p - n \<le> 0 then (rp_positions s)(a := None)
            else (rp_positions s)(a \<mapsto> p\<lparr>lp_shares := lp_shares p - n,
                   lp_deposited := sat_i128 (lp_deposited p - m)\<rparr>)),
          rp_total_shares := Some (total_shares s - n),
          rp_total_deposited := Some (total_deposited s - m)\<rparr>)"
  have "pool_of s' = (pool_of s)\<lparr>p_deposited := total_deposited s - m, p_shares := total_shares s - n,
      p_held := (p_held (pool_of s))(a := p_held (pool_of s) a - n)\<rparr>"
    using * by (auto simp: s' book_defs emit_def)
  then have "pool_step Seize (pool_of s) (pool_of s')"
    using step_seize[of n "pool_of s" a m] * held_of_position[of s a p] by simp
  then show ?thesis by (intro advances_step[of Seize]) (simp_all add: s')
qed

primrec risk_moves :: "risk_call \<Rightarrow> pool_move set" where
  "risk_moves (PoolInitialize a b c d e f g) = {}"
| "risk_moves (ReceivePremium a b) = {}"
| "risk_moves (SendPremiumToTreasury a b) = {}"
| "risk_moves (SendPremiumToBackstop a b) = {}"
| "risk_moves (SetCapacity a b c) = {}"
| "risk_moves (LockForPolicy a b c) = {Lock}"
| "risk_moves (ReleaseForClaim a b) = {Unlock}"
| "risk_moves (ReleaseForExpiry a b) = {Unlock}"
| "risk_moves (SetReinsurance a b c d) = {}"
| "risk_moves (SetReinsuranceActive a b) = {}"
| "risk_moves (SendPremiumToReinsurer a b) = {}"
| "risk_moves (RequestReinsuranceRecovery a b c) = {Recover}"
| "risk_moves (SetDynamicFeeConfig a b c d e f g) = {}"
| "risk_moves (SetFeeTier a b c d e) = {}"
| "risk_moves (RemoveFeeTier a b) = {}"
| "risk_moves (LiquidatePosition a b) = {Seize}"

lemma distribute_frame:
  assumes "distribute_premium tk e u n s = Inr s'"
  shows "pool_of s' = pool_of s" "governance s' = governance s"
  using assms by (auto simp: distribute_premium_def Let_def result_simps book_defs emit_def split: prod.splits)

lemma premium_advances:
  assumes "receive_premium tk e c n s = Inr (u, s')" shows "advances {} s s'"
  using assms unfolding receive_premium_def
proof (rule advances_guarded, goal_cases)
  case (1 s1)
  let ?s = "s\<lparr>rp_reentrancy_guard := True\<rparr>"
  from 1 consider "s1 = ?s" | usdc t where "distribute_premium tk e usdc n (?s\<lparr>rp_tokens := t\<rparr>) = Inr s1"
    by (auto simp: result_simps split: if_splits)
  then show ?case by cases (auto intro: advances_same simp: distribute_frame)
qed

lemmas forward_defs = send_premium_to_treasury_def send_premium_to_backstop_def
  send_premium_to_reinsurer_def

lemma forward_advances:
  "send_premium_to_treasury tk e c n s = Inr (u, s') \<Longrightarrow> advances {} s s'"
  "send_premium_to_backstop tk e c n s = Inr (u, s') \<Longrightarrow> advances {} s s'"
  "send_premium_to_reinsurer tk e c n s = Inr (u, s') \<Longrightarrow> advances {} s s'"
  unfolding forward_defs
  by (erule advances_guarded, intro advances_same;
      auto simp: Let_def result_simps emit_def book_defs split: if_splits)+

lemmas setting_defs = set_capacity_def set_reinsurance_def set_reinsurance_active_def
  set_dynamic_fee_config_def set_fee_tier_def remove_fee_tier_def

lemma risk_advances:
  assumes "risk_dispatch tk rc e c s = Inr s'" "pool_inv (pool_of s)"
    and "\<And>a b c' d e' f g. c \<noteq> PoolInitialize a b c' d e' f g"
  shows "advances (risk_moves c) s s'"
proof (cases c)
  case (PoolInitialize a b c d e f g)
  then show ?thesis using assms(3) by simp
next
  case (SetCapacity a b c)
  then show ?thesis using assms(1) by (intro advances_same) (auto simp: setting_defs result_simps book_defs emit_def split: if_splits)
next
  case (SetReinsurance a b c d)
  then show ?thesis using assms(1) by (intro advances_same) (auto simp: setting_defs result_simps book_defs emit_def split: if_splits)
next
  case (SetReinsuranceActive a b)
  then show ?thesis using assms(1) by (intro advances_same) (auto simp: setting_defs result_simps book_defs emit_def)
next
  case (SetDynamicFeeConfig a b c d e f g)
  then show ?thesis using assms(1) by (intro advances_same) (auto simp: setting_defs result_simps book_defs emit_def split: if_splits)
next
  case (SetFeeTier a b c d e)
  then show ?thesis using assms(1) by (intro advances_same) (auto simp: setting_defs Let_def result_simps book_defs emit_def split: if_splits)
next
  case (RemoveFeeTier a b)
  then show ?thesis using assms(1) by (intro advances_same) (auto simp: setting_defs result_simps book_defs split: if_splits)
qed (use assms in \<open>auto simp: result_simps intro: premium_advances forward_advances lock_advances
    release_advances recovery_advances liquidate_advances\<close>)

end
