(* ===== verification/RP_Ledger.thy ===== *)
theory RP_Ledger
  imports RP_Refine
begin

text \<open>
  The administrative calls and the initialisation on the book of the pool, and with them
  the invariant of all calls: the interpretation of \<open>invariant_system\<close> on the risk pool.
\<close>

section \<open>Administrative calls\<close>

text \<open>No administrative field is part of the book.\<close>

lemma pool_of_admin_fields [simp]:
  "pool_of (rp_status_update f1 s) = pool_of s"
  "pool_of (rp_premium_split_update f2 s) = pool_of s"
  "pool_of (rp_pending_parameter_change_update f3 s) = pool_of s"
  "pool_of (rp_withdrawal_approvals_update f4 s) = pool_of s"
  "pool_of (rp_version_update f5 s) = pool_of s"
  "pool_of (rp_wasm_update f6 s) = pool_of s"
  "pool_of (rp_pending_upgrade_update f7 s) = pool_of s"
  "pool_of (rp_guardians_update f8 s) = pool_of s"
  "pool_of (rp_guardian_threshold_update f9 s) = pool_of s"
  "pool_of (rp_pending_guardian_removal_update f10 s) = pool_of s"
  "pool_of (rp_pending_admin_update f11 s) = pool_of s"
  "pool_of (rp_pending_admin_since_update f12 s) = pool_of s"
  "pool_of (rp_pending_admin_change_update f13 s) = pool_of s"
  "pool_of (rp_admin_update f14 s) = pool_of s"
  "pool_of (rp_pool_name_update f15 s) = pool_of s"
  "pool_of (rp_withdrawal_request_update f16 s) = pool_of s"
  "pool_of (rp_tokens_update f17 s) = pool_of s"
  "pool_of (rp_reentrancy_guard_update f18 s) = pool_of s"
  by (rule pool_of_cong; simp)+

lemmas pool_admin_defs = pause_def resume_def start_winding_down_def update_premium_split_def
  propose_parameter_change_def execute_parameter_change_def cancel_parameter_change_def
  approve_admin_withdrawal_def rp_upgrade_def install_upgrade_def set_guardians_def
  propose_remove_guardian_def remove_guardian_def approve_remove_guardian_def
  cancel_pending_guardian_removal_def approve_upgrade_def cancel_pending_upgrade_def
  rp_propose_new_admin_def approve_admin_change_def rp_accept_admin_def set_pool_name_def

text \<open>What a call leaves alone when it is not about the admin's withdrawal.\<close>

definition keeps_book :: "('t, 'r) rp_state \<Rightarrow> ('t, 'r) rp_state \<Rightarrow> bool" where
  "keeps_book s s' \<longleftrightarrow> pool_of s' = pool_of s \<and> rp_initialized s' = rp_initialized s
     \<and> rp_withdrawal_request s' = rp_withdrawal_request s \<and> (split_inv s \<longrightarrow> split_inv s')"

lemma keeps_bookI:
  "pool_of s' = pool_of s \<Longrightarrow> rp_initialized s' = rp_initialized s \<Longrightarrow>
   rp_withdrawal_request s' = rp_withdrawal_request s \<Longrightarrow> (split_inv s \<Longrightarrow> split_inv s') \<Longrightarrow>
   keeps_book s s'"
  by (simp add: keeps_book_def)

lemma emit_fields [simp]:
  "rp_initialized (emit ev s) = rp_initialized s"
  "rp_withdrawal_request (emit ev s) = rp_withdrawal_request s"
  "rp_premium_split (emit ev s) = rp_premium_split s"
  by (simp_all add: emit_def)

text \<open>The calls on the admin's withdrawal are the only ones that change its request.\<close>

primrec on_withdrawal :: "admin_call \<Rightarrow> bool" where
  "on_withdrawal (Pause a) = False"
| "on_withdrawal (Resume a) = False"
| "on_withdrawal (StartWindingDown a) = False"
| "on_withdrawal (UpdatePremiumSplit a b c d) = False"
| "on_withdrawal (ProposeParameterChange a b c d) = False"
| "on_withdrawal (ExecuteParameterChange a) = False"
| "on_withdrawal (CancelParameterChange a) = False"
| "on_withdrawal (RequestAdminWithdrawal a b) = True"
| "on_withdrawal (ApproveAdminWithdrawal a) = False"
| "on_withdrawal (ExecuteAdminWithdrawal a) = True"
| "on_withdrawal (CancelAdminWithdrawal a) = True"
| "on_withdrawal (PoolUpgrade a b c) = False"
| "on_withdrawal (SetGuardians a b c) = False"
| "on_withdrawal (ProposeRemoveGuardian a b) = False"
| "on_withdrawal (ApproveRemoveGuardian a) = False"
| "on_withdrawal (CancelPendingGuardianRemoval a) = False"
| "on_withdrawal (ApproveUpgrade a b) = False"
| "on_withdrawal (CancelPendingUpgrade a) = False"
| "on_withdrawal (PoolProposeNewAdmin a b) = False"
| "on_withdrawal (ApproveAdminChange a b) = False"
| "on_withdrawal (PoolAcceptAdmin a) = False"
| "on_withdrawal (SetPoolName a b) = False"

lemma status_keeps:
  "pause e a s = Inr s' \<Longrightarrow> keeps_book s s'"
  "resume e a s = Inr s' \<Longrightarrow> keeps_book s s'"
  "start_winding_down e a s = Inr s' \<Longrightarrow> keeps_book s s'"
  "set_pool_name e a n s = Inr s' \<Longrightarrow> keeps_book s s'"
  by (intro keeps_bookI; auto simp: pause_def resume_def start_winding_down_def set_pool_name_def
      Let_def result_simps split_inv_def split: if_splits)+

lemma split_keeps:
  "update_premium_split e a l t b s = Inr s' \<Longrightarrow> keeps_book s s'"
  "propose_parameter_change e a l t b s = Inr s' \<Longrightarrow> keeps_book s s'"
  "execute_parameter_change e a s = Inr s' \<Longrightarrow> keeps_book s s'"
  "cancel_parameter_change e a s = Inr s' \<Longrightarrow> keeps_book s s'"
  by (intro keeps_bookI; auto simp: update_premium_split_def propose_parameter_change_def execute_parameter_change_def cancel_parameter_change_def
      valid_split_def Let_def result_simps split_inv_def split: if_splits)+

lemma approve_withdrawal_keeps:
  "approve_admin_withdrawal e g s = Inr s' \<Longrightarrow> keeps_book s s'"
  by (intro keeps_bookI; auto simp: approve_admin_withdrawal_def
      Let_def result_simps split_inv_def split: if_splits)+

lemma guardian_keeps:
  "set_guardians e a gs n s = Inr s' \<Longrightarrow> keeps_book s s'"
  "propose_remove_guardian e a g s = Inr s' \<Longrightarrow> keeps_book s s'"
  "approve_remove_guardian e g s = Inr s' \<Longrightarrow> keeps_book s s'"
  "cancel_pending_guardian_removal e a s = Inr s' \<Longrightarrow> keeps_book s s'"
  by (intro keeps_bookI; auto simp: set_guardians_def propose_remove_guardian_def remove_guardian_def approve_remove_guardian_def cancel_pending_guardian_removal_def
      Let_def result_simps split_inv_def split: if_splits)+

lemma upgrade_keeps:
  "rp_upgrade e a h v s = Inr s' \<Longrightarrow> keeps_book s s'"
  "approve_upgrade e g h s = Inr s' \<Longrightarrow> keeps_book s s'"
  "cancel_pending_upgrade e a s = Inr s' \<Longrightarrow> keeps_book s s'"
  by (intro keeps_bookI; auto simp: rp_upgrade_def install_upgrade_def approve_upgrade_def cancel_pending_upgrade_def
      Let_def result_simps split_inv_def split: if_splits)+

text \<open>The admin role.\<close>

lemma rp_propose_new_admin_keeps: "rp_propose_new_admin e a g s = Inr s' \<Longrightarrow> keeps_book s s'"
  by (intro keeps_bookI; auto simp: rp_propose_new_admin_def Let_def result_simps split_inv_def split: if_splits)

lemma approve_admin_change_keeps:
  assumes "approve_admin_change e g b s = Inr s'" shows "keeps_book s s'"
proof -
  obtain p where p: "rp_pending_admin_change s = Some p" "pac_new_admin p = b"
    using assms by (auto simp: approve_admin_change_def result_simps split_inv_def split: if_splits)
  let ?done = "s\<lparr>rp_pending_admin_change := None, rp_pending_admin := Some b,
      rp_pending_admin_since := (case rp_pending_admin_since s of
         None \<Rightarrow> Some (timestamp e) | Some since \<Rightarrow> Some since)\<rparr>"
  let ?more = "s\<lparr>rp_pending_admin_change := Some (p\<lparr>pac_approvals := pac_approvals p @ [g]\<rparr>)\<rparr>"
  have "s' = ?done \<or> s' = ?more"
    using assms p(1) by (simp add: approve_admin_change_def p(2) Let_def result_simps del: eq_commute
        split: if_split_asm)
  then show ?thesis by (elim disjE) (auto intro!: keeps_bookI simp: split_inv_def)
qed

lemma rp_accept_admin_keeps: "rp_accept_admin e a s = Inr s' \<Longrightarrow> keeps_book s s'"
  by (intro keeps_bookI; auto simp: rp_accept_admin_def Let_def result_simps split_inv_def split: if_splits)

lemma admin_keeps:
  assumes "admin_dispatch tk rc e c s = Inr s'" "\<not> on_withdrawal c"
  shows "keeps_book s s'"
  using assms by (cases c) (auto intro: status_keeps split_keeps approve_withdrawal_keeps
      guardian_keeps upgrade_keeps
      rp_propose_new_admin_keeps approve_admin_change_keeps rp_accept_admin_keeps)

lemma execute_withdrawal_ok:
  assumes "execute_admin_withdrawal tk e a s = Inr (u, s')" "pool_inv (pool_of s)" "request_inv s"
  obtains r usdc treasury t where "rp_withdrawal_request s = Some r" "\<not> aw_executed r"
    "aw_execute_after r \<le> timestamp e" "0 < aw_amount r"
    "aw_amount r \<le> total_deposited s - total_locked s"
    "rp_usdc_token s = Some usdc" "rp_treasury s = Some treasury"
    "transfer_of tk (rp_tokens s) usdc (this e) treasury (aw_amount r) = Some t"
    "pool_of s' = (pool_of s)\<lparr>p_deposited := total_deposited s - aw_amount r\<rparr>"
    "rp_initialized s' = rp_initialized s" "rp_tokens s' = t"
    "rp_premium_split s' = rp_premium_split s"
    "rp_withdrawal_request s' = Some (r\<lparr>aw_executed := True\<rparr>)"
    "get_guardian_threshold s > 0 \<Longrightarrow>
       get_guardian_threshold s \<le> unwrap_or 0 (rp_withdrawal_approvals s)"
proof -
  obtain r usdc treasury t s1 where r: "rp_withdrawal_request s = Some r" "\<not> aw_executed r"
    "aw_execute_after r \<le> timestamp e"
    "aw_amount r \<le> total_deposited s - total_locked s"
    "rp_usdc_token s = Some usdc" "rp_treasury s = Some treasury"
    "transfer_of tk (rp_tokens s) usdc (this e) treasury (aw_amount r) = Some t"
    and s': "emit (AdminWithdrawalExecuted a (aw_amount r))
      (s\<lparr>rp_reentrancy_guard := True, rp_withdrawal_request := Some (r\<lparr>aw_executed := True\<rparr>),
         rp_total_deposited := Some (sat_i128 (total_deposited s - aw_amount r)),
         rp_tokens := t\<rparr>) = s1" "s' = s1\<lparr>rp_reentrancy_guard := False\<rparr>"
    and g: "get_guardian_threshold s > 0 \<longrightarrow>
       get_guardian_threshold s \<le> unwrap_or 0 (rp_withdrawal_approvals s)"
    using assms(1) available_exact[OF assms(2)]
    apply (simp add: execute_admin_withdrawal_def get_available_liquidity_def get_guardian_threshold_def
        Let_def result_simps)
    apply (elim exE conjE)
    apply (rule that; (assumption | simp add: not_less get_guardian_threshold_def))
    done
  have pos: "0 < aw_amount r" using assms(3) r(1) by (simp add: request_inv_def)
  have sat: "sat_i128 (total_deposited s - aw_amount r) = total_deposited s - aw_amount r"
    using r(4) pos pool_inv_bounds[OF assms(2)] by (intro sat_i128_id i128_range) auto
  have "pool_of s' = (pool_of s)\<lparr>p_deposited := total_deposited s - aw_amount r\<rparr>"
    "rp_initialized s' = rp_initialized s" "rp_tokens s' = t"
    "rp_premium_split s' = rp_premium_split s"
    "rp_withdrawal_request s' = Some (r\<lparr>aw_executed := True\<rparr>)"
    by (simp_all add: s'(2) s'(1)[symmetric] sat book_defs emit_def
        sat[unfolded total_deposited_def])
  then show ?thesis using that[OF r(1-3) pos r(4-7)] g by blast
qed

definition admin_moves :: "admin_call \<Rightarrow> pool_move set" where
  "admin_moves c = (case c of ExecuteAdminWithdrawal a \<Rightarrow> {Drain} | _ \<Rightarrow> {})"

text \<open>The invariant after a call that is not the initialisation.\<close>

lemma admin_refines:
  assumes "admin_dispatch tk rc e c s = Inr s'" "pool_inv (pool_of s)" "request_inv s" "split_inv s"
  shows "pool_steps (\<lambda>m. m \<in> admin_moves c) (pool_of s) (pool_of s') \<and> request_inv s'
    \<and> rp_initialized s' = rp_initialized s \<and> split_inv s'"
proof (cases "on_withdrawal c")
  case False
  then have "keeps_book s s'" by (rule admin_keeps[OF assms(1)])
  then show ?thesis
    using assms(3,4) by (simp add: keeps_book_def request_inv_def steps_refl)
next
  case True
  then consider (request) a n where "c = RequestAdminWithdrawal a n"
    | (execute) a where "c = ExecuteAdminWithdrawal a" | (cancel) a where "c = CancelAdminWithdrawal a"
    by (cases c) auto
  then show ?thesis
  proof cases
    case (request a n)
    then have "pool_of s' = pool_of s \<and> request_inv s' \<and> rp_initialized s' = rp_initialized s
        \<and> rp_premium_split s' = rp_premium_split s"
      using assms(1) by (auto simp: request_admin_withdrawal_def result_simps
          request_inv_def split: if_splits)
    then show ?thesis using assms(4) by (simp add: steps_refl split_inv_def)
  next
    case (execute a)
    then have x: "execute_admin_withdrawal tk e a s = Inr ((), s')"
      using assms(1) by (simp add: result_simps)
    show ?thesis
      using x assms(2,3)
    proof (rule execute_withdrawal_ok)
      fix r usdc treasury t
      assume *: "0 < aw_amount r" "aw_amount r \<le> total_deposited s - total_locked s"
        "pool_of s' = (pool_of s)\<lparr>p_deposited := total_deposited s - aw_amount r\<rparr>"
        "rp_initialized s' = rp_initialized s" "rp_premium_split s' = rp_premium_split s"
        "rp_withdrawal_request s' = Some (r\<lparr>aw_executed := True\<rparr>)"
      have "pool_step Drain (pool_of s) (pool_of s')"
        using step_drain[of "aw_amount r" "pool_of s"] * by simp
      then show ?thesis
        using * assms(4)
        by (auto simp: execute admin_moves_def request_inv_def split_inv_def intro: pool_steps_one)
    qed
  next
    case (cancel a)
    then have "pool_of s' = pool_of s \<and> request_inv s' \<and> rp_initialized s' = rp_initialized s
        \<and> rp_premium_split s' = rp_premium_split s"
      using assms(1) by (auto simp: cancel_admin_withdrawal_def result_simps
          request_inv_def split: if_splits)
    then show ?thesis using assms(4) by (simp add: steps_refl split_inv_def)
  qed
qed

section \<open>Before the initialisation\<close>

lemma blank_fields:
  assumes "blank s"
  shows "rp_admin s = None" "rp_pending_admin s = None" "rp_usdc_token s = None"
    "rp_guardians s = None" "rp_lp_count s = None" "rp_positions s = Map.empty"
    "rp_exits s = Map.empty" "rp_withdrawal_request s = None" "rp_premium_split s = None"
  using assms by (auto simp: blank_def)

lemma blank_guarded:
  assumes "guarded body s = Inr (x, s')" "blank s"
    and "\<And>s1. blank s1 \<Longrightarrow> \<exists>y. body s1 = Inr y \<Longrightarrow> \<exists>x. body s1 = Inr (x, s1)"
  shows "blank s'"
proof -
  let ?s = "s\<lparr>rp_reentrancy_guard := True\<rparr>"
  have blank: "blank ?s" using assms(2) by (simp add: blank_def)
  obtain s1 where s1: "body ?s = Inr (x, s1)" "s' = s1\<lparr>rp_reentrancy_guard := False\<rparr>"
    using assms(1) by (auto simp: guarded_ok)
  then have "s1 = ?s" using assms(3)[OF blank] by auto
  then show ?thesis using s1(2) assms(2) by (simp add: blank_def)
qed

lemma sweep_blank: "blank s \<Longrightarrow> sweep_expired_exits tk e k skip s = Inr (0, s)"
  by (simp add: sweep_expired_exits_def blank_fields)

lemma liquidity_blank:
  assumes "liquidity_dispatch tk rc e c s = Inr s'" "blank s"
  shows "blank s'"
proof (cases "\<exists>k. c = ProcessExpiredExits k")
  case True
  then obtain k n where "guarded (sweep_expired_exits tk e (min k MAX_AUTO_EXIT_SCAN) None) s = Inr (n, s')"
    using assms(1) by (auto simp: process_expired_exits_def done_with_ok)
  then show ?thesis using assms(2) by (rule blank_guarded) (simp add: sweep_blank)
next
  case False
  note b = blank_fields[OF assms(2)]
  have b': "blank (s\<lparr>rp_reentrancy_guard := True\<rparr>)" using assms(2) by (simp add: blank_def)
  show ?thesis
    using assms(1) False b
    by (cases c) (auto simp: result_simps deposit_with_token_def deposit_def deposit_body_def
        pull_deposit_def withdraw_def withdraw_inner_def sweep_blank[OF b'] emergency_withdraw_def
        transfer_shares_def transfer_position_def debit_sender_def claim_yield_def
        toggle_compound_def set_exit_delay_def request_exit_def claim_exit_def cancel_exit_def
        split: if_splits)
qed

lemma risk_blank:
  assumes "risk_dispatch tk rc e c s = Inr s'" "blank s"
    "\<And>a b c' d e' f g. c \<noteq> PoolInitialize a b c' d e' f g"
  shows "blank s'"
proof (cases "\<exists>a n. c = ReceivePremium a n")
  case True
  then obtain a n u where "receive_premium tk e a n s = Inr (u, s')"
    using assms(1) by (auto simp: done_with_ok)
  then show ?thesis unfolding receive_premium_def using assms(2)
    by (rule blank_guarded) (auto simp: result_simps blank_fields split: if_splits)
next
  case False
  note b = blank_fields[OF assms(2)]
  show ?thesis
  proof (cases c)
    case (PoolInitialize a b c d e f g)
    then show ?thesis using assms(3) by simp
  qed (use assms(1) b False in \<open>auto simp: result_simps setting_defs forward_defs lock_for_policy_def
        release_for_claim_def release_for_expiry_def request_reinsurance_recovery_def
        liquidate_position_def\<close>)
qed

lemma admin_blank:
  assumes "admin_dispatch tk rc e c s = Inr s'" "blank s" shows "blank s'"
  using assms(1) blank_fields[OF assms(2)]
  by (cases c) (auto simp: pool_admin_defs request_admin_withdrawal_def execute_admin_withdrawal_def
      cancel_admin_withdrawal_def get_guardians_def result_simps)

section \<open>All calls\<close>

primrec moves :: "rp_call \<Rightarrow> pool_move set" where
  "moves (Liquidity c) = liquidity_moves c"
| "moves (Risk c) = risk_moves c"
| "moves (Administer c) = admin_moves c"

lemma initialize_refines:
  assumes "rp_initialize tk e a u t b c pe cp s = Inr s'" "ledger_inv s"
  shows "pool_of s' = pool_of s" "ledger_inv s'"
proof -
  have blank: "blank s" and s': "rp_initialized s'" "pool_of s' = pool_of s"
      "rp_withdrawal_request s' = rp_withdrawal_request s" "rp_premium_split s' = rp_premium_split s"
    using assms by (auto simp: rp_initialize_def ledger_inv_def blank_def empty_pool_def
        result_simps book_defs emit_def split: if_splits)
  then show "pool_of s' = pool_of s" "ledger_inv s'"
    using assms(2) by (simp_all add: ledger_inv_def request_inv_def split_inv_def)
qed

lemma exec_refines:
  assumes "rp_exec tk rc e c s = Inr s'" "ledger_inv s"
  shows "pool_steps (\<lambda>m. m \<in> moves c) (pool_of s) (pool_of s') \<and> ledger_inv s'"
proof -
  have inv: "pool_inv (pool_of s)" "request_inv s" "split_inv s" and start: "rp_initialized s \<or> blank s"
    using assms(2) by (auto simp: ledger_inv_def)
  have done_if: "pool_steps P (pool_of s) (pool_of s') \<and> ledger_inv s'"
    if "pool_steps P (pool_of s) (pool_of s')" "request_inv s'" "split_inv s'"
      "rp_initialized s' = rp_initialized s" "blank s \<Longrightarrow> blank s'" for P
    using that inv start pool_inv_steps[OF that(1) inv(1)] by (auto simp: ledger_inv_def)
  have adv: "pool_steps (\<lambda>m. m \<in> M) (pool_of s) (pool_of s') \<and> ledger_inv s'"
    if "advances M s s'" "blank s \<Longrightarrow> blank s'" for M
    using that inv by (intro done_if)
      (auto simp: advances_def request_inv_def split_inv_def dest: governance_fields)
  show ?thesis
  proof (cases c)
    case (Liquidity c')
    then have "liquidity_dispatch tk rc e c' s = Inr s'" using assms(1) by (simp add: rp_exec_ok)
    then show ?thesis using Liquidity adv liquidity_advances liquidity_blank inv by fastforce
  next
    case (Risk c')
    then have d: "risk_dispatch tk rc e c' s = Inr s'" using assms(1) by (simp add: rp_exec_ok)
    show ?thesis
    proof (cases "\<exists>a b d e' f g h. c' = PoolInitialize a b d e' f g h")
      case True
      then show ?thesis
        using d initialize_refines[OF _ assms(2)] Risk by (auto simp: steps_refl)
    next
      case False
      then show ?thesis using Risk d adv[OF risk_advances risk_blank] inv by auto
    qed
  next
    case (Administer c')
    then have d: "admin_dispatch tk rc e c' s = Inr s'" using assms(1) by (simp add: rp_exec_ok)
    then show ?thesis
      using Administer admin_refines[OF d inv] admin_blank[OF d] done_if by auto
  qed
qed

lemma ledger_start: "ledger_inv (rp_fresh t r)"
  by (simp add: ledger_inv_def blank_def request_inv_def split_inv_def rp_fresh_def book_defs empty_pool_inv
      empty_pool_def[symmetric])

interpretation rp: invariant_system "rp_exec tk rc" "rp_fresh t0 r0" "\<lambda>_. ledger_inv"
  for tk :: "'t token_ops" and rc :: "('t, 'r) reinsurer" and t0 :: 't and r0 :: 'r
  by unfold_locales (auto simp: ledger_start dest: exec_refines)

end
