(* ===== verification/RP_Accounts.thy ===== *)
theory RP_Accounts
  imports RP_Ledger Sample
begin

text \<open>
  What single operations of the risk pool do, on the states its invariant allows: the
  redemption and the exit, the capital locks, the premium, the admin's withdrawal, the
  committee of guardians, the reinsurer and the liquidation.
\<close>

section \<open>Holders and locks\<close>

definition shares_of :: "('t, 'r) rp_state \<Rightarrow> address \<Rightarrow> int" where
  "shares_of s a = (case rp_positions s a of None \<Rightarrow> 0 | Some p \<Rightarrow> lp_shares p)"

definition holders :: "('t, 'r) rp_state \<Rightarrow> address set" where
  "holders s = {a. shares_of s a \<noteq> 0}"

definition open_locks :: "('t, 'r) rp_state \<Rightarrow> int set" where
  "open_locks s = {i. \<exists>l. rp_locks s i = Some l \<and> \<not> lk_released l}"

definition lock_amount :: "('t, 'r) rp_state \<Rightarrow> int \<Rightarrow> int" where
  "lock_amount s i = (case rp_locks s i of None \<Rightarrow> 0 | Some l \<Rightarrow> lk_amount l)"

lemma held_shares_of: "p_held (pool_of s) = shares_of s"
  by (simp add: pool_of_def shares_of_def fun_eq_iff)

lemma holders_support: "support (shares_of s) = holders s"
  by (simp add: support_def holders_def)

lemma shares_books:
  assumes "pool_inv (pool_of s)"
  shows "finite (holders s)" "\<And>a. 0 \<le> shares_of s a"
    "total_shares s = 0 \<and> holders s = {} \<or> total_shares s = 1000 + (\<Sum>a \<in> holders s. shares_of s a)"
proof -
  have sh: "shares_inv (pool_of s)" using assms by (simp add: pool_inv_def)
  show fin: "finite (holders s)" and nonneg: "\<And>a. 0 \<le> shares_of s a"
    using sh by (auto simp: shares_inv_def holders_support held_shares_of)
  have tot: "total (p_held (pool_of s)) = (\<Sum>a \<in> holders s. shares_of s a)"
    by (simp add: total_def holders_support held_shares_of)
  have "(\<Sum>a \<in> holders s. shares_of s a) = 0 \<longleftrightarrow> holders s = {}"
    using fin nonneg by (subst sum_nonneg_eq_0_iff) (auto simp: holders_def)
  then show "total_shares s = 0 \<and> holders s = {}
      \<or> total_shares s = 1000 + (\<Sum>a \<in> holders s. shares_of s a)"
    using sh by (auto simp: shares_inv_def tot)
qed

lemma locks_books:
  assumes "pool_inv (pool_of s)"
  shows "finite (open_locks s)" "\<And>i. i \<in> open_locks s \<Longrightarrow> 0 < lock_amount s i"
    "total_locked s = (\<Sum>i \<in> open_locks s. lock_amount s i)"
proof -
  have lk: "locks_inv (pool_of s)" using assms by (simp add: pool_inv_def)
  have pos: "0 < lk_amount l" if "rp_locks s i = Some l" for i l
    using lk that by (simp add: locks_inv_def)
  have sup: "support (earmarked \<circ> rp_locks s) = open_locks s"
    by (auto simp: support_def open_locks_def earmarked_def dest: pos split: option.splits if_splits)
  show "finite (open_locks s)" using lk by (simp add: locks_inv_def flip: sup)
  show "\<And>i. i \<in> open_locks s \<Longrightarrow> 0 < lock_amount s i"
    using lk by (auto simp: locks_inv_def open_locks_def lock_amount_def)
  have "(\<Sum>i \<in> open_locks s. (earmarked \<circ> p_locks (pool_of s)) i) = (\<Sum>i \<in> open_locks s. lock_amount s i)"
    by (rule sum.cong) (auto simp: open_locks_def lock_amount_def)
  then show "total_locked s = (\<Sum>i \<in> open_locks s. lock_amount s i)"
    using lk by (simp add: locks_inv_def total_def sup)
qed

section \<open>Deposit and redemption\<close>

lemma withdraw_inner_ok:
  assumes "withdraw_inner tk e a n s = Inr (m, s')" "pool_inv (pool_of s)"
  shows "0 < n" "n \<le> shares_of s a" "0 < total_shares s" "pool_state s \<noteq> PoolPaused"
    "m = n * total_deposited s div total_shares s" "0 < m" "m \<le> total_deposited s - total_locked s"
proof -
  obtain p where n: "0 < n" "pool_state s \<noteq> PoolPaused" and p: "rp_positions s a = Some p"
    and m: "price_withdrawal p n s = Inr m"
    using assms(1) by (auto simp: withdraw_inner_def Let_def result_simps split: if_splits)
  note price_withdrawal_ok[OF m n(1) assms(2)]
  then show "0 < n" "n \<le> shares_of s a" "0 < total_shares s" "pool_state s \<noteq> PoolPaused"
    "m = n * total_deposited s div total_shares s" "0 < m" "m \<le> total_deposited s - total_locked s"
    using n p by (simp_all add: shares_of_def)
qed

lemma redeem_at_most_paid:
  assumes "0 < (s::int)" "0 < d" "0 \<le> n" "m = n * s div d" "0 \<le> m"
  shows "m * (d + n) div (s + m) \<le> n"
proof -
  have "m * d \<le> n * s" using assms(2,4) by (simp add: div_times_le)
  then have "m * (d + n) \<le> n * (s + m)" by (simp add: algebra_simps)
  then have "m * (d + n) div (s + m) \<le> n * (s + m) div (s + m)"
    using assms by (intro zdiv_mono1) auto
  then show ?thesis using assms by simp
qed

text \<open>The states before and after the part of a deposit that follows the sweep.\<close>

lemma deposit_ok:
  assumes "deposit tk e a n min_shares c s = Inr (m, s')" "pool_inv (pool_of s)" "0 < total_shares s"
  obtains s0 where "advances {Burn} s s0" "0 < total_shares s0" "0 < total_deposited s0" "0 < n" "1 \<le> m"
    "m = n * total_shares s0 div total_deposited s0"
    "total_deposited s' = total_deposited s0 + n" "total_shares s' = total_shares s0 + m"
proof -
  let ?s = "s\<lparr>rp_reentrancy_guard := True\<rparr>"
  obtain s1 where body: "deposit_body tk e a n min_shares c ?s = Inr (m, s1)"
    and s': "s' = s1\<lparr>rp_reentrancy_guard := False\<rparr>"
    using assms(1) by (auto simp: deposit_def guarded_ok)
  have inv: "pool_inv (pool_of ?s)" using assms(2) by simp
  obtain k s0 d b where n: "0 < n"
    and sweep: "sweep_expired_exits tk e MAX_AUTO_EXIT_SCAN (Some a) ?s = Inr (k, s0)"
    and price: "price_deposit n min_shares s0 = Inr (d, m, b)"
    and pool: "pool_of s1 = (pool_of s0)\<lparr>p_deposited := d, p_shares := total_shares s0 + m + b,
       p_held := (p_held (pool_of s0))(a := p_held (pool_of s0) a + m)\<rparr>"
    using body by (rule deposit_body_ok)
  have swept: "advances {Burn} ?s s0" by (rule sweep_advances[OF sweep inv])
  then have inv0: "pool_inv (pool_of s0)" by (rule advances_pool_inv) (rule inv)
  have "price_le (pool_of ?s) (pool_of s0)"
    using swept inv assms(3) by (intro price_steps[of "\<lambda>m. m \<in> {Burn}"]) (auto simp: advances_def)
  then have S: "0 < total_shares s0" by (simp add: price_le_def)
  have eq: "total_deposited s' = d" "total_shares s' = total_shares s0 + m + b"
    using arg_cong[OF pool, of p_deposited] arg_cong[OF pool, of p_shares] by (simp_all add: s')
  have "advances {Burn} s s0" using swept by (simp add: advances_def)
  then show ?thesis
    by (rule that) (use price_deposit_ok[OF price n inv0] S n eq in auto)
qed

section \<open>Locks\<close>

lemma lock_possible:
  assumes "pool_inv (pool_of s)"
  shows "(\<exists>s'. lock_for_policy e c i n s = Inr s') \<longleftrightarrow>
     rp_require_protocol_caller e c s = Inr () \<and> pool_state s = PoolActive \<and> 0 < n
     \<and> total_locked s + n \<le> total_deposited s \<and> rp_locks s i = None
     \<and> (pc_max_utilization_bps (capacity s) < 10000 \<longrightarrow> total_locked s + n \<le> max_lockable s)"
proof (cases "0 < n \<and> total_locked s + n \<le> total_deposited s")
  case True
  note b = pool_inv_bounds[OF assms]
  have "fits_i128 (total_locked s + n)" using True b by (intro i128_range) auto
  then show ?thesis
    using True available_exact[OF assms]
    by (simp add: lock_for_policy_def Let_def result_simps not_less not_le) (auto simp: checked_add_def checked_i128_def)
next
  case False
  then show ?thesis
    using available_exact[OF assms] by (auto simp: lock_for_policy_def Let_def result_simps split: if_splits)
qed

lemma lock_effect:
  assumes "lock_for_policy e c i n s = Inr s'" "pool_inv (pool_of s)"
  shows "total_locked s' = total_locked s + n" "total_deposited s' = total_deposited s"
    "i \<in> open_locks s'" "lock_amount s' i = n"
  using assms by (auto simp: lock_for_policy_def Let_def result_simps emit_def total_locked_def
      total_deposited_def open_locks_def lock_amount_def split: if_splits)

lemma within_utilization:
  assumes "pool_inv (pool_of s)" "0 \<le> pc_max_utilization_bps (capacity s)" "x \<le> max_lockable s"
  shows "x * 10000 \<le> total_deposited s * pc_max_utilization_bps (capacity s)"
proof -
  let ?v = "total_deposited s * pc_max_utilization_bps (capacity s)"
  have v: "0 \<le> ?v" using pool_inv_bounds(1)[OF assms(1)] assms(2) by simp
  then have sat: "0 \<le> sat_i128 ?v" "sat_i128 ?v \<le> ?v" by (auto simp: num_defs)
  then have "x \<le> sat_i128 ?v div 10000" using assms(3) by (simp add: max_lockable_def sdiv_nonneg)
  then show ?thesis using sat by linarith
qed

section \<open>Premium\<close>

lemma premium_share:
  assumes "0 \<le> n" "0 \<le> b" "mul_div n b 10000 = Inr v"
  shows "v = n * b div 10000" "0 \<le> v" "v * 10000 \<le> n * b"
proof -
  have p: "0 \<le> n * b" using assms by simp
  show v: "v = n * b div 10000" using assms(3) p by (simp add: result_simps sdiv_nonneg)
  show "0 \<le> v" using p by (simp add: v pos_imp_zdiv_nonneg_iff)
  show "v * 10000 \<le> n * b" unfolding v by (rule div_times_le) simp
qed

lemma distribute_ok:
  assumes "distribute_premium tk e u n s = Inr s'" "split_inv s" "pool_inv (pool_of s)" "0 < n"
  obtains l g b treasury backstop t where
    "get_premium_split_bps s = (l, g, b)" "l + g + b = 10000"
    "n * l div 10000 + n * g div 10000 + n * b div 10000 \<le> n"
    "rp_treasury s = Some treasury" "rp_backstop s = Some backstop"
    "transfer_of tk (rp_tokens s) u (this e) treasury (n * g div 10000) = Some t"
    "transfer_of tk t u (this e) backstop (n * b div 10000) = Some (rp_tokens s')"
    "acc_per_share s' = acc_per_share s + (if total_shares s > 0
       then n * l div 10000 * 1000000000000 div total_shares s else 0)"
proof -
  obtain l g b where split: "get_premium_split_bps s = (l, g, b)"
    by (cases "get_premium_split_bps s") auto
  have bps: "0 \<le> l" "0 \<le> g" "0 \<le> b" "l + g + b = 10000"
    using split assms(2) by (auto simp: get_premium_split_bps_def split_inv_def valid_split_def
        num_defs split: option.splits)
  obtain pl pg pb per treasury backstop t t' where shares: "mul_div n l 10000 = (Inr pl :: (rp_error, int) result)"
      "mul_div n g 10000 = (Inr pg :: (rp_error, int) result)" "mul_div n b 10000 = (Inr pb :: (rp_error, int) result)"
    and per: "(if total_shares s > 0
             then bindR (or_panic ROverflow
                    (checked_mul_div pl 1000000000000 (total_shares s))) (\<lambda>increment.
                  bindR (i128 (acc_per_share s + increment)) (\<lambda>v. Inr (Some v)))
             else Inr (rp_accumulated_per_share s)) = Inr per"
    and flow: "rp_treasury s = Some treasury" "rp_backstop s = Some backstop"
      "transfer_of tk (rp_tokens s) u (this e) treasury pg = Some t"
      "transfer_of tk t u (this e) backstop pb = Some t'"
    and s': "rp_tokens s' = t'" "rp_accumulated_per_share s' = per"
    using assms(1) split
    by (simp add: distribute_premium_def Let_def bindR_eq_Inr or_trap_eq_Inr) (auto simp: emit_def)
  note v = premium_share[OF _ bps(1) shares(1)] premium_share[OF _ bps(2) shares(2)]
    premium_share[OF _ bps(3) shares(3)]
  have nn: "0 \<le> n" using assms(4) by simp
  have "(n * l div 10000 + n * g div 10000 + n * b div 10000) * 10000 \<le> n * l + n * g + n * b"
    by simp
  also have "\<dots> = n * (l + g + b)" by (simp add: algebra_simps)
  finally have sum: "n * l div 10000 + n * g div 10000 + n * b div 10000 \<le> n" by (simp add: bps)
  have "acc_per_share s' = acc_per_share s + (if total_shares s > 0
       then n * l div 10000 * 1000000000000 div total_shares s else 0)"
  proof (cases "0 < total_shares s")
    case True
    then have "per = Some (acc_per_share s + pl * 1000000000000 sdiv total_shares s)"
      using per by (auto simp: result_simps)
    then show ?thesis using True v(1,2)[OF nn] s'(2) by (simp add: acc_per_share_def sdiv_nonneg)
  next
    case False
    then show ?thesis using per s'(2) by (simp add: acc_per_share_def)
  qed
  then show ?thesis
    using that[OF split bps(4) sum flow(1,2)] flow v nn s' by simp
qed

lemma receive_premium_ok:
  assumes "receive_premium tk e c n s = Inr (u, s')" "ledger_inv s" "0 < n"
  obtains l g b usdc treasury backstop t1 t2 where
    "get_premium_split_bps s = (l, g, b)" "l + g + b = 10000"
    "n * l div 10000 + n * g div 10000 + n * b div 10000 \<le> n"
    "rp_usdc_token s = Some usdc" "rp_treasury s = Some treasury" "rp_backstop s = Some backstop"
    "transfer_of tk (rp_tokens s) usdc c (this e) n = Some t1"
    "transfer_of tk t1 usdc (this e) treasury (n * g div 10000) = Some t2"
    "transfer_of tk t2 usdc (this e) backstop (n * b div 10000) = Some (rp_tokens s')"
    "acc_per_share s' = acc_per_share s + (if total_shares s > 0
       then n * l div 10000 * 1000000000000 div total_shares s else 0)"
proof -
  let ?s = "s\<lparr>rp_reentrancy_guard := True\<rparr>"
  obtain usdc t1 s1 where usdc: "rp_usdc_token s = Some usdc"
    and t1: "transfer_of tk (rp_tokens s) usdc c (this e) n = Some t1"
    and dist: "distribute_premium tk e usdc n (?s\<lparr>rp_tokens := t1\<rparr>) = Inr s1"
    and s': "s' = s1\<lparr>rp_reentrancy_guard := False\<rparr>"
    using assms(1,3) by (auto simp: receive_premium_def result_simps)
  have inv: "split_inv (?s\<lparr>rp_tokens := t1\<rparr>)" "pool_inv (pool_of (?s\<lparr>rp_tokens := t1\<rparr>))"
    using assms(2) by (auto simp: ledger_inv_def split_inv_def)
  show ?thesis
  proof (rule distribute_ok[OF dist inv assms(3)], goal_cases)
    case (1 l g b treasury backstop t)
    show ?thesis
      by (rule that[of l g b usdc treasury backstop t1 t])
         (use 1 usdc t1 s' in \<open>simp_all add: get_premium_split_bps_def acc_per_share_def total_shares_def\<close>)
  qed
qed

section \<open>The admin's withdrawal and the guardians\<close>

text \<open>From a state without a request, none can be executed before a week has passed.\<close>

definition no_request :: "('t, 'r) rp_state \<Rightarrow> bool" where
  "no_request s \<longleftrightarrow> (\<forall>r. rp_withdrawal_request s = Some r \<longrightarrow> aw_executed r)"

definition week_away :: "int \<Rightarrow> ('t, 'r) rp_state \<Rightarrow> bool" where
  "week_away t s \<longleftrightarrow> (\<forall>r. rp_withdrawal_request s = Some r \<longrightarrow>
     aw_executed r \<or> t + TIMELOCK_SECONDS \<le> aw_execute_after r)"

lemma governance_request:
  assumes "governance s' = governance s" shows "week_away t s' \<longleftrightarrow> week_away t s"
  by (simp add: week_away_def governance_fields(13)[OF assms])

lemma week_admin:
  assumes "admin_dispatch tk rc e c s = Inr s'" "ledger_inv s" "t \<le> timestamp e" "week_away t s"
  shows "week_away t s'"
proof (cases "on_withdrawal c")
  case False
  then show ?thesis
    using admin_keeps[OF assms(1)] assms(4) by (simp add: keeps_book_def week_away_def)
next
  case True
  then consider (request) a n where "c = RequestAdminWithdrawal a n"
    | (execute) a where "c = ExecuteAdminWithdrawal a" | (cancel) a where "c = CancelAdminWithdrawal a"
    by (cases c) auto
  then show ?thesis
  proof cases
    case (request a n)
    then have "request_admin_withdrawal e a n s = Inr s'" using assms(1) by simp
    then have "\<exists>r. rp_withdrawal_request s' = Some r \<and> aw_execute_after r = timestamp e + TIMELOCK_SECONDS"
      by (auto simp: request_admin_withdrawal_def result_simps emit_def)
    then show ?thesis using assms(3) by (auto simp: week_away_def)
  next
    case (execute a)
    then have x: "execute_admin_withdrawal tk e a s = Inr ((), s')"
      using assms(1) by (simp add: result_simps)
    have "\<exists>r. rp_withdrawal_request s' = Some (r\<lparr>aw_executed := True\<rparr>)"
      by (rule execute_withdrawal_ok[OF x]) (use assms(2) in \<open>simp_all add: ledger_inv_def\<close>, blast)
    then show ?thesis by (auto simp: week_away_def)
  next
    case (cancel a)
    then have "cancel_admin_withdrawal e a s = Inr s'" using assms(1) by simp
    then have "rp_withdrawal_request s' = None"
      by (auto simp: cancel_admin_withdrawal_def result_simps emit_def)
    then show ?thesis by (simp add: week_away_def)
  qed
qed

lemma initialize_request:
  assumes "rp_initialize tk e a u t b c pe cp s = Inr s'"
  shows "rp_withdrawal_request s' = rp_withdrawal_request s"
  using assms by (auto simp: rp_initialize_def result_simps emit_def split: if_splits)

lemma week_step:
  assumes "rp_exec tk rc e c s = Inr s'" "ledger_inv s" "t \<le> timestamp e" "week_away t s"
  shows "week_away t s'"
proof (cases c)
  case (Liquidity d)
  then have "advances (liquidity_moves d) s s'"
    using assms(1,2) by (intro liquidity_advances[of tk rc e]) (auto simp: rp_exec_ok ledger_inv_def)
  then show ?thesis using assms(4) governance_request unfolding advances_def by blast
next
  case (Risk d)
  then have d: "risk_dispatch tk rc e d s = Inr s'" using assms(1) by (simp add: rp_exec_ok)
  show ?thesis
  proof (cases "\<exists>a u t b c pe cp. d = PoolInitialize a u t b c pe cp")
    case True
    then have "rp_withdrawal_request s' = rp_withdrawal_request s"
      using d by (auto dest: initialize_request)
    then show ?thesis using assms(4) by (simp add: week_away_def)
  next
    case False
    then have "advances (risk_moves d) s s'"
      using d assms(2) by (intro risk_advances) (auto simp: ledger_inv_def)
    then show ?thesis using assms(4) governance_request unfolding advances_def by blast
  qed
next
  case (Administer d)
  then have "admin_dispatch tk rc e d s = Inr s'" using assms(1) by (simp add: rp_exec_ok)
  then show ?thesis by (rule week_admin) (rule assms)+
qed

lemma week_run:
  "run (rp_exec tk rc) t s t' s' \<Longrightarrow> ledger_inv s \<Longrightarrow> 0 \<le> t \<Longrightarrow> no_request s \<Longrightarrow>
   week_away t s' \<and> ledger_inv s'"
proof (induction rule: run.induct)
  case (run_refl t s)
  then show ?case by (auto simp: week_away_def no_request_def)
next
  case (run_step t s t' s' e c s'')
  have "t \<le> timestamp e" using run_time[OF run_step.hyps(1)] run_step.hyps(2) by simp
  then show ?case
    using run_step week_step[of tk rc e c s' s'' t] exec_refines[of tk rc e c s' s''] by blast
qed

lemma approvals_count:
  assumes "auth e g" "g \<in> set (get_guardians s)" "unwrap_or 0 (rp_withdrawal_approvals s) = k"
    "0 \<le> k" "k + int n \<le> u32_max"
  shows "\<exists>s'. play (rp_exec tk rc) (replicate n (e, Administer (ApproveAdminWithdrawal g))) s = Inr s'
     \<and> unwrap_or 0 (rp_withdrawal_approvals s') = k + int n \<and> get_guardians s' = get_guardians s
     \<and> rp_guardian_threshold s' = rp_guardian_threshold s \<and> rp_withdrawal_request s' = rp_withdrawal_request s"
  using assms
proof (induction n arbitrary: s k)
  case 0
  then show ?case by simp
next
  case (Suc n)
  let ?s = "s\<lparr>rp_withdrawal_approvals := Some (k + 1)\<rparr>"
  have "rp_exec tk rc e (Administer (ApproveAdminWithdrawal g)) s = Inr ?s"
    using Suc.prems by (simp add: rp_exec_ok approve_admin_withdrawal_def require_guardian_def
        require_auth_def u32_def)
  moreover have "get_guardians ?s = get_guardians s" by (simp add: get_guardians_def)
  ultimately show ?case
    using Suc.IH[of ?s "k + 1"] Suc.prems by (simp add: add.assoc)
qed

section \<open>Liquidation and reinsurance\<close>

text \<open>An overflow in the position's value makes its ratio 0.\<close>

lemma overflow_ratio:
  assumes "rp_positions s a = Some p" "total_shares s > 0" "lp_shares p > 0"
    "\<not> fits_i128 (lp_shares p * sat_i128 (total_deposited s - total_locked s))"
    "checked_mul_div (lp_shares p) (total_locked s) (total_shares s) = Some l" "0 < l"
  shows "\<exists>info. get_collateralization_ratio a s = Inr info \<and> ci_collateralization_bps info = 0
     \<and> ci_position_liability info = l"
proof -
  have overflow: "checked_mul_div (lp_shares p) (sat_i128 (total_deposited s - total_locked s))
      (total_shares s) = None"
    using assms(4) by (simp add: checked_mul_div_def checked_mul_def checked_i128_def)
  have ratio: "checked_mul_div 0 10000 l = Some 0"
    using assms(6) by (simp add: checked_mul_div_ok fits_i128_def i128_min_def i128_max_def)
  show ?thesis
    using assms(1-3,6) by (simp add: get_collateralization_ratio_def Let_def overflow ratio assms(5) u32_max_def)
qed

lemma overflow_liquidation:
  assumes "rp_require_protocol_caller e c s = Inr ()"
    "rp_positions s a = Some p" "total_shares s > 0" "lp_shares p > 0"
    "\<not> fits_i128 (lp_shares p * sat_i128 (total_deposited s - total_locked s))"
    "checked_mul_div (lp_shares p) (total_locked s) (total_shares s) = Some l" "0 < l"
    "fits_i128 (lp_shares p * 10000)"
  shows "\<exists>r s'. liquidate_position e c a s = Inr (r, s') \<and> lr_shares_seized r = lp_shares p
     \<and> rp_positions s' a = None"
proof -
  obtain info where info: "get_collateralization_ratio a s = Inr info"
    "ci_collateralization_bps info = 0" "ci_position_liability info = l"
    using overflow_ratio[OF assms(2-7)] by blast
  have p: "fits_i128 (lp_shares p)" using assms(4,8) by (auto simp: num_defs)
  have seized: "checked_mul_div (lp_shares p) 10000 10000 = Some (lp_shares p)"
    using assms(4,8) p by (simp add: checked_mul_div_ok sdiv_nonneg)
  have zero: "sat_i128 0 = 0" "sat_u32 10000 = 10000" by (simp_all add: num_defs)
  have "\<exists>r s'. liquidate_position e c a s = Inr (r, s') \<and> lr_shares_seized r = lp_shares p
     \<and> rp_positions s' = (rp_positions s)(a := None)"
    unfolding liquidate_position_def
    by (simp add: assms(1,2) info seized zero assms(4)[THEN not_le[THEN iffD2]] Let_def emit_def
        not_le assms(4,7))
  then show ?thesis by (auto simp del: not_None_eq)
qed

lemma collect_recovery_books:
  assumes "collect_recovery rc e i n cfg q s = Inr (m, s')" "0 < m"
  shows "rp_total_deposited s' = Some (total_deposited s + m)"
    "rp_reinsurance_recovered s' = Some (sat_i128 (unwrap_or 0 (rp_reinsurance_recovered s) + m))"
proof -
  obtain reported t r where rc: "rc (rp_tokens s) (rp_reinsurer s) (ri_reinsurer cfg) (this e) i q
      = Some (reported, t, r)"
    using assms(1) by (auto simp: collect_recovery_def result_simps)
  have m: "m = clamp 0 q reported"
    using assms(1) rc by (auto simp: collect_recovery_def Let_def result_simps split: if_splits)
  show "rp_total_deposited s' = Some (total_deposited s + m)"
    "rp_reinsurance_recovered s' = Some (sat_i128 (unwrap_or 0 (rp_reinsurance_recovered s) + m))"
    using assms rc
    by (auto simp: collect_recovery_def Let_def result_simps m[symmetric] emit_def total_deposited_def)
qed

lemma recovery_ok:
  assumes "request_reinsurance_recovery rc e c i n s = Inr (m, s')" "0 < m"
    "unwrap_or 0 (rp_reinsurance_recovered s) = k" "0 \<le> k" "k \<le> i128_max"
  obtains cfg where "rp_reinsurance s = Some cfg" "ri_active cfg" "m \<le> n - ri_attachment_point cfg"
    "m \<le> max 0 (sat_i128 (ri_coverage_limit cfg - k))"
    "total_deposited s' = total_deposited s + m" "rp_reinsurance_recovered s' = Some (sat_i128 (k + m))"
proof -
  let ?s = "s\<lparr>rp_reentrancy_guard := True\<rparr>"
  obtain req s1 where req: "recovery_request n ?s = Inr req"
    and body: "(case req of None \<Rightarrow> Inr (0, ?s)
        | Some (config, requested) \<Rightarrow> collect_recovery rc e i n config requested ?s) = Inr (m, s1)"
    and s': "s' = s1\<lparr>rp_reentrancy_guard := False\<rparr>"
    using assms(1) by (auto simp: request_reinsurance_recovery_def result_simps)
  obtain cfg q where q: "req = Some (cfg, q)" using body assms(2) by (auto split: option.splits)
  have cfg: "rp_reinsurance s = Some cfg" "ri_active cfg" "q \<le> n - ri_attachment_point cfg"
    "q \<le> max 0 (sat_i128 (ri_coverage_limit cfg - k))"
    using req assms(3) by (auto simp: q recovery_request_def Let_def result_simps split: if_splits option.splits)
  have coll: "collect_recovery rc e i n cfg q ?s = Inr (m, s1)" using body by (simp add: q)
  then obtain reported where "m = clamp 0 q reported"
    by (auto simp: collect_recovery_def Let_def result_simps split: if_splits)
  then have "m \<le> q" using assms(2) by (auto simp: clamp_def)
  moreover have "rp_total_deposited s1 = Some (total_deposited s + m)"
    "rp_reinsurance_recovered s1 = Some (sat_i128 (k + m))"
    using collect_recovery_books[OF coll assms(2)] assms(3) by (simp_all add: total_deposited_def)
  then have "total_deposited s' = total_deposited s + m"
    "rp_reinsurance_recovered s' = Some (sat_i128 (k + m))"
    by (simp_all add: s' total_deposited_def)
  ultimately show ?thesis using that cfg by force
qed

section \<open>Solvency and the share price along a run\<close>

definition is_liquidation :: "rp_call \<Rightarrow> bool" where
  "is_liquidation c = (case c of Risk d \<Rightarrow> (case d of LiquidatePosition a b \<Rightarrow> True | _ \<Rightarrow> False) | _ \<Rightarrow> False)"

definition is_drain :: "rp_call \<Rightarrow> bool" where
  "is_drain c = (case c of Administer d \<Rightarrow> (case d of ExecuteAdminWithdrawal a \<Rightarrow> True | _ \<Rightarrow> False) | _ \<Rightarrow> False)"

lemma moves_kinds:
  "\<not> is_liquidation c \<Longrightarrow> m \<in> moves c \<Longrightarrow> m \<noteq> Seize"
  "\<not> is_drain c \<Longrightarrow> m \<in> moves c \<Longrightarrow> m \<noteq> Drain"
proof -
  have lm: "liquidity_moves d \<subseteq> {Burn, Mint, Move}" for d by (cases d) auto
  have rm: "\<not> is_liquidation (Risk d) \<Longrightarrow> risk_moves d \<subseteq> {Lock, Unlock, Recover}"
    "risk_moves d \<subseteq> {Lock, Unlock, Recover, Seize}" for d
    by (cases d; auto simp: is_liquidation_def)+
  have am: "\<not> is_drain (Administer d) \<Longrightarrow> admin_moves d = {}" "admin_moves d \<subseteq> {Drain}" for d
    by (cases d; auto simp: is_drain_def admin_moves_def)+
  show "\<not> is_liquidation c \<Longrightarrow> m \<in> moves c \<Longrightarrow> m \<noteq> Seize"
    using lm rm(1) am(2) by (cases c) fastforce+
  show "\<not> is_drain c \<Longrightarrow> m \<in> moves c \<Longrightarrow> m \<noteq> Drain"
    using lm rm(2) am(1) by (cases c) fastforce+
qed

definition solvent :: "('t, 'r) rp_state \<Rightarrow> bool" where
  "solvent s \<longleftrightarrow> total_locked s \<le> total_deposited s"

lemma solvent_call:
  assumes "except is_liquidation (rp_exec tk rc) e c s = Inr s'" "ledger_inv s" "solvent s"
  shows "solvent s'"
proof -
  have c: "\<not> is_liquidation c" "rp_exec tk rc e c s = Inr s'"
    using assms(1) by (auto simp: except_def split: if_splits)
  have "pool_steps (\<lambda>m. m \<in> moves c) (pool_of s) (pool_of s')"
    using exec_refines[OF c(2) assms(2)] by blast
  then show ?thesis
    using solvent_steps[of "\<lambda>m. m \<in> moves c" "pool_of s" "pool_of s'"] moves_kinds(1)[OF c(1)] assms(2,3)
    by (auto simp: solvent_def ledger_inv_def)
qed

interpretation rp_solvent: invariant_system "except is_liquidation (rp_exec tk rc)" "rp_fresh t0 r0"
    "\<lambda>_ s. ledger_inv s \<and> solvent s"
  for tk :: "'t token_ops" and rc :: "('t, 'r) reinsurer" and t0 :: 't and r0 :: 'r
proof unfold_locales
  show "ledger_inv (rp_fresh t0 r0) \<and> solvent (rp_fresh t0 r0)"
    by (rule conjI[OF ledger_start]) (simp add: solvent_def rp_fresh_def total_locked_def total_deposited_def)
next
  fix s e c s'
  assume *: "ledger_inv s \<and> solvent s" "except is_liquidation (rp_exec tk rc) e c s = Inr s'"
  then have "rp_exec tk rc e c s = Inr s'" by (auto simp: except_def split: if_splits)
  then show "ledger_inv s' \<and> solvent s'" using * exec_refines solvent_call by blast
qed

lemma price_call:
  assumes "rp_exec tk rc e c s = Inr s'" "\<not> is_drain c" "ledger_inv s" "0 < total_shares s"
  shows "price_le (pool_of s) (pool_of s')"
  using exec_refines[OF assms(1,3)] price_steps[of "\<lambda>m. m \<in> moves c" "pool_of s" "pool_of s'"]
    moves_kinds(2)[OF assms(2)] assms(3,4) by (auto simp: ledger_inv_def)

lemma price_run:
  "run (except is_drain (rp_exec tk rc)) t s t' s' \<Longrightarrow> ledger_inv s \<Longrightarrow> 0 < total_shares s \<Longrightarrow>
   price_le (pool_of s) (pool_of s') \<and> ledger_inv s'"
proof (induction rule: run.induct)
  case (run_refl t s)
  then show ?case by (simp add: price_refl)
next
  case (run_step t s t' s' e c s'')
  have c: "\<not> is_drain c" "rp_exec tk rc e c s' = Inr s''"
    using run_step.hyps(4) by (auto simp: except_def split: if_splits)
  have IH: "price_le (pool_of s) (pool_of s')" "ledger_inv s'" using run_step by auto
  then have "price_le (pool_of s') (pool_of s'')"
    using c by (intro price_call) (auto simp: price_le_def)
  then have "price_le (pool_of s) (pool_of s'')"
    using price_trans[OF IH(1)] run_step.prems pool_inv_bounds(1)[of s] by (simp add: ledger_inv_def)
  then show ?case using exec_refines[OF c(2) IH(2)] by blast
qed

end
