(* ===== verification/RP_Sample.thy ===== *)
theory RP_Sample
  imports RP_Accounts
begin

text \<open>A small history of the risk pool on which its properties are evaluated.\<close>

definition the_pool :: address where "the_pool = ''pool''"
definition treasury :: address where "treasury = addr CHR ''C'' CHR ''T''"
definition backstop :: address where "backstop = ''backstop''"
definition carol :: address where "carol = addr CHR ''G'' CHR ''E''"

definition pool_at :: "int \<Rightarrow> env" where
  "pool_at t = \<lparr>timestamp = t, auth = (\<lambda>_. True), this = the_pool\<rparr>"

definition pool_funds :: "ledger" where
  "pool_funds = (\<lambda>(c, a). if a = bob \<or> a = carol \<or> a = alice then 1000000000000000 else 0)"

text \<open>A reinsurer that reports the whole request as paid.\<close>

definition paying :: "(ledger, unit) reinsurer" where
  "paying = (\<lambda>t r c a i n. Some (n, t, r))"

definition open_pool :: "(env \<times> rp_call) list" where
  "open_pool = [(pool_at 1000, Risk (PoolInitialize boss usdc treasury backstop ''crop'' engine claims)),
     (pool_at 2000, Liquidity (Deposit bob 500000000000000 0 False))]"

definition locked_pool :: "(env \<times> rp_call) list" where
  "locked_pool = open_pool @ [(pool_at 3000, Risk (LockForPolicy engine 1 100000000000000))]"

abbreviation pool_exec ::
  "env \<Rightarrow> rp_call \<Rightarrow> (ledger, unit) rp_state \<Rightarrow> (rp_error, (ledger, unit) rp_state) result" where
  "pool_exec \<equiv> rp_exec ledger_ops paying"

abbreviation pool_start :: "(ledger, unit) rp_state" where
  "pool_start \<equiv> rp_fresh pool_funds ()"

lemma open_pool_time: "timely 0 open_pool" "ends 0 open_pool = 2000"
  by code_simp+

lemma locked_pool_time: "timely 0 locked_pool" "ends 0 locked_pool = 3000"
  by code_simp+

lemma pool_opened:
  obtains s where "play pool_exec open_pool pool_start = Inr s" "reach pool_exec pool_start 2000 s"
    "total_deposited s = 500000000000000" "total_locked s = 0" 
    "total_shares s = 500000000000000000000000"
    "shares_of s bob = 499999999999999999999000" "rp_admin s = Some boss"
    "rp_withdrawal_request s = None" "rp_version s = None"
proof -
  have "outcome (\<lambda>s. total_deposited s = 500000000000000 \<and> total_locked s = 0
       \<and> total_shares s = 500000000000000000000000
       \<and> shares_of s bob = 499999999999999999999000 \<and> rp_admin s = Some boss
       \<and> rp_withdrawal_request s = None \<and> rp_version s = None)
     (play pool_exec open_pool pool_start)"
    by code_simp
  moreover have "timely 0 open_pool" "ends 0 open_pool = 2000" by code_simp+
  ultimately show ?thesis using that by (auto elim!: history_reach)
qed

lemma pool_locked:
  obtains s where "play pool_exec locked_pool pool_start = Inr s" "reach pool_exec pool_start 3000 s"
    "total_deposited s = 500000000000000" "total_locked s = 100000000000000"
    "total_shares s = 500000000000000000000000" "lock_amount s 1 = 100000000000000"
    "is_at (rp_positions s bob) (\<lambda>p. lp_shares p = 499999999999999999999000)"
    "rp_admin s = Some boss" "rp_policy_engine s = Some engine" "rp_claims_processor s = Some claims"
    "1 \<in> open_locks s"
proof -
  have "outcome (\<lambda>s. total_deposited s = 500000000000000 \<and> total_locked s = 100000000000000
       \<and> total_shares s = 500000000000000000000000 \<and> lock_amount s 1 = 100000000000000
       \<and> is_at (rp_positions s bob) (\<lambda>p. lp_shares p = 499999999999999999999000)
       \<and> rp_admin s = Some boss \<and> rp_policy_engine s = Some engine
       \<and> rp_claims_processor s = Some claims \<and> is_at (rp_locks s 1) (\<lambda>l. \<not> lk_released l))
     (play pool_exec locked_pool pool_start)"
    by code_simp
  moreover have "timely 0 locked_pool" "ends 0 locked_pool = 3000" by code_simp+
  ultimately obtain s where s: "play pool_exec locked_pool pool_start = Inr s"
    "reach pool_exec pool_start 3000 s" "total_deposited s = 500000000000000"
    "total_locked s = 100000000000000" "total_shares s = 500000000000000000000000"
    "lock_amount s 1 = 100000000000000"
    "is_at (rp_positions s bob) (\<lambda>p. lp_shares p = 499999999999999999999000)"
    "rp_admin s = Some boss" "rp_policy_engine s = Some engine" "rp_claims_processor s = Some claims"
    "is_at (rp_locks s 1) (\<lambda>l. \<not> lk_released l)"
    by (auto elim!: history_reach)
  have "1 \<in> open_locks s" using is_atD[OF s(11)] by (auto simp: open_locks_def)
  then show ?thesis using that s by blast
qed

end
