(* ===== verification/RP_Properties.thy ===== *)
theory RP_Properties
  imports RP_Sample
begin

text \<open>
  The properties of the risk pool, each with an evaluation on a concrete history. \<open>tk\<close> is
  any token implementation and \<open>rc\<close> any reinsurer; the state is any that calls by anybody
  can reach from the empty storage.
\<close>

section \<open>The books\<close>

text \<open>
  C11. The risk pool implements the abstract book of deposits, shares and locks: the empty
  storage is the empty book, and every successful call in a reachable state takes the book
  through the steps of the abstract pool that the call allows (a deposit may settle queued
  exits and then mints, a liquidation only seizes, the admin's withdrawal only drains, and
  so on), or leaves it alone.
\<close>

theorem pool_refines_book:
  assumes "reach (rp_exec tk rc) (rp_fresh t0 r0) now s" and "rp_exec tk rc e c s = Inr s'"
  shows "pool_of (rp_fresh t0 r0) = empty_pool
     \<and> pool_steps (\<lambda>m. m \<in> moves c) (pool_of s) (pool_of s')"
proof -
  have "pool_of (rp_fresh t0 r0) = empty_pool"
    by (simp add: rp_fresh_def book_defs empty_pool_def)
  then show ?thesis using exec_refines[OF assms(2) rp.inv_reach[OF assms(1)]] by blast
qed

theorem pool_refines_book_witness:
  "\<exists>s s'. reach pool_exec pool_start 2000 s
     \<and> pool_exec (pool_at 3000) (Risk (LockForPolicy engine 1 100000000000000)) s = Inr s'
     \<and> p_locked (pool_of s) = 0 \<and> p_locked (pool_of s') = 100000000000000
     \<and> pool_steps (\<lambda>m. m = Lock) (pool_of s) (pool_of s')"
proof -
  have out: "outcome (\<lambda>s. outcome (\<lambda>s'. p_locked (pool_of s) = 0 \<and> p_locked (pool_of s') = 100000000000000)
      (pool_exec (pool_at 3000) (Risk (LockForPolicy engine 1 100000000000000)) s))
     (play pool_exec open_pool pool_start)"
    by code_simp
  obtain s s' where s: "reach pool_exec pool_start 2000 s"
    "pool_exec (pool_at 3000) (Risk (LockForPolicy engine 1 100000000000000)) s = Inr s'"
    "p_locked (pool_of s) = 0 \<and> p_locked (pool_of s') = 100000000000000"
    by (rule history_then[OF out open_pool_time(1), unfolded open_pool_time(2)])
  then show ?thesis using pool_refines_book[OF s(1,2)] by auto
qed

text \<open>
  C12. The totals are exactly what the storage holds: in a reachable state only finitely
  many providers hold shares and none holds a negative number of them; the share supply is
  the sum of the holdings plus the 1000 shares burnt by the first deposit, or zero when
  there has been no deposit; and the locked capital is the sum of the amounts, all
  positive, of the locks not yet released.
\<close>

theorem totals_exact:
  assumes "reach (rp_exec tk rc) (rp_fresh t0 r0) now s"
  shows "finite (holders s) \<and> (\<forall>a. 0 \<le> shares_of s a)
     \<and> total_shares s = (if total_shares s = 0 then 0 else 1000) + (\<Sum>a \<in> holders s. shares_of s a)
     \<and> finite (open_locks s) \<and> (\<forall>i. lock_amount s i \<le> 0 \<longrightarrow> i \<notin> open_locks s)
     \<and> total_locked s = (\<Sum>i \<in> open_locks s. lock_amount s i)"
proof -
  have inv: "pool_inv (pool_of s)" using rp.inv_reach[OF assms] by (simp add: ledger_inv_def)
  then have "0 \<le> (\<Sum>a \<in> holders s. shares_of s a)" using shares_books(2) by (intro sum_nonneg) auto
  then show ?thesis using shares_books[OF inv] locks_books[OF inv] by force
qed

theorem totals_exact_witness:
  "\<exists>s. reach pool_exec pool_start 3000 s \<and> 1 \<in> open_locks s
     \<and> total_locked s = (\<Sum>i \<in> open_locks s. lock_amount s i)
     \<and> total_shares s = 1000 + (\<Sum>a \<in> holders s. shares_of s a)"
proof -
  obtain s where s: "reach pool_exec pool_start 3000 s" "total_shares s = 500000000000000000000000"
    "1 \<in> open_locks s" by (rule pool_locked)
  then show ?thesis using totals_exact[OF s(1)] by auto
qed

text \<open>
  C13. Locked capital is covered by deposits as long as no position is liquidated: in every
  state reached without a successful \<^verbatim>\<open>liquidate_position\<close>, the locked capital is
  between zero and the deposits, whatever deposits, redemptions, queued exits, locks,
  recoveries and admin withdrawals have happened.
\<close>

theorem solvent_without_liquidation:
  assumes "reach (except is_liquidation (rp_exec tk rc)) (rp_fresh t0 r0) now s"
  shows "0 \<le> total_locked s \<and> total_locked s \<le> total_deposited s"
  using rp_solvent.inv_reach[OF assms] pool_inv_bounds(2)[of s]
  by (simp add: ledger_inv_def solvent_def)

theorem solvent_without_liquidation_witness:
  "\<exists>s. reach (except is_liquidation pool_exec) pool_start 3000 s
     \<and> 0 < total_locked s \<and> total_locked s \<le> total_deposited s"
proof -
  have "outcome (\<lambda>s. 0 < total_locked s) (play (except is_liquidation pool_exec) locked_pool pool_start)"
    by code_simp
  then obtain s where s: "reach (except is_liquidation pool_exec) pool_start 3000 s" "0 < total_locked s"
    by (rule history_reach[OF _ locked_pool_time(1), unfolded locked_pool_time(2)])
  then show ?thesis using solvent_without_liquidation[OF s(1)] by blast
qed

text \<open>
  C14. The price of a share never falls, whatever anybody does, except by the admin's
  withdrawal: between two states of a run without \<^verbatim>\<open>execute_admin_withdrawal\<close>, deposits
  per share do not decrease. In particular a claim paid out of the pool's capital
  (\<^verbatim>\<open>release_for_claim\<close>) takes nothing from the providers: the deposits stay as they were.
\<close>

theorem share_price_never_falls:
  assumes "reach (rp_exec tk rc) (rp_fresh t0 r0) t s" "0 < total_shares s"
    and "run (except is_drain (rp_exec tk rc)) t s t' s'"
  shows "0 < total_shares s'
     \<and> total_deposited s * total_shares s' \<le> total_deposited s' * total_shares s"
  using price_run[OF assms(3) rp.inv_reach[OF assms(1)] assms(2)] by (simp add: price_le_def)

theorem share_price_never_falls_witness:
  "\<exists>s s'. run (except is_drain pool_exec) 3000 s 4000 s' \<and> total_locked s = 100000000000000
     \<and> total_locked s' = 0 \<and> total_deposited s' = total_deposited s
     \<and> total_deposited s * total_shares s' \<le> total_deposited s' * total_shares s"
proof -
  have out: "outcome (\<lambda>s. outcome (\<lambda>s'. total_locked s = 100000000000000 \<and> 0 < total_shares s
        \<and> total_locked s' = 0 \<and> total_deposited s' = total_deposited s)
      (except is_drain pool_exec (pool_at 4000) (Risk (ReleaseForClaim claims 1)) s))
     (play pool_exec locked_pool pool_start)"
    by code_simp
  obtain s s' where s: "reach pool_exec pool_start 3000 s"
    "except is_drain pool_exec (pool_at 4000) (Risk (ReleaseForClaim claims 1)) s = Inr s'"
    "total_locked s = 100000000000000 \<and> 0 < total_shares s
        \<and> total_locked s' = 0 \<and> total_deposited s' = total_deposited s"
    by (rule history_then[OF out locked_pool_time(1), unfolded locked_pool_time(2)])
  have "run (except is_drain pool_exec) 3000 s 4000 s'"
    using run_step[OF run_refl, of 3000 "pool_at 4000" "except is_drain pool_exec"] s(2)
    by (simp add: pool_at_def u64_max_def)
  then show ?thesis using share_price_never_falls[OF s(1)] s(3) by blast
qed

text \<open>
  C15. A deposit cannot be redeemed at a profit: when shares are outstanding, whoever
  deposits and is minted shares, and then redeems exactly those shares before anything else
  happens, is paid at most what was deposited. Both roundings favour the pool.
\<close>

theorem deposit_redeem_no_profit:
  assumes "reach (rp_exec tk rc) (rp_fresh t0 r0) now s" "0 < total_shares s"
    and "deposit tk e a n min_shares c s = Inr (m, s')"
    and "withdraw_inner tk e' a m s' = Inr (k, s'')"
  shows "0 < k \<and> k \<le> n"
proof -
  have led: "ledger_inv s" by (rule rp.inv_reach[OF assms(1)])
  then have inv: "pool_inv (pool_of s)" by (simp add: ledger_inv_def)
  have inv': "pool_inv (pool_of s')" by (rule advances_pool_inv[OF deposit_advances[OF assms(3) inv] inv])
  obtain s0 where s0: "advances {Burn} s s0" "0 < total_shares s0" "0 < total_deposited s0" "0 < n" "1 \<le> m"
    "m = n * total_shares s0 div total_deposited s0"
    "total_deposited s' = total_deposited s0 + n" "total_shares s' = total_shares s0 + m"
    using deposit_ok[OF assms(3) inv assms(2)] by metis
  have "k = m * total_deposited s' div total_shares s'" "0 < k"
    using withdraw_inner_ok[OF assms(4) inv'] by simp_all
  then show ?thesis
    using redeem_at_most_paid[of "total_shares s0" "total_deposited s0" n m] s0 by simp
qed

theorem deposit_redeem_no_profit_witness:
  "\<exists>s m s' k s''. reach pool_exec pool_start 2000 s
     \<and> deposit ledger_ops (pool_at 3000) carol 3000000 0 False s = Inr (m, s')
     \<and> withdraw_inner ledger_ops (pool_at 3001) carol m s' = Inr (k, s'') \<and> 0 < k \<and> k \<le> 3000000"
proof -
  have out: "outcome (\<lambda>s. outcome (\<lambda>(m, s'). 0 < total_shares s \<and> outcome (\<lambda>x. True)
        (withdraw_inner ledger_ops (pool_at 3001) carol m s'))
      (deposit ledger_ops (pool_at 3000) carol 3000000 0 False s)) (play pool_exec open_pool pool_start)"
    by code_simp
  obtain s x where s: "reach pool_exec pool_start 2000 s"
    "deposit ledger_ops (pool_at 3000) carol 3000000 0 False s = Inr x"
    "(case x of (m, s') \<Rightarrow> 0 < total_shares s \<and> outcome (\<lambda>x. True) (withdraw_inner ledger_ops (pool_at 3001) carol m s'))"
    by (rule history_then[OF out open_pool_time(1), unfolded open_pool_time(2)])
  obtain m s' where x: "x = (m, s')" by (cases x)
  obtain k s'' where w: "withdraw_inner ledger_ops (pool_at 3001) carol m s' = Inr (k, s'')"
    using s(3) x by (auto dest!: outcome_obtain)
  have "0 < total_shares s" using s(3) x by simp
  then show ?thesis using deposit_redeem_no_profit[OF s(1) _ s(2)[unfolded x] w] s(1,2) x w by blast
qed

section \<open>Cover, premium and reinsurance\<close>

text \<open>
  C16. Capital is locked for a policy exactly when it may be: in a reachable state
  \<^verbatim>\<open>lock_for_policy\<close> succeeds if and only if the caller is the admin, the policy engine or
  the claims processor and has authorised the call, the pool is active, the amount is
  positive, the deposits cover it on top of what is locked, the policy never had a lock, and
  a utilization ceiling below 100% is respected. It then adds exactly the amount to the
  locked capital, which stays within the ceiling.
\<close>

theorem lock_exactly_within_capacity:
  assumes "reach (rp_exec tk rc) (rp_fresh t0 r0) now s"
  shows "((\<exists>s'. lock_for_policy e c i n s = Inr s') \<longleftrightarrow>
       rp_require_protocol_caller e c s = Inr () \<and> pool_state s = PoolActive \<and> 0 < n
       \<and> total_locked s + n \<le> total_deposited s \<and> rp_locks s i = None
       \<and> (pc_max_utilization_bps (capacity s) < 10000 \<longrightarrow> total_locked s + n \<le> max_lockable s))
     \<and> (\<forall>s'. lock_for_policy e c i n s = Inr s' \<longrightarrow>
          total_locked s' = total_locked s + n \<and> total_deposited s' = total_deposited s
          \<and> i \<in> open_locks s' \<and> lock_amount s' i = n
          \<and> (0 \<le> pc_max_utilization_bps (capacity s) \<and> pc_max_utilization_bps (capacity s) < 10000 \<longrightarrow>
               total_locked s' * 10000 \<le> total_deposited s' * pc_max_utilization_bps (capacity s)))"
proof -
  have inv: "pool_inv (pool_of s)" using rp.inv_reach[OF assms] by (simp add: ledger_inv_def)
  show ?thesis
    using lock_possible[OF inv, of e c i n] lock_effect[OF _ inv, of e c i n]
      within_utilization[OF inv, of "total_locked s + n"] by auto
qed

theorem lock_exactly_within_capacity_witness:
  "\<exists>s s'. reach pool_exec pool_start 2000 s
     \<and> lock_for_policy (pool_at 3000) engine 1 100000000000000 s = Inr s'
     \<and> total_locked s' = total_locked s + 100000000000000 \<and> 1 \<in> open_locks s'
     \<and> (\<nexists>s'. lock_for_policy (pool_at 3000) engine 1 500000000000001 s = Inr s')"
proof -
  have out: "outcome (\<lambda>s. outcome (\<lambda>s'. total_deposited s = 500000000000000 \<and> total_locked s = 0)
      (lock_for_policy (pool_at 3000) engine 1 100000000000000 s)) (play pool_exec open_pool pool_start)"
    by code_simp
  obtain s s' where s: "reach pool_exec pool_start 2000 s"
    "lock_for_policy (pool_at 3000) engine 1 100000000000000 s = Inr s'"
    "total_deposited s = 500000000000000 \<and> total_locked s = 0"
    by (rule history_then[OF out open_pool_time(1), unfolded open_pool_time(2)])
  show ?thesis
    using lock_exactly_within_capacity[OF s(1), of "pool_at 3000" engine 1 100000000000000]
      lock_exactly_within_capacity[OF s(1), of "pool_at 3000" engine 1 500000000000001] s by auto
qed

text \<open>
  C17. A premium is passed on to the last unit it owes: in a reachable state, the three
  shares in force add up to 100%, and a premium of \<open>n > 0\<close> moves \<open>n\<close> tokens from the caller
  to the pool, the treasury's and the backstop's rounded shares from the pool to them, and
  nothing else; the three rounded shares never exceed the premium; and the yield per share
  grows by the providers' share, rounded down.
\<close>

theorem premium_passed_on:
  assumes "reach (rp_exec tk rc) (rp_fresh t0 r0) now s" "sep41 tk" "0 < n"
    and "receive_premium tk e c n s = Inr (u, s')"
  shows "\<exists>l g b usdc treasury backstop t1 t2.
     get_premium_split_bps s = (l, g, b) \<and> l + g + b = 10000
     \<and> n * l div 10000 + n * g div 10000 + n * b div 10000 \<le> n
     \<and> rp_usdc_token s = Some usdc \<and> rp_treasury s = Some treasury \<and> rp_backstop s = Some backstop
     \<and> moved tk (rp_tokens s) t1 usdc c (this e) n
     \<and> moved tk t1 t2 usdc (this e) treasury (n * g div 10000)
     \<and> moved tk t2 (rp_tokens s') usdc (this e) backstop (n * b div 10000)
     \<and> acc_per_share s' = acc_per_share s + (if total_shares s > 0
          then n * l div 10000 * 1000000000000 div total_shares s else 0)"
  by (rule receive_premium_ok[OF assms(4) rp.inv_reach[OF assms(1)] assms(3)])
     (use sep41_moved[OF assms(2)] in blast)

theorem premium_passed_on_witness:
  "\<exists>s s'. reach pool_exec pool_start 2000 s
     \<and> receive_premium ledger_ops (pool_at 3000) alice 1005 s = Inr ((), s')
     \<and> (\<exists>t1 t2. moved ledger_ops (rp_tokens s) t1 usdc alice the_pool 1005
          \<and> moved ledger_ops t1 t2 usdc the_pool treasury 100
          \<and> moved ledger_ops t2 (rp_tokens s') usdc the_pool backstop 100)"
proof -
  have out: "outcome (\<lambda>s. outcome (\<lambda>x. get_premium_split_bps s = (8000, 1000, 1000)
        \<and> rp_usdc_token s = Some usdc \<and> rp_treasury s = Some treasury \<and> rp_backstop s = Some backstop)
      (receive_premium ledger_ops (pool_at 3000) alice 1005 s)) (play pool_exec open_pool pool_start)"
    by code_simp
  obtain s x where s: "reach pool_exec pool_start 2000 s"
    "receive_premium ledger_ops (pool_at 3000) alice 1005 s = Inr x"
    "get_premium_split_bps s = (8000, 1000, 1000)
        \<and> rp_usdc_token s = Some usdc \<and> rp_treasury s = Some treasury \<and> rp_backstop s = Some backstop"
    by (rule history_then[OF out open_pool_time(1), unfolded open_pool_time(2)])
  obtain s' where x: "x = ((), s')" by (cases x) auto
  show ?thesis
    using premium_passed_on[OF s(1) ledger_sep41 _ s(2)[unfolded x]] s x by (auto simp: pool_at_def)
qed

text \<open>
  A recovery from the reinsurer is bounded by the treaty: whatever the reinsurer
  reports, a positive recovery needs an active treaty, is at most the loss beyond the
  attachment point and at most what is left of the coverage limit, and is added exactly to
  the deposits. (It is the reported amount: the pool does not look at its token balance.)
\<close>

theorem recovery_bounded:
  assumes "request_reinsurance_recovery rc e c i loss s = Inr (m, s')" "0 < m"
    and "rp_reinsurance_recovered s = Some k" "0 \<le> k" "k \<le> i128_max"
  shows "\<exists>cfg. rp_reinsurance s = Some cfg \<and> ri_active cfg \<and> m \<le> loss - ri_attachment_point cfg
     \<and> (fits_i128 (ri_coverage_limit cfg - k) \<longrightarrow> m \<le> ri_coverage_limit cfg - k)
     \<and> total_deposited s' = total_deposited s + m"
proof -
  have k: "unwrap_or 0 (rp_reinsurance_recovered s) = k" using assms(3) by simp
  show ?thesis
    by (rule recovery_ok[OF assms(1,2) k assms(4,5)]) (use assms(2) in auto)
qed

definition reinsured_pool :: "(env \<times> rp_call) list" where
  "reinsured_pool = open_pool @ [(pool_at 3000, Risk (SetReinsurance boss ''re'' 100 1000)),
     (pool_at 3001, Risk (RequestReinsuranceRecovery claims 1 500))]"

theorem recovery_bounded_witness:
  "\<exists>(s :: (ledger, unit) rp_state) m s' cfg.
     request_reinsurance_recovery paying (pool_at 4000) claims 2 5000 s = Inr (m, s')
     \<and> rp_reinsurance s = Some cfg \<and> m = 600 \<and> m \<le> ri_coverage_limit cfg - 400
     \<and> total_deposited s' = total_deposited s + m"
proof -
  have out: "outcome (\<lambda>s. outcome (\<lambda>(m, s'). m = 600 \<and> rp_reinsurance_recovered s = Some 400
        \<and> is_at (rp_reinsurance s) (\<lambda>cfg. ri_coverage_limit cfg = 1000))
      (request_reinsurance_recovery paying (pool_at 4000) claims 2 5000 s))
     (play pool_exec reinsured_pool pool_start)"
    by code_simp
  have "timely 0 reinsured_pool" by code_simp
  then obtain s x where s: "request_reinsurance_recovery paying (pool_at 4000) claims 2 5000 s = Inr x"
    "case x of (m, s') \<Rightarrow> m = 600 \<and> rp_reinsurance_recovered s = Some 400
        \<and> is_at (rp_reinsurance s) (\<lambda>cfg. ri_coverage_limit cfg = 1000)"
    by (rule history_then[OF out])
  obtain m s' where x: "x = (m, s')" by (cases x)
  obtain cfg where cfg: "rp_reinsurance s = Some cfg" "ri_coverage_limit cfg = 1000" "m = 600"
    using s(2) x by (auto dest!: is_atD)
  have "total_deposited s' = total_deposited s + m"
    using recovery_bounded[OF s(1)[unfolded x], of 400] s(2) x cfg by (simp add: i128_max_def)
  then show ?thesis
    using s(1) x cfg by (intro exI[of _ s] exI[of _ m] exI[of _ s'] exI[of _ cfg]) simp
qed

section \<open>The admin and the guardians\<close>

text \<open>
  C18. The admin's withdrawal is announced a week ahead: if no unexecuted request exists in
  a reachable state at time \<open>t\<close>, then a withdrawal executed in any later state of any run
  happens at \<open>t\<close> plus seven days or later, pays a positive amount of the pool's token to the
  treasury and to nobody else, and takes only capital that is not locked.
\<close>

theorem withdrawal_needs_week:
  assumes "reach (rp_exec tk rc) (rp_fresh t0 r0) t s" "no_request s"
    and "run (rp_exec tk rc) t s t' s'" "execute_admin_withdrawal tk e a s' = Inr (u, s'')"
  shows "t + 7 * 24 * 60 * 60 \<le> timestamp e
     \<and> (\<exists>n usdc treasury. 0 < n \<and> n \<le> total_deposited s' - total_locked s'
          \<and> rp_usdc_token s' = Some usdc \<and> rp_treasury s' = Some treasury
          \<and> transfer_of tk (rp_tokens s') usdc (this e) treasury n = Some (rp_tokens s'')
          \<and> total_deposited s'' = total_deposited s' - n)"
proof -
  have inv: "week_away t s'" "ledger_inv s'"
    using week_run[OF assms(3) rp.inv_reach[OF assms(1)] reach_time[OF assms(1)] assms(2)] by auto
  show ?thesis
  proof (rule execute_withdrawal_ok[OF assms(4)], goal_cases)
    case (3 r usdc treasury t2)
    have "total_deposited s'' = total_deposited s' - aw_amount r"
      using arg_cong[OF 3(9), of p_deposited] by simp
    moreover have "t + 7 * 24 * 60 * 60 \<le> timestamp e"
      using inv(1) 3 by (auto simp: week_away_def TIMELOCK_SECONDS_def)
    ultimately show ?case using 3 by blast
  qed (use inv in \<open>auto simp: ledger_inv_def\<close>)
qed

theorem withdrawal_needs_week_witness:
  "\<exists>s s' s''. run pool_exec 2000 s 3000 s' \<and> no_request s
     \<and> execute_admin_withdrawal ledger_ops (pool_at 700000) boss s' = Inr ((), s'')
     \<and> 2000 + 7 * 24 * 60 * 60 \<le> (700000 :: int)
     \<and> (\<exists>n. 0 < n \<and> total_deposited s'' = total_deposited s' - n)"
proof -
  have out: "outcome (\<lambda>s. outcome (\<lambda>s'. rp_withdrawal_request s = None
        \<and> outcome (\<lambda>x. True) (execute_admin_withdrawal ledger_ops (pool_at 700000) boss s'))
      (pool_exec (pool_at 3000) (Administer (RequestAdminWithdrawal boss 7)) s))
     (play pool_exec open_pool pool_start)"
    by code_simp
  obtain s s' where s: "reach pool_exec pool_start 2000 s"
    "pool_exec (pool_at 3000) (Administer (RequestAdminWithdrawal boss 7)) s = Inr s'"
    "rp_withdrawal_request s = None
     \<and> outcome (\<lambda>x. True) (execute_admin_withdrawal ledger_ops (pool_at 700000) boss s')"
    by (rule history_then[OF out open_pool_time(1), unfolded open_pool_time(2)])
  obtain x where x: "execute_admin_withdrawal ledger_ops (pool_at 700000) boss s' = Inr x"
    using s(3) by (auto dest!: outcome_obtain)
  obtain s'' where x': "x = ((), s'')" by (cases x) auto
  have "run pool_exec 2000 s 3000 s'"
    using run_step[OF run_refl, of 2000 "pool_at 3000" pool_exec] s(2)
    by (simp add: pool_at_def u64_max_def)
  moreover have "no_request s" using s(3) by (simp add: no_request_def)
  moreover have "timestamp (pool_at 700000) = 700000" by (simp add: pool_at_def)
  ultimately show ?thesis
    using withdrawal_needs_week[OF s(1) _ _ x[unfolded x']] x[unfolded x'] by metis
qed

text \<open>
  One guardian is a whole committee: \<^verbatim>\<open>approve_admin_withdrawal\<close> does not remember who
  approved, so a single member of the guardian list, by calling it as often as the threshold
  demands, brings the approvals of the pending withdrawal to the threshold.
\<close>

theorem one_guardian_suffices:
  assumes "auth e g" "g \<in> set (get_guardians s)" "unwrap_or 0 (rp_withdrawal_approvals s) = 0"
    and "rp_guardian_threshold s = Some (int n)" "int n \<le> u32_max"
  shows "\<exists>s'. play (rp_exec tk rc) (replicate n (e, Administer (ApproveAdminWithdrawal g))) s = Inr s'
     \<and> rp_guardian_threshold s' = Some (int n)
     \<and> unwrap_or 0 (rp_withdrawal_approvals s') = int n
     \<and> rp_withdrawal_request s' = rp_withdrawal_request s"
  using approvals_count[OF assms(1-3), of n tk rc] assms(4,5) by auto

definition guarded_pool :: "(env \<times> rp_call) list" where
  "guarded_pool = open_pool @
     [(pool_at 2500, Administer (SetGuardians boss [alice, bob, carol] 3)),
      (pool_at 3000, Administer (RequestAdminWithdrawal boss 7))]"

theorem one_guardian_suffices_witness:
  "\<exists>s s'. reach pool_exec pool_start 3000 s \<and> get_guardian_threshold s = 3
     \<and> play pool_exec (replicate 3 (pool_at 4000, Administer (ApproveAdminWithdrawal alice))) s = Inr s'
     \<and> unwrap_or 0 (rp_withdrawal_approvals s') = 3"
proof -
  have "outcome (\<lambda>s. get_guardians s = [alice, bob, carol] \<and> rp_guardian_threshold s = Some 3
      \<and> rp_withdrawal_approvals s = Some 0) (play pool_exec guarded_pool pool_start)"
    by code_simp
  moreover have "timely 0 guarded_pool" "ends 0 guarded_pool = 3000" by code_simp+
  ultimately obtain s where s: "reach pool_exec pool_start 3000 s"
    "get_guardians s = [alice, bob, carol]" "rp_guardian_threshold s = Some 3"
    "rp_withdrawal_approvals s = Some 0"
    by (auto elim!: history_reach)
  then show ?thesis
    using one_guardian_suffices[of "pool_at 4000" alice s 3 ledger_ops paying]
    by (auto simp: pool_at_def u32_max_def get_guardian_threshold_def)
qed

text \<open>
  The admin alone can disarm the committee and upgrade the contract: whatever guardians
  and threshold are configured, \<^verbatim>\<open>set_guardians\<close> with the same guardians and threshold 0
  succeeds, and the \<^verbatim>\<open>upgrade\<close> that follows installs the new code at once, without any
  approval.
\<close>

theorem admin_disarms_guardians:
  assumes "rp_admin s = Some a" "auth e a" "rp_get_version s < v" "v \<le> u32_max" "0 \<le> v"
  shows "\<exists>s'. play (rp_exec tk rc) [(e, Administer (SetGuardians a (get_guardians s) 0)),
           (e, Administer (PoolUpgrade a h v))] s = Inr s'
     \<and> rp_wasm s' = Some h \<and> rp_version s' = Some v \<and> get_guardians s' = get_guardians s"
  using assms
  by (simp add: rp_exec_def within_def u32_max_def set_guardians_def rp_require_admin_def require_auth_def
      rp_upgrade_def rp_get_version_def get_guardian_threshold_def install_upgrade_def emit_def
      get_guardians_def list_all_iff)

theorem admin_disarms_guardians_witness:
  "\<exists>s s'. reach pool_exec pool_start 3000 s \<and> get_guardian_threshold s = 3
     \<and> play pool_exec [(pool_at 4000, Administer (SetGuardians boss [alice, bob, carol] 0)),
           (pool_at 4000, Administer (PoolUpgrade boss ''new'' 2))] s = Inr s'
     \<and> rp_wasm s' = Some ''new''"
proof -
  have "outcome (\<lambda>s. get_guardians s = [alice, bob, carol] \<and> get_guardian_threshold s = 3
      \<and> rp_admin s = Some boss \<and> rp_get_version s = 1) (play pool_exec guarded_pool pool_start)"
    by code_simp
  moreover have "timely 0 guarded_pool" "ends 0 guarded_pool = 3000" by code_simp+
  ultimately obtain s where s: "reach pool_exec pool_start 3000 s"
    "get_guardians s = [alice, bob, carol]" "get_guardian_threshold s = 3"
    "rp_admin s = Some boss" "rp_get_version s = 1"
    by (auto elim!: history_reach)
  have "auth (pool_at 4000) boss" by (simp add: pool_at_def)
  then show ?thesis
    using admin_disarms_guardians[where e="pool_at 4000" and v=2 and tk=ledger_ops and rc=paying
        and h="''new''", OF s(4)] s by (auto simp: u32_max_def)
qed

text \<open>
  The admin can forward the providers' capital without notice:
  \<^verbatim>\<open>send_premium_to_backstop\<close> checks neither how much premium the pool holds nor what backs
  the deposits, so any amount the token contract lets the pool pay leaves it at once, while
  the deposits and shares on the books stay as they were.
\<close>

theorem forwarding_is_unbacked:
  assumes "rp_admin s = Some a" "auth e a" "\<not> rp_reentrancy_guard s" "0 < n"
    and "rp_usdc_token s = Some usdc" "rp_backstop s = Some backstop"
    and "transfer_of tk (rp_tokens s) usdc (this e) backstop n = Some t"
  shows "\<exists>s'. send_premium_to_backstop tk e a n s = Inr ((), s') \<and> rp_tokens s' = t
     \<and> pool_of s' = pool_of s"
  using assms
  by (simp add: send_premium_to_backstop_def guarded_def rp_require_admin_def require_auth_def emit_def)
     (rule pool_of_cong; simp)

theorem forwarding_is_unbacked_witness:
  "\<exists>s s'. reach pool_exec pool_start 2000 s
     \<and> send_premium_to_backstop ledger_ops (pool_at 3000) boss 500000000000000 s = Inr ((), s')
     \<and> balance ledger_ops (rp_tokens s) usdc the_pool = 500000000000000
     \<and> balance ledger_ops (rp_tokens s') usdc the_pool = 0
     \<and> total_deposited s' = 500000000000000"
proof -
  have out: "outcome (\<lambda>s. is_at (transfer_of ledger_ops (rp_tokens s) usdc the_pool backstop 500000000000000)
        (\<lambda>t. balance ledger_ops t usdc the_pool = 0)
      \<and> balance ledger_ops (rp_tokens s) usdc the_pool = 500000000000000
      \<and> rp_admin s = Some boss \<and> rp_usdc_token s = Some usdc \<and> rp_backstop s = Some backstop
      \<and> \<not> rp_reentrancy_guard s \<and> total_deposited s = 500000000000000) (play pool_exec open_pool pool_start)"
    by code_simp
  obtain s where s: "reach pool_exec pool_start 2000 s"
    "is_at (transfer_of ledger_ops (rp_tokens s) usdc the_pool backstop 500000000000000)
        (\<lambda>t. balance ledger_ops t usdc the_pool = 0)
      \<and> balance ledger_ops (rp_tokens s) usdc the_pool = 500000000000000
      \<and> rp_admin s = Some boss \<and> rp_usdc_token s = Some usdc \<and> rp_backstop s = Some backstop
      \<and> \<not> rp_reentrancy_guard s \<and> total_deposited s = 500000000000000"
    by (rule history_reach[OF out open_pool_time(1), unfolded open_pool_time(2)])
  obtain t where t: "transfer_of ledger_ops (rp_tokens s) usdc the_pool backstop 500000000000000 = Some t"
    "balance ledger_ops t usdc the_pool = 0" using s(2) by (auto dest!: is_atD)
  obtain s' where s': "send_premium_to_backstop ledger_ops (pool_at 3000) boss 500000000000000 s = Inr ((), s')"
    "rp_tokens s' = t" "pool_of s' = pool_of s"
    using forwarding_is_unbacked[where e="pool_at 3000" and n=500000000000000 and t=t and tk=ledger_ops
        and s=s and a=boss] s t by (auto simp: pool_at_def)
  have "total_deposited s' = 500000000000000" using arg_cong[OF s'(3), of p_deposited] s(2) by simp
  then show ?thesis using s s' t by blast
qed

text \<open>
  A healthy position can be liquidated when the pool is large: if the product of the
  position's shares and the unlocked capital does not fit in 128 bits, the ratio of the
  position is taken for 0, however well it is covered, and a protocol caller can seize all
  of its shares.
\<close>

theorem overflow_liquidates_healthy:
  assumes "rp_require_protocol_caller e c s = Inr ()"
    and "rp_positions s a = Some p" "total_shares s > 0" "lp_shares p > 0"
    and "\<not> fits_i128 (lp_shares p * sat_i128 (total_deposited s - total_locked s))"
    and "checked_mul_div (lp_shares p) (total_locked s) (total_shares s) = Some liability" "0 < liability"
    and "fits_i128 (lp_shares p * 10000)"
  shows "\<exists>r s'. liquidate_position e c a s = Inr (r, s') \<and> lr_shares_seized r = lp_shares p
     \<and> rp_positions s' a = None"
  using assms by (rule overflow_liquidation)

theorem overflow_liquidates_healthy_witness:
  "\<exists>s r s' p. reach pool_exec pool_start 3000 s \<and> rp_positions s bob = Some p
     \<and> 5 * total_locked s = total_deposited s
     \<and> liquidate_position (pool_at 4000) engine bob s = Inr (r, s') \<and> lr_shares_seized r = lp_shares p"
proof -
  obtain s where s: "reach pool_exec pool_start 3000 s" "total_deposited s = 500000000000000"
    "total_locked s = 100000000000000" "total_shares s = 500000000000000000000000"
    "is_at (rp_positions s bob) (\<lambda>p. lp_shares p = 499999999999999999999000)"
    "rp_admin s = Some boss" "rp_policy_engine s = Some engine" "rp_claims_processor s = Some claims"
    by (rule pool_locked)
  obtain p where p: "rp_positions s bob = Some p" "lp_shares p = 499999999999999999999000"
    using is_atD[OF s(5)] by blast
  have "rp_require_protocol_caller (pool_at 4000) engine s = Inr ()"
    using s by (simp add: protocol_caller_ok pool_at_def)
  moreover have "checked_mul_div (lp_shares p) (total_locked s) (total_shares s) = Some 99999999999999"
    unfolding p s by code_simp
  moreover have "\<not> fits_i128 (lp_shares p * sat_i128 (total_deposited s - total_locked s))"
    "fits_i128 (lp_shares p * 10000)"
    unfolding p s by code_simp+
  ultimately show ?thesis
    using overflow_liquidates_healthy[of "pool_at 4000" engine s bob p 99999999999999] p s by auto
qed

end
