(* ===== verification/OV_Types.thy ===== *)
theory OV_Types
  imports Contract_System
begin

text \<open>
  The data the oracle verifier (\<^verbatim>\<open>contracts/oracle-verifier\<close>) exchanges with its
  callers: the trigger condition a policy is settled by, and the query for one reading.
\<close>

datatype ov_comparison = BelowThreshold | AboveThreshold | EqualsThreshold | EqualWithTolerance

record trigger_condition =
  tc_data_type :: symbol
  tc_key :: symbol
  tc_threshold :: int
  tc_comparison :: ov_comparison
  tc_tolerance :: int

record oracle_reading_query =
  rq_data_type :: symbol
  rq_key :: symbol
  rq_condition :: trigger_condition
  rq_staleness_threshold :: int

end
