(* ===== verification/CP_Types.thy ===== *)
theory CP_Types
  imports PE_Types RP_Types OV_Types
begin

text \<open>
  The data of the claims processor (\<^verbatim>\<open>contracts/claims-processor\<close>): claims with their
  status and payout data, the fraud detector's records, the error codes, the published
  events, the storage with one field per \<^verbatim>\<open>StorageKey\<close>, and the three contracts the
  processor calls, as a record of operations. Names that another contract also uses carry
  the prefix \<open>cp_\<close> or \<open>C\<close>, events the prefix \<open>Ec\<close>. The contract declares the same
  \<^verbatim>\<open>PendingUpgrade\<close> and \<^verbatim>\<open>PendingAdminChange\<close> as the risk pool; its payout
  currency types, cross-chain attestations and \<^verbatim>\<open>PendingGuardianConfig\<close> are never used.
\<close>

section \<open>Data\<close>

datatype claim_status =
    ClaimPending | ClaimPaid | ClaimRejected | ClaimDisputed | ClaimExpired
  | ClaimPartiallyPaid | ClaimEscalated

datatype claim_result =
    ResPaid | ResRejected | ResExpired | ResAlreadyClaimed | ResPolicyNotActive
  | ResAlreadyProcessed | ResPartiallyPaid | ResOracleUnavailable

record installment_schedule =
  is_total_amount :: int
  is_amount_per_installment :: int
  is_num_installments :: int
  is_interval_seconds :: int
  is_first_installment_at :: int
  is_paid_count :: int

record claim =
  cl_id :: int
  cl_policy_id :: int
  cl_claimant :: address
  cl_coverage_amount :: int
  cl_observed_value :: "int option"
  cl_trigger_met :: bool
  cl_status :: claim_status
  cl_submitted_at :: int
  cl_processed_at :: "int option"
  cl_dispute_reason :: "symbol option"
  cl_paid_amount :: "int option"
  cl_partial_payout_bps :: "int option"
  cl_installments :: "installment_schedule list"
  cl_identity_verified :: bool
  cl_verification_type :: "symbol option"
  cl_verification_time :: "int option"
  cl_payout_ready_at :: "int option"

record claim_age_info =
  ca_claim_id :: int
  ca_status :: claim_status
  ca_submitted_at :: int
  ca_pending_for :: int
  ca_escalation_threshold :: int
  ca_escalatable :: bool
  ca_seconds_until_escalatable :: int

datatype fraud_mode = Block | FlagOnly

record fraud_config =
  fc_rate_window_secs :: int
  fc_rate_score :: int
  fc_burst_window_secs :: int
  fc_burst_count :: int
  fc_burst_score :: int
  fc_coverage_anomaly_multiplier :: int
  fc_coverage_score :: int
  fc_fraud_threshold_score :: int
  fc_mode :: fraud_mode

record claimant_history =
  ch_last_submission_at :: int
  ch_burst_bucket_start :: int
  ch_burst_count :: int
  ch_max_coverage_ever :: int
  ch_total_submissions :: int

record fraud_record =
  fr_claim_id :: int
  fr_score :: int
  fr_flags :: int
  fr_checked_at :: int

datatype cp_error =
    CAlreadyInitialized | CNotInitialized | CUnauthorized | ClaimNotFound | CPolicyNotActive
  | CAlreadyClaimed | AlreadyProcessed | CInvalidAddress | CPaused | CPolicyExpired
  | CInvalidVersion | CNotGuardian | CAlreadyApprovedAction | CNoPendingUpgrade
  | CInvalidThreshold | CAdminTimelockNotExpired | NotEscalatable | InvalidThresholdValue
  | ClaimDeadlinePassed | PayoutDelayNotElapsed | IdentityVerificationRequired | CInvalidInput
  | FraudSuspected | CAdminTransferPending | RateLimitExceeded | PayoutExceedsCoverage
  | UnauthorizedAttester | ClaimOutsideCoveragePeriod | AdminCannotBeClaimant
  | PayoutDelayTooLong | EmptyDisputeReason | CoverageMismatch | InvalidClaimAmount
  | DisputeReasonTooLong | InvalidDisputeWindow | DisputeWindowExpired | DuplicateClaimReference
  | InvalidDisputeDeadline | InvalidClaimType | EvidenceLimitExceeded | InvalidEvidence
  | CInvalidToken

datatype cp_event =
    EcInitialized address address address address int
  | EcKeeperAdded address
  | EcKeeperRemoved address
  | EcClaimSubmitted int int address int
  | EcBatchClaimsSubmitted address int
  | EcBatchClaimsProcessed address int
  | EcReadingsBatchVerified int int bool
  | EcClaimProcessed int int bool claim_status
  | EcClaimPaid int int int
  | EcClaimRejected int int symbol
  | EcClaimSettled int bool int
  | EcDisputeWindowUpdated int
  | EcDisputeDeadlineSet int int
  | EcClaimDisputed int address symbol
  | EcClaimResolved int address
  | EcInstallmentPayoutScheduled int int address int int int int
  | EcInstallmentPaid int address int int int
  | EcPaused address
  | EcResumed address
  | EcContractUpgraded int int
  | EcGuardiansUpdated "address list" int
  | EcGuardianThresholdUpdated int
  | EcUpgradeApproved wasm_hash address int int
  | EcAdminUpdated address
  | EcEscalationThresholdSet int
  | EcCategoryEscalationThresholdSet symbol int
  | EcClaimDeadlineSet int
  | EcPayoutDelaySet int
  | EcFraudConfigUpdated fraud_config
  | EcFraudFlagged int address int int fraud_mode
  | EcPayoutReleased int int int
  | EcClaimEscalated int int address int address
  | EcIdentityRequirementSet int symbol
  | EcIdentityRequirementRemoved int
  | EcAttesterAdded address
  | EcAttesterRemoved address
  | EcIdentityVerified int symbol int

record 'w cp_state =
  cp_initialized :: bool
  cp_admin :: "address option"
  cp_policy_engine :: "address option"
  cp_risk_pool :: "address option"
  cp_oracle_verifier :: "address option"
  cp_staleness_threshold :: "int option"
  cp_claims :: "int \<rightharpoonup> claim"
  cp_policy_claim :: "int \<rightharpoonup> int"
  cp_next_claim_id :: "int option"
  cp_pending_claims :: "int list option"
  cp_keeper :: "address \<rightharpoonup> bool"
  cp_paused :: "bool option"
  cp_pending_admin :: "address option"
  cp_pending_admin_since :: "int option"
  cp_pending_admin_change :: "pending_admin_change option"
  cp_version :: "int option"
  cp_guardians :: "address list option"
  cp_guardian_threshold :: "int option"
  cp_pending_upgrade :: "pending_upgrade option"
  cp_escalation_threshold :: "int option"
  cp_category_escalation :: "symbol \<rightharpoonup> int"
  cp_claim_deadline :: "int option"
  cp_payout_delay :: "int option"
  cp_identity_requirement :: "int \<rightharpoonup> symbol"
  cp_fraud_config :: "fraud_config option"
  cp_claimant_history :: "address \<rightharpoonup> claimant_history"
  cp_fraud_record :: "int \<rightharpoonup> fraud_record"
  cp_auto_process_last_time :: "int \<rightharpoonup> int"
  cp_auto_process_cooldown :: "int option"
  cp_authorized_attesters :: "address list option"
  cp_dispute_window :: "int option"
  cp_claim_reference :: "symbol \<rightharpoonup> int"
  cp_claim_dispute_deadline :: "int \<rightharpoonup> int"
  cp_user_last_claim :: "address \<rightharpoonup> int"
  cp_registered_claim_type :: "symbol \<rightharpoonup> bool"
  cp_claim_evidence :: "int \<rightharpoonup> int list list"
  cp_wasm :: "wasm_hash option"
  cp_world :: 'w
  cp_events :: "cp_event list"

text \<open>The storage of a contract that has just been deployed into the world \<open>w\<close>.\<close>

definition cp_fresh :: "'w \<Rightarrow> 'w cp_state" where
  "cp_fresh w = \<lparr>
     cp_initialized = False, cp_admin = None, cp_policy_engine = None, cp_risk_pool = None,
     cp_oracle_verifier = None, cp_staleness_threshold = None, cp_claims = Map.empty,
     cp_policy_claim = Map.empty, cp_next_claim_id = None, cp_pending_claims = None,
     cp_keeper = Map.empty, cp_paused = None, cp_pending_admin = None,
     cp_pending_admin_since = None, cp_pending_admin_change = None, cp_version = None,
     cp_guardians = None, cp_guardian_threshold = None, cp_pending_upgrade = None,
     cp_escalation_threshold = None, cp_category_escalation = Map.empty,
     cp_claim_deadline = None, cp_payout_delay = None, cp_identity_requirement = Map.empty,
     cp_fraud_config = None, cp_claimant_history = Map.empty, cp_fraud_record = Map.empty,
     cp_auto_process_last_time = Map.empty, cp_auto_process_cooldown = None,
     cp_authorized_attesters = None, cp_dispute_window = None,
     cp_claim_reference = Map.empty, cp_claim_dispute_deadline = Map.empty,
     cp_user_last_claim = Map.empty, cp_registered_claim_type = Map.empty,
     cp_claim_evidence = Map.empty, cp_wasm = None, cp_world = w, cp_events = []\<rparr>"

text \<open>Constants of \<^verbatim>\<open>lib.rs\<close>.\<close>

definition MAX_BATCH_SIZE :: int where [num_defs]: "MAX_BATCH_SIZE = 50"
definition MAX_EVIDENCE_FILES :: int where [num_defs]: "MAX_EVIDENCE_FILES = 10"
definition MAX_INSTALLMENTS :: int where [num_defs]: "MAX_INSTALLMENTS = 12"
definition MAX_DISPUTE_REASON_LEN :: int where [num_defs]: "MAX_DISPUTE_REASON_LEN = 32"
definition MIN_DISPUTE_WINDOW :: int where [num_defs]: "MIN_DISPUTE_WINDOW = 60 * 60"
definition MAX_DISPUTE_WINDOW :: int where [num_defs]: "MAX_DISPUTE_WINDOW = 30 * 24 * 60 * 60"
definition DEFAULT_DISPUTE_WINDOW :: int where
  [num_defs]: "DEFAULT_DISPUTE_WINDOW = 7 * 24 * 60 * 60"
definition DEFAULT_ESCALATION_THRESHOLD :: int where
  [num_defs]: "DEFAULT_ESCALATION_THRESHOLD = 7 * 24 * 60 * 60"
definition MIN_ESCALATION_THRESHOLD :: int where [num_defs]: "MIN_ESCALATION_THRESHOLD = 60 * 60"
definition MAX_ESCALATION_THRESHOLD :: int where
  [num_defs]: "MAX_ESCALATION_THRESHOLD = 90 * 24 * 60 * 60"
definition DEFAULT_CLAIM_DEADLINE :: int where
  [num_defs]: "DEFAULT_CLAIM_DEADLINE = 30 * 24 * 60 * 60"
definition MAX_CLAIM_DEADLINE :: int where [num_defs]: "MAX_CLAIM_DEADLINE = 365 * 24 * 60 * 60"
definition MAX_FUTURE_SUBMISSION_WINDOW :: int where
  [num_defs]: "MAX_FUTURE_SUBMISSION_WINDOW = 60 * 60"
definition MAX_PAYOUT_DELAY :: int where [num_defs]: "MAX_PAYOUT_DELAY = 365 * 24 * 60 * 60"
definition USER_CLAIM_COOLDOWN_SECONDS :: int where [num_defs]: "USER_CLAIM_COOLDOWN_SECONDS = 60"
definition MAX_FRAUD_SCORE :: int where [num_defs]: "MAX_FRAUD_SCORE = 100"
definition FRAUD_FLAG_RATE :: int where [num_defs]: "FRAUD_FLAG_RATE = 1"
definition FRAUD_FLAG_BURST :: int where [num_defs]: "FRAUD_FLAG_BURST = 2"
definition FRAUD_FLAG_COVERAGE :: int where [num_defs]: "FRAUD_FLAG_COVERAGE = 4"
definition STRKEY_LEN :: nat where [num_defs]: "STRKEY_LEN = 56"

definition log_event :: "cp_event \<Rightarrow> 'w cp_state \<Rightarrow> 'w cp_state" where
  [host_defs]: "log_event ev s = s\<lparr>cp_events := ev # cp_events s\<rparr>"

section \<open>The contracts the processor calls\<close>

text \<open>
  The clients \<^verbatim>\<open>PolicyEngineClient\<close>, \<^verbatim>\<open>RiskPoolClient\<close> and
  \<^verbatim>\<open>OracleVerifierClient\<close> as operations on the rest of the world \<open>'w\<close>. The first
  address of every operation is the contract that is called; nothing is the outcome of a
  failed sub-call, which aborts the caller too. \<open>sv_reentry\<close> tells whether the host lets a
  contract invoke itself, \<open>sv_reauth\<close> whether it accepts a second \<^verbatim>\<open>require_auth\<close> for
  the same address in one call frame (Soroban does neither).
\<close>

record 'w services =
  sv_policy :: "'w \<Rightarrow> address \<Rightarrow> int \<Rightarrow> policy option"
  sv_product :: "'w \<Rightarrow> address \<Rightarrow> int \<Rightarrow> insurance_product option"
  sv_pay_claim :: "env \<Rightarrow> address \<Rightarrow> address \<Rightarrow> int \<Rightarrow> 'w \<Rightarrow> 'w option"
  sv_expire_policy :: "env \<Rightarrow> address \<Rightarrow> address \<Rightarrow> int \<Rightarrow> 'w \<Rightarrow> 'w option"
  sv_release_for_claim :: "env \<Rightarrow> address \<Rightarrow> address \<Rightarrow> int \<Rightarrow> 'w \<Rightarrow> 'w option"
  sv_release_for_expiry :: "env \<Rightarrow> address \<Rightarrow> address \<Rightarrow> int \<Rightarrow> 'w \<Rightarrow> 'w option"
  sv_verify_trigger_fresh ::
    "env \<Rightarrow> address \<Rightarrow> symbol \<Rightarrow> symbol \<Rightarrow> trigger_condition \<Rightarrow> int \<Rightarrow> 'w \<Rightarrow> (bool \<times> 'w) option"
  sv_batch_verify_fresh ::
    "env \<Rightarrow> address \<Rightarrow> oracle_reading_query list \<Rightarrow> 'w \<Rightarrow> (bool list \<times> 'w) option"
  sv_reentry :: bool
  sv_reauth :: bool

section \<open>Guards and lookups\<close>

definition require_auth_again :: "'w services \<Rightarrow> env \<Rightarrow> address \<Rightarrow> ('e, unit) result" where
  [host_defs]: "require_auth_again sv e a = (if sv_reauth sv then require_auth e a else trap)"

definition cp_require_admin :: "env \<Rightarrow> address \<Rightarrow> 'w cp_state \<Rightarrow> (cp_error, unit) result" where
  "cp_require_admin e caller s =
     bindR (or_panic CNotInitialized (cp_admin s)) (\<lambda>admin.
     if caller \<noteq> admin then panic CUnauthorized else require_auth e caller)"

definition is_keeper :: "address \<Rightarrow> 'w cp_state \<Rightarrow> bool" where
  "is_keeper keeper s = unwrap_or False (cp_keeper s keeper)"

definition require_keeper :: "env \<Rightarrow> address \<Rightarrow> 'w cp_state \<Rightarrow> (cp_error, unit) result" where
  "require_keeper e caller s =
     (if \<not> unwrap_or False (cp_keeper s caller) then panic CUnauthorized
      else require_auth e caller)"

definition require_admin_or_attester :: "address \<Rightarrow> 'w cp_state \<Rightarrow> (cp_error, unit) result" where
  "require_admin_or_attester caller s =
     bindR (or_panic CNotInitialized (cp_admin s)) (\<lambda>admin.
     if caller = admin then Inr ()
     else if caller \<in> set (unwrap_or [] (cp_authorized_attesters s)) then Inr ()
     else panic UnauthorizedAttester)"

definition require_not_paused :: "'w cp_state \<Rightarrow> (cp_error, unit) result" where
  "require_not_paused s = (if unwrap_or False (cp_paused s) then panic CPaused else Inr ())"

definition cp_require_not_admin :: "address \<Rightarrow> 'w cp_state \<Rightarrow> (cp_error, unit) result" where
  "cp_require_not_admin caller s =
     (if cp_admin s = Some caller then panic AdminCannotBeClaimant else Inr ())"

definition cp_require_not_zero_address :: "address \<Rightarrow> (cp_error, unit) result" where
  "cp_require_not_zero_address caller =
     (if caller = zero_address then panic CInvalidAddress else Inr ())"

text \<open>The version letter, then symbols of the base-32 alphabet (\<^verbatim>\<open>A\<close>-\<^verbatim>\<open>Z\<close>, \<^verbatim>\<open>2\<close>-\<^verbatim>\<open>7\<close>).\<close>

definition is_base32 :: "char \<Rightarrow> bool" where
  "is_base32 c \<longleftrightarrow> (let b = of_char c :: int in 65 \<le> b \<and> b \<le> 90 \<or> 50 \<le> b \<and> b \<le> 55)"

definition is_well_formed_strkey :: "string \<Rightarrow> bool" where
  "is_well_formed_strkey bytes \<longleftrightarrow>
     length bytes = STRKEY_LEN \<and> (hd bytes = CHR ''G'' \<or> hd bytes = CHR ''C'')
     \<and> list_all is_base32 (tl bytes)"

definition cp_validate_stellar_address :: "address \<Rightarrow> (cp_error, unit) result" where
  "cp_validate_stellar_address a =
     (if length a \<noteq> STRKEY_LEN then panic CInvalidAddress
      else if \<not> is_well_formed_strkey a then panic CInvalidAddress
      else Inr ())"

definition load_claim :: "int \<Rightarrow> 'w cp_state \<Rightarrow> (cp_error, claim) result" where
  "load_claim i s = or_panic ClaimNotFound (cp_claims s i)"

definition next_claim_id :: "'w cp_state \<Rightarrow> (cp_error, int \<times> 'w cp_state) result" where
  "next_claim_id s =
     (let i = unwrap_or 1 (cp_next_claim_id s)
      in bindR (u128 (i + 1)) (\<lambda>n. Inr (i, s\<lparr>cp_next_claim_id := Some n\<rparr>)))"

definition get_pending_claims :: "'w cp_state \<Rightarrow> int list" where
  "get_pending_claims s = unwrap_or [] (cp_pending_claims s)"

definition remove_from_pending :: "int \<Rightarrow> 'w cp_state \<Rightarrow> 'w cp_state" where
  "remove_from_pending claim_id s =
     (if claim_id \<in> set (get_pending_claims s)
      then s\<lparr>cp_pending_claims := Some (remove1 claim_id (get_pending_claims s))\<rparr> else s)"

definition push_pending :: "int \<Rightarrow> 'w cp_state \<Rightarrow> 'w cp_state" where
  "push_pending claim_id s =
     s\<lparr>cp_pending_claims := Some (get_pending_claims s @ [claim_id])\<rparr>"

definition escalation_threshold :: "symbol option \<Rightarrow> 'w cp_state \<Rightarrow> int" where
  "escalation_threshold category s =
     (case Option.bind category (cp_category_escalation s) of
        Some val \<Rightarrow> val
      | None \<Rightarrow> unwrap_or DEFAULT_ESCALATION_THRESHOLD (cp_escalation_threshold s))"

definition claim_deadline :: "'w cp_state \<Rightarrow> int" where
  "claim_deadline s = unwrap_or DEFAULT_CLAIM_DEADLINE (cp_claim_deadline s)"

definition payout_delay :: "'w cp_state \<Rightarrow> int" where
  "payout_delay s = unwrap_or 0 (cp_payout_delay s)"

definition get_dispute_window :: "'w cp_state \<Rightarrow> int" where
  "get_dispute_window s = unwrap_or DEFAULT_DISPUTE_WINDOW (cp_dispute_window s)"

text \<open>The calls of the clients; a failed one aborts the processor's call.\<close>

definition cp_engine :: "'w cp_state \<Rightarrow> (cp_error, address) result" where
  "cp_engine s = or_panic CNotInitialized (cp_policy_engine s)"

definition call_policy :: "'w services \<Rightarrow> address \<Rightarrow> int \<Rightarrow> 'w cp_state \<Rightarrow> (cp_error, policy) result" where
  "call_policy sv pe i s = or_trap (sv_policy sv (cp_world s) pe i)"

definition call_product ::
  "'w services \<Rightarrow> address \<Rightarrow> int \<Rightarrow> 'w cp_state \<Rightarrow> (cp_error, insurance_product) result" where
  "call_product sv pe i s = or_trap (sv_product sv (cp_world s) pe i)"

text \<open>A payout: the engine pays the policy, then the pool frees the capital behind it.\<close>

definition pay_and_release ::
  "'w services \<Rightarrow> env \<Rightarrow> address \<Rightarrow> address \<Rightarrow> int \<Rightarrow> 'w cp_state \<Rightarrow> (cp_error, 'w cp_state) result" where
  "pay_and_release sv e pe pool policy_id s =
     bindR (or_trap (sv_pay_claim sv e pe (this e) policy_id (cp_world s))) (\<lambda>w1.
     bindR (or_trap (sv_release_for_claim sv e pool (this e) policy_id w1)) (\<lambda>w2.
     Inr (s\<lparr>cp_world := w2\<rparr>)))"

lemma cp_guards_ok [result_simps]:
  "cp_require_admin e a s = Inr u \<longleftrightarrow> cp_admin s = Some a \<and> auth e a"
  "require_keeper e a s = Inr u \<longleftrightarrow> is_keeper a s \<and> auth e a"
  "require_admin_or_attester a s = Inr u \<longleftrightarrow> (\<exists>ad. cp_admin s = Some ad
     \<and> (a = ad \<or> a \<in> set (unwrap_or [] (cp_authorized_attesters s))))"
  "require_not_paused s = Inr u \<longleftrightarrow> cp_paused s \<noteq> Some True"
  "cp_require_not_admin a s = Inr u \<longleftrightarrow> cp_admin s \<noteq> Some a"
  "cp_require_not_zero_address a = Inr u \<longleftrightarrow> a \<noteq> zero_address"
  "cp_validate_stellar_address a = Inr u \<longleftrightarrow> is_well_formed_strkey a"
  by (cases "cp_paused s";
      auto simp: cp_require_admin_def require_keeper_def is_keeper_def require_admin_or_attester_def
      require_not_paused_def cp_require_not_admin_def cp_require_not_zero_address_def
      cp_validate_stellar_address_def is_well_formed_strkey_def require_auth_def result_simps)+

lemma cp_lookups_ok [result_simps]:
  "load_claim i s = Inr c \<longleftrightarrow> cp_claims s i = Some c"
  "cp_engine s = Inr a \<longleftrightarrow> cp_policy_engine s = Some a"
  "call_policy sv pe i s = Inr p \<longleftrightarrow> sv_policy sv (cp_world s) pe i = Some p"
  "call_product sv pe i s = Inr q \<longleftrightarrow> sv_product sv (cp_world s) pe i = Some q"
  by (simp_all add: load_claim_def cp_engine_def call_policy_def call_product_def result_simps)

lemma next_claim_id_ok [result_simps]:
  "next_claim_id s = Inr (i, s') \<longleftrightarrow> i = unwrap_or 1 (cp_next_claim_id s) \<and>
     0 \<le> i + 1 \<and> i + 1 \<le> u128_max \<and> s' = s\<lparr>cp_next_claim_id := Some (i + 1)\<rparr>"
  by (auto simp: next_claim_id_def Let_def result_simps)

lemma pay_and_release_ok [result_simps]:
  "pay_and_release sv e pe pool i s = Inr s' \<longleftrightarrow>
     (\<exists>w1 w2. sv_pay_claim sv e pe (this e) i (cp_world s) = Some w1
        \<and> sv_release_for_claim sv e pool (this e) i w1 = Some w2 \<and> s' = s\<lparr>cp_world := w2\<rparr>)"
  by (auto simp: pay_and_release_def result_simps)

end
