(* ===== verification/CP_Filing.thy ===== *)
theory CP_Filing
  imports CP_Types
begin

text \<open>
  Filing a claim: the fraud detector and the claimant's aggregate history, the checks of
  \<^verbatim>\<open>file_claim\<close>, and the entry points that file one claim or several (\<^verbatim>\<open>lib.rs\<close>,
  "Claim Submission" and "Fraud detection helpers"). \<^verbatim>\<open>file_claim\<close> is split where its
  checks end: the rules for the policy, then the claim record and its indexes.
\<close>

section \<open>Fraud detection\<close>

definition no_history :: claimant_history where
  "no_history = \<lparr>ch_last_submission_at = 0, ch_burst_bucket_start = 0, ch_burst_count = 0,
     ch_max_coverage_ever = 0, ch_total_submissions = 0\<rparr>"

definition stored_history :: "address \<Rightarrow> 'w cp_state \<Rightarrow> claimant_history" where
  "stored_history claimant s = unwrap_or no_history (cp_claimant_history s claimant)"

definition rate_rule :: "fraud_config \<Rightarrow> int \<Rightarrow> claimant_history \<Rightarrow> bool" where
  "rate_rule cfg now h \<longleftrightarrow>
     fc_rate_window_secs cfg > 0 \<and> fc_rate_score cfg > 0 \<and> ch_last_submission_at h > 0
     \<and> sat_u64 (now - ch_last_submission_at h) < fc_rate_window_secs cfg"

definition burst_rule :: "fraud_config \<Rightarrow> int \<Rightarrow> claimant_history \<Rightarrow> bool" where
  "burst_rule cfg now h \<longleftrightarrow>
     fc_burst_window_secs cfg > 0 \<and> fc_burst_count cfg > 0 \<and> fc_burst_score cfg > 0 \<and>
     (let bucket_alive = ch_burst_bucket_start h > 0
            \<and> sat_u64 (now - ch_burst_bucket_start h) < fc_burst_window_secs cfg;
          projected = (if bucket_alive then sat_u32 (ch_burst_count h + 1) else 1)
      in projected \<ge> fc_burst_count cfg)"

definition coverage_rule :: "fraud_config \<Rightarrow> claimant_history \<Rightarrow> int \<Rightarrow> bool" where
  "coverage_rule cfg h coverage_amount \<longleftrightarrow>
     fc_coverage_anomaly_multiplier cfg > 0 \<and> fc_coverage_score cfg > 0
     \<and> ch_max_coverage_ever h > 0
     \<and> coverage_amount > sat_i128 (ch_max_coverage_ever h * fc_coverage_anomaly_multiplier cfg)"

text \<open>Each rule that fires adds its score (saturating in \<^verbatim>\<open>u32\<close>) and sets its flag bit.\<close>

definition add_rule :: "bool \<Rightarrow> int \<Rightarrow> int \<Rightarrow> int \<times> int \<Rightarrow> int \<times> int" where
  "add_rule fires points flag r =
     (if fires then (sat_u32 (fst r + points), or (snd r) flag) else r)"

definition score_submission ::
  "fraud_config \<Rightarrow> int \<Rightarrow> claimant_history \<Rightarrow> int \<Rightarrow> int \<times> int" where
  "score_submission cfg now h coverage_amount =
     add_rule (coverage_rule cfg h coverage_amount) (fc_coverage_score cfg) FRAUD_FLAG_COVERAGE
       (add_rule (burst_rule cfg now h) (fc_burst_score cfg) FRAUD_FLAG_BURST
         (add_rule (rate_rule cfg now h) (fc_rate_score cfg) FRAUD_FLAG_RATE (0, 0)))"

definition update_claimant_history ::
  "address \<Rightarrow> int \<Rightarrow> int \<Rightarrow> int \<Rightarrow> 'w cp_state \<Rightarrow> 'w cp_state" where
  "update_claimant_history claimant now coverage_amount burst_window_secs s =
     (let prev = stored_history claimant s;
          (bucket_start, bucket_count) =
            (if burst_window_secs = 0 then (0, 0)
             else if ch_burst_bucket_start prev = 0
               \<or> sat_u64 (now - ch_burst_bucket_start prev) \<ge> burst_window_secs then (now, 1)
             else (ch_burst_bucket_start prev, sat_u32 (ch_burst_count prev + 1)));
          nxt = \<lparr>ch_last_submission_at = now, ch_burst_bucket_start = bucket_start,
            ch_burst_count = bucket_count,
            ch_max_coverage_ever = max (ch_max_coverage_ever prev) coverage_amount,
            ch_total_submissions = sat_u64 (ch_total_submissions prev + 1)\<rparr>
      in s\<lparr>cp_claimant_history := (cp_claimant_history s)(claimant \<mapsto> nxt)\<rparr>)"

definition evaluate_fraud ::
  "env \<Rightarrow> int \<Rightarrow> address \<Rightarrow> int \<Rightarrow> 'w cp_state \<Rightarrow> (cp_error, (int \<times> int) \<times> 'w cp_state) result" where
  "evaluate_fraud e claim_id claimant coverage_amount s =
     (case cp_fraud_config s of
        None \<Rightarrow> Inr ((0, 0), s)
      | Some cfg \<Rightarrow>
          (let (score, flags) =
                 score_submission cfg (timestamp e) (stored_history claimant s) coverage_amount
           in if score \<ge> fc_fraud_threshold_score cfg \<and> fc_fraud_threshold_score cfg > 0
              then (case fc_mode cfg of
                      Block \<Rightarrow> panic FraudSuspected
                    | FlagOnly \<Rightarrow> Inr ((score, flags),
                        (log_event (EcFraudFlagged claim_id claimant score flags (fc_mode cfg)) s)
                          \<lparr>cp_fraud_record := (cp_fraud_record s)(claim_id \<mapsto>
                             \<lparr>fr_claim_id = claim_id, fr_score = score, fr_flags = flags,
                              fr_checked_at = timestamp e\<rparr>)\<rparr>))
              else Inr ((score, flags), s)))"

section \<open>Filing one claim\<close>

definition new_claim :: "int \<Rightarrow> int \<Rightarrow> address \<Rightarrow> int \<Rightarrow> int \<Rightarrow> claim" where
  "new_claim claim_id policy_id claimant coverage_amount now = \<lparr>
     cl_id = claim_id, cl_policy_id = policy_id, cl_claimant = claimant,
     cl_coverage_amount = coverage_amount, cl_observed_value = None, cl_trigger_met = False,
     cl_status = ClaimPending, cl_submitted_at = now, cl_processed_at = None,
     cl_dispute_reason = None, cl_paid_amount = None, cl_partial_payout_bps = None,
     cl_installments = [], cl_identity_verified = False, cl_verification_type = None,
     cl_verification_time = None, cl_payout_ready_at = None\<rparr>"

definition store_claim :: "claim \<Rightarrow> 'w cp_state \<Rightarrow> 'w cp_state" where
  "store_claim c s = s\<lparr>cp_claims := (cp_claims s)(cl_id c \<mapsto> c)\<rparr>"

text \<open>The record, the policy index, the queue and the event of a new claim.\<close>

definition open_claim :: "int \<Rightarrow> int \<Rightarrow> address \<Rightarrow> int \<Rightarrow> int \<Rightarrow> 'w cp_state \<Rightarrow> 'w cp_state" where
  "open_claim claim_id policy_id claimant coverage_amount now s =
     log_event (EcClaimSubmitted claim_id policy_id claimant coverage_amount)
       (push_pending claim_id
         ((store_claim (new_claim claim_id policy_id claimant coverage_amount now) s)
            \<lparr>cp_policy_claim := (cp_policy_claim s)(policy_id \<mapsto> claim_id)\<rparr>))"

text \<open>The checks on the policy and the ledger time, in the order of the code.\<close>

definition check_claimable ::
  "'w services \<Rightarrow> env \<Rightarrow> address \<Rightarrow> int \<Rightarrow> 'w cp_state \<Rightarrow> (cp_error, policy) result" where
  "check_claimable sv e claimant policy_id s =
     bindR (cp_engine s) (\<lambda>pe.
     bindR (call_policy sv pe policy_id s) (\<lambda>policy.
     bindR (call_product sv pe (po_product_id policy) s) (\<lambda>product.
     let now = timestamp e; cutoff = sat_u64 (po_end_time policy + claim_deadline s) in
     if pr_category product = [] then panic InvalidClaimType
     else if po_coverage_amount policy \<le> 0 then panic InvalidClaimAmount
     else if po_policyholder policy \<noteq> claimant then panic CUnauthorized
     else if po_status policy = Cancelled then panic CPolicyNotActive
     else if po_status policy \<noteq> PolicyActive then panic CPolicyNotActive
     else if now < po_start_time policy then panic ClaimOutsideCoveragePeriod
     else if \<not> now \<le> po_end_time policy \<and> now > cutoff then panic ClaimDeadlinePassed
     else if po_start_time policy > sat_u64 (now + MAX_FUTURE_SUBMISSION_WINDOW)
     then panic ClaimOutsideCoveragePeriod
     else if po_end_time policy > 0 \<and> now > cutoff then panic ClaimDeadlinePassed
     else if \<not> po_end_time policy > 0 \<and> now > po_end_time policy
     then panic ClaimOutsideCoveragePeriod
     else Inr policy)))"

definition user_cooling :: "env \<Rightarrow> address \<Rightarrow> 'w cp_state \<Rightarrow> bool" where
  "user_cooling e claimant s =
     (case cp_user_last_claim s claimant of
        None \<Rightarrow> False
      | Some last_time \<Rightarrow> timestamp e < sat_u64 (last_time + USER_CLAIM_COOLDOWN_SECONDS))"

definition file_claim ::
  "'w services \<Rightarrow> env \<Rightarrow> address \<Rightarrow> int \<Rightarrow> 'w cp_state \<Rightarrow> (cp_error, int \<times> 'w cp_state) result" where
  "file_claim sv e claimant policy_id s =
     (if cp_policy_claim s policy_id \<noteq> None then panic CAlreadyClaimed
      else bindR (check_claimable sv e claimant policy_id s) (\<lambda>policy.
      if user_cooling e claimant s then panic RateLimitExceeded
      else bindR (next_claim_id (s\<lparr>cp_user_last_claim :=
                    (cp_user_last_claim s)(claimant \<mapsto> timestamp e)\<rparr>)) (\<lambda>(claim_id, s1).
      bindR (evaluate_fraud e claim_id claimant (po_coverage_amount policy) s1) (\<lambda>(_, s2).
      let s3 = open_claim claim_id policy_id claimant (po_coverage_amount policy) (timestamp e) s2;
          burst_window = (case cp_fraud_config s3 of None \<Rightarrow> 0 | Some c \<Rightarrow> fc_burst_window_secs c)
      in Inr (claim_id, update_claimant_history claimant (timestamp e)
                (po_coverage_amount policy) burst_window s3)))))"

section \<open>Entry points\<close>

definition claimant_guards :: "env \<Rightarrow> address \<Rightarrow> 'w cp_state \<Rightarrow> (cp_error, unit) result" where
  "claimant_guards e claimant s =
     bindR (require_auth e claimant) (\<lambda>_.
     bindR (require_not_paused s) (\<lambda>_.
     bindR (cp_require_not_admin claimant s) (\<lambda>_.
     cp_require_not_zero_address claimant)))"

definition submit_claim ::
  "'w services \<Rightarrow> env \<Rightarrow> address \<Rightarrow> int \<Rightarrow> 'w cp_state \<Rightarrow> (cp_error, int \<times> 'w cp_state) result" where
  "submit_claim sv e claimant policy_id s =
     bindR (claimant_guards e claimant s) (\<lambda>_. file_claim sv e claimant policy_id s)"

definition submit_claim_with_ref ::
  "'w services \<Rightarrow> env \<Rightarrow> address \<Rightarrow> int \<Rightarrow> symbol \<Rightarrow> 'w cp_state \<Rightarrow>
   (cp_error, int \<times> 'w cp_state) result" where
  "submit_claim_with_ref sv e claimant policy_id reference_number s =
     bindR (claimant_guards e claimant s) (\<lambda>_.
     if reference_number = [] then panic CInvalidInput
     else if cp_claim_reference s reference_number \<noteq> None then panic DuplicateClaimReference
     else bindR (file_claim sv e claimant policy_id s) (\<lambda>(claim_id, s1).
     Inr (claim_id, s1\<lparr>cp_claim_reference :=
            (cp_claim_reference s1)(reference_number \<mapsto> claim_id)\<rparr>)))"

definition is_claim_type_registered :: "symbol \<Rightarrow> 'w cp_state \<Rightarrow> bool" where
  "is_claim_type_registered claim_type s \<longleftrightarrow> cp_registered_claim_type s claim_type \<noteq> None"

definition submit_claim_with_type ::
  "'w services \<Rightarrow> env \<Rightarrow> address \<Rightarrow> int \<Rightarrow> symbol \<Rightarrow> 'w cp_state \<Rightarrow>
   (cp_error, int \<times> 'w cp_state) result" where
  "submit_claim_with_type sv e claimant policy_id claim_type s =
     bindR (claimant_guards e claimant s) (\<lambda>_.
     if claim_type = [] \<or> \<not> is_claim_type_registered claim_type s then panic InvalidClaimType
     else file_claim sv e claimant policy_id s)"

fun file_claims ::
  "'w services \<Rightarrow> env \<Rightarrow> address \<Rightarrow> int list \<Rightarrow> 'w cp_state \<Rightarrow>
   (cp_error, int list \<times> 'w cp_state) result" where
  "file_claims sv e claimant [] s = Inr ([], s)"
| "file_claims sv e claimant (pid # pids) s =
     bindR (file_claim sv e claimant pid s) (\<lambda>(cid, s1).
     bindR (file_claims sv e claimant pids s1) (\<lambda>(cids, s2). Inr (cid # cids, s2)))"

text \<open>A batch is cut to its first \<^verbatim>\<open>MAX_BATCH_SIZE\<close> items.\<close>

definition batch_submit_claims ::
  "'w services \<Rightarrow> env \<Rightarrow> address \<Rightarrow> int list \<Rightarrow> 'w cp_state \<Rightarrow>
   (cp_error, int list \<times> 'w cp_state) result" where
  "batch_submit_claims sv e claimant policy_ids s =
     bindR (claimant_guards e claimant s) (\<lambda>_.
     let count = min MAX_BATCH_SIZE (int (length policy_ids)) in
     bindR (file_claims sv e claimant (take (nat count) policy_ids) s) (\<lambda>(claim_ids, s1).
     Inr (claim_ids, log_event (EcBatchClaimsSubmitted claimant count) s1)))"

definition register_claim_type ::
  "'w services \<Rightarrow> env \<Rightarrow> address \<Rightarrow> symbol \<Rightarrow> 'w cp_state \<Rightarrow> (cp_error, 'w cp_state) result" where
  "register_claim_type sv e admin claim_type s =
     bindR (require_auth e admin) (\<lambda>_.
     bindR (or_panic CNotInitialized (cp_admin s)) (\<lambda>stored.
     if admin \<noteq> stored then panic CUnauthorized
     else bindR (require_auth_again sv e admin) (\<lambda>_.
     if claim_type = [] then panic InvalidClaimType
     else Inr (s\<lparr>cp_registered_claim_type :=
                    (cp_registered_claim_type s)(claim_type \<mapsto> True)\<rparr>))))"

lemma claimant_guards_ok [result_simps]:
  "claimant_guards e a s = Inr u \<longleftrightarrow>
     auth e a \<and> cp_paused s \<noteq> Some True \<and> cp_admin s \<noteq> Some a \<and> a \<noteq> zero_address"
  by (auto simp: claimant_guards_def require_auth_def result_simps)

end
