(* ===== verification/CP_Processing.thy ===== *)
theory CP_Processing
  imports CP_Filing
begin

text \<open>
  Deciding claims: the settlement against the oracle's answer, the keepers' entry points
  for one claim, for several readings and for a batch, and the automatic path that needs no
  filed claim (\<^verbatim>\<open>lib.rs\<close>, \<^verbatim>\<open>process_claim\<close> to \<^verbatim>\<open>batch_auto_process\<close> and
  \<^verbatim>\<open>evaluate_and_settle\<close>).
\<close>

section \<open>Settlement\<close>

primrec map_comparison :: "trigger_comparison \<Rightarrow> ov_comparison" where
  "map_comparison LessThan = BelowThreshold"
| "map_comparison GreaterThan = AboveThreshold"
| "map_comparison Equal = EqualsThreshold"

text \<open>
  The payout of a claim whose trigger is met: the claim with its decision, and the state
  after the payment, which waits if a payout delay is set.
\<close>

definition pay_or_delay ::
  "'w services \<Rightarrow> env \<Rightarrow> address \<Rightarrow> address \<Rightarrow> claim \<Rightarrow> 'w cp_state \<Rightarrow>
   (cp_error, claim \<times> 'w cp_state) result" where
  "pay_or_delay sv e pe pool claim s =
     (if payout_delay s > 0
      then Inr (claim\<lparr>cl_payout_ready_at := Some (sat_u64 (timestamp e + payout_delay s))\<rparr>, s)
      else bindR (pay_and_release sv e pe pool (cl_policy_id claim) s) (\<lambda>s1. Inr (claim, s1)))"

definition settle_met ::
  "'w services \<Rightarrow> env \<Rightarrow> address \<Rightarrow> address \<Rightarrow> claim \<Rightarrow> int option \<Rightarrow> 'w cp_state \<Rightarrow>
   (cp_error, claim_result \<times> claim \<times> 'w cp_state) result" where
  "settle_met sv e pe pool claim partial_payout_bps s =
     (let effective_bps = min 10000 (unwrap_or 10000 partial_payout_bps) in
      if effective_bps \<ge> 10000
      then bindR (pay_or_delay sv e pe pool
             (claim\<lparr>cl_status := ClaimPaid, cl_paid_amount := Some (cl_coverage_amount claim),
                    cl_partial_payout_bps := Some 10000\<rparr>) s) (\<lambda>(claim', s1).
           Inr (ResPaid, claim', s1))
      else bindR (mul_div (cl_coverage_amount claim) effective_bps 10000) (\<lambda>paid.
           if paid > cl_coverage_amount claim then panic PayoutExceedsCoverage
           else bindR (pay_or_delay sv e pe pool
                  (claim\<lparr>cl_status := ClaimPartiallyPaid, cl_paid_amount := Some paid,
                         cl_partial_payout_bps := Some effective_bps\<rparr>) s) (\<lambda>(claim', s1).
                Inr (ResPartiallyPaid, claim', s1))))"

definition settle_events :: "claim \<Rightarrow> bool \<Rightarrow> 'w cp_state \<Rightarrow> 'w cp_state" where
  "settle_events c trigger_met s =
     log_event (EcClaimSettled (cl_id c) trigger_met (cl_coverage_amount c))
       (log_event (if trigger_met
           then EcClaimPaid (cl_id c) (cl_policy_id c) (cl_coverage_amount c)
           else EcClaimRejected (cl_id c) (cl_policy_id c) ''trigger_not_met'') s)"

definition settle_claim_with_trigger_result ::
  "'w services \<Rightarrow> env \<Rightarrow> claim \<Rightarrow> policy \<Rightarrow> bool \<Rightarrow> int option \<Rightarrow> 'w cp_state \<Rightarrow>
   (cp_error, claim_result \<times> 'w cp_state) result" where
  "settle_claim_with_trigger_result sv e claim policy trigger_met partial_payout_bps s =
     (if cl_status claim \<noteq> ClaimPending then panic AlreadyProcessed
      else if cl_claimant claim \<noteq> po_policyholder policy then panic CUnauthorized
      else bindR (cp_engine s) (\<lambda>pe.
      bindR (or_panic CNotInitialized (cp_risk_pool s)) (\<lambda>pool.
      let claim1 = claim\<lparr>cl_trigger_met := trigger_met, cl_processed_at := Some (timestamp e)\<rparr> in
      bindR (if trigger_met then settle_met sv e pe pool claim1 partial_payout_bps s
             else Inr (ResRejected, claim1\<lparr>cl_status := ClaimRejected\<rparr>, s))
        (\<lambda>(outcome, claim2, s1).
      Inr (outcome, settle_events claim2 trigger_met
             (remove_from_pending (cl_id claim2) (store_claim claim2 s1)))))))"

definition policy_condition :: "policy \<Rightarrow> trigger_condition" where
  "policy_condition policy = \<lparr>tc_data_type = po_oracle_data_type policy,
     tc_key = po_oracle_key policy, tc_threshold = po_trigger_threshold policy,
     tc_comparison = map_comparison (po_trigger_comparison policy), tc_tolerance = 0\<rparr>"

definition evaluate_and_settle ::
  "'w services \<Rightarrow> env \<Rightarrow> claim \<Rightarrow> policy \<Rightarrow> int option \<Rightarrow> 'w cp_state \<Rightarrow>
   (cp_error, claim_result \<times> 'w cp_state) result" where
  "evaluate_and_settle sv e claim policy partial_payout_bps s =
     (if cl_status claim \<noteq> ClaimPending then panic AlreadyProcessed
      else if cl_claimant claim \<noteq> po_policyholder policy then panic CUnauthorized
      else bindR (or_panic CNotInitialized (cp_oracle_verifier s)) (\<lambda>verifier.
      bindR (or_trap (sv_verify_trigger_fresh sv e verifier (po_oracle_data_type policy)
               (po_oracle_key policy) (policy_condition policy)
               (unwrap_or 604800 (cp_staleness_threshold s)) (cp_world s))) (\<lambda>(trigger_met, w).
      settle_claim_with_trigger_result sv e claim policy trigger_met partial_payout_bps
        (s\<lparr>cp_world := w\<rparr>))))"

section \<open>Processing filed claims\<close>

text \<open>What \<^verbatim>\<open>process_claim\<close> does once its caller is a keeper.\<close>

definition process_filed ::
  "'w services \<Rightarrow> env \<Rightarrow> int \<Rightarrow> int option \<Rightarrow> 'w cp_state \<Rightarrow>
   (cp_error, claim_result \<times> 'w cp_state) result" where
  "process_filed sv e claim_id partial_payout_bps s =
     bindR (require_not_paused s) (\<lambda>_.
     bindR (load_claim claim_id s) (\<lambda>claim.
     if cl_status claim \<noteq> ClaimPending then Inr (ResAlreadyProcessed, s)
     else bindR (cp_engine s) (\<lambda>pe.
     bindR (call_policy sv pe (cl_policy_id claim) s) (\<lambda>policy.
     if cl_coverage_amount claim \<noteq> po_coverage_amount policy then panic CoverageMismatch
     else evaluate_and_settle sv e claim policy partial_payout_bps s))))"

definition process_claim ::
  "'w services \<Rightarrow> env \<Rightarrow> address \<Rightarrow> int \<Rightarrow> int option \<Rightarrow> 'w cp_state \<Rightarrow>
   (cp_error, claim_result \<times> 'w cp_state) result" where
  "process_claim sv e keeper claim_id partial_payout_bps s =
     bindR (require_keeper e keeper s) (\<lambda>_. process_filed sv e claim_id partial_payout_bps s)"

text \<open>
  The batch calls \<^verbatim>\<open>process_claim\<close> in its own frame, so every item asks for the
  keeper's authorisation once more.
\<close>

fun process_claims ::
  "'w services \<Rightarrow> env \<Rightarrow> address \<Rightarrow> int list \<Rightarrow> int option \<Rightarrow> 'w cp_state \<Rightarrow>
   (cp_error, (int \<times> claim_result) list \<times> 'w cp_state) result" where
  "process_claims sv e keeper [] bps s = Inr ([], s)"
| "process_claims sv e keeper (cid # cids) bps s =
     bindR (if \<not> is_keeper keeper s then panic CUnauthorized else require_auth_again sv e keeper) (\<lambda>_.
     bindR (process_filed sv e cid bps s) (\<lambda>(res, s1).
     bindR (process_claims sv e keeper cids bps s1) (\<lambda>(rest, s2). Inr ((cid, res) # rest, s2))))"

definition batch_process_claims ::
  "'w services \<Rightarrow> env \<Rightarrow> address \<Rightarrow> int list \<Rightarrow> int option \<Rightarrow> 'w cp_state \<Rightarrow>
   (cp_error, (int \<times> claim_result) list \<times> 'w cp_state) result" where
  "batch_process_claims sv e keeper claim_ids partial_payout_bps s =
     bindR (require_keeper e keeper s) (\<lambda>_.
     bindR (require_not_paused s) (\<lambda>_.
     let count = min MAX_BATCH_SIZE (int (length claim_ids)) in
     bindR (process_claims sv e keeper (take (nat count) claim_ids) partial_payout_bps s)
       (\<lambda>(results, s1).
     Inr (results, log_event (EcBatchClaimsProcessed keeper count) s1))))"

section \<open>Oracle readings\<close>

definition batch_verify_oracle_readings ::
  "'w services \<Rightarrow> env \<Rightarrow> oracle_reading_query list \<Rightarrow> 'w cp_state \<Rightarrow>
   (cp_error, bool list \<times> 'w cp_state) result" where
  "batch_verify_oracle_readings sv e queries s =
     bindR (or_panic CNotInitialized (cp_oracle_verifier s)) (\<lambda>verifier.
     bindR (or_trap (sv_batch_verify_fresh sv e verifier queries (cp_world s))) (\<lambda>(results, w).
     Inr (results, s\<lparr>cp_world := w\<rparr>)))"

fun verify_each ::
  "'w services \<Rightarrow> env \<Rightarrow> address \<Rightarrow> oracle_reading_query list \<Rightarrow> 'w \<Rightarrow>
   (cp_error, bool list \<times> 'w) result" where
  "verify_each sv e verifier [] w = Inr ([], w)"
| "verify_each sv e verifier (q # qs) w =
     bindR (or_trap (sv_verify_trigger_fresh sv e verifier (rq_data_type q) (rq_key q)
              (rq_condition q) (rq_staleness_threshold q) w)) (\<lambda>(res, w1).
     bindR (verify_each sv e verifier qs w1) (\<lambda>(rest, w2). Inr (res # rest, w2)))"

definition verify_readings_individual ::
  "'w services \<Rightarrow> env \<Rightarrow> oracle_reading_query list \<Rightarrow> 'w cp_state \<Rightarrow>
   (cp_error, bool list \<times> 'w cp_state) result" where
  "verify_readings_individual sv e queries s =
     bindR (or_panic CNotInitialized (cp_oracle_verifier s)) (\<lambda>verifier.
     bindR (verify_each sv e verifier queries (cp_world s)) (\<lambda>(results, w).
     Inr (results, s\<lparr>cp_world := w\<rparr>)))"

definition readings_met :: "bool \<Rightarrow> bool list \<Rightarrow> bool" where
  "readings_met require_all results =
     (if require_all then list_all id results else list_ex id results)"

definition process_multi_reading_claim ::
  "'w services \<Rightarrow> env \<Rightarrow> address \<Rightarrow> int \<Rightarrow> oracle_reading_query list \<Rightarrow> bool \<Rightarrow> int option \<Rightarrow>
   'w cp_state \<Rightarrow> (cp_error, claim_result \<times> 'w cp_state) result" where
  "process_multi_reading_claim sv e keeper claim_id queries require_all partial_payout_bps s =
     bindR (require_keeper e keeper s) (\<lambda>_.
     bindR (require_not_paused s) (\<lambda>_.
     if queries = [] then panic CInvalidInput
     else bindR (load_claim claim_id s) (\<lambda>claim.
     if cl_status claim \<noteq> ClaimPending then Inr (ResAlreadyProcessed, s)
     else bindR (cp_engine s) (\<lambda>pe.
     bindR (call_policy sv pe (cl_policy_id claim) s) (\<lambda>policy.
     if cl_coverage_amount claim \<noteq> po_coverage_amount policy then panic CoverageMismatch
     else bindR (batch_verify_oracle_readings sv e queries s) (\<lambda>(results, s1).
     let trigger_met = readings_met require_all results in
     settle_claim_with_trigger_result sv e claim policy trigger_met partial_payout_bps
       (log_event (EcReadingsBatchVerified claim_id (int (length queries)) trigger_met) s1)))))))"

section \<open>Automatic processing\<close>

definition recently_processed :: "env \<Rightarrow> int \<Rightarrow> 'w cp_state \<Rightarrow> bool" where
  "recently_processed e policy_id s =
     (case cp_auto_process_last_time s policy_id of
        None \<Rightarrow> False
      | Some last_processed \<Rightarrow>
          timestamp e < sat_u64 (last_processed + unwrap_or 300 (cp_auto_process_cooldown s)))"

definition already_decided :: "int \<Rightarrow> 'w cp_state \<Rightarrow> bool" where
  "already_decided policy_id s =
     (case Option.bind (cp_policy_claim s policy_id) (cp_claims s) of
        None \<Rightarrow> False
      | Some existing \<Rightarrow> cl_status existing \<noteq> ClaimPending)"

definition expire_and_release ::
  "'w services \<Rightarrow> env \<Rightarrow> address \<Rightarrow> int \<Rightarrow> 'w cp_state \<Rightarrow> (cp_error, 'w cp_state) result" where
  "expire_and_release sv e pe policy_id s =
     bindR (or_panic CNotInitialized (cp_risk_pool s)) (\<lambda>pool.
     bindR (or_trap (sv_expire_policy sv e pe (this e) policy_id (cp_world s))) (\<lambda>w1.
     bindR (or_trap (sv_release_for_expiry sv e pool (this e) policy_id w1)) (\<lambda>w2.
     Inr (s\<lparr>cp_world := w2\<rparr>))))"

definition claim_for_policy ::
  "env \<Rightarrow> int \<Rightarrow> policy \<Rightarrow> 'w cp_state \<Rightarrow> (cp_error, int \<times> 'w cp_state) result" where
  "claim_for_policy e policy_id policy s =
     (case cp_policy_claim s policy_id of
        Some claim_id \<Rightarrow> Inr (claim_id, s)
      | None \<Rightarrow> bindR (next_claim_id s) (\<lambda>(cid, s1).
          Inr (cid, open_claim cid policy_id (po_policyholder policy)
                 (po_coverage_amount policy) (timestamp e) s1)))"

text \<open>What \<^verbatim>\<open>auto_process\<close> does for a policy that is still active.\<close>

definition process_active ::
  "'w services \<Rightarrow> env \<Rightarrow> address \<Rightarrow> int \<Rightarrow> policy \<Rightarrow> int option \<Rightarrow> 'w cp_state \<Rightarrow>
   (cp_error, claim_result \<times> 'w cp_state) result" where
  "process_active sv e pe policy_id policy partial_payout_bps s =
     (if timestamp e > po_end_time policy
      then bindR (expire_and_release sv e pe policy_id s) (\<lambda>s1. Inr (ResExpired, s1))
      else bindR (claim_for_policy e policy_id policy s) (\<lambda>(claim_id, s1).
           bindR (or_trap (cp_claims s1 claim_id)) (\<lambda>claim.
           if cl_status claim \<noteq> ClaimPending then Inr (ResAlreadyProcessed, s1)
           else evaluate_and_settle sv e claim policy partial_payout_bps s1)))"

definition auto_process ::
  "'w services \<Rightarrow> env \<Rightarrow> address \<Rightarrow> int \<Rightarrow> int option \<Rightarrow> 'w cp_state \<Rightarrow>
   (cp_error, claim_result \<times> 'w cp_state) result" where
  "auto_process sv e keeper policy_id partial_payout_bps s =
     bindR (require_keeper e keeper s) (\<lambda>_.
     bindR (require_not_paused s) (\<lambda>_.
     if recently_processed e policy_id s then panic RateLimitExceeded
     else let s1 = s\<lparr>cp_auto_process_last_time :=
                       (cp_auto_process_last_time s)(policy_id \<mapsto> timestamp e)\<rparr> in
     if already_decided policy_id s1 then Inr (ResAlreadyProcessed, s1)
     else bindR (cp_engine s1) (\<lambda>pe.
     bindR (call_policy sv pe policy_id s1) (\<lambda>policy.
     if po_coverage_amount policy \<le> 0 then panic InvalidClaimAmount
     else (case po_status policy of
             Claimed \<Rightarrow> Inr (ResAlreadyClaimed, s1)
           | Expired \<Rightarrow> Inr (ResExpired, s1)
           | Cancelled \<Rightarrow> Inr (ResPolicyNotActive, s1)
           | PolicyActive \<Rightarrow> process_active sv e pe policy_id policy partial_payout_bps s1)))))"

section \<open>The batch over the queue\<close>

text \<open>
  One pass of the inner loop compares the first \<open>n\<close> adjacent pairs and swaps a pair whose
  first component is the later one; the outer loop makes one pass per element, each one
  comparison shorter.
\<close>

fun bubble_pass :: "nat \<Rightarrow> (int \<times> int) list \<Rightarrow> (int \<times> int) list" where
  "bubble_pass (Suc n) (cur # nxt # rest) =
     (if snd cur > snd nxt then nxt # bubble_pass n (cur # rest)
      else cur # bubble_pass n (nxt # rest))"
| "bubble_pass n xs = xs"

definition bubble_sort :: "(int \<times> int) list \<Rightarrow> (int \<times> int) list" where
  "bubble_sort xs = foldl (\<lambda>ys i. bubble_pass (length xs - i - 1) ys) xs [0..<length xs]"

definition claim_timestamps :: "'w cp_state \<Rightarrow> (int \<times> int) list" where
  "claim_timestamps s =
     List.map_filter (\<lambda>i. map_option (\<lambda>c. (i, cl_submitted_at c)) (cp_claims s i))
       (get_pending_claims s)"

definition sorted_pending :: "'w cp_state \<Rightarrow> int list" where
  "sorted_pending s = map fst (bubble_sort (claim_timestamps s))"

primrec result_is_payment :: "claim_result \<Rightarrow> bool" where
  "result_is_payment ResPaid = True"
| "result_is_payment ResRejected = False"
| "result_is_payment ResExpired = False"
| "result_is_payment ResAlreadyClaimed = False"
| "result_is_payment ResPolicyNotActive = False"
| "result_is_payment ResAlreadyProcessed = False"
| "result_is_payment ResPartiallyPaid = True"
| "result_is_payment ResOracleUnavailable = False"

text \<open>
  One claim of the batch: \<^verbatim>\<open>auto_process\<close> as a sub-invocation of the contract itself,
  whose failure is caught and undone. The host decides whether it can run at all.
\<close>

definition batch_item ::
  "'w services \<Rightarrow> env \<Rightarrow> address \<Rightarrow> int \<Rightarrow> 'w cp_state \<Rightarrow>
   (int \<times> claim_result) list \<times> 'w cp_state" where
  "batch_item sv e caller claim_id s =
     (case cp_claims s claim_id of
        None \<Rightarrow> ([], s)
      | Some c \<Rightarrow>
          if cl_status c \<noteq> ClaimPending \<or> cl_processed_at c \<noteq> None then ([], s)
          else (case (if sv_reentry sv then auto_process sv e caller (cl_policy_id c) None s else trap) of
                  Inl _ \<Rightarrow> ([], s)
                | Inr (res, s1) \<Rightarrow> ([(claim_id, res)],
                    (case cp_claims s1 claim_id of
                       None \<Rightarrow> s1
                     | Some c1 \<Rightarrow> log_event (EcClaimProcessed claim_id (cl_policy_id c)
                                   (result_is_payment res) (cl_status c1)) s1))))"

fun batch_loop ::
  "'w services \<Rightarrow> env \<Rightarrow> address \<Rightarrow> int list \<Rightarrow> 'w cp_state \<Rightarrow>
   (int \<times> claim_result) list \<times> 'w cp_state" where
  "batch_loop sv e caller [] s = ([], s)"
| "batch_loop sv e caller (cid # cids) s =
     (let (res, s1) = batch_item sv e caller cid s;
          (rest, s2) = batch_loop sv e caller cids s1
      in (res @ rest, s2))"

definition batch_auto_process ::
  "'w services \<Rightarrow> env \<Rightarrow> address \<Rightarrow> int \<Rightarrow> 'w cp_state \<Rightarrow>
   (cp_error, (int \<times> claim_result) list \<times> 'w cp_state) result" where
  "batch_auto_process sv e caller limit s =
     bindR (require_keeper e caller s) (\<lambda>_.
     bindR (require_not_paused s) (\<lambda>_.
     if limit = 0 then panic CInvalidInput
     else let queue = sorted_pending s;
              process_count = min (int (length queue)) (min MAX_BATCH_SIZE limit)
          in Inr (batch_loop sv e caller (take (nat process_count) queue)
                    (s\<lparr>cp_pending_claims := Some queue\<rparr>))))"

end
