(* ===== verification/CP_Payouts.thy ===== *)
theory CP_Payouts
  imports CP_Processing
begin

text \<open>
  What happens to a claim around its decision: disputes and their resolution, rejection by
  the admin, escalation, evidence, identity attestations, installment schedules, the release
  of delayed payouts, and the queries over claims (\<^verbatim>\<open>lib.rs\<close>, "Dispute", "Queries",
  "Payout Delay", "Escalation", "Identity Verification").
\<close>

section \<open>Disputes\<close>

definition set_dispute_window ::
  "env \<Rightarrow> address \<Rightarrow> int \<Rightarrow> 'w cp_state \<Rightarrow> (cp_error, 'w cp_state) result" where
  "set_dispute_window e admin seconds s =
     bindR (cp_require_admin e admin s) (\<lambda>_.
     if \<not> (MIN_DISPUTE_WINDOW \<le> seconds \<and> seconds \<le> MAX_DISPUTE_WINDOW)
     then panic InvalidDisputeWindow
     else Inr (log_event (EcDisputeWindowUpdated seconds) (s\<lparr>cp_dispute_window := Some seconds\<rparr>)))"

definition set_dispute_deadline ::
  "env \<Rightarrow> address \<Rightarrow> int \<Rightarrow> int \<Rightarrow> 'w cp_state \<Rightarrow> (cp_error, 'w cp_state) result" where
  "set_dispute_deadline e admin claim_id deadline s =
     bindR (cp_require_admin e admin s) (\<lambda>_.
     if deadline \<le> timestamp e then panic InvalidDisputeDeadline
     else bindR (load_claim claim_id s) (\<lambda>_.
     Inr (log_event (EcDisputeDeadlineSet claim_id deadline)
       (s\<lparr>cp_claim_dispute_deadline := (cp_claim_dispute_deadline s)(claim_id \<mapsto> deadline)\<rparr>))))"

definition get_dispute_deadline :: "int \<Rightarrow> 'w cp_state \<Rightarrow> int option" where
  "get_dispute_deadline claim_id s = cp_claim_dispute_deadline s claim_id"

definition get_user_last_claim :: "address \<Rightarrow> 'w cp_state \<Rightarrow> int" where
  "get_user_last_claim claimant s = unwrap_or 0 (cp_user_last_claim s claimant)"

definition dispute_too_late :: "env \<Rightarrow> claim \<Rightarrow> 'w cp_state \<Rightarrow> bool" where
  "dispute_too_late e claim s \<longleftrightarrow>
     (case cl_processed_at claim of
        None \<Rightarrow> False
      | Some processed_at \<Rightarrow> cl_status claim \<noteq> ClaimPending
          \<and> timestamp e > sat_u64 (processed_at + get_dispute_window s))"

definition past_dispute_deadline :: "env \<Rightarrow> int \<Rightarrow> 'w cp_state \<Rightarrow> bool" where
  "past_dispute_deadline e claim_id s \<longleftrightarrow>
     (case cp_claim_dispute_deadline s claim_id of
        None \<Rightarrow> False | Some deadline \<Rightarrow> timestamp e > deadline)"

definition dispute_claim ::
  "'w services \<Rightarrow> env \<Rightarrow> address \<Rightarrow> int \<Rightarrow> symbol \<Rightarrow> 'w cp_state \<Rightarrow>
   (cp_error, 'w cp_state) result" where
  "dispute_claim sv e caller claim_id reason s =
     bindR (require_auth e caller) (\<lambda>_.
     bindR (load_claim claim_id s) (\<lambda>claim.
     bindR (cp_engine s) (\<lambda>pe.
     bindR (call_policy sv pe (cl_policy_id claim) s) (\<lambda>policy.
     if caller \<noteq> cl_claimant claim \<and> caller \<noteq> po_policyholder policy then panic CUnauthorized
     else if cl_status claim \<noteq> ClaimPending \<and> cl_status claim \<noteq> ClaimRejected
       \<and> cl_status claim \<noteq> ClaimPartiallyPaid then panic AlreadyProcessed
     else if past_dispute_deadline e claim_id s then panic DisputeWindowExpired
     else if dispute_too_late e claim s then panic DisputeWindowExpired
     else if reason = [] then panic EmptyDisputeReason
     else if int (length reason) > MAX_DISPUTE_REASON_LEN then panic DisputeReasonTooLong
     else Inr (log_event (EcClaimDisputed claim_id caller reason)
       (remove_from_pending claim_id (s\<lparr>cp_claims := (cp_claims s)(claim_id \<mapsto>
          claim\<lparr>cl_status := ClaimDisputed, cl_dispute_reason := Some reason\<rparr>)\<rparr>)))))))"

definition resolve_dispute ::
  "env \<Rightarrow> address \<Rightarrow> int \<Rightarrow> 'w cp_state \<Rightarrow> (cp_error, 'w cp_state) result" where
  "resolve_dispute e admin claim_id s =
     bindR (cp_require_admin e admin s) (\<lambda>_.
     bindR (load_claim claim_id s) (\<lambda>claim.
     if cl_status claim \<noteq> ClaimDisputed then panic AlreadyProcessed
     else Inr (log_event (EcClaimResolved claim_id admin)
       (push_pending claim_id (s\<lparr>cp_claims := (cp_claims s)(claim_id \<mapsto>
          claim\<lparr>cl_status := ClaimPending, cl_dispute_reason := None\<rparr>)\<rparr>)))))"

definition reject_claim ::
  "env \<Rightarrow> address \<Rightarrow> int \<Rightarrow> symbol \<Rightarrow> 'w cp_state \<Rightarrow> (cp_error, 'w cp_state) result" where
  "reject_claim e admin claim_id reason s =
     bindR (cp_require_admin e admin s) (\<lambda>_.
     bindR (load_claim claim_id s) (\<lambda>claim.
     Inr (log_event (EcClaimRejected claim_id (cl_policy_id claim) reason)
       (remove_from_pending claim_id (s\<lparr>cp_claims := (cp_claims s)(claim_id \<mapsto>
          claim\<lparr>cl_status := ClaimRejected\<rparr>)\<rparr>)))))"

section \<open>Installments\<close>

definition get_claim :: "int \<Rightarrow> 'w cp_state \<Rightarrow> (cp_error, claim) result" where
  "get_claim claim_id s = load_claim claim_id s"

definition get_claim_id_for_policy :: "int \<Rightarrow> 'w cp_state \<Rightarrow> int option" where
  "get_claim_id_for_policy policy_id s = cp_policy_claim s policy_id"

definition schedule_installments ::
  "env \<Rightarrow> address \<Rightarrow> int \<Rightarrow> int \<Rightarrow> int \<Rightarrow> int \<Rightarrow> 'w cp_state \<Rightarrow> (cp_error, 'w cp_state) result" where
  "schedule_installments e caller claim_id amount_per_installment num_installments
       interval_seconds s =
     bindR (require_keeper e caller s) (\<lambda>_.
     bindR (require_not_paused s) (\<lambda>_.
     if amount_per_installment \<le> 0 then panic InvalidClaimAmount
     else if num_installments = 0 \<or> num_installments > MAX_INSTALLMENTS then panic CInvalidInput
     else bindR (get_claim claim_id s) (\<lambda>claim.
     if cl_status claim \<noteq> ClaimPaid \<and> cl_status claim \<noteq> ClaimPartiallyPaid
     then panic CInvalidInput
     else let total_amount = sat_i128 (amount_per_installment * num_installments);
              first = sat_u64 (timestamp e + interval_seconds);
              schedule = \<lparr>is_total_amount = total_amount,
                is_amount_per_installment = amount_per_installment,
                is_num_installments = num_installments, is_interval_seconds = interval_seconds,
                is_first_installment_at = first, is_paid_count = 0\<rparr>
     in if total_amount > cl_coverage_amount claim then panic CInvalidInput
        else Inr (log_event (EcInstallmentPayoutScheduled claim_id (cl_policy_id claim)
               (cl_claimant claim) total_amount num_installments interval_seconds first)
          (s\<lparr>cp_claims := (cp_claims s)(claim_id \<mapsto>
               claim\<lparr>cl_installments := [schedule]\<rparr>)\<rparr>)))))"

definition installments_due :: "env \<Rightarrow> installment_schedule \<Rightarrow> (cp_error, int) result" where
  "installments_due e sched =
     (if timestamp e \<ge> is_first_installment_at sched
      then if is_interval_seconds sched = 0 then trap
           else Inr (min (sat_u64 ((timestamp e - is_first_installment_at sched)
                                     div is_interval_seconds sched + 1))
                         (is_num_installments sched))
      else Inr 0)"

definition claim_installment ::
  "'w services \<Rightarrow> env \<Rightarrow> address \<Rightarrow> int \<Rightarrow> 'w cp_state \<Rightarrow> (cp_error, int \<times> 'w cp_state) result" where
  "claim_installment sv e claimant claim_id s =
     bindR (require_auth e claimant) (\<lambda>_.
     bindR (require_not_paused s) (\<lambda>_.
     bindR (get_claim claim_id s) (\<lambda>claim.
     if cl_claimant claim \<noteq> claimant then panic CUnauthorized
     else (case cl_installments claim of
        [] \<Rightarrow> panic CInvalidInput
      | sched # others \<Rightarrow>
          if is_paid_count sched \<ge> is_num_installments sched then panic CInvalidInput
          else bindR (installments_due e sched) (\<lambda>available.
          if available \<le> is_paid_count sched then panic CInvalidInput
          else let amount = sat_i128 (is_amount_per_installment sched
                                        * (available - is_paid_count sched))
          in bindR (or_panic CNotInitialized (cp_risk_pool s)) (\<lambda>pool.
             bindR (or_trap (sv_release_for_claim sv e pool (this e) (cl_policy_id claim)
                      (cp_world s))) (\<lambda>w.
             Inr (amount, log_event (EcInstallmentPaid claim_id claimant amount available
                    (is_num_installments sched))
               (s\<lparr>cp_world := w, cp_claims := (cp_claims s)(claim_id \<mapsto>
                    claim\<lparr>cl_installments := sched\<lparr>is_paid_count := available\<rparr> # others\<rparr>)\<rparr>)))))))))"

section \<open>Delayed payouts\<close>

definition claim_payout ::
  "'w services \<Rightarrow> env \<Rightarrow> int \<Rightarrow> 'w cp_state \<Rightarrow> (cp_error, int \<times> 'w cp_state) result" where
  "claim_payout sv e claim_id s =
     bindR (require_not_paused s) (\<lambda>_.
     bindR (load_claim claim_id s) (\<lambda>claim.
     bindR (or_panic PayoutDelayNotElapsed (cl_payout_ready_at claim)) (\<lambda>payout_ready_at.
     if timestamp e < payout_ready_at then panic PayoutDelayNotElapsed
     else bindR (or_panic ClaimNotFound (cl_paid_amount claim)) (\<lambda>paid_amount.
     if paid_amount > cl_coverage_amount claim then panic PayoutExceedsCoverage
     else let s1 = s\<lparr>cp_claims := (cp_claims s)(claim_id \<mapsto> claim\<lparr>cl_payout_ready_at := None\<rparr>)\<rparr>
     in bindR (cp_engine s1) (\<lambda>pe.
        bindR (or_panic CNotInitialized (cp_risk_pool s1)) (\<lambda>pool.
        bindR (pay_and_release sv e pe pool (cl_policy_id claim) s1) (\<lambda>s2.
        Inr (paid_amount, log_event (EcPayoutReleased claim_id (cl_policy_id claim) paid_amount)
               s2))))))))"

definition claim_payout_with_token ::
  "'w services \<Rightarrow> env \<Rightarrow> int \<Rightarrow> address \<Rightarrow> 'w cp_state \<Rightarrow> (cp_error, int \<times> 'w cp_state) result" where
  "claim_payout_with_token sv e claim_id payout_token s =
     bindR (require_not_paused s) (\<lambda>_.
     bindR (load_claim claim_id s) (\<lambda>claim.
     bindR (cp_engine s) (\<lambda>pe.
     bindR (call_policy sv pe (cl_policy_id claim) s) (\<lambda>policy.
     bindR (call_product sv pe (po_product_id policy) s) (\<lambda>product.
     if payout_token \<noteq> pr_expected_token product then panic CInvalidToken
     else claim_payout sv e claim_id s)))))"

definition claim_payout_to ::
  "'w services \<Rightarrow> env \<Rightarrow> int \<Rightarrow> address \<Rightarrow> 'w cp_state \<Rightarrow> (cp_error, int \<times> 'w cp_state) result" where
  "claim_payout_to sv e claim_id recipient s =
     bindR (load_claim claim_id s) (\<lambda>claim.
     if recipient \<noteq> cl_claimant claim then panic CUnauthorized
     else claim_payout sv e claim_id s)"

section \<open>Escalation\<close>

text \<open>The policy and the threshold of a claim's category, read from the engine.\<close>

definition escalation_terms ::
  "'w services \<Rightarrow> address \<Rightarrow> claim \<Rightarrow> 'w cp_state \<Rightarrow> (cp_error, policy \<times> int) result" where
  "escalation_terms sv pe claim s =
     bindR (call_policy sv pe (cl_policy_id claim) s) (\<lambda>policy.
     bindR (call_product sv pe (po_product_id policy) s) (\<lambda>product.
     Inr (policy, escalation_threshold (Some (pr_category product)) s)))"

definition get_claim_age ::
  "'w services \<Rightarrow> env \<Rightarrow> int \<Rightarrow> 'w cp_state \<Rightarrow> (cp_error, claim_age_info) result" where
  "get_claim_age sv e claim_id s =
     bindR (load_claim claim_id s) (\<lambda>claim.
     bindR (cp_engine s) (\<lambda>pe.
     bindR (escalation_terms sv pe claim s) (\<lambda>(_, threshold).
     let is_pending = (cl_status claim = ClaimPending);
         pending_for = (if is_pending then sat_u64 (timestamp e - cl_submitted_at claim) else 0)
     in Inr \<lparr>ca_claim_id = claim_id, ca_status = cl_status claim,
          ca_submitted_at = cl_submitted_at claim, ca_pending_for = pending_for,
          ca_escalation_threshold = threshold,
          ca_escalatable = (is_pending \<and> pending_for \<ge> threshold),
          ca_seconds_until_escalatable =
            (if \<not> is_pending then 0 else sat_u64 (threshold - pending_for))\<rparr>)))"

definition escalate_claim ::
  "'w services \<Rightarrow> env \<Rightarrow> address \<Rightarrow> int \<Rightarrow> 'w cp_state \<Rightarrow> (cp_error, 'w cp_state) result" where
  "escalate_claim sv e caller claim_id s =
     bindR (require_auth e caller) (\<lambda>_.
     bindR (require_not_paused s) (\<lambda>_.
     bindR (load_claim claim_id s) (\<lambda>claim.
     if cl_status claim \<noteq> ClaimPending then panic NotEscalatable
     else let pending_for = sat_u64 (timestamp e - cl_submitted_at claim)
     in bindR (cp_engine s) (\<lambda>pe.
        bindR (escalation_terms sv pe claim s) (\<lambda>(policy, threshold).
        if pending_for < threshold then panic NotEscalatable
        else if timestamp e > sat_u64 (po_end_time policy + claim_deadline s)
        then panic NotEscalatable
        else Inr (log_event (EcClaimEscalated claim_id (cl_policy_id claim) (cl_claimant claim)
                    pending_for caller)
          (remove_from_pending claim_id (s\<lparr>cp_claims := (cp_claims s)(claim_id \<mapsto>
             claim\<lparr>cl_status := ClaimEscalated\<rparr>)\<rparr>))))))))"

definition get_escalated_claim_context :: "int \<Rightarrow> 'w cp_state \<Rightarrow> (cp_error, claim) result" where
  "get_escalated_claim_context claim_id s = load_claim claim_id s"

fun overdue_claims ::
  "'w services \<Rightarrow> env \<Rightarrow> address \<Rightarrow> int list \<Rightarrow> 'w cp_state \<Rightarrow> (cp_error, int list) result" where
  "overdue_claims sv e pe [] s = Inr []"
| "overdue_claims sv e pe (cid # cids) s =
     bindR (case cp_claims s cid of
              None \<Rightarrow> Inr []
            | Some claim \<Rightarrow>
                if cl_status claim \<noteq> ClaimPending then Inr []
                else bindR (escalation_terms sv pe claim s) (\<lambda>(_, threshold).
                     Inr (if sat_u64 (timestamp e - cl_submitted_at claim) \<ge> threshold
                          then [cid] else []))) (\<lambda>here.
     bindR (overdue_claims sv e pe cids s) (\<lambda>rest. Inr (here @ rest)))"

definition get_escalatable_claims ::
  "'w services \<Rightarrow> env \<Rightarrow> 'w cp_state \<Rightarrow> (cp_error, int list) result" where
  "get_escalatable_claims sv e s =
     bindR (cp_engine s) (\<lambda>pe. overdue_claims sv e pe (get_pending_claims s) s)"

section \<open>Evidence and identity\<close>

definition valid_evidence :: "int list \<Rightarrow> bool" where
  "valid_evidence hash \<longleftrightarrow> hash \<noteq> [] \<and> list_ex (\<lambda>b. b \<noteq> 0) hash"

definition submit_claim_evidence ::
  "env \<Rightarrow> int \<Rightarrow> address \<Rightarrow> int list list \<Rightarrow> 'w cp_state \<Rightarrow> (cp_error, 'w cp_state) result" where
  "submit_claim_evidence e claim_id claimant evidence_hashes s =
     bindR (require_not_paused s) (\<lambda>_.
     bindR (require_auth e claimant) (\<lambda>_.
     bindR (load_claim claim_id s) (\<lambda>claim.
     if cl_claimant claim \<noteq> claimant then panic CUnauthorized
     else if int (length evidence_hashes) > MAX_EVIDENCE_FILES then panic EvidenceLimitExceeded
     else if \<not> list_all valid_evidence evidence_hashes then panic InvalidEvidence
     else Inr (s\<lparr>cp_claim_evidence :=
                    (cp_claim_evidence s)(claim_id \<mapsto> evidence_hashes)\<rparr>))))"

definition get_claim_evidence :: "int \<Rightarrow> 'w cp_state \<Rightarrow> int list list" where
  "get_claim_evidence claim_id s = unwrap_or [] (cp_claim_evidence s claim_id)"

definition verify_claimant_identity ::
  "env \<Rightarrow> address \<Rightarrow> int \<Rightarrow> symbol \<Rightarrow> 'w cp_state \<Rightarrow> (cp_error, 'w cp_state) result" where
  "verify_claimant_identity e attester claim_id id_type s =
     bindR (require_auth e attester) (\<lambda>_.
     bindR (require_admin_or_attester attester s) (\<lambda>_.
     bindR (load_claim claim_id s) (\<lambda>claim.
     Inr (log_event (EcIdentityVerified claim_id id_type (timestamp e))
       (s\<lparr>cp_claims := (cp_claims s)(claim_id \<mapsto> claim\<lparr>cl_identity_verified := True,
            cl_verification_type := Some id_type,
            cl_verification_time := Some (timestamp e)\<rparr>)\<rparr>)))))"

definition is_identity_verified :: "int \<Rightarrow> 'w cp_state \<Rightarrow> bool" where
  "is_identity_verified claim_id s =
     (case cp_claims s claim_id of None \<Rightarrow> False | Some claim \<Rightarrow> cl_identity_verified claim)"

end
