(* ===== verification/CP_Admin.thy ===== *)
theory CP_Admin
  imports CP_Payouts
begin

text \<open>
  The administration of the claims processor: initialisation, keepers, pause, upgrades and
  admin transfers with the approvals of the guardians, and the configuration of deadlines,
  escalation, payout delay, fraud detection and identity attesters (\<^verbatim>\<open>lib.rs\<close>,
  "Lifecycle", "Keeper Registry", "Admin rotation" and the configuration entry points).
\<close>

section \<open>Lifecycle and keepers\<close>

definition cp_initialize ::
  "env \<Rightarrow> address \<Rightarrow> address \<Rightarrow> address \<Rightarrow> address \<Rightarrow> int \<Rightarrow> 'w cp_state \<Rightarrow>
   (cp_error, 'w cp_state) result" where
  "cp_initialize e admin policy_engine risk_pool oracle_verifier staleness_threshold s =
     (if cp_initialized s then panic CAlreadyInitialized
      else bindR (require_auth e admin) (\<lambda>_.
      bindR (cp_validate_stellar_address admin) (\<lambda>_.
      bindR (cp_validate_stellar_address policy_engine) (\<lambda>_.
      bindR (cp_validate_stellar_address risk_pool) (\<lambda>_.
      bindR (cp_validate_stellar_address oracle_verifier) (\<lambda>_.
      Inr (log_event (EcInitialized admin policy_engine risk_pool oracle_verifier staleness_threshold)
        (s\<lparr>cp_initialized := True, cp_admin := Some admin,
           cp_policy_engine := Some policy_engine, cp_risk_pool := Some risk_pool,
           cp_oracle_verifier := Some oracle_verifier,
           cp_staleness_threshold := Some staleness_threshold, cp_next_claim_id := Some 1,
           cp_pending_claims := Some [], cp_paused := Some False,
           cp_claim_deadline := Some DEFAULT_CLAIM_DEADLINE,
           cp_escalation_threshold := Some DEFAULT_ESCALATION_THRESHOLD,
           cp_dispute_window := Some DEFAULT_DISPUTE_WINDOW\<rparr>))))))))"

definition add_keeper :: "env \<Rightarrow> address \<Rightarrow> address \<Rightarrow> 'w cp_state \<Rightarrow> (cp_error, 'w cp_state) result" where
  "add_keeper e admin keeper s =
     bindR (cp_require_admin e admin s) (\<lambda>_.
     bindR (cp_validate_stellar_address keeper) (\<lambda>_.
     Inr (log_event (EcKeeperAdded keeper) (s\<lparr>cp_keeper := (cp_keeper s)(keeper \<mapsto> True)\<rparr>))))"

definition remove_keeper :: "env \<Rightarrow> address \<Rightarrow> address \<Rightarrow> 'w cp_state \<Rightarrow> (cp_error, 'w cp_state) result" where
  "remove_keeper e admin keeper s =
     bindR (cp_require_admin e admin s) (\<lambda>_.
     Inr (log_event (EcKeeperRemoved keeper) (s\<lparr>cp_keeper := (cp_keeper s)(keeper := None)\<rparr>)))"

definition cp_get_admin :: "'w cp_state \<Rightarrow> (cp_error, address) result" where
  "cp_get_admin s = or_panic CNotInitialized (cp_admin s)"

definition cp_get_version :: "'w cp_state \<Rightarrow> int" where
  "cp_get_version s = unwrap_or 1 (cp_version s)"

definition cp_pause :: "env \<Rightarrow> address \<Rightarrow> 'w cp_state \<Rightarrow> (cp_error, 'w cp_state) result" where
  "cp_pause e admin s =
     bindR (cp_require_admin e admin s) (\<lambda>_.
     Inr (log_event (EcPaused admin) (s\<lparr>cp_paused := Some True\<rparr>)))"

definition cp_resume :: "env \<Rightarrow> address \<Rightarrow> 'w cp_state \<Rightarrow> (cp_error, 'w cp_state) result" where
  "cp_resume e admin s =
     bindR (cp_require_admin e admin s) (\<lambda>_.
     Inr (log_event (EcResumed admin) (s\<lparr>cp_paused := Some False\<rparr>)))"

definition cp_is_paused :: "'w cp_state \<Rightarrow> bool" where
  "cp_is_paused s = unwrap_or False (cp_paused s)"

section \<open>Guardians and upgrades\<close>

definition cp_get_guardians :: "'w cp_state \<Rightarrow> address list" where
  "cp_get_guardians s = unwrap_or [] (cp_guardians s)"

definition cp_get_guardian_threshold :: "'w cp_state \<Rightarrow> int" where
  "cp_get_guardian_threshold s = unwrap_or 0 (cp_guardian_threshold s)"

definition cp_get_pending_upgrade :: "'w cp_state \<Rightarrow> pending_upgrade option" where
  "cp_get_pending_upgrade s = cp_pending_upgrade s"

definition cp_require_guardian :: "env \<Rightarrow> address \<Rightarrow> 'w cp_state \<Rightarrow> (cp_error, unit) result" where
  "cp_require_guardian e guardian s =
     bindR (require_auth e guardian) (\<lambda>_.
     if guardian \<notin> set (cp_get_guardians s) then panic CNotGuardian else Inr ())"

text \<open>\<^verbatim>\<open>run_migrations\<close> is empty; the host replaces the code.\<close>

definition cp_install_upgrade :: "wasm_hash \<Rightarrow> int \<Rightarrow> 'w cp_state \<Rightarrow> 'w cp_state" where
  "cp_install_upgrade new_wasm_hash new_version s =
     log_event (EcContractUpgraded (cp_get_version s) new_version)
       (s\<lparr>cp_version := Some new_version, cp_wasm := Some new_wasm_hash\<rparr>)"

definition cp_upgrade ::
  "env \<Rightarrow> address \<Rightarrow> wasm_hash \<Rightarrow> int \<Rightarrow> 'w cp_state \<Rightarrow> (cp_error, 'w cp_state) result" where
  "cp_upgrade e admin new_wasm_hash new_version s =
     bindR (cp_require_admin e admin s) (\<lambda>_.
     if new_version \<le> cp_get_version s then panic CInvalidVersion
     else if cp_get_guardian_threshold s = 0
     then Inr (cp_install_upgrade new_wasm_hash new_version s)
     else Inr (s\<lparr>cp_pending_upgrade := Some \<lparr>pu_wasm_hash = new_wasm_hash,
                    pu_new_version = new_version, pu_approvals = []\<rparr>\<rparr>))"

definition cp_set_guardians ::
  "env \<Rightarrow> address \<Rightarrow> address list \<Rightarrow> int \<Rightarrow> 'w cp_state \<Rightarrow> (cp_error, 'w cp_state) result" where
  "cp_set_guardians e admin guardians threshold s =
     bindR (cp_require_admin e admin s) (\<lambda>_.
     if guardians \<noteq> [] \<and> threshold = 0 then panic CInvalidThreshold
     else if threshold > int (length guardians) then panic CInvalidThreshold
     else if guardians = [] \<and> threshold > 0 then panic CInvalidThreshold
     else Inr (log_event (EcGuardiansUpdated guardians threshold)
       (s\<lparr>cp_guardians := Some guardians, cp_guardian_threshold := Some threshold\<rparr>)))"

definition set_guardian_threshold ::
  "env \<Rightarrow> address \<Rightarrow> int \<Rightarrow> 'w cp_state \<Rightarrow> (cp_error, 'w cp_state) result" where
  "set_guardian_threshold e admin threshold s =
     bindR (cp_require_admin e admin s) (\<lambda>_.
     if threshold > int (length (cp_get_guardians s)) then panic CInvalidThreshold
     else if cp_get_guardians s \<noteq> [] \<and> threshold = 0 then panic CInvalidThreshold
     else Inr (log_event (EcGuardianThresholdUpdated threshold)
       (s\<lparr>cp_guardian_threshold := Some threshold\<rparr>)))"

definition cp_approve_upgrade ::
  "env \<Rightarrow> address \<Rightarrow> wasm_hash \<Rightarrow> 'w cp_state \<Rightarrow> (cp_error, 'w cp_state) result" where
  "cp_approve_upgrade e guardian new_wasm_hash s =
     bindR (cp_require_guardian e guardian s) (\<lambda>_.
     bindR (or_panic CNoPendingUpgrade (cp_pending_upgrade s)) (\<lambda>pending.
     if pu_wasm_hash pending \<noteq> new_wasm_hash then panic CNoPendingUpgrade
     else if guardian \<in> set (pu_approvals pending) then panic CAlreadyApprovedAction
     else let approvals = pu_approvals pending @ [guardian];
              threshold = cp_get_guardian_threshold s;
              s1 = log_event (EcUpgradeApproved new_wasm_hash guardian (int (length approvals))
                     threshold) s
     in if int (length approvals) \<ge> threshold
        then Inr (cp_install_upgrade new_wasm_hash (pu_new_version pending)
               (s1\<lparr>cp_pending_upgrade := None\<rparr>))
        else Inr (s1\<lparr>cp_pending_upgrade := Some (pending\<lparr>pu_approvals := approvals\<rparr>)\<rparr>)))"

definition cp_cancel_pending_upgrade ::
  "env \<Rightarrow> address \<Rightarrow> 'w cp_state \<Rightarrow> (cp_error, 'w cp_state) result" where
  "cp_cancel_pending_upgrade e admin s =
     bindR (cp_require_admin e admin s) (\<lambda>_.
     if cp_pending_upgrade s = None then panic CNoPendingUpgrade
     else Inr (s\<lparr>cp_pending_upgrade := None\<rparr>))"

section \<open>The admin role\<close>

definition cp_get_pending_admin :: "'w cp_state \<Rightarrow> address option" where
  "cp_get_pending_admin s = cp_pending_admin s"

definition cp_get_pending_admin_since :: "'w cp_state \<Rightarrow> int" where
  "cp_get_pending_admin_since s = unwrap_or 0 (cp_pending_admin_since s)"

definition cp_propose_new_admin ::
  "env \<Rightarrow> address \<Rightarrow> address \<Rightarrow> 'w cp_state \<Rightarrow> (cp_error, 'w cp_state) result" where
  "cp_propose_new_admin e admin new_admin s =
     bindR (cp_require_admin e admin s) (\<lambda>_.
     bindR (cp_validate_stellar_address new_admin) (\<lambda>_.
     if cp_pending_admin s \<noteq> None then panic CAdminTransferPending
     else if cp_get_guardian_threshold s = 0
     then Inr (s\<lparr>cp_pending_admin := Some new_admin, cp_pending_admin_since := Some (timestamp e)\<rparr>)
     else Inr (s\<lparr>cp_pending_admin_change :=
                  Some \<lparr>pac_new_admin = new_admin, pac_approvals = []\<rparr>\<rparr>)))"

definition cp_approve_admin_change ::
  "env \<Rightarrow> address \<Rightarrow> address \<Rightarrow> 'w cp_state \<Rightarrow> (cp_error, 'w cp_state) result" where
  "cp_approve_admin_change e guardian new_admin s =
     bindR (cp_require_guardian e guardian s) (\<lambda>_.
     bindR (or_panic CNoPendingUpgrade (cp_pending_admin_change s)) (\<lambda>pending.
     if pac_new_admin pending \<noteq> new_admin then panic CNoPendingUpgrade
     else if guardian \<in> set (pac_approvals pending) then panic CAlreadyApprovedAction
     else let approvals = pac_approvals pending @ [guardian]
     in if int (length approvals) \<ge> cp_get_guardian_threshold s
        then Inr (s\<lparr>cp_pending_admin_change := None, cp_pending_admin := Some new_admin,
                    cp_pending_admin_since :=
                      (case cp_pending_admin_since s of
                         None \<Rightarrow> Some (timestamp e) | Some since \<Rightarrow> Some since)\<rparr>)
        else Inr (s\<lparr>cp_pending_admin_change := Some (pending\<lparr>pac_approvals := approvals\<rparr>)\<rparr>)))"

definition cp_accept_admin :: "env \<Rightarrow> address \<Rightarrow> 'w cp_state \<Rightarrow> (cp_error, 'w cp_state) result" where
  "cp_accept_admin e admin s =
     bindR (or_panic CUnauthorized (cp_pending_admin s)) (\<lambda>pending_admin.
     if admin \<noteq> pending_admin then panic CUnauthorized
     else bindR (require_auth e admin) (\<lambda>_.
     if timestamp e < sat_u64 (cp_get_pending_admin_since s + ADMIN_TRANSFER_TIMELOCK)
     then panic CAdminTimelockNotExpired
     else Inr (log_event (EcAdminUpdated admin)
       (s\<lparr>cp_admin := Some admin, cp_pending_admin := None, cp_pending_admin_since := None\<rparr>))))"

section \<open>Configuration\<close>

definition valid_escalation :: "int \<Rightarrow> bool" where
  "valid_escalation threshold \<longleftrightarrow>
     \<not> (threshold < MIN_ESCALATION_THRESHOLD \<or> threshold > MAX_ESCALATION_THRESHOLD)"

definition set_escalation_threshold ::
  "env \<Rightarrow> address \<Rightarrow> int \<Rightarrow> 'w cp_state \<Rightarrow> (cp_error, 'w cp_state) result" where
  "set_escalation_threshold e admin threshold s =
     bindR (cp_require_admin e admin s) (\<lambda>_.
     if \<not> valid_escalation threshold then panic InvalidThresholdValue
     else Inr (log_event (EcEscalationThresholdSet threshold)
       (s\<lparr>cp_escalation_threshold := Some threshold\<rparr>)))"

text \<open>
  The host makes a \<^verbatim>\<open>Symbol\<close> of at most 32 characters. The name of the event published
  here has 33, so the call always traps (\<open>category_escalation_never_set\<close>); the names of all
  other events of the contracts fit.
\<close>

definition symbol_new :: "string \<Rightarrow> ('e, symbol) result" where
  "symbol_new name = (if length name \<le> 32 then Inr name else trap)"

definition set_category_escalation ::
  "env \<Rightarrow> address \<Rightarrow> symbol \<Rightarrow> int \<Rightarrow> 'w cp_state \<Rightarrow> (cp_error, 'w cp_state) result" where
  "set_category_escalation e admin category threshold s =
     bindR (cp_require_admin e admin s) (\<lambda>_.
     if \<not> valid_escalation threshold then panic InvalidThresholdValue
     else bindR (symbol_new ''category_escalation_threshold_set'') (\<lambda>_.
     Inr (log_event (EcCategoryEscalationThresholdSet category threshold)
       (s\<lparr>cp_category_escalation := (cp_category_escalation s)(category \<mapsto> threshold)\<rparr>))))"

lemma category_escalation_never_set: "set_category_escalation e admin category threshold s \<noteq> Inr s'"
  by (simp add: set_category_escalation_def symbol_new_def bindR_eq_Inr)

definition get_escalation_threshold :: "'w cp_state \<Rightarrow> int" where
  "get_escalation_threshold s = escalation_threshold None s"

definition get_category_escalation :: "symbol \<Rightarrow> 'w cp_state \<Rightarrow> int option" where
  "get_category_escalation category s = cp_category_escalation s category"

definition set_claim_deadline ::
  "env \<Rightarrow> address \<Rightarrow> int \<Rightarrow> 'w cp_state \<Rightarrow> (cp_error, 'w cp_state) result" where
  "set_claim_deadline e admin deadline s =
     bindR (cp_require_admin e admin s) (\<lambda>_.
     if deadline \<noteq> 0 \<and> deadline < MIN_ESCALATION_THRESHOLD then panic InvalidThresholdValue
     else if deadline > MAX_CLAIM_DEADLINE then panic InvalidThresholdValue
     else Inr (log_event (EcClaimDeadlineSet deadline) (s\<lparr>cp_claim_deadline := Some deadline\<rparr>)))"

definition get_claim_deadline :: "'w cp_state \<Rightarrow> int" where
  "get_claim_deadline s = claim_deadline s"

definition set_payout_delay ::
  "env \<Rightarrow> address \<Rightarrow> int \<Rightarrow> 'w cp_state \<Rightarrow> (cp_error, 'w cp_state) result" where
  "set_payout_delay e admin delay_seconds s =
     bindR (cp_require_admin e admin s) (\<lambda>_.
     if delay_seconds < 0 then panic CInvalidInput
     else if delay_seconds > MAX_PAYOUT_DELAY then panic PayoutDelayTooLong
     else Inr (log_event (EcPayoutDelaySet delay_seconds)
       (s\<lparr>cp_payout_delay := Some delay_seconds\<rparr>)))"

definition get_payout_delay :: "'w cp_state \<Rightarrow> int" where
  "get_payout_delay s = payout_delay s"

definition set_fraud_config ::
  "env \<Rightarrow> address \<Rightarrow> fraud_config \<Rightarrow> 'w cp_state \<Rightarrow> (cp_error, 'w cp_state) result" where
  "set_fraud_config e admin config s =
     bindR (cp_require_admin e admin s) (\<lambda>_.
     if fc_fraud_threshold_score config > MAX_FRAUD_SCORE then panic CInvalidInput
     else Inr (log_event (EcFraudConfigUpdated config) (s\<lparr>cp_fraud_config := Some config\<rparr>)))"

definition get_fraud_config :: "'w cp_state \<Rightarrow> fraud_config option" where
  "get_fraud_config s = cp_fraud_config s"

definition get_fraud_record :: "int \<Rightarrow> 'w cp_state \<Rightarrow> fraud_record option" where
  "get_fraud_record claim_id s = cp_fraud_record s claim_id"

definition get_claimant_history :: "address \<Rightarrow> 'w cp_state \<Rightarrow> claimant_history" where
  "get_claimant_history claimant s = stored_history claimant s"

definition require_identity_for_category ::
  "env \<Rightarrow> address \<Rightarrow> int \<Rightarrow> symbol \<Rightarrow> 'w cp_state \<Rightarrow> (cp_error, 'w cp_state) result" where
  "require_identity_for_category e admin product_id id_type s =
     bindR (cp_require_admin e admin s) (\<lambda>_.
     Inr (log_event (EcIdentityRequirementSet product_id id_type)
       (s\<lparr>cp_identity_requirement := (cp_identity_requirement s)(product_id \<mapsto> id_type)\<rparr>)))"

definition remove_identity_requirement ::
  "env \<Rightarrow> address \<Rightarrow> int \<Rightarrow> 'w cp_state \<Rightarrow> (cp_error, 'w cp_state) result" where
  "remove_identity_requirement e admin product_id s =
     bindR (cp_require_admin e admin s) (\<lambda>_.
     Inr (log_event (EcIdentityRequirementRemoved product_id)
       (s\<lparr>cp_identity_requirement := (cp_identity_requirement s)(product_id := None)\<rparr>)))"

definition get_identity_requirement :: "int \<Rightarrow> 'w cp_state \<Rightarrow> symbol option" where
  "get_identity_requirement product_id s = cp_identity_requirement s product_id"

definition get_authorized_attesters :: "'w cp_state \<Rightarrow> address list" where
  "get_authorized_attesters s = unwrap_or [] (cp_authorized_attesters s)"

definition add_authorized_attester ::
  "env \<Rightarrow> address \<Rightarrow> address \<Rightarrow> 'w cp_state \<Rightarrow> (cp_error, 'w cp_state) result" where
  "add_authorized_attester e admin attester s =
     bindR (cp_require_admin e admin s) (\<lambda>_.
     if attester \<in> set (get_authorized_attesters s) then Inr s
     else Inr (log_event (EcAttesterAdded attester)
       (s\<lparr>cp_authorized_attesters := Some (get_authorized_attesters s @ [attester])\<rparr>)))"

definition remove_authorized_attester ::
  "env \<Rightarrow> address \<Rightarrow> address \<Rightarrow> 'w cp_state \<Rightarrow> (cp_error, 'w cp_state) result" where
  "remove_authorized_attester e admin attester s =
     bindR (cp_require_admin e admin s) (\<lambda>_.
     Inr (log_event (EcAttesterRemoved attester)
       (if attester \<in> set (get_authorized_attesters s)
        then s\<lparr>cp_authorized_attesters := Some (remove1 attester (get_authorized_attesters s))\<rparr>
        else s)))"

lemma cp_require_guardian_ok [result_simps]:
  "cp_require_guardian e g s = Inr u \<longleftrightarrow> auth e g \<and> g \<in> set (cp_get_guardians s)"
  by (auto simp: cp_require_guardian_def require_auth_def result_simps)

end
