(* ===== verification/CP_System.thy ===== *)
theory CP_System
  imports CP_Admin RP_System
begin

text \<open>
  The claims processor as a transition system: its entry points that may change the storage
  or the world as one call type with its dispatcher. \<open>Elsewhere w\<close> is anything that happens
  to the rest of the world between two calls of the processor.
\<close>

section \<open>Calls\<close>

datatype claim_call =
    SubmitClaim address int
  | SubmitClaimWithRef address int symbol
  | SubmitClaimWithType address int symbol
  | BatchSubmitClaims address "int list"
  | ProcessClaim address int "int option"
  | BatchProcessClaims address "int list" "int option"
  | BatchVerifyOracleReadings "oracle_reading_query list"
  | VerifyReadingsIndividual "oracle_reading_query list"
  | ProcessMultiReadingClaim address int "oracle_reading_query list" bool "int option"
  | AutoProcess address int "int option"
  | BatchAutoProcess address int

datatype review_call =
    SetDisputeDeadline address int int
  | DisputeClaim address int symbol
  | ResolveDispute address int
  | RejectClaim address int symbol
  | ScheduleInstallments address int int int int
  | ClaimInstallment address int
  | ClaimPayout int
  | ClaimPayoutWithToken int address
  | ClaimPayoutTo int address
  | EscalateClaim address int
  | SubmitClaimEvidence int address "int list list"
  | VerifyClaimantIdentity address int symbol

datatype config_call =
    CpInitialize address address address address int
  | AddKeeper address address
  | RemoveKeeper address address
  | RegisterClaimType address symbol
  | SetDisputeWindow address int
  | CpPause address
  | CpResume address
  | CpUpgrade address wasm_hash int
  | CpSetGuardians address "address list" int
  | SetGuardianThreshold address int
  | CpApproveUpgrade address wasm_hash
  | CpCancelPendingUpgrade address
  | CpProposeNewAdmin address address
  | CpApproveAdminChange address address
  | CpAcceptAdmin address
  | SetEscalationThreshold address int
  | SetCategoryEscalation address symbol int
  | SetClaimDeadline address int
  | SetPayoutDelay address int
  | SetFraudConfig address fraud_config
  | RequireIdentityForCategory address int symbol
  | RemoveIdentityRequirement address int
  | AddAuthorizedAttester address address
  | RemoveAuthorizedAttester address address

datatype 'w cp_call =
    File claim_call | Review review_call | Configure config_call | Elsewhere 'w

text \<open>A value outside the Rust type of its parameter never reaches the contract.\<close>

definition bps_typed :: "int option \<Rightarrow> bool" where
  "bps_typed b \<longleftrightarrow> (case b of None \<Rightarrow> True | Some n \<Rightarrow> within u32_max n)"

definition fits_i64 :: "int \<Rightarrow> bool" where
  "fits_i64 n \<longleftrightarrow> - 9223372036854775808 \<le> n \<and> n \<le> 9223372036854775807"

definition query_typed :: "oracle_reading_query \<Rightarrow> bool" where
  "query_typed q \<longleftrightarrow> within u64_max (rq_staleness_threshold q)
     \<and> fits_i128 (tc_threshold (rq_condition q)) \<and> fits_i128 (tc_tolerance (rq_condition q))"

definition fraud_config_typed :: "fraud_config \<Rightarrow> bool" where
  "fraud_config_typed c \<longleftrightarrow> within u64_max (fc_rate_window_secs c) \<and> within u32_max (fc_rate_score c)
     \<and> within u64_max (fc_burst_window_secs c) \<and> within u32_max (fc_burst_count c)
     \<and> within u32_max (fc_burst_score c) \<and> within u32_max (fc_coverage_anomaly_multiplier c)
     \<and> within u32_max (fc_coverage_score c) \<and> within u32_max (fc_fraud_threshold_score c)"

primrec claim_typed :: "claim_call \<Rightarrow> bool" where
  "claim_typed (SubmitClaim a i) \<longleftrightarrow> within u128_max i"
| "claim_typed (SubmitClaimWithRef a i r) \<longleftrightarrow> within u128_max i"
| "claim_typed (SubmitClaimWithType a i t) \<longleftrightarrow> within u128_max i"
| "claim_typed (BatchSubmitClaims a is) \<longleftrightarrow> list_all (within u128_max) is"
| "claim_typed (ProcessClaim k i b) \<longleftrightarrow> within u128_max i \<and> bps_typed b"
| "claim_typed (BatchProcessClaims k is b) \<longleftrightarrow> list_all (within u128_max) is \<and> bps_typed b"
| "claim_typed (BatchVerifyOracleReadings qs) \<longleftrightarrow> list_all query_typed qs"
| "claim_typed (VerifyReadingsIndividual qs) \<longleftrightarrow> list_all query_typed qs"
| "claim_typed (ProcessMultiReadingClaim k i qs al b) \<longleftrightarrow> within u128_max i \<and> list_all query_typed qs \<and> bps_typed b"
| "claim_typed (AutoProcess k i b) \<longleftrightarrow> within u128_max i \<and> bps_typed b"
| "claim_typed (BatchAutoProcess k n) \<longleftrightarrow> within u32_max n"

primrec review_typed :: "review_call \<Rightarrow> bool" where
  "review_typed (SetDisputeDeadline a i t) \<longleftrightarrow> within u128_max i \<and> within u64_max t"
| "review_typed (DisputeClaim a i r) \<longleftrightarrow> within u128_max i"
| "review_typed (ResolveDispute a i) \<longleftrightarrow> within u128_max i"
| "review_typed (RejectClaim a i r) \<longleftrightarrow> within u128_max i"
| "review_typed (ScheduleInstallments k i n m t) \<longleftrightarrow> within u128_max i \<and> fits_i128 n \<and> within u32_max m \<and> within u64_max t"
| "review_typed (ClaimInstallment a i) \<longleftrightarrow> within u128_max i"
| "review_typed (ClaimPayout i) \<longleftrightarrow> within u128_max i"
| "review_typed (ClaimPayoutWithToken i t) \<longleftrightarrow> within u128_max i"
| "review_typed (ClaimPayoutTo i r) \<longleftrightarrow> within u128_max i"
| "review_typed (EscalateClaim a i) \<longleftrightarrow> within u128_max i"
| "review_typed (SubmitClaimEvidence i a hs) \<longleftrightarrow> within u128_max i"
| "review_typed (VerifyClaimantIdentity a i t) \<longleftrightarrow> within u128_max i"

primrec config_typed :: "config_call \<Rightarrow> bool" where
  "config_typed (CpInitialize a pe rp ov t) \<longleftrightarrow> within u64_max t"
| "config_typed (AddKeeper a k) \<longleftrightarrow> True"
| "config_typed (RemoveKeeper a k) \<longleftrightarrow> True"
| "config_typed (RegisterClaimType a t) \<longleftrightarrow> True"
| "config_typed (SetDisputeWindow a t) \<longleftrightarrow> within u64_max t"
| "config_typed (CpPause a) \<longleftrightarrow> True"
| "config_typed (CpResume a) \<longleftrightarrow> True"
| "config_typed (CpUpgrade a h v) \<longleftrightarrow> within u32_max v"
| "config_typed (CpSetGuardians a gs n) \<longleftrightarrow> within u32_max n"
| "config_typed (SetGuardianThreshold a n) \<longleftrightarrow> within u32_max n"
| "config_typed (CpApproveUpgrade g h) \<longleftrightarrow> True"
| "config_typed (CpCancelPendingUpgrade a) \<longleftrightarrow> True"
| "config_typed (CpProposeNewAdmin a n) \<longleftrightarrow> True"
| "config_typed (CpApproveAdminChange g n) \<longleftrightarrow> True"
| "config_typed (CpAcceptAdmin a) \<longleftrightarrow> True"
| "config_typed (SetEscalationThreshold a t) \<longleftrightarrow> within u64_max t"
| "config_typed (SetCategoryEscalation a c t) \<longleftrightarrow> within u64_max t"
| "config_typed (SetClaimDeadline a t) \<longleftrightarrow> within u64_max t"
| "config_typed (SetPayoutDelay a t) \<longleftrightarrow> fits_i64 t"
| "config_typed (SetFraudConfig a c) \<longleftrightarrow> fraud_config_typed c"
| "config_typed (RequireIdentityForCategory a i t) \<longleftrightarrow> within u128_max i"
| "config_typed (RemoveIdentityRequirement a i) \<longleftrightarrow> within u128_max i"
| "config_typed (AddAuthorizedAttester a b) \<longleftrightarrow> True"
| "config_typed (RemoveAuthorizedAttester a b) \<longleftrightarrow> True"

primrec cp_typed :: "'w cp_call \<Rightarrow> bool" where
  "cp_typed (File c) \<longleftrightarrow> claim_typed c"
| "cp_typed (Review c) \<longleftrightarrow> review_typed c"
| "cp_typed (Configure c) \<longleftrightarrow> config_typed c"
| "cp_typed (Elsewhere w) \<longleftrightarrow> True"

section \<open>Dispatch\<close>

primrec claim_dispatch ::
  "'w services \<Rightarrow> env \<Rightarrow> claim_call \<Rightarrow> 'w cp_state \<Rightarrow> (cp_error, 'w cp_state) result" where
  "claim_dispatch sv e (SubmitClaim a i) s = done_with (submit_claim sv e a i s)"
| "claim_dispatch sv e (SubmitClaimWithRef a i r) s = done_with (submit_claim_with_ref sv e a i r s)"
| "claim_dispatch sv e (SubmitClaimWithType a i t) s = done_with (submit_claim_with_type sv e a i t s)"
| "claim_dispatch sv e (BatchSubmitClaims a is) s = done_with (batch_submit_claims sv e a is s)"
| "claim_dispatch sv e (ProcessClaim k i b) s = done_with (process_claim sv e k i b s)"
| "claim_dispatch sv e (BatchProcessClaims k is b) s = done_with (batch_process_claims sv e k is b s)"
| "claim_dispatch sv e (BatchVerifyOracleReadings qs) s = done_with (batch_verify_oracle_readings sv e qs s)"
| "claim_dispatch sv e (VerifyReadingsIndividual qs) s = done_with (verify_readings_individual sv e qs s)"
| "claim_dispatch sv e (ProcessMultiReadingClaim k i qs al b) s = done_with (process_multi_reading_claim sv e k i qs al b s)"
| "claim_dispatch sv e (AutoProcess k i b) s = done_with (auto_process sv e k i b s)"
| "claim_dispatch sv e (BatchAutoProcess k n) s = done_with (batch_auto_process sv e k n s)"

primrec review_dispatch ::
  "'w services \<Rightarrow> env \<Rightarrow> review_call \<Rightarrow> 'w cp_state \<Rightarrow> (cp_error, 'w cp_state) result" where
  "review_dispatch sv e (SetDisputeDeadline a i t) s = set_dispute_deadline e a i t s"
| "review_dispatch sv e (DisputeClaim a i r) s = dispute_claim sv e a i r s"
| "review_dispatch sv e (ResolveDispute a i) s = resolve_dispute e a i s"
| "review_dispatch sv e (RejectClaim a i r) s = reject_claim e a i r s"
| "review_dispatch sv e (ScheduleInstallments k i n m t) s = schedule_installments e k i n m t s"
| "review_dispatch sv e (ClaimInstallment a i) s = done_with (claim_installment sv e a i s)"
| "review_dispatch sv e (ClaimPayout i) s = done_with (claim_payout sv e i s)"
| "review_dispatch sv e (ClaimPayoutWithToken i t) s = done_with (claim_payout_with_token sv e i t s)"
| "review_dispatch sv e (ClaimPayoutTo i r) s = done_with (claim_payout_to sv e i r s)"
| "review_dispatch sv e (EscalateClaim a i) s = escalate_claim sv e a i s"
| "review_dispatch sv e (SubmitClaimEvidence i a hs) s = submit_claim_evidence e i a hs s"
| "review_dispatch sv e (VerifyClaimantIdentity a i t) s = verify_claimant_identity e a i t s"

primrec config_dispatch ::
  "'w services \<Rightarrow> env \<Rightarrow> config_call \<Rightarrow> 'w cp_state \<Rightarrow> (cp_error, 'w cp_state) result" where
  "config_dispatch sv e (CpInitialize a pe rp ov t) s = cp_initialize e a pe rp ov t s"
| "config_dispatch sv e (AddKeeper a k) s = add_keeper e a k s"
| "config_dispatch sv e (RemoveKeeper a k) s = remove_keeper e a k s"
| "config_dispatch sv e (RegisterClaimType a t) s = register_claim_type sv e a t s"
| "config_dispatch sv e (SetDisputeWindow a t) s = set_dispute_window e a t s"
| "config_dispatch sv e (CpPause a) s = cp_pause e a s"
| "config_dispatch sv e (CpResume a) s = cp_resume e a s"
| "config_dispatch sv e (CpUpgrade a h v) s = cp_upgrade e a h v s"
| "config_dispatch sv e (CpSetGuardians a gs n) s = cp_set_guardians e a gs n s"
| "config_dispatch sv e (SetGuardianThreshold a n) s = set_guardian_threshold e a n s"
| "config_dispatch sv e (CpApproveUpgrade g h) s = cp_approve_upgrade e g h s"
| "config_dispatch sv e (CpCancelPendingUpgrade a) s = cp_cancel_pending_upgrade e a s"
| "config_dispatch sv e (CpProposeNewAdmin a n) s = cp_propose_new_admin e a n s"
| "config_dispatch sv e (CpApproveAdminChange g n) s = cp_approve_admin_change e g n s"
| "config_dispatch sv e (CpAcceptAdmin a) s = cp_accept_admin e a s"
| "config_dispatch sv e (SetEscalationThreshold a t) s = set_escalation_threshold e a t s"
| "config_dispatch sv e (SetCategoryEscalation a c t) s = set_category_escalation e a c t s"
| "config_dispatch sv e (SetClaimDeadline a t) s = set_claim_deadline e a t s"
| "config_dispatch sv e (SetPayoutDelay a t) s = set_payout_delay e a t s"
| "config_dispatch sv e (SetFraudConfig a c) s = set_fraud_config e a c s"
| "config_dispatch sv e (RequireIdentityForCategory a i t) s = require_identity_for_category e a i t s"
| "config_dispatch sv e (RemoveIdentityRequirement a i) s = remove_identity_requirement e a i s"
| "config_dispatch sv e (AddAuthorizedAttester a b) s = add_authorized_attester e a b s"
| "config_dispatch sv e (RemoveAuthorizedAttester a b) s = remove_authorized_attester e a b s"

primrec cp_dispatch ::
  "'w services \<Rightarrow> env \<Rightarrow> 'w cp_call \<Rightarrow> 'w cp_state \<Rightarrow> (cp_error, 'w cp_state) result" where
  "cp_dispatch sv e (File c) s = claim_dispatch sv e c s"
| "cp_dispatch sv e (Review c) s = review_dispatch sv e c s"
| "cp_dispatch sv e (Configure c) s = config_dispatch sv e c s"
| "cp_dispatch sv e (Elsewhere w) s = Inr (s\<lparr>cp_world := w\<rparr>)"

definition cp_exec ::
  "'w services \<Rightarrow> env \<Rightarrow> 'w cp_call \<Rightarrow> 'w cp_state \<Rightarrow> (cp_error, 'w cp_state) result" where
  "cp_exec sv e c s = (if cp_typed c then cp_dispatch sv e c s else trap)"

lemma cp_exec_ok [result_simps]:
  "cp_exec sv e c s = Inr s' \<longleftrightarrow> cp_typed c \<and> cp_dispatch sv e c s = Inr s'"
  by (auto simp: cp_exec_def)

end
