(* ===== verification/CP_Docket.thy ===== *)
theory CP_Docket
  imports CP_System "HOL-Library.Multiset"
begin

text \<open>
  The docket: what the claims processor knows of the claims, as an abstract machine. Its
  steps are the elementary things that happen to a claim; every operation of the contract is
  a sequence of them.
\<close>

section \<open>The docket and its steps\<close>

text \<open>The part of the storage that only configuration changes, and no step touches.\<close>

record wiring =
  wi_initialized :: bool
  wi_admin :: "address option"
  wi_policy_engine :: "address option"
  wi_risk_pool :: "address option"
  wi_oracle_verifier :: "address option"
  wi_keeper :: "address \<rightharpoonup> bool"
  wi_guardians :: "address list option"
  wi_pending_admin :: "address option"
  wi_payout_delay :: "int option"

definition wiring_of :: "'w cp_state \<Rightarrow> wiring" where
  "wiring_of s = \<lparr>wi_initialized = cp_initialized s, wi_admin = cp_admin s,
     wi_policy_engine = cp_policy_engine s, wi_risk_pool = cp_risk_pool s,
     wi_oracle_verifier = cp_oracle_verifier s, wi_keeper = cp_keeper s,
     wi_guardians = cp_guardians s, wi_pending_admin = cp_pending_admin s,
     wi_payout_delay = cp_payout_delay s\<rparr>"

record 'w docket =
  dk_claims :: "int \<rightharpoonup> claim"
  dk_index :: "int \<rightharpoonup> int"
  dk_next :: int
  dk_queue :: "int list"
  dk_world :: 'w
  dk_wiring :: wiring

definition docket_of :: "'w cp_state \<Rightarrow> 'w docket" where
  "docket_of s = \<lparr>dk_claims = cp_claims s, dk_index = cp_policy_claim s,
     dk_next = unwrap_or 1 (cp_next_claim_id s), dk_queue = get_pending_claims s,
     dk_world = cp_world s, dk_wiring = wiring_of s\<rparr>"

text \<open>
  A decision on a pending claim: the payout is made at once, kept back until its time, or
  refused. \<open>decided now c c'\<close> fixes what the record says of it.
\<close>

definition paid_part :: "claim \<Rightarrow> claim \<Rightarrow> bool" where
  "paid_part c c' \<longleftrightarrow>
     (cl_status c' = ClaimPaid \<and> cl_paid_amount c' = Some (cl_coverage_amount c)
        \<and> cl_partial_payout_bps c' = Some 10000)
   \<or> (\<exists>b. 0 \<le> b \<and> b < 10000 \<and> cl_status c' = ClaimPartiallyPaid \<and> cl_partial_payout_bps c' = Some b
        \<and> cl_paid_amount c' = Some ((cl_coverage_amount c * b) sdiv 10000)
        \<and> (cl_coverage_amount c * b) sdiv 10000 \<le> cl_coverage_amount c)"

definition same_filing :: "claim \<Rightarrow> claim \<Rightarrow> bool" where
  "same_filing c c' \<longleftrightarrow> cl_id c' = cl_id c \<and> cl_policy_id c' = cl_policy_id c
     \<and> cl_claimant c' = cl_claimant c \<and> cl_coverage_amount c' = cl_coverage_amount c
     \<and> cl_submitted_at c' = cl_submitted_at c"

definition decided :: "int \<Rightarrow> bool \<Rightarrow> claim \<Rightarrow> claim \<Rightarrow> bool" where
  "decided now met c c' \<longleftrightarrow>
     same_filing c c' \<and> cl_trigger_met c' = met \<and> cl_processed_at c' = Some now
     \<and> (if met then paid_part c c'
        else cl_status c' = ClaimRejected \<and> cl_paid_amount c' = cl_paid_amount c
           \<and> cl_partial_payout_bps c' = cl_partial_payout_bps c
           \<and> cl_payout_ready_at c' = cl_payout_ready_at c)"

text \<open>Notes on a claim that leave its decision and its payout alone.\<close>

definition annotated :: "claim \<Rightarrow> claim \<Rightarrow> bool" where
  "annotated c c' \<longleftrightarrow> same_filing c c' \<and> cl_status c' = cl_status c
     \<and> cl_paid_amount c' = cl_paid_amount c \<and> cl_partial_payout_bps c' = cl_partial_payout_bps c
     \<and> cl_payout_ready_at c' = cl_payout_ready_at c \<and> cl_processed_at c' = cl_processed_at c"

definition payout ::
  "'w services \<Rightarrow> env \<Rightarrow> int \<Rightarrow> 'w \<Rightarrow> 'w \<Rightarrow> bool" where
  "payout sv e i w w' \<longleftrightarrow> (\<exists>pe pool w1. sv_pay_claim sv e pe (this e) i w = Some w1
     \<and> sv_release_for_claim sv e pool (this e) i w1 = Some w')"

text \<open>
  The steps that settle a claim exist only where \<open>st\<close> holds, and those that review one, the
  dispute, its resolution, the rejection and the escalation, only where \<open>rv\<close> holds.
\<close>

inductive docket_step :: "bool \<Rightarrow> bool \<Rightarrow> 'w services \<Rightarrow> env \<Rightarrow> 'w docket \<Rightarrow> 'w docket \<Rightarrow> bool"
  for st rv :: bool and sv :: "'w services" and e :: env where
  dk_open: "dk_index d p = None \<Longrightarrow> i = dk_next d \<Longrightarrow> 0 < cov \<Longrightarrow>
     wi_policy_engine (dk_wiring d) = Some pe \<Longrightarrow>
     sv_policy sv (dk_world d) pe p = Some po \<Longrightarrow> cov = po_coverage_amount po \<Longrightarrow>
     a = po_policyholder po \<Longrightarrow> po_status po = PolicyActive \<Longrightarrow>
     docket_step st rv sv e d (d\<lparr>dk_claims := (dk_claims d)(i \<mapsto> new_claim i p a cov (timestamp e)),
        dk_index := (dk_index d)(p \<mapsto> i), dk_next := i + 1, dk_queue := dk_queue d @ [i]\<rparr>)"
| dk_pay: "dk_claims d i = Some c \<Longrightarrow> cl_status c = ClaimPending \<Longrightarrow>
     decided (timestamp e) True c c' \<Longrightarrow> cl_payout_ready_at c' = cl_payout_ready_at c \<Longrightarrow>
     payout sv e (cl_policy_id c) (dk_world d) w \<Longrightarrow> st \<Longrightarrow>
     docket_step st rv sv e d (d\<lparr>dk_claims := (dk_claims d)(cl_id c \<mapsto> c'),
        dk_queue := remove1 (cl_id c) (dk_queue d), dk_world := w\<rparr>)"
| dk_delay: "dk_claims d i = Some c \<Longrightarrow> cl_status c = ClaimPending \<Longrightarrow>
     decided (timestamp e) True c c' \<Longrightarrow>
     delay = unwrap_or 0 (wi_payout_delay (dk_wiring d)) \<Longrightarrow> 0 < delay \<Longrightarrow>
     cl_payout_ready_at c' = Some (sat_u64 (timestamp e + delay)) \<Longrightarrow> st \<Longrightarrow>
     docket_step st rv sv e d (d\<lparr>dk_claims := (dk_claims d)(cl_id c \<mapsto> c'),
        dk_queue := remove1 (cl_id c) (dk_queue d)\<rparr>)"
| dk_refuse: "dk_claims d i = Some c \<Longrightarrow> cl_status c = ClaimPending \<Longrightarrow>
     decided (timestamp e) False c c' \<Longrightarrow> st \<Longrightarrow>
     docket_step st rv sv e d (d\<lparr>dk_claims := (dk_claims d)(cl_id c \<mapsto> c'),
        dk_queue := remove1 (cl_id c) (dk_queue d)\<rparr>)"
| dk_release: "dk_claims d i = Some c \<Longrightarrow> cl_payout_ready_at c = Some t \<Longrightarrow> t \<le> timestamp e \<Longrightarrow>
     cl_paid_amount c = Some n \<Longrightarrow> n \<le> cl_coverage_amount c \<Longrightarrow>
     payout sv e (cl_policy_id c) (dk_world d) w \<Longrightarrow>
     docket_step st rv sv e d (d\<lparr>dk_claims := (dk_claims d)(i \<mapsto> c\<lparr>cl_payout_ready_at := None\<rparr>),
        dk_world := w\<rparr>)"
| dk_dispute: "dk_claims d i = Some c \<Longrightarrow>
     cl_status c \<in> {ClaimPending, ClaimRejected, ClaimPartiallyPaid} \<Longrightarrow> rv \<Longrightarrow>
     docket_step st rv sv e d (d\<lparr>dk_claims := (dk_claims d)(i \<mapsto>
          c\<lparr>cl_status := ClaimDisputed, cl_dispute_reason := Some r\<rparr>),
        dk_queue := remove1 i (dk_queue d)\<rparr>)"
| dk_resolve: "dk_claims d i = Some c \<Longrightarrow> cl_status c = ClaimDisputed \<Longrightarrow> rv \<Longrightarrow>
     docket_step st rv sv e d (d\<lparr>dk_claims := (dk_claims d)(i \<mapsto>
          c\<lparr>cl_status := ClaimPending, cl_dispute_reason := None\<rparr>),
        dk_queue := dk_queue d @ [i]\<rparr>)"
| dk_reject: "dk_claims d i = Some c \<Longrightarrow> rv \<Longrightarrow>
     docket_step st rv sv e d (d\<lparr>dk_claims := (dk_claims d)(i \<mapsto> c\<lparr>cl_status := ClaimRejected\<rparr>),
        dk_queue := remove1 i (dk_queue d)\<rparr>)"
| dk_escalate: "dk_claims d i = Some c \<Longrightarrow> cl_status c = ClaimPending \<Longrightarrow> rv \<Longrightarrow>
     docket_step st rv sv e d (d\<lparr>dk_claims := (dk_claims d)(i \<mapsto> c\<lparr>cl_status := ClaimEscalated\<rparr>),
        dk_queue := remove1 i (dk_queue d)\<rparr>)"
| dk_annotate: "dk_claims d i = Some c \<Longrightarrow> annotated c c' \<Longrightarrow>
     docket_step st rv sv e d (d\<lparr>dk_claims := (dk_claims d)(i \<mapsto> c')\<rparr>)"
| dk_requeue: "mset q = mset (filter (\<lambda>i. dk_claims d i \<noteq> None) (dk_queue d)) \<Longrightarrow>
     docket_step st rv sv e d (d\<lparr>dk_queue := q\<rparr>)"
| dk_oracle: "sv_verify_trigger_fresh sv e ov dt k tc m (dk_world d) = Some (b, w) \<Longrightarrow>
     docket_step st rv sv e d (d\<lparr>dk_world := w\<rparr>)"
| dk_oracles: "sv_batch_verify_fresh sv e ov qs (dk_world d) = Some (bs, w) \<Longrightarrow>
     docket_step st rv sv e d (d\<lparr>dk_world := w\<rparr>)"
| dk_expire: "sv_expire_policy sv e pe (this e) p (dk_world d) = Some w1 \<Longrightarrow>
     sv_release_for_expiry sv e pool (this e) p w1 = Some w \<Longrightarrow>
     docket_step st rv sv e d (d\<lparr>dk_world := w\<rparr>)"
| dk_unlock: "dk_claims d i = Some c \<Longrightarrow> annotated c c' \<Longrightarrow>
     sv_release_for_claim sv e pool (this e) (cl_policy_id c) (dk_world d) = Some w \<Longrightarrow>
     docket_step st rv sv e d (d\<lparr>dk_claims := (dk_claims d)(i \<mapsto> c'), dk_world := w\<rparr>)"

definition docket_steps :: "bool \<Rightarrow> bool \<Rightarrow> 'w services \<Rightarrow> env \<Rightarrow> 'w docket \<Rightarrow> 'w docket \<Rightarrow> bool" where
  "docket_steps st rv sv e = (docket_step st rv sv e)\<^sup>*\<^sup>*"

lemma docket_steps_refl [simp, intro]: "docket_steps st rv sv e d d"
  by (simp add: docket_steps_def)

lemma docket_steps_one: "docket_step st rv sv e d d' \<Longrightarrow> docket_steps st rv sv e d d'"
  by (auto simp: docket_steps_def)

lemma docket_steps_trans: "docket_steps st rv sv e d d' \<Longrightarrow> docket_steps st rv sv e d' d'' \<Longrightarrow> docket_steps st rv sv e d d''"
  unfolding docket_steps_def by (rule rtranclp_trans)

lemma docket_steps_inv:
  assumes "docket_steps st rv sv e d d'" "P d" "\<And>a b. P a \<Longrightarrow> docket_step st rv sv e a b \<Longrightarrow> P b"
  shows "P d'"
  using assms(1) unfolding docket_steps_def
  by (induction rule: rtranclp_induct) (auto intro: assms(2,3))

lemma docket_cong:
  assumes "cp_claims s' = cp_claims s" "cp_policy_claim s' = cp_policy_claim s"
    and "cp_next_claim_id s' = cp_next_claim_id s" "cp_pending_claims s' = cp_pending_claims s"
    and "cp_world s' = cp_world s" "wiring_of s' = wiring_of s"
  shows "docket_of s' = docket_of s"
  using assms by (simp add: docket_of_def get_pending_claims_def)

lemma docket_fields [simp]:
  "dk_claims (docket_of s) = cp_claims s" "dk_index (docket_of s) = cp_policy_claim s"
  "dk_next (docket_of s) = unwrap_or 1 (cp_next_claim_id s)"
  "dk_queue (docket_of s) = get_pending_claims s" "dk_world (docket_of s) = cp_world s"
  "dk_wiring (docket_of s) = wiring_of s"
  by (simp_all add: docket_of_def)

lemma docket_eqI:
  fixes d :: "'w docket"
  assumes "cp_claims s = dk_claims d" "cp_policy_claim s = dk_index d"
    and "unwrap_or 1 (cp_next_claim_id s) = dk_next d" "get_pending_claims s = dk_queue d"
    and "cp_world s = dk_world d" "wiring_of s = dk_wiring d"
  shows "docket_of s = d"
  using assms by (simp add: docket_of_def)

lemma wiring_fields [simp]:
  "wi_initialized (wiring_of s) = cp_initialized s" "wi_admin (wiring_of s) = cp_admin s"
  "wi_policy_engine (wiring_of s) = cp_policy_engine s" "wi_risk_pool (wiring_of s) = cp_risk_pool s"
  "wi_oracle_verifier (wiring_of s) = cp_oracle_verifier s" "wi_keeper (wiring_of s) = cp_keeper s"
  "wi_guardians (wiring_of s) = cp_guardians s" "wi_pending_admin (wiring_of s) = cp_pending_admin s"
  "unwrap_or 0 (wi_payout_delay (wiring_of s)) = payout_delay s"
  by (simp_all add: wiring_of_def payout_delay_def)

text \<open>How the small state changes show on the docket.\<close>

lemma docket_frame [simp]:
  "cp_claims (log_event ev s) = cp_claims s" "cp_policy_claim (log_event ev s) = cp_policy_claim s"
  "cp_next_claim_id (log_event ev s) = cp_next_claim_id s"
  "cp_pending_claims (log_event ev s) = cp_pending_claims s" "cp_world (log_event ev s) = cp_world s"
  "cp_claims (remove_from_pending i s) = cp_claims s"
  "cp_policy_claim (remove_from_pending i s) = cp_policy_claim s"
  "cp_next_claim_id (remove_from_pending i s) = cp_next_claim_id s"
  "cp_world (remove_from_pending i s) = cp_world s"
  "cp_claims (push_pending i s) = cp_claims s" "cp_policy_claim (push_pending i s) = cp_policy_claim s"
  "cp_next_claim_id (push_pending i s) = cp_next_claim_id s" "cp_world (push_pending i s) = cp_world s"
  "cp_policy_claim (store_claim c s) = cp_policy_claim s"
  "cp_next_claim_id (store_claim c s) = cp_next_claim_id s"
  "cp_pending_claims (store_claim c s) = cp_pending_claims s"
  "cp_world (store_claim c s) = cp_world s"
  "cp_claims (store_claim c s) = (cp_claims s)(cl_id c \<mapsto> c)"
  by (simp_all add: log_event_def remove_from_pending_def push_pending_def store_claim_def)

lemma wiring_frame [simp]:
  "wiring_of (log_event ev s) = wiring_of s" "wiring_of (remove_from_pending i s) = wiring_of s"
  "wiring_of (push_pending i s) = wiring_of s" "wiring_of (store_claim c s) = wiring_of s"
  "wiring_of (s\<lparr>cp_claims := x\<rparr>) = wiring_of s" "wiring_of (s\<lparr>cp_policy_claim := y\<rparr>) = wiring_of s"
  "wiring_of (s\<lparr>cp_next_claim_id := n\<rparr>) = wiring_of s" "wiring_of (s\<lparr>cp_world := w\<rparr>) = wiring_of s"
  "wiring_of (s\<lparr>cp_pending_claims := q\<rparr>) = wiring_of s"
  "wiring_of (s\<lparr>cp_user_last_claim := u\<rparr>) = wiring_of s"
  "wiring_of (s\<lparr>cp_fraud_record := f\<rparr>) = wiring_of s"
  "wiring_of (s\<lparr>cp_claimant_history := h\<rparr>) = wiring_of s"
  "wiring_of (s\<lparr>cp_auto_process_last_time := l\<rparr>) = wiring_of s"
  "wiring_of (s\<lparr>cp_claim_reference := r\<rparr>) = wiring_of s"
  "wiring_of (s\<lparr>cp_claim_evidence := v\<rparr>) = wiring_of s"
  "wiring_of (s\<lparr>cp_claim_dispute_deadline := t\<rparr>) = wiring_of s"
  by (simp_all add: wiring_of_def log_event_def remove_from_pending_def push_pending_def store_claim_def)

lemma pending_frame [simp]:
  "get_pending_claims (log_event ev s) = get_pending_claims s"
  "get_pending_claims (store_claim c s) = get_pending_claims s"
  "get_pending_claims (push_pending i s) = get_pending_claims s @ [i]"
  by (simp_all add: get_pending_claims_def push_pending_def)

lemma pending_remove [simp]:
  "get_pending_claims (remove_from_pending i s) = remove1 i (get_pending_claims s)"
  by (auto simp: remove_from_pending_def get_pending_claims_def remove1_absent)

lemma pending_update [simp]:
  "get_pending_claims (s\<lparr>cp_claims := x\<rparr>) = get_pending_claims s"
  "get_pending_claims (s\<lparr>cp_policy_claim := y\<rparr>) = get_pending_claims s"
  "get_pending_claims (s\<lparr>cp_next_claim_id := n\<rparr>) = get_pending_claims s"
  "get_pending_claims (s\<lparr>cp_world := w\<rparr>) = get_pending_claims s"
  "get_pending_claims (s\<lparr>cp_user_last_claim := u\<rparr>) = get_pending_claims s"
  "get_pending_claims (s\<lparr>cp_fraud_record := f\<rparr>) = get_pending_claims s"
  "get_pending_claims (s\<lparr>cp_claimant_history := h\<rparr>) = get_pending_claims s"
  "get_pending_claims (s\<lparr>cp_auto_process_last_time := l\<rparr>) = get_pending_claims s"
  "get_pending_claims (s\<lparr>cp_claim_reference := r\<rparr>) = get_pending_claims s"
  "get_pending_claims (s\<lparr>cp_pending_claims := q\<rparr>) = unwrap_or [] q"
  by (simp_all add: get_pending_claims_def)

section \<open>Settlement on the docket\<close>

lemma pay_or_delay_ok:
  "pay_or_delay sv e pe pool c s = Inr (c', s') \<longleftrightarrow>
     (if 0 < payout_delay s
      then s' = s \<and> c' = c\<lparr>cl_payout_ready_at := Some (sat_u64 (timestamp e + payout_delay s))\<rparr>
      else c' = c \<and> pay_and_release sv e pe pool (cl_policy_id c) s = Inr s')"
  unfolding pay_or_delay_def by (auto simp: bindR_eq_Inr)

lemma settle_met_ok:
  assumes "settle_met sv e pe pool c bps s = Inr (r, c', s')" "bps_typed bps"
  obtains st paid b where
    "pay_or_delay sv e pe pool
       (c\<lparr>cl_status := st, cl_paid_amount := paid, cl_partial_payout_bps := b\<rparr>) s = Inr (c', s')"
    "paid_part c (c\<lparr>cl_status := st, cl_paid_amount := paid, cl_partial_payout_bps := b\<rparr>)"
proof (cases "min 10000 (unwrap_or 10000 bps) \<ge> 10000")
  case True
  then have "pay_or_delay sv e pe pool (c\<lparr>cl_status := ClaimPaid,
      cl_paid_amount := Some (cl_coverage_amount c), cl_partial_payout_bps := Some 10000\<rparr>) s = Inr (c', s')"
    using assms by (auto simp: settle_met_def Let_def bindR_eq_Inr split: prod.splits)
  then show ?thesis by (rule that) (simp add: paid_part_def)
next
  case False
  let ?b = "min 10000 (unwrap_or 10000 bps)"
  obtain paid where paid: "mul_div (cl_coverage_amount c) ?b 10000 = (Inr paid :: (cp_error, int) result)" "\<not> cl_coverage_amount c < paid"
    "pay_or_delay sv e pe pool (c\<lparr>cl_status := ClaimPartiallyPaid, cl_paid_amount := Some paid,
       cl_partial_payout_bps := Some ?b\<rparr>) s = Inr (c', s')"
    using assms False by (auto simp: settle_met_def Let_def bindR_eq_Inr if_Inl_eq_Inr split: prod.splits if_splits)
  moreover have "0 \<le> ?b" using assms(2) by (auto simp: bps_typed_def within_def split: option.splits)
  ultimately show ?thesis using False by (intro that[OF paid(3)]) (auto simp: paid_part_def mul_div_ok)
qed

lemma settle_step:
  assumes "settle_claim_with_trigger_result sv e c p met bps s = Inr (r, s')"
    and "cp_claims s i = Some c" "bps_typed bps"
  shows "docket_step True rv sv e (docket_of s) (docket_of s')"
proof -
  let ?c1 = "c\<lparr>cl_trigger_met := met, cl_processed_at := Some (timestamp e)\<rparr>"
  obtain pe pool c2 s1 where st: "cl_status c = ClaimPending"
    and m: "(if met then settle_met sv e pe pool ?c1 bps s
             else Inr (ResRejected, ?c1\<lparr>cl_status := ClaimRejected\<rparr>, s)) = Inr (r, c2, s1)"
    and s': "s' = settle_events c2 met (remove_from_pending (cl_id c2) (store_claim c2 s1))"
    using assms(1)
    by (auto simp: settle_claim_with_trigger_result_def Let_def bindR_eq_Inr if_Inl_eq_Inr)
  have view: "docket_of s' = docket_of s\<lparr>dk_claims := (cp_claims s1)(cl_id c2 \<mapsto> c2),
      dk_index := cp_policy_claim s1, dk_next := unwrap_or 1 (cp_next_claim_id s1),
      dk_queue := remove1 (cl_id c2) (get_pending_claims s1), dk_world := cp_world s1,
      dk_wiring := wiring_of s1\<rparr>"
    by (rule docket_eqI) (simp_all add: s' settle_events_def)
  show ?thesis
  proof (cases met)
    case False
    then have c2: "c2 = ?c1\<lparr>cl_status := ClaimRejected\<rparr>" "s1 = s" using m by simp_all
    have "decided (timestamp e) False c c2"
      using False by (simp add: decided_def same_filing_def c2)
    from dk_refuse[where d="docket_of s" and st=True and rv=rv, simplified, OF assms(2) st this]
    show ?thesis unfolding view by (simp add: c2 docket_of_def)
  next
    case True
    then have "settle_met sv e pe pool ?c1 bps s = Inr (r, c2, s1)" using m by simp
    then obtain st2 paid b where
      pay: "pay_or_delay sv e pe pool (?c1\<lparr>cl_status := st2, cl_paid_amount := paid,
        cl_partial_payout_bps := b\<rparr>) s = Inr (c2, s1)"
      and part: "paid_part ?c1 (?c1\<lparr>cl_status := st2, cl_paid_amount := paid, cl_partial_payout_bps := b\<rparr>)"
      by (rule settle_met_ok) (rule assms(3))
    let ?c2 = "?c1\<lparr>cl_status := st2, cl_paid_amount := paid, cl_partial_payout_bps := b\<rparr>"
    show ?thesis
    proof (cases "0 < payout_delay s")
      case True
      then have c2: "s1 = s" "c2 = ?c2\<lparr>cl_payout_ready_at := Some (sat_u64 (timestamp e + payout_delay s))\<rparr>"
        using pay unfolding pay_or_delay_ok by simp_all
      have "decided (timestamp e) True c c2"
        using part \<open>met\<close> by (simp add: decided_def same_filing_def c2 paid_part_def)
      from dk_delay[where d="docket_of s" and st=True and rv=rv, simplified, OF assms(2) st this refl True]
      show ?thesis unfolding view by (simp add: c2 docket_of_def)
    next
      case False
      then have c2: "c2 = ?c2" and p: "pay_and_release sv e pe pool (cl_policy_id c) s = Inr s1"
        using pay unfolding pay_or_delay_ok by simp_all
      then obtain w where w: "payout sv e (cl_policy_id c) (cp_world s) w" "s1 = s\<lparr>cp_world := w\<rparr>"
        unfolding payout_def by (auto simp: pay_and_release_ok)
      have "decided (timestamp e) True c c2"
        using part \<open>met\<close> by (simp add: decided_def same_filing_def c2 paid_part_def)
      from dk_pay[where d="docket_of s" and st=True and rv=rv, simplified, OF assms(2) st this _ w(1)]
      show ?thesis unfolding view by (simp add: c2 w(2) docket_of_def)
    qed
  qed
qed

end
