(* ===== verification/CP_Refine.thy ===== *)
theory CP_Refine
  imports CP_Docket
begin

text \<open>
  Every operation of the claims processor is a sequence of docket steps, and those that only
  configure the contract are none.
\<close>

section \<open>Filing\<close>

lemma evaluate_fraud_docket:
  "evaluate_fraud e i a cov s = Inr (r, s') \<Longrightarrow> docket_of s' = docket_of s"
  by (rule docket_cong)
     (auto simp: evaluate_fraud_def Let_def split: option.splits prod.splits if_splits fraud_mode.splits)

lemma history_docket [simp]: "docket_of (update_claimant_history a now cov bw s) = docket_of s"
  by (rule docket_cong) (simp_all add: update_claimant_history_def Let_def split: prod.splits)

lemma check_claimable_ok:
  assumes "check_claimable sv e a p s = Inr po"
  obtains pe where "sv_policy sv (cp_world s) pe p = Some po" "0 < po_coverage_amount po"
    "a = po_policyholder po" "po_status po = PolicyActive" "po_start_time po \<le> timestamp e"
    "timestamp e \<le> po_end_time po \<or> timestamp e \<le> sat_u64 (po_end_time po + claim_deadline s)"
    "cp_policy_engine s = Some pe"
  using assms unfolding check_claimable_def Let_def
  by (auto simp: bindR_eq_Inr if_Inl_eq_Inr cp_lookups_ok not_le intro: that)

lemma open_claim_docket:
  "docket_of (open_claim i p a cov now s) = docket_of s\<lparr>
     dk_claims := (cp_claims s)(i \<mapsto> new_claim i p a cov now), dk_index := (cp_policy_claim s)(p \<mapsto> i),
     dk_queue := get_pending_claims s @ [i]\<rparr>"
  by (rule docket_eqI) (simp_all add: open_claim_def new_claim_def)

lemma file_claim_ok:
  assumes "file_claim sv e a p s = Inr (i, s')"
  obtains po s1 where "check_claimable sv e a p s = Inr po" "cp_policy_claim s p = None"
    "\<not> user_cooling e a s" "i = unwrap_or 1 (cp_next_claim_id s)"
    "docket_of s1 = docket_of (s\<lparr>cp_next_claim_id := Some (i + 1)\<rparr>)"
    "docket_of s' = docket_of (open_claim i p a (po_coverage_amount po) (timestamp e) s1)"
proof -
  obtain po r s1 where po: "check_claimable sv e a p s = Inr po" "cp_policy_claim s p = None"
    "\<not> user_cooling e a s" "i = unwrap_or 1 (cp_next_claim_id s)"
    and s1: "evaluate_fraud e i a (po_coverage_amount po)
       (s\<lparr>cp_user_last_claim := (cp_user_last_claim s)(a \<mapsto> timestamp e),
          cp_next_claim_id := Some (i + 1)\<rparr>) = Inr (r, s1)"
    and s': "docket_of s' = docket_of (open_claim i p a (po_coverage_amount po) (timestamp e) s1)"
    using assms
    by (auto simp: file_claim_def Let_def bindR_eq_Inr if_Inl_eq_Inr next_claim_id_ok split: prod.splits)
  show ?thesis
    by (rule that[OF po _ s']) (use evaluate_fraud_docket[OF s1] in \<open>simp add: docket_of_def\<close>)
qed

lemma file_claim_step:
  assumes "file_claim sv e a p s = Inr (i, s')"
  shows "docket_step True rv sv e (docket_of s) (docket_of s')"
proof -
  obtain po s1 where po: "check_claimable sv e a p s = Inr po" "cp_policy_claim s p = None"
    and i: "i = unwrap_or 1 (cp_next_claim_id s)"
    and s1: "docket_of s1 = docket_of (s\<lparr>cp_next_claim_id := Some (i + 1)\<rparr>)"
    and s': "docket_of s' = docket_of (open_claim i p a (po_coverage_amount po) (timestamp e) s1)"
    by (rule file_claim_ok[OF assms])
  obtain pe where pe: "sv_policy sv (cp_world s) pe p = Some po" "0 < po_coverage_amount po"
    "a = po_policyholder po" "po_status po = PolicyActive" "cp_policy_engine s = Some pe"
    by (rule check_claimable_ok[OF po(1)])
  have view: "docket_of s' = docket_of s\<lparr>
     dk_claims := (cp_claims s)(i \<mapsto> new_claim i p a (po_coverage_amount po) (timestamp e)),
     dk_index := (cp_policy_claim s)(p \<mapsto> i), dk_next := i + 1, dk_queue := get_pending_claims s @ [i]\<rparr>"
    unfolding s' open_claim_docket using s1 by (simp add: docket_of_def)
  from dk_open[where d="docket_of s", simplified, OF po(2) i pe(2,5,1) refl pe(3,4)]
  show ?thesis unfolding view by (simp add: docket_of_def)
qed

lemma file_claims_steps:
  "file_claims sv e a ps s = Inr (is, s') \<Longrightarrow> docket_steps True rv sv e (docket_of s) (docket_of s')"
proof (induction ps arbitrary: s "is")
  case Nil
  then show ?case by simp
next
  case (Cons p ps)
  then obtain i s1 js where "file_claim sv e a p s = Inr (i, s1)" "file_claims sv e a ps s1 = Inr (js, s')"
    by (auto simp: bindR_eq_Inr split: prod.splits)
  then show ?case
    using Cons.IH docket_steps_one[OF file_claim_step] docket_steps_trans by blast
qed

section \<open>Deciding\<close>

lemma evaluate_steps:
  assumes "evaluate_and_settle sv e c p b s = Inr (r, s')" "cp_claims s i = Some c"
    and "bps_typed b"
  shows "docket_steps True rv sv e (docket_of s) (docket_of s')"
proof -
  obtain ov m w where w: "sv_verify_trigger_fresh sv e ov (po_oracle_data_type p) (po_oracle_key p)
      (policy_condition p) (unwrap_or 604800 (cp_staleness_threshold s)) (cp_world s) = Some (m, w)"
    and settle: "settle_claim_with_trigger_result sv e c p m b (s\<lparr>cp_world := w\<rparr>) = Inr (r, s')"
    using assms(1)
    by (auto simp: evaluate_and_settle_def bindR_eq_Inr if_Inl_eq_Inr or_trap_eq_Inr split: prod.splits)
  have "docket_step True rv sv e (docket_of s) (docket_of (s\<lparr>cp_world := w\<rparr>))"
    using dk_oracle[where d="docket_of s", simplified, OF w] by (simp add: docket_of_def)
  moreover have "docket_step True rv sv e (docket_of (s\<lparr>cp_world := w\<rparr>)) (docket_of s')"
    using settle_step[OF settle, of i] assms(2,3) by simp
  ultimately show ?thesis by (meson docket_steps_one docket_steps_trans)
qed

lemma process_filed_steps:
  assumes "process_filed sv e i b s = Inr (r, s')" "bps_typed b"
  shows "docket_steps True rv sv e (docket_of s) (docket_of s')"
  using assms(1) evaluate_steps[OF _ _ assms(2)]
  by (fastforce simp: process_filed_def bindR_eq_Inr if_Inl_eq_Inr cp_lookups_ok split: if_splits)

lemma process_claims_steps:
  "process_claims sv e k is b s = Inr (rs, s') \<Longrightarrow> bps_typed b \<Longrightarrow> docket_steps True rv sv e (docket_of s) (docket_of s')"
proof (induction "is" arbitrary: s rs)
  case Nil
  then show ?case by simp
next
  case (Cons i js)
  then obtain r s1 rs1 where "process_filed sv e i b s = Inr (r, s1)" "process_claims sv e k js b s1 = Inr (rs1, s')"
    by (auto simp: bindR_eq_Inr split: prod.splits)
  then show ?case using Cons.IH Cons.prems(2) process_filed_steps docket_steps_trans by blast
qed

lemma batch_verify_step:
  assumes "batch_verify_oracle_readings sv e qs s = Inr (bs, s')"
  shows "docket_step True rv sv e (docket_of s) (docket_of s')" "cp_claims s' = cp_claims s"
proof -
  obtain ov w where w: "sv_batch_verify_fresh sv e ov qs (cp_world s) = Some (bs, w)" "s' = s\<lparr>cp_world := w\<rparr>"
    using assms by (auto simp: batch_verify_oracle_readings_def result_simps split: prod.splits)
  show "docket_step True rv sv e (docket_of s) (docket_of s')"
    using dk_oracles[where d="docket_of s", simplified, OF w(1)] by (simp add: docket_of_def w(2))
  show "cp_claims s' = cp_claims s" by (simp add: w(2))
qed

lemma verify_each_steps:
  "verify_each sv e ov qs w = Inr (bs, w') \<Longrightarrow> cp_world s = w \<Longrightarrow>
   docket_steps True rv sv e (docket_of s) (docket_of (s\<lparr>cp_world := w'\<rparr>))"
proof (induction qs arbitrary: w bs s)
  case Nil
  then show ?case by (simp add: docket_of_def)
next
  case (Cons q qs)
  then obtain b w1 bs1 where w: "sv_verify_trigger_fresh sv e ov (rq_data_type q) (rq_key q)
      (rq_condition q) (rq_staleness_threshold q) (cp_world s) = Some (b, w1)"
    "verify_each sv e ov qs w1 = Inr (bs1, w')"
    by (auto simp: bindR_eq_Inr or_trap_eq_Inr split: prod.splits)
  have "docket_step True rv sv e (docket_of s) (docket_of (s\<lparr>cp_world := w1\<rparr>))"
    using dk_oracle[where d="docket_of s", simplified, OF w(1)] by (simp add: docket_of_def)
  moreover have "docket_steps True rv sv e (docket_of (s\<lparr>cp_world := w1\<rparr>)) (docket_of (s\<lparr>cp_world := w'\<rparr>))"
    using Cons.IH[OF w(2), of "s\<lparr>cp_world := w1\<rparr>"] by simp
  ultimately show ?case by (meson docket_steps_one docket_steps_trans)
qed

lemma process_multi_steps:
  assumes "process_multi_reading_claim sv e k i qs al b s = Inr (r, s')" "bps_typed b"
  shows "docket_steps True rv sv e (docket_of s) (docket_of s')"
proof -
  obtain c where c: "cp_claims s i = Some c"
    using assms by (auto simp: process_multi_reading_claim_def bindR_eq_Inr if_Inl_eq_Inr cp_lookups_ok)
  show ?thesis
  proof (cases "cl_status c = ClaimPending")
    case False
    then have "s' = s" using assms c
      by (auto simp: process_multi_reading_claim_def bindR_eq_Inr if_Inl_eq_Inr cp_lookups_ok)
    then show ?thesis by simp
  next
    case True
    obtain p bs s1 where s1: "batch_verify_oracle_readings sv e qs s = Inr (bs, s1)"
      and settle: "settle_claim_with_trigger_result sv e c p (readings_met al bs) b
         (log_event (EcReadingsBatchVerified i (int (length qs)) (readings_met al bs)) s1) = Inr (r, s')"
      using assms c True
      by (auto simp: process_multi_reading_claim_def bindR_eq_Inr if_Inl_eq_Inr cp_lookups_ok Let_def
          split: prod.splits)
    have "docket_step True rv sv e (docket_of s1) (docket_of s')"
      using settle_step[OF settle, of i] c assms(2) batch_verify_step(2)[OF s1] by (simp add: docket_of_def)
    then show ?thesis using batch_verify_step(1)[OF s1] by (meson docket_steps_one docket_steps_trans)
  qed
qed


section \<open>Automatic processing\<close>

lemma claim_for_policy_steps:
  assumes "claim_for_policy e p po s = Inr (i, s')" "sv_policy sv (cp_world s) pe p = Some po"
    and "0 < po_coverage_amount po" "po_status po = PolicyActive" "cp_policy_engine s = Some pe"
  shows "docket_steps True rv sv e (docket_of s) (docket_of s')"
proof (cases "cp_policy_claim s p")
  case (Some j)
  then show ?thesis using assms(1) by (simp add: claim_for_policy_def)
next
  case None
  then obtain s1 where s1: "i = unwrap_or 1 (cp_next_claim_id s)" "s1 = s\<lparr>cp_next_claim_id := Some (i + 1)\<rparr>"
    "s' = open_claim i p (po_policyholder po) (po_coverage_amount po) (timestamp e) s1"
    using assms(1) by (auto simp: claim_for_policy_def bindR_eq_Inr next_claim_id_ok)
  have view: "docket_of s' = docket_of s\<lparr>dk_claims := (cp_claims s)(i \<mapsto>
       new_claim i p (po_policyholder po) (po_coverage_amount po) (timestamp e)),
     dk_index := (cp_policy_claim s)(p \<mapsto> i), dk_next := i + 1, dk_queue := get_pending_claims s @ [i]\<rparr>"
    unfolding s1(3) open_claim_docket by (simp add: s1(2) docket_of_def)
  from dk_open[where d="docket_of s", simplified, OF None s1(1) assms(3,5,2) refl refl assms(4)]
  have "docket_step True rv sv e (docket_of s) (docket_of s')"
    unfolding view by (simp add: docket_of_def)
  then show ?thesis by (rule docket_steps_one)
qed

lemma process_active_steps:
  assumes "process_active sv e pe p po b s = Inr (r, s')" "sv_policy sv (cp_world s) pe p = Some po"
    and "0 < po_coverage_amount po" "po_status po = PolicyActive" "cp_policy_engine s = Some pe"
    and "bps_typed b"
  shows "docket_steps True rv sv e (docket_of s) (docket_of s')"
proof (cases "timestamp e > po_end_time po")
  case True
  then obtain pool w1 w where w: "sv_expire_policy sv e pe (this e) p (cp_world s) = Some w1"
    "sv_release_for_expiry sv e pool (this e) p w1 = Some w" "s' = s\<lparr>cp_world := w\<rparr>"
    using assms(1) by (auto simp: process_active_def expire_and_release_def result_simps)
  have "docket_step True rv sv e (docket_of s) (docket_of s')"
    using dk_expire[where d="docket_of s", simplified, OF w(1,2)] by (simp add: docket_of_def w(3))
  then show ?thesis by (rule docket_steps_one)
next
  case False
  obtain i s1 c where s1: "claim_for_policy e p po s = Inr (i, s1)" and c: "cp_claims s1 i = Some c"
    and rest: "(if cl_status c \<noteq> ClaimPending then Inr (ResAlreadyProcessed, s1)
           else evaluate_and_settle sv e c po b s1) = Inr (r, s')"
    using assms(1) False by (auto simp: process_active_def bindR_eq_Inr or_trap_eq_Inr split: prod.splits)
  have "docket_steps True rv sv e (docket_of s1) (docket_of s')"
    using rest evaluate_steps[OF _ c assms(6)] by (auto split: if_splits)
  then show ?thesis using claim_for_policy_steps[OF s1 assms(2-5)] docket_steps_trans by blast
qed

lemma auto_process_steps:
  assumes "auto_process sv e k p b s = Inr (r, s')" "bps_typed b"
  shows "docket_steps True rv sv e (docket_of s) (docket_of s')"
proof -
  define s1 where "s1 = s\<lparr>cp_auto_process_last_time := (cp_auto_process_last_time s)(p \<mapsto> timestamp e)\<rparr>"
  have view: "docket_of s1 = docket_of s" by (rule docket_cong) (simp_all add: s1_def)
  show ?thesis
  proof (cases "already_decided p s1")
    case True
    then have "s' = s1" using assms unfolding auto_process_def Let_def s1_def[symmetric]
      by (auto simp: bindR_eq_Inr if_Inl_eq_Inr)
    then show ?thesis by (simp add: view)
  next
    case False
    then obtain pe po where po: "sv_policy sv (cp_world s1) pe p = Some po" "0 < po_coverage_amount po"
      and pe: "cp_policy_engine s1 = Some pe"
      and rest: "(case po_status po of
             Claimed \<Rightarrow> Inr (ResAlreadyClaimed, s1)
           | Expired \<Rightarrow> Inr (ResExpired, s1)
           | Cancelled \<Rightarrow> Inr (ResPolicyNotActive, s1)
           | PolicyActive \<Rightarrow> process_active sv e pe p po b s1) = Inr (r, s')"
      using assms unfolding auto_process_def Let_def s1_def[symmetric]
      by (auto simp: bindR_eq_Inr if_Inl_eq_Inr cp_lookups_ok not_le)
    show ?thesis
    proof (cases "po_status po = PolicyActive")
      case True
      then show ?thesis using rest process_active_steps[OF _ po True pe assms(2)] view by simp
    next
      case False
      then have "s' = s1" using rest by (simp split: policy_status.splits)
      then show ?thesis by (simp add: view)
    qed
  qed
qed

lemma log_event_docket: "docket_of (log_event ev s) = docket_of s"
  by (rule docket_cong) simp_all

lemma batch_item_steps:
  assumes "batch_item sv e k i s = (rs, s')"
  shows "docket_steps True rv sv e (docket_of s) (docket_of s')"
proof -
  have "s' = s \<or> (\<exists>p r s1. auto_process sv e k p None s = Inr (r, s1) \<and> docket_of s' = docket_of s1)"
    using assms log_event_docket unfolding batch_item_def
    by (fastforce split: option.splits if_splits sum.splits prod.splits)
  then show ?thesis using auto_process_steps[of sv e k _ None] by (fastforce simp: bps_typed_def)
qed

lemma batch_loop_steps:
  "batch_loop sv e k is s = (rs, s') \<Longrightarrow> docket_steps True rv sv e (docket_of s) (docket_of s')"
proof (induction "is" arbitrary: s rs)
  case Nil
  then show ?case by simp
next
  case (Cons i js)
  then obtain r s1 rs1 where "batch_item sv e k i s = (r, s1)" "batch_loop sv e k js s1 = (rs1, s')"
    by (auto split: prod.splits)
  then show ?case using Cons.IH batch_item_steps docket_steps_trans by blast
qed

text \<open>The bubble sort of the batch is the library's stable sort.\<close>

lemma bubble_pass_mset [simp]: "mset (bubble_pass n xs) = mset xs"
  by (induction n xs rule: bubble_pass.induct) auto

lemma bubble_pass_length [simp]: "length (bubble_pass n xs) = length xs"
  using bubble_pass_mset by (metis size_mset)

lemma foldl_mset:
  "(\<And>ys i. mset (f ys i) = mset ys) \<Longrightarrow> mset (foldl f xs is) = mset xs"
  by (induction "is" arbitrary: xs) simp_all

lemma bubble_sort_mset: "mset (bubble_sort xs) = mset xs"
  unfolding bubble_sort_def by (rule foldl_mset) simp

lemma claim_timestamps_fst:
  "map fst (claim_timestamps s) = filter (\<lambda>i. cp_claims s i \<noteq> None) (get_pending_claims s)"
proof -
  have "map fst (List.map_filter (\<lambda>i. map_option (\<lambda>c. (i, cl_submitted_at c)) (m i)) q)
      = filter (\<lambda>i. m i \<noteq> None) q" for m :: "int \<rightharpoonup> claim" and q
    by (induction q) (auto simp: List.map_filter_simps split: option.splits)
  then show ?thesis by (simp add: claim_timestamps_def)
qed

lemma sorted_pending_mset:
  "mset (sorted_pending s) = mset (filter (\<lambda>i. cp_claims s i \<noteq> None) (get_pending_claims s))"
  unfolding sorted_pending_def claim_timestamps_fst[symmetric] mset_map bubble_sort_mset ..

lemma batch_auto_process_steps:
  assumes "batch_auto_process sv e k n s = Inr (rs, s')"
  shows "docket_steps True rv sv e (docket_of s) (docket_of s')"
proof -
  let ?s1 = "s\<lparr>cp_pending_claims := Some (sorted_pending s)\<rparr>"
  obtain m where loop: "batch_loop sv e k (take m (sorted_pending s)) ?s1 = (rs, s')"
    using assms by (auto simp: batch_auto_process_def bindR_eq_Inr if_Inl_eq_Inr Let_def)
  have "docket_step True rv sv e (docket_of s) (docket_of ?s1)"
    using dk_requeue[of "sorted_pending s" "docket_of s" True rv sv e] sorted_pending_mset[of s]
    by (simp add: docket_of_def)
  then show ?thesis using batch_loop_steps[OF loop] by (meson docket_steps_one docket_steps_trans)
qed

end
