(* ===== verification/CP_Simulation.thy ===== *)
theory CP_Simulation
  imports CP_Refine
begin

text \<open>
  The dispatcher level of the simulation: every call of the claims processor is a sequence of
  docket steps, except that a configuration call may change the wiring and \<open>Elsewhere\<close> the
  world.
\<close>

section \<open>Filing and processing calls\<close>

lemma claim_call_steps:
  assumes "claim_dispatch sv e c s = Inr s'" "claim_typed c"
  shows "docket_steps True rv sv e (docket_of s) (docket_of s')"
proof (cases c)
  case (SubmitClaim a i)
  with assms show ?thesis
    using docket_steps_one[OF file_claim_step]
    by (auto simp: done_with_ok submit_claim_def bindR_eq_Inr)
next
  case (SubmitClaimWithRef a i r)
  then obtain j s1 where s1: "file_claim sv e a i s = Inr (j, s1)"
    "s' = s1\<lparr>cp_claim_reference := (cp_claim_reference s1)(r \<mapsto> j)\<rparr>"
    using assms by (auto simp: done_with_ok submit_claim_with_ref_def bindR_eq_Inr if_Inl_eq_Inr)
  have "docket_of s' = docket_of s1" by (rule docket_cong) (simp_all add: s1(2))
  then show ?thesis using docket_steps_one[OF file_claim_step[OF s1(1)]] by simp
next
  case (SubmitClaimWithType a i t)
  with assms show ?thesis
    using docket_steps_one[OF file_claim_step]
    by (auto simp: done_with_ok submit_claim_with_type_def bindR_eq_Inr if_Inl_eq_Inr)
next
  case (BatchSubmitClaims a ps)
  with assms show ?thesis
    using file_claims_steps
    by (fastforce simp: done_with_ok batch_submit_claims_def bindR_eq_Inr Let_def log_event_docket)
next
  case (ProcessClaim k i b)
  with assms show ?thesis
    using process_filed_steps by (auto simp: done_with_ok process_claim_def bindR_eq_Inr)
next
  case (BatchProcessClaims k ps b)
  with assms show ?thesis
    using process_claims_steps
    by (fastforce simp: done_with_ok batch_process_claims_def bindR_eq_Inr Let_def log_event_docket)
next
  case (BatchVerifyOracleReadings qs)
  with assms show ?thesis using docket_steps_one[OF batch_verify_step(1)] by (auto simp: done_with_ok)
next
  case (VerifyReadingsIndividual qs)
  with assms show ?thesis
    using verify_each_steps by (fastforce simp: done_with_ok verify_readings_individual_def bindR_eq_Inr)
next
  case (ProcessMultiReadingClaim k i qs al b)
  with assms show ?thesis using process_multi_steps by (auto simp: done_with_ok)
next
  case (AutoProcess k i b)
  with assms show ?thesis using auto_process_steps by (auto simp: done_with_ok)
next
  case (BatchAutoProcess k n)
  with assms show ?thesis using batch_auto_process_steps by (auto simp: done_with_ok)
qed

section \<open>Review calls\<close>

text \<open>One claim is replaced, and the queue or the world may change with it.\<close>

lemma docket_view:
  assumes "cp_claims s' = (cp_claims s)(i \<mapsto> c')" "cp_policy_claim s' = cp_policy_claim s"
    and "cp_next_claim_id s' = cp_next_claim_id s" "wiring_of s' = wiring_of s"
  shows "docket_of s' = docket_of s\<lparr>dk_claims := (cp_claims s)(i \<mapsto> c'),
     dk_queue := get_pending_claims s', dk_world := cp_world s'\<rparr>"
  by (rule docket_eqI) (simp_all add: assms)

lemma dispute_claim_ok:
  assumes "dispute_claim sv e a i r s = Inr s'"
  obtains c where "cp_claims s i = Some c" "cl_status c \<in> {ClaimPending, ClaimRejected, ClaimPartiallyPaid}"
    "s' = log_event (EcClaimDisputed i a r) (remove_from_pending i (s\<lparr>cp_claims := (cp_claims s)(i \<mapsto>
          c\<lparr>cl_status := ClaimDisputed, cl_dispute_reason := Some r\<rparr>)\<rparr>))"
  using assms by (auto simp: dispute_claim_def bindR_eq_Inr if_Inl_eq_Inr cp_lookups_ok)

lemma dispute_claim_step:
  assumes "dispute_claim sv e a i r s = Inr s'"
  shows "docket_step st True sv e (docket_of s) (docket_of s')"
proof -
  obtain c where c: "cp_claims s i = Some c" "cl_status c \<in> {ClaimPending, ClaimRejected, ClaimPartiallyPaid}"
    and s': "s' = log_event (EcClaimDisputed i a r) (remove_from_pending i (s\<lparr>cp_claims := (cp_claims s)(i \<mapsto>
          c\<lparr>cl_status := ClaimDisputed, cl_dispute_reason := Some r\<rparr>)\<rparr>))"
    by (rule dispute_claim_ok[OF assms])
  show ?thesis
    using dk_dispute[of "docket_of s" i c True st sv e r] c
    by (subst docket_view[where s'=s']) (simp_all add: s' docket_of_def)
qed

lemma resolve_dispute_ok:
  assumes "resolve_dispute e a i s = Inr s'"
  obtains c where "cp_claims s i = Some c" "cl_status c = ClaimDisputed"
    "s' = log_event (EcClaimResolved i a) (push_pending i (s\<lparr>cp_claims := (cp_claims s)(i \<mapsto>
          c\<lparr>cl_status := ClaimPending, cl_dispute_reason := None\<rparr>)\<rparr>))"
  using assms by (auto simp: resolve_dispute_def bindR_eq_Inr if_Inl_eq_Inr cp_lookups_ok)

lemma resolve_dispute_step:
  assumes "resolve_dispute e a i s = Inr s'"
  shows "docket_step st True sv e (docket_of s) (docket_of s')"
proof -
  obtain c where c: "cp_claims s i = Some c" "cl_status c = ClaimDisputed"
    and s': "s' = log_event (EcClaimResolved i a) (push_pending i (s\<lparr>cp_claims := (cp_claims s)(i \<mapsto>
          c\<lparr>cl_status := ClaimPending, cl_dispute_reason := None\<rparr>)\<rparr>))"
    by (rule resolve_dispute_ok[OF assms])
  show ?thesis
    using dk_resolve[of "docket_of s" i c True st sv e] c
    by (subst docket_view[where s'=s']) (simp_all add: s' docket_of_def)
qed

lemma reject_claim_ok:
  assumes "reject_claim e a i r s = Inr s'"
  obtains c where "cp_claims s i = Some c"
    "s' = log_event (EcClaimRejected i (cl_policy_id c) r) (remove_from_pending i
       (s\<lparr>cp_claims := (cp_claims s)(i \<mapsto> c\<lparr>cl_status := ClaimRejected\<rparr>)\<rparr>))"
  using assms by (auto simp: reject_claim_def bindR_eq_Inr cp_lookups_ok)

lemma reject_claim_step:
  assumes "reject_claim e a i r s = Inr s'"
  shows "docket_step st True sv e (docket_of s) (docket_of s')"
proof -
  obtain c where c: "cp_claims s i = Some c"
    and s': "s' = log_event (EcClaimRejected i (cl_policy_id c) r) (remove_from_pending i
       (s\<lparr>cp_claims := (cp_claims s)(i \<mapsto> c\<lparr>cl_status := ClaimRejected\<rparr>)\<rparr>))"
    by (rule reject_claim_ok[OF assms])
  show ?thesis
    using dk_reject[of "docket_of s" i c True st sv e] c
    by (subst docket_view[where s'=s']) (simp_all add: s' docket_of_def)
qed

lemma escalate_claim_ok:
  assumes "escalate_claim sv e a i s = Inr s'"
  obtains c ev where "cp_claims s i = Some c" "cl_status c = ClaimPending"
    "s' = log_event ev (remove_from_pending i
       (s\<lparr>cp_claims := (cp_claims s)(i \<mapsto> c\<lparr>cl_status := ClaimEscalated\<rparr>)\<rparr>))"
  using assms
  by (auto simp: escalate_claim_def bindR_eq_Inr if_Inl_eq_Inr cp_lookups_ok Let_def split: prod.splits)

lemma escalate_claim_step:
  assumes "escalate_claim sv e a i s = Inr s'"
  shows "docket_step st True sv e (docket_of s) (docket_of s')"
proof -
  obtain c ev where c: "cp_claims s i = Some c" "cl_status c = ClaimPending"
    and s': "s' = log_event ev (remove_from_pending i
       (s\<lparr>cp_claims := (cp_claims s)(i \<mapsto> c\<lparr>cl_status := ClaimEscalated\<rparr>)\<rparr>))"
    by (rule escalate_claim_ok[OF assms])
  show ?thesis
    using dk_escalate[of "docket_of s" i c True st sv e] c
    by (subst docket_view[where s'=s']) (simp_all add: s' docket_of_def)
qed

lemma annotate_step:
  assumes "cp_claims s i = Some c" "annotated c c'" "s' = log_event ev (s\<lparr>cp_claims := (cp_claims s)(i \<mapsto> c')\<rparr>)"
  shows "docket_step st rv sv e (docket_of s) (docket_of s')"
  using dk_annotate[of "docket_of s" i c c' st rv sv e] assms(1,2)
  by (subst docket_view[where s'=s']) (simp_all add: assms(3) docket_of_def)

lemma schedule_step:
  assumes "schedule_installments e k i n m t s = Inr s'"
  shows "docket_step st rv sv e (docket_of s) (docket_of s')"
proof -
  obtain c sch ev where "cp_claims s i = Some c"
    "s' = log_event ev (s\<lparr>cp_claims := (cp_claims s)(i \<mapsto> c\<lparr>cl_installments := sch\<rparr>)\<rparr>)"
    using assms
    by (auto simp: schedule_installments_def get_claim_def bindR_eq_Inr if_Inl_eq_Inr cp_lookups_ok Let_def)
  then show ?thesis by (intro annotate_step) (auto simp: annotated_def same_filing_def)
qed

lemma identity_step:
  assumes "verify_claimant_identity e a i t s = Inr s'"
  shows "docket_step st rv sv e (docket_of s) (docket_of s')"
proof -
  obtain c ev where "cp_claims s i = Some c"
    "s' = log_event ev (s\<lparr>cp_claims := (cp_claims s)(i \<mapsto> c\<lparr>cl_identity_verified := True,
        cl_verification_type := Some t, cl_verification_time := Some (timestamp e)\<rparr>)\<rparr>)"
    using assms by (auto simp: verify_claimant_identity_def bindR_eq_Inr cp_lookups_ok)
  then show ?thesis by (intro annotate_step) (auto simp: annotated_def same_filing_def)
qed

lemma claim_installment_step:
  assumes "claim_installment sv e a i s = Inr (n, s')"
  shows "docket_step st rv sv e (docket_of s) (docket_of s')"
proof -
  obtain c pool w sch ev where c: "cp_claims s i = Some c"
    and w: "sv_release_for_claim sv e pool (this e) (cl_policy_id c) (cp_world s) = Some w"
    and s': "s' = log_event ev (s\<lparr>cp_world := w, cp_claims := (cp_claims s)(i \<mapsto> c\<lparr>cl_installments := sch\<rparr>)\<rparr>)"
  proof -
    obtain c where c: "cp_claims s i = Some c"
      using assms by (auto simp: claim_installment_def get_claim_def bindR_eq_Inr cp_lookups_ok)
    show ?thesis
    proof (cases "cl_installments c")
      case Nil
      then show ?thesis using assms c
        by (auto simp: claim_installment_def get_claim_def bindR_eq_Inr if_Inl_eq_Inr cp_lookups_ok)
    next
      case (Cons h t)
      then show ?thesis using assms c
        by (auto simp: claim_installment_def get_claim_def bindR_eq_Inr if_Inl_eq_Inr cp_lookups_ok Let_def
          or_trap_eq_Inr or_panic_eq_Inr intro: that)
    qed
  qed
  have "annotated c (c\<lparr>cl_installments := sch\<rparr>)" by (simp add: annotated_def same_filing_def)
  then show ?thesis
    using dk_unlock[of "docket_of s" i c "c\<lparr>cl_installments := sch\<rparr>" sv e pool w] c w
    by (subst docket_view[where s'=s']) (simp_all add: s' docket_of_def)
qed

lemma claim_payout_ok:
  assumes "claim_payout sv e i s = Inr (n, s')"
  obtains c t w where "cp_claims s i = Some c" "cl_payout_ready_at c = Some t" "t \<le> timestamp e"
    "cl_paid_amount c = Some n" "n \<le> cl_coverage_amount c"
    "payout sv e (cl_policy_id c) (cp_world s) w"
    "s' = log_event (EcPayoutReleased i (cl_policy_id c) n) (s\<lparr>cp_claims := (cp_claims s)(i \<mapsto>
        c\<lparr>cl_payout_ready_at := None\<rparr>), cp_world := w\<rparr>)"
proof -
  obtain c t pe pool s2 where c: "cp_claims s i = Some c" "cl_payout_ready_at c = Some t" "t \<le> timestamp e"
    "cl_paid_amount c = Some n" "n \<le> cl_coverage_amount c"
    and s2: "pay_and_release sv e pe pool (cl_policy_id c)
       (s\<lparr>cp_claims := (cp_claims s)(i \<mapsto> c\<lparr>cl_payout_ready_at := None\<rparr>)\<rparr>) = Inr s2"
    and s': "s' = log_event (EcPayoutReleased i (cl_policy_id c) n) s2"
    using assms unfolding claim_payout_def
    by (auto simp: bindR_eq_Inr if_Inl_eq_Inr cp_lookups_ok Let_def or_panic_eq_Inr not_less)
  obtain w where w: "payout sv e (cl_policy_id c) (cp_world s) w"
    "s2 = s\<lparr>cp_claims := (cp_claims s)(i \<mapsto> c\<lparr>cl_payout_ready_at := None\<rparr>), cp_world := w\<rparr>"
    using s2 by (auto simp: pay_and_release_ok payout_def)
  show ?thesis by (rule that[OF c w(1)]) (simp add: s' w(2))
qed

lemma claim_payout_step:
  assumes "claim_payout sv e i s = Inr (n, s')"
  shows "docket_step st rv sv e (docket_of s) (docket_of s')"
proof (rule claim_payout_ok[OF assms])
  fix c t w
  assume c: "cp_claims s i = Some c" "cl_payout_ready_at c = Some t" "t \<le> timestamp e"
    "cl_paid_amount c = Some n" "n \<le> cl_coverage_amount c" "payout sv e (cl_policy_id c) (cp_world s) w"
    and s': "s' = log_event (EcPayoutReleased i (cl_policy_id c) n) (s\<lparr>cp_claims := (cp_claims s)(i \<mapsto>
        c\<lparr>cl_payout_ready_at := None\<rparr>), cp_world := w\<rparr>)"
  show ?thesis
    using dk_release[of "docket_of s" i c t e n sv w] c
    by (subst docket_view[where s'=s']) (simp_all add: s' docket_of_def)
qed

text \<open>The calls that decide on a claim; the others only annotate it or pay what is decided.\<close>

fun decides :: "review_call \<Rightarrow> bool" where
  "decides (DisputeClaim a i r) \<longleftrightarrow> True"
| "decides (ResolveDispute a i) \<longleftrightarrow> True"
| "decides (RejectClaim a i r) \<longleftrightarrow> True"
| "decides (EscalateClaim a i) \<longleftrightarrow> True"
| "decides _ \<longleftrightarrow> False"

lemma review_call_steps:
  assumes "review_dispatch sv e c s = Inr s'" "rv \<or> \<not> decides c"
  shows "docket_steps st rv sv e (docket_of s) (docket_of s')"
proof -
  have "docket_step st rv sv e (docket_of s) (docket_of s') \<or> docket_of s' = docket_of s"
  proof (cases c)
    case (SetDisputeDeadline a i t)
    with assms have "docket_of s' = docket_of s"
      by (auto simp: set_dispute_deadline_def bindR_eq_Inr if_Inl_eq_Inr log_event_docket intro!: docket_cong)
    then show ?thesis ..
  next
    case (SubmitClaimEvidence i a hs)
    with assms have "docket_of s' = docket_of s"
      by (auto simp: submit_claim_evidence_def bindR_eq_Inr if_Inl_eq_Inr intro!: docket_cong)
    then show ?thesis ..
  next
    case (ClaimPayoutWithToken i t)
    with assms show ?thesis
      using claim_payout_step
      by (auto simp: done_with_ok claim_payout_with_token_def bindR_eq_Inr if_Inl_eq_Inr)
  next
    case (ClaimPayoutTo i t)
    with assms show ?thesis
      using claim_payout_step by (auto simp: done_with_ok claim_payout_to_def bindR_eq_Inr if_Inl_eq_Inr)
  qed (use assms dispute_claim_step resolve_dispute_step reject_claim_step schedule_step
        claim_installment_step claim_payout_step escalate_claim_step identity_step
      in \<open>auto simp: done_with_ok\<close>)
  then show ?thesis by (metis docket_steps_one docket_steps_refl)
qed


section \<open>Configuration\<close>

definition core :: "'w cp_state \<Rightarrow> (int \<rightharpoonup> claim) \<times> (int \<rightharpoonup> int) \<times> int option \<times> int list option \<times> 'w \<times> bool" where
  "core s = (cp_claims s, cp_policy_claim s, cp_next_claim_id s, cp_pending_claims s, cp_world s,
     cp_initialized s)"

lemma core_log [simp]: "core (log_event ev s) = core s"
  by (simp add: core_def log_event_def)

lemma core_updates [simp]:
  "core (s\<lparr>cp_version := v, cp_wasm := w\<rparr>) = core s" "core (s\<lparr>cp_pending_upgrade := u\<rparr>) = core s"
  "core (s\<lparr>cp_pending_admin_change := c\<rparr>) = core s"
  "core (s\<lparr>cp_pending_admin_change := c, cp_pending_admin := a, cp_pending_admin_since := t\<rparr>) = core s"
  "core (s\<lparr>cp_authorized_attesters := l\<rparr>) = core s"
  by (simp_all add: core_def)

lemmas config_defs = add_keeper_def remove_keeper_def register_claim_type_def set_dispute_window_def
  cp_pause_def cp_resume_def set_guardian_threshold_def cp_set_guardians_def
  cp_cancel_pending_upgrade_def cp_accept_admin_def cp_propose_new_admin_def
  set_escalation_threshold_def set_category_escalation_def set_claim_deadline_def
  set_payout_delay_def set_fraud_config_def require_identity_for_category_def
  remove_identity_requirement_def add_authorized_attester_def remove_authorized_attester_def

lemma install_core [simp]: "core (cp_install_upgrade h v s) = core s"
  by (simp add: cp_install_upgrade_def)

lemma upgrade_core: "cp_upgrade e a h v s = Inr s' \<Longrightarrow> core s' = core s"
  by (auto simp: cp_upgrade_def bindR_eq_Inr split: if_splits)

lemma approve_upgrade_core: "cp_approve_upgrade e g h s = Inr s' \<Longrightarrow> core s' = core s"
  by (auto simp: cp_approve_upgrade_def Let_def bindR_eq_Inr split: if_splits)

lemma approve_admin_core: "cp_approve_admin_change e g b s = Inr s' \<Longrightarrow> core s' = core s"
  by (auto simp: cp_approve_admin_change_def Let_def bindR_eq_Inr split: if_splits)

lemma remove_attester_core: "remove_authorized_attester e a b s = Inr s' \<Longrightarrow> core s' = core s"
  by (auto simp: remove_authorized_attester_def bindR_eq_Inr split: if_splits)

lemma config_call_core:
  assumes "config_dispatch sv e c s = Inr s'" "\<And>a pe rp ov t. c \<noteq> CpInitialize a pe rp ov t"
  shows "core s' = core s"
proof (cases c)
  case (CpInitialize a pe rp ov t)
  then show ?thesis using assms(2) by blast
next
  case (AddAuthorizedAttester a b)
  with assms(1) show ?thesis
    by (auto simp: add_authorized_attester_def bindR_eq_Inr core_def log_event_def split: if_splits)
next
  case (CpProposeNewAdmin a b)
  with assms(1) show ?thesis
    by (auto simp: cp_propose_new_admin_def bindR_eq_Inr if_Inl_eq_Inr core_def split: if_splits)
next
  case (CpUpgrade a h v)
  with assms(1) show ?thesis by (simp add: upgrade_core)
next
  case (CpApproveUpgrade g h)
  with assms(1) show ?thesis by (simp add: approve_upgrade_core)
next
  case (CpApproveAdminChange g b)
  with assms(1) show ?thesis by (simp add: approve_admin_core)
next
  case (RemoveAuthorizedAttester a b)
  with assms(1) show ?thesis by (simp add: remove_attester_core)
qed (use assms(1) in
    \<open>auto simp: config_defs bindR_eq_Inr if_Inl_eq_Inr core_def log_event_def\<close>)

lemma config_call_docket:
  assumes "config_dispatch sv e c s = Inr s'" "\<And>a pe rp ov t. c \<noteq> CpInitialize a pe rp ov t"
  shows "docket_of s' = docket_of s\<lparr>dk_wiring := wiring_of s'\<rparr>
     \<and> cp_initialized s' = cp_initialized s"
  using config_call_core[OF assms] by (auto simp: core_def get_pending_claims_def intro!: docket_eqI)

lemma config_needs_admin:
  assumes "config_dispatch sv e c s = Inr s'" "cp_admin s = None" "cp_guardians s = None"
    and "cp_pending_admin s = None"
  shows "\<exists>a pe rp ov t. c = CpInitialize a pe rp ov t"
  using assms
  by (cases c) (simp_all add: config_defs cp_upgrade_def cp_approve_upgrade_def
      cp_approve_admin_change_def cp_require_guardian_def cp_get_guardians_def
      bindR_eq_Inr if_Inl_eq_Inr cp_guards_ok)

lemma initialize_docket:
  assumes "cp_initialize e a pe rp ov t s = Inr s'"
  shows "\<not> cp_initialized s \<and> cp_initialized s' \<and> docket_of s' = docket_of s\<lparr>dk_next := 1, dk_queue := [],
     dk_wiring := wiring_of s'\<rparr>"
proof -
  have "\<not> cp_initialized s" using assms by (auto simp: cp_initialize_def)
  then show ?thesis using assms
    by (auto simp: cp_initialize_def bindR_eq_Inr log_event_docket log_event_def get_pending_claims_def
        intro!: docket_eqI)
qed

lemma config_claims:
  assumes "config_dispatch sv e c s = Inr s'"
  shows "cp_claims s' = cp_claims s"
proof -
  have "dk_claims (docket_of s') = dk_claims (docket_of s)"
  proof (cases "\<exists>a pe rp ov t. c = CpInitialize a pe rp ov t")
    case True
    then obtain a pe rp ov t where "cp_initialize e a pe rp ov t s = Inr s'" using assms by auto
    then have "docket_of s' = docket_of s\<lparr>dk_next := 1, dk_queue := [], dk_wiring := wiring_of s'\<rparr>"
      using initialize_docket by blast
    then show ?thesis by (rule ssubst) simp
  next
    case False
    then have "docket_of s' = docket_of s\<lparr>dk_wiring := wiring_of s'\<rparr>"
      using config_call_docket[OF assms] by blast
    then show ?thesis by (rule ssubst) simp
  qed
  then show ?thesis by simp
qed

end
