(* ===== verification/CP_Invariants.thy ===== *)
theory CP_Invariants
  imports CP_Simulation
begin

text \<open>
  Invariants of the docket: the queue is exactly the pending claims, every policy has at most
  one claim, no payout exceeds its cover; the moves of a claim's status; and, under the
  contract of the payment services, the payouts behind the paid claims.
\<close>

section \<open>Invariant\<close>

definition claim_ok :: "claim \<Rightarrow> bool" where
  "claim_ok c \<longleftrightarrow> 0 < cl_coverage_amount c \<and> cl_status c \<noteq> ClaimExpired
     \<and> (\<forall>n. cl_paid_amount c = Some n \<longrightarrow> 0 \<le> n \<and> n \<le> cl_coverage_amount c)
     \<and> (cl_status c = ClaimPaid \<longrightarrow> cl_paid_amount c = Some (cl_coverage_amount c))
     \<and> (cl_status c = ClaimPartiallyPaid \<longrightarrow> cl_paid_amount c \<noteq> None)
     \<and> (cl_payout_ready_at c \<noteq> None \<longrightarrow> cl_paid_amount c \<noteq> None)"

definition docket_inv :: "'w docket \<Rightarrow> bool" where
  "docket_inv d \<longleftrightarrow> distinct (dk_queue d)
     \<and> (\<forall>i. i \<in> set (dk_queue d) \<longleftrightarrow> (\<exists>c. dk_claims d i = Some c \<and> cl_status c = ClaimPending))
     \<and> (\<forall>i c. dk_claims d i = Some c \<longrightarrow> cl_id c = i \<and> dk_index d (cl_policy_id c) = Some i
          \<and> i < dk_next d \<and> claim_ok c)
     \<and> (\<forall>p i. dk_index d p = Some i \<longrightarrow> (\<exists>c. dk_claims d i = Some c \<and> cl_policy_id c = p))"

lemma docket_invD:
  assumes "docket_inv d"
  shows "distinct (dk_queue d)"
    and "i \<in> set (dk_queue d) \<longleftrightarrow> (\<exists>c. dk_claims d i = Some c \<and> cl_status c = ClaimPending)"
    and "dk_claims d i = Some c \<Longrightarrow> cl_id c = i \<and> dk_index d (cl_policy_id c) = Some i
          \<and> i < dk_next d \<and> claim_ok c"
    and "dk_index d p = Some i \<Longrightarrow> \<exists>c. dk_claims d i = Some c \<and> cl_policy_id c = p"
  using assms by (auto simp: docket_inv_def)

text \<open>A claim is replaced by one with the same filing, and leaves the queue unless still pending.\<close>

lemma docket_inv_replace:
  assumes inv: "docket_inv d" and c: "dk_claims d i = Some c" "same_filing c c'" "claim_ok c'"
    and q: "distinct q" "\<And>j. j \<in> set q \<longleftrightarrow> (if j = i then cl_status c' = ClaimPending else j \<in> set (dk_queue d))"
    and d': "dk_claims d' = (dk_claims d)(i \<mapsto> c')" "dk_queue d' = q" "dk_index d' = dk_index d"
      "dk_next d' = dk_next d"
  shows "docket_inv d'"
  unfolding docket_inv_def d'
proof (intro conjI allI impI)
  note old = docket_invD(3)[OF inv c(1)]
  show "distinct q" by (rule q(1))
  show "j \<in> set q \<longleftrightarrow> (\<exists>x. ((dk_claims d)(i \<mapsto> c')) j = Some x \<and> cl_status x = ClaimPending)" for j
    using q(2)[of j] docket_invD(2)[OF inv, of j] by simp
  show "cl_id x = j" "dk_index d (cl_policy_id x) = Some j" "j < dk_next d" "claim_ok x"
    if "((dk_claims d)(i \<mapsto> c')) j = Some x" for j x
    using that docket_invD(3)[OF inv, of j x] old c(2,3) by (auto simp: same_filing_def split: if_splits)
  show "\<exists>x. ((dk_claims d)(i \<mapsto> c')) j = Some x \<and> cl_policy_id x = p" if "dk_index d p = Some j" for p j
    using docket_invD(4)[OF inv that] c(1,2) by (auto simp: same_filing_def)
qed

lemma queue_without:
  assumes "docket_inv d"
  shows "distinct (remove1 i (dk_queue d))"
    and "j \<in> set (remove1 i (dk_queue d)) \<longleftrightarrow> (if j = i then False else j \<in> set (dk_queue d))"
  using docket_invD(1)[OF assms] by auto

lemma decided_ok:
  assumes "decided now met c c'" "claim_ok c"
  shows "claim_ok c' \<and> same_filing c c' \<and> cl_status c' \<noteq> ClaimPending
     \<and> cl_status c' \<in> {ClaimPaid, ClaimPartiallyPaid, ClaimRejected}"
proof -
  have cov: "0 < cl_coverage_amount c" using assms(2) by (simp add: claim_ok_def)
  have "same_filing c c'" using assms(1) by (simp add: decided_def)
  moreover have "claim_ok c'"
  proof (cases met)
    case True
    then have part: "paid_part c c'" using assms(1) by (simp add: decided_def)
    have "0 \<le> (cl_coverage_amount c * b) sdiv 10000" if "0 \<le> b" for b
      using that cov by (simp add: sdiv_nonneg pos_imp_zdiv_nonneg_iff)
    then have "\<exists>n. cl_paid_amount c' = Some n \<and> 0 \<le> n \<and> n \<le> cl_coverage_amount c
        \<and> (cl_status c' = ClaimPaid \<and> n = cl_coverage_amount c \<or> cl_status c' = ClaimPartiallyPaid)"
      using part cov unfolding paid_part_def by force
    then show ?thesis
      using cov \<open>same_filing c c'\<close> by (auto simp: claim_ok_def same_filing_def)
  next
    case False
    then show ?thesis using assms by (auto simp: claim_ok_def decided_def same_filing_def)
  qed
  moreover have "cl_status c' \<in> {ClaimPaid, ClaimPartiallyPaid, ClaimRejected}"
    using assms(1) by (auto simp: decided_def paid_part_def split: if_splits)
  ultimately show ?thesis by auto
qed

lemma docket_step_inv:
  assumes "docket_step st rv sv e d d'" "docket_inv d"
  shows "docket_inv d'"
  using assms(1)
proof cases
  case (dk_open p i cov pe po a)
  have fresh: "dk_claims d i = None" "i \<notin> set (dk_queue d)"
    using docket_invD(2,3)[OF assms(2), of i] dk_open(3) by (cases "dk_claims d i"; auto)+
  show ?thesis
  proof -
    let ?c = "new_claim i p a cov (timestamp e)" and ?m = "(dk_claims d)(i \<mapsto> new_claim i p a cov (timestamp e))"
    have new: "cl_id ?c = i" "cl_policy_id ?c = p" "claim_ok ?c" "cl_status ?c = ClaimPending"
      using dk_open(4) by (simp_all add: new_claim_def claim_ok_def)
    have other: "cl_policy_id x \<noteq> p" if "dk_claims d j = Some x" for j x
      using docket_invD(3)[OF assms(2) that] dk_open(2) by auto
    have view: "dk_claims d' = ?m" "dk_queue d' = dk_queue d @ [i]" "dk_index d' = (dk_index d)(p \<mapsto> i)"
      "dk_next d' = i + 1" by (simp_all add: dk_open(1))
    show ?thesis unfolding docket_inv_def view
    proof (intro conjI allI impI)
      show "distinct (dk_queue d @ [i])" using fresh docket_invD(1)[OF assms(2)] by simp
      show "j \<in> set (dk_queue d @ [i]) \<longleftrightarrow> (\<exists>x. ?m j = Some x \<and> cl_status x = ClaimPending)" for j
        using docket_invD(2)[OF assms(2), of j] new(4) fresh by simp
      show "cl_id x = j" "((dk_index d)(p \<mapsto> i)) (cl_policy_id x) = Some j" "j < i + 1" "claim_ok x"
        if "?m j = Some x" for j x
        using that docket_invD(3)[OF assms(2), of j x] other[of j x] new dk_open(3)
        by (auto split: if_splits)
      show "\<exists>x. ?m j = Some x \<and> cl_policy_id x = q" if "((dk_index d)(p \<mapsto> i)) q = Some j" for q j
        using that docket_invD(4)[OF assms(2), of q j] new(2) fresh(1) by (auto split: if_splits)
    qed
  qed
next
  case (dk_pay i c c' w)
  note c = docket_invD(3)[OF assms(2) dk_pay(2)]
  note ok = decided_ok[OF dk_pay(4)]
  show ?thesis unfolding dk_pay(1)
    by (rule docket_inv_replace[OF assms(2) dk_pay(2) _ _ queue_without(1)[OF assms(2), of i]])
       (use c ok queue_without(2)[OF assms(2), of _ i] in auto)
next
  case (dk_delay i c c' t)
  note c = docket_invD(3)[OF assms(2) dk_delay(2)]
  note ok = decided_ok[OF dk_delay(4)]
  show ?thesis unfolding dk_delay(1)
    by (rule docket_inv_replace[OF assms(2) dk_delay(2) _ _ queue_without(1)[OF assms(2), of i]])
       (use c ok queue_without(2)[OF assms(2), of _ i] in auto)
next
  case (dk_refuse i c c')
  note c = docket_invD(3)[OF assms(2) dk_refuse(2)]
  note ok = decided_ok[OF dk_refuse(4)]
  show ?thesis unfolding dk_refuse(1)
    by (rule docket_inv_replace[OF assms(2) dk_refuse(2) _ _ queue_without(1)[OF assms(2), of i]])
       (use c ok queue_without(2)[OF assms(2), of _ i] in auto)
next
  case (dk_release i c t n w)
  note c = docket_invD(3)[OF assms(2) dk_release(2)]
  show ?thesis unfolding dk_release(1)
    by (rule docket_inv_replace[OF assms(2) dk_release(2) _ _ docket_invD(1)[OF assms(2)]])
       (use c docket_invD(2)[OF assms(2), of i] dk_release(2) in \<open>auto simp: same_filing_def claim_ok_def\<close>)
next
  case (dk_dispute i c r)
  note c = docket_invD(3)[OF assms(2) dk_dispute(2)]
  show ?thesis unfolding dk_dispute(1)
    by (rule docket_inv_replace[OF assms(2) dk_dispute(2) _ _ queue_without(1)[OF assms(2), of i]])
       (use c queue_without(2)[OF assms(2), of _ i] in \<open>auto simp: same_filing_def claim_ok_def\<close>)
next
  case (dk_resolve i c)
  note c = docket_invD(3)[OF assms(2) dk_resolve(2)]
  have "i \<notin> set (dk_queue d)" using docket_invD(2)[OF assms(2), of i] dk_resolve(2,3) by simp
  then show ?thesis unfolding dk_resolve(1)
    by (intro docket_inv_replace[OF assms(2) dk_resolve(2), of _ "dk_queue d @ [i]"])
       (use c docket_invD(1)[OF assms(2)] in \<open>auto simp: same_filing_def claim_ok_def\<close>)
next
  case (dk_reject i c)
  note c = docket_invD(3)[OF assms(2) dk_reject(2)]
  show ?thesis unfolding dk_reject(1)
    by (rule docket_inv_replace[OF assms(2) dk_reject(2) _ _ queue_without(1)[OF assms(2), of i]])
       (use c queue_without(2)[OF assms(2), of _ i] in \<open>auto simp: same_filing_def claim_ok_def\<close>)
next
  case (dk_escalate i c)
  note c = docket_invD(3)[OF assms(2) dk_escalate(2)]
  show ?thesis unfolding dk_escalate(1)
    by (rule docket_inv_replace[OF assms(2) dk_escalate(2) _ _ queue_without(1)[OF assms(2), of i]])
       (use c queue_without(2)[OF assms(2), of _ i] in \<open>auto simp: same_filing_def claim_ok_def\<close>)
next
  case (dk_annotate i c c')
  note c = docket_invD(3)[OF assms(2) dk_annotate(2)]
  show ?thesis unfolding dk_annotate(1)
    by (rule docket_inv_replace[OF assms(2) dk_annotate(2) _ _ docket_invD(1)[OF assms(2)]])
       (use c docket_invD(2)[OF assms(2), of i] dk_annotate(2,3) in
         \<open>auto simp: annotated_def same_filing_def claim_ok_def\<close>)
next
  case (dk_requeue q)
  have "set q = set (filter (\<lambda>i. dk_claims d i \<noteq> None) (dk_queue d))" "distinct q"
    using dk_requeue(2) docket_invD(1)[OF assms(2)]
    by (metis set_mset_mset, metis distinct_filter mset_eq_imp_distinct_iff)
  then show ?thesis
    using docket_invD[OF assms(2)] unfolding docket_inv_def dk_requeue(1) by auto
next
  case (dk_unlock i c c' pool w)
  note c = docket_invD(3)[OF assms(2) dk_unlock(2)]
  show ?thesis unfolding dk_unlock(1)
    by (rule docket_inv_replace[OF assms(2) dk_unlock(2) _ _ docket_invD(1)[OF assms(2)]])
       (use c docket_invD(2)[OF assms(2), of i] dk_unlock(2,3) in
         \<open>auto simp: annotated_def same_filing_def claim_ok_def\<close>)
qed (use assms(2) in \<open>auto simp: docket_inv_def\<close>)

lemma docket_steps_docket_inv: "docket_steps st rv sv e d d' \<Longrightarrow> docket_inv d \<Longrightarrow> docket_inv d'"
  by (erule docket_steps_inv) (auto intro: docket_step_inv)

section \<open>Settlements\<close>

text \<open>
  Steps without a review: a claim keeps its filing and its status, unless it is pending and
  gets settled, where that is allowed.
\<close>

definition adjudicates :: "bool \<Rightarrow> claim \<Rightarrow> claim \<Rightarrow> bool" where
  "adjudicates st c c' \<longleftrightarrow> same_filing c c' \<and> (cl_status c' = cl_status c
     \<or> st \<and> cl_status c = ClaimPending \<and> cl_status c' \<in> {ClaimPaid, ClaimPartiallyPaid, ClaimRejected})"

definition only_settled :: "bool \<Rightarrow> 'w docket \<Rightarrow> 'w docket \<Rightarrow> bool" where
  "only_settled st d d' \<longleftrightarrow> (\<forall>i c. dk_claims d i = Some c \<longrightarrow> (\<exists>c'. dk_claims d' i = Some c' \<and> adjudicates st c c'))"

lemma adjudicates_refl [simp]: "adjudicates st c c"
  by (simp add: adjudicates_def same_filing_def)

lemma adjudicates_trans: "adjudicates st c c' \<Longrightarrow> adjudicates st c' c'' \<Longrightarrow> adjudicates st c c''"
  by (auto simp: adjudicates_def same_filing_def)

lemma adjudicates_annotated: "annotated c c' \<Longrightarrow> adjudicates st c c'"
  by (auto simp: annotated_def adjudicates_def)

lemma adjudicates_decided: "st \<Longrightarrow> decided now met c c' \<Longrightarrow> cl_status c = ClaimPending \<Longrightarrow> claim_ok c \<Longrightarrow> adjudicates st c c'"
  using decided_ok[of now met c c'] by (auto simp: adjudicates_def)

lemma only_settled_refl [simp]: "only_settled st d d"
  by (auto simp: only_settled_def)

lemma only_settled_trans: "only_settled st d d' \<Longrightarrow> only_settled st d' d'' \<Longrightarrow> only_settled st d d''"
  unfolding only_settled_def by (meson adjudicates_trans)

lemma only_settled_replace:
  assumes "dk_claims d i = Some c" "adjudicates st c c'" "dk_claims d' = (dk_claims d)(i \<mapsto> c')"
  shows "only_settled st d d'"
  using assms by (auto simp: only_settled_def)

lemma only_settled_same: "dk_claims d' = dk_claims d \<Longrightarrow> only_settled st d d'"
  by (auto simp: only_settled_def)

lemma docket_step_settles:
  assumes "docket_step st False sv e d d'" "docket_inv d"
  shows "only_settled st d d'"
  using assms(1)
proof cases
  case (dk_open p i cov pe po a)
  have "dk_claims d i = None" using docket_invD(3)[OF assms(2), of i] dk_open(3) by (cases "dk_claims d i") auto
  then show ?thesis unfolding dk_open(1) only_settled_def by auto
next
  case (dk_pay i c c' w)
  have "cl_id c = i" "claim_ok c" using docket_invD(3)[OF assms(2) dk_pay(2)] by auto
  then show ?thesis using only_settled_replace[OF dk_pay(2) adjudicates_decided[OF _ dk_pay(4,3)]] dk_pay by simp
next
  case (dk_delay i c c' t)
  have "cl_id c = i" "claim_ok c" using docket_invD(3)[OF assms(2) dk_delay(2)] by auto
  then show ?thesis using only_settled_replace[OF dk_delay(2) adjudicates_decided[OF _ dk_delay(4,3)]] dk_delay by simp
next
  case (dk_refuse i c c')
  have "cl_id c = i" "claim_ok c" using docket_invD(3)[OF assms(2) dk_refuse(2)] by auto
  then show ?thesis using only_settled_replace[OF dk_refuse(2) adjudicates_decided[OF _ dk_refuse(4,3)]] dk_refuse by simp
next
  case (dk_release i c t n w)
  have "adjudicates st c (c\<lparr>cl_payout_ready_at := None\<rparr>)" by (simp add: adjudicates_def same_filing_def)
  then show ?thesis using only_settled_replace[OF dk_release(2)] dk_release(1) by simp
next
  case (dk_annotate i c c')
  then show ?thesis using only_settled_replace[OF dk_annotate(2) adjudicates_annotated] by simp
next
  case (dk_unlock i c c' pool w)
  then show ?thesis using only_settled_replace[OF dk_unlock(2) adjudicates_annotated] by simp
qed (auto intro: only_settled_same)

lemma docket_steps_settle: "docket_steps st False sv e d d' \<Longrightarrow> docket_inv d \<Longrightarrow> only_settled st d d'"
  by (rule docket_steps_inv[where P="\<lambda>x. only_settled st d x \<and> docket_inv x", THEN conjunct1])
     (auto intro: only_settled_trans docket_step_settles docket_step_inv)

section \<open>The contract before its initialisation\<close>

definition dk_fresh :: "'w docket \<Rightarrow> bool" where
  "dk_fresh d \<longleftrightarrow> dk_claims d = Map.empty \<and> dk_index d = Map.empty \<and> dk_next d = 1 \<and> dk_queue d = []
     \<and> wi_admin (dk_wiring d) = None \<and> wi_policy_engine (dk_wiring d) = None
     \<and> wi_guardians (dk_wiring d) = None \<and> wi_pending_admin (dk_wiring d) = None"

lemma docket_step_fresh: "docket_step st rv sv e d d' \<Longrightarrow> dk_fresh d \<Longrightarrow> dk_fresh d'"
  by (erule docket_step.cases) (auto simp: dk_fresh_def)

lemma docket_steps_wiring: "docket_steps st rv sv e d d' \<Longrightarrow> dk_wiring d' = dk_wiring d"
  unfolding docket_steps_def
  by (induction rule: rtranclp_induct) (auto elim: docket_step.cases)

definition docket_ready :: "'w docket \<Rightarrow> bool" where
  "docket_ready d \<longleftrightarrow> docket_inv d \<and> (wi_initialized (dk_wiring d) \<or> dk_fresh d)"

lemma docket_steps_ready:
  assumes "docket_steps st rv sv e d d'" "docket_ready d"
  shows "docket_ready d'"
proof -
  have "dk_fresh d'" if "dk_fresh d"
    using assms(1) that by (rule docket_steps_inv) (rule docket_step_fresh)
  then show ?thesis
    using assms docket_steps_docket_inv[OF assms(1)] docket_steps_wiring[OF assms(1)]
    unfolding docket_ready_def by auto
qed

section \<open>The system\<close>

text \<open>
  A call of the processor: docket steps, a change of the wiring, or a change elsewhere.
\<close>

lemma exec_docket:
  assumes "cp_exec sv e c s = Inr s'" "docket_ready (docket_of s)"
  shows "docket_ready (docket_of s') \<and>
     (docket_steps True True sv e (docket_of s) (docket_of s')
      \<or> docket_of s' = docket_of s\<lparr>dk_wiring := wiring_of s'\<rparr>
      \<or> (\<exists>w. c = Elsewhere w \<and> docket_of s' = docket_of s\<lparr>dk_world := w\<rparr>))"
proof (cases c)
  case (File f)
  then have "docket_steps True True sv e (docket_of s) (docket_of s')"
    using assms(1) claim_call_steps[of sv e f s s'] by (simp add: cp_exec_ok)
  then show ?thesis using docket_steps_ready[OF _ assms(2)] by blast
next
  case (Review r)
  then have "docket_steps True True sv e (docket_of s) (docket_of s')"
    using assms(1) review_call_steps[of sv e r s s' True True] by (simp add: cp_exec_ok)
  then show ?thesis using docket_steps_ready[OF _ assms(2)] by blast
next
  case (Elsewhere w)
  then have "docket_of s' = docket_of s\<lparr>dk_world := w\<rparr>"
    using assms(1) by (auto simp: cp_exec_ok intro!: docket_eqI)
  moreover have "docket_ready (docket_of s\<lparr>dk_world := w\<rparr>)"
    using assms(2) by (auto simp: docket_ready_def docket_inv_def dk_fresh_def)
  ultimately show ?thesis using Elsewhere by auto
next
  case (Configure g)
  then have g: "config_dispatch sv e g s = Inr s'" using assms(1) by (simp add: cp_exec_ok)
  show ?thesis
  proof (cases "\<exists>a pe rp ov t. g = CpInitialize a pe rp ov t")
    case True
    then have init: "\<not> cp_initialized s" "cp_initialized s'"
      "docket_of s' = docket_of s\<lparr>dk_next := 1, dk_queue := [], dk_wiring := wiring_of s'\<rparr>"
      using g initialize_docket by (fastforce)+
    then have fresh: "dk_fresh (docket_of s)" using assms(2) by (simp add: docket_ready_def)
    then have "docket_of s' = docket_of s\<lparr>dk_wiring := wiring_of s'\<rparr>"
      using init(3) by (simp add: dk_fresh_def docket_of_def)
    moreover have "docket_ready (docket_of s\<lparr>dk_wiring := wiring_of s'\<rparr>)"
      using assms(2) init(2) by (simp add: docket_ready_def docket_inv_def)
    ultimately show ?thesis by simp
  next
    case False
    then have view: "docket_of s' = docket_of s\<lparr>dk_wiring := wiring_of s'\<rparr>" "cp_initialized s' = cp_initialized s"
      using config_call_docket[OF g] by blast+
    have "cp_initialized s"
    proof (rule ccontr)
      assume "\<not> cp_initialized s"
      then have "dk_fresh (docket_of s)" using assms(2) by (simp add: docket_ready_def)
      then show False using config_needs_admin[OF g] False by (simp add: dk_fresh_def)
    qed
    then have "docket_ready (docket_of s\<lparr>dk_wiring := wiring_of s'\<rparr>)"
      using assms(2) view(2) by (simp add: docket_ready_def docket_inv_def)
    then show ?thesis using view(1) by simp
  qed
qed

lemma fresh_ready: "docket_ready (docket_of (cp_fresh w))"
  by (simp add: docket_ready_def docket_inv_def dk_fresh_def cp_fresh_def docket_of_def
      get_pending_claims_def wiring_of_def)

interpretation cp: invariant_system "cp_exec sv" "cp_fresh w" "\<lambda>t s. docket_ready (docket_of s)"
  for sv :: "'w services" and w
  by unfold_locales (rule fresh_ready, drule exec_docket, assumption, erule conjunct1)

section \<open>The status of a claim\<close>

text \<open>
  Which call on which status of the claim \<open>i\<close> leads to which status: a filing or processing
  call settles a pending claim; a dispute, its resolution, an escalation and a rejection are
  calls on this claim.
\<close>

inductive status_change :: "int \<Rightarrow> 'w cp_call \<Rightarrow> claim_status \<Rightarrow> claim_status \<Rightarrow> bool" for i :: int where
  settled: "st \<in> {ClaimPaid, ClaimPartiallyPaid, ClaimRejected} \<Longrightarrow> status_change i (File f) ClaimPending st"
| disputed: "st \<in> {ClaimPending, ClaimRejected, ClaimPartiallyPaid} \<Longrightarrow>
     status_change i (Review (DisputeClaim a i r)) st ClaimDisputed"
| resolved: "status_change i (Review (ResolveDispute a i)) ClaimDisputed ClaimPending"
| escalated: "status_change i (Review (EscalateClaim a i)) ClaimPending ClaimEscalated"
| rejected: "status_change i (Review (RejectClaim a i r)) st ClaimRejected"

inductive_cases status_change_closed: "status_change i c ClaimPaid st" "status_change i c ClaimEscalated st"

definition claim_changes :: "int \<Rightarrow> 'w cp_call \<Rightarrow> claim \<Rightarrow> claim \<Rightarrow> bool" where
  "claim_changes i call c c' \<longleftrightarrow> same_filing c c'
     \<and> (cl_status c' = cl_status c \<or> status_change i call (cl_status c) (cl_status c'))"

lemma claim_changes_refl [simp]: "claim_changes i call c c"
  by (simp add: claim_changes_def same_filing_def)

lemma exec_claim_changes:
  assumes "cp_exec sv e call s = Inr s'" "docket_ready (docket_of s)" "cp_claims s i = Some c"
  shows "\<exists>c'. cp_claims s' i = Some c' \<and> claim_changes i call c c'"
proof -
  have inv: "docket_inv (docket_of s)" using assms(2) by (simp add: docket_ready_def)
  show ?thesis
  proof (cases call)
    case (File f)
    then have "docket_steps True False sv e (docket_of s) (docket_of s')"
      using assms(1) claim_call_steps[of sv e f s s'] by (simp add: cp_exec_ok)
    from docket_steps_settle[OF this inv] show ?thesis
      using assms(3) File by (fastforce simp: only_settled_def adjudicates_def claim_changes_def intro: status_change.settled)
  next
    case (Review r)
    then have r: "review_dispatch sv e r s = Inr s'" using assms(1) by (simp add: cp_exec_ok)
    show ?thesis
    proof (cases "decides r")
      case False
      from docket_steps_settle[OF review_call_steps[OF r, of False False] inv] False show ?thesis
        using assms(3) by (fastforce simp: only_settled_def adjudicates_def claim_changes_def)
    next
      case True
      then show ?thesis using r Review assms(3)
        by (cases r) (auto elim!: dispute_claim_ok resolve_dispute_ok reject_claim_ok escalate_claim_ok
            simp: claim_changes_def same_filing_def status_change.simps)
    qed
  next
    case (Configure g)
    have "cp_claims s' = cp_claims s"
      using config_claims[of sv e g s s'] Configure assms(1) by (simp add: cp_exec_ok)
    then show ?thesis using assms(3) by simp
  next
    case (Elsewhere w)
    then show ?thesis using assms(1,3) by (auto simp: cp_exec_ok)
  qed
qed

text \<open>Out of \<open>Paid\<close> and \<open>Escalated\<close> a claim is only taken by its rejection.\<close>

fun rejects :: "int \<Rightarrow> 'w cp_call \<Rightarrow> bool" where
  "rejects i (Review (RejectClaim a j r)) \<longleftrightarrow> j = i"
| "rejects i _ \<longleftrightarrow> False"

lemma closed_stays:
  assumes "run (except (rejects i) (cp_exec sv)) t s t' s'" "docket_ready (docket_of s)"
    and "cp_claims s i = Some c" "cl_status c \<in> {ClaimPaid, ClaimEscalated}"
  shows "docket_ready (docket_of s') \<and> (\<exists>c'. cp_claims s' i = Some c' \<and> same_filing c c' \<and> cl_status c' = cl_status c)"
  using assms
proof (induction rule: run.induct)
  case (run_refl t s)
  then show ?case by (simp add: same_filing_def)
next
  case (run_step t s t' s' e call s'')
  have k: "\<not> rejects i call" "cp_exec sv e call s' = Inr s''"
    using run_step.hyps(4) by (auto simp: except_def split: if_splits)
  obtain c' where c': "cp_claims s' i = Some c'" "same_filing c c'" "cl_status c' = cl_status c"
    "docket_ready (docket_of s')"
    using run_step by blast
  obtain c'' where c'': "cp_claims s'' i = Some c''" "claim_changes i call c' c''"
    using exec_claim_changes[OF k(2) c'(4,1)] by blast
  have "\<not> status_change i call (cl_status c') st" for st
    using k(1) c'(3) run_step.prems(3) by (auto elim!: status_change_closed)
  then have "same_filing c c''" "cl_status c'' = cl_status c"
    using c'' c' by (auto simp: claim_changes_def same_filing_def)
  then show ?case using c''(1) exec_docket[OF k(2) c'(4)] by blast
qed

end
