(* ===== verification/CP_Backing.thy ===== *)
theory CP_Backing
  imports CP_Invariants
begin

text \<open>
  What the claims processor relies on in the contracts it calls, as an interface, and what
  it promises in return: behind every claim recorded as paid there is a settled policy of
  exactly the claim's cover.
\<close>

section \<open>The settlement services\<close>

text \<open>
  \<open>sound t w\<close> holds of the worlds that can occur at ledger time \<open>t\<close>, \<open>settled w i\<close> says
  that policy \<open>i\<close> has been paid and its capital freed, \<open>cover w i\<close> is its cover. Every
  service keeps the settled policies settled and the covers as they are.
\<close>

locale settlement_services =
  fixes sv :: "'w services"
    and sound :: "int \<Rightarrow> 'w \<Rightarrow> bool"
    and settled :: "'w \<Rightarrow> int \<Rightarrow> bool"
    and cover :: "'w \<Rightarrow> int \<Rightarrow> int option"
    and evolves :: "'w \<Rightarrow> 'w \<Rightarrow> bool"
  assumes keeps_settled: "evolves w w' \<Longrightarrow> settled w i \<Longrightarrow> settled w' i"
    and keeps_cover: "evolves w w' \<Longrightarrow> cover w i = Some n \<Longrightarrow> cover w' i = Some n"
    and payout_law: "sound (timestamp e) w \<Longrightarrow> payout sv e i w w' \<Longrightarrow>
          sound (timestamp e) w' \<and> evolves w w' \<and> settled w' i"
    and release_law: "sound (timestamp e) w \<Longrightarrow> sv_release_for_claim sv e pool a i w = Some w' \<Longrightarrow>
          sound (timestamp e) w' \<and> evolves w w'"
    and expiry_law: "sound (timestamp e) w \<Longrightarrow> sv_expire_policy sv e pe a i w = Some w1 \<Longrightarrow>
          sv_release_for_expiry sv e pool a i w1 = Some w' \<Longrightarrow>
          sound (timestamp e) w' \<and> evolves w w'"
    and reading_law: "sound (timestamp e) w \<Longrightarrow>
          sv_verify_trigger_fresh sv e ov dt k tc m w = Some (b, w') \<Longrightarrow>
          sound (timestamp e) w' \<and> evolves w w'"
    and readings_law: "sound (timestamp e) w \<Longrightarrow> sv_batch_verify_fresh sv e ov qs w = Some (bs, w') \<Longrightarrow>
          sound (timestamp e) w' \<and> evolves w w'"
    and policy_law: "sound t w \<Longrightarrow> sv_policy sv w pe i = Some po \<Longrightarrow> cover w i = Some (po_coverage_amount po)"
begin

definition backed_claim :: "'w \<Rightarrow> claim \<Rightarrow> bool" where
  "backed_claim w c \<longleftrightarrow> cover w (cl_policy_id c) = Some (cl_coverage_amount c)
     \<and> (cl_status c = ClaimPaid \<or> cl_status c = ClaimPartiallyPaid \<longrightarrow> cl_payout_ready_at c = None
          \<longrightarrow> settled w (cl_policy_id c))"

definition backed :: "'w docket \<Rightarrow> bool" where
  "backed d \<longleftrightarrow> (\<forall>i c. dk_claims d i = Some c \<longrightarrow> backed_claim (dk_world d) c)"

lemma backed_claim_evolves: "backed_claim w c \<Longrightarrow> evolves w w' \<Longrightarrow> backed_claim w' c"
  using keeps_settled keeps_cover by (auto simp: backed_claim_def)

lemma backed_evolves:
  "backed d \<Longrightarrow> evolves (dk_world d) w \<Longrightarrow> backed (d\<lparr>dk_world := w\<rparr>)"
  by (auto simp: backed_def intro: backed_claim_evolves)

lemma backed_update:
  assumes "backed d" "backed_claim w c'" "w = dk_world d \<or> evolves (dk_world d) w"
    "dk_claims d' = (dk_claims d)(j \<mapsto> c')" "dk_world d' = w"
  shows "backed d'"
  using assms by (auto simp: backed_def intro: backed_claim_evolves)

lemma backed_step:
  assumes "docket_step st rv sv e d d'" "backed d" "sound (timestamp e) (dk_world d)"
  shows "backed d' \<and> sound (timestamp e) (dk_world d')"
  using assms(1)
proof cases
  case (dk_open p i cov pe po a)
  have "backed_claim (dk_world d) (new_claim i p a cov (timestamp e))"
    using policy_law[OF assms(3) dk_open(6)] dk_open(7) by (simp add: backed_claim_def new_claim_def)
  from backed_update[OF assms(2) this] show ?thesis using assms(3) by (simp add: dk_open(1))
next
  case (dk_pay i c c' w)
  note law = payout_law[OF assms(3) dk_pay(6)]
  have c: "backed_claim (dk_world d) c" using assms(2) dk_pay(2) by (simp add: backed_def)
  have "same_filing c c'" using dk_pay(4) by (simp add: decided_def)
  then have "backed_claim w c'"
    using c law keeps_cover by (auto simp: backed_claim_def same_filing_def)
  from backed_update[OF assms(2) this] show ?thesis using law by (simp add: dk_pay(1))
next
  case (dk_delay i c c' t)
  have c: "backed_claim (dk_world d) c" using assms(2) dk_delay(2) by (simp add: backed_def)
  have "same_filing c c'" using dk_delay(4) by (simp add: decided_def)
  then have "backed_claim (dk_world d) c'"
    using c dk_delay(7) by (simp add: backed_claim_def same_filing_def)
  from backed_update[OF assms(2) this] show ?thesis using assms(3) by (simp add: dk_delay(1))
next
  case (dk_refuse i c c')
  have c: "backed_claim (dk_world d) c" using assms(2) dk_refuse(2) by (simp add: backed_def)
  then have "backed_claim (dk_world d) c'"
    using dk_refuse(4) by (auto simp: backed_claim_def decided_def same_filing_def)
  from backed_update[OF assms(2) this] show ?thesis using assms(3) by (simp add: dk_refuse(1))
next
  case (dk_release i c t n w)
  note law = payout_law[OF assms(3) dk_release(7)]
  have c: "backed_claim (dk_world d) c" using assms(2) dk_release(2) by (simp add: backed_def)
  then have "backed_claim w (c\<lparr>cl_payout_ready_at := None\<rparr>)"
    using law keeps_cover by (auto simp: backed_claim_def)
  from backed_update[OF assms(2) this] show ?thesis using law by (simp add: dk_release(1))
next
  case (dk_dispute i c r)
  have c: "backed_claim (dk_world d) c" using assms(2) dk_dispute(2) by (simp add: backed_def)
  then have "backed_claim (dk_world d) (c\<lparr>cl_status := ClaimDisputed, cl_dispute_reason := Some r\<rparr>)"
    by (simp add: backed_claim_def)
  from backed_update[OF assms(2) this] show ?thesis using assms(3) by (simp add: dk_dispute(1))
next
  case (dk_resolve i c)
  have c: "backed_claim (dk_world d) c" using assms(2) dk_resolve(2) by (simp add: backed_def)
  then have "backed_claim (dk_world d) (c\<lparr>cl_status := ClaimPending, cl_dispute_reason := None\<rparr>)"
    by (simp add: backed_claim_def)
  from backed_update[OF assms(2) this] show ?thesis using assms(3) by (simp add: dk_resolve(1))
next
  case (dk_reject i c)
  have c: "backed_claim (dk_world d) c" using assms(2) dk_reject(2) by (simp add: backed_def)
  then have "backed_claim (dk_world d) (c\<lparr>cl_status := ClaimRejected\<rparr>)" by (simp add: backed_claim_def)
  from backed_update[OF assms(2) this] show ?thesis using assms(3) by (simp add: dk_reject(1))
next
  case (dk_escalate i c)
  have c: "backed_claim (dk_world d) c" using assms(2) dk_escalate(2) by (simp add: backed_def)
  then have "backed_claim (dk_world d) (c\<lparr>cl_status := ClaimEscalated\<rparr>)" by (simp add: backed_claim_def)
  from backed_update[OF assms(2) this] show ?thesis using assms(3) by (simp add: dk_escalate(1))
next
  case (dk_annotate i c c')
  have c: "backed_claim (dk_world d) c" using assms(2) dk_annotate(2) by (simp add: backed_def)
  then have "backed_claim (dk_world d) c'"
    using dk_annotate(3) by (simp add: backed_claim_def annotated_def same_filing_def)
  from backed_update[OF assms(2) this] show ?thesis using assms(3) by (simp add: dk_annotate(1))
next
  case (dk_requeue q)
  then show ?thesis using assms(2,3) by (simp add: backed_def)
next
  case (dk_oracle ov dt k tc m b w)
  then show ?thesis using backed_evolves[OF assms(2)] reading_law[OF assms(3)] by simp
next
  case (dk_oracles ov qs bs w)
  then show ?thesis using backed_evolves[OF assms(2)] readings_law[OF assms(3)] by simp
next
  case (dk_expire pe p w1 pool w)
  then show ?thesis using backed_evolves[OF assms(2)] expiry_law[OF assms(3)] by simp
next
  case (dk_unlock i c c' pool w)
  note law = release_law[OF assms(3) dk_unlock(4)]
  have "backed_claim (dk_world d) c'" using assms(2) dk_unlock(2,3)
    by (auto simp: backed_def backed_claim_def annotated_def same_filing_def)
  then have "backed_claim w c'" using backed_claim_evolves law by blast
  from backed_update[OF assms(2) this] show ?thesis using law by (simp add: dk_unlock(1))
qed

lemma backed_steps:
  assumes "docket_steps st rv sv e d d'" "backed d" "sound (timestamp e) (dk_world d)"
  shows "backed d' \<and> sound (timestamp e) (dk_world d')"
  by (rule docket_steps_inv[OF assms(1), where P = "\<lambda>x. backed x \<and> sound (timestamp e) (dk_world x)"])
     (use assms(2,3) backed_step in blast)+

text \<open>The calls of the processor, in a world that only evolves between them.\<close>

lemma backed_exec:
  assumes "cp_exec sv e c s = Inr s'" "docket_ready (docket_of s)" "backed (docket_of s)"
    and "sound (timestamp e) (cp_world s)"
    and "\<And>w. c = Elsewhere w \<Longrightarrow> sound (timestamp e) w \<and> evolves (cp_world s) w"
  shows "backed (docket_of s') \<and> sound (timestamp e) (cp_world s')"
proof -
  consider "docket_steps True True sv e (docket_of s) (docket_of s')"
    | "docket_of s' = docket_of s\<lparr>dk_wiring := wiring_of s'\<rparr>"
    | w where "c = Elsewhere w" "docket_of s' = docket_of s\<lparr>dk_world := w\<rparr>"
    using exec_docket[OF assms(1,2)] by blast
  then show ?thesis
  proof cases
    case 1
    then show ?thesis using backed_steps[OF 1 assms(3)] assms(4) by simp
  next
    case 2
    from arg_cong[OF 2, of dk_claims] arg_cong[OF 2, of dk_world]
    show ?thesis using assms(3,4) by (simp add: backed_def)
  next
    case 3
    have "cp_world s' = w" using arg_cong[OF 3(2), of dk_world] by simp
    then show ?thesis using 3 assms(5)[OF 3(1)] backed_evolves[OF assms(3), of w] by simp
  qed
qed

end

end
