(* ===== verification/Network.thy ===== *)
theory Network
  imports CP_Backing PE_Accounts RP_Ledger
begin

text \<open>
  The deployed contracts together: one engine, one pool and one claims processor over a
  common token ledger, with the oracle as a parameter. A call of any of them by anybody is a
  step; the calls the processor makes of the others run in their models.
\<close>

section \<open>The chain\<close>

record ('t, 'r, 'o) chain =
  on_engine :: "'t pe_state"
  on_pool :: "('t, 'r) rp_state"
  on_oracle :: 'o
  on_tokens :: 't

text \<open>Where the contracts live, and the code that is not in the repository.\<close>

record ('t, 'r, 'o) deployment =
  at_engine :: address
  at_pool :: address
  at_oracle :: address
  at_claims :: address
  token_code :: "'t token_ops"
  reinsurer_code :: "('t, 'r) reinsurer"
  verify_code :: "env \<Rightarrow> symbol \<Rightarrow> symbol \<Rightarrow> trigger_condition \<Rightarrow> int \<Rightarrow> 'o \<Rightarrow> (bool \<times> 'o) option"
  verify_batch_code :: "env \<Rightarrow> oracle_reading_query list \<Rightarrow> 'o \<Rightarrow> (bool list \<times> 'o) option"

definition succeeded :: "('e, 'a) result \<Rightarrow> 'a option" where
  "succeeded r = (case r of Inl _ \<Rightarrow> None | Inr x \<Rightarrow> Some x)"

lemma succeeded_eq [result_simps]: "succeeded r = Some x \<longleftrightarrow> r = Inr x"
  by (cases r) (simp_all add: succeeded_def)

text \<open>A call of the engine or the pool, on the ledger as it is.\<close>

definition engine_call ::
  "('t, 'r, 'o) deployment \<Rightarrow> env \<Rightarrow> pe_call \<Rightarrow> ('t, 'r, 'o) chain \<Rightarrow> ('t, 'r, 'o) chain option" where
  "engine_call d e c w =
     map_option (\<lambda>s. w\<lparr>on_engine := s, on_tokens := pe_tokens s\<rparr>)
       (succeeded (pe_exec (token_code d) (e\<lparr>this := at_engine d\<rparr>) c
          ((on_engine w)\<lparr>pe_tokens := on_tokens w\<rparr>)))"

definition pool_call ::
  "('t, 'r, 'o) deployment \<Rightarrow> env \<Rightarrow> rp_call \<Rightarrow> ('t, 'r, 'o) chain \<Rightarrow> ('t, 'r, 'o) chain option" where
  "pool_call d e c w =
     map_option (\<lambda>s. w\<lparr>on_pool := s, on_tokens := rp_tokens s\<rparr>)
       (succeeded (rp_exec (token_code d) (reinsurer_code d) (e\<lparr>this := at_pool d\<rparr>) c
          ((on_pool w)\<lparr>rp_tokens := on_tokens w\<rparr>)))"

definition oracle_call :: "('o \<Rightarrow> ('a \<times> 'o) option) \<Rightarrow> ('t, 'r, 'o) chain \<Rightarrow> ('a \<times> ('t, 'r, 'o) chain) option" where
  "oracle_call f w = map_option (\<lambda>(r, o'). (r, w\<lparr>on_oracle := o'\<rparr>)) (f (on_oracle w))"

text \<open>In a sub-call the calling contract is authorised as itself.\<close>

definition sub_env :: "env \<Rightarrow> env" where
  "sub_env e = e\<lparr>auth := (\<lambda>a. a = this e \<or> auth e a)\<rparr>"

definition link_policy :: "('t, 'r, 'o) deployment \<Rightarrow> ('t, 'r, 'o) chain \<Rightarrow> address \<Rightarrow> int \<Rightarrow> policy option" where
  "link_policy d w pe i = (if pe = at_engine d then succeeded (get_policy i (on_engine w)) else None)"

definition link_product ::
  "('t, 'r, 'o) deployment \<Rightarrow> ('t, 'r, 'o) chain \<Rightarrow> address \<Rightarrow> int \<Rightarrow> insurance_product option" where
  "link_product d w pe i = (if pe = at_engine d then succeeded (get_product i (on_engine w)) else None)"

definition link_engine ::
  "('t, 'r, 'o) deployment \<Rightarrow> (address \<Rightarrow> int \<Rightarrow> pe_call) \<Rightarrow> env \<Rightarrow> address \<Rightarrow> address \<Rightarrow> int \<Rightarrow>
   ('t, 'r, 'o) chain \<Rightarrow> ('t, 'r, 'o) chain option" where
  "link_engine d call e pe caller i w =
     (if pe = at_engine d then engine_call d (sub_env e) (call caller i) w else None)"

definition link_pool ::
  "('t, 'r, 'o) deployment \<Rightarrow> (address \<Rightarrow> int \<Rightarrow> risk_call) \<Rightarrow> env \<Rightarrow> address \<Rightarrow> address \<Rightarrow> int \<Rightarrow>
   ('t, 'r, 'o) chain \<Rightarrow> ('t, 'r, 'o) chain option" where
  "link_pool d call e pool caller i w =
     (if pool = at_pool d then pool_call d (sub_env e) (Risk (call caller i)) w else None)"

definition link_reading ::
  "('t, 'r, 'o) deployment \<Rightarrow> env \<Rightarrow> address \<Rightarrow> symbol \<Rightarrow> symbol \<Rightarrow> trigger_condition \<Rightarrow> int \<Rightarrow>
   ('t, 'r, 'o) chain \<Rightarrow> (bool \<times> ('t, 'r, 'o) chain) option" where
  "link_reading d e ov dt k tc m w =
     (if ov = at_oracle d then oracle_call (verify_code d (sub_env e\<lparr>this := ov\<rparr>) dt k tc m) w else None)"

definition link_readings ::
  "('t, 'r, 'o) deployment \<Rightarrow> env \<Rightarrow> address \<Rightarrow> oracle_reading_query list \<Rightarrow>
   ('t, 'r, 'o) chain \<Rightarrow> (bool list \<times> ('t, 'r, 'o) chain) option" where
  "link_readings d e ov qs w =
     (if ov = at_oracle d then oracle_call (verify_batch_code d (sub_env e\<lparr>this := ov\<rparr>) qs) w else None)"

definition linked :: "('t, 'r, 'o) deployment \<Rightarrow> ('t, 'r, 'o) chain services" where
  "linked d = \<lparr>sv_policy = link_policy d, sv_product = link_product d,
     sv_pay_claim = link_engine d PayClaim, sv_expire_policy = link_engine d ExpirePolicy,
     sv_release_for_claim = link_pool d ReleaseForClaim,
     sv_release_for_expiry = link_pool d ReleaseForExpiry,
     sv_verify_trigger_fresh = link_reading d, sv_batch_verify_fresh = link_readings d,
     sv_reentry = False, sv_reauth = False\<rparr>"

lemmas link_defs = linked_def link_policy_def link_product_def link_engine_def link_pool_def
  link_reading_def link_readings_def

section \<open>Steps\<close>

datatype ('t, 'r, 'o) net_call =
    EngineCall pe_call
  | PoolCall rp_call
  | ProcessorCall "('t, 'r, 'o) chain cp_call"
  | OracleMoves 'o
  | TokensMove 't

primrec is_elsewhere :: "'w cp_call \<Rightarrow> bool" where
  "is_elsewhere (File c) = False"
| "is_elsewhere (Review c) = False"
| "is_elsewhere (Configure c) = False"
| "is_elsewhere (Elsewhere w) = True"

definition with_world :: "('e, 'w) result \<Rightarrow> 'w cp_state \<Rightarrow> ('e, 'w cp_state) result" where
  "with_world r s = bindR r (\<lambda>w. Inr (s\<lparr>cp_world := w\<rparr>))"

primrec net_exec ::
  "('t, 'r, 'o) deployment \<Rightarrow> env \<Rightarrow> ('t, 'r, 'o) net_call \<Rightarrow> ('t, 'r, 'o) chain cp_state \<Rightarrow>
   (cp_error, ('t, 'r, 'o) chain cp_state) result" where
  "net_exec d e (EngineCall c) s = with_world (or_trap (engine_call d e c (cp_world s))) s"
| "net_exec d e (PoolCall c) s = with_world (or_trap (pool_call d e c (cp_world s))) s"
| "net_exec d e (ProcessorCall c) s =
     (if is_elsewhere c then trap else cp_exec (linked d) (e\<lparr>this := at_claims d\<rparr>) c s)"
| "net_exec d e (OracleMoves o') s = with_world (Inr ((cp_world s)\<lparr>on_oracle := o'\<rparr>)) s"
| "net_exec d e (TokensMove t) s = with_world (Inr ((cp_world s)\<lparr>on_tokens := t\<rparr>)) s"

definition net_fresh :: "'t \<Rightarrow> 'r \<Rightarrow> 'o \<Rightarrow> ('t, 'r, 'o) chain cp_state" where
  "net_fresh t r o' = cp_fresh \<lparr>on_engine = pe_fresh t, on_pool = rp_fresh t r, on_oracle = o', on_tokens = t\<rparr>"

section \<open>The engine and the pool keep their promises\<close>

definition sound_chain :: "int \<Rightarrow> ('t, 'r, 'o) chain \<Rightarrow> bool" where
  "sound_chain now w \<longleftrightarrow> 0 \<le> now \<and> books_inv now (on_engine w) \<and> ledger_inv (on_pool w)"

definition settled_on :: "('t, 'r, 'o) chain \<Rightarrow> int \<Rightarrow> bool" where
  "settled_on w i \<longleftrightarrow> (\<exists>p. pe_policies (on_engine w) i = Some p \<and> po_status p = Claimed)
     \<and> (\<exists>l. rp_locks (on_pool w) i = Some l \<and> lk_released l)"

definition cover_on :: "('t, 'r, 'o) chain \<Rightarrow> int \<Rightarrow> int option" where
  "cover_on w i = map_option po_coverage_amount (pe_policies (on_engine w) i)"

definition moves_on :: "('t, 'r, 'o) chain \<Rightarrow> ('t, 'r, 'o) chain \<Rightarrow> bool" where
  "moves_on w w' \<longleftrightarrow>
     (\<forall>i p. pe_policies (on_engine w) i = Some p \<longrightarrow> (\<exists>p'. pe_policies (on_engine w') i = Some p' \<and> ages p p'))
   \<and> (\<forall>i l. rp_locks (on_pool w) i = Some l \<longrightarrow> lk_released l \<longrightarrow> rp_locks (on_pool w') i = Some l)"

lemma moves_on_trans: "moves_on w w' \<Longrightarrow> moves_on w' w'' \<Longrightarrow> moves_on w w''"
  unfolding moves_on_def by (meson ages_trans)

lemma moves_on_settled: "moves_on w w' \<Longrightarrow> settled_on w i \<Longrightarrow> settled_on w' i"
  unfolding moves_on_def settled_on_def ages_def by (metis policy_status.distinct(1,3,5))

lemma moves_on_cover: "moves_on w w' \<Longrightarrow> cover_on w i = Some n \<Longrightarrow> cover_on w' i = Some n"
  unfolding moves_on_def cover_on_def ages_def
  by (cases "pe_policies (on_engine w) i") (auto, metis policy.select_convs(4) policy.surjective policy.update_convs(3,12))

text \<open>The invariants of the two contracts do not speak of the token ledger.\<close>

lemma books_tokens: "books_inv now (s\<lparr>pe_tokens := t\<rparr>) = books_inv now s"
  by (simp add: books_inv_def start_inv_def inert_def catalogue_inv_def policies_inv_def
      index_inv_def opened_inv_def settled_inv_def outcome_inv_def warned_inv_def clock_inv_def
      get_active_products_def ids_of_def)

lemma ledger_tokens: "ledger_inv (s\<lparr>rp_tokens := t\<rparr>) = ledger_inv s"
  by (simp add: ledger_inv_def blank_def request_inv_def split_inv_def book_defs)

text \<open>A released lock stays as it is.\<close>

lemma step_released: "pool_step m k k' \<Longrightarrow> p_locks k i = Some l \<Longrightarrow> lk_released l \<Longrightarrow> p_locks k' i = Some l"
  by (induction rule: pool_step.induct) auto

lemma steps_released: "pool_steps P k k' \<Longrightarrow> p_locks k i = Some l \<Longrightarrow> lk_released l \<Longrightarrow> p_locks k' i = Some l"
  by (induction rule: pool_steps.induct) (auto intro: step_released)

lemma engine_call_ok:
  assumes "engine_call d e c w = Some w'" "sound_chain t w" "t \<le> timestamp e"
  shows "sound_chain (timestamp e) w'" "moves_on w w'"
proof -
  let ?s = "(on_engine w)\<lparr>pe_tokens := on_tokens w\<rparr>" and ?e = "e\<lparr>this := at_engine d\<rparr>"
  obtain s' where s': "pe_exec (token_code d) ?e c ?s = Inr s'"
    "w' = w\<lparr>on_engine := s', on_tokens := pe_tokens s'\<rparr>"
    using assms(1) by (auto simp: engine_call_def succeeded_eq)
  have inv: "books_inv t ?s" "0 \<le> t" using assms(2) by (simp_all add: sound_chain_def books_tokens)
  then have "books_inv (timestamp ?e) s'" using books_call[OF _ _ _ s'(1), of t] assms(3) by simp
  then show "sound_chain (timestamp e) w'" using assms(2,3) by (simp add: sound_chain_def s'(2))
  have "books_inv (timestamp ?e) ?s" using books_later[OF inv(1)] assms(3) by simp
  then have "\<exists>p'. pe_policies s' i = Some p' \<and> ages p p'" if "pe_policies (on_engine w) i = Some p" for i p
    using ages_effects[OF exec_effects[OF s'(1)], of i p] that inv(2) assms(3) by simp
  then show "moves_on w w'" by (simp add: moves_on_def s'(2))
qed

lemma pool_call_ok:
  assumes "pool_call d e c w = Some w'" "sound_chain t w" "t \<le> timestamp e"
  shows "sound_chain (timestamp e) w'" "moves_on w w'"
proof -
  let ?s = "(on_pool w)\<lparr>rp_tokens := on_tokens w\<rparr>" and ?e = "e\<lparr>this := at_pool d\<rparr>"
  obtain s' where s': "rp_exec (token_code d) (reinsurer_code d) ?e c ?s = Inr s'"
    "w' = w\<lparr>on_pool := s', on_tokens := rp_tokens s'\<rparr>"
    using assms(1) by (auto simp: pool_call_def succeeded_eq)
  have "ledger_inv ?s" using assms(2) by (simp add: sound_chain_def ledger_tokens)
  note steps = exec_refines[OF s'(1) this]
  then show "sound_chain (timestamp e) w'"
    using assms(2,3) books_later by (auto simp: sound_chain_def s'(2))
  have "rp_locks s' i = Some l" if "rp_locks (on_pool w) i = Some l" "lk_released l" for i l
    using steps_released[OF steps[THEN conjunct1], of i l] that by (simp add: pool_of_def)
  then show "moves_on w w'" by (simp add: moves_on_def s'(2))
qed

lemma oracle_call_ok:
  assumes "oracle_call f w = Some (r, w')" "sound_chain t w"
  shows "sound_chain t w'" "moves_on w w'"
  using assms by (auto simp: oracle_call_def sound_chain_def moves_on_def)

text \<open>The two halves of a payout.\<close>

lemma pay_claim_call:
  assumes "engine_call d e (PayClaim a i) w = Some w'"
  shows "\<exists>p. pe_policies (on_engine w') i = Some p \<and> po_status p = Claimed"
  using assms by (auto simp: engine_call_def succeeded_eq pe_exec_def remove_policy_eq split: if_splits dest!: pay_claim_ok)

lemma release_claim_call:
  assumes "pool_call d e (Risk (ReleaseForClaim a i)) w = Some w'"
  shows "\<exists>l. rp_locks (on_pool w') i = Some l \<and> lk_released l"
  using assms
  by (auto simp: pool_call_def succeeded_eq rp_exec_ok release_for_claim_def release_lock_def emit_def result_simps)

lemma sub_env_time [simp]: "timestamp (sub_env e) = timestamp e"
  by (simp add: sub_env_def)

interpretation linked: settlement_services "linked d" sound_chain settled_on cover_on moves_on
  for d :: "('t, 'r, 'o) deployment"
proof unfold_locales
  fix w w' :: "('t, 'r, 'o) chain" and e i
  assume w: "sound_chain (timestamp e) w" and "payout (linked d) e i w w'"
  then obtain a b w1 where pay: "engine_call d (sub_env e) (PayClaim a i) w = Some w1"
    "pool_call d (sub_env e) (Risk (ReleaseForClaim b i)) w1 = Some w'"
    by (auto simp: payout_def link_defs split: if_splits)
  note one = engine_call_ok[OF pay(1) w, simplified]
  note two = pool_call_ok[OF pay(2) one(1), simplified]
  have "\<exists>p. pe_policies (on_engine w') i = Some p \<and> po_status p = Claimed"
    using pay_claim_call[OF pay(1)] pay(2) by (auto simp: pool_call_def)
  then show "sound_chain (timestamp e) w' \<and> moves_on w w' \<and> settled_on w' i"
    using two moves_on_trans[OF one(2)] release_claim_call[OF pay(2)] by (simp add: settled_on_def)
next
  fix w w1 w' :: "('t, 'r, 'o) chain" and e i pe a pool
  assume w: "sound_chain (timestamp e) w" and
    "sv_expire_policy (linked d) e pe a i w = Some w1" "sv_release_for_expiry (linked d) e pool a i w1 = Some w'"
  then have calls: "engine_call d (sub_env e) (ExpirePolicy a i) w = Some w1"
    "pool_call d (sub_env e) (Risk (ReleaseForExpiry a i)) w1 = Some w'"
    by (auto simp: link_defs split: if_splits)
  note one = engine_call_ok[OF calls(1) w, simplified]
  note two = pool_call_ok[OF calls(2) one(1), simplified]
  show "sound_chain (timestamp e) w' \<and> moves_on w w'" using two moves_on_trans[OF one(2)] by simp
next
  fix w w' :: "('t, 'r, 'o) chain" and e i a pool
  assume "sound_chain (timestamp e) w" "sv_release_for_claim (linked d) e pool a i w = Some w'"
  then show "sound_chain (timestamp e) w' \<and> moves_on w w'"
    using pool_call_ok[of d "sub_env e" _ w w' "timestamp e"] by (auto simp: link_defs split: if_splits)
next
  fix w :: "('t, 'r, 'o) chain" and t pe i po
  assume "sv_policy (linked d) w pe i = Some po"
  then show "cover_on w i = Some (po_coverage_amount po)"
    by (auto simp: link_defs cover_on_def get_policy_def load_policy_def result_simps split: if_splits)
qed (auto simp: moves_on_settled moves_on_cover link_defs split: if_splits dest: oracle_call_ok)

section \<open>The network\<close>

definition net_inv :: "int \<Rightarrow> ('t, 'r, 'o) chain cp_state \<Rightarrow> bool" where
  "net_inv t s \<longleftrightarrow> docket_ready (docket_of s) \<and> linked.backed (docket_of s) \<and> sound_chain t (cp_world s)"

lemma net_call:
  assumes "net_inv t s" "0 \<le> t" "t \<le> timestamp e" "net_exec d e c s = Inr s'"
  shows "net_inv (timestamp e) s'"
proof -
  have inv: "docket_ready (docket_of s)" "linked.backed (docket_of s)" "sound_chain t (cp_world s)"
    using assms(1) by (simp_all add: net_inv_def)
  have now: "sound_chain (timestamp e) w" if "sound_chain t w" for w :: "('a, 'b, 'c) chain"
    using that assms(3) books_later by (auto simp: sound_chain_def)
  have outside: "net_inv (timestamp e) s'"
    if "s' = s\<lparr>cp_world := w\<rparr>" "sound_chain (timestamp e) w" "moves_on (cp_world s) w" for w
  proof -
    have "cp_exec (linked d) e (Elsewhere w) s = Inr s'" by (simp add: cp_exec_def that(1))
    from exec_docket[OF this inv(1)] linked.backed_exec[OF this inv(1,2) now[OF inv(3)]]
    show ?thesis using that by (simp add: net_inv_def)
  qed
  show ?thesis
  proof (cases c)
    case (EngineCall k)
    then obtain w where "engine_call d e k (cp_world s) = Some w" "s' = s\<lparr>cp_world := w\<rparr>"
      using assms(4) by (auto simp: with_world_def result_simps)
    then show ?thesis using engine_call_ok[OF _ inv(3) assms(3)] outside by blast
  next
    case (PoolCall k)
    then obtain w where "pool_call d e k (cp_world s) = Some w" "s' = s\<lparr>cp_world := w\<rparr>"
      using assms(4) by (auto simp: with_world_def result_simps)
    then show ?thesis using pool_call_ok[OF _ inv(3) assms(3)] outside by blast
  next
    case (ProcessorCall k)
    then have k: "\<not> is_elsewhere k" "cp_exec (linked d) (e\<lparr>this := at_claims d\<rparr>) k s = Inr s'"
      using assms(4) by (auto split: if_splits)
    then have "k \<noteq> Elsewhere w" for w by auto
    then show ?thesis
      using exec_docket[OF k(2) inv(1)] linked.backed_exec[OF k(2) inv(1,2)] now[OF inv(3)]
      by (auto simp: net_inv_def)
  next
    case (OracleMoves o')
    then show ?thesis using assms(4) now[OF inv(3)]
      by (intro outside[of "(cp_world s)\<lparr>on_oracle := o'\<rparr>"])
         (auto simp: with_world_def sound_chain_def moves_on_def)
  next
    case (TokensMove t')
    then show ?thesis using assms(4) now[OF inv(3)]
      by (intro outside[of "(cp_world s)\<lparr>on_tokens := t'\<rparr>"])
         (auto simp: with_world_def sound_chain_def moves_on_def)
  qed
qed

lemma net_start: "0 \<le> t \<Longrightarrow> net_inv t (net_fresh t0 r o')"
  using fresh_ready books_fresh ledger_start
  by (simp add: net_inv_def net_fresh_def linked.backed_def sound_chain_def)
     (simp add: cp_fresh_def books_fresh ledger_start)

interpretation net: invariant_system "net_exec d" "net_fresh t0 r o'" net_inv
  for d :: "('t, 'r, 'o) deployment" and t0 r o'
  by unfold_locales (auto intro: net_start net_call)

text \<open>A claim recorded as paid, with nothing kept back, in a reachable state.\<close>

lemma paid_claim_backed:
  assumes "net_inv t s" "cp_claims s i = Some c"
    and "cl_status c = ClaimPaid \<or> cl_status c = ClaimPartiallyPaid" "cl_payout_ready_at c = None"
  obtains p l where "pe_policies (on_engine (cp_world s)) (cl_policy_id c) = Some p"
    "po_status p = Claimed" "po_coverage_amount p = cl_coverage_amount c"
    "rp_locks (on_pool (cp_world s)) (cl_policy_id c) = Some l" "lk_released l" "0 < lk_amount l"
    "EvClaimPaid (cl_policy_id c) (po_policyholder p) (cl_coverage_amount c)
        \<in> set (pe_events (on_engine (cp_world s)))"
    "occurrences (settles (cl_policy_id c)) (pe_events (on_engine (cp_world s))) = 1"
proof -
  let ?w = "cp_world s" and ?p = "cl_policy_id c"
  have "linked.backed_claim ?w c" using assms(1,2) by (simp add: net_inv_def linked.backed_def)
  then obtain p l where p: "pe_policies (on_engine ?w) ?p = Some p" "po_status p = Claimed"
      "po_coverage_amount p = cl_coverage_amount c"
    and l: "rp_locks (on_pool ?w) ?p = Some l" "lk_released l"
    using assms(3,4) by (auto simp: linked.backed_claim_def cover_on_def settled_on_def)
  have books: "outcome_inv (on_engine ?w)" "settled_inv (on_engine ?w)" "pool_inv (pool_of (on_pool ?w))"
    using assms(1) by (simp_all add: net_inv_def sound_chain_def books_inv_def ledger_inv_def)
  have "0 < lk_amount l" using books(3) l(1) by (auto simp: pool_inv_def locks_inv_def pool_of_def)
  moreover obtain ev where ev: "ev \<in> set (pe_events (on_engine ?w))" "closes_with ?p p (po_status p) ev"
    using books(1) p(1,2) unfolding outcome_inv_def by (metis policy_status.distinct(1,3,5))
  moreover have "ev = EvClaimPaid ?p (po_policyholder p) (cl_coverage_amount c)"
    using ev(2) p(2,3) by simp
  moreover have "occurrences (settles ?p) (pe_events (on_engine ?w)) = 1"
    using books(2) p(1,2) by (simp add: settled_inv_def)
  ultimately show ?thesis using that p l by blast
qed

end
