(* ===== verification/Net_Liveness.thy ===== *)
theory Net_Liveness
  imports Network
begin

text \<open>
  Progress in the deployed contracts: when the contracts are linked to each other and the
  oracle confirms the trigger, a keeper's call settles a pending claim and pays it.
\<close>

section \<open>Linked contracts\<close>

text \<open>The contracts know each other's addresses.\<close>

definition wired :: "('t, 'r, 'o) deployment \<Rightarrow> ('t, 'r, 'o) chain cp_state \<Rightarrow> bool" where
  "wired d s \<longleftrightarrow> cp_policy_engine s = Some (at_engine d) \<and> cp_risk_pool s = Some (at_pool d)
     \<and> cp_oracle_verifier s = Some (at_oracle d)
     \<and> pe_claims_processor (on_engine (cp_world s)) = Some (at_claims d)
     \<and> rp_admin (on_pool (cp_world s)) \<noteq> None \<and> rp_policy_engine (on_pool (cp_world s)) \<noteq> None
     \<and> rp_claims_processor (on_pool (cp_world s)) = Some (at_claims d)"

text \<open>
  A policy that the engine can pay at once and whose capital the pool holds: active, funded,
  and with a lock not yet released.
\<close>

definition payable ::
  "('t, 'r, 'o) deployment \<Rightarrow> ('t, 'r, 'o) chain \<Rightarrow> int \<Rightarrow> policy \<Rightarrow> bool" where
  "payable d w i p \<longleftrightarrow> is_u128 i \<and> pe_policies (on_engine w) i = Some p \<and> po_status p = PolicyActive
     \<and> (case pe_usdc_token (on_engine w) of None \<Rightarrow> False | Some u \<Rightarrow>
          \<not> Option.is_none (transfer_of (token_code d) (on_tokens w) u (at_engine d) (po_policyholder p)
            (po_coverage_amount p)))
     \<and> (case rp_locks (on_pool w) i of None \<Rightarrow> False | Some l \<Rightarrow> \<not> lk_released l \<and> 0 < lk_amount l)"

lemma engine_pays:
  assumes "payable d w i p" "pe_claims_processor (on_engine w) = Some a"
  shows "\<exists>w1. engine_call d (sub_env (e\<lparr>this := a\<rparr>)) (PayClaim a i) w = Some w1
     \<and> on_pool w1 = on_pool w \<and> on_oracle w1 = on_oracle w"
proof -
  obtain u t where "pe_usdc_token (on_engine w) = Some u"
    "transfer_of (token_code d) (on_tokens w) u (at_engine d) (po_policyholder p) (po_coverage_amount p) = Some t"
    using assms(1) by (auto simp: payable_def Option.is_none_def split: option.splits)
  then show ?thesis
    using assms
    by (auto simp: engine_call_def pe_exec_def pay_claim_def payable_def sub_env_def succeeded_def
        require_claims_processor_def require_auth_def load_policy_def settleable_def)
qed

lemma pool_releases:
  assumes "payable d w i p" "on_pool w1 = on_pool w"
    and "rp_admin (on_pool w) \<noteq> None" "rp_policy_engine (on_pool w) \<noteq> None" "rp_claims_processor (on_pool w) = Some a"
  shows "\<exists>w2. pool_call d (sub_env (e\<lparr>this := a\<rparr>)) (Risk (ReleaseForClaim a i)) w1 = Some w2"
proof -
  obtain l where "rp_locks (on_pool w) i = Some l" "\<not> lk_released l" "0 < lk_amount l"
    using assms(1) by (auto simp: payable_def split: option.splits)
  then show ?thesis
    using assms
    by (auto simp: pool_call_def rp_exec_def release_for_claim_def payable_def sub_env_def succeeded_def
        rp_require_protocol_caller_def require_auth_def is_u128_def within_def)
qed

lemma payout_possible:
  assumes "payable d w i p" "wired d s" "on_engine w = on_engine (cp_world s)" "on_pool w = on_pool (cp_world s)"
    and "cp_world s1 = w"
  shows "\<exists>s2. pay_and_release (linked d) (e\<lparr>this := at_claims d\<rparr>) (at_engine d) (at_pool d) i s1 = Inr s2"
proof -
  have pe: "pe_claims_processor (on_engine w) = Some (at_claims d)"
    and rp: "rp_admin (on_pool w) \<noteq> None" "rp_policy_engine (on_pool w) \<noteq> None"
      "rp_claims_processor (on_pool w) = Some (at_claims d)"
    using assms(2-4) by (simp_all add: wired_def)
  obtain w1 where w1: "engine_call d (sub_env (e\<lparr>this := at_claims d\<rparr>)) (PayClaim (at_claims d) i) w = Some w1"
    "on_pool w1 = on_pool w"
    using engine_pays[OF assms(1) pe, of e] by blast
  obtain w2 where w2: "pool_call d (sub_env (e\<lparr>this := at_claims d\<rparr>)) (Risk (ReleaseForClaim (at_claims d) i)) w1 = Some w2"
    using pool_releases[OF assms(1) w1(2) rp, of e] by blast
  show ?thesis using w1(1) w2 assms(5) by (simp add: pay_and_release_def link_defs)
qed

text \<open>
  The settlement itself. \<open>share_ok\<close> says that the share of the cover can be computed: the
  whole cover, or a product that fits \<^verbatim>\<open>i128\<close>.
\<close>

definition share_ok :: "int \<Rightarrow> int option \<Rightarrow> bool" where
  "share_ok cover b \<longleftrightarrow> (case b of None \<Rightarrow> True
     | Some n \<Rightarrow> 0 \<le> n \<and> n \<le> u32_max \<and> 0 \<le> cover \<and> fits_i128 (cover * 10000))"

lemma share_computed:
  assumes "share_ok cov b" "min 10000 (unwrap_or 10000 b) < 10000"
  shows "mul_div cov (min 10000 (unwrap_or 10000 b)) 10000 = (Inr (cov * min 10000 (unwrap_or 10000 b) div 10000) :: ('e, int) result)"
    "cov * min 10000 (unwrap_or 10000 b) div 10000 \<le> cov"
proof -
  let ?n = "min 10000 (unwrap_or 10000 b)"
  have n: "0 \<le> ?n" "?n \<le> 10000" "0 \<le> cov" "fits_i128 (cov * 10000)"
    using assms by (auto simp: share_ok_def split: option.splits)
  have le: "cov * ?n \<le> cov * 10000" using n by (intro mult_left_mono) auto
  have pos: "0 \<le> cov * ?n" using n by (intro mult_nonneg_nonneg)
  have fits: "fits_i128 m" if "0 \<le> m" "m \<le> cov * 10000" for m
    using that n(4) by (simp add: num_defs)
  have prod: "0 \<le> cov * ?n" "fits_i128 (cov * ?n)" using pos fits[OF pos le] by blast+
  have q: "0 \<le> cov * ?n div 10000" "cov * ?n div 10000 \<le> cov"
    using prod(1) zdiv_mono1[OF le, of 10000] by (simp_all add: pos_imp_zdiv_nonneg_iff)
  then have "fits_i128 (cov * ?n div 10000)" using n(3) by (intro fits) linarith+
  then show "mul_div cov ?n 10000 = (Inr (cov * ?n div 10000) :: ('e, int) result)" "cov * ?n div 10000 \<le> cov"
    using prod q by (simp_all add: mul_div_ok sdiv_nonneg)
qed

text \<open>A pending claim whose trigger is met is settled, at once when no payout delay is set.\<close>

lemma settlement_possible:
  assumes "wired d s" "payable d w (cl_policy_id c) p"
    and "on_engine w = on_engine (cp_world s)" "on_pool w = on_pool (cp_world s)"
    and "cl_status c = ClaimPending" "cl_claimant c = po_policyholder p" "share_ok (cl_coverage_amount c) b"
    and "payout_delay s \<le> 0" "cl_id c = i"
  shows "\<exists>r s' c'. settle_claim_with_trigger_result (linked d) (e\<lparr>this := at_claims d\<rparr>) c p True b (s\<lparr>cp_world := w\<rparr>)
       = Inr (r, s') \<and> cp_claims s' i = Some c'
     \<and> cl_status c' = (if unwrap_or 10000 b < 10000 then ClaimPartiallyPaid else ClaimPaid)
     \<and> cl_payout_ready_at c' = cl_payout_ready_at c
     \<and> cl_policy_id c' = cl_policy_id c \<and> cl_coverage_amount c' = cl_coverage_amount c
     \<and> cl_paid_amount c' = Some (cl_coverage_amount c * min 10000 (unwrap_or 10000 b) div 10000)"
proof -
  let ?e = "e\<lparr>this := at_claims d\<rparr>" and ?s = "s\<lparr>cp_world := w\<rparr>"
  obtain s2 where pay: "pay_and_release (linked d) ?e (at_engine d) (at_pool d) (cl_policy_id c) ?s = Inr s2"
    using payout_possible[OF assms(2,1,3,4), of ?s e] by auto
  have wire: "cp_policy_engine s = Some (at_engine d)" "cp_risk_pool s = Some (at_pool d)"
    using assms(1) by (simp_all add: wired_def)
  have delay: "\<not> 0 < payout_delay ?s" using assms(8) by (simp add: payout_delay_def)
  show ?thesis
  proof (cases "unwrap_or 10000 b < 10000")
    case True
    then have "min 10000 (unwrap_or 10000 b) < 10000" by simp
    note share = share_computed(1)[where 'e = cp_error, OF assms(7) this] share_computed(2)[OF assms(7) this]
    show ?thesis using True assms(5,6,9) wire pay delay share
      by (simp add: settle_claim_with_trigger_result_def Let_def settle_met_def pay_or_delay_def cp_engine_def
          settle_events_def)
  next
    case False
    then show ?thesis using assms(5,6,9) wire pay delay
      by (simp add: settle_claim_with_trigger_result_def Let_def settle_met_def pay_or_delay_def cp_engine_def
          settle_events_def)
  qed
qed

lemma triggered_claim_paid:
  assumes "wired d s" "payable d (cp_world s) (cl_policy_id c) p" "cp_paused s \<noteq> Some True"
    and "is_keeper k s" "auth e k" "cp_claims s i = Some c" "cl_id c = i" "cl_status c = ClaimPending"
    and "cl_claimant c = po_policyholder p" "cl_coverage_amount c = po_coverage_amount p"
    and "share_ok (cl_coverage_amount c) b" "payout_delay s \<le> 0" "is_u128 i" "bps_typed b"
    and "verify_code d (sub_env (e\<lparr>this := at_claims d\<rparr>)\<lparr>this := at_oracle d\<rparr>) (po_oracle_data_type p)
       (po_oracle_key p) (policy_condition p) (unwrap_or 604800 (cp_staleness_threshold s))
       (on_oracle (cp_world s)) = Some (True, o')"
  shows "\<exists>s' c'. net_exec d e (ProcessorCall (File (ProcessClaim k i b))) s = Inr s'
     \<and> cp_claims s' i = Some c'
     \<and> cl_status c' = (if unwrap_or 10000 b < 10000 then ClaimPartiallyPaid else ClaimPaid)
     \<and> cl_payout_ready_at c' = cl_payout_ready_at c \<and> cl_policy_id c' = cl_policy_id c
     \<and> cl_coverage_amount c' = cl_coverage_amount c
     \<and> cl_paid_amount c' = Some (cl_coverage_amount c * min 10000 (unwrap_or 10000 b) div 10000)"
proof -
  let ?w = "(cp_world s)\<lparr>on_oracle := o'\<rparr>"
  have pay: "payable d ?w (cl_policy_id c) p" using assms(2) by (auto simp: payable_def split: option.splits)
  obtain r s' c' where settle:
    "settle_claim_with_trigger_result (linked d) (e\<lparr>this := at_claims d\<rparr>) c p True b (s\<lparr>cp_world := ?w\<rparr>) = Inr (r, s')"
    and c': "cp_claims s' i = Some c'"
      "cl_status c' = (if unwrap_or 10000 b < 10000 then ClaimPartiallyPaid else ClaimPaid)"
      "cl_payout_ready_at c' = cl_payout_ready_at c" "cl_policy_id c' = cl_policy_id c"
      "cl_coverage_amount c' = cl_coverage_amount c"
      "cl_paid_amount c' = Some (cl_coverage_amount c * min 10000 (unwrap_or 10000 b) div 10000)"
    using settlement_possible[OF assms(1) pay _ _ assms(8,9,11,12,7), of e] by auto
  have wire: "cp_policy_engine s = Some (at_engine d)" "cp_oracle_verifier s = Some (at_oracle d)"
    "pe_policies (on_engine (cp_world s)) (cl_policy_id c) = Some p"
    using assms(1,2) by (simp_all add: wired_def payable_def)
  have eval: "evaluate_and_settle (linked d) (e\<lparr>this := at_claims d\<rparr>) c p b s = Inr (r, s')"
    using settle assms(8,9,15) wire(2) by (simp add: evaluate_and_settle_def link_defs oracle_call_def)
  have "process_filed (linked d) (e\<lparr>this := at_claims d\<rparr>) i b s = Inr (r, s')"
    using eval assms(3,6,8,10) wire
    by (auto simp: process_filed_def require_not_paused_def load_claim_def cp_engine_def call_policy_def
        link_defs succeeded_def get_policy_def load_policy_def unwrap_or_def split: option.splits)
  then have "cp_exec (linked d) (e\<lparr>this := at_claims d\<rparr>) (File (ProcessClaim k i b)) s = Inr s'"
    using assms(4,5,13,14)
    by (simp add: cp_exec_def process_claim_def require_keeper_def is_keeper_def require_auth_def done_with_def
        is_u128_def within_def)
  then show ?thesis using c' by auto
qed

text \<open>In a reachable state the engine's bounds make the share computable.\<close>

lemma payable_share:
  assumes "net_inv t s" "cp_claims s i = Some c" "payable d (cp_world s) (cl_policy_id c) p" "bps_typed b"
  shows "cl_coverage_amount c = po_coverage_amount p" "share_ok (cl_coverage_amount c) b" "cl_id c = i"
proof -
  have p: "pe_policies (on_engine (cp_world s)) (cl_policy_id c) = Some p" using assms(3) by (simp add: payable_def)
  have "linked.backed_claim (cp_world s) c" using assms(1,2) by (simp add: net_inv_def linked.backed_def)
  then show cov: "cl_coverage_amount c = po_coverage_amount p"
    using p by (simp add: linked.backed_claim_def cover_on_def)
  have "policy_bounds p" using policy_in_bounds[OF _ p] assms(1) by (auto simp: net_inv_def sound_chain_def)
  then show "share_ok (cl_coverage_amount c) b"
    using assms(4) cov by (auto simp: share_ok_def policy_bounds_def bps_typed_def within_def num_defs split: option.splits)
  show "cl_id c = i"
    using assms(1,2) docket_invD(3)[of "docket_of s" i c] by (simp add: net_inv_def docket_ready_def)
qed

end
