(* ===== verification/CP_Queue.thy ===== *)
theory CP_Queue
  imports CP_Invariants
begin

text \<open>
  The order in which the automatic batch works: the bubble sort of the queue is the
  library's stable sort by submission time.
\<close>

section \<open>A pass\<close>

lemma bubble_pass_append:
  "n < length xs \<Longrightarrow> bubble_pass n (xs @ ys) = bubble_pass n xs @ ys"
  by (induction n xs rule: bubble_pass.induct) (auto simp: neq_Nil_conv Suc_less_eq2)

lemma single_last: "Suc 0 = length xs \<Longrightarrow> x \<in> set xs \<Longrightarrow> last xs = x"
  by (cases xs) auto

lemma bubble_pass_greatest:
  "n + 1 = length xs \<Longrightarrow> x \<in> set xs \<Longrightarrow> snd x \<le> snd (last (bubble_pass n xs))"
proof (induction n xs arbitrary: x rule: bubble_pass.induct)
  case (1 n cur nxt rest)
  have ne: "bubble_pass n (y # rest) \<noteq> []" for y
    using bubble_pass_length[of n "y # rest"] by force
  show ?case
  proof (cases "snd cur > snd nxt")
    case True
    have le: "snd y \<le> snd (last (bubble_pass n (cur # rest)))" if "y \<in> set (cur # rest)" for y
      using 1(1)[OF True] 1(3) that by simp
    have "snd nxt \<le> snd (last (bubble_pass n (cur # rest)))"
      using le[of cur] True by simp
    then show ?thesis using le[of x] 1(4) True ne by auto
  next
    case False
    have le: "snd y \<le> snd (last (bubble_pass n (nxt # rest)))" if "y \<in> set (nxt # rest)" for y
      using 1(2)[OF False] 1(3) that by simp
    have "snd cur \<le> snd (last (bubble_pass n (nxt # rest)))"
      using le[of nxt] False by simp
    then show ?thesis using le[of x] 1(4) False ne by auto
  qed
qed (auto dest: single_last)

lemma bubble_pass_stable:
  "filter (\<lambda>x. k = snd x) (bubble_pass n xs) = filter (\<lambda>x. k = snd x) xs"
  by (induction n xs rule: bubble_pass.induct) auto

section \<open>The sort\<close>

text \<open>After \<open>j\<close> passes the last \<open>j\<close> elements are sorted and in place.\<close>

definition settled_tail :: "nat \<Rightarrow> (int \<times> int) list \<Rightarrow> bool" where
  "settled_tail j ys \<longleftrightarrow> (\<exists>as bs. ys = as @ bs \<and> length bs = j \<and> sorted (map snd bs)
     \<and> (\<forall>a \<in> set as. \<forall>b \<in> set bs. snd a \<le> snd b))"

lemma pass_settles:
  assumes "settled_tail j ys" "j < length ys"
  shows "settled_tail (Suc j) (bubble_pass (length ys - j - 1) ys)"
proof -
  obtain as bs where ys: "ys = as @ bs" "length bs = j" "sorted (map snd bs)"
    "\<And>a b. a \<in> set as \<Longrightarrow> b \<in> set bs \<Longrightarrow> snd a \<le> snd b"
    using assms(1) unfolding settled_tail_def by blast
  have as: "as \<noteq> []" "length ys - j - 1 = length as - 1" using ys assms(2) by auto
  let ?cs = "bubble_pass (length as - 1) as"
  have cs: "?cs \<noteq> []" "set ?cs = set as"
    using as(1) bubble_pass_length[of "length as - 1" as]
    by (metis length_0_conv) (metis bubble_pass_mset set_mset_mset)
  then have split: "?cs = butlast ?cs @ [last ?cs]" by simp
  have max: "snd a \<le> snd (last ?cs)" if "a \<in> set as" for a
    using bubble_pass_greatest[of "length as - 1" as a] as(1) that by simp
  have sub: "set (butlast ?cs) \<subseteq> set as" "last ?cs \<in> set as"
    using cs in_set_butlastD last_in_set by fastforce+
  have "bubble_pass (length ys - j - 1) ys = butlast ?cs @ (last ?cs # bs)"
    using bubble_pass_append[of "length as - 1" as bs] as split by (simp add: ys(1))
  moreover have "sorted (map snd (last ?cs # bs))" using ys(3,4) sub(2) by auto
  moreover have "snd a \<le> snd b" if "a \<in> set (butlast ?cs)" "b \<in> set (last ?cs # bs)" for a b
    using that ys(4)[of a b] max[of a] sub(1) by auto
  moreover have "length (last ?cs # bs) = Suc j" using ys(2) by simp
  ultimately show ?thesis unfolding settled_tail_def by blast
qed

lemma passes_settle:
  "settled_tail j ys \<Longrightarrow> j + m \<le> length ys \<Longrightarrow>
   settled_tail (j + m) (foldl (\<lambda>ys i. bubble_pass (length zs - i - 1) ys) ys [j..<j + m])"
  if "length ys = length zs" for ys
  using that
proof (induction m)
  case 0
  then show ?case by simp
next
  case (Suc m)
  let ?f = "\<lambda>ys i. bubble_pass (length zs - i - 1) ys"
  have len: "length (foldl ?f ys xs) = length ys" for xs
    by (induction xs arbitrary: ys) simp_all
  show ?case
    using pass_settles[OF Suc.IH] Suc.prems len[of "[j..<j + m]"] by simp
qed

lemma bubble_sort_is_sort: "bubble_sort xs = sort_key snd xs"
proof -
  have "settled_tail (0 + length xs) (bubble_sort xs)"
    using passes_settle[of xs xs 0 "length xs"] by (simp add: bubble_sort_def settled_tail_def)
  moreover have "length (bubble_sort xs) = length xs" using bubble_sort_mset by (metis size_mset)
  ultimately have "sorted (map snd (bubble_sort xs))" by (auto simp: settled_tail_def)
  moreover have "filter (\<lambda>x. k = snd x) (foldl (\<lambda>ys i. bubble_pass (g i) ys) ys is)
      = filter (\<lambda>x. k = snd x) ys" for k g ys "is"
    by (induction "is" arbitrary: ys) (simp_all add: bubble_pass_stable)
  then have "filter (\<lambda>x. k = snd x) (bubble_sort xs) = filter (\<lambda>x. k = snd x) xs" for k
    by (simp add: bubble_sort_def)
  ultimately show ?thesis
    using properties_for_sort_key[OF bubble_sort_mset] by metis
qed

section \<open>The batch's queue\<close>

definition submitted :: "'w cp_state \<Rightarrow> int \<Rightarrow> int" where
  "submitted s i = (case cp_claims s i of None \<Rightarrow> 0 | Some c \<Rightarrow> cl_submitted_at c)"

lemma claim_timestamps_snd: "x \<in> set (claim_timestamps s) \<Longrightarrow> snd x = submitted s (fst x)"
  by (auto simp: claim_timestamps_def submitted_def List.map_filter_def split: option.splits)

lemma sorted_pending_order:
  assumes "docket_inv (docket_of s)"
  shows "mset (sorted_pending s) = mset (get_pending_claims s)"
    and "sorted (map (submitted s) (sorted_pending s))"
proof -
  have "filter (\<lambda>i. cp_claims s i \<noteq> None) (get_pending_claims s) = get_pending_claims s"
    using docket_invD(2)[OF assms] by (auto simp: filter_id_conv)
  then show "mset (sorted_pending s) = mset (get_pending_claims s)" by (simp add: sorted_pending_mset)
  have "map (submitted s) (sorted_pending s) = map snd (sort_key snd (claim_timestamps s))"
    by (simp add: sorted_pending_def bubble_sort_is_sort)
       (metis (no_types, lifting) claim_timestamps_snd list.map_cong set_sort)
  then show "sorted (map (submitted s) (sorted_pending s))" by simp
qed

section \<open>The claimant's cooling-off period\<close>

lemma evaluate_fraud_time:
  "evaluate_fraud e i a cov s = Inr (r, s') \<Longrightarrow> cp_user_last_claim s' = cp_user_last_claim s"
  by (auto simp: evaluate_fraud_def Let_def log_event_def split: option.splits prod.splits if_splits fraud_mode.splits)

lemma cooling_frame [simp]:
  "cp_user_last_claim (update_claimant_history a now cov bw s) = cp_user_last_claim s"
  "cp_user_last_claim (open_claim i p a cov now s) = cp_user_last_claim s"
  by (simp_all add: update_claimant_history_def Let_def open_claim_def push_pending_def store_claim_def
      log_event_def split: prod.splits)

lemma file_claim_cooling:
  assumes "file_claim sv e a p s = Inr (i, s')"
  shows "\<not> user_cooling e a s" "cp_user_last_claim s' a = Some (timestamp e)"
proof -
  obtain po :: policy and r1 r2 s1 where "\<not> user_cooling e a s" and
    s1: "evaluate_fraud e i a (po_coverage_amount po)
       (s\<lparr>cp_user_last_claim := (cp_user_last_claim s)(a \<mapsto> timestamp e),
          cp_next_claim_id := Some (i + 1)\<rparr>) = Inr ((r1, r2), s1)"
    and s': "cp_user_last_claim s' = cp_user_last_claim s1"
    using assms
    by (auto simp: file_claim_def Let_def bindR_eq_Inr if_Inl_eq_Inr next_claim_id_ok
        split: prod.splits)
  then show "\<not> user_cooling e a s" "cp_user_last_claim s' a = Some (timestamp e)"
    using evaluate_fraud_time[OF s1] by simp_all
qed

section \<open>Rejected and disputed claims\<close>

lemma pending_frame_more:
  "cp_paused (remove_from_pending i s) = cp_paused s"
  "cp_policy_engine (remove_from_pending i s) = cp_policy_engine s"
  "cp_risk_pool (remove_from_pending i s) = cp_risk_pool s"
  by (simp_all add: remove_from_pending_def)

lemma rejected_or_disputed:
  assumes "reject_claim e a i r s = Inr s1 \<or> dispute_claim sv e a i r s = Inr s1"
  obtains c c1 where "cp_claims s i = Some c" "cp_claims s1 = (cp_claims s)(i \<mapsto> c1)"
    "cl_payout_ready_at c1 = cl_payout_ready_at c" "cl_paid_amount c1 = cl_paid_amount c"
    "cl_coverage_amount c1 = cl_coverage_amount c" "cl_policy_id c1 = cl_policy_id c"
    "cl_status c1 \<in> {ClaimRejected, ClaimDisputed}"
    "cp_paused s1 = cp_paused s" "cp_policy_engine s1 = cp_policy_engine s"
    "cp_risk_pool s1 = cp_risk_pool s" "cp_world s1 = cp_world s"
  using assms
proof (elim disjE)
  assume "reject_claim e a i r s = Inr s1"
  then obtain c where "cp_claims s i = Some c" "s1 = log_event (EcClaimRejected i (cl_policy_id c) r)
       (remove_from_pending i (s\<lparr>cp_claims := (cp_claims s)(i \<mapsto> c\<lparr>cl_status := ClaimRejected\<rparr>)\<rparr>))"
    by (auto simp: reject_claim_def bindR_eq_Inr cp_lookups_ok)
  then show ?thesis
    by (intro that[of c "c\<lparr>cl_status := ClaimRejected\<rparr>"]) (auto simp: log_event_def pending_frame_more)
next
  assume "dispute_claim sv e a i r s = Inr s1"
  then obtain c where "cp_claims s i = Some c" "s1 = log_event (EcClaimDisputed i a r)
       (remove_from_pending i (s\<lparr>cp_claims := (cp_claims s)(i \<mapsto>
          c\<lparr>cl_status := ClaimDisputed, cl_dispute_reason := Some r\<rparr>)\<rparr>))"
    by (auto simp: dispute_claim_def bindR_eq_Inr if_Inl_eq_Inr cp_lookups_ok)
  then show ?thesis
    by (intro that[of c "c\<lparr>cl_status := ClaimDisputed, cl_dispute_reason := Some r\<rparr>"])
       (auto simp: log_event_def pending_frame_more)
qed

lemma claim_payout_iff:
  "claim_payout sv e i s = Inr (n, s') \<longleftrightarrow> cp_paused s \<noteq> Some True \<and>
     (\<exists>c t pe pool w1 w. cp_claims s i = Some c \<and> cl_payout_ready_at c = Some t \<and> t \<le> timestamp e
        \<and> cl_paid_amount c = Some n \<and> n \<le> cl_coverage_amount c
        \<and> cp_policy_engine s = Some pe \<and> cp_risk_pool s = Some pool
        \<and> sv_pay_claim sv e pe (this e) (cl_policy_id c) (cp_world s) = Some w1
        \<and> sv_release_for_claim sv e pool (this e) (cl_policy_id c) w1 = Some w
        \<and> s' = log_event (EcPayoutReleased i (cl_policy_id c) n)
            (s\<lparr>cp_claims := (cp_claims s)(i \<mapsto> c\<lparr>cl_payout_ready_at := None\<rparr>), cp_world := w\<rparr>))"
  by (auto simp: claim_payout_def Let_def bindR_eq_Inr if_Inl_eq_Inr cp_lookups_ok result_simps not_less)

end
