(* ===== verification/Net_Sample.thy ===== *)
theory Net_Sample
  imports Net_Liveness CP_Queue RP_Sample
begin

text \<open>
  A small history of the deployed contracts on which the properties of the claims processor
  are evaluated: a product, capital, a policy with its capital locked, and a claim. The
  oracle is a flag that tells whether the trigger is met.
\<close>

definition engine_at :: address where "engine_at = addr CHR ''C'' CHR ''E''"
definition the_pool_at :: address where "the_pool_at = addr CHR ''C'' CHR ''P''"
definition oracle_at :: address where "oracle_at = addr CHR ''C'' CHR ''O''"
definition claims_at :: address where "claims_at = addr CHR ''C'' CHR ''Q''"
definition dave :: address where "dave = addr CHR ''G'' CHR ''K''"

definition demo_net :: "(ledger, unit, bool) deployment" where
  "demo_net = \<lparr>at_engine = engine_at, at_pool = the_pool_at, at_oracle = oracle_at, at_claims = claims_at,
     token_code = ledger_ops, reinsurer_code = paying,
     verify_code = (\<lambda>e dt k tc m b. Some (b, b)),
     verify_batch_code = (\<lambda>e qs b. Some (replicate (length qs) b, b))\<rparr>"

definition net_funds :: "ledger" where
  "net_funds = (\<lambda>(c, a). if a = alice \<or> a = engine_at \<or> a = bob then 1000000000000000 else 0)"

definition at_time :: "int \<Rightarrow> env" where
  "at_time t = \<lparr>timestamp = t, auth = (\<lambda>_. True), this = []\<rparr>"

type_synonym demo_world = "(ledger, unit, bool) chain"
type_synonym demo_call = "(ledger, unit, bool) net_call"

abbreviation net_run :: "env \<Rightarrow> demo_call \<Rightarrow> demo_world cp_state \<Rightarrow> (cp_error, demo_world cp_state) result" where
  "net_run \<equiv> net_exec demo_net"

abbreviation net_begin :: "demo_world cp_state" where
  "net_begin \<equiv> net_fresh net_funds () True"

definition set_up :: "(env \<times> demo_call) list" where
  "set_up = [
     (at_time 1000, EngineCall (Initialize boss usdc feed)),
     (at_time 1000, EngineCall (SetClaimsProcessor boss claims_at)),
     (at_time 1000, EngineCall (CreateProduct boss crop)),
     (at_time 1000, PoolCall (Risk (PoolInitialize boss usdc treasury backstop ''crop'' engine_at claims_at))),
     (at_time 1000, PoolCall (Liquidity (Deposit bob 500000000000000 0 False))),
     (at_time 1000, ProcessorCall (Configure (CpInitialize boss engine_at the_pool_at oracle_at 3600))),
     (at_time 1000, ProcessorCall (Configure (AddKeeper boss dave)))]"

definition insured :: "(env \<times> demo_call) list" where
  "insured = set_up @ [
     (at_time 2000, EngineCall (BuyPolicy alice 1 365000 30 ''rain1'' usdc)),
     (at_time 2000, PoolCall (Risk (LockForPolicy boss 1 365000)))]"

definition filed :: "(env \<times> demo_call) list" where
  "filed = insured @ [(at_time 3000, ProcessorCall (File (SubmitClaim alice 1)))]"

lemma filed_time: "timely 0 filed" "ends 0 filed = 3000"
  by code_simp+

text \<open>The claim is filed, the contracts are linked, and the policy can be paid.\<close>

lemma claim_filed:
  obtains s c p where "reach net_run net_begin 3000 s" "cp_claims s 1 = Some c" "cl_status c = ClaimPending"
    "cl_policy_id c = 1" "cl_payout_ready_at c = None" "cl_coverage_amount c = 365000"
    "wired demo_net s" "payable demo_net (cp_world s) (cl_policy_id c) p" "po_policyholder p = cl_claimant c"
    "is_keeper dave s" "cp_paused s \<noteq> Some True" "payout_delay s \<le> 0" "on_oracle (cp_world s)"
proof -
  have "outcome (\<lambda>s. is_at (cp_claims s 1) (\<lambda>c. cl_status c = ClaimPending \<and> cl_policy_id c = 1
        \<and> cl_payout_ready_at c = None \<and> cl_coverage_amount c = 365000
        \<and> is_at (pe_policies (on_engine (cp_world s)) 1) (\<lambda>p. payable demo_net (cp_world s) 1 p
            \<and> po_policyholder p = cl_claimant c))
      \<and> wired demo_net s \<and> is_keeper dave s \<and> cp_paused s \<noteq> Some True \<and> payout_delay s \<le> 0
      \<and> on_oracle (cp_world s)) (play net_run filed net_begin)"
    by code_simp
  then obtain s where s: "reach net_run net_begin 3000 s" and
    at: "is_at (cp_claims s 1) (\<lambda>c. cl_status c = ClaimPending \<and> cl_policy_id c = 1
        \<and> cl_payout_ready_at c = None \<and> cl_coverage_amount c = 365000
        \<and> is_at (pe_policies (on_engine (cp_world s)) 1) (\<lambda>p. payable demo_net (cp_world s) 1 p
            \<and> po_policyholder p = cl_claimant c))"
    and rest: "wired demo_net s" "is_keeper dave s" "cp_paused s \<noteq> Some True" "payout_delay s \<le> 0"
      "on_oracle (cp_world s)"
    by (rule history_reach[OF _ filed_time(1), unfolded filed_time(2)]) blast
  obtain c where c: "cp_claims s 1 = Some c" "cl_status c = ClaimPending" "cl_policy_id c = 1"
    "cl_payout_ready_at c = None" "cl_coverage_amount c = 365000"
    and p: "is_at (pe_policies (on_engine (cp_world s)) 1) (\<lambda>p. payable demo_net (cp_world s) 1 p
            \<and> po_policyholder p = cl_claimant c)"
    using is_atD[OF at] by blast
  show ?thesis using is_atD[OF p] that[OF s c(1,2,3,4,5) rest(1) _ _ rest(2-5)] c(3) by auto
qed

text \<open>A keeper settles it for half of the cover.\<close>

lemma half_paid:
  obtains s c where "reach net_run net_begin 4000 s" "cp_claims s 1 = Some c" "cl_status c = ClaimPartiallyPaid"
    "cl_policy_id c = 1" "cl_payout_ready_at c = None" "cl_coverage_amount c = 365000"
    "cl_paid_amount c = Some 182500"
proof -
  obtain s c p where s: "reach net_run net_begin 3000 s" "cp_claims s 1 = Some c" "cl_status c = ClaimPending"
    "cl_policy_id c = 1" "cl_payout_ready_at c = None" "cl_coverage_amount c = 365000"
    "wired demo_net s" "payable demo_net (cp_world s) (cl_policy_id c) p" "po_policyholder p = cl_claimant c"
    "is_keeper dave s" "cp_paused s \<noteq> Some True" "payout_delay s \<le> 0" "on_oracle (cp_world s)"
    by (rule claim_filed)
  have b: "bps_typed (Some 5000)" by (simp add: bps_typed_def within_def u32_max_def)
  note share = payable_share[OF net.inv_reach[OF s(1)] s(2,8) b]
  have e: "auth (at_time 4000) dave" "is_u128 1" by (simp_all add: at_time_def is_u128_def u128_max_def)
  obtain s' c' where s': "net_run (at_time 4000) (ProcessorCall (File (ProcessClaim dave 1 (Some 5000)))) s = Inr s'"
    "cp_claims s' 1 = Some c'" "cl_status c' = ClaimPartiallyPaid" "cl_payout_ready_at c' = None"
    "cl_policy_id c' = 1" "cl_coverage_amount c' = 365000" "cl_paid_amount c' = Some 182500"
    using triggered_claim_paid[OF s(7,8,11,10) e(1) s(2) share(3) s(3) s(9)[symmetric] share(1,2) s(12) e(2) b, of True]
      s(4-6,13) by (auto simp: demo_net_def)
  have "reach net_run net_begin 4000 s'"
    using reach_step[OF s(1) _ _ s'(1)] by (simp add: at_time_def u64_max_def)
  then show ?thesis using that s' by blast
qed

section \<open>The processor on its own\<close>

text \<open>
  The other contracts reduced to what the processor sees of them: the world is the list of
  the policies already paid, every number is a policy of alice's, and the trigger is met.
\<close>

definition demo_policy :: "int \<Rightarrow> bool \<Rightarrow> policy" where
  "demo_policy i paid = \<lparr>po_id = i, po_product_id = 1, po_policyholder = alice,
     po_coverage_amount = 365000, po_premium_paid = 1500, po_oracle_key = ''rain1'',
     po_oracle_data_type = ''weather'', po_trigger_threshold = 100,
     po_trigger_comparison = LessThan, po_start_time = 2000, po_end_time = 2594000,
     po_status = (if paid then Claimed else PolicyActive), po_created_at = 2000\<rparr>"

definition demo_sv :: "int list services" where
  "demo_sv = \<lparr>
     sv_policy = (\<lambda>w pe i. Some (demo_policy i (i \<in> set w))),
     sv_product = (\<lambda>w pe i. Some (product_of_params i 1000 crop)),
     sv_pay_claim = (\<lambda>e pe caller i w. if i \<in> set w then None else Some (i # w)),
     sv_expire_policy = (\<lambda>e pe caller i w. None),
     sv_release_for_claim = (\<lambda>e pool caller i w. Some w),
     sv_release_for_expiry = (\<lambda>e pool caller i w. None),
     sv_verify_trigger_fresh = (\<lambda>e ov dt k tc m w. Some (True, w)),
     sv_batch_verify_fresh = (\<lambda>e ov qs w. Some (map (\<lambda>_. True) qs, w)),
     sv_reentry = False, sv_reauth = False\<rparr>"

definition processor :: "int \<Rightarrow> env" where "processor t = (at_time t)\<lparr>this := claims_at\<rparr>"

definition opened :: "(env \<times> int list cp_call) list" where
  "opened = [(processor 1000, Configure (CpInitialize boss engine_at the_pool_at oracle_at 3600)),
     (processor 1000, Configure (AddKeeper boss dave)), (processor 3000, File (SubmitClaim alice 1))]"

definition deferred :: "(env \<times> int list cp_call) list" where
  "deferred = opened @ [(processor 3500, Configure (SetPayoutDelay boss 100)),
     (processor 4000, File (ProcessClaim dave 1 None))]"

abbreviation cp_run :: "env \<Rightarrow> int list cp_call \<Rightarrow> int list cp_state \<Rightarrow> (cp_error, int list cp_state) result" where
  "cp_run \<equiv> cp_exec demo_sv"

abbreviation cp_begin :: "int list cp_state" where
  "cp_begin \<equiv> cp_fresh []"

lemma opened_time: "timely 0 opened" "ends 0 opened = 3000"
  by code_simp+

lemma deferred_time: "timely 0 deferred" "ends 0 deferred = 4000"
  by code_simp+

end
