(* ===== verification/CP_Properties.thy ===== *)
theory CP_Properties
  imports Net_Sample
begin

text \<open>
  The properties of the claims processor, each with an evaluation on a concrete history. The
  first ones hold whatever the other contracts answer (\<open>sv\<close> is arbitrary); the last one is
  about the deployed contracts together.
\<close>

section \<open>The queue and the claims\<close>

text \<open>
  C19. The queue is exactly the pending claims, and the index of claims by policy is exact: in
  every reachable state the queue lists each pending claim once and nothing else, every
  claim is filed under its own number and is the one claim of its policy, no claim is
  recorded as paid beyond its cover, a claim recorded as paid in full has been awarded the
  whole cover, and a payout is only kept back for a claim that was awarded an amount. The
  status Expired is never set.
\<close>

theorem queue_exact:
  assumes "reach (cp_exec sv) (cp_fresh w) t s"
  shows "distinct (get_pending_claims s)
     \<and> (\<forall>i. i \<in> set (get_pending_claims s) \<longleftrightarrow>
          (\<exists>c. cp_claims s i = Some c \<and> cl_status c = ClaimPending))
     \<and> (\<forall>p i. cp_policy_claim s p = Some i \<longleftrightarrow> (\<exists>c. cp_claims s i = Some c \<and> cl_policy_id c = p))
     \<and> (\<forall>i c. cp_claims s i = Some c \<longrightarrow> cl_id c = i \<and> 0 < cl_coverage_amount c
          \<and> cl_status c \<noteq> ClaimExpired
          \<and> (\<forall>n. cl_paid_amount c = Some n \<longrightarrow> 0 \<le> n \<and> n \<le> cl_coverage_amount c)
          \<and> (cl_status c = ClaimPaid \<longrightarrow> cl_paid_amount c = Some (cl_coverage_amount c))
          \<and> (cl_payout_ready_at c \<noteq> None \<longrightarrow> cl_paid_amount c \<noteq> None))"
proof -
  have inv: "docket_inv (docket_of s)" using cp.inv_reach[OF assms] by (simp add: docket_ready_def)
  note D = docket_invD[OF inv, simplified]
  have "cp_policy_claim s p = Some i \<longleftrightarrow> (\<exists>c. cp_claims s i = Some c \<and> cl_policy_id c = p)" for p i
    using D(3,4) by blast
  then show ?thesis using D(1-3) by (auto simp: claim_ok_def)
qed

theorem queue_exact_witness:
  "\<exists>s. reach cp_run cp_begin 3000 s \<and> get_pending_claims s = [1]
     \<and> (\<exists>c. cp_claims s 1 = Some c \<and> cl_status c = ClaimPending \<and> cl_id c = 1)"
proof -
  have "outcome (\<lambda>s. get_pending_claims s = [1]) (play cp_run opened cp_begin)" by code_simp
  then obtain s where s: "reach cp_run cp_begin 3000 s" "get_pending_claims s = [1]"
    by (rule history_reach[OF _ opened_time(1), unfolded opened_time(2)])
  have "1 \<in> set (get_pending_claims s)" using s(2) by simp
  then show ?thesis using queue_exact[OF s(1)] s by blast
qed

text \<open>
  C20. The life of a claim: a call on a reachable state keeps a claim's number, policy, claimant,
  cover and filing time, and leaves its status alone, unless it is one of these: a filing or
  processing call that settles a pending claim as Paid, partially paid or Rejected; a dispute
  of this very claim while it is Pending, Rejected or partially paid; the resolution of its
  dispute, which makes it Pending again; its escalation while it is Pending; or its rejection,
  from any status, by the administrator. Hence a claim that is Paid or Escalated stays so in
  every run in which the administrator does not reject this claim, whatever else is called.
\<close>

theorem claim_lifecycle:
  assumes "reach (cp_exec sv) (cp_fresh w) t s" "cp_claims s i = Some c"
  shows "(\<forall>e call s'. cp_exec sv e call s = Inr s' \<longrightarrow>
       (\<exists>c'. cp_claims s' i = Some c' \<and> same_filing c c'
          \<and> (cl_status c' = cl_status c \<or> status_change i call (cl_status c) (cl_status c'))
          \<and> (\<forall>a r. call = Review (RejectClaim a i r) \<longrightarrow> cp_admin s = Some a \<and> auth e a)))
     \<and> (cl_status c \<in> {ClaimPaid, ClaimEscalated} \<longrightarrow>
       (\<forall>t' s'. run (except (rejects i) (cp_exec sv)) t s t' s' \<longrightarrow>
          (\<exists>c'. cp_claims s' i = Some c' \<and> same_filing c c' \<and> cl_status c' = cl_status c)))"
proof -
  have ready: "docket_ready (docket_of s)" by (rule cp.inv_reach[OF assms(1)])
  have admin: "cp_admin s = Some a \<and> auth e a" if "cp_exec sv e (Review (RejectClaim a i r)) s = Inr s'" for e a r s'
    using that by (simp add: cp_exec_ok reject_claim_def bindR_eq_Inr cp_guards_ok)
  have "\<exists>c'. cp_claims s' i = Some c' \<and> same_filing c c'
      \<and> (cl_status c' = cl_status c \<or> status_change i call (cl_status c) (cl_status c'))
      \<and> (\<forall>a r. call = Review (RejectClaim a i r) \<longrightarrow> cp_admin s = Some a \<and> auth e a)"
    if ok: "cp_exec sv e call s = Inr s'" for e call s'
  proof -
    obtain c' where "cp_claims s' i = Some c'" "claim_changes i call c c'"
      using exec_claim_changes[OF ok ready assms(2)] by blast
    then show ?thesis using admin[of e _ _ s'] ok unfolding claim_changes_def by (intro exI[of _ c']) auto
  qed
  then show ?thesis using closed_stays[OF _ ready assms(2)] by simp
qed

text \<open>A keeper settles the claim, and later the administrator verifies the claimant's identity.\<close>

theorem claim_lifecycle_witness:
  "\<exists>s s1 s2 c c1 c2. reach cp_run cp_begin 3000 s \<and> cp_run (processor 4000) (File (ProcessClaim dave 1 None)) s = Inr s1
     \<and> run (except (rejects 1) cp_run) 4000 s1 5000 s2
     \<and> cp_claims s 1 = Some c \<and> cl_status c = ClaimPending \<and> cp_claims s1 1 = Some c1 \<and> cl_status c1 = ClaimPaid
     \<and> status_change 1 (File (ProcessClaim dave 1 None) :: int list cp_call) ClaimPending ClaimPaid
     \<and> cp_claims s2 1 = Some c2 \<and> cl_status c2 = ClaimPaid \<and> same_filing c1 c2"
proof -
  let ?pay = "File (ProcessClaim dave 1 None) :: int list cp_call"
  let ?later = "[(processor 5000, Review (VerifyClaimantIdentity boss 1 ''passport''))]
     :: (env \<times> int list cp_call) list"
  have time: "timely 4000 ?later" "ends 4000 ?later = 5000" by code_simp+
  have out: "outcome (\<lambda>s. outcome (\<lambda>s1. is_at (cp_claims s 1) (\<lambda>c. cl_status c = ClaimPending)
        \<and> is_at (cp_claims s1 1) (\<lambda>c. cl_status c = ClaimPaid)
        \<and> outcome (\<lambda>_. True) (play (except (rejects 1) cp_run) ?later s1))
      (cp_run (processor 4000) ?pay s)) (play cp_run opened cp_begin)"
    by code_simp
  obtain s s1 where s: "reach cp_run cp_begin 3000 s" "cp_run (processor 4000) ?pay s = Inr s1"
    and at: "is_at (cp_claims s 1) (\<lambda>c. cl_status c = ClaimPending)
        \<and> is_at (cp_claims s1 1) (\<lambda>c. cl_status c = ClaimPaid)
        \<and> outcome (\<lambda>_. True) (play (except (rejects 1) cp_run) ?later s1)"
    by (rule history_then[OF out opened_time(1), unfolded opened_time(2)])
  obtain c where c: "cp_claims s 1 = Some c" "cl_status c = ClaimPending" using is_atD[OF conjunct1[OF at]] by blast
  obtain c1 where c1: "cp_claims s1 1 = Some c1" "cl_status c1 = ClaimPaid"
    using is_atD[OF conjunct1[OF conjunct2[OF at]]] by blast
  have change: "status_change 1 ?pay ClaimPending ClaimPaid"
    using claim_lifecycle[OF s(1) c(1)] s(2) c c1 by fastforce
  have s1: "reach cp_run cp_begin 4000 s1"
    using reach_step[OF s(1) _ _ s(2)] by (simp add: processor_def at_time_def u64_max_def)
  obtain s2 where "play (except (rejects 1) cp_run) ?later s1 = Inr s2"
    using outcome_obtain[OF conjunct2[OF conjunct2[OF at]]] by blast
  from play_run[OF this time(1)] have run: "run (except (rejects 1) cp_run) 4000 s1 5000 s2" by (simp only: time(2))
  then obtain c2 where "cp_claims s2 1 = Some c2" "same_filing c1 c2" "cl_status c2 = cl_status c1"
    using claim_lifecycle[OF s1 c1(1)] c1(2) by blast
  then show ?thesis using s run c c1 change
    by (intro exI[of _ s] exI[of _ s1] exI[of _ s2] exI[of _ c] exI[of _ c1] exI[of _ c2]) simp
qed

text \<open>
  C21. The automatic batch serves the oldest claims first: its hand-written bubble sort is the
  stable sort by submission time, and in a reachable state the queue it works through lists
  each pending claim exactly once, in the order of submission.
\<close>

theorem batch_serves_oldest_first:
  assumes "reach (cp_exec sv) (cp_fresh w) t s"
  shows "bubble_sort = sort_key snd
     \<and> mset (sorted_pending s) = mset_set {i. \<exists>c. cp_claims s i = Some c \<and> cl_status c = ClaimPending}
     \<and> sorted (map (\<lambda>i. case cp_claims s i of None \<Rightarrow> 0 | Some c \<Rightarrow> cl_submitted_at c) (sorted_pending s))"
proof -
  have inv: "docket_inv (docket_of s)" using cp.inv_reach[OF assms] by (simp add: docket_ready_def)
  have "set (get_pending_claims s) = {i. \<exists>c. cp_claims s i = Some c \<and> cl_status c = ClaimPending}"
    using docket_invD(2)[OF inv] by auto
  then have "mset (get_pending_claims s) = mset_set {i. \<exists>c. cp_claims s i = Some c \<and> cl_status c = ClaimPending}"
    using docket_invD(1)[OF inv] by (metis docket_fields(4) mset_set_set)
  then show ?thesis
    using bubble_sort_is_sort sorted_pending_order[OF inv] by (auto simp: submitted_def[abs_def])
qed

theorem batch_serves_oldest_first_witness:
  "\<exists>s. reach cp_run cp_begin 3000 s \<and> sorted_pending s = [1]
     \<and> mset (sorted_pending s) = mset_set {i. \<exists>c. cp_claims s i = Some c \<and> cl_status c = ClaimPending}
     \<and> bubble_sort [(4, 30), (7, 10), (2, 30), (9, 20)] = [(7, 10), (9, 20), (4, 30), (2, 30)]"
proof -
  have "outcome (\<lambda>s. sorted_pending s = [1]) (play cp_run opened cp_begin)" by code_simp
  then obtain s where s: "reach cp_run cp_begin 3000 s" "sorted_pending s = [1]"
    by (rule history_reach[OF _ opened_time(1), unfolded opened_time(2)])
  have "bubble_sort [(4, 30), (7, 10), (2, 30), (9, 20)] = [(7, 10), (9, 20), (4, 30), (2, 30)]" by code_simp
  then show ?thesis using batch_serves_oldest_first[OF s(1)] s by blast
qed

section \<open>Filing in batches\<close>

text \<open>
  A batch of two or more claims can never be submitted: filing the first claim starts the
  claimant's cooling-off period of 60 seconds, and the second claim of the same call falls
  into it. Whatever the policies, the claimant and the other contracts, the call fails.
\<close>

theorem batch_submission_fails:
  assumes "2 \<le> length policy_ids" "0 \<le> timestamp e" "timestamp e < u64_max"
  shows "\<exists>err. batch_submit_claims sv e claimant policy_ids s = Inl err"
proof (rule ccontr)
  assume "\<not> ?thesis"
  then obtain r where "batch_submit_claims sv e claimant policy_ids s = Inr r"
    by (cases "batch_submit_claims sv e claimant policy_ids s") auto
  moreover obtain p q ps where "policy_ids = p # q # ps"
    using assms(1) by (auto simp: numeral_2_eq_2 Suc_le_length_iff)
  moreover have "nat (min MAX_BATCH_SIZE (int (length policy_ids))) = Suc (Suc (min 48 (length ps)))"
    using calculation(2) by (simp add: MAX_BATCH_SIZE_def)
  ultimately obtain i j s1 s2 where one: "file_claim sv e claimant p s = Inr (i, s1)"
    and two: "file_claim sv e claimant q s1 = Inr (j, s2)"
    by (auto simp: batch_submit_claims_def Let_def bindR_eq_Inr split: prod.splits)
  have "user_cooling e claimant s1"
    using file_claim_cooling(2)[OF one] assms(2,3) by (simp add: user_cooling_def num_defs)
  then show False using file_claim_cooling(1)[OF two] by simp
qed

theorem batch_submission_fails_witness:
  "\<exists>s. reach cp_run cp_begin 3000 s
     \<and> (\<exists>r. submit_claim demo_sv (processor 4000) alice 2 s = Inr r)
     \<and> (\<exists>r. submit_claim demo_sv (processor 4000) alice 3 s = Inr r)
     \<and> (\<exists>err. batch_submit_claims demo_sv (processor 4000) alice [2, 3] s = Inl err)"
proof -
  have "outcome (\<lambda>s. (case submit_claim demo_sv (processor 4000) alice 2 s of Inl _ \<Rightarrow> False | Inr r \<Rightarrow> True)
      \<and> (case submit_claim demo_sv (processor 4000) alice 3 s of Inl _ \<Rightarrow> False | Inr r \<Rightarrow> True))
     (play cp_run opened cp_begin)" by code_simp
  then obtain s where s: "reach cp_run cp_begin 3000 s"
    and ok: "case submit_claim demo_sv (processor 4000) alice 2 s of Inl _ \<Rightarrow> False | Inr r \<Rightarrow> True"
      "case submit_claim demo_sv (processor 4000) alice 3 s of Inl _ \<Rightarrow> False | Inr r \<Rightarrow> True"
    by (rule history_reach[OF _ opened_time(1), unfolded opened_time(2)]) blast
  have "\<exists>err. batch_submit_claims demo_sv (processor 4000) alice [2, 3] s = Inl err"
    by (rule batch_submission_fails) (simp_all add: processor_def at_time_def u64_max_def)
  then show ?thesis using s ok by (auto split: sum.splits)
qed

section \<open>Delayed payouts\<close>

text \<open>
  C22. Neither a rejection nor a dispute stops a payout that is being kept back: after
  \<^verbatim>\<open>reject_claim\<close> or \<^verbatim>\<open>dispute_claim\<close> has succeeded on a claim, anybody's
  \<^verbatim>\<open>claim_payout\<close> succeeds exactly when it would have succeeded before, pays the same
  amount and does the same to the other contracts, while the claim stays Rejected (or
  Disputed).
\<close>

theorem rejection_does_not_stop_payout:
  assumes "reject_claim e a i r s = Inr s1 \<or> dispute_claim sv e a i r s = Inr s1"
  shows "(\<exists>s2. claim_payout sv e' i s1 = Inr (n, s2) \<and> cp_world s2 = w
            \<and> (\<exists>c. cp_claims s2 i = Some c \<and> cl_status c \<in> {ClaimRejected, ClaimDisputed}))
     \<longleftrightarrow> (\<exists>s2. claim_payout sv e' i s = Inr (n, s2) \<and> cp_world s2 = w)"
proof -
  obtain c c1 where c: "cp_claims s i = Some c" "cp_claims s1 = (cp_claims s)(i \<mapsto> c1)"
    "cl_payout_ready_at c1 = cl_payout_ready_at c" "cl_paid_amount c1 = cl_paid_amount c"
    "cl_coverage_amount c1 = cl_coverage_amount c" "cl_policy_id c1 = cl_policy_id c"
    "cl_status c1 \<in> {ClaimRejected, ClaimDisputed}"
    and s1: "cp_paused s1 = cp_paused s" "cp_policy_engine s1 = cp_policy_engine s"
      "cp_risk_pool s1 = cp_risk_pool s" "cp_world s1 = cp_world s"
    using rejected_or_disputed[OF assms] by metis
  show ?thesis unfolding claim_payout_iff using c s1 by (auto simp: log_event_def)
qed

theorem rejection_does_not_stop_payout_witness:
  "\<exists>s s1. reach cp_run cp_begin 4000 s \<and> reject_claim (processor 4050) boss 1 ''fraud'' s = Inr s1
     \<and> (\<exists>s2. claim_payout demo_sv (processor 4200) 1 s1 = Inr (365000, s2) \<and> cp_world s2 = [1]
          \<and> (\<exists>c. cp_claims s2 1 = Some c \<and> cl_status c \<in> {ClaimRejected, ClaimDisputed}))"
proof -
  have out: "outcome (\<lambda>s. outcome (\<lambda>s1. outcome (\<lambda>(n, s2). n = 365000 \<and> cp_world s2 = [1])
        (claim_payout demo_sv (processor 4200) 1 s))
      (reject_claim (processor 4050) boss 1 ''fraud'' s)) (play cp_run deferred cp_begin)"
    by code_simp
  obtain s s1 where s: "reach cp_run cp_begin 4000 s" "reject_claim (processor 4050) boss 1 ''fraud'' s = Inr s1"
    and pay: "outcome (\<lambda>(n, s2). n = 365000 \<and> cp_world s2 = [1]) (claim_payout demo_sv (processor 4200) 1 s)"
    by (rule history_then[OF out deferred_time(1), unfolded deferred_time(2)])
  then obtain s2 where "claim_payout demo_sv (processor 4200) 1 s = Inr (365000, s2)" "cp_world s2 = [1]"
    by (auto dest!: outcome_obtain)
  then show ?thesis
    using rejection_does_not_stop_payout[OF disjI1[OF s(2)], of demo_sv "processor 4200" 365000 "[1]"] s by blast
qed

end
