(* ===== verification/Net_Properties.thy ===== *)
theory Net_Properties
  imports CP_Properties
begin

text \<open>
  The properties of the deployed contracts together: the engine, the pool and the claims
  processor on one token ledger, with any token contract, reinsurer and oracle.
\<close>

section \<open>The payouts behind the claims\<close>

text \<open>
  C23. Every claim recorded as paid has really been paid: in every state the deployed
  contracts can reach by any calls of anybody, a claim with status Paid or PartiallyPaid
  and nothing kept back has a policy that the engine has marked Claimed, with exactly one
  settlement in the engine's log, which pays the claim's whole cover to the holder, and the
  capital the pool had locked for the policy is free again. The full cover is paid even
  when the claim records a partial payout.
\<close>

theorem payouts_backed:
  assumes "reach (net_exec d) (net_fresh t0 r o') t s" "cp_claims s i = Some c"
    and "cl_status c = ClaimPaid \<or> cl_status c = ClaimPartiallyPaid" "cl_payout_ready_at c = None"
  shows "\<exists>p l. pe_policies (on_engine (cp_world s)) (cl_policy_id c) = Some p \<and> po_status p = Claimed
     \<and> EvClaimPaid (cl_policy_id c) (po_policyholder p) (cl_coverage_amount c)
          \<in> set (pe_events (on_engine (cp_world s)))
     \<and> occurrences (settles (cl_policy_id c)) (pe_events (on_engine (cp_world s))) = 1
     \<and> rp_locks (on_pool (cp_world s)) (cl_policy_id c) = Some l \<and> lk_released l \<and> 0 < lk_amount l"
  by (rule paid_claim_backed[OF net.inv_reach[OF assms(1)] assms(2-4)]) blast

theorem payouts_backed_witness:
  "\<exists>s c h. reach net_run net_begin 4000 s \<and> cp_claims s 1 = Some c \<and> cl_status c = ClaimPartiallyPaid
     \<and> cl_paid_amount c = Some 182500 \<and> EvClaimPaid 1 h 365000 \<in> set (pe_events (on_engine (cp_world s)))"
proof -
  obtain s c where s: "reach net_run net_begin 4000 s" "cp_claims s 1 = Some c" "cl_status c = ClaimPartiallyPaid"
    "cl_policy_id c = 1" "cl_payout_ready_at c = None" "cl_coverage_amount c = 365000"
    "cl_paid_amount c = Some 182500"
    by (rule half_paid)
  then show ?thesis using payouts_backed[OF s(1,2) disjI2[OF s(3)] s(5)] by auto
qed

text \<open>
  C24. A triggered claim gets paid: in every reachable state in which the contracts are linked
  to each other and not paused, no payout delay is set, a claim is pending whose claimant
  still holds the policy, the policy is active and the pool still holds its lock, the engine
  has the funds and the oracle confirms the trigger, the call \<^verbatim>\<open>process_claim\<close> of any
  keeper succeeds. It records the claim as paid (in full, or the share asked for, rounded
  down), marks the policy Claimed with the payment of the whole cover in the engine's log, and frees the capital.
\<close>

theorem triggered_claim_is_paid:
  assumes "reach (net_exec d) (net_fresh t0 r o') t s" "t \<le> timestamp e" "timestamp e \<le> u64_max"
    and "cp_claims s i = Some c" "cl_status c = ClaimPending" "cl_payout_ready_at c = None"
    and "wired d s" "payable d (cp_world s) (cl_policy_id c) p" "po_policyholder p = cl_claimant c"
    and "is_keeper k s" "auth e k" "cp_paused s \<noteq> Some True" "payout_delay s \<le> 0" "is_u128 i" "bps_typed b"
    and "verify_code d (sub_env (e\<lparr>this := at_claims d\<rparr>)\<lparr>this := at_oracle d\<rparr>) (po_oracle_data_type p)
       (po_oracle_key p) (policy_condition p) (unwrap_or 604800 (cp_staleness_threshold s))
       (on_oracle (cp_world s)) = Some (True, o1)"
  shows "\<exists>s' c'. net_exec d e (ProcessorCall (File (ProcessClaim k i b))) s = Inr s'
     \<and> cp_claims s' i = Some c'
     \<and> cl_status c' = (if unwrap_or 10000 b < 10000 then ClaimPartiallyPaid else ClaimPaid)
     \<and> cl_paid_amount c' = Some (cl_coverage_amount c * min 10000 (unwrap_or 10000 b) div 10000)
     \<and> settled_on (cp_world s') (cl_policy_id c)
     \<and> (\<exists>h. EvClaimPaid (cl_policy_id c) h (cl_coverage_amount c) \<in> set (pe_events (on_engine (cp_world s'))))"
proof -
  note share = payable_share[OF net.inv_reach[OF assms(1)] assms(4,8,15)]
  obtain s' c' where s': "net_exec d e (ProcessorCall (File (ProcessClaim k i b))) s = Inr s'"
    and c': "cp_claims s' i = Some c'"
      "cl_status c' = (if unwrap_or 10000 b < 10000 then ClaimPartiallyPaid else ClaimPaid)"
      "cl_payout_ready_at c' = None" "cl_policy_id c' = cl_policy_id c" "cl_coverage_amount c' = cl_coverage_amount c"
      "cl_paid_amount c' = Some (cl_coverage_amount c * min 10000 (unwrap_or 10000 b) div 10000)"
    using triggered_claim_paid[OF assms(7,8,12,10,11,4) share(3) assms(5) assms(9)[symmetric] share(1,2)
        assms(13-16)] assms(6) by auto
  have inv: "net_inv (timestamp e) s'"
    by (rule net.inv_reach[OF reach_step[OF assms(1-3) s']])
  have paid: "cl_status c' = ClaimPaid \<or> cl_status c' = ClaimPartiallyPaid" using c'(2) by simp
  show ?thesis
    by (rule paid_claim_backed[OF inv c'(1) paid c'(3)]) (use s' c' in \<open>auto simp: settled_on_def\<close>)
qed

theorem triggered_claim_is_paid_witness:
  "\<exists>s s'. reach net_run net_begin 3000 s
     \<and> net_run (at_time 4000) (ProcessorCall (File (ProcessClaim dave 1 None))) s = Inr s'
     \<and> settled_on (cp_world s') 1"
proof -
  obtain s c p where s: "reach net_run net_begin 3000 s" "cp_claims s 1 = Some c" "cl_status c = ClaimPending"
    "cl_policy_id c = 1" "cl_payout_ready_at c = None" "cl_coverage_amount c = 365000"
    "wired demo_net s" "payable demo_net (cp_world s) (cl_policy_id c) p" "po_policyholder p = cl_claimant c"
    "is_keeper dave s" "cp_paused s \<noteq> Some True" "payout_delay s \<le> 0" "on_oracle (cp_world s)"
    by (rule claim_filed)
  have e: "3000 \<le> timestamp (at_time 4000)" "timestamp (at_time 4000) \<le> u64_max" "auth (at_time 4000) dave"
    "is_u128 1" "bps_typed None"
    by (simp_all add: at_time_def is_u128_def u128_max_def u64_max_def bps_typed_def)
  show ?thesis
    using triggered_claim_is_paid[OF s(1) e(1,2) s(2,3,5,7,8,9,10) e(3) s(11,12) e(4,5), of True] s(1,4,13)
    by (auto simp: demo_net_def)
qed

end
