(* ===== verification/OV_State.thy ===== *)
theory OV_State
  imports OV_Types
begin

text \<open>
  The data of the oracle verifier (\<^verbatim>\<open>contracts/oracle-verifier\<close>): registrations, readings,
  reputations, stake withdrawals, the configuration of a data type, the reports, the error
  codes, the published events, and the storage with one field per \<^verbatim>\<open>StorageKey\<close>. Names
  that another contract also uses carry the prefix \<open>ov_\<close> or \<open>V\<close>, events the prefix
  \<open>Ov\<close>. The temporal decay types of \<^verbatim>\<open>types.rs\<close> and \<^verbatim>\<open>OracleHealth\<close> are never used by
  the contract.
\<close>

section \<open>Data\<close>

record oracle_reputation =
  rep_oracle :: address
  rep_data_type :: symbol
  rep_total_submissions :: int
  rep_accurate_submissions :: int
  rep_score :: int
  rep_last_updated :: int

datatype aggregation_method = WeightedMedian | WeightedAverage | Mean | TimeWeightedAverage

record oracle_data_submission =
  sb_key :: symbol
  sb_value :: int
  sb_confidence :: int
  sb_timestamp :: int

record oracle_data_point =
  dp_oracle :: address
  dp_value :: int
  dp_confidence :: int
  dp_timestamp :: int

record encrypted_data_point =
  ep_oracle :: address
  ep_ciphertext :: string
  ep_nonce :: string
  ep_confidence :: int
  ep_timestamp :: int

record aggregated_data =
  ag_median_value :: int
  ag_oracle_count :: int
  ag_active_oracle_count :: int
  ag_confidence :: int
  ag_min_confidence :: int
  ag_last_updated :: int
  ag_confidence_interval_lower :: int
  ag_confidence_interval_upper :: int

record oracle_entry =
  oe_oracle :: address
  oe_data_type :: symbol
  oe_weight :: int
  oe_active :: bool

record freshness_report =
  fr_data_type :: symbol
  fr_key :: symbol
  fr_is_fresh :: bool
  fr_newest_age :: int
  fr_fresh_count :: int
  fr_total_count :: int
  fr_max_age :: int

record staleness_report =
  sr_data_type :: symbol
  sr_key :: symbol
  sr_is_stale :: bool
  sr_oldest_fresh_age :: int
  sr_newest_age :: int
  sr_stale_count :: int
  sr_total_count :: int
  sr_max_age :: int
  sr_freshness_ratio_bps :: int

record consensus_threshold =
  ct_data_type :: symbol
  ct_agreement_threshold_bps :: int

record outlier_config =
  ol_enabled :: bool
  ol_threshold_bps :: int
  ol_min_sample_size :: int

record cross_validation_rule =
  cv_source_type :: symbol
  cv_target_type :: symbol
  cv_max_variance :: int
  cv_description :: string

record stake_withdrawal_request =
  sw_oracle :: address
  sw_data_type :: symbol
  sw_amount :: int
  sw_requested_at :: int
  sw_unlock_at :: int

record ov_pending_upgrade =
  ou_wasm_hash :: wasm_hash
  ou_approvals :: "address list"

record ov_pending_admin_change =
  oa_new_admin :: address
  oa_approvals :: "address list"

section \<open>Errors\<close>

datatype ov_error =
    VAlreadyInitialized | VNotInitialized | VUnauthorized | OracleNotRegistered
  | OracleAlreadyExists | NoDataAvailable | InvalidConfidence | InvalidWeight | StaleData
  | TooManyOracles | InvalidTimestamp | VInvalidAddress | RateLimited | InsufficientStake
  | StakeTokenNotSet | NoStake | InvalidStakeAmount | OracleStillActive | VNotGuardian
  | VAlreadyApprovedAction | VNoPendingUpgrade | VInvalidThreshold | VAdminTimelockNotExpired
  | InvalidMaxAge | EncryptionRequiredForType | TimestampOutOfRange | InvalidOutlierConfig
  | VInvalidInput | CrossValidationFailed | VAdminTransferPending | InvalidSymbolLength
  | DataTypePaused | ChallengePeriodNotElapsed | NoStakeWithdrawalRequest
  | WithdrawalAlreadyRequested | InvalidReputation | StaleReadingTimestamp

section \<open>Events\<close>

text \<open>One constructor per published topic, with the fields of its payload.\<close>

datatype ov_event =
    OvInitialized address
  | OvOracleAdded address symbol int
  | OvOracleRemoved address symbol
  | OvOracleAutoDeactivated address symbol
  | OvDataTypePaused symbol
  | OvDataTypeResumed symbol
  | OvOracleInactivityLimitUpdated int
  | OvMinConfidenceUpdated int
  | OvMaxDataAgeUpdated int
  | OvMaxTimestampAgeUpdated int
  | OvTimestampFutureBufferUpdated int
  | OvAdminUpdated address
  | OvDataTypeMaxAgeUpdated symbol int
  | OvAggregationMethodUpdated symbol aggregation_method
  | OvOutlierConfigUpdated symbol bool int int
  | OvDataTypeRangeUpdated symbol int int
  | OvStaleDataDetected symbol symbol int int int int
  | OvMinOracleCountUpdated int
  | OvDataTypeMinOracleCountUpdated symbol int
  | OvConsensusThresholdUpdated symbol int
  | OvCrossValidationRuleAdded symbol symbol int
  | OvCrossValidationRuleRemoved symbol symbol
  | OvMinSubmitIntervalUpdated int
  | OvStakeTokenUpdated address
  | OvMinStakeUpdated int
  | OvStakeDeposited address symbol int int
  | OvGeoWeightUpdated address symbol symbol int
  | OvChallengePeriodUpdated int
  | OvStakeWithdrawalRequested address symbol int int
  | OvStakeWithdrawalCancelled address symbol
  | OvStakeWithdrawn address symbol int
  | OvOracleSlashed address symbol int int symbol
  | OvStaleThresholdUpdated int
  | OvStaleSlashAmountUpdated int
  | OvStaleReputationPenaltyUpdated int
  | OvStaleSubmissionDetected address symbol int int int
  | OvStalePenaltyApplied address symbol int int int
  | OvGuardiansUpdated "address list" int
  | OvUpgradeApproved wasm_hash address int int
  | OvOracleDataSubmitted address symbol symbol int int int
  | OvEncryptionRequiredUpdated symbol bool
  | OvOracleDataInvalidated symbol symbol
  | OvOracleEncryptedDataSubmitted address symbol symbol int int
  | OvVerificationResult symbol symbol bool int int
  | OvReputationUpdated address symbol int int int

section \<open>Storage\<close>

text \<open>
  A key that has never been set is \<open>None\<close>, or absent from the map. \<^verbatim>\<open>PendingAdmin\<close> is read
  as \<^verbatim>\<open>Option<Address>\<close> with a default of \<^verbatim>\<open>None\<close>, so its two empty values are one.
  \<open>ov_wasm\<close> is the code installed by \<^verbatim>\<open>update_current_contract_wasm\<close>; \<open>ov_tokens\<close> is the
  ledger of the token contracts.
\<close>

record 't ov_state =
  ov_initialized :: bool
  ov_admin :: "address option"
  ov_oracle :: "symbol \<times> address \<Rightarrow> oracle_entry option"
  ov_data_points :: "symbol \<times> symbol \<Rightarrow> oracle_data_point list option"
  ov_oracle_list :: "symbol \<Rightarrow> address list option"
  ov_min_confidence :: "int option"
  ov_max_data_age :: "int option"
  ov_pending_admin :: "address option"
  ov_pending_admin_since :: "int option"
  ov_min_oracle_count :: "int option"
  ov_min_submit_interval :: "int option"
  ov_last_submission :: "symbol \<times> address \<Rightarrow> int option"
  ov_last_reading_timestamp :: "symbol \<times> symbol \<times> address \<Rightarrow> int option"
  ov_stake_token :: "address option"
  ov_min_stake :: "int option"
  ov_stake_amt :: "symbol \<times> address \<Rightarrow> int option"
  ov_slash_treasury :: "address option"
  ov_guardians :: "address list option"
  ov_guardian_threshold :: "int option"
  ov_upgrade_pending :: "ov_pending_upgrade option"
  ov_admin_change_pending :: "ov_pending_admin_change option"
  ov_reputation :: "symbol \<times> address \<Rightarrow> oracle_reputation option"
  ov_data_type_max_age :: "symbol \<Rightarrow> int option"
  ov_aggregation_method :: "symbol \<Rightarrow> aggregation_method option"
  ov_encryption_required :: "symbol \<Rightarrow> bool option"
  ov_encrypted_points :: "symbol \<times> symbol \<Rightarrow> encrypted_data_point list option"
  ov_max_timestamp_age :: "int option"
  ov_timestamp_future_buffer :: "int option"
  ov_data_type_min_oracle_count :: "symbol \<Rightarrow> int option"
  ov_consensus_threshold :: "symbol \<Rightarrow> consensus_threshold option"
  ov_outlier_config :: "symbol \<Rightarrow> outlier_config option"
  ov_cross_validation_rule :: "symbol \<times> symbol \<Rightarrow> cross_validation_rule option"
  ov_cross_validation_targets :: "symbol \<Rightarrow> symbol list option"
  ov_geo_weight :: "symbol \<times> address \<times> symbol \<Rightarrow> int option"
  ov_data_type_paused :: "symbol \<Rightarrow> bool option"
  ov_stale_count :: "symbol \<times> address \<Rightarrow> int option"
  ov_stale_threshold :: "int option"
  ov_stale_slash_amount :: "int option"
  ov_stale_reputation_penalty :: "int option"
  ov_inactivity_limit :: "int option"
  ov_data_type_range :: "symbol \<Rightarrow> (int \<times> int) option"
  ov_challenge_period :: "int option"
  ov_stake_withdrawal_req :: "symbol \<times> address \<Rightarrow> stake_withdrawal_request option"
  ov_global_oracle :: "address \<Rightarrow> bool option"
  ov_wasm :: "wasm_hash option"
  ov_tokens :: 't
  ov_events :: "ov_event list"

definition ov_fresh :: "'t \<Rightarrow> 't ov_state" where
  "ov_fresh t = \<lparr>
     ov_initialized = False, ov_admin = None, ov_oracle = Map.empty, ov_data_points = Map.empty,
     ov_oracle_list = Map.empty, ov_min_confidence = None, ov_max_data_age = None,
     ov_pending_admin = None, ov_pending_admin_since = None, ov_min_oracle_count = None,
     ov_min_submit_interval = None, ov_last_submission = Map.empty,
     ov_last_reading_timestamp = Map.empty, ov_stake_token = None, ov_min_stake = None,
     ov_stake_amt = Map.empty, ov_slash_treasury = None, ov_guardians = None,
     ov_guardian_threshold = None, ov_upgrade_pending = None, ov_admin_change_pending = None,
     ov_reputation = Map.empty, ov_data_type_max_age = Map.empty,
     ov_aggregation_method = Map.empty, ov_encryption_required = Map.empty,
     ov_encrypted_points = Map.empty, ov_max_timestamp_age = None,
     ov_timestamp_future_buffer = None, ov_data_type_min_oracle_count = Map.empty,
     ov_consensus_threshold = Map.empty, ov_outlier_config = Map.empty,
     ov_cross_validation_rule = Map.empty, ov_cross_validation_targets = Map.empty,
     ov_geo_weight = Map.empty, ov_data_type_paused = Map.empty, ov_stale_count = Map.empty,
     ov_stale_threshold = None, ov_stale_slash_amount = None, ov_stale_reputation_penalty = None,
     ov_inactivity_limit = None, ov_data_type_range = Map.empty, ov_challenge_period = None,
     ov_stake_withdrawal_req = Map.empty, ov_global_oracle = Map.empty, ov_wasm = None,
     ov_tokens = t, ov_events = []\<rparr>"

text \<open>Constants of \<^verbatim>\<open>lib.rs\<close>.\<close>

definition MAX_ORACLES :: int where [num_defs]: "MAX_ORACLES = 100"
definition MAX_ORACLES_PER_KEY :: int where [num_defs]: "MAX_ORACLES_PER_KEY = 10"
definition MAX_DATA_POINTS :: nat where [num_defs]: "MAX_DATA_POINTS = 100"
definition MAX_KEY_LEN :: nat where [num_defs]: "MAX_KEY_LEN = 32"
definition DEFAULT_OUTLIER_THRESHOLD_BPS :: int where [num_defs]: "DEFAULT_OUTLIER_THRESHOLD_BPS = 50000"
definition MAX_DATA_VALUE :: int where [num_defs]: "MAX_DATA_VALUE = 1000000000000000000000000000"
definition DEFAULT_OUTLIER_MIN_SAMPLE_SIZE :: int where [num_defs]: "DEFAULT_OUTLIER_MIN_SAMPLE_SIZE = 4"
definition DEFAULT_CHALLENGE_PERIOD :: int where [num_defs]: "DEFAULT_CHALLENGE_PERIOD = 7 * 24 * 60 * 60"
definition DEFAULT_MIN_SUBMIT_INTERVAL :: int where [num_defs]: "DEFAULT_MIN_SUBMIT_INTERVAL = 30"
definition DEFAULT_WEATHER_MAX :: int where [num_defs]: "DEFAULT_WEATHER_MAX = 10000000000"
definition DEFAULT_FLIGHT_MAX :: int where [num_defs]: "DEFAULT_FLIGHT_MAX = 172800000000"
definition DEFAULT_ONCHAIN_MAX :: int where [num_defs]: "DEFAULT_ONCHAIN_MAX = 1000000000000000000000"
definition DEFAULT_DEFI_MAX :: int where [num_defs]: "DEFAULT_DEFI_MAX = 1000000000000000000000"
definition DEFAULT_DISASTER_MAX :: int where [num_defs]: "DEFAULT_DISASTER_MAX = 100000000"
definition DEFAULT_HEALTH_MAX :: int where [num_defs]: "DEFAULT_HEALTH_MAX = 1000000000"
definition MAX_WEIGHT :: int where [num_defs]: "MAX_WEIGHT = 100000"

definition ov_publish :: "ov_event \<Rightarrow> 't ov_state \<Rightarrow> 't ov_state" where
  [host_defs]: "ov_publish ev s = s\<lparr>ov_events := ev # ov_events s\<rparr>"

section \<open>Guards and settings in force\<close>

definition ov_require_admin :: "env \<Rightarrow> address \<Rightarrow> 't ov_state \<Rightarrow> (ov_error, unit) result" where
  "ov_require_admin e caller s =
     bindR (or_panic VNotInitialized (ov_admin s)) (\<lambda>admin.
     if caller \<noteq> admin then panic VUnauthorized else require_auth e caller)"

definition ov_validate_stellar_address :: "address \<Rightarrow> (ov_error, unit) result" where
  "ov_validate_stellar_address a = (if is_account_or_contract a then Inr () else panic VInvalidAddress)"

definition ov_validate_contract_address :: "address \<Rightarrow> (ov_error, unit) result" where
  "ov_validate_contract_address a = (if is_contract a then Inr () else panic VInvalidAddress)"

text \<open>
  The XDR of a symbol is a type tag and a length of four bytes each and its characters,
  padded to a multiple of four.
\<close>

definition xdr_len :: "symbol \<Rightarrow> nat" where
  "xdr_len sm = 8 + 4 * ((length sm + 3) div 4)"

definition validate_symbol_len :: "symbol \<Rightarrow> (ov_error, unit) result" where
  "validate_symbol_len sm =
     (if xdr_len sm \<le> 8 \<or> xdr_len sm > 8 + 32 then panic InvalidSymbolLength else Inr ())"

definition validate_key_len :: "symbol \<Rightarrow> (ov_error, unit) result" where
  "validate_key_len key =
     (if length key = 0 \<or> length key > MAX_KEY_LEN then panic InvalidSymbolLength else Inr ())"

definition require_data_type_active :: "symbol \<Rightarrow> 't ov_state \<Rightarrow> (ov_error, unit) result" where
  "require_data_type_active data_type s =
     (if unwrap_or False (ov_data_type_paused s data_type) then panic DataTypePaused else Inr ())"

definition encryption_required :: "symbol \<Rightarrow> 't ov_state \<Rightarrow> bool" where
  "encryption_required data_type s = unwrap_or False (ov_encryption_required s data_type)"

definition effective_max_age :: "symbol \<Rightarrow> 't ov_state \<Rightarrow> int" where
  "effective_max_age data_type s =
     (case ov_data_type_max_age s data_type of
        Some age \<Rightarrow> age | None \<Rightarrow> unwrap_or 604800 (ov_max_data_age s))"

definition effective_aggregation_method :: "symbol \<Rightarrow> 't ov_state \<Rightarrow> aggregation_method" where
  "effective_aggregation_method data_type s =
     unwrap_or WeightedMedian (ov_aggregation_method s data_type)"

definition effective_outlier_config :: "symbol \<Rightarrow> 't ov_state \<Rightarrow> outlier_config" where
  "effective_outlier_config data_type s =
     unwrap_or \<lparr>ol_enabled = False, ol_threshold_bps = DEFAULT_OUTLIER_THRESHOLD_BPS,
                ol_min_sample_size = DEFAULT_OUTLIER_MIN_SAMPLE_SIZE\<rparr>
       (ov_outlier_config s data_type)"

definition effective_min_oracle_count :: "symbol \<Rightarrow> 't ov_state \<Rightarrow> int" where
  "effective_min_oracle_count data_type s =
     (case ov_data_type_min_oracle_count s data_type of
        Some n \<Rightarrow> n | None \<Rightarrow> unwrap_or 1 (ov_min_oracle_count s))"

definition get_data_type_max :: "symbol \<Rightarrow> 't ov_state \<Rightarrow> int" where
  "get_data_type_max data_type s =
     (case ov_data_type_range s data_type of
        Some (_, mx) \<Rightarrow> mx
      | None \<Rightarrow>
          if data_type = ''weather'' then DEFAULT_WEATHER_MAX
          else if data_type = ''flight'' then DEFAULT_FLIGHT_MAX
          else if data_type = ''onchain'' then DEFAULT_ONCHAIN_MAX
          else if data_type = ''defi'' then DEFAULT_DEFI_MAX
          else if data_type = ''disaster'' then DEFAULT_DISASTER_MAX
          else if data_type = ''health'' then DEFAULT_HEALTH_MAX
          else MAX_DATA_VALUE)"

definition inactivity_limit :: "'t ov_state \<Rightarrow> int" where
  "inactivity_limit s = unwrap_or 0 (ov_inactivity_limit s)"

definition oracle_offline :: "env \<Rightarrow> symbol \<Rightarrow> address \<Rightarrow> 't ov_state \<Rightarrow> bool" where
  "oracle_offline e data_type orc s =
     (inactivity_limit s \<noteq> 0 \<and>
      (case ov_last_submission s (data_type, orc) of
         Some t \<Rightarrow> sat_u64 (timestamp e - t) > inactivity_limit s | None \<Rightarrow> False))"

definition points_of :: "symbol \<Rightarrow> symbol \<Rightarrow> 't ov_state \<Rightarrow> oracle_data_point list" where
  "points_of data_type key s = unwrap_or [] (ov_data_points s (data_type, key))"

definition oracles_of :: "symbol \<Rightarrow> 't ov_state \<Rightarrow> address list" where
  "oracles_of data_type s = unwrap_or [] (ov_oracle_list s data_type)"

text \<open>Whether an oracle's registration is active.\<close>

definition entry_active :: "symbol \<Rightarrow> address \<Rightarrow> 't ov_state \<Rightarrow> bool" where
  "entry_active data_type orc s =
     (case ov_oracle s (data_type, orc) of None \<Rightarrow> False | Some entry \<Rightarrow> oe_active entry)"

lemma xdr_len_bounds: "xdr_len sm \<le> 8 \<longleftrightarrow> sm = []" "40 < xdr_len sm \<longleftrightarrow> 32 < length sm"
proof -
  have "(n + 3) div 4 = 0 \<longleftrightarrow> n = 0" "40 < 8 + 4 * ((n + 3) div 4) \<longleftrightarrow> 32 < n" for n :: nat
    by presburger+
  then show "xdr_len sm \<le> 8 \<longleftrightarrow> sm = []" "40 < xdr_len sm \<longleftrightarrow> 32 < length sm"
    by (simp_all add: xdr_len_def)
qed

lemma ov_guards_ok [result_simps]:
  "ov_require_admin e a s = Inr u \<longleftrightarrow> ov_admin s = Some a \<and> auth e a"
  "ov_validate_stellar_address a = Inr u \<longleftrightarrow> is_account_or_contract a"
  "ov_validate_contract_address a = Inr u \<longleftrightarrow> is_contract a"
  "validate_symbol_len sm = Inr u \<longleftrightarrow> sm \<noteq> [] \<and> length sm \<le> 32"
  "validate_key_len sm = Inr u \<longleftrightarrow> sm \<noteq> [] \<and> length sm \<le> 32"
  "require_data_type_active dt s = Inr u \<longleftrightarrow> ov_data_type_paused s dt \<noteq> Some True"
  by (auto simp: ov_require_admin_def ov_validate_stellar_address_def ov_validate_contract_address_def
      validate_symbol_len_def xdr_len_bounds validate_key_len_def MAX_KEY_LEN_def
      require_data_type_active_def unwrap_or_def require_auth_def result_simps split: option.splits)

end
