(* ===== verification/OV_Aggregate.thy ===== *)
theory OV_Aggregate
  imports OV_State "HOL-Library.Multiset" "HOL-Library.Product_Lexorder"
begin

text \<open>
  How the oracle verifier combines readings (\<^verbatim>\<open>lib.rs\<close>, \<^verbatim>\<open>filter_outliers\<close> to
  \<^verbatim>\<open>calculate_confidence_interval\<close>): outlier rejection, the weighted median and the three
  averages, and the confidence interval. The parallel slices \<^verbatim>\<open>values\<close> and
  \<^verbatim>\<open>timestamps\<close> are one list of samples: a value, its weight, its timestamp.

  The lemmas show that the median stays inside any range that more than half of the weight
  reports from, and that outlier rejection and median are functions of the multiset of
  reported values and weights.
\<close>

type_synonym sample = "int \<times> int \<times> int"

definition sample_value :: "sample \<Rightarrow> int" where "sample_value x = fst x"
definition sample_weight :: "sample \<Rightarrow> int" where "sample_weight x = fst (snd x)"
definition sample_time :: "sample \<Rightarrow> int" where "sample_time x = snd (snd x)"

definition weighed :: "sample \<Rightarrow> int \<times> int" where
  "weighed x = (sample_value x, sample_weight x)"

lemmas sample_defs = sample_value_def sample_weight_def sample_time_def weighed_def

lemma weighed_sample [simp]: "weighed (v, w, t) = (v, w)"
  by (simp add: sample_defs)

text \<open>\<^verbatim>\<open>iter().map(f)\<close> of a fallible \<open>f\<close>: the first failure is the failure of the whole.\<close>

primrec mapR :: "('a \<Rightarrow> ('e, 'b) result) \<Rightarrow> 'a list \<Rightarrow> ('e, 'b list) result" where
  "mapR f [] = Inr []"
| "mapR f (x # xs) = bindR (f x) (\<lambda>y. bindR (mapR f xs) (\<lambda>ys. Inr (y # ys)))"

text \<open>A sum of \<^verbatim>\<open>u32\<close> weights, which traps on overflow.\<close>

primrec u32_sum :: "int list \<Rightarrow> ('e, int) result" where
  "u32_sum [] = Inr 0"
| "u32_sum (w # ws) = bindR (u32_sum ws) (\<lambda>n. u32 (w + n))"

section \<open>Outlier rejection\<close>

text \<open>The middle of a sorted slice; of an even number, half the sum of the middle two.\<close>

definition middle :: "int list \<Rightarrow> (ov_error, int) result" where
  "middle xs =
     (let n = length xs
      in if n mod 2 = 1 then Inr (xs ! (n div 2))
         else bindR (i128 (xs ! (n div 2 - 1) + xs ! (n div 2))) (\<lambda>s. Inr (s sdiv 2)))"

text \<open>\<^verbatim>\<open>(value - median).abs()\<close>: both operations can overflow.\<close>

definition deviation :: "int \<Rightarrow> int \<Rightarrow> (ov_error, int) result" where
  "deviation median v = bindR (i128 (v - median)) (\<lambda>d. i128 \<bar>d\<bar>)"

text \<open>
  The entries are ranked by deviation, the largest first, ties by value and weight; from the
  front, entries beyond the threshold are flagged while more than \<open>min_keep\<close> remain.
\<close>

definition rank_key :: "int \<Rightarrow> int \<times> int \<Rightarrow> int \<times> int \<times> int" where
  "rank_key median x = (- \<bar>fst x - median\<bar>, fst x, snd x)"

definition ranked :: "int \<Rightarrow> sample list \<Rightarrow> nat list" where
  "ranked median xs = sort_key (\<lambda>i. rank_key median (weighed (xs ! i))) [0..<length xs]"

definition beyond :: "int \<Rightarrow> int \<Rightarrow> int \<Rightarrow> int \<Rightarrow> bool" where
  "beyond threshold mad median v \<longleftrightarrow>
     sat_i128 (\<bar>v - median\<bar> * 10000) > sat_i128 (threshold * mad)"

fun flag_outliers :: "('a \<Rightarrow> bool) \<Rightarrow> nat \<Rightarrow> nat \<Rightarrow> 'a list \<Rightarrow> 'a list" where
  "flag_outliers out min_keep n [] = []"
| "flag_outliers out min_keep n (i # rest) =
     (if n \<le> min_keep then []
      else if out i then i # flag_outliers out min_keep (n - 1) rest else [])"

definition filter_outliers ::
  "symbol \<Rightarrow> sample list \<Rightarrow> 't ov_state \<Rightarrow> (ov_error, sample list) result" where
  "filter_outliers data_type xs s =
     (let config = effective_outlier_config data_type s; n = length xs
      in if \<not> ol_enabled config \<or> n < 3 \<or> int n < ol_min_sample_size config then Inr xs
         else bindR (middle (sort (map sample_value xs))) (\<lambda>median.
         bindR (mapR (\<lambda>x. deviation median (sample_value x)) xs) (\<lambda>deviations.
         bindR (middle (sort deviations)) (\<lambda>mad.
         let min_keep = max (nat (ol_min_sample_size config)) 1;
             flagged = flag_outliers
               (\<lambda>i. beyond (ol_threshold_bps config) mad median (sample_value (xs ! i))) min_keep n
               (ranked median xs)
         in Inr (map ((!) xs) (filter (\<lambda>i. i \<notin> set flagged) [0..<n]))))))"

section \<open>Aggregation methods\<close>

text \<open>
  The running sum is \<^verbatim>\<open>u32\<close>. With no values \<^verbatim>\<open>values[n - 1]\<close> is out of bounds.
\<close>

fun median_loop :: "int \<Rightarrow> int \<Rightarrow> (int \<times> int) list \<Rightarrow> (ov_error, int) result" where
  "median_loop W cumulative [] = trap"
| "median_loop W cumulative ((val, wt) # rest) =
     bindR (u32 (cumulative + wt)) (\<lambda>c.
     if c > W div 2 then Inr val
     else if c = W div 2 \<and> W mod 2 = 0
     then (case rest of [] \<Rightarrow> Inr val | (val', _) # _ \<Rightarrow> bindR (i128 (val + val')) (\<lambda>s. Inr (s sdiv 2)))
     else if rest = [] then Inr val
     else median_loop W c rest)"

definition weighted_median :: "(int \<times> int) list \<Rightarrow> int \<Rightarrow> (ov_error, int) result" where
  "weighted_median values total_weight = median_loop total_weight 0 (sort values)"

definition sat_sum :: "int list \<Rightarrow> int" where
  "sat_sum xs = foldl (\<lambda>sum x. sat_i128 (sum + x)) 0 xs"

definition weighted_average :: "(int \<times> int) list \<Rightarrow> int \<Rightarrow> (ov_error, int) result" where
  "weighted_average values total_weight =
     or_trap (checked_div (sat_sum (map (\<lambda>(val, wt). sat_i128 (val * wt)) values)) total_weight)"

definition mean :: "(int \<times> int) list \<Rightarrow> (ov_error, int) result" where
  "mean values = or_trap (checked_div (sat_sum (map fst values)) (int (length values)))"

text \<open>
  Each value held from its timestamp to the next one, the last until now, for at least a
  second. \<^verbatim>\<open>sort_unstable_by_key\<close> promises no order among equal timestamps; for so few
  elements it is an insertion sort, which keeps their order.
\<close>

fun held :: "int \<Rightarrow> sample list \<Rightarrow> (int \<times> int) list" where
  "held now [] = []"
| "held now ((val, wt, ts) # rest) =
     (let stop = (case rest of [] \<Rightarrow> max now ts | (_, _, ts') # _ \<Rightarrow> ts')
      in (val, sat_i128 (max 1 (sat_u64 (stop - ts)) * wt)) # held now rest)"

definition time_weighted_average :: "env \<Rightarrow> sample list \<Rightarrow> (ov_error, int) result" where
  "time_weighted_average e xs =
     (if length xs = 1 then Inr (sample_value (hd xs))
      else let active = held (timestamp e) (sort_key sample_time xs);
               weighted_sum = sat_sum (map (\<lambda>(val, wd). sat_i128 (val * wd)) active);
               total_weighted_duration = sat_sum (map snd active)
           in if xs = [] then trap
              else if total_weighted_duration = 0 then Inr (fst (last active))
              else or_trap (checked_div weighted_sum total_weighted_duration))"

text \<open>The dispatch by the method of the data type.\<close>

definition aggregate ::
  "env \<Rightarrow> symbol \<Rightarrow> sample list \<Rightarrow> int \<Rightarrow> 't ov_state \<Rightarrow> (ov_error, int) result" where
  "aggregate e data_type xs total_weight s =
     (case effective_aggregation_method data_type s of
        WeightedMedian \<Rightarrow> weighted_median (map weighed xs) total_weight
      | WeightedAverage \<Rightarrow> weighted_average (map weighed xs) total_weight
      | Mean \<Rightarrow> mean (map weighed xs)
      | TimeWeightedAverage \<Rightarrow> time_weighted_average e xs)"

definition calculate_confidence_interval ::
  "(int \<times> int) list \<Rightarrow> int \<Rightarrow> int \<Rightarrow> int \<times> int" where
  "calculate_confidence_interval values total_weight median_value =
     (if values = [] \<or> total_weight = 0 then (median_value, median_value)
      else let n = length values;
               sum_sq = sat_sum (map (\<lambda>(val, _). let d = sat_i128 (val - median_value)
                                                  in sat_i128 (d * d)) values)
           in if sum_sq = 0 \<or> n \<le> 1 then (median_value, median_value)
              else let variance = sum_sq sdiv int n;
                       margin = (if n < 10 then variance sdiv 2
                                 else if n < 50 then variance sdiv 4 else variance sdiv 8)
                   in (sat_i128 (median_value - margin), sat_i128 (median_value + margin)))"

section \<open>Lemmas\<close>

lemma mapR_ok [result_simps]: "mapR f xs = Inr ys \<longleftrightarrow> list_all2 (\<lambda>x y. f x = Inr y) xs ys"
  by (induction xs arbitrary: ys) (auto simp: result_simps list_all2_Cons1)

lemma mapR_total: "(\<And>x. x \<in> set xs \<Longrightarrow> f x = Inr (g x)) \<Longrightarrow> mapR f xs = Inr (map g xs)"
  by (induction xs) simp_all

lemma u32_sum_nonneg:
  assumes "\<forall>w \<in> set ws. 0 \<le> w"
  shows "u32_sum ws = (if sum_list ws \<le> u32_max then Inr (sum_list ws) else trap)"
  using assms
proof (induction ws)
  case Nil
  then show ?case by (simp add: u32_max_def)
next
  case (Cons w ws)
  have "0 \<le> sum_list ws" using Cons.prems by (simp add: sum_list_nonneg)
  then show ?case using Cons by (auto simp: u32_def)
qed

subsection \<open>A majority of the weight decides the median\<close>

definition weight_of :: "(int \<Rightarrow> bool) \<Rightarrow> (int \<times> int) list \<Rightarrow> int" where
  "weight_of P xs = (\<Sum>x\<leftarrow>filter (\<lambda>x. P (fst x)) xs. snd x)"

lemma weight_of_simps [simp]:
  "weight_of P [] = 0"
  "weight_of P (x # xs) = (if P (fst x) then snd x else 0) + weight_of P xs"
  by (simp_all add: weight_of_def)

lemma weight_of_nonneg: "\<forall>x \<in> set xs. 0 \<le> snd x \<Longrightarrow> 0 \<le> weight_of P xs"
  by (induction xs) auto

lemma weight_of_all: "\<forall>x \<in> set xs. P (fst x) \<Longrightarrow> weight_of P xs = sum_list (map snd xs)"
  by (induction xs) auto

lemma weight_of_mset: "mset xs = mset ys \<Longrightarrow> weight_of P xs = weight_of P ys"
proof -
  have "weight_of P zs = sum_mset (image_mset snd (filter_mset (\<lambda>x. P (fst x)) (mset zs)))" for zs
    by (induction zs) simp_all
  then show "mset xs = mset ys \<Longrightarrow> weight_of P xs = weight_of P ys" by simp
qed

lemma weight_of_parts:
  "lo \<le> hi \<Longrightarrow> weight_of (\<lambda>v. v < lo) xs + weight_of (\<lambda>v. lo \<le> v \<and> v \<le> hi) xs
     + weight_of (\<lambda>v. hi < v) xs = sum_list (map snd xs)"
  by (induction xs) auto

lemma half_towards_zero: "x sdiv 2 = (if 0 \<le> x then x div 2 else - (- x div 2))" for x :: int
  by (simp add: signed_divide_int_def sgn_if)

lemma half_sum_between:
  assumes "a \<le> b" "lo \<le> a" "b \<le> (hi::int)"
  shows "lo \<le> (a + b) sdiv 2" "(a + b) sdiv 2 \<le> hi"
proof -
  have "a \<le> (a + b) sdiv 2 \<and> (a + b) sdiv 2 \<le> b"
    unfolding half_towards_zero using assms(1) by presburger
  then show "lo \<le> (a + b) sdiv 2" "(a + b) sdiv 2 \<le> hi" using assms by linarith+
qed

text \<open>Twice a value in this range fits \<^verbatim>\<open>i128\<close>.\<close>

definition moderate :: "int \<Rightarrow> bool" where
  "moderate v \<longleftrightarrow> \<bar>v\<bar> \<le> 2 ^ 126 - 1"

lemma moderate_sum: "moderate a \<Longrightarrow> moderate b \<Longrightarrow> fits_i128 (a + b)"
  by (auto simp: moderate_def num_defs)

lemma median_loop_majority:
  assumes "sorted (map fst xs)" "\<forall>x \<in> set xs. 0 \<le> snd x" "0 \<le> c" "2 * c < T" "T \<le> u32_max"
    and "T = c + sum_list (map snd xs)" "2 * weight_of (\<lambda>v. hi < v) xs < T"
    and "2 * (c + weight_of (\<lambda>v. v < lo) xs) < T \<or> (\<forall>x \<in> set xs. lo \<le> fst x)"
    and "moderate lo" "moderate hi"
  shows "\<exists>m. median_loop T c xs = Inr m \<and> lo \<le> m \<and> m \<le> hi"
  using assms
proof (induction xs arbitrary: c)
  case Nil
  then show ?case by simp
next
  case (Cons x rest)
  obtain v w where x: "x = (v, w)" by (cases x)
  let ?c = "c + w"
  have w: "0 \<le> w" "0 \<le> sum_list (map snd rest)"
    using Cons.prems(2) by (auto simp: x intro!: sum_list_nonneg)
  then have c: "0 \<le> ?c" "?c \<le> u32_max" "T = ?c + sum_list (map snd rest)"
    using Cons.prems(3,5,6) by (auto simp: x)
  have above: "T - c \<le> weight_of (\<lambda>v. hi < v) (x # rest)" if "hi < v"
    using that Cons.prems(1,6) weight_of_all[of "x # rest" "\<lambda>v. hi < v"] by (fastforce simp: x)
  have below: "lo \<le> v" if "T \<le> 2 * ?c"
    using Cons.prems(8) that weight_of_nonneg[of rest "\<lambda>v. v < lo"] Cons.prems(2) by (auto simp: x split: if_splits)
  have v_hi: "v \<le> hi" using above Cons.prems(4,7) by fastforce
  have "?c > T div 2 \<or> (?c = T div 2 \<and> T mod 2 = 0) \<or> 2 * ?c < T" by presburger
  then consider (over) "?c > T div 2" | (half) "?c = T div 2" "T mod 2 = 0" | (under) "2 * ?c < T" by blast
  then show ?case
  proof cases
    case over
    then have "median_loop T c (x # rest) = Inr v" using c by (simp add: x u32_def)
    then show ?thesis using v_hi below over by auto
  next
    case half
    then have T: "T = 2 * ?c" by presburger
    then obtain v' w' rest' where rest: "rest = (v', w') # rest'"
      using Cons.prems(3,4) c(3) w by (cases rest) (auto simp: x)
    have vv: "v \<le> v'" using Cons.prems(1) by (simp add: x rest)
    have "v' \<le> hi"
    proof (rule ccontr)
      assume "\<not> v' \<le> hi"
      then have "weight_of (\<lambda>v. hi < v) rest = T - ?c"
        using Cons.prems(1) c(3) by (subst weight_of_all) (auto simp: x rest)
      then show False using Cons.prems(7) T w(1) by (simp add: x split: if_splits)
    qed
    moreover have "lo \<le> v" using below T by simp
    moreover have "fits_i128 (v + v')"
      using calculation vv Cons.prems(9,10) by (auto simp: moderate_def num_defs)
    moreover have "median_loop T c (x # rest) = bindR (i128 (v + v')) (\<lambda>s. Inr (s sdiv 2))"
      using half c by (simp add: x rest u32_def)
    ultimately show ?thesis using half_sum_between[OF vv] by auto
  next
    case under
    then have "rest \<noteq> []" using c(3) w Cons.prems(3,4) by auto
    then have "median_loop T c (x # rest) = median_loop T ?c rest" using under c by (auto simp: x u32_def)
    moreover have "2 * (?c + weight_of (\<lambda>v. v < lo) rest) < T \<or> (\<forall>x \<in> set rest. lo \<le> fst x)"
      using Cons.prems(1,8) by (cases "v < lo") (force simp: x)+
    moreover have "2 * weight_of (\<lambda>v. hi < v) rest < T" using Cons.prems(7) w(1) by (simp add: x split: if_splits)
    ultimately show ?thesis
      using Cons.IH[of ?c] Cons.prems(1,2,5,9,10) c under by (simp add: x)
  qed
qed

lemma weighted_median_majority:
  assumes "\<forall>x \<in> set xs. 0 \<le> snd x" "sum_list (map snd xs) \<le> u32_max" "lo \<le> hi" "moderate lo" "moderate hi"
    and "sum_list (map snd xs) < 2 * weight_of (\<lambda>v. lo \<le> v \<and> v \<le> hi) xs"
  shows "\<exists>m. weighted_median xs (sum_list (map snd xs)) = Inr m \<and> lo \<le> m \<and> m \<le> hi"
proof -
  let ?T = "sum_list (map snd xs)"
  have sum: "sum_list (map snd (sort xs)) = ?T" 
    using weight_of_mset[of "sort xs" xs "\<lambda>_. True"] by (simp add: weight_of_all)
  have w: "weight_of P (sort xs) = weight_of P xs" for P by (rule weight_of_mset) simp
  have nonneg: "0 \<le> weight_of P xs" for P using weight_of_nonneg[OF assms(1)] .
  have "sorted (map fst (sort xs))"
    unfolding sorted_map
    by (rule sorted_wrt_mono_rel[OF _ sorted_sort[of xs]]) (auto simp: less_eq_prod_def)
  then show ?thesis unfolding weighted_median_def
    using assms weight_of_parts[OF assms(3), of xs] nonneg[of "\<lambda>v. v < lo"] nonneg[of "\<lambda>v. hi < v"]
    by (intro median_loop_majority) (auto simp: w sum)
qed

subsection \<open>The order of the readings does not matter\<close>

lemma sort_mset: "mset xs = mset ys \<Longrightarrow> sort xs = sort ys"
  by (rule properties_for_sort) simp_all

lemma weighted_median_mset: "mset xs = mset ys \<Longrightarrow> weighted_median xs n = weighted_median ys n"
  unfolding weighted_median_def by (metis sort_mset)

lemma deviation_eq:
  "deviation m v = (if fits_i128 (v - m) \<and> fits_i128 \<bar>v - m\<bar> then Inr \<bar>v - m\<bar> else trap)"
  by (simp add: deviation_def i128_def)

lemma mapR_trap:
  assumes "\<And>x. f x = (if P x then Inr (g x) else trap)"
  shows "mapR f xs = (if \<forall>x \<in> set xs. P x then Inr (map g xs) else trap)"
  by (induction xs) (simp_all add: assms)

lemma flag_outliers_map:
  "map f (flag_outliers (\<lambda>i. out (f i)) k n js) = flag_outliers out k n (map f js)"
  by (induction js arbitrary: n) simp_all

lemma flag_outliers_prefix: "\<exists>m. flag_outliers out k n js = take m js"
proof (induction js arbitrary: n)
  case (Cons j js)
  obtain m where "flag_outliers out k (n - 1) js = take m js" using Cons.IH by blast
  then show ?case by (auto intro: exI[of _ 0] exI[of _ "Suc m"])
qed simp

lemma flag_outliers_count: "length (flag_outliers out k n js) \<le> n - k"
proof (induction js arbitrary: n)
  case (Cons j js)
  then show ?case using Cons.IH[of "n - 1"] by auto
qed simp

lemma ranked_perm: "mset (ranked m xs) = mset [0..<length xs]" "distinct (ranked m xs)"
  "set (ranked m xs) = {..<length xs}"
  by (auto simp: ranked_def)

lemma rank_key_inj: "inj_on (rank_key m) A"
  by (auto simp: inj_on_def rank_key_def)

lemma ranked_weighed:
  "map (\<lambda>i. weighed (xs ! i)) (ranked m xs) = sort_key (rank_key m) (map weighed xs)"
proof (rule sym, rule sort_key_inj_key_eq)
  have "map (\<lambda>i. weighed (xs ! i)) [0..<length xs] = map weighed xs"
    by (rule nth_equalityI) simp_all
  then show "mset (map weighed xs) = mset (map (\<lambda>i. weighed (xs ! i)) (ranked m xs))"
    by (metis mset_map ranked_perm(1))
  show "sorted (map (rank_key m) (map (\<lambda>i. weighed (xs ! i)) (ranked m xs)))"
    unfolding ranked_def map_map comp_def by (rule sorted_sort_key)
qed (rule rank_key_inj)

lemma mset_filter_notin:
  assumes "distinct js" "distinct fs" "set fs \<subseteq> set js"
  shows "mset (filter (\<lambda>i. i \<notin> set fs) js) = mset js - mset fs"
proof -
  have "mset (filter (\<lambda>i. i \<notin> set fs) js) = mset_set (set js - set fs)"
    using assms(1) by (metis distinct_filter mset_set_set set_filter set_diff_eq)
  also have "\<dots> = mset js - mset fs"
    using assms by (simp add: mset_set_Diff mset_set_set)
  finally show ?thesis .
qed

lemma survivors_weighed:
  assumes fl_def: "fl = flag_outliers (\<lambda>i. out (weighed (xs ! i))) k n (ranked m xs)"
  shows "mset (map weighed (map ((!) xs) (filter (\<lambda>i. i \<notin> set fl) [0..<length xs])))
    = mset (map weighed xs) - mset (flag_outliers out k n (sort_key (rank_key m) (map weighed xs)))"
proof -
  obtain j where fl: "fl = take j (ranked m xs)" using flag_outliers_prefix unfolding fl_def by blast
  have fs: "distinct fl" "set fl \<subseteq> set [0..<length xs]"
    using ranked_perm[of m xs] set_take_subset[of j "ranked m xs"] by (auto simp: fl)
  have "mset fl \<subseteq># mset [0..<length xs]"
    using fs by (metis distinct_upt mset_set_set subset_imp_msubset_mset_set finite_set)
  then have "mset (map (\<lambda>i. weighed (xs ! i)) (filter (\<lambda>i. i \<notin> set fl) [0..<length xs]))
      = mset (map (\<lambda>i. weighed (xs ! i)) [0..<length xs]) - mset (map (\<lambda>i. weighed (xs ! i)) fl)"
    by (simp only: mset_map mset_filter_notin[OF distinct_upt fs] image_mset_Diff)
  moreover have "map (\<lambda>i. weighed (xs ! i)) [0..<length xs] = map weighed xs"
    by (rule nth_equalityI) simp_all
  moreover have "map (\<lambda>i. weighed (xs ! i)) fl
      = flag_outliers out k n (sort_key (rank_key m) (map weighed xs))"
    unfolding fl_def flag_outliers_map[where f = "\<lambda>i. weighed (xs ! i)" and out = out] ranked_weighed ..
  ultimately show ?thesis by (simp add: comp_def)
qed

text \<open>What remains after outlier rejection, as a multiset of values and weights.\<close>

definition remaining ::
  "(ov_error, sample list) result \<Rightarrow> (ov_error, (int \<times> int) multiset) result" where
  "remaining r = map_sum id (\<lambda>xs. mset (map weighed xs)) r"

lemma filter_outliers_mset:
  assumes "mset (map weighed xs) = mset (map weighed ys)"
  shows "remaining (filter_outliers dt xs s) = remaining (filter_outliers dt ys s)"
proof -
  have len: "length xs = length ys" using mset_eq_length[OF assms] by simp
  have vals: "mset (map f (map weighed xs)) = mset (map f (map weighed ys))" for f :: "int \<times> int \<Rightarrow> int"
    using assms by (simp only: mset_map)
  have v: "sample_value = fst \<circ> weighed" by (simp add: fun_eq_iff sample_defs)
  have sorted_vals: "sort (map sample_value xs) = sort (map sample_value ys)"
    by (rule sort_mset) (use vals[of fst] in \<open>simp add: v\<close>)
  have devs: "mset (map (\<lambda>x. \<bar>sample_value x - m\<bar>) xs) = mset (map (\<lambda>x. \<bar>sample_value x - m\<bar>) ys)" for m
    using vals[of "\<lambda>x. \<bar>fst x - m\<bar>"] by (simp add: comp_def sample_defs)
  have vset: "sample_value ` set xs = sample_value ` set ys"
    using arg_cong[OF vals[of fst], of set_mset] by (simp add: v image_comp)
  then have fits: "(\<forall>x \<in> set xs. P (sample_value x)) = (\<forall>x \<in> set ys. P (sample_value x))" for P
    by (metis (no_types, lifting) imageE imageI)
  have ranks: "sort_key (rank_key m) (map weighed xs) = sort_key (rank_key m) (map weighed ys)" for m
    by (rule sort_key_inj_key_eq) (simp_all add: assms rank_key_inj flip: mset_map)
  have survive: "mset (map weighed (map ((!) xs) (filter (\<lambda>i. i \<notin> set
        (flag_outliers (\<lambda>i. beyond thr mad m (sample_value (xs ! i))) k (length xs) (ranked m xs))) [0..<length xs])))
      = mset (map weighed (map ((!) ys) (filter (\<lambda>i. i \<notin> set
        (flag_outliers (\<lambda>i. beyond thr mad m (sample_value (ys ! i))) k (length ys) (ranked m ys))) [0..<length ys])))"
    for thr mad m k
    using survivors_weighed[OF refl, of xs "\<lambda>x. beyond thr mad m (fst x)" k "length xs" m]
      survivors_weighed[OF refl, of ys "\<lambda>x. beyond thr mad m (fst x)" k "length ys" m] assms len ranks[of m]
    by (simp add: sample_defs)
  have dev: "mapR (\<lambda>x. deviation m (sample_value x)) zs = (if \<forall>x \<in> set zs. fits_i128 (sample_value x - m)
      \<and> fits_i128 \<bar>sample_value x - m\<bar> then Inr (map (\<lambda>x. \<bar>sample_value x - m\<bar>) zs) else trap)" for m zs
    by (rule mapR_trap) (rule deviation_eq)
  have ok: "(\<forall>x \<in> set xs. fits_i128 (sample_value x - m) \<and> fits_i128 \<bar>sample_value x - m\<bar>)
      = (\<forall>x \<in> set ys. fits_i128 (sample_value x - m) \<and> fits_i128 \<bar>sample_value x - m\<bar>)" for m
    by (rule fits)
  have step: "remaining (bindR (mapR (\<lambda>x. deviation m (sample_value x)) xs) (\<lambda>d. bindR (middle (sort d)) F))
      = remaining (bindR (mapR (\<lambda>x. deviation m (sample_value x)) ys) (\<lambda>d. bindR (middle (sort d)) G))"
    if "\<And>mad. remaining (F mad) = remaining (G mad)" for m F G
    unfolding dev ok using sort_mset[OF devs, of m]
    by (cases "middle (sort (map (\<lambda>x. \<bar>sample_value x - m\<bar>) ys))") (simp_all add: that)
  have bind: "remaining (bindR r F) = remaining (bindR r G)" if "\<And>m. remaining (F m) = remaining (G m)"
    for r :: "(ov_error, int) result" and F G
    by (cases r) (simp_all add: that)
  have kept: "remaining (Inr us) = remaining (Inr vs)" if "mset (map weighed us) = mset (map weighed vs)" for us vs
    using that by (simp add: remaining_def)
  have branch: "remaining (if c then Inr xs else A) = remaining (if c then Inr ys else B)"
    if "remaining A = remaining B" for c A B
    using that kept[OF assms] by simp
  show ?thesis
    unfolding filter_outliers_def Let_def sorted_vals len
    by (intro branch bind step kept survive[unfolded len])
qed

text \<open>Outlier rejection keeps at least the minimum sample.\<close>

lemma filter_outliers_keeps:
  assumes "filter_outliers dt xs s = Inr ys"
  shows "mset (map weighed ys) \<subseteq># mset (map weighed xs)" "set ys \<subseteq> set xs"
    "min (length xs) (nat (ol_min_sample_size (effective_outlier_config dt s))) \<le> length ys"
proof -
  let ?k = "max (nat (ol_min_sample_size (effective_outlier_config dt s))) 1"
  consider (all) "ys = xs" | (cut) out m fl where
      "fl = flag_outliers (\<lambda>i. out (weighed (xs ! i))) ?k (length xs) (ranked m xs)"
      "ys = map ((!) xs) (filter (\<lambda>i. i \<notin> set fl) [0..<length xs])"
  proof (cases "\<not> ol_enabled (effective_outlier_config dt s) \<or> length xs < 3
      \<or> int (length xs) < ol_min_sample_size (effective_outlier_config dt s)")
    case True
    then have "ys = xs" using assms by (simp only: filter_outliers_def Let_def if_True) simp
    then show ?thesis by (rule all)
  next
    case False
    then obtain m mad where "ys = map ((!) xs) (filter (\<lambda>i. i \<notin> set (flag_outliers
        (\<lambda>i. beyond (ol_threshold_bps (effective_outlier_config dt s)) mad m (fst (weighed (xs ! i)))) ?k
        (length xs) (ranked m xs))) [0..<length xs])"
      using assms unfolding filter_outliers_def Let_def
      by (simp add: bindR_eq_Inr sample_defs) blast
    then show ?thesis by (rule cut[OF refl])
  qed
  then have "mset (map weighed ys) \<subseteq># mset (map weighed xs) \<and> set ys \<subseteq> set xs
    \<and> min (length xs) ?k \<le> length ys"
  proof cases
    case cut
    have sub: "mset (map weighed ys) = mset (map weighed xs)
        - mset (flag_outliers out ?k (length xs) (sort_key (rank_key m) (map weighed xs)))" (is "_ = _ - mset ?fl")
      using survivors_weighed[OF cut(1)] by (simp add: cut(2))
    have "length xs - length ?fl \<le> length ys"
      using arg_cong[OF sub, of size] diff_size_le_size_Diff[of "mset (map weighed xs)" "mset ?fl"]
      by simp
    then have "min (length xs) ?k \<le> length ys"
      using flag_outliers_count[of out ?k "length xs" "sort_key (rank_key m) (map weighed xs)"] by linarith
    then show ?thesis using sub by (auto simp: cut(2))
  qed simp
  then show "mset (map weighed ys) \<subseteq># mset (map weighed xs)" "set ys \<subseteq> set xs"
    "min (length xs) (nat (ol_min_sample_size (effective_outlier_config dt s))) \<le> length ys" by auto
qed

end
