(* ===== verification/OV_Registry.thy ===== *)
theory OV_Registry
  imports OV_State
begin

text \<open>
  The administration of the oracle verifier: registration of oracles, pausing and offline
  detection, the settings of a data type, the guardians, the transfer of the admin role and
  upgrades (\<^verbatim>\<open>lib.rs\<close>, "Lifecycle" to "Cross-Validation", "Guardian Multisig").
\<close>

section \<open>Lifecycle\<close>

definition ov_initialize :: "env \<Rightarrow> address \<Rightarrow> 't ov_state \<Rightarrow> (ov_error, 't ov_state) result" where
  "ov_initialize e admin s =
     (if ov_initialized s then panic VAlreadyInitialized
      else bindR (ov_validate_stellar_address admin) (\<lambda>_.
      bindR (require_auth e admin) (\<lambda>_.
      Inr (ov_publish (OvInitialized admin) (s\<lparr>ov_initialized := True, ov_admin := Some admin\<rparr>)))))"

section \<open>Oracles\<close>

text \<open>The registration with the registrations of the data type after it.\<close>

definition enter_oracle :: "address \<Rightarrow> symbol \<Rightarrow> int \<Rightarrow> 't ov_state \<Rightarrow> (ov_error, 't ov_state) result" where
  "enter_oracle orc data_type weight s =
     (let s1 = s\<lparr>ov_oracle := (ov_oracle s)((data_type, orc) \<mapsto>
                 \<lparr>oe_oracle = orc, oe_data_type = data_type, oe_weight = weight, oe_active = True\<rparr>)\<rparr>;
          listed = oracles_of data_type s1
      in if orc \<in> set listed then Inr s1
         else if int (length listed) \<ge> MAX_ORACLES then panic TooManyOracles
         else Inr (s1\<lparr>ov_oracle_list := (ov_oracle_list s1)(data_type \<mapsto> listed @ [orc])\<rparr>))"

definition add_oracle ::
  "env \<Rightarrow> address \<Rightarrow> address \<Rightarrow> symbol \<Rightarrow> int \<Rightarrow> 't ov_state \<Rightarrow> (ov_error, 't ov_state) result" where
  "add_oracle e admin orc data_type weight s =
     bindR (ov_require_admin e admin s) (\<lambda>_.
     bindR (ov_validate_contract_address orc) (\<lambda>_.
     if weight = 0 \<or> weight > MAX_WEIGHT then panic InvalidWeight
     else bindR (validate_symbol_len data_type) (\<lambda>_.
     if ov_oracle s (data_type, orc) \<noteq> None then panic OracleAlreadyExists
     else if ov_global_oracle s orc \<noteq> None then panic OracleAlreadyExists
     else let s1 = s\<lparr>ov_global_oracle := (ov_global_oracle s)(orc \<mapsto> True)\<rparr>;
              min_stake = unwrap_or 0 (ov_min_stake s1);
              staked = unwrap_or 0 (ov_stake_amt s1 (data_type, orc))
     in if int (length (oracles_of data_type s1)) \<ge> MAX_ORACLES_PER_KEY then panic TooManyOracles
        else if min_stake > 0 \<and> (staked \<le> 0 \<or> staked < min_stake) then panic InsufficientStake
        else bindR (enter_oracle orc data_type weight s1) (\<lambda>s2.
        Inr (ov_publish (OvOracleAdded orc data_type weight) s2)))))"

definition update_oracle_weight ::
  "env \<Rightarrow> address \<Rightarrow> address \<Rightarrow> symbol \<Rightarrow> int \<Rightarrow> 't ov_state \<Rightarrow> (ov_error, 't ov_state) result" where
  "update_oracle_weight e admin orc data_type weight s =
     bindR (ov_require_admin e admin s) (\<lambda>_.
     if weight = 0 \<or> weight > MAX_WEIGHT then panic InvalidWeight
     else bindR (or_panic OracleNotRegistered (ov_oracle s (data_type, orc))) (\<lambda>entry.
     Inr (s\<lparr>ov_oracle := (ov_oracle s)((data_type, orc) \<mapsto> entry\<lparr>oe_weight := weight\<rparr>)\<rparr>)))"

definition drop_from_list :: "symbol \<Rightarrow> address \<Rightarrow> 't ov_state \<Rightarrow> 't ov_state" where
  "drop_from_list data_type orc s =
     s\<lparr>ov_oracle_list := (ov_oracle_list s)(data_type \<mapsto>
         filter (\<lambda>a. a \<noteq> orc) (oracles_of data_type s))\<rparr>"

definition deactivate_oracle :: "symbol \<Rightarrow> address \<Rightarrow> 't ov_state \<Rightarrow> (ov_error, 't ov_state) result" where
  "deactivate_oracle data_type orc s =
     bindR (or_panic OracleNotRegistered (ov_oracle s (data_type, orc))) (\<lambda>entry.
     Inr (let s1 = drop_from_list data_type orc
                     (s\<lparr>ov_oracle := (ov_oracle s)((data_type, orc) \<mapsto> entry\<lparr>oe_active := False\<rparr>)\<rparr>)
          in s1\<lparr>ov_global_oracle := (ov_global_oracle s1)(orc := None)\<rparr>))"

definition remove_oracle ::
  "env \<Rightarrow> address \<Rightarrow> address \<Rightarrow> symbol \<Rightarrow> 't ov_state \<Rightarrow> (ov_error, 't ov_state) result" where
  "remove_oracle e admin orc data_type s =
     bindR (ov_require_admin e admin s) (\<lambda>_.
     bindR (deactivate_oracle data_type orc s) (\<lambda>s1.
     Inr (ov_publish (OvOracleRemoved orc data_type) s1)))"

definition is_oracle_registered :: "address \<Rightarrow> 't ov_state \<Rightarrow> bool" where
  "is_oracle_registered orc s \<longleftrightarrow> ov_global_oracle s orc \<noteq> None"

definition pause_data_type :: "env \<Rightarrow> address \<Rightarrow> symbol \<Rightarrow> 't ov_state \<Rightarrow> (ov_error, 't ov_state) result" where
  "pause_data_type e admin data_type s =
     bindR (ov_require_admin e admin s) (\<lambda>_.
     Inr (ov_publish (OvDataTypePaused data_type)
       (s\<lparr>ov_data_type_paused := (ov_data_type_paused s)(data_type \<mapsto> True)\<rparr>)))"

definition resume_data_type :: "env \<Rightarrow> address \<Rightarrow> symbol \<Rightarrow> 't ov_state \<Rightarrow> (ov_error, 't ov_state) result" where
  "resume_data_type e admin data_type s =
     bindR (ov_require_admin e admin s) (\<lambda>_.
     Inr (ov_publish (OvDataTypeResumed data_type)
       (s\<lparr>ov_data_type_paused := (ov_data_type_paused s)(data_type \<mapsto> False)\<rparr>)))"

definition is_data_type_paused :: "symbol \<Rightarrow> 't ov_state \<Rightarrow> bool" where
  "is_data_type_paused data_type s = unwrap_or False (ov_data_type_paused s data_type)"

section \<open>Offline detection\<close>

definition set_oracle_inactivity_limit ::
  "env \<Rightarrow> address \<Rightarrow> int \<Rightarrow> 't ov_state \<Rightarrow> (ov_error, 't ov_state) result" where
  "set_oracle_inactivity_limit e admin seconds s =
     bindR (ov_require_admin e admin s) (\<lambda>_.
     Inr (ov_publish (OvOracleInactivityLimitUpdated seconds) (s\<lparr>ov_inactivity_limit := Some seconds\<rparr>)))"

definition get_oracle_inactivity_limit :: "'t ov_state \<Rightarrow> int" where
  "get_oracle_inactivity_limit s = inactivity_limit s"

definition is_oracle_offline :: "env \<Rightarrow> address \<Rightarrow> symbol \<Rightarrow> 't ov_state \<Rightarrow> bool" where
  "is_oracle_offline e orc data_type s = oracle_offline e data_type orc s"

primrec deactivate_offline ::
  "env \<Rightarrow> symbol \<Rightarrow> address list \<Rightarrow> 't ov_state \<Rightarrow> (ov_error, address list \<times> 't ov_state) result" where
  "deactivate_offline e data_type [] s = Inr ([], s)"
| "deactivate_offline e data_type (orc # rest) s =
     (if oracle_offline e data_type orc s
      then bindR (deactivate_oracle data_type orc s) (\<lambda>s1.
           bindR (deactivate_offline e data_type rest
                    (ov_publish (OvOracleAutoDeactivated orc data_type) s1)) (\<lambda>(deactivated, s2).
           Inr (orc # deactivated, s2)))
      else deactivate_offline e data_type rest s)"

definition deactivate_inactive_oracles ::
  "env \<Rightarrow> symbol \<Rightarrow> 't ov_state \<Rightarrow> (ov_error, address list \<times> 't ov_state) result" where
  "deactivate_inactive_oracles e data_type s = deactivate_offline e data_type (oracles_of data_type s) s"

section \<open>Settings\<close>

definition set_min_confidence :: "env \<Rightarrow> address \<Rightarrow> int \<Rightarrow> 't ov_state \<Rightarrow> (ov_error, 't ov_state) result" where
  "set_min_confidence e admin threshold s =
     bindR (ov_require_admin e admin s) (\<lambda>_.
     if threshold > 100 then panic InvalidConfidence
     else Inr (ov_publish (OvMinConfidenceUpdated threshold) (s\<lparr>ov_min_confidence := Some threshold\<rparr>)))"

definition set_max_data_age :: "env \<Rightarrow> address \<Rightarrow> int \<Rightarrow> 't ov_state \<Rightarrow> (ov_error, 't ov_state) result" where
  "set_max_data_age e admin max_age s =
     bindR (ov_require_admin e admin s) (\<lambda>_.
     Inr (ov_publish (OvMaxDataAgeUpdated max_age) (s\<lparr>ov_max_data_age := Some max_age\<rparr>)))"

definition get_max_data_age :: "'t ov_state \<Rightarrow> int" where
  "get_max_data_age s = unwrap_or 604800 (ov_max_data_age s)"

definition set_max_timestamp_age :: "env \<Rightarrow> address \<Rightarrow> int \<Rightarrow> 't ov_state \<Rightarrow> (ov_error, 't ov_state) result" where
  "set_max_timestamp_age e admin max_timestamp_age s =
     bindR (ov_require_admin e admin s) (\<lambda>_.
     Inr (ov_publish (OvMaxTimestampAgeUpdated max_timestamp_age)
       (s\<lparr>ov_max_timestamp_age := Some max_timestamp_age\<rparr>)))"

definition get_max_timestamp_age :: "'t ov_state \<Rightarrow> int" where
  "get_max_timestamp_age s = unwrap_or (90 * 24 * 60 * 60) (ov_max_timestamp_age s)"

definition set_timestamp_future_buffer ::
  "env \<Rightarrow> address \<Rightarrow> int \<Rightarrow> 't ov_state \<Rightarrow> (ov_error, 't ov_state) result" where
  "set_timestamp_future_buffer e admin seconds s =
     bindR (ov_require_admin e admin s) (\<lambda>_.
     Inr (ov_publish (OvTimestampFutureBufferUpdated seconds)
       (s\<lparr>ov_timestamp_future_buffer := Some seconds\<rparr>)))"

definition get_timestamp_future_buffer :: "'t ov_state \<Rightarrow> int" where
  "get_timestamp_future_buffer s = unwrap_or 60 (ov_timestamp_future_buffer s)"

definition set_data_type_max_age ::
  "env \<Rightarrow> address \<Rightarrow> symbol \<Rightarrow> int \<Rightarrow> 't ov_state \<Rightarrow> (ov_error, 't ov_state) result" where
  "set_data_type_max_age e admin data_type max_age s =
     bindR (ov_require_admin e admin s) (\<lambda>_.
     Inr (ov_publish (OvDataTypeMaxAgeUpdated data_type max_age)
       (s\<lparr>ov_data_type_max_age := (ov_data_type_max_age s)
            (data_type := (if max_age = 0 then None else Some max_age))\<rparr>)))"

definition get_data_type_max_age :: "symbol \<Rightarrow> 't ov_state \<Rightarrow> int" where
  "get_data_type_max_age data_type s = effective_max_age data_type s"

definition set_aggregation_method ::
  "env \<Rightarrow> address \<Rightarrow> symbol \<Rightarrow> aggregation_method \<Rightarrow> 't ov_state \<Rightarrow> (ov_error, 't ov_state) result" where
  "set_aggregation_method e admin data_type m s =
     bindR (ov_require_admin e admin s) (\<lambda>_.
     Inr (ov_publish (OvAggregationMethodUpdated data_type m)
       (s\<lparr>ov_aggregation_method := (ov_aggregation_method s)(data_type \<mapsto> m)\<rparr>)))"

definition get_aggregation_method :: "symbol \<Rightarrow> 't ov_state \<Rightarrow> aggregation_method" where
  "get_aggregation_method data_type s = effective_aggregation_method data_type s"

definition set_outlier_config ::
  "env \<Rightarrow> address \<Rightarrow> symbol \<Rightarrow> bool \<Rightarrow> int \<Rightarrow> int \<Rightarrow> 't ov_state \<Rightarrow> (ov_error, 't ov_state) result" where
  "set_outlier_config e admin data_type enabled threshold_bps min_sample_size s =
     bindR (ov_require_admin e admin s) (\<lambda>_.
     if threshold_bps = 0 \<or> min_sample_size < 3 then panic InvalidOutlierConfig
     else Inr (ov_publish (OvOutlierConfigUpdated data_type enabled threshold_bps min_sample_size)
       (s\<lparr>ov_outlier_config := (ov_outlier_config s)(data_type \<mapsto>
            \<lparr>ol_enabled = enabled, ol_threshold_bps = threshold_bps,
             ol_min_sample_size = min_sample_size\<rparr>)\<rparr>)))"

definition get_outlier_config :: "symbol \<Rightarrow> 't ov_state \<Rightarrow> outlier_config" where
  "get_outlier_config data_type s = effective_outlier_config data_type s"

definition set_data_type_range ::
  "env \<Rightarrow> address \<Rightarrow> symbol \<Rightarrow> int \<Rightarrow> int \<Rightarrow> 't ov_state \<Rightarrow> (ov_error, 't ov_state) result" where
  "set_data_type_range e admin data_type mn mx s =
     bindR (ov_require_admin e admin s) (\<lambda>_.
     if mn < 0 \<or> mx < 0 then panic VInvalidInput
     else if mn > mx then panic VInvalidInput
     else if mx > MAX_DATA_VALUE then panic VInvalidInput
     else Inr (ov_publish (OvDataTypeRangeUpdated data_type mn mx)
       (s\<lparr>ov_data_type_range := (ov_data_type_range s)
            (data_type := (if mn = 0 \<and> mx = 0 then None else Some (mn, mx)))\<rparr>)))"

definition get_data_type_range :: "symbol \<Rightarrow> 't ov_state \<Rightarrow> (int \<times> int) option" where
  "get_data_type_range data_type s = ov_data_type_range s data_type"

definition set_min_oracle_count :: "env \<Rightarrow> address \<Rightarrow> int \<Rightarrow> 't ov_state \<Rightarrow> (ov_error, 't ov_state) result" where
  "set_min_oracle_count e admin min_count s =
     bindR (ov_require_admin e admin s) (\<lambda>_.
     if min_count = 0 then panic VInvalidThreshold
     else Inr (ov_publish (OvMinOracleCountUpdated min_count) (s\<lparr>ov_min_oracle_count := Some min_count\<rparr>)))"

definition get_min_oracle_count :: "'t ov_state \<Rightarrow> int" where
  "get_min_oracle_count s = unwrap_or 1 (ov_min_oracle_count s)"

definition set_data_type_min_oracle_count ::
  "env \<Rightarrow> address \<Rightarrow> symbol \<Rightarrow> int \<Rightarrow> 't ov_state \<Rightarrow> (ov_error, 't ov_state) result" where
  "set_data_type_min_oracle_count e admin data_type min_count s =
     bindR (ov_require_admin e admin s) (\<lambda>_.
     Inr (ov_publish (OvDataTypeMinOracleCountUpdated data_type min_count)
       (s\<lparr>ov_data_type_min_oracle_count := (ov_data_type_min_oracle_count s)
            (data_type := (if min_count = 0 then None else Some min_count))\<rparr>)))"

definition get_data_type_min_oracle_count :: "symbol \<Rightarrow> 't ov_state \<Rightarrow> int" where
  "get_data_type_min_oracle_count data_type s = effective_min_oracle_count data_type s"

definition set_consensus_threshold ::
  "env \<Rightarrow> address \<Rightarrow> symbol \<Rightarrow> int \<Rightarrow> 't ov_state \<Rightarrow> (ov_error, 't ov_state) result" where
  "set_consensus_threshold e admin data_type agreement_threshold_bps s =
     bindR (ov_require_admin e admin s) (\<lambda>_.
     if agreement_threshold_bps > 10000 then panic VInvalidInput
     else Inr (ov_publish (OvConsensusThresholdUpdated data_type agreement_threshold_bps)
       (s\<lparr>ov_consensus_threshold := (ov_consensus_threshold s)(data_type \<mapsto>
            \<lparr>ct_data_type = data_type, ct_agreement_threshold_bps = agreement_threshold_bps\<rparr>)\<rparr>)))"

definition get_consensus_threshold :: "symbol \<Rightarrow> 't ov_state \<Rightarrow> consensus_threshold" where
  "get_consensus_threshold data_type s =
     unwrap_or \<lparr>ct_data_type = data_type, ct_agreement_threshold_bps = 5000\<rparr>
       (ov_consensus_threshold s data_type)"

definition set_min_submit_interval :: "env \<Rightarrow> address \<Rightarrow> int \<Rightarrow> 't ov_state \<Rightarrow> (ov_error, 't ov_state) result" where
  "set_min_submit_interval e admin seconds s =
     bindR (ov_require_admin e admin s) (\<lambda>_.
     if seconds = 0 then panic VInvalidInput
     else Inr (ov_publish (OvMinSubmitIntervalUpdated seconds) (s\<lparr>ov_min_submit_interval := Some seconds\<rparr>)))"

definition get_min_submit_interval :: "'t ov_state \<Rightarrow> int" where
  "get_min_submit_interval s = unwrap_or DEFAULT_MIN_SUBMIT_INTERVAL (ov_min_submit_interval s)"

definition set_encryption_required ::
  "env \<Rightarrow> address \<Rightarrow> symbol \<Rightarrow> bool \<Rightarrow> 't ov_state \<Rightarrow> (ov_error, 't ov_state) result" where
  "set_encryption_required e admin data_type required s =
     bindR (ov_require_admin e admin s) (\<lambda>_.
     Inr (ov_publish (OvEncryptionRequiredUpdated data_type required)
       (s\<lparr>ov_encryption_required := (ov_encryption_required s)(data_type \<mapsto> required)\<rparr>)))"

definition get_encryption_required :: "symbol \<Rightarrow> 't ov_state \<Rightarrow> bool" where
  "get_encryption_required data_type s = encryption_required data_type s"

definition set_oracle_geo_weight ::
  "env \<Rightarrow> address \<Rightarrow> address \<Rightarrow> symbol \<Rightarrow> symbol \<Rightarrow> int \<Rightarrow> 't ov_state \<Rightarrow> (ov_error, 't ov_state) result" where
  "set_oracle_geo_weight e admin orc data_type region geo_weight_bps s =
     bindR (ov_require_admin e admin s) (\<lambda>_.
     if geo_weight_bps = 0 then panic InvalidConfidence
     else Inr (ov_publish (OvGeoWeightUpdated orc data_type region geo_weight_bps)
       (s\<lparr>ov_geo_weight := (ov_geo_weight s)((data_type, orc, region) \<mapsto> geo_weight_bps)\<rparr>)))"

definition get_oracle_geo_weight :: "address \<Rightarrow> symbol \<Rightarrow> symbol \<Rightarrow> 't ov_state \<Rightarrow> int" where
  "get_oracle_geo_weight orc data_type region s = unwrap_or 10000 (ov_geo_weight s (data_type, orc, region))"

definition get_oracles :: "symbol \<Rightarrow> 't ov_state \<Rightarrow> address list" where
  "get_oracles data_type s = unwrap_or [] (ov_oracle_list s data_type)"

definition ov_get_admin :: "'t ov_state \<Rightarrow> (ov_error, address) result" where
  "ov_get_admin s = or_panic VNotInitialized (ov_admin s)"

section \<open>Cross-validation rules\<close>

definition cross_targets :: "symbol \<Rightarrow> 't ov_state \<Rightarrow> symbol list" where
  "cross_targets source_type s = unwrap_or [] (ov_cross_validation_targets s source_type)"

definition set_cross_validation_rule ::
  "env \<Rightarrow> address \<Rightarrow> symbol \<Rightarrow> symbol \<Rightarrow> int \<Rightarrow> string \<Rightarrow> 't ov_state \<Rightarrow> (ov_error, 't ov_state) result" where
  "set_cross_validation_rule e admin source_type target_type max_variance description s =
     bindR (ov_require_admin e admin s) (\<lambda>_.
     if max_variance < 0 then panic VInvalidInput
     else if source_type = target_type then panic VInvalidInput
     else let s1 = s\<lparr>ov_cross_validation_rule :=
                (ov_cross_validation_rule s)((source_type, target_type) \<mapsto>
                  \<lparr>cv_source_type = source_type, cv_target_type = target_type,
                   cv_max_variance = max_variance, cv_description = description\<rparr>)\<rparr>;
              targets = cross_targets source_type s1;
              s2 = (if target_type \<in> set targets then s1
                    else s1\<lparr>ov_cross_validation_targets :=
                      (ov_cross_validation_targets s1)(source_type \<mapsto> targets @ [target_type])\<rparr>)
     in Inr (ov_publish (OvCrossValidationRuleAdded source_type target_type max_variance) s2))"

definition remove_cross_validation_rule ::
  "env \<Rightarrow> address \<Rightarrow> symbol \<Rightarrow> symbol \<Rightarrow> 't ov_state \<Rightarrow> (ov_error, 't ov_state) result" where
  "remove_cross_validation_rule e admin source_type target_type s =
     bindR (ov_require_admin e admin s) (\<lambda>_.
     if ov_cross_validation_rule s (source_type, target_type) = None then panic VInvalidInput
     else Inr (ov_publish (OvCrossValidationRuleRemoved source_type target_type)
       (s\<lparr>ov_cross_validation_rule :=
            (ov_cross_validation_rule s)((source_type, target_type) := None),
          ov_cross_validation_targets := (ov_cross_validation_targets s)
            (source_type \<mapsto> filter (\<lambda>t. t \<noteq> target_type) (cross_targets source_type s))\<rparr>)))"

definition get_cross_validation_rule ::
  "symbol \<Rightarrow> symbol \<Rightarrow> 't ov_state \<Rightarrow> cross_validation_rule option" where
  "get_cross_validation_rule source_type target_type s = ov_cross_validation_rule s (source_type, target_type)"

definition get_cross_validation_targets :: "symbol \<Rightarrow> 't ov_state \<Rightarrow> symbol list" where
  "get_cross_validation_targets source_type s = cross_targets source_type s"

section \<open>Guardians, upgrades and the admin role\<close>

definition ov_set_guardians ::
  "env \<Rightarrow> address \<Rightarrow> address list \<Rightarrow> int \<Rightarrow> 't ov_state \<Rightarrow> (ov_error, 't ov_state) result" where
  "ov_set_guardians e admin guardians threshold s =
     bindR (ov_require_admin e admin s) (\<lambda>_.
     if threshold > int (length guardians) then panic VInvalidThreshold
     else Inr (ov_publish (OvGuardiansUpdated guardians threshold)
       (s\<lparr>ov_guardians := Some guardians, ov_guardian_threshold := Some threshold\<rparr>)))"

definition ov_get_guardians :: "'t ov_state \<Rightarrow> address list" where
  "ov_get_guardians s = unwrap_or [] (ov_guardians s)"

definition ov_get_guardian_threshold :: "'t ov_state \<Rightarrow> int" where
  "ov_get_guardian_threshold s = unwrap_or 0 (ov_guardian_threshold s)"

definition ov_get_pending_upgrade :: "'t ov_state \<Rightarrow> ov_pending_upgrade option" where
  "ov_get_pending_upgrade s = ov_upgrade_pending s"

definition ov_get_pending_admin_since :: "'t ov_state \<Rightarrow> int" where
  "ov_get_pending_admin_since s = unwrap_or 0 (ov_pending_admin_since s)"

definition ov_require_guardian :: "env \<Rightarrow> address \<Rightarrow> 't ov_state \<Rightarrow> (ov_error, unit) result" where
  "ov_require_guardian e guardian s =
     bindR (require_auth e guardian) (\<lambda>_.
     if guardian \<in> set (ov_get_guardians s) then Inr () else panic VNotGuardian)"

definition ov_upgrade :: "env \<Rightarrow> address \<Rightarrow> wasm_hash \<Rightarrow> 't ov_state \<Rightarrow> (ov_error, 't ov_state) result" where
  "ov_upgrade e admin new_wasm_hash s =
     bindR (ov_require_admin e admin s) (\<lambda>_.
     if ov_get_guardian_threshold s = 0 then Inr (s\<lparr>ov_wasm := Some new_wasm_hash\<rparr>)
     else Inr (s\<lparr>ov_upgrade_pending := Some \<lparr>ou_wasm_hash = new_wasm_hash, ou_approvals = []\<rparr>\<rparr>))"

definition ov_approve_upgrade :: "env \<Rightarrow> address \<Rightarrow> wasm_hash \<Rightarrow> 't ov_state \<Rightarrow> (ov_error, 't ov_state) result" where
  "ov_approve_upgrade e guardian new_wasm_hash s =
     bindR (ov_require_guardian e guardian s) (\<lambda>_.
     bindR (or_panic VNoPendingUpgrade (ov_upgrade_pending s)) (\<lambda>pending.
     if ou_wasm_hash pending \<noteq> new_wasm_hash then panic VNoPendingUpgrade
     else if guardian \<in> set (ou_approvals pending) then panic VAlreadyApprovedAction
     else let approvals = ou_approvals pending @ [guardian]; threshold = ov_get_guardian_threshold s;
              s1 = ov_publish (OvUpgradeApproved new_wasm_hash guardian (int (length approvals)) threshold) s
     in if int (length approvals) \<ge> threshold
        then Inr (s1\<lparr>ov_upgrade_pending := None, ov_wasm := Some new_wasm_hash\<rparr>)
        else Inr (s1\<lparr>ov_upgrade_pending := Some (pending\<lparr>ou_approvals := approvals\<rparr>)\<rparr>)))"

definition ov_cancel_pending_upgrade :: "env \<Rightarrow> address \<Rightarrow> 't ov_state \<Rightarrow> (ov_error, 't ov_state) result" where
  "ov_cancel_pending_upgrade e admin s =
     bindR (ov_require_admin e admin s) (\<lambda>_.
     if ov_upgrade_pending s = None then panic VNoPendingUpgrade
     else Inr (s\<lparr>ov_upgrade_pending := None\<rparr>))"

definition ov_propose_new_admin :: "env \<Rightarrow> address \<Rightarrow> address \<Rightarrow> 't ov_state \<Rightarrow> (ov_error, 't ov_state) result" where
  "ov_propose_new_admin e admin new_admin s =
     bindR (ov_require_admin e admin s) (\<lambda>_.
     bindR (ov_validate_stellar_address new_admin) (\<lambda>_.
     if ov_pending_admin s \<noteq> None then panic VAdminTransferPending
     else if ov_get_guardian_threshold s = 0
     then Inr (s\<lparr>ov_pending_admin := Some new_admin, ov_pending_admin_since := Some (timestamp e)\<rparr>)
     else Inr (s\<lparr>ov_admin_change_pending := Some \<lparr>oa_new_admin = new_admin, oa_approvals = []\<rparr>\<rparr>)))"

definition ov_approve_admin_change ::
  "env \<Rightarrow> address \<Rightarrow> address \<Rightarrow> 't ov_state \<Rightarrow> (ov_error, 't ov_state) result" where
  "ov_approve_admin_change e guardian new_admin s =
     bindR (ov_require_guardian e guardian s) (\<lambda>_.
     bindR (or_panic VNoPendingUpgrade (ov_admin_change_pending s)) (\<lambda>pending.
     if oa_new_admin pending \<noteq> new_admin then panic VNoPendingUpgrade
     else if guardian \<in> set (oa_approvals pending) then panic VAlreadyApprovedAction
     else let approvals = oa_approvals pending @ [guardian]
     in if int (length approvals) \<ge> ov_get_guardian_threshold s
        then Inr (s\<lparr>ov_admin_change_pending := None, ov_pending_admin := Some new_admin,
                    ov_pending_admin_since :=
                      (case ov_pending_admin_since s of
                         None \<Rightarrow> Some (timestamp e) | Some since \<Rightarrow> Some since)\<rparr>)
        else Inr (s\<lparr>ov_admin_change_pending := Some (pending\<lparr>oa_approvals := approvals\<rparr>)\<rparr>)))"

definition ov_accept_admin :: "env \<Rightarrow> address \<Rightarrow> 't ov_state \<Rightarrow> (ov_error, 't ov_state) result" where
  "ov_accept_admin e admin s =
     bindR (or_panic VUnauthorized (ov_pending_admin s)) (\<lambda>pending_admin.
     if admin \<noteq> pending_admin then panic VUnauthorized
     else bindR (require_auth e admin) (\<lambda>_.
     if \<not> ov_initialized s then panic VNotInitialized
     else if timestamp e < sat_u64 (ov_get_pending_admin_since s + ADMIN_TRANSFER_TIMELOCK)
     then panic VAdminTimelockNotExpired
     else Inr (ov_publish (OvAdminUpdated admin)
       (s\<lparr>ov_admin := Some admin, ov_pending_admin := None, ov_pending_admin_since := None\<rparr>))))"

lemma ov_require_guardian_ok [result_simps]:
  "ov_require_guardian e g s = Inr u \<longleftrightarrow> auth e g \<and> g \<in> set (ov_get_guardians s)"
  by (auto simp: ov_require_guardian_def require_auth_def result_simps)

end
