(* ===== verification/OV_Stakes.thy ===== *)
theory OV_Stakes
  imports OV_State
begin

text \<open>
  The economic side of the oracle verifier: stakes with their challenge period, slashing,
  reputations, and the penalty for stale submissions (\<^verbatim>\<open>lib.rs\<close>, "Oracle Staking", "Stake
  Withdrawal Challenge Period", "Stale-submission penalty", "Oracle Reputation").
\<close>

section \<open>Configuration\<close>

definition set_stake_token :: "env \<Rightarrow> address \<Rightarrow> address \<Rightarrow> 't ov_state \<Rightarrow> (ov_error, 't ov_state) result" where
  "set_stake_token e admin token s =
     bindR (ov_require_admin e admin s) (\<lambda>_.
     Inr (ov_publish (OvStakeTokenUpdated token) (s\<lparr>ov_stake_token := Some token\<rparr>)))"

definition get_stake_token :: "'t ov_state \<Rightarrow> address option" where
  "get_stake_token s = ov_stake_token s"

definition set_min_stake :: "env \<Rightarrow> address \<Rightarrow> int \<Rightarrow> 't ov_state \<Rightarrow> (ov_error, 't ov_state) result" where
  "set_min_stake e admin min_stake s =
     bindR (ov_require_admin e admin s) (\<lambda>_.
     if min_stake < 0 then panic InvalidStakeAmount
     else Inr (ov_publish (OvMinStakeUpdated min_stake) (s\<lparr>ov_min_stake := Some min_stake\<rparr>)))"

definition get_min_stake :: "'t ov_state \<Rightarrow> int" where
  "get_min_stake s = unwrap_or 0 (ov_min_stake s)"

definition set_slash_treasury :: "env \<Rightarrow> address \<Rightarrow> address \<Rightarrow> 't ov_state \<Rightarrow> (ov_error, 't ov_state) result" where
  "set_slash_treasury e admin treasury s =
     bindR (ov_require_admin e admin s) (\<lambda>_. Inr (s\<lparr>ov_slash_treasury := Some treasury\<rparr>))"

definition set_challenge_period :: "env \<Rightarrow> address \<Rightarrow> int \<Rightarrow> 't ov_state \<Rightarrow> (ov_error, 't ov_state) result" where
  "set_challenge_period e admin period_seconds s =
     bindR (ov_require_admin e admin s) (\<lambda>_.
     Inr (ov_publish (OvChallengePeriodUpdated period_seconds)
       (s\<lparr>ov_challenge_period := Some period_seconds\<rparr>)))"

definition get_challenge_period :: "'t ov_state \<Rightarrow> int" where
  "get_challenge_period s = unwrap_or DEFAULT_CHALLENGE_PERIOD (ov_challenge_period s)"

definition set_stale_threshold :: "env \<Rightarrow> address \<Rightarrow> int \<Rightarrow> 't ov_state \<Rightarrow> (ov_error, 't ov_state) result" where
  "set_stale_threshold e admin threshold s =
     bindR (ov_require_admin e admin s) (\<lambda>_.
     Inr (ov_publish (OvStaleThresholdUpdated threshold) (s\<lparr>ov_stale_threshold := Some threshold\<rparr>)))"

definition get_stale_threshold :: "'t ov_state \<Rightarrow> int" where
  "get_stale_threshold s = unwrap_or 0 (ov_stale_threshold s)"

definition set_stale_slash_amount :: "env \<Rightarrow> address \<Rightarrow> int \<Rightarrow> 't ov_state \<Rightarrow> (ov_error, 't ov_state) result" where
  "set_stale_slash_amount e admin amount s =
     bindR (ov_require_admin e admin s) (\<lambda>_.
     if amount < 0 then panic InvalidStakeAmount
     else Inr (ov_publish (OvStaleSlashAmountUpdated amount) (s\<lparr>ov_stale_slash_amount := Some amount\<rparr>)))"

definition get_stale_slash_amount :: "'t ov_state \<Rightarrow> int" where
  "get_stale_slash_amount s = unwrap_or 0 (ov_stale_slash_amount s)"

definition set_stale_reputation_penalty ::
  "env \<Rightarrow> address \<Rightarrow> int \<Rightarrow> 't ov_state \<Rightarrow> (ov_error, 't ov_state) result" where
  "set_stale_reputation_penalty e admin reputation_lost s =
     bindR (ov_require_admin e admin s) (\<lambda>_.
     if reputation_lost > 1000 then panic InvalidReputation
     else Inr (ov_publish (OvStaleReputationPenaltyUpdated reputation_lost)
       (s\<lparr>ov_stale_reputation_penalty := Some reputation_lost\<rparr>)))"

definition get_stale_reputation_penalty :: "'t ov_state \<Rightarrow> int" where
  "get_stale_reputation_penalty s = unwrap_or 0 (ov_stale_reputation_penalty s)"

definition get_stale_count :: "symbol \<Rightarrow> address \<Rightarrow> 't ov_state \<Rightarrow> int" where
  "get_stale_count data_type orc s = unwrap_or 0 (ov_stale_count s (data_type, orc))"

section \<open>Stakes\<close>

definition get_oracle_stake :: "symbol \<Rightarrow> address \<Rightarrow> 't ov_state \<Rightarrow> int" where
  "get_oracle_stake data_type orc s = unwrap_or 0 (ov_stake_amt s (data_type, orc))"

definition stake ::
  "'t token_ops \<Rightarrow> env \<Rightarrow> address \<Rightarrow> symbol \<Rightarrow> int \<Rightarrow> 't ov_state \<Rightarrow> (ov_error, 't ov_state) result" where
  "stake tk e orc data_type amount s =
     bindR (require_auth e orc) (\<lambda>_.
     if amount \<le> 0 then panic InvalidStakeAmount
     else bindR (or_panic StakeTokenNotSet (ov_stake_token s)) (\<lambda>token.
     bindR (or_trap (transfer_of tk (ov_tokens s) token orc (this e) amount)) (\<lambda>t.
     bindR (i128 (get_oracle_stake data_type orc s + amount)) (\<lambda>total_stake.
     Inr (ov_publish (OvStakeDeposited orc data_type amount total_stake)
       (s\<lparr>ov_tokens := t, ov_stake_amt := (ov_stake_amt s)((data_type, orc) \<mapsto> total_stake)\<rparr>))))))"

definition get_stake_withdrawal_request ::
  "symbol \<Rightarrow> address \<Rightarrow> 't ov_state \<Rightarrow> stake_withdrawal_request option" where
  "get_stake_withdrawal_request data_type orc s = ov_stake_withdrawal_req s (data_type, orc)"

definition request_stake_withdrawal ::
  "env \<Rightarrow> address \<Rightarrow> symbol \<Rightarrow> 't ov_state \<Rightarrow> (ov_error, 't ov_state) result" where
  "request_stake_withdrawal e orc data_type s =
     bindR (require_auth e orc) (\<lambda>_.
     if entry_active data_type orc s then panic OracleStillActive
     else let amount = get_oracle_stake data_type orc s in
     if amount \<le> 0 then panic NoStake
     else if ov_stake_withdrawal_req s (data_type, orc) \<noteq> None then panic WithdrawalAlreadyRequested
     else let unlock_at = sat_u64 (timestamp e + get_challenge_period s)
     in Inr (ov_publish (OvStakeWithdrawalRequested orc data_type amount unlock_at)
          (s\<lparr>ov_stake_withdrawal_req := (ov_stake_withdrawal_req s)((data_type, orc) \<mapsto>
               \<lparr>sw_oracle = orc, sw_data_type = data_type, sw_amount = amount,
                sw_requested_at = timestamp e, sw_unlock_at = unlock_at\<rparr>)\<rparr>)))"

definition cancel_stake_withdrawal ::
  "env \<Rightarrow> address \<Rightarrow> symbol \<Rightarrow> 't ov_state \<Rightarrow> (ov_error, 't ov_state) result" where
  "cancel_stake_withdrawal e orc data_type s =
     bindR (require_auth e orc) (\<lambda>_.
     if ov_stake_withdrawal_req s (data_type, orc) = None then panic NoStakeWithdrawalRequest
     else Inr (ov_publish (OvStakeWithdrawalCancelled orc data_type)
       (s\<lparr>ov_stake_withdrawal_req := (ov_stake_withdrawal_req s)((data_type, orc) := None)\<rparr>)))"

definition withdraw_stake ::
  "'t token_ops \<Rightarrow> env \<Rightarrow> address \<Rightarrow> symbol \<Rightarrow> 't ov_state \<Rightarrow> (ov_error, 't ov_state) result" where
  "withdraw_stake tk e orc data_type s =
     bindR (require_auth e orc) (\<lambda>_.
     if entry_active data_type orc s then panic OracleStillActive
     else bindR (or_panic NoStakeWithdrawalRequest (ov_stake_withdrawal_req s (data_type, orc))) (\<lambda>req.
     if timestamp e < sw_unlock_at req then panic ChallengePeriodNotElapsed
     else let current = get_oracle_stake data_type orc s in
     if current \<le> 0 then panic NoStake
     else let to_withdraw = min current (sw_amount req); remaining = current - to_withdraw;
              s1 = s\<lparr>ov_stake_amt := (ov_stake_amt s)
                       ((data_type, orc) := (if remaining = 0 then None else Some remaining)),
                     ov_stake_withdrawal_req := (ov_stake_withdrawal_req s)((data_type, orc) := None)\<rparr>
     in bindR (or_panic StakeTokenNotSet (ov_stake_token s1)) (\<lambda>token.
        bindR (or_trap (transfer_of tk (ov_tokens s1) token (this e) orc to_withdraw)) (\<lambda>t.
        Inr (ov_publish (OvStakeWithdrawn orc data_type to_withdraw) (s1\<lparr>ov_tokens := t\<rparr>))))))"

text \<open>The slashed stake goes to the treasury, if a token and a treasury are set.\<close>

definition pay_treasury ::
  "'t token_ops \<Rightarrow> env \<Rightarrow> int \<Rightarrow> 't ov_state \<Rightarrow> (ov_error, 't ov_state) result" where
  "pay_treasury tk e slashed s =
     (case ov_stake_token s of
        None \<Rightarrow> Inr s
      | Some token \<Rightarrow> (case ov_slash_treasury s of
          None \<Rightarrow> Inr s
        | Some treasury \<Rightarrow>
            bindR (or_trap (transfer_of tk (ov_tokens s) token (this e) treasury slashed)) (\<lambda>t.
            Inr (s\<lparr>ov_tokens := t\<rparr>))))"

text \<open>An oracle whose stake fell below the minimum loses its registration.\<close>

definition drop_underfunded :: "symbol \<Rightarrow> address \<Rightarrow> int \<Rightarrow> 't ov_state \<Rightarrow> 't ov_state" where
  "drop_underfunded data_type orc remaining s =
     (let min_stake = get_min_stake s
      in if min_stake > 0 \<and> remaining < min_stake
         then (case ov_oracle s (data_type, orc) of
                 None \<Rightarrow> s
               | Some entry \<Rightarrow>
                   if oe_active entry
                   then s\<lparr>ov_oracle := (ov_oracle s)((data_type, orc) \<mapsto> entry\<lparr>oe_active := False\<rparr>),
                          ov_oracle_list := (ov_oracle_list s)(data_type \<mapsto>
                            filter (\<lambda>a. a \<noteq> orc) (oracles_of data_type s))\<rparr>
                   else s)
         else s)"

definition slash_request :: "symbol \<Rightarrow> address \<Rightarrow> int \<Rightarrow> 't ov_state \<Rightarrow> 't ov_state" where
  "slash_request data_type orc slashed s =
     (case ov_stake_withdrawal_req s (data_type, orc) of
        None \<Rightarrow> s
      | Some req \<Rightarrow>
          let amount = sat_i128 (sw_amount req - slashed)
          in s\<lparr>ov_stake_withdrawal_req := (ov_stake_withdrawal_req s)
                 ((data_type, orc) := (if amount \<le> 0 then None else Some (req\<lparr>sw_amount := amount\<rparr>)))\<rparr>)"

definition slash_oracle ::
  "'t token_ops \<Rightarrow> env \<Rightarrow> address \<Rightarrow> address \<Rightarrow> symbol \<Rightarrow> int \<Rightarrow> symbol \<Rightarrow> 't ov_state \<Rightarrow>
   (ov_error, 't ov_state) result" where
  "slash_oracle tk e admin orc data_type amount reason s =
     bindR (ov_require_admin e admin s) (\<lambda>_.
     if amount \<le> 0 then panic InvalidStakeAmount
     else let current = get_oracle_stake data_type orc s in
     if current \<le> 0 then panic NoStake
     else let slashed = min amount current; remaining = current - slashed;
              s1 = s\<lparr>ov_stake_amt := (ov_stake_amt s)((data_type, orc) \<mapsto> remaining)\<rparr>
     in bindR (pay_treasury tk e slashed (slash_request data_type orc slashed s1)) (\<lambda>s2.
        Inr (ov_publish (OvOracleSlashed orc data_type slashed remaining reason)
          (drop_underfunded data_type orc remaining s2))))"

section \<open>Reputation\<close>

definition no_reputation :: "address \<Rightarrow> symbol \<Rightarrow> oracle_reputation" where
  "no_reputation orc data_type =
     \<lparr>rep_oracle = orc, rep_data_type = data_type, rep_total_submissions = 0,
      rep_accurate_submissions = 0, rep_score = 500, rep_last_updated = 0\<rparr>"

definition get_reputation :: "address \<Rightarrow> symbol \<Rightarrow> 't ov_state \<Rightarrow> oracle_reputation" where
  "get_reputation orc data_type s = unwrap_or (no_reputation orc data_type) (ov_reputation s (data_type, orc))"

definition set_reputation ::
  "env \<Rightarrow> address \<Rightarrow> address \<Rightarrow> symbol \<Rightarrow> int \<Rightarrow> 't ov_state \<Rightarrow> (ov_error, 't ov_state) result" where
  "set_reputation e admin orc data_type score s =
     bindR (ov_require_admin e admin s) (\<lambda>_.
     if score > 1000 then panic InvalidReputation
     else Inr (s\<lparr>ov_reputation := (ov_reputation s)((data_type, orc) \<mapsto>
            (get_reputation orc data_type s)\<lparr>rep_score := score, rep_last_updated := timestamp e\<rparr>)\<rparr>))"

definition update_reputation ::
  "env \<Rightarrow> address \<Rightarrow> symbol \<Rightarrow> bool \<Rightarrow> 't ov_state \<Rightarrow> (ov_error, 't ov_state) result" where
  "update_reputation e orc data_type accurate s =
     (let rep = get_reputation orc data_type s
      in bindR (u64 (rep_total_submissions rep + 1)) (\<lambda>submitted.
         bindR (if accurate then u64 (rep_accurate_submissions rep + 1)
                else Inr (rep_accurate_submissions rep)) (\<lambda>right.
         bindR (if submitted > 0
                then bindR (u64 (right * 1000)) (\<lambda>m. Inr (m div submitted mod 2 ^ 32))
                else Inr (rep_score rep)) (\<lambda>score.
         Inr (ov_publish (OvReputationUpdated orc data_type score right submitted)
           (s\<lparr>ov_reputation := (ov_reputation s)((data_type, orc) \<mapsto>
                rep\<lparr>rep_total_submissions := submitted, rep_accurate_submissions := right,
                    rep_score := score, rep_last_updated := timestamp e\<rparr>)\<rparr>))))))"

text \<open>The product of two \<^verbatim>\<open>u32\<close> fits \<^verbatim>\<open>u64\<close>; the cast to \<^verbatim>\<open>u32\<close> keeps the low 32 bits.\<close>

definition get_effective_weight :: "address \<Rightarrow> symbol \<Rightarrow> 't ov_state \<Rightarrow> (ov_error, int) result" where
  "get_effective_weight orc data_type s =
     bindR (or_panic OracleNotRegistered (ov_oracle s (data_type, orc))) (\<lambda>entry.
     Inr (max (oe_weight entry * rep_score (get_reputation orc data_type s) div 1000 mod 2 ^ 32) 1))"

section \<open>Stale submissions\<close>

definition slash_stale ::
  "'t token_ops \<Rightarrow> env \<Rightarrow> address \<Rightarrow> symbol \<Rightarrow> 't ov_state \<Rightarrow> (ov_error, int \<times> 't ov_state) result" where
  "slash_stale tk e orc data_type s =
     (let slash_amount = get_stale_slash_amount s; current_stake = get_oracle_stake data_type orc s
      in if slash_amount > 0 \<and> current_stake > 0
         then let n = min slash_amount current_stake
              in bindR (pay_treasury tk e n
                   (s\<lparr>ov_stake_amt := (ov_stake_amt s)((data_type, orc) \<mapsto> current_stake - n)\<rparr>)) (\<lambda>s1.
                 Inr (n, s1))
         else Inr (0, s))"

definition drop_reputation ::
  "env \<Rightarrow> address \<Rightarrow> symbol \<Rightarrow> 't ov_state \<Rightarrow> int \<times> 't ov_state" where
  "drop_reputation e orc data_type s =
     (let rep_penalty = get_stale_reputation_penalty s; rep = get_reputation orc data_type s
      in if rep_penalty > 0
         then (min (rep_score rep) rep_penalty,
               s\<lparr>ov_reputation := (ov_reputation s)((data_type, orc) \<mapsto>
                   rep\<lparr>rep_score := sat_u32 (rep_score rep - rep_penalty),
                       rep_last_updated := timestamp e\<rparr>)\<rparr>)
         else (0, s))"

definition handle_stale_submission ::
  "'t token_ops \<Rightarrow> env \<Rightarrow> address \<Rightarrow> symbol \<Rightarrow> int \<Rightarrow> int \<Rightarrow> 't ov_state \<Rightarrow>
   (ov_error, 't ov_state) result" where
  "handle_stale_submission tk e orc data_type submitted_ts max_age s =
     (let count = sat_u32 (get_stale_count data_type orc s + 1);
          s1 = ov_publish (OvStaleSubmissionDetected orc data_type submitted_ts max_age count)
                 (s\<lparr>ov_stale_count := (ov_stale_count s)((data_type, orc) \<mapsto> count)\<rparr>);
          threshold = get_stale_threshold s1
      in if threshold = 0 \<or> count < threshold then Inr s1
         else bindR (slash_stale tk e orc data_type s1) (\<lambda>(slashed, s2).
              let (reputation_lost, s3) = drop_reputation e orc data_type s2
              in Inr (ov_publish (OvStalePenaltyApplied orc data_type count slashed reputation_lost)
                   (s3\<lparr>ov_stale_count := (ov_stale_count s3)((data_type, orc) \<mapsto> 0)\<rparr>))))"

definition reset_stale_count :: "address \<Rightarrow> symbol \<Rightarrow> 't ov_state \<Rightarrow> 't ov_state" where
  "reset_stale_count orc data_type s =
     (if ov_stale_count s (data_type, orc) \<noteq> None
      then s\<lparr>ov_stale_count := (ov_stale_count s)((data_type, orc) \<mapsto> 0)\<rparr> else s)"

end
