(* ===== verification/OV_Consensus.thy ===== *)
theory OV_Consensus
  imports OV_Aggregate OV_Registry OV_Stakes
begin

text \<open>
  The consensus of the oracle verifier: which readings count, their aggregation, the
  evaluation of a trigger with its rating of the oracles, and the reports
  (\<^verbatim>\<open>lib.rs\<close>, "Verification", \<^verbatim>\<open>get_median_value\<close>, \<^verbatim>\<open>check_freshness\<close>,
  \<^verbatim>\<open>check_staleness\<close>, \<^verbatim>\<open>get_aggregated_for_region\<close>).
\<close>

section \<open>The readings that count\<close>

definition min_confidence :: "'t ov_state \<Rightarrow> int" where
  "min_confidence s = unwrap_or 0 (ov_min_confidence s)"

definition age :: "env \<Rightarrow> oracle_data_point \<Rightarrow> int" where
  "age e p = sat_u64 (timestamp e - dp_timestamp p)"

definition fresh_reading :: "env \<Rightarrow> symbol \<Rightarrow> 't ov_state \<Rightarrow> oracle_data_point \<Rightarrow> bool" where
  "fresh_reading e data_type s p \<longleftrightarrow>
     age e p \<le> effective_max_age data_type s \<and> dp_confidence p \<ge> min_confidence s"

definition reporting :: "env \<Rightarrow> symbol \<Rightarrow> 't ov_state \<Rightarrow> oracle_data_point \<Rightarrow> bool" where
  "reporting e data_type s p \<longleftrightarrow>
     entry_active data_type (dp_oracle p) s \<and> \<not> oracle_offline e data_type (dp_oracle p) s"

definition eligible :: "env \<Rightarrow> symbol \<Rightarrow> 't ov_state \<Rightarrow> oracle_data_point \<Rightarrow> bool" where
  "eligible e data_type s p \<longleftrightarrow> fresh_reading e data_type s p \<and> reporting e data_type s p"

definition registered_weight :: "symbol \<Rightarrow> 't ov_state \<Rightarrow> address \<Rightarrow> int" where
  "registered_weight data_type s orc =
     (case ov_oracle s (data_type, orc) of None \<Rightarrow> 0 | Some entry \<Rightarrow> oe_weight entry)"

definition load_points :: "symbol \<Rightarrow> symbol \<Rightarrow> 't ov_state \<Rightarrow> (ov_error, oracle_data_point list) result" where
  "load_points data_type key s = or_panic NoDataAvailable (ov_data_points s (data_type, key))"

definition load_some_points ::
  "symbol \<Rightarrow> symbol \<Rightarrow> 't ov_state \<Rightarrow> (ov_error, oracle_data_point list) result" where
  "load_some_points data_type key s =
     bindR (load_points data_type key s) (\<lambda>points.
     if points = [] then panic NoDataAvailable else Inr points)"

section \<open>The consensus value\<close>

text \<open>
  At most \<^verbatim>\<open>MAX_DATA_POINTS\<close> points are read, so the buffers never overflow
  (\<^verbatim>\<open>TooManyOracles\<close> is not reachable here). The registered weights are summed up, with
  the overflow check of \<^verbatim>\<open>u32\<close>, but not used.
\<close>

definition sample_of :: "symbol \<Rightarrow> 't ov_state \<Rightarrow> oracle_data_point \<Rightarrow> (ov_error, sample) result" where
  "sample_of data_type s p =
     bindR (get_effective_weight (dp_oracle p) data_type s) (\<lambda>w.
     Inr (dp_value p, w, dp_timestamp p))"

definition combine ::
  "env \<Rightarrow> symbol \<Rightarrow> sample list \<Rightarrow> 't ov_state \<Rightarrow> (ov_error, sample list \<times> int \<times> int) result" where
  "combine e data_type samples s =
     bindR (filter_outliers data_type samples s) (\<lambda>kept.
     bindR (u32_sum (map sample_weight kept)) (\<lambda>total_weight.
     if int (length kept) < get_min_oracle_count s \<or> length kept = 0 \<or> total_weight = 0
     then panic NoDataAvailable
     else bindR (aggregate e data_type kept total_weight s) (\<lambda>consensus.
     Inr (kept, total_weight, consensus))))"

definition get_median_value ::
  "env \<Rightarrow> symbol \<Rightarrow> symbol \<Rightarrow> 't ov_state \<Rightarrow> (ov_error, int) result" where
  "get_median_value e data_type key s =
     bindR (load_some_points data_type key s) (\<lambda>points.
     let counted = filter (eligible e data_type s) (take MAX_DATA_POINTS points)
     in bindR (mapR (sample_of data_type s) counted) (\<lambda>samples.
        bindR (u32_sum (map (\<lambda>p. registered_weight data_type s (dp_oracle p)) counted)) (\<lambda>_.
        bindR (combine e data_type samples s) (\<lambda>(_, _, consensus). Inr consensus))))"

definition resolve_conflicting_readings ::
  "env \<Rightarrow> symbol \<Rightarrow> symbol \<Rightarrow> 't ov_state \<Rightarrow> (ov_error, int) result" where
  "resolve_conflicting_readings e data_type key s = get_median_value e data_type key s"

section \<open>Triggers\<close>

definition condition_met :: "trigger_condition \<Rightarrow> int \<Rightarrow> (ov_error, bool) result" where
  "condition_met condition median =
     (case tc_comparison condition of
        BelowThreshold \<Rightarrow> Inr (median < tc_threshold condition)
      | AboveThreshold \<Rightarrow> Inr (median > tc_threshold condition)
      | EqualsThreshold \<Rightarrow> Inr (median = tc_threshold condition)
      | EqualWithTolerance \<Rightarrow>
          bindR (i128 \<bar>sat_i128 (median - tc_threshold condition)\<bar>) (\<lambda>d.
          Inr (d \<le> tc_tolerance condition)))"

text \<open>
  Every oracle with a fresh reading and an active registration is rated by the distance of
  its reading from the consensus.
\<close>

primrec rate_oracles ::
  "env \<Rightarrow> symbol \<Rightarrow> int \<Rightarrow> int \<Rightarrow> oracle_data_point list \<Rightarrow> 't ov_state \<Rightarrow>
   (ov_error, 't ov_state) result" where
  "rate_oracles e data_type tolerance median [] s = Inr s"
| "rate_oracles e data_type tolerance median (p # rest) s =
     (if fresh_reading e data_type s p \<and> entry_active data_type (dp_oracle p) s
      then bindR (deviation median (dp_value p)) (\<lambda>diff.
           bindR (update_reputation e (dp_oracle p) data_type (diff \<le> tolerance) s) (\<lambda>s1.
           rate_oracles e data_type tolerance median rest s1))
      else rate_oracles e data_type tolerance median rest s)"

definition refuse_encrypted :: "symbol \<Rightarrow> 't ov_state \<Rightarrow> (ov_error, unit) result" where
  "refuse_encrypted data_type s =
     (if encryption_required data_type s then panic NoDataAvailable else Inr ())"

definition require_participation ::
  "env \<Rightarrow> symbol \<Rightarrow> oracle_data_point list \<Rightarrow> 't ov_state \<Rightarrow> (ov_error, unit) result" where
  "require_participation e data_type points s =
     (if int (length (filter (eligible e data_type s) points)) < effective_min_oracle_count data_type s
      then panic NoDataAvailable else Inr ())"

definition verify_trigger ::
  "env \<Rightarrow> symbol \<Rightarrow> symbol \<Rightarrow> trigger_condition \<Rightarrow> 't ov_state \<Rightarrow> (ov_error, bool \<times> 't ov_state) result" where
  "verify_trigger e data_type key condition s =
     bindR (require_data_type_active data_type s) (\<lambda>_.
     bindR (refuse_encrypted data_type s) (\<lambda>_.
     bindR (load_points data_type key s) (\<lambda>points.
     bindR (require_participation e data_type points s) (\<lambda>_.
     bindR (get_median_value e data_type key s) (\<lambda>median.
     bindR (condition_met condition median) (\<lambda>met.
     bindR (rate_oracles e data_type (tc_tolerance condition) median points s) (\<lambda>s1.
     Inr (met, s1))))))))"

definition latest_timestamp :: "oracle_data_point list \<Rightarrow> int" where
  "latest_timestamp points = foldl (\<lambda>t p. if dp_timestamp p > t then dp_timestamp p else t) 0 points"

definition verify_trigger_fresh ::
  "env \<Rightarrow> symbol \<Rightarrow> symbol \<Rightarrow> trigger_condition \<Rightarrow> int \<Rightarrow> 't ov_state \<Rightarrow>
   (ov_error, bool \<times> 't ov_state) result" where
  "verify_trigger_fresh e data_type key condition max_age_seconds s =
     bindR (require_data_type_active data_type s) (\<lambda>_.
     bindR (refuse_encrypted data_type s) (\<lambda>_.
     bindR (load_some_points data_type key s) (\<lambda>points.
     bindR (require_participation e data_type points s) (\<lambda>_.
     if sat_u64 (timestamp e - latest_timestamp points) > max_age_seconds then panic StaleData
     else bindR (get_median_value e data_type key s) (\<lambda>median.
     bindR (condition_met condition median) (\<lambda>met.
     bindR (rate_oracles e data_type (tc_tolerance condition) median points
              (ov_publish (OvVerificationResult data_type key met median (tc_threshold condition)) s)) (\<lambda>s1.
     Inr (met, s1))))))))"

primrec batch_verify_fresh ::
  "env \<Rightarrow> oracle_reading_query list \<Rightarrow> 't ov_state \<Rightarrow> (ov_error, bool list \<times> 't ov_state) result" where
  "batch_verify_fresh e [] s = Inr ([], s)"
| "batch_verify_fresh e (q # queries) s =
     bindR (verify_trigger_fresh e (rq_data_type q) (rq_key q) (rq_condition q)
              (rq_staleness_threshold q) s) (\<lambda>(met, s1).
     bindR (batch_verify_fresh e queries s1) (\<lambda>(results, s2).
     Inr (met # results, s2)))"

section \<open>Aggregated data\<close>

text \<open>
  The statistics run over the active oracles' readings, stale ones too; the consensus over
  the fresh ones, with the registered weights.
\<close>

definition get_aggregated ::
  "env \<Rightarrow> symbol \<Rightarrow> symbol \<Rightarrow> 't ov_state \<Rightarrow> (ov_error, aggregated_data) result" where
  "get_aggregated e data_type key s =
     bindR (refuse_encrypted data_type s) (\<lambda>_.
     bindR (load_some_points data_type key s) (\<lambda>points.
     let present = filter (reporting e data_type s) (take MAX_DATA_POINTS points);
         weight = (\<lambda>p. registered_weight data_type s (dp_oracle p));
         counted = filter (fresh_reading e data_type s) present;
         weighted_confidence_sum = (\<Sum>p\<leftarrow>present. dp_confidence p * weight p);
         total_weight_sum = (\<Sum>p\<leftarrow>present. weight p)
     in bindR (u32_sum (map weight counted)) (\<lambda>_.
        bindR (combine e data_type (map (\<lambda>p. (dp_value p, weight p, dp_timestamp p)) counted) s)
          (\<lambda>(kept, total_weight, median_value).
        let (ci_lower, ci_upper) =
              calculate_confidence_interval (map weighed kept) total_weight median_value
        in Inr \<lparr>ag_median_value = median_value,
                ag_oracle_count = int (length present),
                ag_active_oracle_count = int (length (oracles_of data_type s)),
                ag_confidence = (if total_weight_sum = 0 then 0
                                 else sat_u32 (weighted_confidence_sum div total_weight_sum)),
                ag_min_confidence = foldl (\<lambda>m p. min m (dp_confidence p)) 100 present,
                ag_last_updated = foldl (\<lambda>m p. max m (dp_timestamp p)) 0 present,
                ag_confidence_interval_lower = ci_lower,
                ag_confidence_interval_upper = ci_upper\<rparr>))))"

definition verify_trigger_with_confidence ::
  "env \<Rightarrow> symbol \<Rightarrow> symbol \<Rightarrow> trigger_condition \<Rightarrow> 't ov_state \<Rightarrow>
   (ov_error, bool \<times> aggregated_data) result" where
  "verify_trigger_with_confidence e data_type key condition s =
     bindR (require_data_type_active data_type s) (\<lambda>_.
     bindR (get_aggregated e data_type key s) (\<lambda>agg.
     bindR (condition_met condition (ag_median_value agg)) (\<lambda>met. Inr (met, agg))))"

text \<open>The regional median is the first value at which half of the weight is reached.\<close>

fun region_median :: "int \<Rightarrow> int \<Rightarrow> int \<Rightarrow> (int \<times> int) list \<Rightarrow> (ov_error, int) result" where
  "region_median half accum first [] = Inr first"
| "region_median half accum first ((val, weight) # rest) =
     bindR (u32 (accum + weight)) (\<lambda>a.
     if a \<ge> half then Inr val else region_median half a first rest)"

definition regional_weight :: "symbol \<Rightarrow> symbol \<Rightarrow> 't ov_state \<Rightarrow> address \<Rightarrow> int" where
  "regional_weight data_type region s orc =
     (let w = registered_weight data_type s orc * get_oracle_geo_weight orc data_type region s
              div 10000 mod 2 ^ 32
      in if w = 0 then 1 else w)"

definition get_aggregated_for_region ::
  "env \<Rightarrow> symbol \<Rightarrow> symbol \<Rightarrow> int \<Rightarrow> symbol \<Rightarrow> 't ov_state \<Rightarrow> (ov_error, aggregated_data) result" where
  "get_aggregated_for_region e data_type key max_age_seconds target_region s =
     bindR (load_some_points data_type key s) (\<lambda>points.
     let counted = filter (\<lambda>p. age e p \<le> max_age_seconds \<and> dp_confidence p \<ge> min_confidence s
                     \<and> entry_active data_type (dp_oracle p) s) points;
         weight = (\<lambda>p. regional_weight data_type target_region s (dp_oracle p));
         values = map (\<lambda>p. (dp_value p, weight p)) (take 100 counted)
     in bindR (u32_sum (map weight counted)) (\<lambda>total_effective_weight.
        bindR (u64 (\<Sum>p\<leftarrow>counted. dp_confidence p * weight p)) (\<lambda>weighted_confidence_sum.
        if values = [] then panic NoDataAvailable
        else let slice = sort_key fst values
        in bindR (region_median (total_effective_weight div 2) 0 (fst (hd slice)) slice) (\<lambda>median.
           let (ci_lower, ci_upper) =
                 calculate_confidence_interval slice total_effective_weight median
           in Inr \<lparr>ag_median_value = median,
                   ag_oracle_count = int (length values),
                   ag_active_oracle_count = int (length values),
                   ag_confidence = (if total_effective_weight > 0
                     then weighted_confidence_sum div total_effective_weight mod 2 ^ 32 else 0),
                   ag_min_confidence = foldl (\<lambda>m p. min m (dp_confidence p)) 100 counted,
                   ag_last_updated = foldl (\<lambda>m p. max m (dp_timestamp p)) 0 counted,
                   ag_confidence_interval_lower = ci_lower,
                   ag_confidence_interval_upper = ci_upper\<rparr>))))"

section \<open>Queries\<close>

text \<open>The reading with the largest timestamp, the first of several.\<close>

definition newest :: "oracle_data_point \<Rightarrow> oracle_data_point list \<Rightarrow> oracle_data_point" where
  "newest first rest = foldl (\<lambda>l p. if dp_timestamp p > dp_timestamp l then p else l) first rest"

definition get_data ::
  "env \<Rightarrow> symbol \<Rightarrow> symbol \<Rightarrow> 't ov_state \<Rightarrow> (ov_error, oracle_data_point) result" where
  "get_data e data_type key s =
     bindR (load_some_points data_type key s) (\<lambda>points.
     let latest = newest (hd points) (tl points)
     in if age e latest > effective_max_age data_type s then panic NoDataAvailable else Inr latest)"

definition get_data_points :: "symbol \<Rightarrow> symbol \<Rightarrow> 't ov_state \<Rightarrow> oracle_data_point list" where
  "get_data_points data_type key s = points_of data_type key s"

definition get_encrypted_data :: "symbol \<Rightarrow> symbol \<Rightarrow> 't ov_state \<Rightarrow> encrypted_data_point list" where
  "get_encrypted_data data_type key s = unwrap_or [] (ov_encrypted_points s (data_type, key))"

text \<open>The sums saturate; entries are read only for active oracles, so their weight is found.\<close>

definition reputation_weighted_confidence ::
  "env \<Rightarrow> symbol \<Rightarrow> symbol \<Rightarrow> 't ov_state \<Rightarrow> (ov_error, int) result" where
  "reputation_weighted_confidence e data_type key s =
     bindR (load_some_points data_type key s) (\<lambda>points.
     let counted = filter (eligible e data_type s) (take 100 points)
     in bindR (mapR (\<lambda>p. get_effective_weight (dp_oracle p) data_type s) counted) (\<lambda>weights.
        bindR (mapR (\<lambda>(p, w). u64 (dp_confidence p * w)) (zip counted weights)) (\<lambda>products.
        let weighted_sum = foldl (\<lambda>t x. sat_u64 (t + x)) 0 products;
            total_weight = foldl (\<lambda>t x. sat_u64 (t + x)) 0 weights
        in Inr (if total_weight = 0 then 0
                else min (weighted_sum div total_weight mod 2 ^ 32) 1000))))"

definition check_freshness :: "env \<Rightarrow> symbol \<Rightarrow> symbol \<Rightarrow> 't ov_state \<Rightarrow> freshness_report" where
  "check_freshness e data_type key s =
     (let points = points_of data_type key s; max_age = effective_max_age data_type s;
          fresh_count = int (length (filter (\<lambda>p. age e p \<le> max_age) points))
      in \<lparr>fr_data_type = data_type, fr_key = key,
          fr_is_fresh = (fresh_count \<ge> max (get_min_oracle_count s) 1),
          fr_newest_age = foldl (\<lambda>a p. if age e p < a then age e p else a) u64_max points,
          fr_fresh_count = fresh_count, fr_total_count = int (length points), fr_max_age = max_age\<rparr>)"

definition check_staleness ::
  "env \<Rightarrow> symbol \<Rightarrow> symbol \<Rightarrow> 't ov_state \<Rightarrow> staleness_report \<times> 't ov_state" where
  "check_staleness e data_type key s =
     (let points = points_of data_type key s; max_age = effective_max_age data_type s;
          total_count = int (length points);
          stale_count = int (length (filter (\<lambda>p. age e p > max_age) points));
          newest_age = foldl (\<lambda>a p. if age e p < a then age e p else a) u64_max points;
          oldest_fresh_age = foldl (\<lambda>a p. if age e p \<le> max_age \<and> age e p > a then age e p else a) 0 points;
          is_stale = (stale_count > total_count div 2)
      in if total_count = 0
         then (\<lparr>sr_data_type = data_type, sr_key = key, sr_is_stale = True, sr_oldest_fresh_age = 0,
                sr_newest_age = u64_max, sr_stale_count = 0, sr_total_count = 0,
                sr_max_age = max_age, sr_freshness_ratio_bps = 0\<rparr>, s)
         else (\<lparr>sr_data_type = data_type, sr_key = key, sr_is_stale = is_stale,
                sr_oldest_fresh_age = oldest_fresh_age, sr_newest_age = newest_age,
                sr_stale_count = stale_count, sr_total_count = total_count, sr_max_age = max_age,
                sr_freshness_ratio_bps = (total_count - stale_count) * 10000 div total_count\<rparr>,
               if is_stale
               then ov_publish (OvStaleDataDetected data_type key stale_count total_count
                      (sat_u64 (timestamp e - newest_age)) max_age) s
               else s))"

end
