(* ===== verification/OV_Submit.thy ===== *)
theory OV_Submit
  imports OV_Consensus
begin

text \<open>
  How readings enter the oracle verifier: the gates every submission passes, the storage of
  a reading, cross-validation, and the four entry points (\<^verbatim>\<open>lib.rs\<close>, "Data Submission",
  "Data Encryption", \<^verbatim>\<open>check_cross_validation\<close>, \<^verbatim>\<open>store_plain_reading\<close>).
\<close>

section \<open>Gates\<close>

definition require_strictly_newer_reading ::
  "symbol \<Rightarrow> symbol \<Rightarrow> address \<Rightarrow> int \<Rightarrow> 't ov_state \<Rightarrow> (ov_error, unit) result" where
  "require_strictly_newer_reading data_type key orc new_timestamp s =
     (case ov_last_reading_timestamp s (data_type, key, orc) of
        Some prev \<Rightarrow> if new_timestamp \<le> prev then panic StaleReadingTimestamp else Inr ()
      | None \<Rightarrow> Inr ())"

definition record_reading_timestamp ::
  "symbol \<Rightarrow> symbol \<Rightarrow> address \<Rightarrow> int \<Rightarrow> 't ov_state \<Rightarrow> 't ov_state" where
  "record_reading_timestamp data_type key orc t s =
     s\<lparr>ov_last_reading_timestamp := (ov_last_reading_timestamp s)((data_type, key, orc) \<mapsto> t)\<rparr>"

definition enforce_rate_limit ::
  "symbol \<Rightarrow> address \<Rightarrow> int \<Rightarrow> 't ov_state \<Rightarrow> (ov_error, 't ov_state) result" where
  "enforce_rate_limit data_type orc now s =
     bindR (case ov_last_submission s (data_type, orc) of
              Some prev \<Rightarrow> if sat_u64 (now - prev) < get_min_submit_interval s
                           then panic RateLimited else Inr ()
            | None \<Rightarrow> Inr ()) (\<lambda>_.
     Inr (s\<lparr>ov_last_submission := (ov_last_submission s)((data_type, orc) \<mapsto> now)\<rparr>))"

definition require_oracle_active :: "symbol \<Rightarrow> address \<Rightarrow> 't ov_state \<Rightarrow> (ov_error, unit) result" where
  "require_oracle_active data_type orc s =
     bindR (or_panic OracleNotRegistered (ov_oracle s (data_type, orc))) (\<lambda>entry.
     if oe_active entry then Inr () else panic VUnauthorized)"

definition refuse_plaintext :: "symbol \<Rightarrow> 't ov_state \<Rightarrow> (ov_error, unit) result" where
  "refuse_plaintext data_type s =
     (if encryption_required data_type s then panic EncryptionRequiredForType else Inr ())"

definition check_confidence :: "int \<Rightarrow> (ov_error, unit) result" where
  "check_confidence c = (if c = 0 \<or> c > 100 then panic InvalidConfidence else Inr ())"

definition check_global_bound :: "int \<Rightarrow> (ov_error, unit) result" where
  "check_global_bound v =
     (if v > MAX_DATA_VALUE \<or> v < - MAX_DATA_VALUE then panic VInvalidInput else Inr ())"

definition check_not_zero :: "int \<Rightarrow> (ov_error, unit) result" where
  "check_not_zero t = (if t = 0 then panic InvalidTimestamp else Inr ())"

definition check_timestamp :: "env \<Rightarrow> int \<Rightarrow> 't ov_state \<Rightarrow> (ov_error, unit) result" where
  "check_timestamp e t s =
     (if t > sat_u64 (timestamp e + get_timestamp_future_buffer s) then panic InvalidTimestamp
      else if t < sat_u64 (timestamp e - get_max_timestamp_age s) then panic InvalidTimestamp
      else Inr ())"

section \<open>Storage of a reading\<close>

text \<open>The newest \<^verbatim>\<open>MAX_DATA_POINTS - 1\<close> entries of a list, to which one more is added.\<close>

definition retain_newest :: "'a list \<Rightarrow> 'a list" where
  "retain_newest xs = drop (length xs - (MAX_DATA_POINTS - 1)) xs"

definition retained ::
  "symbol \<Rightarrow> address \<Rightarrow> int \<Rightarrow> int \<Rightarrow> 't ov_state \<Rightarrow> oracle_data_point \<Rightarrow> bool" where
  "retained data_type orc now max_data_age s p \<longleftrightarrow>
     \<not> (dp_oracle p = orc \<or> sat_u64 (now - dp_timestamp p) > max_data_age)
     \<and> entry_active data_type (dp_oracle p) s"

definition store_plain_reading ::
  "symbol \<Rightarrow> symbol \<Rightarrow> oracle_data_point \<Rightarrow> int \<Rightarrow> int \<Rightarrow> 't ov_state \<Rightarrow> 't ov_state" where
  "store_plain_reading data_type key new_point now max_data_age s =
     s\<lparr>ov_data_points := (ov_data_points s)((data_type, key) \<mapsto>
         retain_newest (filter (retained data_type (dp_oracle new_point) now max_data_age s)
           (points_of data_type key s)) @ [new_point])\<rparr>"

section \<open>Cross-validation\<close>

text \<open>\<^verbatim>\<open>abs\<close> of the saturated difference traps on \<^verbatim>\<open>i128::MIN\<close>.\<close>

primrec cross_check ::
  "env \<Rightarrow> symbol \<Rightarrow> symbol \<Rightarrow> int \<Rightarrow> symbol list \<Rightarrow> 't ov_state \<Rightarrow> (ov_error, unit) result" where
  "cross_check e source_type key source_value [] s = Inr ()"
| "cross_check e source_type key source_value (target_type # rest) s =
     (case ov_cross_validation_rule s (source_type, target_type) of
        None \<Rightarrow> cross_check e source_type key source_value rest s
      | Some rule \<Rightarrow>
          if points_of target_type key s = [] then cross_check e source_type key source_value rest s
          else bindR (get_median_value e target_type key s) (\<lambda>target_value.
               bindR (i128 \<bar>sat_i128 (source_value - target_value)\<bar>) (\<lambda>variance.
               if variance > cv_max_variance rule then panic CrossValidationFailed
               else cross_check e source_type key source_value rest s)))"

definition check_cross_validation ::
  "env \<Rightarrow> symbol \<Rightarrow> symbol \<Rightarrow> 't ov_state \<Rightarrow> (ov_error, unit) result" where
  "check_cross_validation e source_type key s =
     (let targets = cross_targets source_type s
      in if targets = [] then Inr ()
         else bindR (get_median_value e source_type key s) (\<lambda>source_value.
              cross_check e source_type key source_value targets s))"

section \<open>Entry points\<close>

definition submit_data ::
  "'t token_ops \<Rightarrow> env \<Rightarrow> address \<Rightarrow> symbol \<Rightarrow> symbol \<Rightarrow> int \<Rightarrow> int \<Rightarrow> int \<Rightarrow> 't ov_state \<Rightarrow>
   (ov_error, 't ov_state) result" where
  "submit_data tk e orc data_type key val confidence t s =
     bindR (require_auth e orc) (\<lambda>_.
     bindR (validate_symbol_len data_type) (\<lambda>_.
     bindR (require_data_type_active data_type s) (\<lambda>_.
     bindR (refuse_plaintext data_type s) (\<lambda>_.
     bindR (validate_key_len key) (\<lambda>_.
     bindR (check_confidence confidence) (\<lambda>_.
     bindR (check_global_bound val) (\<lambda>_.
     if \<bar>val\<bar> > get_data_type_max data_type s then panic VInvalidInput
     else bindR (check_not_zero t) (\<lambda>_.
     bindR (check_timestamp e t s) (\<lambda>_.
     bindR (require_oracle_active data_type orc s) (\<lambda>_.
     bindR (enforce_rate_limit data_type orc (timestamp e) s) (\<lambda>s1.
     bindR (require_strictly_newer_reading data_type key orc t s1) (\<lambda>_.
     let max_data_age = effective_max_age data_type s1
     in if sat_u64 (timestamp e - t) > max_data_age
        then handle_stale_submission tk e orc data_type t max_data_age s1
        else let s2 = record_reading_timestamp data_type key orc t
                        (store_plain_reading data_type key
                          \<lparr>dp_oracle = orc, dp_value = val, dp_confidence = confidence, dp_timestamp = t\<rparr>
                          (timestamp e) max_data_age s1)
        in bindR (check_cross_validation e data_type key s2) (\<lambda>_.
           Inr (ov_publish (OvOracleDataSubmitted orc data_type key val confidence t)
             (reset_stale_count orc data_type s2)))))))))))))))"

text \<open>
  The two batch calls differ in their items' checks. Neither applies the range of the data
  type or cross-validation.
\<close>

definition batch_guards ::
  "env \<Rightarrow> address \<Rightarrow> symbol \<Rightarrow> 't ov_state \<Rightarrow> (ov_error, 't ov_state) result" where
  "batch_guards e orc data_type s =
     bindR (require_auth e orc) (\<lambda>_.
     bindR (require_data_type_active data_type s) (\<lambda>_.
     bindR (refuse_plaintext data_type s) (\<lambda>_.
     bindR (validate_symbol_len data_type) (\<lambda>_.
     bindR (require_oracle_active data_type orc s) (\<lambda>_.
     enforce_rate_limit data_type orc (timestamp e) s)))))"

definition land_reading ::
  "'t token_ops \<Rightarrow> env \<Rightarrow> address \<Rightarrow> symbol \<Rightarrow> oracle_data_submission \<Rightarrow> 't ov_state \<Rightarrow>
   (ov_error, 't ov_state) result" where
  "land_reading tk e orc data_type sub s =
     bindR (require_strictly_newer_reading data_type (sb_key sub) orc (sb_timestamp sub) s) (\<lambda>_.
     let max_data_age = effective_max_age data_type s
     in if sat_u64 (timestamp e - sb_timestamp sub) > max_data_age
        then handle_stale_submission tk e orc data_type (sb_timestamp sub) max_data_age s
        else Inr (ov_publish (OvOracleDataSubmitted orc data_type (sb_key sub) (sb_value sub)
                     (sb_confidence sub) (sb_timestamp sub))
               (record_reading_timestamp data_type (sb_key sub) orc (sb_timestamp sub)
                 (store_plain_reading data_type (sb_key sub)
                   \<lparr>dp_oracle = orc, dp_value = sb_value sub, dp_confidence = sb_confidence sub,
                    dp_timestamp = sb_timestamp sub\<rparr>
                   (timestamp e) max_data_age s))))"

primrec submit_tuples ::
  "'t token_ops \<Rightarrow> env \<Rightarrow> address \<Rightarrow> symbol \<Rightarrow> oracle_data_submission list \<Rightarrow> 't ov_state \<Rightarrow>
   (ov_error, 't ov_state) result" where
  "submit_tuples tk e orc data_type [] s = Inr s"
| "submit_tuples tk e orc data_type (sub # rest) s =
     bindR (validate_key_len (sb_key sub)) (\<lambda>_.
     bindR (check_confidence (sb_confidence sub)) (\<lambda>_.
     bindR (check_global_bound (sb_value sub)) (\<lambda>_.
     bindR (check_timestamp e (sb_timestamp sub) s) (\<lambda>_.
     bindR (land_reading tk e orc data_type sub s) (\<lambda>s1.
     submit_tuples tk e orc data_type rest s1)))))"

definition batch_submit_data ::
  "'t token_ops \<Rightarrow> env \<Rightarrow> address \<Rightarrow> symbol \<Rightarrow> oracle_data_submission list \<Rightarrow> 't ov_state \<Rightarrow>
   (ov_error, 't ov_state) result" where
  "batch_submit_data tk e orc data_type submissions s =
     bindR (batch_guards e orc data_type s) (\<lambda>s1.
     submit_tuples tk e orc data_type submissions s1)"

primrec submit_readings ::
  "'t token_ops \<Rightarrow> env \<Rightarrow> address \<Rightarrow> symbol \<Rightarrow> oracle_data_submission list \<Rightarrow> 't ov_state \<Rightarrow>
   (ov_error, 't ov_state) result" where
  "submit_readings tk e orc data_type [] s = Inr s"
| "submit_readings tk e orc data_type (sub # rest) s =
     bindR (validate_key_len (sb_key sub)) (\<lambda>_.
     bindR (check_confidence (sb_confidence sub)) (\<lambda>_.
     bindR (check_not_zero (sb_timestamp sub)) (\<lambda>_.
     bindR (check_timestamp e (sb_timestamp sub) s) (\<lambda>_.
     bindR (land_reading tk e orc data_type sub s) (\<lambda>s1.
     submit_readings tk e orc data_type rest s1)))))"

definition submit_data_batch ::
  "'t token_ops \<Rightarrow> env \<Rightarrow> address \<Rightarrow> symbol \<Rightarrow> oracle_data_submission list \<Rightarrow> 't ov_state \<Rightarrow>
   (ov_error, 't ov_state) result" where
  "submit_data_batch tk e orc data_type submissions s =
     bindR (batch_guards e orc data_type s) (\<lambda>s1.
     bindR (submit_readings tk e orc data_type submissions s1) (\<lambda>s2.
     Inr (reset_stale_count orc data_type s2)))"

definition submit_encrypted_data ::
  "'t token_ops \<Rightarrow> env \<Rightarrow> address \<Rightarrow> symbol \<Rightarrow> symbol \<Rightarrow> string \<Rightarrow> string \<Rightarrow> int \<Rightarrow> int \<Rightarrow> 't ov_state \<Rightarrow>
   (ov_error, 't ov_state) result" where
  "submit_encrypted_data tk e orc data_type key ciphertext nonce confidence t s =
     bindR (require_auth e orc) (\<lambda>_.
     bindR (require_data_type_active data_type s) (\<lambda>_.
     bindR (check_confidence confidence) (\<lambda>_.
     bindR (validate_symbol_len data_type) (\<lambda>_.
     bindR (validate_key_len key) (\<lambda>_.
     bindR (check_not_zero t) (\<lambda>_.
     if t > timestamp e then panic InvalidTimestamp
     else if t < sat_u64 (timestamp e - 90 * 24 * 60 * 60) then panic InvalidTimestamp
     else bindR (require_oracle_active data_type orc s) (\<lambda>_.
     bindR (enforce_rate_limit data_type orc (timestamp e) s) (\<lambda>s1.
     let max_data_age = effective_max_age data_type s1
     in if sat_u64 (timestamp e - t) > max_data_age
        then handle_stale_submission tk e orc data_type t max_data_age s1
        else let keep = (\<lambda>p. \<not> (ep_oracle p = orc \<or> sat_u64 (timestamp e - ep_timestamp p) > max_data_age)
                             \<and> entry_active data_type (ep_oracle p) s1);
                 kept = retain_newest (filter keep (get_encrypted_data data_type key s1));
                 new_point = \<lparr>ep_oracle = orc, ep_ciphertext = ciphertext, ep_nonce = nonce,
                              ep_confidence = confidence, ep_timestamp = t\<rparr>
        in Inr (ov_publish (OvOracleEncryptedDataSubmitted orc data_type key confidence t)
             (reset_stale_count orc data_type
               (s1\<lparr>ov_encrypted_points := (ov_encrypted_points s1)
                     ((data_type, key) \<mapsto> kept @ [new_point])\<rparr>)))))))))))"

definition invalidate_data ::
  "env \<Rightarrow> address \<Rightarrow> symbol \<Rightarrow> symbol \<Rightarrow> 't ov_state \<Rightarrow> (ov_error, 't ov_state) result" where
  "invalidate_data e admin data_type key s =
     bindR (ov_require_admin e admin s) (\<lambda>_.
     Inr (ov_publish (OvOracleDataInvalidated data_type key)
       (s\<lparr>ov_data_points := (ov_data_points s)((data_type, key) := None)\<rparr>)))"

lemma submit_gates_ok [result_simps]:
  "require_strictly_newer_reading dt k orc t s = Inr u \<longleftrightarrow>
     (\<forall>prev. ov_last_reading_timestamp s (dt, k, orc) = Some prev \<longrightarrow> prev < t)"
  "require_oracle_active dt orc s = Inr u \<longleftrightarrow> entry_active dt orc s"
  "refuse_plaintext dt s = Inr u \<longleftrightarrow> \<not> encryption_required dt s"
  "check_confidence c = Inr u \<longleftrightarrow> c \<noteq> 0 \<and> c \<le> 100"
  "check_global_bound v = Inr u \<longleftrightarrow> - MAX_DATA_VALUE \<le> v \<and> v \<le> MAX_DATA_VALUE"
  "check_not_zero t = Inr u \<longleftrightarrow> t \<noteq> 0"
  "check_timestamp e t s = Inr u \<longleftrightarrow> t \<le> sat_u64 (timestamp e + get_timestamp_future_buffer s)
     \<and> sat_u64 (timestamp e - get_max_timestamp_age s) \<le> t"
  by (auto simp: require_strictly_newer_reading_def require_oracle_active_def refuse_plaintext_def
      check_confidence_def check_global_bound_def check_not_zero_def check_timestamp_def
      entry_active_def result_simps split: option.splits)

lemma enforce_rate_limit_ok [result_simps]:
  "enforce_rate_limit dt orc now s = Inr s' \<longleftrightarrow>
     (\<forall>prev. ov_last_submission s (dt, orc) = Some prev \<longrightarrow> get_min_submit_interval s \<le> sat_u64 (now - prev))
     \<and> s' = s\<lparr>ov_last_submission := (ov_last_submission s)((dt, orc) \<mapsto> now)\<rparr>"
  by (auto simp: enforce_rate_limit_def result_simps split: option.splits)

end
