(* ===== verification/OV_System.thy ===== *)
theory OV_System
  imports OV_Submit
begin

text \<open>
  The calls of the oracle verifier as one transition system: every entry point that can
  change the storage, with its arguments inside their Rust types.
\<close>

section \<open>Calls\<close>

datatype ov_setting_call =
    OvInitialize address
  | AddOracle address address symbol int
  | UpdateOracleWeight address address symbol int
  | RemoveOracle address address symbol
  | PauseDataType address symbol
  | ResumeDataType address symbol
  | SetOracleInactivityLimit address int
  | DeactivateInactiveOracles symbol
  | SetMinConfidence address int
  | SetMaxDataAge address int
  | SetMaxTimestampAge address int
  | SetTimestampFutureBuffer address int
  | SetDataTypeMaxAge address symbol int
  | SetAggregationMethod address symbol aggregation_method
  | SetOutlierConfig address symbol bool int int
  | SetDataTypeRange address symbol int int
  | SetMinOracleCount address int
  | SetDataTypeMinOracleCount address symbol int
  | SetConsensusThreshold address symbol int
  | SetCrossValidationRule address symbol symbol int string
  | RemoveCrossValidationRule address symbol symbol
  | SetMinSubmitInterval address int
  | SetEncryptionRequired address symbol bool
  | SetOracleGeoWeight address address symbol symbol int
  | InvalidateData address symbol symbol
  | OvSetGuardians address "address list" int
  | OvUpgrade address wasm_hash
  | OvApproveUpgrade address wasm_hash
  | OvCancelPendingUpgrade address
  | OvProposeNewAdmin address address
  | OvApproveAdminChange address address
  | OvAcceptAdmin address

datatype ov_stake_call =
    SetStakeToken address address
  | SetMinStake address int
  | SetSlashTreasury address address
  | SetChallengePeriod address int
  | SetStaleThreshold address int
  | SetStaleSlashAmount address int
  | SetStaleReputationPenalty address int
  | SetReputation address address symbol int
  | Stake address symbol int
  | RequestStakeWithdrawal address symbol
  | CancelStakeWithdrawal address symbol
  | WithdrawStake address symbol
  | SlashOracle address address symbol int symbol

datatype ov_data_call =
    SubmitData address symbol symbol int int int
  | BatchSubmitData address symbol "oracle_data_submission list"
  | SubmitDataBatch address symbol "oracle_data_submission list"
  | SubmitEncryptedData address symbol symbol string string int int
  | VerifyTrigger symbol symbol trigger_condition
  | VerifyTriggerFresh symbol symbol trigger_condition int
  | BatchVerifyFresh "oracle_reading_query list"
  | CheckStaleness symbol symbol

datatype ov_call = Setting ov_setting_call | Staking ov_stake_call | Data ov_data_call

section \<open>Types\<close>

definition fits_u32 :: "int \<Rightarrow> bool" where "fits_u32 x \<longleftrightarrow> 0 \<le> x \<and> x \<le> u32_max"
definition fits_u64 :: "int \<Rightarrow> bool" where "fits_u64 x \<longleftrightarrow> 0 \<le> x \<and> x \<le> u64_max"

definition submission_typed :: "oracle_data_submission \<Rightarrow> bool" where
  "submission_typed b \<longleftrightarrow>
     fits_i128 (sb_value b) \<and> fits_u32 (sb_confidence b) \<and> fits_u64 (sb_timestamp b)"

definition condition_typed :: "trigger_condition \<Rightarrow> bool" where
  "condition_typed c \<longleftrightarrow> fits_i128 (tc_threshold c) \<and> fits_i128 (tc_tolerance c)"

definition query_typed_ov :: "oracle_reading_query \<Rightarrow> bool" where
  "query_typed_ov q \<longleftrightarrow> condition_typed (rq_condition q) \<and> fits_u64 (rq_staleness_threshold q)"

primrec setting_typed :: "ov_setting_call \<Rightarrow> bool" where
  "setting_typed (OvInitialize x1) \<longleftrightarrow> True"
| "setting_typed (AddOracle x1 x2 x3 x4) \<longleftrightarrow> fits_u32 x4"
| "setting_typed (UpdateOracleWeight x1 x2 x3 x4) \<longleftrightarrow> fits_u32 x4"
| "setting_typed (RemoveOracle x1 x2 x3) \<longleftrightarrow> True"
| "setting_typed (PauseDataType x1 x2) \<longleftrightarrow> True"
| "setting_typed (ResumeDataType x1 x2) \<longleftrightarrow> True"
| "setting_typed (SetOracleInactivityLimit x1 x2) \<longleftrightarrow> fits_u64 x2"
| "setting_typed (DeactivateInactiveOracles x1) \<longleftrightarrow> True"
| "setting_typed (SetMinConfidence x1 x2) \<longleftrightarrow> fits_u32 x2"
| "setting_typed (SetMaxDataAge x1 x2) \<longleftrightarrow> fits_u64 x2"
| "setting_typed (SetMaxTimestampAge x1 x2) \<longleftrightarrow> fits_u64 x2"
| "setting_typed (SetTimestampFutureBuffer x1 x2) \<longleftrightarrow> fits_u64 x2"
| "setting_typed (SetDataTypeMaxAge x1 x2 x3) \<longleftrightarrow> fits_u64 x3"
| "setting_typed (SetAggregationMethod x1 x2 x3) \<longleftrightarrow> True"
| "setting_typed (SetOutlierConfig x1 x2 x3 x4 x5) \<longleftrightarrow> fits_u32 x4 \<and> fits_u32 x5"
| "setting_typed (SetDataTypeRange x1 x2 x3 x4) \<longleftrightarrow> fits_i128 x3 \<and> fits_i128 x4"
| "setting_typed (SetMinOracleCount x1 x2) \<longleftrightarrow> fits_u32 x2"
| "setting_typed (SetDataTypeMinOracleCount x1 x2 x3) \<longleftrightarrow> fits_u32 x3"
| "setting_typed (SetConsensusThreshold x1 x2 x3) \<longleftrightarrow> fits_u32 x3"
| "setting_typed (SetCrossValidationRule x1 x2 x3 x4 x5) \<longleftrightarrow> fits_i128 x4"
| "setting_typed (RemoveCrossValidationRule x1 x2 x3) \<longleftrightarrow> True"
| "setting_typed (SetMinSubmitInterval x1 x2) \<longleftrightarrow> fits_u64 x2"
| "setting_typed (SetEncryptionRequired x1 x2 x3) \<longleftrightarrow> True"
| "setting_typed (SetOracleGeoWeight x1 x2 x3 x4 x5) \<longleftrightarrow> fits_u32 x5"
| "setting_typed (InvalidateData x1 x2 x3) \<longleftrightarrow> True"
| "setting_typed (OvSetGuardians x1 x2 x3) \<longleftrightarrow> fits_u32 x3"
| "setting_typed (OvUpgrade x1 x2) \<longleftrightarrow> True"
| "setting_typed (OvApproveUpgrade x1 x2) \<longleftrightarrow> True"
| "setting_typed (OvCancelPendingUpgrade x1) \<longleftrightarrow> True"
| "setting_typed (OvProposeNewAdmin x1 x2) \<longleftrightarrow> True"
| "setting_typed (OvApproveAdminChange x1 x2) \<longleftrightarrow> True"
| "setting_typed (OvAcceptAdmin x1) \<longleftrightarrow> True"

primrec stake_typed :: "ov_stake_call \<Rightarrow> bool" where
  "stake_typed (SetStakeToken x1 x2) \<longleftrightarrow> True"
| "stake_typed (SetMinStake x1 x2) \<longleftrightarrow> fits_i128 x2"
| "stake_typed (SetSlashTreasury x1 x2) \<longleftrightarrow> True"
| "stake_typed (SetChallengePeriod x1 x2) \<longleftrightarrow> fits_u64 x2"
| "stake_typed (SetStaleThreshold x1 x2) \<longleftrightarrow> fits_u32 x2"
| "stake_typed (SetStaleSlashAmount x1 x2) \<longleftrightarrow> fits_i128 x2"
| "stake_typed (SetStaleReputationPenalty x1 x2) \<longleftrightarrow> fits_u32 x2"
| "stake_typed (SetReputation x1 x2 x3 x4) \<longleftrightarrow> fits_u32 x4"
| "stake_typed (Stake x1 x2 x3) \<longleftrightarrow> fits_i128 x3"
| "stake_typed (RequestStakeWithdrawal x1 x2) \<longleftrightarrow> True"
| "stake_typed (CancelStakeWithdrawal x1 x2) \<longleftrightarrow> True"
| "stake_typed (WithdrawStake x1 x2) \<longleftrightarrow> True"
| "stake_typed (SlashOracle x1 x2 x3 x4 x5) \<longleftrightarrow> fits_i128 x4"

primrec data_typed :: "ov_data_call \<Rightarrow> bool" where
  "data_typed (SubmitData x1 x2 x3 x4 x5 x6) \<longleftrightarrow> fits_i128 x4 \<and> fits_u32 x5 \<and> fits_u64 x6"
| "data_typed (BatchSubmitData x1 x2 x3) \<longleftrightarrow> list_all submission_typed x3"
| "data_typed (SubmitDataBatch x1 x2 x3) \<longleftrightarrow> list_all submission_typed x3"
| "data_typed (SubmitEncryptedData x1 x2 x3 x4 x5 x6 x7) \<longleftrightarrow> fits_u32 x6 \<and> fits_u64 x7"
| "data_typed (VerifyTrigger x1 x2 x3) \<longleftrightarrow> condition_typed x3"
| "data_typed (VerifyTriggerFresh x1 x2 x3 x4) \<longleftrightarrow> condition_typed x3 \<and> fits_u64 x4"
| "data_typed (BatchVerifyFresh x1) \<longleftrightarrow> list_all query_typed_ov x1"
| "data_typed (CheckStaleness x1 x2) \<longleftrightarrow> True"

primrec ov_typed :: "ov_call \<Rightarrow> bool" where
  "ov_typed (Setting c) \<longleftrightarrow> setting_typed c"
| "ov_typed (Staking c) \<longleftrightarrow> stake_typed c"
| "ov_typed (Data c) \<longleftrightarrow> data_typed c"

section \<open>Dispatch\<close>

definition forget :: "('e, 'a \<times> 's) result \<Rightarrow> ('e, 's) result" where
  "forget r = bindR r (\<lambda>(_, s). Inr s)"

lemma forget_ok [result_simps]: "forget r = Inr s \<longleftrightarrow> (\<exists>x. r = Inr (x, s))"
  by (auto simp: forget_def result_simps)

primrec setting_dispatch ::
  "'t token_ops \<Rightarrow> env \<Rightarrow> ov_setting_call \<Rightarrow> 't ov_state \<Rightarrow> (ov_error, 't ov_state) result" where
  "setting_dispatch tk e (OvInitialize x1) s = ov_initialize e x1 s"
| "setting_dispatch tk e (AddOracle x1 x2 x3 x4) s = add_oracle e x1 x2 x3 x4 s"
| "setting_dispatch tk e (UpdateOracleWeight x1 x2 x3 x4) s = update_oracle_weight e x1 x2 x3 x4 s"
| "setting_dispatch tk e (RemoveOracle x1 x2 x3) s = remove_oracle e x1 x2 x3 s"
| "setting_dispatch tk e (PauseDataType x1 x2) s = pause_data_type e x1 x2 s"
| "setting_dispatch tk e (ResumeDataType x1 x2) s = resume_data_type e x1 x2 s"
| "setting_dispatch tk e (SetOracleInactivityLimit x1 x2) s = set_oracle_inactivity_limit e x1 x2 s"
| "setting_dispatch tk e (DeactivateInactiveOracles x1) s = forget (deactivate_inactive_oracles e x1 s)"
| "setting_dispatch tk e (SetMinConfidence x1 x2) s = set_min_confidence e x1 x2 s"
| "setting_dispatch tk e (SetMaxDataAge x1 x2) s = set_max_data_age e x1 x2 s"
| "setting_dispatch tk e (SetMaxTimestampAge x1 x2) s = set_max_timestamp_age e x1 x2 s"
| "setting_dispatch tk e (SetTimestampFutureBuffer x1 x2) s = set_timestamp_future_buffer e x1 x2 s"
| "setting_dispatch tk e (SetDataTypeMaxAge x1 x2 x3) s = set_data_type_max_age e x1 x2 x3 s"
| "setting_dispatch tk e (SetAggregationMethod x1 x2 x3) s = set_aggregation_method e x1 x2 x3 s"
| "setting_dispatch tk e (SetOutlierConfig x1 x2 x3 x4 x5) s = set_outlier_config e x1 x2 x3 x4 x5 s"
| "setting_dispatch tk e (SetDataTypeRange x1 x2 x3 x4) s = set_data_type_range e x1 x2 x3 x4 s"
| "setting_dispatch tk e (SetMinOracleCount x1 x2) s = set_min_oracle_count e x1 x2 s"
| "setting_dispatch tk e (SetDataTypeMinOracleCount x1 x2 x3) s = set_data_type_min_oracle_count e x1 x2 x3 s"
| "setting_dispatch tk e (SetConsensusThreshold x1 x2 x3) s = set_consensus_threshold e x1 x2 x3 s"
| "setting_dispatch tk e (SetCrossValidationRule x1 x2 x3 x4 x5) s = set_cross_validation_rule e x1 x2 x3 x4 x5 s"
| "setting_dispatch tk e (RemoveCrossValidationRule x1 x2 x3) s = remove_cross_validation_rule e x1 x2 x3 s"
| "setting_dispatch tk e (SetMinSubmitInterval x1 x2) s = set_min_submit_interval e x1 x2 s"
| "setting_dispatch tk e (SetEncryptionRequired x1 x2 x3) s = set_encryption_required e x1 x2 x3 s"
| "setting_dispatch tk e (SetOracleGeoWeight x1 x2 x3 x4 x5) s = set_oracle_geo_weight e x1 x2 x3 x4 x5 s"
| "setting_dispatch tk e (InvalidateData x1 x2 x3) s = invalidate_data e x1 x2 x3 s"
| "setting_dispatch tk e (OvSetGuardians x1 x2 x3) s = ov_set_guardians e x1 x2 x3 s"
| "setting_dispatch tk e (OvUpgrade x1 x2) s = ov_upgrade e x1 x2 s"
| "setting_dispatch tk e (OvApproveUpgrade x1 x2) s = ov_approve_upgrade e x1 x2 s"
| "setting_dispatch tk e (OvCancelPendingUpgrade x1) s = ov_cancel_pending_upgrade e x1 s"
| "setting_dispatch tk e (OvProposeNewAdmin x1 x2) s = ov_propose_new_admin e x1 x2 s"
| "setting_dispatch tk e (OvApproveAdminChange x1 x2) s = ov_approve_admin_change e x1 x2 s"
| "setting_dispatch tk e (OvAcceptAdmin x1) s = ov_accept_admin e x1 s"

primrec stake_dispatch ::
  "'t token_ops \<Rightarrow> env \<Rightarrow> ov_stake_call \<Rightarrow> 't ov_state \<Rightarrow> (ov_error, 't ov_state) result" where
  "stake_dispatch tk e (SetStakeToken x1 x2) s = set_stake_token e x1 x2 s"
| "stake_dispatch tk e (SetMinStake x1 x2) s = set_min_stake e x1 x2 s"
| "stake_dispatch tk e (SetSlashTreasury x1 x2) s = set_slash_treasury e x1 x2 s"
| "stake_dispatch tk e (SetChallengePeriod x1 x2) s = set_challenge_period e x1 x2 s"
| "stake_dispatch tk e (SetStaleThreshold x1 x2) s = set_stale_threshold e x1 x2 s"
| "stake_dispatch tk e (SetStaleSlashAmount x1 x2) s = set_stale_slash_amount e x1 x2 s"
| "stake_dispatch tk e (SetStaleReputationPenalty x1 x2) s = set_stale_reputation_penalty e x1 x2 s"
| "stake_dispatch tk e (SetReputation x1 x2 x3 x4) s = set_reputation e x1 x2 x3 x4 s"
| "stake_dispatch tk e (Stake x1 x2 x3) s = stake tk e x1 x2 x3 s"
| "stake_dispatch tk e (RequestStakeWithdrawal x1 x2) s = request_stake_withdrawal e x1 x2 s"
| "stake_dispatch tk e (CancelStakeWithdrawal x1 x2) s = cancel_stake_withdrawal e x1 x2 s"
| "stake_dispatch tk e (WithdrawStake x1 x2) s = withdraw_stake tk e x1 x2 s"
| "stake_dispatch tk e (SlashOracle x1 x2 x3 x4 x5) s = slash_oracle tk e x1 x2 x3 x4 x5 s"

primrec data_dispatch ::
  "'t token_ops \<Rightarrow> env \<Rightarrow> ov_data_call \<Rightarrow> 't ov_state \<Rightarrow> (ov_error, 't ov_state) result" where
  "data_dispatch tk e (SubmitData x1 x2 x3 x4 x5 x6) s = submit_data tk e x1 x2 x3 x4 x5 x6 s"
| "data_dispatch tk e (BatchSubmitData x1 x2 x3) s = batch_submit_data tk e x1 x2 x3 s"
| "data_dispatch tk e (SubmitDataBatch x1 x2 x3) s = submit_data_batch tk e x1 x2 x3 s"
| "data_dispatch tk e (SubmitEncryptedData x1 x2 x3 x4 x5 x6 x7) s = submit_encrypted_data tk e x1 x2 x3 x4 x5 x6 x7 s"
| "data_dispatch tk e (VerifyTrigger x1 x2 x3) s = forget (verify_trigger e x1 x2 x3 s)"
| "data_dispatch tk e (VerifyTriggerFresh x1 x2 x3 x4) s = forget (verify_trigger_fresh e x1 x2 x3 x4 s)"
| "data_dispatch tk e (BatchVerifyFresh x1) s = forget (batch_verify_fresh e x1 s)"
| "data_dispatch tk e (CheckStaleness x1 x2) s = Inr (snd (check_staleness e x1 x2 s))"

primrec ov_dispatch ::
  "'t token_ops \<Rightarrow> env \<Rightarrow> ov_call \<Rightarrow> 't ov_state \<Rightarrow> (ov_error, 't ov_state) result" where
  "ov_dispatch tk e (Setting c) s = setting_dispatch tk e c s"
| "ov_dispatch tk e (Staking c) s = stake_dispatch tk e c s"
| "ov_dispatch tk e (Data c) s = data_dispatch tk e c s"

definition ov_exec ::
  "'t token_ops \<Rightarrow> env \<Rightarrow> ov_call \<Rightarrow> 't ov_state \<Rightarrow> (ov_error, 't ov_state) result" where
  "ov_exec tk e c s = (if ov_typed c then ov_dispatch tk e c s else trap)"

lemma ov_exec_ok [result_simps]:
  "ov_exec tk e c s = Inr s' \<longleftrightarrow> ov_typed c \<and> ov_dispatch tk e c s = Inr s'"
  by (auto simp: ov_exec_def)

end
