(* ===== verification/OV_Invariants.thy ===== *)
theory OV_Invariants
  imports OV_System
begin

text \<open>
  The state invariant of the oracle verifier. The registry: the list of a data type holds
  each active oracle once, at most ten, and every registration is filed under its own key
  with a legal weight. The readings: at most one per oracle and key, by registered oracles,
  carrying the newest timestamp that oracle has published for the key. The reputations:
  shares of accurate submissions, as scores from 0 to 1000.
\<close>

section \<open>The invariant\<close>

definition registry :: "'t ov_state \<Rightarrow> (symbol \<times> address \<Rightarrow> oracle_entry option) \<times> (symbol \<Rightarrow> address list option)" where
  "registry s = (ov_oracle s, ov_oracle_list s)"

definition readings ::
  "'t ov_state \<Rightarrow> (symbol \<times> symbol \<Rightarrow> oracle_data_point list option) \<times> (symbol \<times> symbol \<times> address \<Rightarrow> int option)" where
  "readings s = (ov_data_points s, ov_last_reading_timestamp s)"

definition registry_ok :: "'t ov_state \<Rightarrow> bool" where
  "registry_ok s \<longleftrightarrow>
     (\<forall>dt. distinct (oracles_of dt s) \<and> int (length (oracles_of dt s)) \<le> MAX_ORACLES_PER_KEY
        \<and> set (oracles_of dt s) = {orc. entry_active dt orc s})
   \<and> (\<forall>dt orc entry. ov_oracle s (dt, orc) = Some entry \<longrightarrow>
        oe_oracle entry = orc \<and> oe_data_type entry = dt \<and> 0 < oe_weight entry \<and> oe_weight entry \<le> MAX_WEIGHT)"

definition reading_ok :: "symbol \<Rightarrow> symbol \<Rightarrow> 't ov_state \<Rightarrow> oracle_data_point \<Rightarrow> bool" where
  "reading_ok dt k s p \<longleftrightarrow> 0 < dp_confidence p \<and> dp_confidence p \<le> 100 \<and> fits_i128 (dp_value p)
     \<and> ov_oracle s (dt, dp_oracle p) \<noteq> None
     \<and> ov_last_reading_timestamp s (dt, k, dp_oracle p) = Some (dp_timestamp p)"

definition readings_ok :: "'t ov_state \<Rightarrow> bool" where
  "readings_ok s \<longleftrightarrow> (\<forall>dt k. distinct (map dp_oracle (points_of dt k s))
     \<and> length (points_of dt k s) \<le> MAX_DATA_POINTS \<and> (\<forall>p \<in> set (points_of dt k s). reading_ok dt k s p))"

definition reputation_ok :: "oracle_reputation \<Rightarrow> bool" where
  "reputation_ok r \<longleftrightarrow> 0 \<le> rep_score r \<and> rep_score r \<le> 1000
     \<and> 0 \<le> rep_accurate_submissions r \<and> rep_accurate_submissions r \<le> rep_total_submissions r"

definition reputations_ok :: "'t ov_state \<Rightarrow> bool" where
  "reputations_ok s \<longleftrightarrow> (\<forall>dt orc. reputation_ok (get_reputation orc dt s))"

definition ov_inv :: "'t ov_state \<Rightarrow> bool" where
  "ov_inv s \<longleftrightarrow> registry_ok s \<and> readings_ok s \<and> reputations_ok s"

text \<open>A call that touches none of the three keeps the invariant.\<close>

definition untouched :: "'t ov_state \<Rightarrow> 't ov_state \<Rightarrow> bool" where
  "untouched s s' \<longleftrightarrow> registry s' = registry s \<and> readings s' = readings s \<and> ov_reputation s' = ov_reputation s"

lemmas registry_defs = registry_ok_def oracles_of_def entry_active_def registry_def
lemmas readings_defs = readings_ok_def reading_ok_def points_of_def readings_def

lemma registry_ok_cong: "registry s' = registry s \<Longrightarrow> registry_ok s' = registry_ok s"
  by (simp add: registry_defs)

lemma readings_ok_mono:
  assumes "readings s' = readings s" "readings_ok s" "\<And>k. ov_oracle s k \<noteq> None \<Longrightarrow> ov_oracle s' k \<noteq> None"
  shows "readings_ok s'"
  using assms unfolding readings_defs by fastforce

lemma reputations_ok_cong: "ov_reputation s' = ov_reputation s \<Longrightarrow> reputations_ok s' = reputations_ok s"
  by (simp add: reputations_ok_def get_reputation_def)

lemma untouched_inv: "untouched s s' \<Longrightarrow> ov_inv s \<Longrightarrow> ov_inv s'"
  unfolding untouched_def ov_inv_def
  by (metis registry_ok_cong readings_ok_mono reputations_ok_cong registry_def prod.inject)

lemma untouched_refl [simp]: "untouched s s"
  by (simp add: untouched_def)

lemma untouched_trans: "untouched s s1 \<Longrightarrow> untouched s1 s2 \<Longrightarrow> untouched s s2"
  by (simp add: untouched_def)

text \<open>The fields the invariant does not speak of.\<close>

lemma untouched_updates [simp]:
  "untouched s (ov_publish ev t) = untouched s t"
  "untouched s (t\<lparr>ov_initialized := x0\<rparr>) = untouched s t"
  "untouched s (t\<lparr>ov_admin := x1\<rparr>) = untouched s t"
  "untouched s (t\<lparr>ov_min_confidence := x5\<rparr>) = untouched s t"
  "untouched s (t\<lparr>ov_max_data_age := x6\<rparr>) = untouched s t"
  "untouched s (t\<lparr>ov_pending_admin := x7\<rparr>) = untouched s t"
  "untouched s (t\<lparr>ov_pending_admin_since := x8\<rparr>) = untouched s t"
  "untouched s (t\<lparr>ov_min_oracle_count := x9\<rparr>) = untouched s t"
  "untouched s (t\<lparr>ov_min_submit_interval := x10\<rparr>) = untouched s t"
  "untouched s (t\<lparr>ov_last_submission := x11\<rparr>) = untouched s t"
  "untouched s (t\<lparr>ov_stake_token := x13\<rparr>) = untouched s t"
  "untouched s (t\<lparr>ov_min_stake := x14\<rparr>) = untouched s t"
  "untouched s (t\<lparr>ov_stake_amt := x15\<rparr>) = untouched s t"
  "untouched s (t\<lparr>ov_slash_treasury := x16\<rparr>) = untouched s t"
  "untouched s (t\<lparr>ov_guardians := x17\<rparr>) = untouched s t"
  "untouched s (t\<lparr>ov_guardian_threshold := x18\<rparr>) = untouched s t"
  "untouched s (t\<lparr>ov_upgrade_pending := x19\<rparr>) = untouched s t"
  "untouched s (t\<lparr>ov_admin_change_pending := x20\<rparr>) = untouched s t"
  "untouched s (t\<lparr>ov_data_type_max_age := x22\<rparr>) = untouched s t"
  "untouched s (t\<lparr>ov_aggregation_method := x23\<rparr>) = untouched s t"
  "untouched s (t\<lparr>ov_encryption_required := x24\<rparr>) = untouched s t"
  "untouched s (t\<lparr>ov_encrypted_points := x25\<rparr>) = untouched s t"
  "untouched s (t\<lparr>ov_max_timestamp_age := x26\<rparr>) = untouched s t"
  "untouched s (t\<lparr>ov_timestamp_future_buffer := x27\<rparr>) = untouched s t"
  "untouched s (t\<lparr>ov_data_type_min_oracle_count := x28\<rparr>) = untouched s t"
  "untouched s (t\<lparr>ov_consensus_threshold := x29\<rparr>) = untouched s t"
  "untouched s (t\<lparr>ov_outlier_config := x30\<rparr>) = untouched s t"
  "untouched s (t\<lparr>ov_cross_validation_rule := x31\<rparr>) = untouched s t"
  "untouched s (t\<lparr>ov_cross_validation_targets := x32\<rparr>) = untouched s t"
  "untouched s (t\<lparr>ov_geo_weight := x33\<rparr>) = untouched s t"
  "untouched s (t\<lparr>ov_data_type_paused := x34\<rparr>) = untouched s t"
  "untouched s (t\<lparr>ov_stale_count := x35\<rparr>) = untouched s t"
  "untouched s (t\<lparr>ov_stale_threshold := x36\<rparr>) = untouched s t"
  "untouched s (t\<lparr>ov_stale_slash_amount := x37\<rparr>) = untouched s t"
  "untouched s (t\<lparr>ov_stale_reputation_penalty := x38\<rparr>) = untouched s t"
  "untouched s (t\<lparr>ov_inactivity_limit := x39\<rparr>) = untouched s t"
  "untouched s (t\<lparr>ov_data_type_range := x40\<rparr>) = untouched s t"
  "untouched s (t\<lparr>ov_challenge_period := x41\<rparr>) = untouched s t"
  "untouched s (t\<lparr>ov_stake_withdrawal_req := x42\<rparr>) = untouched s t"
  "untouched s (t\<lparr>ov_global_oracle := x43\<rparr>) = untouched s t"
  "untouched s (t\<lparr>ov_wasm := x44\<rparr>) = untouched s t"
  "untouched s (t\<lparr>ov_tokens := x45\<rparr>) = untouched s t"
  "untouched s (t\<lparr>ov_events := x46\<rparr>) = untouched s t"
  by (simp_all add: untouched_def registry_def readings_def ov_publish_def)

lemma fresh_inv: "ov_inv (ov_fresh t)"
  by (simp add: ov_inv_def registry_defs readings_defs reputations_ok_def reputation_ok_def
      get_reputation_def no_reputation_def ov_fresh_def num_defs)

section \<open>The registry\<close>

lemma publish_fields [simp]:
  "registry (ov_publish ev s) = registry s" "readings (ov_publish ev s) = readings s"
  "ov_reputation (ov_publish ev s) = ov_reputation s" "ov_oracle (ov_publish ev s) = ov_oracle s"
  by (simp_all add: ov_publish_def registry_def readings_def)

lemma registry_okD:
  assumes "registry_ok s"
  shows "distinct (oracles_of dt s)" "int (length (oracles_of dt s)) \<le> MAX_ORACLES_PER_KEY"
    "orc \<in> set (oracles_of dt s) \<longleftrightarrow> entry_active dt orc s"
  using assms by (auto simp: registry_ok_def)

lemma enter_oracle_registry:
  assumes "enter_oracle orc dt w s = Inr s'" "registry_ok s" "ov_oracle s (dt, orc) = None"
    and "0 < w" "w \<le> MAX_WEIGHT" "int (length (oracles_of dt s)) < MAX_ORACLES_PER_KEY"
  shows "registry_ok s'"
proof -
  have new: "orc \<notin> set (oracles_of dt s)"
    using registry_okD(3)[OF assms(2)] assms(3) by (simp add: entry_active_def)
  then have s': "s' = s\<lparr>ov_oracle := (ov_oracle s)((dt, orc) \<mapsto>
        \<lparr>oe_oracle = orc, oe_data_type = dt, oe_weight = w, oe_active = True\<rparr>),
      ov_oracle_list := (ov_oracle_list s)(dt \<mapsto> oracles_of dt s @ [orc])\<rparr>"
    using assms(1) by (auto simp: enter_oracle_def Let_def oracles_of_def split: if_splits)
  have list: "oracles_of dt' s' = (if dt' = dt then oracles_of dt s @ [orc] else oracles_of dt' s)" for dt'
    by (simp add: s' oracles_of_def)
  have act: "entry_active dt' a s' \<longleftrightarrow> (dt' = dt \<and> a = orc) \<or> entry_active dt' a s" for dt' a
    by (auto simp: s' entry_active_def)
  show ?thesis
    unfolding registry_ok_def list act using registry_okD[OF assms(2)] new assms(2,4-6)
    by (auto simp: s' registry_ok_def split: if_splits)
qed

lemma set_entry_registry:
  assumes "registry_ok s" "ov_oracle s (dt, orc) = Some entry" "0 < w" "w \<le> MAX_WEIGHT"
  shows "registry_ok (s\<lparr>ov_oracle := (ov_oracle s)((dt, orc) \<mapsto> entry\<lparr>oe_weight := w\<rparr>)\<rparr>)" (is "registry_ok ?s")
proof -
  have "oracles_of dt' ?s = oracles_of dt' s" "entry_active dt' a ?s = entry_active dt' a s" for dt' a
    using assms(2) by (simp_all add: oracles_of_def entry_active_def)
  then show ?thesis using assms by (auto simp: registry_ok_def)
qed

lemma inactive_registry:
  assumes "registry_ok s" "ov_oracle s (dt, orc) = Some entry"
    and "ov_oracle s' = (ov_oracle s)((dt, orc) \<mapsto> entry\<lparr>oe_active := False\<rparr>)"
    and "ov_oracle_list s' = (ov_oracle_list s)(dt \<mapsto> filter (\<lambda>a. a \<noteq> orc) (oracles_of dt s))"
  shows "registry_ok s'"
proof -
  have list: "oracles_of dt' s' = (if dt' = dt then filter (\<lambda>a. a \<noteq> orc) (oracles_of dt s) else oracles_of dt' s)" for dt'
    by (simp add: assms(4) oracles_of_def)
  have act: "entry_active dt' a s' \<longleftrightarrow> entry_active dt' a s \<and> \<not> (dt' = dt \<and> a = orc)" for dt' a
    by (auto simp: assms(3) entry_active_def)
  have len: "int (length (filter P (oracles_of dt s))) \<le> MAX_ORACLES_PER_KEY" for P
    using registry_okD(2)[OF assms(1), of dt] length_filter_le[of P "oracles_of dt s"] by linarith
  show ?thesis
    unfolding registry_ok_def list act
    using registry_okD[OF assms(1)] assms(1,2) len by (auto simp: assms(3) registry_ok_def)
qed

lemma deactivate_ok:
  assumes "deactivate_oracle dt orc s = Inr s'"
  shows "registry_ok s \<Longrightarrow> registry_ok s'" "readings s' = readings s" "ov_reputation s' = ov_reputation s"
    "ov_oracle s k \<noteq> None \<Longrightarrow> ov_oracle s' k \<noteq> None"
proof -
  obtain entry where entry: "ov_oracle s (dt, orc) = Some entry"
    and s': "s' = s\<lparr>ov_oracle := (ov_oracle s)((dt, orc) \<mapsto> entry\<lparr>oe_active := False\<rparr>),
        ov_oracle_list := (ov_oracle_list s)(dt \<mapsto> filter (\<lambda>a. a \<noteq> orc) (oracles_of dt s)),
        ov_global_oracle := (ov_global_oracle s)(orc := None)\<rparr>"
    using assms by (auto simp: deactivate_oracle_def drop_from_list_def oracles_of_def Let_def result_simps)
  show "registry_ok s \<Longrightarrow> registry_ok s'"
    by (erule inactive_registry[OF _ entry]) (simp_all add: s')
  show "readings s' = readings s" "ov_reputation s' = ov_reputation s"
    "ov_oracle s k \<noteq> None \<Longrightarrow> ov_oracle s' k \<noteq> None"
    by (auto simp: s' readings_def)
qed

lemma deactivate_inv: "deactivate_oracle dt orc s = Inr s' \<Longrightarrow> ov_inv s \<Longrightarrow> ov_inv s'"
  unfolding ov_inv_def using deactivate_ok readings_ok_mono reputations_ok_cong by metis

lemma publish_inv [simp]: "ov_inv (ov_publish ev s) = ov_inv s"
proof -
  have "untouched s (ov_publish ev s)" "untouched (ov_publish ev s) s" by (simp_all add: untouched_def)
  then show ?thesis using untouched_inv by blast
qed

lemma deactivate_offline_inv:
  "deactivate_offline e dt orcs s = Inr (l, s') \<Longrightarrow> ov_inv s \<Longrightarrow> ov_inv s'"
proof (induction orcs arbitrary: s l)
  case (Cons orc orcs)
  show ?case
  proof (cases "oracle_offline e dt orc s")
    case True
    then obtain s1 l' where "deactivate_oracle dt orc s = Inr s1"
      "deactivate_offline e dt orcs (ov_publish (OvOracleAutoDeactivated orc dt) s1) = Inr (l', s')"
      using Cons.prems(1) by (auto simp: result_simps)
    then show ?thesis using Cons.IH Cons.prems(2) deactivate_inv by fastforce
  qed (use Cons in simp)
qed simp

lemma add_oracle_inv:
  assumes "add_oracle e a orc dt w s = Inr s'" "fits_u32 w" "ov_inv s"
  shows "ov_inv s'"
proof -
  let ?s1 = "s\<lparr>ov_global_oracle := (ov_global_oracle s)(orc \<mapsto> True)\<rparr>"
  obtain s2 where s2: "enter_oracle orc dt w ?s1 = Inr s2" "s' = ov_publish (OvOracleAdded orc dt w) s2"
    and guards: "w \<noteq> 0" "w \<le> MAX_WEIGHT" "ov_oracle s (dt, orc) = None"
      "int (length (oracles_of dt ?s1)) < MAX_ORACLES_PER_KEY"
    using assms(1) by (auto simp: add_oracle_def Let_def bindR_eq_Inr if_Inl_eq_Inr)
  have "untouched s ?s1" by (simp add: untouched_def registry_def readings_def)
  then have "ov_inv ?s1" using assms(3) untouched_inv by blast
  moreover have "registry_ok s2"
    using enter_oracle_registry[OF s2(1)] calculation guards assms(2)
    by (simp add: ov_inv_def fits_u32_def)
  moreover have "readings s2 = readings ?s1" "ov_reputation s2 = ov_reputation ?s1"
    "ov_oracle ?s1 k \<noteq> None \<Longrightarrow> ov_oracle s2 k \<noteq> None" for k
    using s2(1) by (auto simp: enter_oracle_def Let_def readings_def split: if_splits)
  ultimately have "ov_inv s2"
    unfolding ov_inv_def using readings_ok_mono[of s2 ?s1] reputations_ok_cong[of s2 ?s1] by blast
  then show ?thesis by (simp add: s2(2))
qed

lemma update_weight_inv:
  assumes "update_oracle_weight e a orc dt w s = Inr s'" "fits_u32 w" "ov_inv s"
  shows "ov_inv s'"
proof -
  obtain entry where entry: "ov_oracle s (dt, orc) = Some entry" "w \<noteq> 0" "w \<le> MAX_WEIGHT"
    and s': "s' = s\<lparr>ov_oracle := (ov_oracle s)((dt, orc) \<mapsto> entry\<lparr>oe_weight := w\<rparr>)\<rparr>"
    using assms(1) by (auto simp: update_oracle_weight_def result_simps)
  have "registry_ok s'" unfolding s'
    by (rule set_entry_registry[OF _ entry(1)]) (use assms(2,3) entry in \<open>auto simp: ov_inv_def fits_u32_def\<close>)
  moreover have "readings s' = readings s" "ov_reputation s' = ov_reputation s"
    "ov_oracle s k \<noteq> None \<Longrightarrow> ov_oracle s' k \<noteq> None" for k
    by (auto simp: s' readings_def)
  ultimately show ?thesis
    using assms(3) readings_ok_mono[of s' s] reputations_ok_cong[of s' s] unfolding ov_inv_def by blast
qed

lemma remove_oracle_inv: "remove_oracle e a orc dt s = Inr s' \<Longrightarrow> ov_inv s \<Longrightarrow> ov_inv s'"
  by (auto simp: remove_oracle_def result_simps intro: deactivate_inv)

section \<open>Settings and stakes\<close>

lemma approvals_untouched:
  "ov_approve_upgrade e g h s = Inr s' \<Longrightarrow> untouched s s'"
  "ov_approve_admin_change e g a s = Inr s' \<Longrightarrow> untouched s s'"
  unfolding ov_approve_upgrade_def ov_approve_admin_change_def Let_def bindR_eq_Inr if_Inl_eq_Inr
  by (elim exE conjE; simp only: sum.inject split: if_split_asm; auto)+

lemma invalidate_inv: "invalidate_data e a dt k s = Inr s' \<Longrightarrow> ov_inv s \<Longrightarrow> ov_inv s'"
proof -
  assume "invalidate_data e a dt k s = Inr s'" "ov_inv s"
  then have s': "s' = ov_publish (OvOracleDataInvalidated dt k)
      (s\<lparr>ov_data_points := (ov_data_points s)((dt, k) := None)\<rparr>)" (is "_ = ov_publish _ ?s")
    by (auto simp: invalidate_data_def result_simps)
  have "registry ?s = registry s" "ov_reputation ?s = ov_reputation s" by (simp_all add: registry_def)
  moreover have "readings_ok ?s" using \<open>ov_inv s\<close> by (auto simp: ov_inv_def readings_defs)
  ultimately show "ov_inv s'"
    using \<open>ov_inv s\<close> registry_ok_cong[of ?s s] reputations_ok_cong[of ?s s]
    unfolding s' publish_inv by (simp add: ov_inv_def)
qed

lemma setting_inv:
  assumes "setting_dispatch tk e c s = Inr s'" "setting_typed c" "ov_inv s"
  shows "ov_inv s'"
proof -
  note keep = untouched_inv[OF _ assms(3)]
  show ?thesis
  proof (cases c)
    case (AddOracle a orc dt w)
    with assms show ?thesis by (auto intro: add_oracle_inv)
  next
    case (UpdateOracleWeight a orc dt w)
    with assms show ?thesis by (auto intro: update_weight_inv)
  next
    case (RemoveOracle a orc dt)
    with assms show ?thesis by (auto intro: remove_oracle_inv)
  next
    case (DeactivateInactiveOracles dt)
    with assms show ?thesis
      by (auto simp: forget_ok deactivate_inactive_oracles_def intro: deactivate_offline_inv)
  next
    case (InvalidateData a dt k)
    with assms show ?thesis by (auto intro: invalidate_inv)
  next
    case (OvApproveUpgrade g h)
    with assms show ?thesis by (auto intro: keep approvals_untouched)
  next
    case (OvApproveAdminChange g a)
    with assms show ?thesis by (auto intro: keep approvals_untouched)
  next
    case (SetCrossValidationRule a x y m d)
    with assms show ?thesis
      by (auto simp: set_cross_validation_rule_def bindR_eq_Inr if_Inl_eq_Inr Let_def intro!: keep)
  next
    case (OvUpgrade a h)
    with assms show ?thesis
      by (auto simp: ov_upgrade_def bindR_eq_Inr intro!: keep split: if_splits)
  next
    case (OvProposeNewAdmin a n)
    with assms show ?thesis
      by (auto simp: ov_propose_new_admin_def bindR_eq_Inr if_Inl_eq_Inr intro!: keep split: if_splits)
  qed (use assms(1) in \<open>auto simp: bindR_eq_Inr if_Inl_eq_Inr
      ov_initialize_def pause_data_type_def resume_data_type_def set_oracle_inactivity_limit_def
      set_min_confidence_def set_max_data_age_def set_max_timestamp_age_def
      set_timestamp_future_buffer_def set_data_type_max_age_def set_aggregation_method_def
      set_outlier_config_def set_data_type_range_def set_min_oracle_count_def
      set_data_type_min_oracle_count_def set_consensus_threshold_def
      remove_cross_validation_rule_def set_min_submit_interval_def set_encryption_required_def
      set_oracle_geo_weight_def ov_set_guardians_def ov_cancel_pending_upgrade_def
      ov_accept_admin_def intro!: keep\<close>)
qed

lemma pay_treasury_untouched: "pay_treasury tk e n s = Inr s' \<Longrightarrow> untouched s s'"
  by (auto simp: pay_treasury_def result_simps untouched_def registry_def readings_def split: option.splits)

lemma slash_request_untouched: "untouched s (slash_request dt orc n s)"
  by (simp add: slash_request_def Let_def untouched_def registry_def readings_def split: option.splits)

lemma drop_underfunded_inv: "ov_inv s \<Longrightarrow> ov_inv (drop_underfunded dt orc n s)"
proof -
  assume inv: "ov_inv s"
  let ?s = "drop_underfunded dt orc n s"
  consider "?s = s" | entry where "ov_oracle s (dt, orc) = Some entry"
      "?s = s\<lparr>ov_oracle := (ov_oracle s)((dt, orc) \<mapsto> entry\<lparr>oe_active := False\<rparr>),
        ov_oracle_list := (ov_oracle_list s)(dt \<mapsto> filter (\<lambda>a. a \<noteq> orc) (oracles_of dt s))\<rparr>"
    unfolding drop_underfunded_def Let_def
    by (cases "ov_oracle s (dt, orc)"; fastforce split: if_splits)
  then show "ov_inv ?s"
  proof cases
    case 2
    have "registry_ok ?s" by (rule inactive_registry[OF _ 2(1)]) (use inv in \<open>simp_all add: 2(2) ov_inv_def\<close>)
    moreover have "readings_ok ?s"
      by (rule readings_ok_mono[of _ s]) (use inv in \<open>auto simp: 2(2) ov_inv_def readings_def\<close>)
    moreover have "reputations_ok ?s"
      using inv reputations_ok_cong[of ?s s] by (simp add: 2(2) ov_inv_def)
    ultimately show ?thesis by (simp add: ov_inv_def)
  qed (use inv in simp)
qed

lemma slash_oracle_inv: "slash_oracle tk e a orc dt n r s = Inr s' \<Longrightarrow> ov_inv s \<Longrightarrow> ov_inv s'"
proof -
  assume step: "slash_oracle tk e a orc dt n r s = Inr s'" and inv: "ov_inv s"
  let ?m = "min n (get_oracle_stake dt orc s)"
  let ?s1 = "s\<lparr>ov_stake_amt := (ov_stake_amt s)((dt, orc) \<mapsto> get_oracle_stake dt orc s - ?m)\<rparr>"
  obtain s2 where s2: "pay_treasury tk e ?m (slash_request dt orc ?m ?s1) = Inr s2"
    and s': "s' = ov_publish (OvOracleSlashed orc dt ?m (get_oracle_stake dt orc s - ?m) r)
      (drop_underfunded dt orc (get_oracle_stake dt orc s - ?m) s2)"
    using step by (auto simp: slash_oracle_def Let_def result_simps)
  have "untouched s ?s1" by (simp add: untouched_def registry_def readings_def)
  then have "untouched s s2"
    using slash_request_untouched pay_treasury_untouched[OF s2] untouched_trans by metis
  then have "ov_inv s2" using inv untouched_inv by blast
  then show "ov_inv s'" by (simp add: s' drop_underfunded_inv)
qed

text \<open>A new reputation of one oracle.\<close>

lemma reputation_inv:
  assumes "ov_inv s" "reputation_ok r" "untouched (s\<lparr>ov_reputation := (ov_reputation s)((dt, orc) \<mapsto> r)\<rparr>) s'"
  shows "ov_inv s'"
proof -
  let ?s = "s\<lparr>ov_reputation := (ov_reputation s)((dt, orc) \<mapsto> r)\<rparr>"
  have "registry ?s = registry s" "readings ?s = readings s" "ov_oracle ?s = ov_oracle s"
    by (simp_all add: registry_def readings_def)
  moreover have "reputations_ok ?s"
    using assms(1,2) by (auto simp: ov_inv_def reputations_ok_def get_reputation_def)
  ultimately have "ov_inv ?s"
    using assms(1) registry_ok_cong[of ?s s] readings_ok_mono[of ?s s] by (auto simp: ov_inv_def)
  then show ?thesis using assms(3) untouched_inv by blast
qed

lemma reputationD: "ov_inv s \<Longrightarrow> reputation_ok (get_reputation orc dt s)"
  by (simp add: ov_inv_def reputations_ok_def)

lemma set_reputation_inv:
  assumes "set_reputation e a orc dt n s = Inr s'" "fits_u32 n" "ov_inv s"
  shows "ov_inv s'"
proof -
  let ?r = "(get_reputation orc dt s)\<lparr>rep_score := n, rep_last_updated := timestamp e\<rparr>"
  have s': "s' = s\<lparr>ov_reputation := (ov_reputation s)((dt, orc) \<mapsto> ?r)\<rparr>" "n \<le> 1000"
    using assms(1) by (simp_all add: set_reputation_def bindR_eq_Inr if_Inl_eq_Inr)
  have "reputation_ok ?r"
    using reputationD[OF assms(3), of orc dt] assms(2) s'(2) by (simp add: reputation_ok_def fits_u32_def)
  then show ?thesis by (rule reputation_inv[OF assms(3), where dt = dt and orc = orc]) (simp add: s'(1))
qed

lemma stake_inv:
  assumes "stake_dispatch tk e c s = Inr s'" "stake_typed c" "ov_inv s"
  shows "ov_inv s'"
proof -
  note keep = untouched_inv[OF _ assms(3)]
  show ?thesis
  proof (cases c)
    case (SetReputation a orc dt n)
    with assms show ?thesis by (auto intro: set_reputation_inv)
  next
    case (SlashOracle a orc dt n r)
    with assms show ?thesis by (auto intro: slash_oracle_inv)
  next
    case (WithdrawStake orc dt)
    with assms show ?thesis
      by (auto simp: withdraw_stake_def bindR_eq_Inr if_Inl_eq_Inr Let_def intro!: keep)
  next
    case (RequestStakeWithdrawal orc dt)
    with assms show ?thesis
      by (auto simp: request_stake_withdrawal_def bindR_eq_Inr if_Inl_eq_Inr Let_def intro!: keep)
  qed (use assms(1) in \<open>auto simp: bindR_eq_Inr if_Inl_eq_Inr
        set_stake_token_def set_min_stake_def set_slash_treasury_def set_challenge_period_def
        set_stale_threshold_def set_stale_slash_amount_def set_stale_reputation_penalty_def
        stake_def cancel_stake_withdrawal_def intro!: keep\<close>)
qed

section \<open>Ratings\<close>

lemma share_bounded:
  assumes "0 \<le> a" "a \<le> n" "0 < (n::int)"
  shows "0 \<le> a * 1000 div n" "a * 1000 div n \<le> 1000"
proof -
  have "a * 1000 div n \<le> n * 1000 div n" using assms by (intro zdiv_mono1) auto
  then show "0 \<le> a * 1000 div n" "a * 1000 div n \<le> 1000"
    using assms by (simp_all add: pos_imp_zdiv_nonneg_iff)
qed

text \<open>The cast to \<^verbatim>\<open>u32\<close> loses nothing.\<close>

lemma update_reputation_eq:
  assumes "reputation_ok (get_reputation orc dt s)" "update_reputation e orc dt acc s = Inr s'"
  shows "\<exists>r. s' = ov_publish (OvReputationUpdated orc dt (rep_score r) (rep_accurate_submissions r)
         (rep_total_submissions r)) (s\<lparr>ov_reputation := (ov_reputation s)((dt, orc) \<mapsto> r)\<rparr>)
     \<and> rep_total_submissions r = rep_total_submissions (get_reputation orc dt s) + 1
     \<and> rep_accurate_submissions r = rep_accurate_submissions (get_reputation orc dt s) + (if acc then 1 else 0)
     \<and> rep_score r = rep_accurate_submissions r * 1000 div rep_total_submissions r"
proof -
  let ?r0 = "get_reputation orc dt s"
  let ?a = "rep_accurate_submissions ?r0 + (if acc then 1 else 0)"
  let ?n = "rep_total_submissions ?r0 + 1"
  have r0: "0 \<le> ?a" "?a \<le> ?n" "0 < ?n" using assms(1) by (auto simp: reputation_ok_def)
  then have "?a * 1000 div ?n mod 2 ^ 32 = ?a * 1000 div ?n"
    using share_bounded[of ?a ?n] by (intro mod_pos_pos_trivial) auto
  then show ?thesis
    using assms(2) r0
    by (cases acc; simp add: update_reputation_def Let_def bindR_eq_Inr u64_eq_Inr)
       (elim exE conjE; intro exI[of _ "?r0\<lparr>rep_total_submissions := ?n,
          rep_accurate_submissions := ?a, rep_score := ?a * 1000 div ?n, rep_last_updated := timestamp e\<rparr>"]; simp)+
qed

lemma update_reputation_inv:
  assumes "update_reputation e orc dt acc s = Inr s'" "ov_inv s"
  shows "ov_inv s'"
proof -
  note ok = reputationD[OF assms(2), of orc dt]
  obtain r where s': "s' = ov_publish (OvReputationUpdated orc dt (rep_score r) (rep_accurate_submissions r)
         (rep_total_submissions r)) (s\<lparr>ov_reputation := (ov_reputation s)((dt, orc) \<mapsto> r)\<rparr>)"
    and r: "rep_total_submissions r = rep_total_submissions (get_reputation orc dt s) + 1"
      "rep_accurate_submissions r = rep_accurate_submissions (get_reputation orc dt s) + (if acc then 1 else 0)"
      "rep_score r = rep_accurate_submissions r * 1000 div rep_total_submissions r"
    using update_reputation_eq[OF ok assms(1)] by blast
  have "reputation_ok r"
    using ok r share_bounded[of "rep_accurate_submissions r" "rep_total_submissions r"]
    by (auto simp: reputation_ok_def)
  then show ?thesis by (rule reputation_inv[OF assms(2), where dt = dt and orc = orc]) (simp add: s')
qed

lemma rate_oracles_inv: "rate_oracles e dt tol m ps s = Inr s' \<Longrightarrow> ov_inv s \<Longrightarrow> ov_inv s'"
proof (induction ps arbitrary: s)
  case (Cons p ps)
  then show ?case
    by (cases "fresh_reading e dt s p \<and> entry_active dt (dp_oracle p) s")
       (auto simp: bindR_eq_Inr intro: update_reputation_inv)
qed simp

lemma verify_trigger_inv: "verify_trigger e dt k c s = Inr (b, s') \<Longrightarrow> ov_inv s \<Longrightarrow> ov_inv s'"
  by (auto simp: verify_trigger_def bindR_eq_Inr intro: rate_oracles_inv)

lemma verify_fresh_inv: "verify_trigger_fresh e dt k c n s = Inr (b, s') \<Longrightarrow> ov_inv s \<Longrightarrow> ov_inv s'"
  unfolding verify_trigger_fresh_def bindR_eq_Inr if_Inl_eq_Inr
  by (elim exE conjE) (simp, metis rate_oracles_inv publish_inv)

lemma batch_verify_inv: "batch_verify_fresh e qs s = Inr (bs, s') \<Longrightarrow> ov_inv s \<Longrightarrow> ov_inv s'"
proof (induction qs arbitrary: s bs)
  case (Cons q qs)
  then obtain b s1 bs1 where "verify_trigger_fresh e (rq_data_type q) (rq_key q) (rq_condition q)
      (rq_staleness_threshold q) s = Inr (b, s1)" "batch_verify_fresh e qs s1 = Inr (bs1, s')"
    by (auto simp: bindR_eq_Inr)
  then show ?case using Cons verify_fresh_inv by blast
qed simp

lemma check_staleness_inv: "ov_inv s \<Longrightarrow> ov_inv (snd (check_staleness e dt k s))"
  by (simp add: check_staleness_def Let_def)

section \<open>Submissions\<close>

lemma slash_stale_untouched: "slash_stale tk e orc dt s = Inr (n, s') \<Longrightarrow> untouched s s'"
proof -
  assume step: "slash_stale tk e orc dt s = Inr (n, s')"
  let ?m = "min (get_stale_slash_amount s) (get_oracle_stake dt orc s)"
  let ?s = "s\<lparr>ov_stake_amt := (ov_stake_amt s)((dt, orc) \<mapsto> get_oracle_stake dt orc s - ?m)\<rparr>"
  have "untouched s ?s" by simp
  moreover have "s' = s \<or> pay_treasury tk e ?m ?s = Inr s'"
    using step by (auto simp: slash_stale_def Let_def bindR_eq_Inr split: if_splits)
  ultimately show ?thesis using pay_treasury_untouched untouched_trans untouched_refl by metis
qed

lemma drop_reputation_inv: "ov_inv s \<Longrightarrow> ov_inv (snd (drop_reputation e orc dt s))"
proof -
  assume inv: "ov_inv s"
  let ?p = "get_stale_reputation_penalty s" and ?r = "get_reputation orc dt s"
  let ?r' = "?r\<lparr>rep_score := sat_u32 (rep_score ?r - ?p), rep_last_updated := timestamp e\<rparr>"
  have "reputation_ok ?r'" if "0 < ?p"
    using that reputationD[OF inv, of orc dt] by (auto simp: reputation_ok_def sat_u32_def)
  then show ?thesis
    using inv reputation_inv[OF inv, of ?r' dt orc] by (auto simp: drop_reputation_def Let_def)
qed

lemma stale_inv:
  assumes "handle_stale_submission tk e orc dt t m s = Inr s'" "ov_inv s"
  shows "ov_inv s'"
proof -
  let ?c = "sat_u32 (get_stale_count dt orc s + 1)"
  let ?s1 = "ov_publish (OvStaleSubmissionDetected orc dt t m ?c)
      (s\<lparr>ov_stale_count := (ov_stale_count s)((dt, orc) \<mapsto> ?c)\<rparr>)"
  have inv1: "ov_inv ?s1" by (rule untouched_inv[OF _ assms(2)]) simp
  consider "s' = ?s1" | n s2 where "slash_stale tk e orc dt ?s1 = Inr (n, s2)"
      "untouched (snd (drop_reputation e orc dt s2)) s'"
  proof (cases "get_stale_threshold ?s1 = 0 \<or> ?c < get_stale_threshold ?s1")
    case True
    then show ?thesis using assms(1) that(1) by (simp add: handle_stale_submission_def Let_def)
  next
    case False
    then obtain n s2 where "slash_stale tk e orc dt ?s1 = Inr (n, s2)"
      "(case drop_reputation e orc dt s2 of (l, s3) \<Rightarrow> ov_publish (OvStalePenaltyApplied orc dt ?c n l)
          (s3\<lparr>ov_stale_count := (ov_stale_count s3)((dt, orc) \<mapsto> 0)\<rparr>)) = s'"
      using assms(1) unfolding handle_stale_submission_def Let_def
      by (auto simp: bindR_eq_Inr case_prod_beta)
    then show ?thesis by (intro that(2)) (auto simp: case_prod_beta)
  qed
  then show ?thesis
  proof cases
    case 2
    then show ?thesis using inv1 slash_stale_untouched untouched_inv drop_reputation_inv by metis
  qed (use inv1 in simp)
qed

lemma reset_inv: "ov_inv s \<Longrightarrow> ov_inv (reset_stale_count orc dt s)"
  by (rule untouched_inv[of s]) (simp_all add: reset_stale_count_def)

lemma distinct_drop_map: "distinct (map f xs) \<Longrightarrow> distinct (map f (drop n xs))"
  by (metis distinct_drop drop_map)

text \<open>The points of a key after a submission.\<close>

lemma stored_points:
  assumes "points_of dt k s = ps"
  shows "points_of dt' k' (store_plain_reading dt k p now m s) = (if dt' = dt \<and> k' = k
      then retain_newest (filter (retained dt (dp_oracle p) now m s) ps) @ [p] else points_of dt' k' s)"
  using assms by (auto simp: store_plain_reading_def points_of_def)

lemma store_inv:
  assumes "ov_inv s" "entry_active dt (dp_oracle p) s" "0 < dp_confidence p" "dp_confidence p \<le> 100"
    and "fits_i128 (dp_value p)"
  shows "ov_inv (record_reading_timestamp dt k (dp_oracle p) (dp_timestamp p) (store_plain_reading dt k p now m s))"
    (is "ov_inv ?s'")
proof -
  let ?old = "retain_newest (filter (retained dt (dp_oracle p) now m s) (points_of dt k s))"
  have reads: "distinct (map dp_oracle (points_of dt' k' s))" "length (points_of dt' k' s) \<le> MAX_DATA_POINTS"
    "q \<in> set (points_of dt' k' s) \<Longrightarrow> reading_ok dt' k' s q" for dt' k' q
    using assms(1) by (auto simp: ov_inv_def readings_ok_def)
  have old: "distinct (map dp_oracle ?old)" "length ?old < MAX_DATA_POINTS"
    "set ?old \<subseteq> {q \<in> set (points_of dt k s). dp_oracle q \<noteq> dp_oracle p}"
    using reads(1)[of dt k] set_drop_subset
    by (fastforce simp: retain_newest_def distinct_map_filter distinct_drop_map retained_def MAX_DATA_POINTS_def)+
  have points: "points_of dt' k' ?s' = (if dt' = dt \<and> k' = k then ?old @ [p] else points_of dt' k' s)" for dt' k'
    using stored_points[OF refl, of dt' k' dt k p now m s]
    by (simp add: record_reading_timestamp_def points_of_def del: if_split_asm)
  have time: "ov_last_reading_timestamp ?s' = (ov_last_reading_timestamp s)((dt, k, dp_oracle p) \<mapsto> dp_timestamp p)"
    by (simp add: record_reading_timestamp_def store_plain_reading_def)
  have fields: "registry ?s' = registry s" "ov_reputation ?s' = ov_reputation s" "ov_oracle ?s' = ov_oracle s"
    by (simp_all add: record_reading_timestamp_def store_plain_reading_def registry_def)
  have new: "reading_ok dt k ?s' p"
    using assms(2-5) by (auto simp: reading_ok_def time fields entry_active_def split: option.splits)
  have other: "reading_ok dt' k' ?s' q" if "q \<in> set (points_of dt' k' s)" "dt' = dt \<and> k' = k \<Longrightarrow> dp_oracle q \<noteq> dp_oracle p"
    for dt' k' q
    using reads(3)[OF that(1)] that(2) by (auto simp: reading_ok_def time fields)
  have "distinct (map dp_oracle (points_of dt' k' ?s')) \<and> length (points_of dt' k' ?s') \<le> MAX_DATA_POINTS
      \<and> (\<forall>q \<in> set (points_of dt' k' ?s'). reading_ok dt' k' ?s' q)" for dt' k'
  proof (cases "dt' = dt \<and> k' = k")
    case True
    then show ?thesis using old new other by (auto simp: points MAX_DATA_POINTS_def)
  next
    case False
    then have "reading_ok dt' k' ?s' q" if "q \<in> set (points_of dt' k' s)" for q
      using other[OF that] by blast
    then show ?thesis using reads(1,2)[of dt' k'] False by (auto simp: points)
  qed
  then have "readings_ok ?s'" by (simp add: readings_ok_def)
  then show ?thesis
    using assms(1) fields registry_ok_cong[of ?s' s] reputations_ok_cong[of ?s' s] by (simp add: ov_inv_def)
qed

lemma rate_limit_untouched: "enforce_rate_limit dt orc t s = Inr s' \<Longrightarrow> untouched s s'"
  unfolding enforce_rate_limit_ok by simp

lemma rate_limit_active:
  "enforce_rate_limit dt orc t s = Inr s' \<Longrightarrow> entry_active dt orc s' = entry_active dt orc s"
  by (auto simp: enforce_rate_limit_ok entry_active_def)

lemma land_reading_inv:
  assumes "land_reading tk e orc dt b s = Inr s'" "ov_inv s" "entry_active dt orc s"
    and "submission_typed b" "sb_confidence b \<noteq> 0" "sb_confidence b \<le> 100"
  shows "ov_inv s'"
proof (cases "sat_u64 (timestamp e - sb_timestamp b) > effective_max_age dt s")
  case True
  then show ?thesis
    using assms(1,2) by (auto simp: land_reading_def Let_def bindR_eq_Inr intro: stale_inv)
next
  case False
  let ?p = "\<lparr>dp_oracle = orc, dp_value = sb_value b, dp_confidence = sb_confidence b, dp_timestamp = sb_timestamp b\<rparr>"
  have "ov_inv (record_reading_timestamp dt (sb_key b) (dp_oracle ?p) (dp_timestamp ?p)
      (store_plain_reading dt (sb_key b) ?p (timestamp e) (effective_max_age dt s) s))"
    by (rule store_inv[OF assms(2)]) (use assms(3-6) in \<open>auto simp: submission_typed_def fits_u32_def\<close>)
  then show ?thesis using False assms(1) by (auto simp: land_reading_def Let_def bindR_eq_Inr)
qed

text \<open>A submission leaves the registrations alone.\<close>

lemma pay_treasury_oracles: "pay_treasury tk e n s = Inr s' \<Longrightarrow> ov_oracle s' = ov_oracle s"
  by (drule pay_treasury_untouched) (simp add: untouched_def registry_def)

lemma stale_oracles: "handle_stale_submission tk e orc dt t m s = Inr s' \<Longrightarrow> ov_oracle s' = ov_oracle s"
proof -
  assume step: "handle_stale_submission tk e orc dt t m s = Inr s'"
  have drop: "ov_oracle (snd (drop_reputation e orc dt s2)) = ov_oracle s2" for s2
    by (simp add: drop_reputation_def Let_def)
  have slash: "slash_stale tk e orc dt s1 = Inr (n, s2) \<Longrightarrow> ov_oracle s2 = ov_oracle s1" for s1 s2 n
    using slash_stale_untouched[of tk e orc dt s1 n s2] by (simp add: untouched_def registry_def)
  show ?thesis
    using step unfolding handle_stale_submission_def Let_def
    by (auto simp: bindR_eq_Inr case_prod_beta drop dest!: slash split: if_splits)
qed

lemma land_reading_active:
  assumes "land_reading tk e orc dt b s = Inr s'"
  shows "entry_active dt' o' s' = entry_active dt' o' s"
proof -
  have "ov_oracle s' = ov_oracle s"
    using assms
    by (auto simp: land_reading_def Let_def bindR_eq_Inr record_reading_timestamp_def
        store_plain_reading_def dest: stale_oracles split: if_splits)
  then show ?thesis by (simp add: entry_active_def)
qed

lemma submit_tuples_inv:
  "submit_tuples tk e orc dt bs s = Inr s' \<Longrightarrow> ov_inv s \<Longrightarrow> entry_active dt orc s \<Longrightarrow>
     list_all submission_typed bs \<Longrightarrow> ov_inv s'"
proof (induction bs arbitrary: s)
  case (Cons b bs)
  then obtain s1 where "land_reading tk e orc dt b s = Inr s1" "submit_tuples tk e orc dt bs s1 = Inr s'"
    "sb_confidence b \<noteq> 0" "sb_confidence b \<le> 100"
    by (auto simp: bindR_eq_Inr submit_gates_ok)
  then show ?case
    using Cons.IH[of s1] Cons.prems(2-4) land_reading_inv[of tk e orc dt b s s1]
      land_reading_active[of tk e orc dt b s s1 dt orc] by auto
qed simp

lemma submit_readings_inv:
  "submit_readings tk e orc dt bs s = Inr s' \<Longrightarrow> ov_inv s \<Longrightarrow> entry_active dt orc s \<Longrightarrow>
     list_all submission_typed bs \<Longrightarrow> ov_inv s'"
proof (induction bs arbitrary: s)
  case (Cons b bs)
  then obtain s1 where "land_reading tk e orc dt b s = Inr s1" "submit_readings tk e orc dt bs s1 = Inr s'"
    "sb_confidence b \<noteq> 0" "sb_confidence b \<le> 100"
    by (auto simp: bindR_eq_Inr submit_gates_ok)
  then show ?case
    using Cons.IH[of s1] Cons.prems(2-4) land_reading_inv[of tk e orc dt b s s1]
      land_reading_active[of tk e orc dt b s s1 dt orc] by auto
qed simp

lemma batch_guards_ok:
  assumes "batch_guards e orc dt s = Inr s1" "ov_inv s"
  shows "ov_inv s1" "entry_active dt orc s1"
proof -
  have "enforce_rate_limit dt orc (timestamp e) s = Inr s1" "entry_active dt orc s"
    using assms(1) by (auto simp: batch_guards_def bindR_eq_Inr submit_gates_ok)
  then show "ov_inv s1" "entry_active dt orc s1"
    using assms(2) rate_limit_untouched untouched_inv rate_limit_active by blast+
qed

lemma submit_data_inv:
  assumes "submit_data tk e orc dt k v c t s = Inr s'" "ov_inv s" "fits_u32 c"
  shows "ov_inv s'"
proof -
  obtain s1 where s1: "enforce_rate_limit dt orc (timestamp e) s = Inr s1" and act: "entry_active dt orc s"
    and c: "c \<noteq> 0" "c \<le> 100" and v: "- MAX_DATA_VALUE \<le> v" "v \<le> MAX_DATA_VALUE"
    and rest: "(let max_data_age = effective_max_age dt s1
     in if sat_u64 (timestamp e - t) > max_data_age
        then handle_stale_submission tk e orc dt t max_data_age s1
        else let s2 = record_reading_timestamp dt k orc t (store_plain_reading dt k
               \<lparr>dp_oracle = orc, dp_value = v, dp_confidence = c, dp_timestamp = t\<rparr> (timestamp e) max_data_age s1)
        in bindR (check_cross_validation e dt k s2) (\<lambda>_.
           Inr (ov_publish (OvOracleDataSubmitted orc dt k v c t) (reset_stale_count orc dt s2)))) = Inr s'"
    using assms(1) unfolding submit_data_def bindR_eq_Inr if_Inl_eq_Inr submit_gates_ok by blast
  have inv1: "ov_inv s1" using assms(2) rate_limit_untouched[OF s1] untouched_inv by blast
  have act1: "entry_active dt orc s1" using act rate_limit_active[OF s1] by simp
  let ?p = "\<lparr>dp_oracle = orc, dp_value = v, dp_confidence = c, dp_timestamp = t\<rparr>"
  show ?thesis
  proof (cases "sat_u64 (timestamp e - t) > effective_max_age dt s1")
    case True
    then show ?thesis using rest inv1 by (auto simp: Let_def intro: stale_inv)
  next
    case False
    have "ov_inv (record_reading_timestamp dt k (dp_oracle ?p) (dp_timestamp ?p)
        (store_plain_reading dt k ?p (timestamp e) (effective_max_age dt s1) s1))"
      by (rule store_inv[OF inv1]) (use act1 c v assms(3) in \<open>auto simp: fits_u32_def num_defs\<close>)
    then show ?thesis using rest False reset_inv by (auto simp: Let_def bindR_eq_Inr)
  qed
qed

lemma submit_encrypted_inv:
  assumes "submit_encrypted_data tk e orc dt k x n c t s = Inr s'" "ov_inv s"
  shows "ov_inv s'"
proof -
  obtain s1 where s1: "enforce_rate_limit dt orc (timestamp e) s = Inr s1"
    and "(\<exists>m. handle_stale_submission tk e orc dt t m s1 = Inr s')
      \<or> (\<exists>ps. s' = ov_publish (OvOracleEncryptedDataSubmitted orc dt k c t)
            (reset_stale_count orc dt (s1\<lparr>ov_encrypted_points := ps\<rparr>)))"
    using assms(1) unfolding submit_encrypted_data_def bindR_eq_Inr if_Inl_eq_Inr Let_def
    by (elim exE conjE) (auto split: if_split_asm)
  moreover have "ov_inv s1" using assms(2) rate_limit_untouched[OF s1] untouched_inv by blast
  moreover have "ov_inv (s1\<lparr>ov_encrypted_points := ps\<rparr>)" for ps
    using calculation(3) by (rule untouched_inv[rotated]) simp
  moreover have "ov_inv (ov_publish ev (reset_stale_count orc dt (s1\<lparr>ov_encrypted_points := ps\<rparr>)))" for ev ps
    unfolding publish_inv by (rule reset_inv) (rule calculation(4))
  ultimately show ?thesis using stale_inv by blast
qed

lemma data_inv:
  assumes "data_dispatch tk e c s = Inr s'" "data_typed c" "ov_inv s"
  shows "ov_inv s'"
  using assms
  by (cases c)
     (auto simp: forget_ok bindR_eq_Inr batch_submit_data_def submit_data_batch_def
      dest: batch_guards_ok intro: submit_data_inv submit_encrypted_inv verify_trigger_inv
      verify_fresh_inv batch_verify_inv check_staleness_inv reset_inv submit_tuples_inv submit_readings_inv)

section \<open>The contract keeps it\<close>

lemma ov_call_inv: "ov_exec tk e c s = Inr s' \<Longrightarrow> ov_inv s \<Longrightarrow> ov_inv s'"
  by (cases c) (auto simp: ov_exec_ok intro: setting_inv stake_inv data_inv)

interpretation ov: invariant_system "ov_exec tk" "ov_fresh t0" "\<lambda>_. ov_inv"
  for tk :: "'t token_ops" and t0
  by unfold_locales (auto intro: fresh_inv ov_call_inv)

end
