(* ===== verification/OV_Voting.thy ===== *)
theory OV_Voting
  imports OV_Invariants
begin

text \<open>
  The consensus of the oracle verifier in a state that keeps its invariant, seen as a vote:
  each eligible reading votes with its oracle's weight and reputation. The lemmas reduce the
  contract's functions to the votes, show when a trigger is decided by a majority, and what a
  verification does to the reputations.
\<close>

section \<open>Votes\<close>

text \<open>The registered weight scaled by the reputation, at least 1.\<close>

definition voting_weight :: "symbol \<Rightarrow> 't ov_state \<Rightarrow> address \<Rightarrow> int" where
  "voting_weight dt s orc = max (registered_weight dt s orc * rep_score (get_reputation orc dt s) div 1000) 1"

definition votes :: "env \<Rightarrow> symbol \<Rightarrow> symbol \<Rightarrow> 't ov_state \<Rightarrow> oracle_data_point list" where
  "votes e dt k s = filter (eligible e dt s) (points_of dt k s)"

definition ballot :: "env \<Rightarrow> symbol \<Rightarrow> symbol \<Rightarrow> 't ov_state \<Rightarrow> (int \<times> int) list" where
  "ballot e dt k s = map (\<lambda>p. (dp_value p, voting_weight dt s (dp_oracle p))) (votes e dt k s)"

definition vote_samples :: "env \<Rightarrow> symbol \<Rightarrow> symbol \<Rightarrow> 't ov_state \<Rightarrow> sample list" where
  "vote_samples e dt k s =
     map (\<lambda>p. (dp_value p, voting_weight dt s (dp_oracle p), dp_timestamp p)) (votes e dt k s)"

lemma weighed_votes: "map weighed (vote_samples e dt k s) = ballot e dt k s"
  by (simp add: vote_samples_def ballot_def)

lemma sample_weights: "map sample_weight (vote_samples e dt k s) = map snd (ballot e dt k s)"
  by (simp add: vote_samples_def ballot_def sample_weight_def)

lemma invD:
  assumes "ov_inv s"
  shows "distinct (map dp_oracle (points_of dt k s))" "length (points_of dt k s) \<le> MAX_DATA_POINTS"
    "p \<in> set (points_of dt k s) \<Longrightarrow> reading_ok dt k s p"
    "entry_active dt orc s \<Longrightarrow> 0 < registered_weight dt s orc \<and> registered_weight dt s orc \<le> MAX_WEIGHT"
  using assms
  by (auto simp: ov_inv_def readings_ok_def registry_ok_def entry_active_def registered_weight_def
      split: option.splits)

lemma votes_take: "ov_inv s \<Longrightarrow> filter (eligible e dt s) (take MAX_DATA_POINTS (points_of dt k s)) = votes e dt k s"
  using invD(2)[of s dt k] by (simp add: votes_def)

lemma votes_active: "p \<in> set (votes e dt k s) \<Longrightarrow> entry_active dt (dp_oracle p) s"
  by (simp add: votes_def eligible_def reporting_def)

lemma votes_few: "ov_inv s \<Longrightarrow> length (votes e dt k s) \<le> MAX_DATA_POINTS"
  unfolding votes_def by (rule order_trans[OF length_filter_le invD(2)])

text \<open>The reputation is at most 1000, so neither the \<^verbatim>\<open>u32\<close> cast nor the sum of the weights overflows.\<close>

lemma voting_weight_bounds:
  assumes "ov_inv s" "entry_active dt orc s"
  shows "1 \<le> voting_weight dt s orc" "voting_weight dt s orc \<le> MAX_WEIGHT"
    "get_effective_weight orc dt s = Inr (voting_weight dt s orc)"
proof -
  let ?w = "registered_weight dt s orc" and ?r = "rep_score (get_reputation orc dt s)"
  have w: "0 < ?w" "?w \<le> MAX_WEIGHT" using invD(4)[OF assms] by auto
  have r: "0 \<le> ?r" "?r \<le> 1000" using reputationD[OF assms(1)] by (auto simp: reputation_ok_def)
  have "?w * ?r \<le> ?w * 1000" using w r by (intro mult_left_mono) auto
  then have "?w * ?r div 1000 \<le> ?w" using zdiv_mono1[of "?w * ?r" "?w * 1000" 1000] by simp
  moreover have "0 \<le> ?w * ?r div 1000" using w r by (simp add: pos_imp_zdiv_nonneg_iff)
  ultimately have p: "0 \<le> ?w * ?r div 1000" "?w * ?r div 1000 \<le> MAX_WEIGHT" using w by auto
  then show "1 \<le> voting_weight dt s orc" "voting_weight dt s orc \<le> MAX_WEIGHT"
    by (auto simp: voting_weight_def MAX_WEIGHT_def)
  obtain entry where "ov_oracle s (dt, orc) = Some entry"
    using assms(2) by (auto simp: entry_active_def split: option.splits)
  moreover have "?w * ?r div 1000 mod 2 ^ 32 = ?w * ?r div 1000"
    using p by (intro mod_pos_pos_trivial) (auto simp: MAX_WEIGHT_def)
  ultimately show "get_effective_weight orc dt s = Inr (voting_weight dt s orc)"
    by (simp add: get_effective_weight_def voting_weight_def registered_weight_def)
qed

lemma bounded_sum:
  assumes "\<And>x. x \<in> set xs \<Longrightarrow> 0 \<le> f x \<and> f x \<le> MAX_WEIGHT" "length xs \<le> MAX_DATA_POINTS"
  shows "0 \<le> sum_list (map f xs)" "sum_list (map f xs) \<le> 10000000"
proof -
  have "0 \<le> sum_list (map f xs) \<and> sum_list (map f xs) \<le> int (length xs) * MAX_WEIGHT"
    using assms(1) by (induction xs) (fastforce simp: algebra_simps)+
  then show "0 \<le> sum_list (map f xs)" "sum_list (map f xs) \<le> 10000000"
    using assms(2) by (auto simp: MAX_DATA_POINTS_def MAX_WEIGHT_def)
qed

lemma ballot_weights:
  assumes "ov_inv s"
  shows "\<forall>x \<in> set (ballot e dt k s). 0 \<le> snd x" "sum_list (map snd (ballot e dt k s)) \<le> 10000000"
    "ballot e dt k s \<noteq> [] \<Longrightarrow> 0 < sum_list (map snd (ballot e dt k s))"
proof -
  have w: "1 \<le> voting_weight dt s (dp_oracle p)" "voting_weight dt s (dp_oracle p) \<le> MAX_WEIGHT"
    if "p \<in> set (votes e dt k s)" for p
    using voting_weight_bounds(1,2)[OF assms votes_active[OF that]] .
  show "\<forall>x \<in> set (ballot e dt k s). 0 \<le> snd x" using w by (fastforce simp: ballot_def)
  show "sum_list (map snd (ballot e dt k s)) \<le> 10000000"
    unfolding ballot_def map_map comp_def snd_conv
    by (rule bounded_sum(2)[OF _ votes_few[OF assms]]) (use w in fastforce)
  show "ballot e dt k s \<noteq> [] \<Longrightarrow> 0 < sum_list (map snd (ballot e dt k s))"
  proof -
    assume "ballot e dt k s \<noteq> []"
    then obtain p ps where ps: "votes e dt k s = p # ps" by (cases "votes e dt k s") (auto simp: ballot_def)
    have "0 \<le> (\<Sum>q\<leftarrow>ps. voting_weight dt s (dp_oracle q))"
      using w ps by (intro sum_list_nonneg) fastforce
    then show ?thesis using w(1)[of p] ps by (simp add: ballot_def comp_def)
  qed
qed

text \<open>The contract's consensus is that of the votes.\<close>

lemma get_median_votes:
  assumes "ov_inv s"
  shows "get_median_value e dt k s = bindR (load_some_points dt k s) (\<lambda>_.
    bindR (combine e dt (vote_samples e dt k s) s) (\<lambda>(_, _, consensus). Inr consensus))"
proof -
  have pts: "load_some_points dt k s = Inr ps \<Longrightarrow> ps = points_of dt k s" for ps
    by (auto simp: load_some_points_def load_points_def points_of_def result_simps split: if_splits)
  have samples: "mapR (sample_of dt s) (votes e dt k s) = Inr (vote_samples e dt k s)"
    unfolding vote_samples_def
    by (rule mapR_total) (use voting_weight_bounds(3)[OF assms votes_active] in \<open>auto simp: sample_of_def\<close>)
  have "\<forall>p \<in> set (votes e dt k s). 0 \<le> registered_weight dt s (dp_oracle p) \<and> registered_weight dt s (dp_oracle p) \<le> MAX_WEIGHT"
    using invD(4)[OF assms votes_active] by fastforce
  then have "u32_sum (map (\<lambda>p. registered_weight dt s (dp_oracle p)) (votes e dt k s))
      = (Inr (sum_list (map (\<lambda>p. registered_weight dt s (dp_oracle p)) (votes e dt k s))) :: (ov_error, int) result)"
    using bounded_sum(2)[OF _ votes_few[OF assms], of e dt k "\<lambda>p. registered_weight dt s (dp_oracle p)"]
    by (subst u32_sum_nonneg) (auto simp: u32_max_def)
  then show ?thesis
    using pts votes_take[OF assms] samples
    by (cases "load_some_points dt k s") (auto simp: get_median_value_def Let_def)
qed

lemma load_votes:
  assumes "votes e dt k s \<noteq> []"
  shows "load_some_points dt k s = Inr (points_of dt k s)" "load_points dt k s = Inr (points_of dt k s)"
proof -
  have "points_of dt k s \<noteq> []" using assms by (auto simp: votes_def)
  then show "load_some_points dt k s = Inr (points_of dt k s)" "load_points dt k s = Inr (points_of dt k s)"
    by (auto simp: points_of_def load_some_points_def load_points_def unwrap_or_def split: option.splits)
qed

section \<open>A majority decides\<close>

definition plain_median :: "symbol \<Rightarrow> 't ov_state \<Rightarrow> bool" where
  "plain_median dt s \<longleftrightarrow> effective_aggregation_method dt s = WeightedMedian
     \<and> \<not> ol_enabled (effective_outlier_config dt s)"

definition majority :: "env \<Rightarrow> symbol \<Rightarrow> symbol \<Rightarrow> int \<Rightarrow> int \<Rightarrow> 't ov_state \<Rightarrow> bool" where
  "majority e dt k lo hi s \<longleftrightarrow> sum_list (map snd (ballot e dt k s))
     < 2 * weight_of (\<lambda>v. lo \<le> v \<and> v \<le> hi) (ballot e dt k s)"

lemma majority_votes: "ov_inv s \<Longrightarrow> majority e dt k lo hi s \<Longrightarrow> votes e dt k s \<noteq> []"
  by (auto simp: majority_def ballot_def)

lemma majority_median:
  assumes "ov_inv s" "plain_median dt s" "majority e dt k lo hi s" "lo \<le> hi" "moderate lo" "moderate hi"
    and "get_min_oracle_count s \<le> int (length (votes e dt k s))"
  shows "\<exists>m. get_median_value e dt k s = Inr m \<and> lo \<le> m \<and> m \<le> hi"
proof -
  let ?b = "ballot e dt k s" and ?xs = "vote_samples e dt k s"
  note w = ballot_weights[OF assms(1), of e dt k]
  have ne: "votes e dt k s \<noteq> []" by (rule majority_votes[OF assms(1,3)])
  then have b: "?b \<noteq> []" by (simp add: ballot_def)
  obtain m where m: "weighted_median ?b (sum_list (map snd ?b)) = Inr m" "lo \<le> m" "m \<le> hi"
    using weighted_median_majority[OF w(1) _ assms(4-6)] w(2) assms(3)
    by (auto simp: majority_def u32_max_def)
  have "filter_outliers dt ?xs s = Inr ?xs"
    using assms(2) by (simp add: filter_outliers_def Let_def plain_median_def)
  moreover have "u32_sum (map sample_weight ?xs) = (Inr (sum_list (map snd ?b)) :: (ov_error, int) result)"
    unfolding sample_weights using w by (subst u32_sum_nonneg) (auto simp: u32_max_def)
  moreover have "aggregate e dt ?xs (sum_list (map snd ?b)) s = Inr m"
    using assms(2) m(1) by (simp add: aggregate_def plain_median_def weighed_votes)
  moreover have "length ?xs = length (votes e dt k s)" by (simp add: vote_samples_def)
  ultimately have "combine e dt ?xs s = Inr (?xs, sum_list (map snd ?b), m)"
    using ne w(3)[OF b] assms(7) by (simp add: combine_def vote_samples_def)
  then show ?thesis using m load_votes(1)[OF ne] by (simp add: get_median_votes[OF assms(1)])
qed

section \<open>Ratings\<close>

text \<open>The readings that are rated, and the counters that still have room.\<close>

definition rated :: "env \<Rightarrow> symbol \<Rightarrow> 't ov_state \<Rightarrow> oracle_data_point \<Rightarrow> bool" where
  "rated e dt s p \<longleftrightarrow> fresh_reading e dt s p \<and> entry_active dt (dp_oracle p) s"

definition ratable :: "env \<Rightarrow> symbol \<Rightarrow> int \<Rightarrow> 't ov_state \<Rightarrow> oracle_data_point \<Rightarrow> bool" where
  "ratable e dt m s p \<longleftrightarrow> fits_i128 (dp_value p - m) \<and> fits_i128 \<bar>dp_value p - m\<bar>
     \<and> (rep_total_submissions (get_reputation (dp_oracle p) dt s) + 1) * 1000 \<le> u64_max"

lemma update_reputation_possible:
  assumes "reputation_ok (get_reputation orc dt s)"
    "(rep_total_submissions (get_reputation orc dt s) + 1) * 1000 \<le> u64_max"
  shows "\<exists>s'. update_reputation e orc dt acc s = Inr s'"
  using assms by (auto simp: update_reputation_def Let_def reputation_ok_def u64_def u64_max_def)

text \<open>What one rating changes.\<close>

lemma update_reputation_frame:
  assumes "update_reputation e orc dt acc s = Inr s'"
  shows "get_reputation orc' dt' s' = (if orc' = orc \<and> dt' = dt then get_reputation orc dt s' else get_reputation orc' dt' s)"
    "rated e' dt'' s' p = rated e' dt'' s p"
proof -
  obtain ev r where "s' = ov_publish ev (s\<lparr>ov_reputation := (ov_reputation s)((dt, orc) \<mapsto> r)\<rparr>)"
    using assms unfolding update_reputation_def Let_def bindR_eq_Inr by blast
  then show "get_reputation orc' dt' s' = (if orc' = orc \<and> dt' = dt then get_reputation orc dt s' else get_reputation orc' dt' s)"
    "rated e' dt'' s' p = rated e' dt'' s p"
    by (simp_all add: get_reputation_def ov_publish_def rated_def fresh_reading_def entry_active_def
        effective_max_age_def min_confidence_def split: option.split)
qed

lemma rate_oracles_works:
  assumes "ov_inv s" "distinct (map dp_oracle ps)" "\<forall>p \<in> set ps. rated e dt s p \<longrightarrow> ratable e dt m s p"
  shows "\<exists>s'. rate_oracles e dt tol m ps s = Inr s'
    \<and> (\<forall>orc. orc \<notin> dp_oracle ` set (filter (rated e dt s) ps) \<longrightarrow> get_reputation orc dt s' = get_reputation orc dt s)
    \<and> (\<forall>p \<in> set ps. rated e dt s p \<longrightarrow>
         rep_total_submissions (get_reputation (dp_oracle p) dt s')
           = rep_total_submissions (get_reputation (dp_oracle p) dt s) + 1
       \<and> rep_accurate_submissions (get_reputation (dp_oracle p) dt s')
           = rep_accurate_submissions (get_reputation (dp_oracle p) dt s) + (if \<bar>dp_value p - m\<bar> \<le> tol then 1 else 0)
       \<and> rep_score (get_reputation (dp_oracle p) dt s')
           = rep_accurate_submissions (get_reputation (dp_oracle p) dt s') * 1000
             div rep_total_submissions (get_reputation (dp_oracle p) dt s'))"
  using assms
proof (induction ps arbitrary: s)
  case (Cons p ps)
  show ?case
  proof (cases "rated e dt s p")
    case False
    have skip: "rate_oracles e dt tol m (p # ps) s = rate_oracles e dt tol m ps s"
      using False by (auto simp: rated_def)
    show ?thesis using Cons.IH[of s] Cons.prems False unfolding skip by simp
  next
    case True
    let ?o = "dp_oracle p" and ?acc = "\<bar>dp_value p - m\<bar> \<le> tol"
    have can: "ratable e dt m s p" using Cons.prems(3) True by simp
    obtain s1 where s1: "update_reputation e ?o dt ?acc s = Inr s1"
      using update_reputation_possible[OF reputationD[OF Cons.prems(1)], of ?o dt e ?acc] can
      by (auto simp: ratable_def)
    obtain r where "s1 = ov_publish (OvReputationUpdated ?o dt (rep_score r) (rep_accurate_submissions r)
         (rep_total_submissions r)) (s\<lparr>ov_reputation := (ov_reputation s)((dt, ?o) \<mapsto> r)\<rparr>)"
      "rep_total_submissions r = rep_total_submissions (get_reputation ?o dt s) + 1"
      "rep_accurate_submissions r = rep_accurate_submissions (get_reputation ?o dt s) + (if ?acc then 1 else 0)"
      "rep_score r = rep_accurate_submissions r * 1000 div rep_total_submissions r"
      using update_reputation_eq[OF reputationD[OF Cons.prems(1)] s1] by blast
    then have mine: "get_reputation ?o dt s1 = r" and
      r: "rep_total_submissions r = rep_total_submissions (get_reputation ?o dt s) + 1"
      "rep_accurate_submissions r = rep_accurate_submissions (get_reputation ?o dt s) + (if ?acc then 1 else 0)"
      "rep_score r = rep_accurate_submissions r * 1000 div rep_total_submissions r"
      by (auto simp: get_reputation_def ov_publish_def)
    have same: "rated e dt s1 q = rated e dt s q" for q by (rule update_reputation_frame(2)[OF s1])
    have other: "get_reputation orc dt s1 = get_reputation orc dt s" if "orc \<noteq> ?o" for orc
      using update_reputation_frame(1)[OF s1, of orc dt] that by simp
    have diff: "dp_oracle q \<noteq> ?o" if "q \<in> set ps" for q
      using Cons.prems(2) that by (metis distinct.simps(2) image_eqI list.set_map list.simps(9))
    have "\<forall>q \<in> set ps. rated e dt s1 q \<longrightarrow> ratable e dt m s1 q"
      using Cons.prems(3) diff by (auto simp: same ratable_def other)
    then obtain s' where s': "rate_oracles e dt tol m ps s1 = Inr s'"
      and out: "\<And>orc. orc \<notin> dp_oracle ` set (filter (rated e dt s1) ps) \<Longrightarrow> get_reputation orc dt s' = get_reputation orc dt s1"
      and rest: "\<forall>q \<in> set ps. rated e dt s1 q \<longrightarrow>
         rep_total_submissions (get_reputation (dp_oracle q) dt s')
           = rep_total_submissions (get_reputation (dp_oracle q) dt s1) + 1
       \<and> rep_accurate_submissions (get_reputation (dp_oracle q) dt s')
           = rep_accurate_submissions (get_reputation (dp_oracle q) dt s1) + (if \<bar>dp_value q - m\<bar> \<le> tol then 1 else 0)
       \<and> rep_score (get_reputation (dp_oracle q) dt s')
           = rep_accurate_submissions (get_reputation (dp_oracle q) dt s') * 1000
             div rep_total_submissions (get_reputation (dp_oracle q) dt s')"
      using Cons.IH[of s1] update_reputation_inv[OF s1 Cons.prems(1)] Cons.prems(2) by auto
    have mine': "get_reputation ?o dt s' = r" using out[of ?o] diff mine by fastforce
    have "deviation m (dp_value p) = Inr \<bar>dp_value p - m\<bar>" using can by (simp add: deviation_eq ratable_def)
    then have "rate_oracles e dt tol m (p # ps) s = Inr s'" using True s1 s' by (simp add: rated_def)
    then show ?thesis
      using rest other diff out mine' r True by (auto simp: same)
  qed
qed simp

end
