(* ===== verification/OV_Sample.thy ===== *)
theory OV_Sample
  imports OV_Voting Sample
begin

text \<open>
  A history of the oracle verifier on which its properties are evaluated: three oracles
  report the rainfall at a station, and one of them lies.
\<close>

definition verifier :: address where "verifier = ''verifier''"
definition near :: address where "near = addr CHR ''C'' CHR ''1''"
definition far :: address where "far = addr CHR ''C'' CHR ''2''"
definition liar :: address where "liar = addr CHR ''C'' CHR ''3''"

definition gauge :: "int \<Rightarrow> env" where "gauge t = (moment t)\<lparr>this := verifier\<rparr>"

definition ov_funds :: "ledger" where
  "ov_funds = (\<lambda>(c, a). if a = near \<or> a = far then 10000 else 0)"

definition registered :: "(env \<times> ov_call) list" where
  "registered = [
     (gauge 1000, Setting (OvInitialize boss)),
     (gauge 1001, Setting (AddOracle boss near ''weather'' 100)),
     (gauge 1002, Setting (AddOracle boss far ''weather'' 100)),
     (gauge 1003, Setting (AddOracle boss liar ''weather'' 150))]"

definition reported :: "(env \<times> ov_call) list" where
  "reported = registered @ [
     (gauge 2000, Data (SubmitData near ''weather'' ''rain1'' 40 90 2000)),
     (gauge 2001, Data (SubmitData far ''weather'' ''rain1'' 42 80 2000)),
     (gauge 2002, Data (SubmitData liar ''weather'' ''rain1'' 5000 100 2001))]"

definition dry :: trigger_condition where
  "dry = \<lparr>tc_data_type = ''weather'', tc_key = ''rain1'', tc_threshold = 100,
     tc_comparison = BelowThreshold, tc_tolerance = 0\<rparr>"

abbreviation ov_run :: "env \<Rightarrow> ov_call \<Rightarrow> ledger ov_state \<Rightarrow> (ov_error, ledger ov_state) result" where
  "ov_run \<equiv> ov_exec ledger_ops"

abbreviation ov_begin :: "ledger ov_state" where
  "ov_begin \<equiv> ov_fresh ov_funds"

lemma reported_time: "timely 0 reported" "ends 0 reported = 2002"
  by code_simp+

lemma readings_reported:
  obtains s where "reach ov_run ov_begin 2002 s"
    "points_of ''weather'' ''rain1'' s =
       [\<lparr>dp_oracle = near, dp_value = 40, dp_confidence = 90, dp_timestamp = 2000\<rparr>,
        \<lparr>dp_oracle = far, dp_value = 42, dp_confidence = 80, dp_timestamp = 2000\<rparr>,
        \<lparr>dp_oracle = liar, dp_value = 5000, dp_confidence = 100, dp_timestamp = 2001\<rparr>]"
    "majority (gauge 2100) ''weather'' ''rain1'' 40 42 s" "plain_median ''weather'' s"
proof -
  have "outcome (\<lambda>s. points_of ''weather'' ''rain1'' s =
       [\<lparr>dp_oracle = near, dp_value = 40, dp_confidence = 90, dp_timestamp = 2000\<rparr>,
        \<lparr>dp_oracle = far, dp_value = 42, dp_confidence = 80, dp_timestamp = 2000\<rparr>,
        \<lparr>dp_oracle = liar, dp_value = 5000, dp_confidence = 100, dp_timestamp = 2001\<rparr>]
    \<and> majority (gauge 2100) ''weather'' ''rain1'' 40 42 s \<and> plain_median ''weather'' s)
    (play ov_run reported ov_begin)"
    by code_simp
  then show ?thesis
    by (rule history_reach[OF _ reported_time(1), unfolded reported_time(2)]) (use that in blast)
qed

end
