(* ===== verification/OV_Custody.thy ===== *)
theory OV_Custody
  imports OV_Invariants
begin

text \<open>
  The oracle verifier as a custodian of stakes: what it holds for the oracles, as an abstract
  vault with five kinds of step, and the timestamps of the readings, which only grow. Every
  call of the contract is a sequence of such steps.
\<close>

section \<open>The vault\<close>

record 't vault =
  v_staked :: "symbol \<times> address \<Rightarrow> int"
  v_token :: "address option"
  v_ledger :: 't

definition vault_of :: "'t ov_state \<Rightarrow> 't vault" where
  "vault_of s = \<lparr>v_staked = unwrap_or 0 \<circ> ov_stake_amt s, v_token = ov_stake_token s, v_ledger = ov_tokens s\<rparr>"

text \<open>
  Stakes are paid in, paid back to the oracle, taken away for the treasury, or, with no
  treasury set, kept by the contract; the admin chooses the token, one that satisfies \<open>ok\<close>.
  \<open>me\<close> is the contract.
\<close>

inductive vault_step :: "(address \<Rightarrow> bool) \<Rightarrow> 't token_ops \<Rightarrow> address \<Rightarrow> 't vault \<Rightarrow> 't vault \<Rightarrow> bool" for ok tk me where
  pay_in: "v_token v = Some u \<Longrightarrow> 0 < n \<Longrightarrow> orc \<noteq> me \<Longrightarrow> transfer_of tk (v_ledger v) u orc me n = Some l \<Longrightarrow>
     vault_step ok tk me v (v\<lparr>v_staked := (v_staked v)((dt, orc) := v_staked v (dt, orc) + n), v_ledger := l\<rparr>)"
| pay_out: "v_token v = Some u \<Longrightarrow> n \<le> v_staked v k \<Longrightarrow> transfer_of tk (v_ledger v) u me a n = Some l \<Longrightarrow>
     vault_step ok tk me v (v\<lparr>v_staked := (v_staked v)(k := v_staked v k - n), v_ledger := l\<rparr>)"
| keep: "0 < n \<Longrightarrow> n \<le> v_staked v k \<Longrightarrow>
     vault_step ok tk me v (v\<lparr>v_staked := (v_staked v)(k := v_staked v k - n)\<rparr>)"
| choose: "ok u \<Longrightarrow> vault_step ok tk me v (v\<lparr>v_token := Some u\<rparr>)"

text \<open>The timestamps of the readings.\<close>

definition newer :: "'t ov_state \<Rightarrow> 't ov_state \<Rightarrow> bool" where
  "newer s s' \<longleftrightarrow> (\<forall>k t. ov_last_reading_timestamp s k = Some t \<longrightarrow>
     (\<exists>t' \<ge> t. ov_last_reading_timestamp s' k = Some t'))"

definition lawful :: "(address \<Rightarrow> bool) \<Rightarrow> 't token_ops \<Rightarrow> address \<Rightarrow> 't ov_state \<Rightarrow> 't ov_state \<Rightarrow> bool" where
  "lawful ok tk me s s' \<longleftrightarrow> (vault_step ok tk me)\<^sup>*\<^sup>* (vault_of s) (vault_of s') \<and> newer s s'"

definition aside :: "'t ov_state \<Rightarrow> 't ov_state \<Rightarrow> bool" where
  "aside s s' \<longleftrightarrow> vault_of s' = vault_of s \<and> ov_last_reading_timestamp s' = ov_last_reading_timestamp s"

lemma newer_trans: "newer s s1 \<Longrightarrow> newer s1 s2 \<Longrightarrow> newer s s2"
  unfolding newer_def by (meson order_trans)

lemma lawful_trans [trans]: "lawful ok tk me s s1 \<Longrightarrow> lawful ok tk me s1 s2 \<Longrightarrow> lawful ok tk me s s2"
  unfolding lawful_def by (meson newer_trans rtranclp_trans)

lemma aside_refl [simp]: "aside s s"
  by (simp add: aside_def)

lemma aside_trans [trans]: "aside s s1 \<Longrightarrow> aside s1 s2 \<Longrightarrow> aside s s2"
  by (simp add: aside_def)

lemma aside_lawful: "aside s s' \<Longrightarrow> lawful ok tk me s s'"
  by (auto simp: aside_def lawful_def newer_def)

lemma lawful_refl [simp]: "lawful ok tk me s s"
  by (rule aside_lawful) simp

lemma lawful_aside: "lawful ok tk me s s1 \<Longrightarrow> aside s1 s2 \<Longrightarrow> lawful ok tk me s s2"
  by (rule lawful_trans[OF _ aside_lawful])

lemma aside_then_lawful: "aside s s1 \<Longrightarrow> lawful ok tk me s1 s2 \<Longrightarrow> lawful ok tk me s s2"
  by (rule lawful_trans[OF aside_lawful])

lemma lawful_step:
  assumes "vault_step ok tk me (vault_of s) (vault_of s')" "ov_last_reading_timestamp s' = ov_last_reading_timestamp s"
  shows "lawful ok tk me s s'"
  using assms by (auto simp: lawful_def newer_def)

lemma aside_updates [simp]:
  "aside s (ov_publish ev t) = aside s t"
  "aside s (t\<lparr>ov_initialized := x0\<rparr>) = aside s t"
  "aside s (t\<lparr>ov_admin := x1\<rparr>) = aside s t"
  "aside s (t\<lparr>ov_oracle := x2\<rparr>) = aside s t"
  "aside s (t\<lparr>ov_data_points := x3\<rparr>) = aside s t"
  "aside s (t\<lparr>ov_oracle_list := x4\<rparr>) = aside s t"
  "aside s (t\<lparr>ov_min_confidence := x5\<rparr>) = aside s t"
  "aside s (t\<lparr>ov_max_data_age := x6\<rparr>) = aside s t"
  "aside s (t\<lparr>ov_pending_admin := x7\<rparr>) = aside s t"
  "aside s (t\<lparr>ov_pending_admin_since := x8\<rparr>) = aside s t"
  "aside s (t\<lparr>ov_min_oracle_count := x9\<rparr>) = aside s t"
  "aside s (t\<lparr>ov_min_submit_interval := x10\<rparr>) = aside s t"
  "aside s (t\<lparr>ov_last_submission := x11\<rparr>) = aside s t"
  "aside s (t\<lparr>ov_min_stake := x14\<rparr>) = aside s t"
  "aside s (t\<lparr>ov_slash_treasury := x16\<rparr>) = aside s t"
  "aside s (t\<lparr>ov_guardians := x17\<rparr>) = aside s t"
  "aside s (t\<lparr>ov_guardian_threshold := x18\<rparr>) = aside s t"
  "aside s (t\<lparr>ov_upgrade_pending := x19\<rparr>) = aside s t"
  "aside s (t\<lparr>ov_admin_change_pending := x20\<rparr>) = aside s t"
  "aside s (t\<lparr>ov_reputation := x21\<rparr>) = aside s t"
  "aside s (t\<lparr>ov_data_type_max_age := x22\<rparr>) = aside s t"
  "aside s (t\<lparr>ov_aggregation_method := x23\<rparr>) = aside s t"
  "aside s (t\<lparr>ov_encryption_required := x24\<rparr>) = aside s t"
  "aside s (t\<lparr>ov_encrypted_points := x25\<rparr>) = aside s t"
  "aside s (t\<lparr>ov_max_timestamp_age := x26\<rparr>) = aside s t"
  "aside s (t\<lparr>ov_timestamp_future_buffer := x27\<rparr>) = aside s t"
  "aside s (t\<lparr>ov_data_type_min_oracle_count := x28\<rparr>) = aside s t"
  "aside s (t\<lparr>ov_consensus_threshold := x29\<rparr>) = aside s t"
  "aside s (t\<lparr>ov_outlier_config := x30\<rparr>) = aside s t"
  "aside s (t\<lparr>ov_cross_validation_rule := x31\<rparr>) = aside s t"
  "aside s (t\<lparr>ov_cross_validation_targets := x32\<rparr>) = aside s t"
  "aside s (t\<lparr>ov_geo_weight := x33\<rparr>) = aside s t"
  "aside s (t\<lparr>ov_data_type_paused := x34\<rparr>) = aside s t"
  "aside s (t\<lparr>ov_stale_count := x35\<rparr>) = aside s t"
  "aside s (t\<lparr>ov_stale_threshold := x36\<rparr>) = aside s t"
  "aside s (t\<lparr>ov_stale_slash_amount := x37\<rparr>) = aside s t"
  "aside s (t\<lparr>ov_stale_reputation_penalty := x38\<rparr>) = aside s t"
  "aside s (t\<lparr>ov_inactivity_limit := x39\<rparr>) = aside s t"
  "aside s (t\<lparr>ov_data_type_range := x40\<rparr>) = aside s t"
  "aside s (t\<lparr>ov_challenge_period := x41\<rparr>) = aside s t"
  "aside s (t\<lparr>ov_stake_withdrawal_req := x42\<rparr>) = aside s t"
  "aside s (t\<lparr>ov_global_oracle := x43\<rparr>) = aside s t"
  "aside s (t\<lparr>ov_wasm := x44\<rparr>) = aside s t"
  "aside s (t\<lparr>ov_events := x46\<rparr>) = aside s t"
  by (simp_all add: aside_def vault_of_def ov_publish_def)

lemma aside_sources [simp]:
  "aside (ov_publish ev s) t = aside s t"
  "aside (s\<lparr>ov_global_oracle := g\<rparr>) t = aside s t"
  by (simp_all add: aside_def vault_of_def ov_publish_def)

section \<open>Settings and ratings\<close>

lemma deactivate_aside: "deactivate_oracle dt orc s = Inr s' \<Longrightarrow> aside s s'"
  by (auto simp: deactivate_oracle_def drop_from_list_def Let_def bindR_eq_Inr)

lemma deactivate_offline_aside: "deactivate_offline e dt orcs s = Inr (l, s') \<Longrightarrow> aside s s'"
proof (induction orcs arbitrary: s l)
  case (Cons orc orcs)
  then show ?case
    by (auto simp: bindR_eq_Inr split: if_splits dest!: deactivate_aside)
       (metis aside_trans aside_updates(1))
qed simp

lemma enter_oracle_aside: "enter_oracle orc dt w s = Inr s' \<Longrightarrow> aside s s'"
  by (auto simp: enter_oracle_def Let_def split: if_splits)

lemma add_oracle_aside: "add_oracle e a orc dt w s = Inr s' \<Longrightarrow> aside s s'"
  unfolding add_oracle_def Let_def bindR_eq_Inr if_Inl_eq_Inr
  by (elim exE conjE) (drule enter_oracle_aside, auto dest: aside_trans[rotated])

lemma approvals_aside:
  "ov_approve_upgrade e g h s = Inr s' \<Longrightarrow> aside s s'"
  "ov_approve_admin_change e g a s = Inr s' \<Longrightarrow> aside s s'"
  unfolding ov_approve_upgrade_def ov_approve_admin_change_def Let_def bindR_eq_Inr if_Inl_eq_Inr
  by (elim exE conjE; simp only: sum.inject split: if_split_asm; auto)+

lemma setting_aside: "setting_dispatch tk e c s = Inr s' \<Longrightarrow> aside s s'"
proof (cases c)
  case (AddOracle a orc dt w)
  then show "setting_dispatch tk e c s = Inr s' \<Longrightarrow> aside s s'" by (auto intro: add_oracle_aside)
next
  case (DeactivateInactiveOracles dt)
  then show "setting_dispatch tk e c s = Inr s' \<Longrightarrow> aside s s'"
    by (auto simp: forget_ok deactivate_inactive_oracles_def intro: deactivate_offline_aside)
next
  case (OvApproveUpgrade g h)
  then show "setting_dispatch tk e c s = Inr s' \<Longrightarrow> aside s s'" by (auto intro: approvals_aside)
next
  case (OvApproveAdminChange g a)
  then show "setting_dispatch tk e c s = Inr s' \<Longrightarrow> aside s s'" by (auto intro: approvals_aside)
qed (auto simp: bindR_eq_Inr if_Inl_eq_Inr Let_def
      ov_initialize_def pause_data_type_def resume_data_type_def set_oracle_inactivity_limit_def
      set_min_confidence_def set_max_data_age_def set_max_timestamp_age_def
      set_timestamp_future_buffer_def set_data_type_max_age_def set_aggregation_method_def
      set_outlier_config_def set_data_type_range_def set_min_oracle_count_def
      set_data_type_min_oracle_count_def set_consensus_threshold_def set_cross_validation_rule_def
      remove_cross_validation_rule_def set_min_submit_interval_def set_encryption_required_def
      set_oracle_geo_weight_def ov_set_guardians_def ov_cancel_pending_upgrade_def
      ov_accept_admin_def update_oracle_weight_def remove_oracle_def invalidate_data_def
      ov_upgrade_def ov_propose_new_admin_def dest: deactivate_aside split: if_splits)

lemma update_reputation_aside: "update_reputation e orc dt acc s = Inr s' \<Longrightarrow> aside s s'"
  by (auto simp: update_reputation_def Let_def bindR_eq_Inr)

lemma rate_oracles_aside: "rate_oracles e dt tol m ps s = Inr s' \<Longrightarrow> aside s s'"
  by (induction ps arbitrary: s)
     (auto simp: bindR_eq_Inr split: if_splits dest: update_reputation_aside intro: aside_trans)

lemma verify_aside:
  "verify_trigger e dt k c s = Inr (b, s') \<Longrightarrow> aside s s'"
  "verify_trigger_fresh e dt k c n s = Inr (b, s') \<Longrightarrow> aside s s'"
  unfolding verify_trigger_def verify_trigger_fresh_def bindR_eq_Inr if_Inl_eq_Inr
  by (elim exE conjE; drule rate_oracles_aside; auto dest: aside_trans[rotated])+

lemma batch_verify_aside: "batch_verify_fresh e qs s = Inr (bs, s') \<Longrightarrow> aside s s'"
  by (induction qs arbitrary: s bs) (auto simp: bindR_eq_Inr dest: verify_aside intro: aside_trans)

lemma check_staleness_aside: "aside s (snd (check_staleness e dt k s))"
  by (simp add: check_staleness_def Let_def)

section \<open>Stakes\<close>

lemma vault_staked:
  assumes "ov_stake_amt s' = (ov_stake_amt s)((dt, orc) := x)" "ov_stake_token s' = ov_stake_token s"
  shows "vault_of s' = (vault_of s)\<lparr>v_staked := (v_staked (vault_of s))((dt, orc) := unwrap_or 0 x),
     v_ledger := ov_tokens s'\<rparr>"
  using assms by (simp add: vault_of_def fun_upd_comp)

lemma vault_fields [simp]:
  "v_staked (vault_of s) (dt, orc) = get_oracle_stake dt orc s"
  "v_token (vault_of s) = ov_stake_token s" "v_ledger (vault_of s) = ov_tokens s"
  by (simp_all add: vault_of_def get_oracle_stake_def)

lemma pay_treasury_ok:
  assumes "pay_treasury tk e n s = Inr s'"
  shows "s' = s \<or> (\<exists>u a l. ov_stake_token s = Some u
     \<and> transfer_of tk (ov_tokens s) u (this e) a n = Some l \<and> s' = s\<lparr>ov_tokens := l\<rparr>)"
proof (cases "ov_stake_token s")
  case (Some u)
  then show ?thesis
    using assms by (cases "ov_slash_treasury s") (auto simp: pay_treasury_def bindR_eq_Inr or_trap_eq_Inr)
qed (use assms in \<open>simp add: pay_treasury_def\<close>)

lemma paid_in:
  assumes "ov_stake_token s = Some u" "0 < n" "orc \<noteq> me" "transfer_of tk (ov_tokens s) u orc me n = Some (ov_tokens s')"
    and "ov_stake_amt s' = (ov_stake_amt s)((dt, orc) \<mapsto> get_oracle_stake dt orc s + n)"
    and "ov_stake_token s' = ov_stake_token s" "ov_last_reading_timestamp s' = ov_last_reading_timestamp s"
  shows "lawful ok tk me s s'"
proof (rule lawful_step[OF _ assms(7)])
  show "vault_step ok tk me (vault_of s) (vault_of s')"
    using pay_in[of "vault_of s" u n orc me tk "ov_tokens s'" ok dt] assms(1-4,6)
    unfolding vault_staked[OF assms(5,6)] by simp
qed

lemma paid_out:
  assumes "ov_stake_token s = Some u" "n \<le> get_oracle_stake dt orc s"
    and "transfer_of tk (ov_tokens s) u me a n = Some (ov_tokens s')"
    and "ov_stake_amt s' = (ov_stake_amt s)((dt, orc) := x)" "unwrap_or 0 x = get_oracle_stake dt orc s - n"
    and "ov_stake_token s' = ov_stake_token s" "ov_last_reading_timestamp s' = ov_last_reading_timestamp s"
  shows "lawful ok tk me s s'"
proof (rule lawful_step[OF _ assms(7)])
  show "vault_step ok tk me (vault_of s) (vault_of s')"
    using pay_out[of "vault_of s" u n "(dt, orc)" tk me a "ov_tokens s'" ok] assms(1-3,5,6)
    unfolding vault_staked[OF assms(4,6)] by simp
qed

text \<open>A payment to the treasury of a stake already taken off the books.\<close>

lemma slash_lawful:
  assumes "pay_treasury tk e n s1 = Inr s'" "0 < n" "n \<le> get_oracle_stake dt orc s"
    and "aside (s\<lparr>ov_stake_amt := (ov_stake_amt s)((dt, orc) \<mapsto> get_oracle_stake dt orc s - n)\<rparr>) s1"
  shows "lawful ok tk (this e) s s'"
proof -
  let ?v = "(vault_of s)\<lparr>v_staked := (v_staked (vault_of s))((dt, orc) := get_oracle_stake dt orc s - n)\<rparr>"
  have s1: "vault_of s1 = ?v" "ov_last_reading_timestamp s1 = ov_last_reading_timestamp s"
    using assms(4) by (simp_all add: aside_def vault_of_def fun_upd_comp)
  have same: "ov_stake_token s1 = ov_stake_token s" "ov_tokens s1 = ov_tokens s"
    using s1(1) vault_fields(2,3)[of s1] by simp_all
  consider "s' = s1" | u a l where "ov_stake_token s1 = Some u"
      "transfer_of tk (ov_tokens s1) u (this e) a n = Some l" "s' = s1\<lparr>ov_tokens := l\<rparr>"
    using pay_treasury_ok[OF assms(1)] by blast
  then show ?thesis
  proof cases
    case 1
    then show ?thesis
      using keep[of n "vault_of s" "(dt, orc)" ok tk "this e"] assms(2,3) s1 by (intro lawful_step) simp_all
  next
    case 2
    have "vault_of s' = ?v\<lparr>v_ledger := l\<rparr>" using 2(3) s1(1) by (simp add: vault_of_def)
    then show ?thesis
      using pay_out[of "vault_of s" u n "(dt, orc)" tk "this e" a l ok] assms(2,3) s1(2) 2 same
      by (intro lawful_step) simp_all
  qed
qed

lemma slash_request_aside: "aside s (slash_request dt orc n s)"
  by (simp add: slash_request_def Let_def split: option.splits)

lemma drop_underfunded_aside: "aside s (drop_underfunded dt orc n s)"
  by (simp add: drop_underfunded_def Let_def split: option.splits)

lemma stake_lawful:
  assumes "stake_dispatch tk e c s = Inr s'"
    and "\<And>orc dt n. c = Stake orc dt n \<Longrightarrow> auth e orc \<Longrightarrow> orc \<noteq> this e" "\<And>a u. c = SetStakeToken a u \<Longrightarrow> ok u"
  shows "lawful ok tk (this e) s s'"
proof (cases c)
  case (Stake orc dt n)
  then obtain u l where "auth e orc" "0 < n" "ov_stake_token s = Some u"
    "transfer_of tk (ov_tokens s) u orc (this e) n = Some l"
    "s' = ov_publish (OvStakeDeposited orc dt n (get_oracle_stake dt orc s + n))
       (s\<lparr>ov_tokens := l, ov_stake_amt := (ov_stake_amt s)((dt, orc) \<mapsto> get_oracle_stake dt orc s + n)\<rparr>)"
    using assms(1) by (auto simp: stake_def bindR_eq_Inr if_Inl_eq_Inr or_trap_eq_Inr require_auth_def result_simps split: if_splits)
  then show ?thesis
    using assms(2)[OF Stake] by (intro paid_in[of s u n orc "this e" tk s' dt ok]) (auto simp: ov_publish_def)
next
  case (WithdrawStake orc dt)
  then have step: "withdraw_stake tk e orc dt s = Inr s'" using assms(1) by simp
  obtain req where req: "ov_stake_withdrawal_req s (dt, orc) = Some req"
    using step by (auto simp: withdraw_stake_def bindR_eq_Inr if_Inl_eq_Inr or_panic_eq_Inr)
  define n where "n = min (get_oracle_stake dt orc s) (sw_amount req)"
  let ?left = "get_oracle_stake dt orc s - n"
  obtain u l where u: "ov_stake_token s = Some u" "transfer_of tk (ov_tokens s) u (this e) orc n = Some l"
    and s': "s' = ov_publish (OvStakeWithdrawn orc dt n) (s\<lparr>
       ov_stake_amt := (ov_stake_amt s)((dt, orc) := (if ?left = 0 then None else Some ?left)),
       ov_stake_withdrawal_req := (ov_stake_withdrawal_req s)((dt, orc) := None), ov_tokens := l\<rparr>)"
    using step unfolding withdraw_stake_def bindR_eq_Inr if_Inl_eq_Inr Let_def or_trap_eq_Inr or_panic_eq_Inr req
    by (elim exE conjE) (auto simp: n_def cong: if_cong)
  show ?thesis
    by (rule paid_out[OF u(1), of n dt orc tk "this e" orc s' "if ?left = 0 then None else Some ?left"])
       (use u(2) in \<open>simp_all add: s' n_def ov_publish_def\<close>)
next
  case (SlashOracle a orc dt n r)
  let ?m = "min n (get_oracle_stake dt orc s)"
  let ?s1 = "s\<lparr>ov_stake_amt := (ov_stake_amt s)((dt, orc) \<mapsto> get_oracle_stake dt orc s - ?m)\<rparr>"
  obtain s2 where s2: "pay_treasury tk e ?m (slash_request dt orc ?m ?s1) = Inr s2" "0 < ?m"
    and s': "s' = ov_publish (OvOracleSlashed orc dt ?m (get_oracle_stake dt orc s - ?m) r)
      (drop_underfunded dt orc (get_oracle_stake dt orc s - ?m) s2)"
    using assms(1) SlashOracle by (auto simp: slash_oracle_def Let_def result_simps)
  have "lawful ok tk (this e) s s2"
    by (rule slash_lawful[OF s2(1,2) _ slash_request_aside]) simp
  then show ?thesis
    by (rule lawful_aside) (simp add: s' drop_underfunded_aside)
next
  case (SetStakeToken a u)
  then have "s' = ov_publish (OvStakeTokenUpdated u) (s\<lparr>ov_stake_token := Some u\<rparr>)"
    using assms(1) by (auto simp: set_stake_token_def bindR_eq_Inr)
  then show ?thesis
    using choose[of ok u tk "this e" "vault_of s"] assms(3) SetStakeToken by (intro lawful_step) (simp_all add: vault_of_def ov_publish_def)
qed (use assms(1) in \<open>auto simp: bindR_eq_Inr if_Inl_eq_Inr Let_def
        set_min_stake_def set_slash_treasury_def set_challenge_period_def
        set_stale_threshold_def set_stale_slash_amount_def set_stale_reputation_penalty_def
        set_reputation_def request_stake_withdrawal_def cancel_stake_withdrawal_def intro!: aside_lawful\<close>)

section \<open>Submissions\<close>

lemma slash_stale_lawful: "slash_stale tk e orc dt s = Inr (n, s') \<Longrightarrow> lawful ok tk (this e) s s'"
proof -
  assume step: "slash_stale tk e orc dt s = Inr (n, s')"
  let ?m = "min (get_stale_slash_amount s) (get_oracle_stake dt orc s)"
  let ?s = "s\<lparr>ov_stake_amt := (ov_stake_amt s)((dt, orc) \<mapsto> get_oracle_stake dt orc s - ?m)\<rparr>"
  have "s' = s \<or> 0 < ?m \<and> pay_treasury tk e ?m ?s = Inr s'"
    using step by (auto simp: slash_stale_def Let_def bindR_eq_Inr split: if_splits)
  then show ?thesis using slash_lawful[of tk e ?m ?s s' dt orc s] by auto
qed

lemma drop_reputation_aside: "aside s (snd (drop_reputation e orc dt s))"
  by (simp add: drop_reputation_def Let_def)

lemma stale_lawful:
  assumes "handle_stale_submission tk e orc dt t m s = Inr s'"
  shows "lawful ok tk (this e) s s'"
proof -
  let ?c = "sat_u32 (get_stale_count dt orc s + 1)"
  let ?s1 = "ov_publish (OvStaleSubmissionDetected orc dt t m ?c)
      (s\<lparr>ov_stale_count := (ov_stale_count s)((dt, orc) \<mapsto> ?c)\<rparr>)"
  have start: "aside s ?s1" by simp
  show ?thesis
  proof (cases "get_stale_threshold ?s1 = 0 \<or> ?c < get_stale_threshold ?s1")
    case True
    then have "s' = ?s1" using assms by (simp add: handle_stale_submission_def Let_def)
    then show ?thesis using start by (simp add: aside_lawful)
  next
    case False
    then obtain n s2 where s2: "slash_stale tk e orc dt ?s1 = Inr (n, s2)"
      "s' = ov_publish (OvStalePenaltyApplied orc dt ?c n (fst (drop_reputation e orc dt s2)))
          ((snd (drop_reputation e orc dt s2))\<lparr>ov_stale_count :=
             (ov_stale_count (snd (drop_reputation e orc dt s2)))((dt, orc) \<mapsto> 0)\<rparr>)"
      using assms unfolding handle_stale_submission_def Let_def
      by (auto simp: bindR_eq_Inr case_prod_beta)
    have "lawful ok tk (this e) ?s1 s2" using s2(1) by (rule slash_stale_lawful)
    then have "lawful ok tk (this e) s s2" by (rule aside_then_lawful[OF start])
    then show ?thesis by (rule lawful_aside) (simp add: s2(2) drop_reputation_aside)
  qed
qed

lemma lawful_publish [simp]: "lawful ok tk me s (ov_publish ev s') = lawful ok tk me s s'"
  by (simp add: lawful_def newer_def vault_of_def ov_publish_def)

text \<open>A reading is stored only with a timestamp beyond the last one.\<close>

lemma store_lawful:
  assumes "\<forall>prev. ov_last_reading_timestamp s (dt, k, orc) = Some prev \<longrightarrow> prev < t"
  shows "lawful ok tk me s (record_reading_timestamp dt k orc t (store_plain_reading dt k p now m s))"
  using assms by (auto simp: lawful_def newer_def record_reading_timestamp_def
      store_plain_reading_def vault_of_def less_imp_le)

lemma land_reading_lawful: "land_reading tk e orc dt b s = Inr s' \<Longrightarrow> lawful ok tk (this e) s s'"
  unfolding land_reading_def Let_def bindR_eq_Inr
  by (elim exE conjE)
     (auto simp: submit_gates_ok split: if_splits intro: stale_lawful store_lawful)

lemma submit_lists_lawful:
  "submit_tuples tk e orc dt bs s = Inr s' \<Longrightarrow> lawful ok tk (this e) s s'"
  "submit_readings tk e orc dt bs s = Inr s' \<Longrightarrow> lawful ok tk (this e) s s'"
  by (induction bs arbitrary: s) (auto simp: bindR_eq_Inr dest: land_reading_lawful intro: lawful_trans)

lemma rate_limit_aside: "enforce_rate_limit dt orc t s = Inr s' \<Longrightarrow> aside s s'"
  unfolding enforce_rate_limit_ok by simp

lemma batch_guards_aside: "batch_guards e orc dt s = Inr s' \<Longrightarrow> aside s s'"
  by (auto simp: batch_guards_def bindR_eq_Inr intro: rate_limit_aside)

lemma reset_aside: "aside s (reset_stale_count orc dt s)"
  by (simp add: reset_stale_count_def)

lemma submit_data_lawful:
  assumes "submit_data tk e orc dt k v c t s = Inr s'"
  shows "lawful ok tk (this e) s s'"
proof -
  obtain s1 where s1: "enforce_rate_limit dt orc (timestamp e) s = Inr s1"
    and fresh: "\<forall>prev. ov_last_reading_timestamp s1 (dt, k, orc) = Some prev \<longrightarrow> prev < t"
    and rest: "(let max_data_age = effective_max_age dt s1
     in if sat_u64 (timestamp e - t) > max_data_age
        then handle_stale_submission tk e orc dt t max_data_age s1
        else let s2 = record_reading_timestamp dt k orc t (store_plain_reading dt k
               \<lparr>dp_oracle = orc, dp_value = v, dp_confidence = c, dp_timestamp = t\<rparr> (timestamp e) max_data_age s1)
        in bindR (check_cross_validation e dt k s2) (\<lambda>_.
           Inr (ov_publish (OvOracleDataSubmitted orc dt k v c t) (reset_stale_count orc dt s2)))) = Inr s'"
    using assms unfolding submit_data_def bindR_eq_Inr if_Inl_eq_Inr submit_gates_ok by blast
  have "lawful ok tk (this e) s1 s'"
  proof (cases "sat_u64 (timestamp e - t) > effective_max_age dt s1")
    case True
    then show ?thesis using rest by (auto simp: Let_def intro: stale_lawful)
  next
    case False
    then show ?thesis
      using rest lawful_aside[OF store_lawful[OF fresh] reset_aside] by (auto simp: Let_def bindR_eq_Inr)
  qed
  then show ?thesis by (rule aside_then_lawful[OF rate_limit_aside[OF s1]])
qed

lemma submit_encrypted_lawful:
  assumes "submit_encrypted_data tk e orc dt k x n c t s = Inr s'"
  shows "lawful ok tk (this e) s s'"
proof -
  obtain s1 where s1: "enforce_rate_limit dt orc (timestamp e) s = Inr s1"
    and "(\<exists>m. handle_stale_submission tk e orc dt t m s1 = Inr s')
      \<or> (\<exists>ps. s' = ov_publish (OvOracleEncryptedDataSubmitted orc dt k c t)
            (reset_stale_count orc dt (s1\<lparr>ov_encrypted_points := ps\<rparr>)))"
    using assms unfolding submit_encrypted_data_def bindR_eq_Inr if_Inl_eq_Inr Let_def
    by (elim exE conjE) (auto split: if_split_asm)
  moreover have "aside s1 (reset_stale_count orc dt (s1\<lparr>ov_encrypted_points := ps\<rparr>))" for ps
    by (rule aside_trans[OF _ reset_aside]) simp
  ultimately have "lawful ok tk (this e) s1 s'" using stale_lawful by (auto intro: aside_lawful)
  then show ?thesis by (rule aside_then_lawful[OF rate_limit_aside[OF s1]])
qed

lemma data_lawful: "data_dispatch tk e c s = Inr s' \<Longrightarrow> lawful ok tk (this e) s s'"
  by (cases c)
     (auto simp: forget_ok bindR_eq_Inr batch_submit_data_def submit_data_batch_def
      intro: submit_data_lawful submit_encrypted_lawful aside_lawful[OF verify_aside(1)]
        aside_lawful[OF verify_aside(2)] aside_lawful[OF batch_verify_aside] aside_lawful[OF check_staleness_aside]
        aside_then_lawful[OF batch_guards_aside] lawful_aside[OF _ reset_aside] submit_lists_lawful)

lemma ov_lawful:
  assumes "ov_exec tk e c s = Inr s'" "\<not> auth e (this e)" "\<And>a u. c = Staking (SetStakeToken a u) \<Longrightarrow> ok u"
  shows "lawful ok tk (this e) s s'"
proof (cases c)
  case (Setting d)
  then show ?thesis using assms(1) setting_aside aside_lawful by (fastforce simp: ov_exec_ok)
next
  case (Staking d)
  then show ?thesis
    using assms by (intro stake_lawful[of tk e d]) (auto simp: ov_exec_ok)
next
  case (Data d)
  then show ?thesis using assms(1) data_lawful by (fastforce simp: ov_exec_ok)
qed

section \<open>The stakes are covered\<close>

text \<open>
  A contract that lives at one address and never signs a call of itself. The verifier does
  not call itself, so nothing is lost.
\<close>

definition hosted ::
  "address \<Rightarrow> (env \<Rightarrow> 'c \<Rightarrow> 's \<Rightarrow> ('e, 's) result) \<Rightarrow> env \<Rightarrow> 'c \<Rightarrow> 's \<Rightarrow> ('e, 's) result" where
  "hosted me exec e c s = exec (e\<lparr>this := me, auth := (\<lambda>a. a \<noteq> me \<and> auth e a)\<rparr>) c s"

text \<open>The admin's calls that choose another token than \<open>u\<close> for the stakes.\<close>

primrec chooses_stake :: "address \<Rightarrow> ov_stake_call \<Rightarrow> bool" where
  "chooses_stake u (SetStakeToken a v) = (v \<noteq> u)"
| "chooses_stake u (SetMinStake a n) = False"
| "chooses_stake u (SetSlashTreasury a b) = False"
| "chooses_stake u (SetChallengePeriod a n) = False"
| "chooses_stake u (SetStaleThreshold a n) = False"
| "chooses_stake u (SetStaleSlashAmount a n) = False"
| "chooses_stake u (SetStaleReputationPenalty a n) = False"
| "chooses_stake u (SetReputation a orc dt n) = False"
| "chooses_stake u (Stake orc dt n) = False"
| "chooses_stake u (RequestStakeWithdrawal orc dt) = False"
| "chooses_stake u (CancelStakeWithdrawal orc dt) = False"
| "chooses_stake u (WithdrawStake orc dt) = False"
| "chooses_stake u (SlashOracle a orc dt n r) = False"

primrec chooses_other :: "address \<Rightarrow> ov_call \<Rightarrow> bool" where
  "chooses_other u (Setting c) = False"
| "chooses_other u (Staking c) = chooses_stake u c"
| "chooses_other u (Data c) = False"

definition vault_inv :: "'t token_ops \<Rightarrow> address \<Rightarrow> address \<Rightarrow> 't vault \<Rightarrow> bool" where
  "vault_inv tk u me v \<longleftrightarrow> (v_token v = None \<or> v_token v = Some u)
     \<and> finite (support (v_staked v)) \<and> (\<forall>k. 0 \<le> v_staked v k)
     \<and> total (v_staked v) \<le> balance tk (v_ledger v) u me"

lemma vault_inv_upd:
  assumes "vault_inv tk u me v" "0 \<le> v_staked v k + n"
    and "balance tk (v_ledger v) u me + n \<le> balance tk l u me"
  shows "vault_inv tk u me (v\<lparr>v_staked := (v_staked v)(k := v_staked v k + n), v_ledger := l\<rparr>)"
  using assms by (auto simp: vault_inv_def total_upd support_upd)

lemma vault_step_inv:
  assumes "vault_step (\<lambda>x. x = u) tk me v v'" "vault_inv tk u me v" "sep41 tk"
  shows "vault_inv tk u me v'"
  using assms
proof cases
  case (pay_in u' n orc l dt)
  have "u' = u" using pay_in(2) assms(2) by (auto simp: vault_inv_def)
  then have "balance tk l u me = balance tk (v_ledger v) u me + n"
    using moved_balance[OF sep41_moved[OF assms(3) pay_in(5)], of u me] pay_in(4) by simp
  moreover have "0 \<le> v_staked v (dt, orc)" using assms(2) by (simp add: vault_inv_def)
  ultimately show ?thesis
    unfolding pay_in(1) using vault_inv_upd[OF assms(2), of "(dt, orc)" n l] pay_in(3) by simp
next
  case (pay_out u' n k a l)
  have "u' = u" using pay_out(2) assms(2) by (auto simp: vault_inv_def)
  then have "balance tk (v_ledger v) u me + - n \<le> balance tk l u me"
    using moved_balance[OF sep41_moved[OF assms(3) pay_out(4)], of u me]
      sep41_moved[OF assms(3) pay_out(4)] by (simp add: moved_def)
  then show ?thesis
    unfolding pay_out(1) using vault_inv_upd[OF assms(2), of k "- n" l] pay_out(3) by simp
next
  case (keep n k)
  have "vault_inv tk u me (v\<lparr>v_staked := (v_staked v)(k := v_staked v k + - n), v_ledger := v_ledger v\<rparr>)"
    by (rule vault_inv_upd[OF assms(2)]) (use keep(2,3) in simp_all)
  then show ?thesis unfolding keep(1) by simp
next
  case (choose u')
  then show ?thesis using assms(2) by (simp add: vault_inv_def)
qed

lemma vault_steps_inv:
  assumes "(vault_step (\<lambda>x. x = u) tk me)\<^sup>*\<^sup>* v v'" "vault_inv tk u me v" "sep41 tk"
  shows "vault_inv tk u me v'"
  using assms by (induction rule: rtranclp_induct) (auto intro: vault_step_inv)

lemma hosted_lawful:
  assumes "except (chooses_other u) (hosted me (ov_exec tk)) e c s = Inr s'"
  shows "lawful (\<lambda>x. x = u) tk me s s'"
proof -
  let ?e = "e\<lparr>this := me, auth := (\<lambda>a. a \<noteq> me \<and> auth e a)\<rparr>"
  have "\<not> chooses_other u c" "ov_exec tk ?e c s = Inr s'"
    using assms by (auto simp: except_def hosted_def split: if_splits)
  then show ?thesis using ov_lawful[of tk ?e c s s' "\<lambda>x. x = u"] by fastforce
qed

lemma vault_run:
  assumes "run (except (chooses_other u) (hosted me (ov_exec tk))) t s t' s'"
    and "vault_inv tk u me (vault_of s)" "sep41 tk"
  shows "vault_inv tk u me (vault_of s')"
  using assms
  by (induction rule: run.induct) (auto dest!: hosted_lawful simp: lawful_def intro: vault_steps_inv)

lemma stake_newer: "stake_dispatch tk e c s = Inr s' \<Longrightarrow> newer s s'"
proof (cases "\<exists>orc dt n. c = Stake orc dt n")
  case True
  then show "stake_dispatch tk e c s = Inr s' \<Longrightarrow> newer s s'"
    by (auto simp: stake_def bindR_eq_Inr if_Inl_eq_Inr newer_def ov_publish_def)
next
  case False
  then show "stake_dispatch tk e c s = Inr s' \<Longrightarrow> newer s s'"
    using stake_lawful[of tk e c s s' "\<lambda>_. True"] by (auto simp: lawful_def)
qed

lemma call_newer: "ov_exec tk e c s = Inr s' \<Longrightarrow> newer s s'"
  using data_lawful[of tk e _ s s' "\<lambda>_. True"] aside_lawful[of s s' "\<lambda>_. True" tk "this e"]
  by (cases c) (auto simp: ov_exec_ok lawful_def dest: setting_aside stake_newer)

lemma newer_run: "run (ov_exec tk) t s t' s' \<Longrightarrow> newer s s'"
  by (induction rule: run.induct) (auto simp: newer_def dest!: call_newer, fastforce intro: order_trans)

end
