(* ===== verification/OV_Properties.thy ===== *)
theory OV_Properties
  imports OV_Sample OV_Custody
begin

text \<open>
  The properties of the oracle verifier. Each is stated over the states its entry points can
  reach, and is applied to the history of \<^verbatim>\<open>OV_Sample\<close>.
\<close>

section \<open>Majority\<close>

text \<open>What the rating of the oracles needs in order not to overflow.\<close>

definition rateable_readings :: "env \<Rightarrow> symbol \<Rightarrow> symbol \<Rightarrow> 't ov_state \<Rightarrow> bool" where
  "rateable_readings e dt k s \<longleftrightarrow> (\<forall>p \<in> set (points_of dt k s). rated e dt s p \<longrightarrow>
     \<bar>dp_value p\<bar> \<le> MAX_DATA_VALUE
     \<and> (rep_total_submissions (get_reputation (dp_oracle p) dt s) + 1) * 1000 \<le> u64_max)"

text \<open>The gates in front of a verification with a freshness bound.\<close>

definition open_for_verification :: "env \<Rightarrow> symbol \<Rightarrow> symbol \<Rightarrow> int \<Rightarrow> 't ov_state \<Rightarrow> bool" where
  "open_for_verification e dt k n s \<longleftrightarrow>
     \<not> is_data_type_paused dt s \<and> \<not> get_encryption_required dt s
   \<and> get_min_oracle_count s \<le> int (length (votes e dt k s))
   \<and> effective_min_oracle_count dt s \<le> int (length (votes e dt k s))
   \<and> sat_u64 (timestamp e - latest_timestamp (points_of dt k s)) \<le> n"

lemma rateable_ratable:
  assumes "rateable_readings e dt k s" "\<bar>m\<bar> \<le> MAX_DATA_VALUE"
  shows "\<forall>p \<in> set (points_of dt k s). rated e dt s p \<longrightarrow> ratable e dt m s p"
  using assms by (fastforce simp: rateable_readings_def ratable_def num_defs)

lemma publish_rated:
  "rated e dt (ov_publish ev s) p = rated e dt s p" "ratable e dt m (ov_publish ev s) p = ratable e dt m s p"
  by (auto simp: rated_def ratable_def fresh_reading_def entry_active_def effective_max_age_def
      min_confidence_def get_reputation_def ov_publish_def split: option.split)

lemma verify_decides:
  assumes "ov_inv s" "plain_median dt s" "majority e dt k lo hi s" "lo \<le> hi"
    and "- MAX_DATA_VALUE \<le> lo" "hi \<le> MAX_DATA_VALUE"
    and "\<And>v. lo \<le> v \<Longrightarrow> v \<le> hi \<Longrightarrow> condition_met c v = Inr b"
    and "open_for_verification e dt k n s" "rateable_readings e dt k s"
  shows "\<exists>m s'. lo \<le> m \<and> m \<le> hi \<and> get_median_value e dt k s = Inr m
     \<and> verify_trigger_fresh e dt k c n s = Inr (b, s')"
proof -
  note gates = assms(8)[unfolded open_for_verification_def is_data_type_paused_def get_encryption_required_def]
  have "moderate lo" "moderate hi" using assms(4-6) by (auto simp: moderate_def num_defs)
  then obtain m where m: "get_median_value e dt k s = Inr m" "lo \<le> m" "m \<le> hi"
    using majority_median[OF assms(1-4)] gates by blast
  have pts: "load_some_points dt k s = Inr (points_of dt k s)"
    by (rule load_votes(1)[OF majority_votes[OF assms(1,3)]])
  let ?s = "ov_publish (OvVerificationResult dt k b m (tc_threshold c)) s"
  have "\<bar>m\<bar> \<le> MAX_DATA_VALUE" using m assms(5,6) by linarith
  then have "\<forall>p \<in> set (points_of dt k s). rated e dt s p \<longrightarrow> ratable e dt m s p"
    by (rule rateable_ratable[OF assms(9)])
  then have "\<forall>p \<in> set (points_of dt k s). rated e dt ?s p \<longrightarrow> ratable e dt m ?s p"
    by (simp add: publish_rated)
  moreover have "ov_inv ?s" using assms(1) by simp
  ultimately obtain s' where "rate_oracles e dt (tc_tolerance c) m (points_of dt k s) ?s = Inr s'"
    using rate_oracles_works[OF _ invD(1)[OF assms(1)], of ?s dt k] by blast
  then have "verify_trigger_fresh e dt k c n s = Inr (b, s')"
    using gates pts m assms(7)[OF m(2,3)]
    by (simp add: verify_trigger_fresh_def require_data_type_active_def refuse_encrypted_def
        require_participation_def encryption_required_def votes_def not_less)
  then show ?thesis using m by blast
qed

text \<open>
  C25. An honest majority decides a trigger: where the data type uses the weighted median
  without outlier rejection, and the eligible readings of oracles holding more than half of
  the effective weight lie in a range in which the trigger condition has one truth value,
  a verification that passes its gates succeeds with that value, whatever the minority
  reports, provided the readings are inside the contract's value bound and the rating
  counters have room.
\<close>

theorem honest_majority_decides:
  assumes "reach (ov_exec tk) (ov_fresh t0) t s"
    and "plain_median dt s" "majority e dt k lo hi s" "lo \<le> hi"
    and "- MAX_DATA_VALUE \<le> lo" "hi \<le> MAX_DATA_VALUE"
    and "\<And>v. lo \<le> v \<Longrightarrow> v \<le> hi \<Longrightarrow> condition_met c v = Inr b"
    and "open_for_verification e dt k n s" "rateable_readings e dt k s"
  shows "\<exists>m s'. lo \<le> m \<and> m \<le> hi \<and> get_median_value e dt k s = Inr m
     \<and> verify_trigger_fresh e dt k c n s = Inr (b, s')"
  by (rule verify_decides[OF ov.inv_reach[OF assms(1)] assms(2-9)])

theorem honest_majority_decides_witness:
  "\<exists>s s' m. reach ov_run ov_begin 2002 s \<and> 40 \<le> m \<and> m \<le> 42
     \<and> get_median_value (gauge 2100) ''weather'' ''rain1'' s = Inr m
     \<and> verify_trigger_fresh (gauge 2100) ''weather'' ''rain1'' dry 3600 s = Inr (True, s')"
proof -
  obtain s where s: "reach ov_run ov_begin 2002 s" "plain_median ''weather'' s"
    "majority (gauge 2100) ''weather'' ''rain1'' 40 42 s"
    "open_for_verification (gauge 2100) ''weather'' ''rain1'' 3600 s"
    "rateable_readings (gauge 2100) ''weather'' ''rain1'' s"
  proof -
    have "outcome (\<lambda>s. plain_median ''weather'' s \<and> majority (gauge 2100) ''weather'' ''rain1'' 40 42 s
        \<and> open_for_verification (gauge 2100) ''weather'' ''rain1'' 3600 s
        \<and> rateable_readings (gauge 2100) ''weather'' ''rain1'' s) (play ov_run reported ov_begin)"
      by code_simp
    then show ?thesis
      by (rule history_reach[OF _ reported_time(1), unfolded reported_time(2)]) (use that in blast)
  qed
  have "condition_met dry v = Inr True" if "40 \<le> v" "v \<le> 42" for v
    using that by (simp add: condition_met_def dry_def)
  then show ?thesis
    using honest_majority_decides[OF s(1,2,3) _ _ _ _ s(4,5), of dry True] s(1)
    by (fastforce simp: num_defs)
qed

section \<open>Order\<close>

definition rearranged :: "symbol \<Rightarrow> symbol \<Rightarrow> oracle_data_point list \<Rightarrow> 't ov_state \<Rightarrow> 't ov_state" where
  "rearranged dt k qs s = s\<lparr>ov_data_points := (ov_data_points s)((dt, k) \<mapsto> qs)\<rparr>"

lemma u32_sum_mset:
  assumes "mset xs = mset ys" "\<forall>w \<in> set xs. 0 \<le> w"
  shows "u32_sum xs = u32_sum ys"
proof -
  have "set xs = set ys" using assms(1) by (rule mset_eq_setD)
  moreover have "sum_list xs = sum_list ys" using assms(1) by (metis sum_mset_sum_list)
  ultimately show ?thesis using assms(2) by (simp add: u32_sum_nonneg)
qed

text \<open>The consensus of a weighted median depends on the votes as a multiset.\<close>

lemma combine_mset:
  assumes "mset (map weighed xs) = mset (map weighed ys)" "\<forall>x \<in> set (map weighed xs). 0 \<le> snd x"
    and "effective_aggregation_method dt s = WeightedMedian"
  shows "bindR (combine e dt xs s) (\<lambda>(_, _, c). Inr c) = bindR (combine e dt ys s) (\<lambda>(_, _, c). Inr c)"
proof -
  note eq = filter_outliers_mset[OF assms(1), of dt s]
  have third: "bindR (bindR m (\<lambda>c. Inr (u, w, c))) (\<lambda>(_, _, c). Inr c) = m"
    for u :: "sample list" and w :: int and m :: "(ov_error, int) result" by (cases m) simp_all
  show ?thesis
  proof (cases "filter_outliers dt xs s")
    case (Inl r)
    then have "filter_outliers dt ys s = Inl r"
      using eq by (cases "filter_outliers dt ys s") (auto simp: remaining_def)
    then show ?thesis using Inl by (simp add: combine_def)
  next
    case (Inr us)
    then obtain vs where vs: "filter_outliers dt ys s = Inr vs" "mset (map weighed us) = mset (map weighed vs)"
      using eq by (cases "filter_outliers dt ys s") (auto simp: remaining_def)
    have w: "map sample_weight zs = map snd (map weighed zs)" for zs by (simp add: sample_defs)
    have "\<forall>x \<in> set (map snd (map weighed us)). 0 \<le> x"
      using filter_outliers_keeps(2)[OF Inr] assms(2) by auto
    then have sums: "u32_sum (map sample_weight us) = (u32_sum (map sample_weight vs) :: (ov_error, int) result)"
      unfolding w by (intro u32_sum_mset) (use vs(2) in \<open>simp_all only: mset_map\<close>)
    have len: "length us = length vs" using mset_eq_length[OF vs(2)] by simp
    then have "us = [] \<longleftrightarrow> vs = []" by auto
    then show ?thesis
      using Inr vs(1) sums len assms(3) weighted_median_mset[OF vs(2)]
      by (cases "u32_sum (map sample_weight vs) :: (ov_error, int) result") (auto simp: combine_def aggregate_def third)
  qed
qed

text \<open>A rearrangement of the stored readings of one key.\<close>

lemma rearranged_same:
  assumes "mset qs = mset (points_of dt k s)"
  shows "ov_inv (rearranged dt k qs s) = ov_inv s"
    "mset (votes e dt k (rearranged dt k qs s)) = mset (votes e dt k s)"
    "voting_weight dt (rearranged dt k qs s) = voting_weight dt s"
    "combine e dt xs (rearranged dt k qs s) = combine e dt xs s"
proof -
  let ?s = "rearranged dt k qs s"
  have pts: "points_of dt' k' ?s = (if (dt', k') = (dt, k) then qs else points_of dt' k' s)" for dt' k'
    by (auto simp: points_of_def rearranged_def)
  have fields: "registry ?s = registry s" "ov_reputation ?s = ov_reputation s"
    "ov_oracle ?s = ov_oracle s" "ov_last_reading_timestamp ?s = ov_last_reading_timestamp s"
    by (simp_all add: rearranged_def registry_def)
  have ok: "reading_ok dt' k' ?s = reading_ok dt' k' s" for dt' k'
    by (simp add: reading_ok_def fields fun_eq_iff)
  have "set qs = set (points_of dt k s)" "length qs = length (points_of dt k s)"
    using mset_eq_setD[OF assms] mset_eq_length[OF assms] .
  moreover have "distinct (map dp_oracle qs) = distinct (map dp_oracle (points_of dt k s))"
    using assms by (metis mset_eq_imp_distinct_iff mset_map)
  ultimately have "readings_ok ?s = readings_ok s"
    unfolding readings_ok_def ok pts by (auto split: if_splits)
  then show "ov_inv ?s = ov_inv s"
    using registry_ok_cong[OF fields(1)] reputations_ok_cong[OF fields(2)] by (simp add: ov_inv_def)
  have "eligible e dt ?s = eligible e dt s"
    by (simp add: eligible_def fresh_reading_def reporting_def entry_active_def oracle_offline_def rearranged_def
        effective_max_age_def min_confidence_def inactivity_limit_def fun_eq_iff split: option.split)
  then show "mset (votes e dt k ?s) = mset (votes e dt k s)"
    using assms by (simp add: votes_def pts mset_filter)
  show "voting_weight dt ?s = voting_weight dt s"
    by (simp add: voting_weight_def registered_weight_def get_reputation_def rearranged_def fun_eq_iff split: option.split)
  have settings: "effective_outlier_config dt ?s = effective_outlier_config dt s"
    "effective_aggregation_method dt ?s = effective_aggregation_method dt s"
    "get_min_oracle_count ?s = get_min_oracle_count s"
    by (simp_all add: effective_outlier_config_def effective_aggregation_method_def
        get_min_oracle_count_def rearranged_def)
  show "combine e dt xs ?s = combine e dt xs s"
    unfolding combine_def filter_outliers_def aggregate_def settings ..
qed

text \<open>
  C26. The consensus does not depend on the order of submission: in every reachable state of
  a data type with the weighted median, with or without outlier rejection, rearranging the
  stored readings of a key leaves the consensus value, or the error, the same. The ranking
  that rejects outliers breaks its ties by the reported value and weight for this.
\<close>

theorem consensus_order_free:
  assumes "reach (ov_exec tk) (ov_fresh t0) t s"
    and "effective_aggregation_method dt s = WeightedMedian" "mset qs = mset (points_of dt k s)" "qs \<noteq> []"
  shows "get_median_value e dt k (rearranged dt k qs s) = get_median_value e dt k s"
proof -
  let ?s = "rearranged dt k qs s"
  have inv: "ov_inv s" by (rule ov.inv_reach[OF assms(1)])
  note same = rearranged_same[OF assms(3)]
  have "points_of dt k s \<noteq> []" using assms(3,4) by auto
  then have load: "load_some_points dt k s = Inr (points_of dt k s)" "load_some_points dt k ?s = Inr qs"
    using assms(4) by (auto simp: load_some_points_def load_points_def points_of_def unwrap_or_def
        rearranged_def split: option.splits)
  have "mset (ballot e dt k ?s) = mset (ballot e dt k s)"
    using same(2)[of e] by (simp add: ballot_def same(3))
  then have "mset (map weighed (vote_samples e dt k ?s)) = mset (map weighed (vote_samples e dt k s))"
    by (simp only: weighed_votes)
  moreover have "\<forall>x \<in> set (map weighed (vote_samples e dt k ?s)). 0 \<le> snd x"
    unfolding weighed_votes using ballot_weights(1) inv same(1) by blast
  ultimately have "bindR (combine e dt (vote_samples e dt k ?s) s) (\<lambda>(_, _, c). Inr c)
      = bindR (combine e dt (vote_samples e dt k s) s) (\<lambda>(_, _, c). Inr c)"
    using assms(2) by (rule combine_mset)
  then show ?thesis
    using get_median_votes[OF inv, of e dt k] get_median_votes[of ?s e dt k] inv same(1,4) load by simp
qed

theorem consensus_order_free_witness:
  "\<exists>s ps. reach ov_run ov_begin 2002 s \<and> length ps = 3 \<and> distinct ps \<and> points_of ''weather'' ''rain1'' s = ps
     \<and> get_median_value (gauge 2100) ''weather'' ''rain1'' (rearranged ''weather'' ''rain1'' (rev ps) s)
       = get_median_value (gauge 2100) ''weather'' ''rain1'' s"
proof -
  obtain s where s: "reach ov_run ov_begin 2002 s"
    "length (points_of ''weather'' ''rain1'' s) = 3" "distinct (points_of ''weather'' ''rain1'' s)"
    and m: "plain_median ''weather'' s"
    by (rule readings_reported) (auto simp: near_def far_def liar_def addr_def)
  have ne: "rev (points_of ''weather'' ''rain1'' s) \<noteq> []" using s(2) by auto
  have "mset (rev (points_of ''weather'' ''rain1'' s)) = mset (points_of ''weather'' ''rain1'' s)" by simp
  then show ?thesis
    using consensus_order_free[OF s(1) _ _ ne, of "''weather''" "''rain1''" "gauge 2100"] s m
    by (auto simp: plain_median_def)
qed

section \<open>Ratings\<close>

text \<open>How a reading changes its oracle's reputation at a consensus \<open>m\<close>.\<close>

definition rating :: "int \<Rightarrow> int \<Rightarrow> oracle_data_point \<Rightarrow> oracle_reputation \<Rightarrow> oracle_reputation \<Rightarrow> bool" where
  "rating tolerance m p r r' \<longleftrightarrow>
     rep_total_submissions r' = rep_total_submissions r + 1
   \<and> rep_accurate_submissions r' = rep_accurate_submissions r + (if \<bar>dp_value p - m\<bar> \<le> tolerance then 1 else 0)
   \<and> rep_score r' = rep_accurate_submissions r' * 1000 div rep_total_submissions r'"

text \<open>
  C27. Anybody rates the oracles: one call of \<^verbatim>\<open>verify_trigger\<close> by any caller, whose authorisation
  is never asked for, with any tolerance of the caller's choice rates every oracle that has a
  fresh reading for the key and an active registration: its total grows by one, its accurate
  count grows exactly when the reading is within the tolerance of the consensus, the score
  becomes their share in thousandths, and no other reputation changes. The call succeeds if
  the data type is neither paused nor encrypted, enough readings are eligible, the consensus
  and the rated readings are within the contract's value bound, and the rating counters have
  room. With a negative tolerance nobody is accurate.
\<close>

theorem anybody_rates_oracles:
  assumes "reach (ov_exec tk) (ov_fresh t0) t s"
    and "\<not> is_data_type_paused dt s" "\<not> get_encryption_required dt s"
    and "effective_min_oracle_count dt s \<le> int (length (votes e dt k s))" "votes e dt k s \<noteq> []"
    and "get_median_value e dt k s = Inr m" "\<bar>m\<bar> \<le> MAX_DATA_VALUE" "condition_met c m = Inr b"
    and "rateable_readings e dt k s"
  shows "\<exists>s'. verify_trigger e dt k c s = Inr (b, s')
     \<and> (\<forall>p \<in> set (points_of dt k s). rated e dt s p \<longrightarrow>
          rating (tc_tolerance c) m p (get_reputation (dp_oracle p) dt s) (get_reputation (dp_oracle p) dt s'))
     \<and> (\<forall>orc. orc \<notin> dp_oracle ` set (filter (rated e dt s) (points_of dt k s)) \<longrightarrow>
          get_reputation orc dt s' = get_reputation orc dt s)"
proof -
  have inv: "ov_inv s" by (rule ov.inv_reach[OF assms(1)])
  have "verify_trigger e dt k c s =
      bindR (rate_oracles e dt (tc_tolerance c) m (points_of dt k s) s) (\<lambda>s1. Inr (b, s1))"
    using assms(2-4,6,8) load_votes(2)[OF assms(5)]
    by (simp add: verify_trigger_def require_data_type_active_def is_data_type_paused_def refuse_encrypted_def
        get_encryption_required_def encryption_required_def require_participation_def votes_def not_less)
  then show ?thesis
    using rate_oracles_works[OF inv invD(1)[OF inv] rateable_ratable[OF assms(9,7)], of "tc_tolerance c"]
    unfolding rating_def by (elim exE conjE) (intro exI conjI; simp)
qed

text \<open>Two oracles report near the consensus, and lose their reputation to a caller without any right.\<close>

definition nobody :: "int \<Rightarrow> env" where "nobody t = (gauge t)\<lparr>auth := (\<lambda>_. False)\<rparr>"

definition spite :: trigger_condition where "spite = dry\<lparr>tc_tolerance := - 1\<rparr>"

theorem anybody_rates_oracles_witness:
  "\<exists>s s' p. reach ov_run ov_begin 2002 s \<and> verify_trigger (nobody 2100) ''weather'' ''rain1'' spite s = Inr (True, s')
     \<and> p \<in> set (points_of ''weather'' ''rain1'' s) \<and> dp_value p = 42
     \<and> get_median_value (nobody 2100) ''weather'' ''rain1'' s = Inr 42
     \<and> rating (- 1) 42 p (get_reputation far ''weather'' s) (get_reputation far ''weather'' s')"
proof -
  let ?e = "nobody 2100" and ?dt = "''weather''" and ?k = "''rain1''"
  obtain s where s: "reach ov_run ov_begin 2002 s" and t:
    "\<not> is_data_type_paused ?dt s" "\<not> get_encryption_required ?dt s"
    "effective_min_oracle_count ?dt s \<le> int (length (votes ?e ?dt ?k s))" "votes ?e ?dt ?k s \<noteq> []"
    "get_median_value ?e ?dt ?k s = Inr 42" "condition_met spite 42 = Inr True" "rateable_readings ?e ?dt ?k s"
    "list_ex (\<lambda>p. rated ?e ?dt s p \<and> dp_oracle p = far \<and> dp_value p = 42) (points_of ?dt ?k s)"
  proof -
    have "outcome (\<lambda>s. \<not> is_data_type_paused ?dt s \<and> \<not> get_encryption_required ?dt s
       \<and> effective_min_oracle_count ?dt s \<le> int (length (votes ?e ?dt ?k s)) \<and> votes ?e ?dt ?k s \<noteq> []
       \<and> get_median_value ?e ?dt ?k s = Inr 42 \<and> condition_met spite 42 = Inr True \<and> rateable_readings ?e ?dt ?k s
       \<and> list_ex (\<lambda>p. rated ?e ?dt s p \<and> dp_oracle p = far \<and> dp_value p = 42) (points_of ?dt ?k s))
       (play ov_run reported ov_begin)"
      by code_simp
    then show ?thesis
      by (rule history_reach[OF _ reported_time(1), unfolded reported_time(2)]) (use that in blast)
  qed
  obtain p where p: "p \<in> set (points_of ?dt ?k s)" "rated ?e ?dt s p" "dp_oracle p = far" "dp_value p = 42"
    using t(8) by (auto simp: list_ex_iff)
  obtain s' where "verify_trigger ?e ?dt ?k spite s = Inr (True, s')"
    "rating (tc_tolerance spite) 42 p (get_reputation (dp_oracle p) ?dt s) (get_reputation (dp_oracle p) ?dt s')"
    using anybody_rates_oracles[OF s t(1-5) _ t(6,7)] p(1,2) by (auto simp: num_defs)
  then show ?thesis using s t(5) p by (auto simp: spite_def)
qed

section \<open>Reports\<close>

text \<open>
  C28. Reports and settlements agree among oracles of full reputation: in a reachable state in
  which every oracle with an eligible reading has the score 1000 and the data type is neither
  paused nor encrypted, the value \<^verbatim>\<open>get_aggregated\<close>
  reports, which weighs the oracles by their registration, is the consensus by which triggers
  are settled, which weighs their reputation, or both calls fail with the same error; and
  \<^verbatim>\<open>verify_trigger_with_confidence\<close> gives the verdict on that consensus. This holds for every
  method of aggregation, with and without outlier rejection.
\<close>

theorem reports_agree:
  assumes "reach (ov_exec tk) (ov_fresh t0) t s"
    and "\<not> get_encryption_required dt s" "\<not> is_data_type_paused dt s"
    and "\<forall>p \<in> set (votes e dt k s). rep_score (get_reputation (dp_oracle p) dt s) = 1000"
  shows "bindR (get_aggregated e dt k s) (\<lambda>a. Inr (ag_median_value a)) = get_median_value e dt k s
     \<and> bindR (verify_trigger_with_confidence e dt k c s) (\<lambda>(met, _). Inr met)
         = bindR (get_median_value e dt k s) (condition_met c)"
proof -
  have inv: "ov_inv s" by (rule ov.inv_reach[OF assms(1)])
  have pts: "load_some_points dt k s = Inr ps \<Longrightarrow> ps = points_of dt k s" for ps
    by (auto simp: load_some_points_def load_points_def points_of_def result_simps split: if_splits)
  have counted: "filter (fresh_reading e dt s) (filter (reporting e dt s) (take MAX_DATA_POINTS (points_of dt k s)))
      = votes e dt k s"
    unfolding votes_take[OF inv, symmetric] by (auto simp: eligible_def intro!: filter_cong)
  have weight: "registered_weight dt s (dp_oracle p) = voting_weight dt s (dp_oracle p)" if "p \<in> set (votes e dt k s)" for p
    using assms(4) that invD(4)[OF inv votes_active[OF that]] by (simp add: voting_weight_def)
  then have samples: "map (\<lambda>p. (dp_value p, registered_weight dt s (dp_oracle p), dp_timestamp p)) (votes e dt k s)
      = vote_samples e dt k s"
    by (simp add: vote_samples_def)
  have "\<forall>p \<in> set (votes e dt k s). 0 \<le> registered_weight dt s (dp_oracle p) \<and> registered_weight dt s (dp_oracle p) \<le> MAX_WEIGHT"
    using invD(4)[OF inv votes_active] by fastforce
  then have total: "u32_sum (map (\<lambda>p. registered_weight dt s (dp_oracle p)) (votes e dt k s))
      = (Inr (sum_list (map (\<lambda>p. registered_weight dt s (dp_oracle p)) (votes e dt k s))) :: (ov_error, int) result)"
    using bounded_sum(2)[OF _ votes_few[OF inv], of e dt k "\<lambda>p. registered_weight dt s (dp_oracle p)"]
    by (subst u32_sum_nonneg) (auto simp: u32_max_def)
  have report: "bindR (get_aggregated e dt k s) (\<lambda>a. Inr (ag_median_value a)) = get_median_value e dt k s"
  proof (cases "load_some_points dt k s")
    case (Inl r)
    then show ?thesis
      using assms(2) by (simp add: get_aggregated_def get_median_value_def refuse_encrypted_def get_encryption_required_def)
  next
    case (Inr ps)
    then show ?thesis
      using assms(2) pts[OF Inr] counted samples total get_median_votes[OF inv, of e dt k]
      by (cases "combine e dt (vote_samples e dt k s) s")
         (auto simp: get_aggregated_def refuse_encrypted_def get_encryption_required_def Let_def split: prod.splits)
  qed
  have "bindR (verify_trigger_with_confidence e dt k c s) (\<lambda>(met, _). Inr met)
      = bindR (bindR (get_aggregated e dt k s) (\<lambda>a. Inr (ag_median_value a))) (condition_met c)"
    using assms(3)
    by (cases "get_aggregated e dt k s")
       (auto simp: verify_trigger_with_confidence_def require_data_type_active_def is_data_type_paused_def bindR_def
        split: sum.split)
  then show ?thesis using report by simp
qed

text \<open>The administrator gives the three oracles full reputations.\<close>

definition trusted :: "(env \<times> ov_call) list" where
  "trusted = reported @ [
     (gauge 2010, Staking (SetReputation boss near ''weather'' 1000)),
     (gauge 2011, Staking (SetReputation boss far ''weather'' 1000)),
     (gauge 2012, Staking (SetReputation boss liar ''weather'' 1000))]"

theorem reports_agree_witness:
  "\<exists>s a. reach ov_run ov_begin 2012 s \<and> length (votes (gauge 2100) ''weather'' ''rain1'' s) = 3
     \<and> get_median_value (gauge 2100) ''weather'' ''rain1'' s = Inr 42
     \<and> get_aggregated (gauge 2100) ''weather'' ''rain1'' s = Inr a \<and> ag_median_value a = 42
     \<and> bindR (verify_trigger_with_confidence (gauge 2100) ''weather'' ''rain1'' dry s) (\<lambda>(met, _). Inr met) = Inr True"
proof -
  let ?e = "gauge 2100" and ?dt = "''weather''" and ?k = "''rain1''"
  have time: "timely 0 trusted" "ends 0 trusted = 2012" by code_simp+
  have "outcome (\<lambda>s. \<not> get_encryption_required ?dt s \<and> \<not> is_data_type_paused ?dt s
     \<and> (\<forall>p \<in> set (votes ?e ?dt ?k s). rep_score (get_reputation (dp_oracle p) ?dt s) = 1000)
     \<and> length (votes ?e ?dt ?k s) = 3 \<and> get_median_value ?e ?dt ?k s = Inr 42) (play ov_run trusted ov_begin)"
    by code_simp
  then obtain s where s: "reach ov_run ov_begin 2012 s" "\<not> get_encryption_required ?dt s" "\<not> is_data_type_paused ?dt s"
    "\<forall>p \<in> set (votes ?e ?dt ?k s). rep_score (get_reputation (dp_oracle p) ?dt s) = 1000"
    "length (votes ?e ?dt ?k s) = 3" "get_median_value ?e ?dt ?k s = Inr 42"
    by (rule history_reach[OF _ time(1), unfolded time(2)]) blast
  have "condition_met dry 42 = Inr True" by (simp add: condition_met_def dry_def)
  then show ?thesis
    using reports_agree[OF s(1-4), of dry] s(1,5,6) by (auto simp: bindR_eq_Inr)
qed

text \<open>One oracle loses its reputation; then it and another report different values for another key.\<close>

definition quarrel :: "(env \<times> ov_call) list" where
  "quarrel = reported @ [
     (gauge 2100, Data (VerifyTrigger ''weather'' ''rain1'' (dry\<lparr>tc_tolerance := 5\<rparr>))),
     (gauge 3000, Data (SubmitData near ''weather'' ''rain2'' 10 90 3000)),
     (gauge 3001, Data (SubmitData liar ''weather'' ''rain2'' 200 90 3000))]"

definition wet :: trigger_condition where "wet = dry\<lparr>tc_key := ''rain2''\<rparr>"

text \<open>
  Without full reputations the two can disagree: there is a reachable state in which
  \<^verbatim>\<open>get_aggregated\<close>, which weighs the oracles by their registration, answers 200, while \<^verbatim>\<open>get_median_value\<close> and with it \<^verbatim>\<open>verify_trigger\<close>, which also weigh their
  reputation, decide the trigger by 10, and the trigger condition is met by the one and not by
  the other.
\<close>

theorem reported_value_disagrees:
  "\<exists>s a s'. reach ov_run ov_begin 3001 s
     \<and> get_aggregated (gauge 3100) ''weather'' ''rain2'' s = Inr a \<and> ag_median_value a = 200
     \<and> get_median_value (gauge 3100) ''weather'' ''rain2'' s = Inr 10
     \<and> verify_trigger (gauge 3100) ''weather'' ''rain2'' wet s = Inr (True, s')
     \<and> condition_met wet (ag_median_value a) = Inr False"
proof -
  have time: "timely 0 quarrel" "ends 0 quarrel = 3001"
    by code_simp+
  let ?e = "gauge 3100" and ?dt = "''weather''" and ?k = "''rain2''"
  have "outcome (\<lambda>s. outcome (\<lambda>a. ag_median_value a = 200) (get_aggregated ?e ?dt ?k s)
     \<and> get_median_value ?e ?dt ?k s = Inr 10
     \<and> outcome (\<lambda>r. fst r) (verify_trigger ?e ?dt ?k wet s)) (play ov_run quarrel ov_begin)"
    by code_simp
  then obtain s where s: "reach ov_run ov_begin 3001 s"
    "outcome (\<lambda>a. ag_median_value a = 200) (get_aggregated ?e ?dt ?k s)"
    "get_median_value ?e ?dt ?k s = Inr 10" "outcome (\<lambda>r. fst r) (verify_trigger ?e ?dt ?k wet s)"
    by (rule history_reach[OF _ time(1), unfolded time(2)]) blast
  obtain a where a: "get_aggregated ?e ?dt ?k s = Inr a" "ag_median_value a = 200"
    using outcome_obtain[OF s(2)] by blast
  obtain r where r: "verify_trigger ?e ?dt ?k wet s = Inr r" "fst r"
    using outcome_obtain[OF s(4)] by blast
  have "condition_met wet 200 = Inr False" by code_simp
  then show ?thesis
    using s(1,3) a r by (intro exI[of _ s] exI[of _ a] exI[of _ "snd r"]) (cases r; simp)
qed

section \<open>The registry and the readings\<close>

text \<open>
  C29. The registry stays consistent: in every reachable state the list of a data type holds
  exactly the oracles whose registration for it is active, each once and at most ten, and
  every registration is filed under its own oracle and data type with a weight from 1 to
  100000. The repository says otherwise in both respects: a test registers 100 oracles for one
  data type, which \<^verbatim>\<open>add_oracle\<close> refuses after the tenth, and the comments give the weight as
  1 to 100.
\<close>

theorem registry_consistent:
  assumes "reach (ov_exec tk) (ov_fresh t0) t s"
  shows "distinct (get_oracles dt s) \<and> int (length (get_oracles dt s)) \<le> 10
     \<and> (orc \<in> set (get_oracles dt s) \<longleftrightarrow> entry_active dt orc s)
     \<and> (ov_oracle s (dt, orc) = Some entry \<longrightarrow>
          oe_oracle entry = orc \<and> oe_data_type entry = dt \<and> 1 \<le> oe_weight entry \<and> oe_weight entry \<le> 100000)"
proof -
  have "registry_ok s" using ov.inv_reach[OF assms] by (simp add: ov_inv_def)
  moreover have "get_oracles dt s = oracles_of dt s" by (simp add: get_oracles_def oracles_of_def)
  ultimately show ?thesis unfolding registry_ok_def by (simp add: num_defs) fastforce
qed

theorem registry_consistent_witness:
  "\<exists>s. reach ov_run ov_begin 2002 s \<and> get_oracles ''weather'' s = [near, far, liar] \<and> entry_active ''weather'' liar s"
proof -
  have "outcome (\<lambda>s. get_oracles ''weather'' s = [near, far, liar]) (play ov_run reported ov_begin)"
    by code_simp
  then obtain s where "reach ov_run ov_begin 2002 s" "get_oracles ''weather'' s = [near, far, liar]"
    by (rule history_reach[OF _ reported_time(1), unfolded reported_time(2)])
  then show ?thesis using registry_consistent[of ledger_ops ov_funds 2002 s "''weather''" liar] by auto
qed




section \<open>Stakes\<close>

text \<open>
  C31. The stakes are covered: while the admin chooses one and the same token \<open>u\<close>, in every
  state the contract at \<open>me\<close> can reach, whatever anybody stakes, withdraws or loses by
  slashing or by stale reports, no stake is negative and all stakes together are at most what
  the contract owns of that token. The token is any that keeps the promises of SEP-41.
\<close>

definition stake_of :: "'t ov_state \<Rightarrow> symbol \<times> address \<Rightarrow> int" where
  "stake_of s k = get_oracle_stake (fst k) (snd k) s"

theorem stakes_covered:
  assumes "sep41 tk" "0 \<le> balance tk t0 u me"
    and "reach (except (chooses_other u) (hosted me (ov_exec tk))) (ov_fresh t0) t s"
  shows "finite {k. stake_of s k \<noteq> 0} \<and> (\<forall>k. 0 \<le> stake_of s k)
     \<and> (\<Sum>k | stake_of s k \<noteq> 0. stake_of s k) \<le> balance tk (ov_tokens s) u me"
proof -
  have "vault_inv tk u me (vault_of (ov_fresh t0))"
    using assms(2) by (simp add: vault_inv_def vault_of_def ov_fresh_def comp_def support_def)
  then have inv: "vault_inv tk u me (vault_of s)"
    using assms(1,3) vault_run unfolding reach_def by blast
  have "v_staked (vault_of s) = stake_of s" by (auto simp: stake_of_def simp flip: vault_fields(1))
  then show ?thesis using inv by (simp add: vault_inv_def total_def support_def)
qed

definition staked_day :: "(env \<times> ov_call) list" where
  "staked_day = [
     (gauge 1000, Setting (OvInitialize boss)), (gauge 1000, Staking (SetStakeToken boss usdc)),
     (gauge 1000, Staking (SetSlashTreasury boss claims)),
     (gauge 1001, Staking (Stake near ''weather'' 500)), (gauge 1002, Staking (Stake far ''weather'' 300)),
     (gauge 1003, Staking (SlashOracle boss near ''weather'' 200 ''lied'')),
     (gauge 1004, Staking (RequestStakeWithdrawal far ''weather'')),
     (gauge 700000, Staking (WithdrawStake far ''weather''))]"

theorem stakes_covered_witness:
  "\<exists>s. reach (except (chooses_other usdc) (hosted verifier ov_run)) ov_begin 700000 s
     \<and> stake_of s (''weather'', near) = 300 \<and> balance ledger_ops (ov_tokens s) usdc verifier = 300
     \<and> (\<Sum>k | stake_of s k \<noteq> 0. stake_of s k) \<le> balance ledger_ops (ov_tokens s) usdc verifier"
proof -
  have time: "timely 0 staked_day" "ends 0 staked_day = 700000"
    by code_simp+
  have "outcome (\<lambda>s. stake_of s (''weather'', near) = 300 \<and> balance ledger_ops (ov_tokens s) usdc verifier = 300)
     (play (except (chooses_other usdc) (hosted verifier ov_run)) staked_day ov_begin)"
    by code_simp
  then obtain s where s: "reach (except (chooses_other usdc) (hosted verifier ov_run)) ov_begin 700000 s"
    "stake_of s (''weather'', near) = 300" "balance ledger_ops (ov_tokens s) usdc verifier = 300"
    by (rule history_reach[OF _ time(1), unfolded time(2)]) blast
  moreover have "0 \<le> balance ledger_ops ov_funds usdc verifier"
    by (simp add: balance_def ledger_ops_def ov_funds_def)
  ultimately show ?thesis using stakes_covered[OF ledger_sep41 _ s(1)] by (intro exI[of _ s]) simp
qed

end
