(* ===== verification/GD_State.thy ===== *)
theory GD_State
  imports Contract_System
begin

text \<open>
  The governance DAO (\<^verbatim>\<open>contracts/governance-dao\<close>): its data, storage and events, the code it
  calls that is not in the repository, and the helpers its entry points share.
\<close>

section \<open>Data\<close>

text \<open>
  A \<^verbatim>\<open>Bytes\<close> value is its characters. The arguments of a proposal are values of the host
  (\<^verbatim>\<open>Val\<close>), of a type \<open>'v\<close> that the contract only stores and hands on.
\<close>

type_synonym bytes = string

datatype proposal_status = Discussion | Active | Passed | Failed | Executed | Cancelled | Expired

datatype vote_choice = For | Against | Abstain

datatype proposal_kind = Standard | Upgrade

record proposal_comment =
  pc_id :: int
  pc_proposal_id :: int
  pc_author :: address
  pc_text :: bytes
  pc_created_at :: int
  pc_reply_to :: "int option"

record 'v proposal =
  pp_id :: int
  pp_proposer :: address
  pp_title :: bytes
  pp_target :: address
  pp_function :: symbol
  pp_args :: "'v list"
  pp_deposit :: int
  pp_status :: proposal_status
  pp_votes_for :: int
  pp_votes_against :: int
  pp_votes_abstain :: int
  pp_created_at :: int
  pp_vote_end :: int
  pp_execution_time :: int
  pp_execution_deadline :: int
  pp_total_supply :: int
  pp_kind :: proposal_kind
  pp_impact_analysis :: bytes
  pp_verification_callback :: "symbol option"
  pp_execution_verified :: bool
  pp_is_vetoed :: bool

record vote_record =
  vr_voter :: address
  vr_choice :: vote_choice
  vr_weight :: int

record dao_config =
  dc_gov_token :: address
  dc_proposal_threshold :: int
  dc_total_supply :: int
  dc_quorum_bps :: int
  dc_majority_bps :: int
  dc_voting_period :: int
  dc_proposal_timelock :: int
  dc_discussion_period :: int
  dc_vote_weight_cap :: int

record quorum_decay_config =
  qd_enabled :: bool
  qd_floor_bps :: int
  qd_decay_per_period_bps :: int
  qd_window :: int

record participation_history =
  ph_recent_bps :: "int list"
  ph_total_recorded :: int

record effective_quorum =
  eq_quorum_bps :: int
  eq_base_bps :: int
  eq_avg_participation_bps :: int
  eq_decayed :: bool

record delegate_info =
  di_delegate :: address
  di_delegators :: "address list"
  di_delegated_weight :: int
  di_own_weight :: int
  di_total_weight :: int

record time_weight_config =
  tw_enabled :: bool
  tw_ramp_period :: int
  tw_min_bps :: int

record weight_checkpoint =
  wc_amount :: int
  wc_since :: int

record execution_audit_record =
  ea_proposal_id :: int
  ea_executor :: address
  ea_target :: address
  ea_function :: symbol
  ea_executed_at :: int
  ea_votes_for :: int
  ea_votes_against :: int

record gd_pending_upgrade =
  gu_wasm_hash :: wasm_hash
  gu_version :: int
  gu_approvals :: "address list"

record proposal_template =
  pt_name :: symbol
  pt_description :: bytes
  pt_min_title_len :: int
  pt_required_arg_count :: int
  pt_active :: bool

record impact_multipliers =
  im_standard_bps :: int
  im_upgrade_bps :: int
  im_self_target_bps :: int

text \<open>
  The error codes. \<^verbatim>\<open>register_template\<close> names a code \<^verbatim>\<open>InvalidParameter\<close> that the enumeration of
  the source lacks, so the source does not compile as it is; \<open>GInvalidParameter\<close> stands for it.
\<close>

datatype gd_error =
    GAlreadyInitialized | GNotInitialized | GUnauthorized | GInsufficientWeight | GProposalNotFound
  | GProposalNotActive | GAlreadyVoted | GVotingClosed | GVotingStillOpen | GProposalNotPassed
  | GAlreadyExecuted | GAlreadyCancelled | GTimelockNotExpired | GFinalizeDelayNotMet
  | GVersionNotNewer | GLimitReached | GVotingPeriodTooShort | GVotingPeriodTooLong
  | GInvalidAddress | GNotGuardian | GAlreadyApprovedAction | GNoPendingUpgrade | GInvalidThreshold
  | GQuorumTooLow | GInvalidQuorumDecay | GSelfDelegation | GNoDelegation | GAlreadyDelegated
  | GWeightAlreadyCounted | GTooManyDelegators | GProposalNotExpired | GTemplateNotFound
  | GTemplateInactive | GTitleTooShort | GArgCountMismatch | GDiscussionPeriodNotEnded
  | GDiscussionPeriodNotRequired | GNoProposals | GInvalidInput | GExecutionDeadlineExpired
  | GProposalVetoed | GBatchTooLarge | GInvalidImpactMultiplier | GInvalidTimeWeight
  | GEmptyDescription | GTitleTooLong | GQuorumTooHigh | GDuplicateProposal | GCircularDelegation
  | GDuplicateTemplateName | GZeroVoteWeight | GInvalidParameter

datatype gd_event =
    GvInitialized address address
  | GvProposalCreated int address address symbol
  | GvPowerDelegated address address int
  | GvDelegationRecorded address address symbol int
  | GvDelegationRevoked address address
  | GvVoteCast int address vote_choice int
  | GvTokensWithdrawn int address int
  | GvQuorumDecayApplied int int int int
  | GvProposalFinalized int proposal_status
  | GvDepositReclaimed int address int
  | GvProposalExpired int
  | GvProposalDepositRefunded int address int int int int
  | GvProposalExecuted int address address symbol int
  | GvCommentAdded int int address "int option" int
  | GvCommentDeleted int
  | GvProposalCancelled int
  | GvDiscussionPeriodEnded int
  | GvQuorumDecayUpdated bool int int int
  | GvTimeWeightUpdated bool int int
  | GvImpactMultipliersUpdated int int int
  | GvTemplateRegistered symbol int int
  | GvProposalCreatedFromTemplate int symbol
  | GvRiskPoolSet address
  | GvDaoConfigUpdated address int int int int
  | GvContractUpgraded int int
  | GvGuardiansUpdated "address list" int
  | GvUpgradeApproved wasm_hash address int int
  | GvProposalVetoed int address symbol
  | GvDelegationUsed int address address int

section \<open>Storage\<close>

text \<open>
  A key that has never been set is \<open>None\<close>, or absent from the map; the two markers that are
  only ever set to true are sets. \<open>gd_wasm\<close> is the code installed by
  \<^verbatim>\<open>update_current_contract_wasm\<close>; \<open>gd_world\<close> is the ledger of the tokens and of all other
  contracts a proposal may call.
\<close>

record ('t, 'v) gd_state =
  gd_initialized :: bool
  gd_admin :: "address option"
  gd_config :: "dao_config option"
  gd_next_proposal_id :: "int option"
  gd_proposals :: "int \<Rightarrow> 'v proposal option"
  gd_vote_records :: "int \<times> address \<Rightarrow> vote_record option"
  gd_locked_balance :: "int \<times> address \<Rightarrow> int option"
  gd_version :: "int option"
  gd_guardians :: "address list option"
  gd_guardian_threshold :: "int option"
  gd_upgrade_pending :: "gd_pending_upgrade option"
  gd_quorum_decay :: "quorum_decay_config option"
  gd_time_weight :: "time_weight_config option"
  gd_weight_checkpoint :: "address \<Rightarrow> weight_checkpoint option"
  gd_participation :: "participation_history option"
  gd_delegate_of :: "address \<Rightarrow> address option"
  gd_delegation_expiry :: "address \<Rightarrow> int option"
  gd_delegators :: "address \<Rightarrow> address list option"
  gd_delegated_vote :: "(int \<times> address) set"
  gd_template :: "symbol \<Rightarrow> proposal_template option"
  gd_template_list :: "symbol list option"
  gd_risk_pool :: "address option"
  gd_execution_audit :: "int \<Rightarrow> execution_audit_record option"
  gd_comments :: "int \<Rightarrow> proposal_comment option"
  gd_next_comment_id :: "int \<Rightarrow> int option"
  gd_impact_multipliers :: "impact_multipliers option"
  gd_active_proposal_hash :: "int list \<Rightarrow> int option"
  gd_wasm :: "wasm_hash option"
  gd_world :: 't
  gd_events :: "gd_event list"

definition gd_fresh :: "'t \<Rightarrow> ('t, 'v) gd_state" where
  "gd_fresh w = \<lparr>
     gd_initialized = False, gd_admin = None, gd_config = None, gd_next_proposal_id = None,
     gd_proposals = Map.empty, gd_vote_records = Map.empty, gd_locked_balance = Map.empty,
     gd_version = None, gd_guardians = None, gd_guardian_threshold = None, gd_upgrade_pending = None,
     gd_quorum_decay = None, gd_time_weight = None, gd_weight_checkpoint = Map.empty,
     gd_participation = None, gd_delegate_of = Map.empty, gd_delegation_expiry = Map.empty,
     gd_delegators = Map.empty, gd_delegated_vote = {}, gd_template = Map.empty,
     gd_template_list = None, gd_risk_pool = None, gd_execution_audit = Map.empty,
     gd_comments = Map.empty, gd_next_comment_id = Map.empty, gd_impact_multipliers = None,
     gd_active_proposal_hash = Map.empty, gd_wasm = None, gd_world = w, gd_events = []\<rparr>"

definition gd_publish :: "gd_event \<Rightarrow> ('t, 'v) gd_state \<Rightarrow> ('t, 'v) gd_state" where
  "gd_publish ev s = s\<lparr>gd_events := ev # gd_events s\<rparr>"

section \<open>The host\<close>

text \<open>
  What the DAO uses and the repository does not contain. \<open>token_part\<close> is the token code on the
  world; \<open>sha256_of\<close> the hash function of the host; \<open>address_val\<close> and \<open>hash_val\<close> the conversion of
  an address and a code hash to a value. \<open>invoke_of h w me a f args\<close> is the call of \<open>f\<close> on the
  contract at \<open>a\<close> by the contract at \<open>me\<close>: nothing when the call fails, otherwise the new world
  and the returned number if the call returned a \<^verbatim>\<open>u32\<close>.
\<close>

record ('t, 'v) dao_host =
  token_part :: "'t token_ops"
  sha256_of :: "int list \<Rightarrow> int list"
  address_val :: "address \<Rightarrow> 'v"
  hash_val :: "wasm_hash \<Rightarrow> 'v"
  invoke_of :: "'t \<Rightarrow> address \<Rightarrow> address \<Rightarrow> symbol \<Rightarrow> 'v list \<Rightarrow> ('t \<times> int option) option"

text \<open>
  How the host represents values by 64-bit words during one call. A value that does not fit
  in a word is represented by a handle, which depends on the call.
\<close>

record 'v frame =
  symbol_payload :: "symbol \<Rightarrow> int"
  val_payload :: "'v \<Rightarrow> int"

section \<open>Constants\<close>

definition MIN_VOTING_PERIOD :: int where "MIN_VOTING_PERIOD = 3600"
definition MAX_VOTING_PERIOD :: int where "MAX_VOTING_PERIOD = 30 * 24 * 3600"
definition FINALIZE_DELAY :: int where "FINALIZE_DELAY = 300"
definition DEPOSIT_RECLAIM_TIMEOUT :: int where "DEPOSIT_RECLAIM_TIMEOUT = 14 * 24 * 3600"
definition MIN_QUORUM_BPS :: int where "MIN_QUORUM_BPS = 1000"
definition MAX_QUORUM_BPS :: int where "MAX_QUORUM_BPS = 10000"
definition DEFAULT_PARTICIPATION_WINDOW :: int where "DEFAULT_PARTICIPATION_WINDOW = 5"
definition MAX_PARTICIPATION_WINDOW :: int where "MAX_PARTICIPATION_WINDOW = 20"
definition MAX_DELEGATORS :: int where "MAX_DELEGATORS = 50"
definition MIN_MULTIPLIER_BPS :: int where "MIN_MULTIPLIER_BPS = 10000"
definition FULL_WEIGHT_BPS :: int where "FULL_WEIGHT_BPS = 10000"
definition MAX_MULTIPLIER_BPS :: int where "MAX_MULTIPLIER_BPS = 100000"
definition MAX_TITLE_LEN :: int where "MAX_TITLE_LEN = 256"
definition MAX_BATCH_FINALIZE :: int where "MAX_BATCH_FINALIZE = 20"

lemmas gd_constants = MIN_VOTING_PERIOD_def MAX_VOTING_PERIOD_def FINALIZE_DELAY_def
  DEPOSIT_RECLAIM_TIMEOUT_def MIN_QUORUM_BPS_def MAX_QUORUM_BPS_def DEFAULT_PARTICIPATION_WINDOW_def
  MAX_PARTICIPATION_WINDOW_def MAX_DELEGATORS_def MIN_MULTIPLIER_BPS_def FULL_WEIGHT_BPS_def
  MAX_MULTIPLIER_BPS_def MAX_TITLE_LEN_def MAX_BATCH_FINALIZE_def

section \<open>Shared helpers\<close>

definition gd_require_admin :: "env \<Rightarrow> address \<Rightarrow> ('t, 'v) gd_state \<Rightarrow> (gd_error, unit) result" where
  "gd_require_admin e caller s =
     bindR (or_panic GNotInitialized (gd_admin s)) (\<lambda>admin.
     if caller \<noteq> admin then panic GUnauthorized else require_auth e caller)"

definition gd_validate_stellar_address :: "address \<Rightarrow> (gd_error, unit) result" where
  "gd_validate_stellar_address a = (if is_account_or_contract a then Inr () else panic GInvalidAddress)"

definition get_proposal :: "int \<Rightarrow> ('t, 'v) gd_state \<Rightarrow> (gd_error, 'v proposal) result" where
  "get_proposal proposal_id s = or_panic GProposalNotFound (gd_proposals s proposal_id)"

definition get_dao_config :: "('t, 'v) gd_state \<Rightarrow> (gd_error, dao_config) result" where
  "get_dao_config s = or_panic GNotInitialized (gd_config s)"

definition gd_guardians_of :: "('t, 'v) gd_state \<Rightarrow> address list" where
  "gd_guardians_of s = unwrap_or [] (gd_guardians s)"

definition gd_threshold :: "('t, 'v) gd_state \<Rightarrow> int" where
  "gd_threshold s = unwrap_or 0 (gd_guardian_threshold s)"

definition gd_require_guardian :: "env \<Rightarrow> address \<Rightarrow> ('t, 'v) gd_state \<Rightarrow> (gd_error, unit) result" where
  "gd_require_guardian e guardian s =
     bindR (require_auth e guardian) (\<lambda>_.
     if guardian \<in> set (gd_guardians_of s) then Inr () else panic GNotGuardian)"

text \<open>Storing a proposal, and a token transfer out of or into the DAO.\<close>

definition put_proposal :: "int \<Rightarrow> 'v proposal \<Rightarrow> ('t, 'v) gd_state \<Rightarrow> ('t, 'v) gd_state" where
  "put_proposal i p s = s\<lparr>gd_proposals := (gd_proposals s)(i \<mapsto> p)\<rparr>"

definition gd_transfer ::
  "('t, 'v) dao_host \<Rightarrow> address \<Rightarrow> address \<Rightarrow> address \<Rightarrow> int \<Rightarrow> ('t, 'v) gd_state \<Rightarrow>
   (gd_error, ('t, 'v) gd_state) result" where
  "gd_transfer h token from to n s =
     bindR (or_trap (transfer_of (token_part h) (gd_world s) token from to n)) (\<lambda>w.
     Inr (s\<lparr>gd_world := w\<rparr>))"

definition gd_balance ::
  "('t, 'v) dao_host \<Rightarrow> address \<Rightarrow> address \<Rightarrow> ('t, 'v) gd_state \<Rightarrow> (gd_error, int) result" where
  "gd_balance h token a s = or_trap (balance_of (token_part h) (gd_world s) token a)"

section \<open>The hash of a proposal's content\<close>

definition be_bytes :: "int \<Rightarrow> int list" where
  "be_bytes n = map (\<lambda>i. n div 256 ^ (7 - i) mod 256) [0..<8]"

definition proposal_content_hash ::
  "('t, 'v) dao_host \<Rightarrow> 'v frame \<Rightarrow> address \<Rightarrow> symbol \<Rightarrow> 'v list \<Rightarrow> (gd_error, int list) result" where
  "proposal_content_hash h fr target func args =
     (if length target \<noteq> 56 then trap
      else Inr (sha256_of h (map of_char target @ be_bytes (symbol_payload fr func)
                  @ concat (map (\<lambda>v. be_bytes (val_payload fr v)) args))))"

definition clear_proposal_hash ::
  "('t, 'v) dao_host \<Rightarrow> 'v frame \<Rightarrow> 'v proposal \<Rightarrow> ('t, 'v) gd_state \<Rightarrow> (gd_error, ('t, 'v) gd_state) result" where
  "clear_proposal_hash h fr p s =
     bindR (proposal_content_hash h fr (pp_target p) (pp_function p) (pp_args p)) (\<lambda>hash.
     Inr (s\<lparr>gd_active_proposal_hash := (gd_active_proposal_hash s)(hash := None)\<rparr>))"

section \<open>How the helpers succeed\<close>

lemma gd_guards_ok [result_simps]:
  "gd_require_admin e a s = Inr u \<longleftrightarrow> gd_admin s = Some a \<and> auth e a"
  "gd_validate_stellar_address a = Inr u \<longleftrightarrow> is_account_or_contract a"
  "get_proposal i s = Inr p \<longleftrightarrow> gd_proposals s i = Some p"
  "get_dao_config s = Inr c \<longleftrightarrow> gd_config s = Some c"
  "gd_require_guardian e g s = Inr u \<longleftrightarrow> auth e g \<and> g \<in> set (gd_guardians_of s)"
  "gd_balance h token a s = Inr n \<longleftrightarrow> balance_of (token_part h) (gd_world s) token a = Some n"
  by (auto simp: gd_require_admin_def gd_validate_stellar_address_def get_proposal_def
      get_dao_config_def gd_require_guardian_def gd_balance_def require_auth_def result_simps)

lemma gd_transfer_ok [result_simps]:
  "gd_transfer h token from to n s = Inr s' \<longleftrightarrow>
     (\<exists>w. transfer_of (token_part h) (gd_world s) token from to n = Some w \<and> s' = s\<lparr>gd_world := w\<rparr>)"
  by (auto simp: gd_transfer_def result_simps)

lemma clear_proposal_hash_ok [result_simps]:
  "clear_proposal_hash h fr p s = Inr s' \<longleftrightarrow>
     (\<exists>hash. proposal_content_hash h fr (pp_target p) (pp_function p) (pp_args p) = Inr hash
        \<and> s' = s\<lparr>gd_active_proposal_hash := (gd_active_proposal_hash s)(hash := None)\<rparr>)"
  by (auto simp: clear_proposal_hash_def result_simps)

end
