(* ===== verification/GD_Voting.thy ===== *)
theory GD_Voting
  imports GD_State
begin

text \<open>
  The voting power of the DAO: adaptive quorum, time-weighted power, delegation, and the
  votes themselves with the tokens they lock.
\<close>

section \<open>Adaptive quorum\<close>

definition quorum_decay_config_of :: "('t, 'v) gd_state \<Rightarrow> quorum_decay_config" where
  "quorum_decay_config_of s = unwrap_or
     \<lparr>qd_enabled = False, qd_floor_bps = MIN_QUORUM_BPS, qd_decay_per_period_bps = 0, qd_window = 0\<rparr>
     (gd_quorum_decay s)"

definition participation_history_of :: "('t, 'v) gd_state \<Rightarrow> participation_history" where
  "participation_history_of s =
     unwrap_or \<lparr>ph_recent_bps = [], ph_total_recorded = 0\<rparr> (gd_participation s)"

text \<open>The sum of at most \<open>2\<^sup>32\<close> entries of 32 bits fits in \<^verbatim>\<open>u64\<close>; the average is cast to \<^verbatim>\<open>u32\<close>.\<close>

definition average_participation_bps :: "participation_history \<Rightarrow> int option" where
  "average_participation_bps history =
     (if ph_recent_bps history = [] then None
      else Some (sum_list (ph_recent_bps history) div int (length (ph_recent_bps history)) mod 2 ^ 32))"

definition effective_quorum_of :: "dao_config \<Rightarrow> ('t, 'v) gd_state \<Rightarrow> effective_quorum" where
  "effective_quorum_of config s =
     (let base_bps = dc_quorum_bps config;
          decay = quorum_decay_config_of s;
          avg = average_participation_bps (participation_history_of s);
          avg_bps = unwrap_or 0 avg
      in if \<not> qd_enabled decay \<or> avg = None \<or> avg_bps \<ge> base_bps
         then \<lparr>eq_quorum_bps = base_bps, eq_base_bps = base_bps,
               eq_avg_participation_bps = avg_bps, eq_decayed = False\<rparr>
         else let shortfall = base_bps - avg_bps;
                  steps = shortfall div max (qd_decay_per_period_bps decay) 1;
                  reduction = sat_u32 (steps * qd_decay_per_period_bps decay);
                  decayed_bps = max (sat_u32 (base_bps - reduction)) (qd_floor_bps decay)
              in \<lparr>eq_quorum_bps = decayed_bps, eq_base_bps = base_bps,
                  eq_avg_participation_bps = avg_bps, eq_decayed = (decayed_bps < base_bps)\<rparr>)"

definition keep_newest :: "int \<Rightarrow> 'a list \<Rightarrow> 'a list" where
  "keep_newest window xs = drop (length xs - nat window) xs"

definition turnout_bps :: "int \<Rightarrow> int \<Rightarrow> int" where
  "turnout_bps total_votes total_supply =
     (if total_supply \<le> 0 then 0
      else max 0 (min 10000
        (case checked_mul total_votes 10000 of Some v \<Rightarrow> v sdiv total_supply | None \<Rightarrow> 10000)))"

definition record_participation :: "int \<Rightarrow> int \<Rightarrow> ('t, 'v) gd_state \<Rightarrow> ('t, 'v) gd_state" where
  "record_participation total_votes total_supply s =
     (let decay = quorum_decay_config_of s;
          window = (if qd_window decay = 0 then DEFAULT_PARTICIPATION_WINDOW else qd_window decay);
          history = participation_history_of s
      in s\<lparr>gd_participation := Some
             \<lparr>ph_recent_bps = keep_newest window
                (ph_recent_bps history @ [turnout_bps total_votes total_supply]),
              ph_total_recorded = sat_u64 (ph_total_recorded history + 1)\<rparr>\<rparr>)"

definition set_quorum_decay ::
  "env \<Rightarrow> address \<Rightarrow> bool \<Rightarrow> int \<Rightarrow> int \<Rightarrow> int \<Rightarrow> ('t, 'v) gd_state \<Rightarrow> (gd_error, ('t, 'v) gd_state) result" where
  "set_quorum_decay e admin enabled floor_bps decay_per_period_bps window s =
     bindR (gd_require_admin e admin s) (\<lambda>_.
     bindR (or_panic GNotInitialized (gd_config s)) (\<lambda>config.
     if enabled \<and> floor_bps \<ge> dc_quorum_bps config then panic GInvalidQuorumDecay
     else if enabled \<and> (floor_bps < MIN_QUORUM_BPS \<or> floor_bps > MAX_QUORUM_BPS) then panic GQuorumTooLow
     else if enabled \<and> (window = 0 \<or> window > MAX_PARTICIPATION_WINDOW) then panic GInvalidQuorumDecay
     else if enabled \<and> decay_per_period_bps = 0 then panic GInvalidQuorumDecay
     else let effective_floor = max floor_bps MIN_QUORUM_BPS
     in Inr (gd_publish (GvQuorumDecayUpdated enabled effective_floor decay_per_period_bps window)
          (s\<lparr>gd_quorum_decay := Some
               \<lparr>qd_enabled = enabled, qd_floor_bps = effective_floor,
                qd_decay_per_period_bps = decay_per_period_bps, qd_window = window\<rparr>\<rparr>))))"

definition get_quorum_decay :: "('t, 'v) gd_state \<Rightarrow> quorum_decay_config" where
  "get_quorum_decay s = quorum_decay_config_of s"

definition get_participation_history :: "('t, 'v) gd_state \<Rightarrow> participation_history" where
  "get_participation_history s = participation_history_of s"

definition prune_participation_history :: "int \<Rightarrow> ('t, 'v) gd_state \<Rightarrow> ('t, 'v) gd_state" where
  "prune_participation_history max_entries s =
     (let history = participation_history_of s; cap = min max_entries MAX_PARTICIPATION_WINDOW
      in s\<lparr>gd_participation := Some (history\<lparr>ph_recent_bps := keep_newest cap (ph_recent_bps history)\<rparr>)\<rparr>)"

definition get_effective_quorum :: "('t, 'v) gd_state \<Rightarrow> (gd_error, effective_quorum) result" where
  "get_effective_quorum s =
     bindR (or_panic GNotInitialized (gd_config s)) (\<lambda>config. Inr (effective_quorum_of config s))"

section \<open>Time-weighted power\<close>

definition time_weight_config_of :: "('t, 'v) gd_state \<Rightarrow> time_weight_config" where
  "time_weight_config_of s = unwrap_or
     \<lparr>tw_enabled = False, tw_ramp_period = 0, tw_min_bps = FULL_WEIGHT_BPS\<rparr> (gd_time_weight s)"

definition set_time_weight ::
  "env \<Rightarrow> address \<Rightarrow> bool \<Rightarrow> int \<Rightarrow> int \<Rightarrow> ('t, 'v) gd_state \<Rightarrow> (gd_error, ('t, 'v) gd_state) result" where
  "set_time_weight e admin enabled ramp_period min_bps s =
     bindR (gd_require_admin e admin s) (\<lambda>_.
     if enabled \<and> (ramp_period = 0 \<or> min_bps > FULL_WEIGHT_BPS) then panic GInvalidTimeWeight
     else Inr (gd_publish (GvTimeWeightUpdated enabled ramp_period min_bps)
            (s\<lparr>gd_time_weight := Some
                 \<lparr>tw_enabled = enabled, tw_ramp_period = ramp_period, tw_min_bps = min_bps\<rparr>\<rparr>)))"

definition get_time_weight :: "('t, 'v) gd_state \<Rightarrow> time_weight_config" where
  "get_time_weight s = time_weight_config_of s"

definition checkpoint_voting_power ::
  "('t, 'v) dao_host \<Rightarrow> env \<Rightarrow> address \<Rightarrow> ('t, 'v) gd_state \<Rightarrow> (gd_error, ('t, 'v) gd_state) result" where
  "checkpoint_voting_power h e holder s =
     bindR (require_auth e holder) (\<lambda>_.
     bindR (or_panic GNotInitialized (gd_config s)) (\<lambda>config.
     bindR (gd_balance h (dc_gov_token config) holder s) (\<lambda>bal.
     let cp = (case gd_weight_checkpoint s holder of
                 Some prev \<Rightarrow> if bal \<le> wc_amount prev then \<lparr>wc_amount = bal, wc_since = wc_since prev\<rparr>
                              else \<lparr>wc_amount = bal, wc_since = timestamp e\<rparr>
               | None \<Rightarrow> \<lparr>wc_amount = bal, wc_since = timestamp e\<rparr>)
     in Inr (s\<lparr>gd_weight_checkpoint := (gd_weight_checkpoint s)(holder \<mapsto> cp)\<rparr>))))"

text \<open>
  The factor and its product fit in \<^verbatim>\<open>i128\<close>: they are made of a \<^verbatim>\<open>u32\<close> and a \<^verbatim>\<open>u64\<close>. The
  division traps on a ramp of length 0.
\<close>

definition time_weighted :: "env \<Rightarrow> address \<Rightarrow> int \<Rightarrow> ('t, 'v) gd_state \<Rightarrow> (gd_error, int) result" where
  "time_weighted e holder bal s =
     (let cfg = time_weight_config_of s
      in if \<not> tw_enabled cfg \<or> bal \<le> 0 then Inr bal
         else let now = timestamp e;
                  (aged, since) = (case gd_weight_checkpoint s holder of
                     Some cp \<Rightarrow> (min (wc_amount cp) bal, wc_since cp) | None \<Rightarrow> (0, now));
                  elapsed = min (sat_u64 (now - since)) (tw_ramp_period cfg)
              in if tw_ramp_period cfg = 0 then trap
                 else let factor = tw_min_bps cfg
                            + (FULL_WEIGHT_BPS - tw_min_bps cfg) * elapsed sdiv tw_ramp_period cfg
                 in bindR (i128 (bal - aged)) (\<lambda>rest.
                    i128 (sat_i128 (aged * factor) sdiv FULL_WEIGHT_BPS
                          + sat_i128 (rest * tw_min_bps cfg) sdiv FULL_WEIGHT_BPS)))"

section \<open>Delegation\<close>

definition delegators_of :: "address \<Rightarrow> ('t, 'v) gd_state \<Rightarrow> address list" where
  "delegators_of a s = unwrap_or [] (gd_delegators s a)"

definition remove_delegator :: "address \<Rightarrow> address \<Rightarrow> ('t, 'v) gd_state \<Rightarrow> ('t, 'v) gd_state" where
  "remove_delegator delegate delegator s =
     (let remaining = filter (\<lambda>a. a \<noteq> delegator) (delegators_of delegate s)
      in s\<lparr>gd_delegators := (gd_delegators s)
             (delegate := (if remaining = [] then None else Some remaining))\<rparr>)"

definition delegate ::
  "('t, 'v) dao_host \<Rightarrow> env \<Rightarrow> address \<Rightarrow> address \<Rightarrow> ('t, 'v) gd_state \<Rightarrow> (gd_error, ('t, 'v) gd_state) result" where
  "delegate h e delegator delegatee s =
     bindR (require_auth e delegator) (\<lambda>_.
     if delegator = delegatee then panic GSelfDelegation
     else case gd_delegate_of s delegatee of
       Some target \<Rightarrow> if target = delegator then panic GCircularDelegation else panic GSelfDelegation
     | None \<Rightarrow>
         if delegators_of delegator s \<noteq> [] then panic GSelfDelegation
         else if gd_delegate_of s delegator = Some delegatee then panic GAlreadyDelegated
         else let s1 = (case gd_delegate_of s delegator of
                          Some current \<Rightarrow> remove_delegator current delegator s | None \<Rightarrow> s)
         in if int (length (delegators_of delegatee s1)) \<ge> MAX_DELEGATORS then panic GTooManyDelegators
         else let s2 = s1\<lparr>
                gd_delegate_of := (gd_delegate_of s1)(delegator \<mapsto> delegatee),
                gd_delegators := (gd_delegators s1)
                  (delegatee \<mapsto> delegators_of delegatee s1 @ [delegator]),
                gd_delegation_expiry := (gd_delegation_expiry s1)
                  (delegator \<mapsto> sat_u64 (timestamp e + 180 * 24 * 60 * 60))\<rparr>
         in bindR (or_trap (gd_config s2)) (\<lambda>config.
            bindR (gd_balance h (dc_gov_token config) delegator s2) (\<lambda>weight.
            Inr (gd_publish (GvDelegationRecorded delegator delegatee ''created'' (timestamp e))
                  (gd_publish (GvPowerDelegated delegator delegatee weight) s2)))))"

definition delegate_with_expiry ::
  "('t, 'v) dao_host \<Rightarrow> env \<Rightarrow> address \<Rightarrow> address \<Rightarrow> int \<Rightarrow> ('t, 'v) gd_state \<Rightarrow>
   (gd_error, ('t, 'v) gd_state) result" where
  "delegate_with_expiry h e delegator delegatee duration_seconds s =
     (if duration_seconds = 0 then panic GInvalidInput
      else bindR (delegate h e delegator delegatee s) (\<lambda>s1.
           Inr (s1\<lparr>gd_delegation_expiry := (gd_delegation_expiry s1)
                     (delegator \<mapsto> sat_u64 (timestamp e + duration_seconds))\<rparr>)))"

definition is_delegation_expired :: "env \<Rightarrow> address \<Rightarrow> ('t, 'v) gd_state \<Rightarrow> bool" where
  "is_delegation_expired e delegator s =
     (case gd_delegation_expiry s delegator of Some expiry \<Rightarrow> timestamp e > expiry | None \<Rightarrow> False)"

definition revoke_delegation ::
  "env \<Rightarrow> address \<Rightarrow> ('t, 'v) gd_state \<Rightarrow> (gd_error, ('t, 'v) gd_state) result" where
  "revoke_delegation e delegator s =
     bindR (require_auth e delegator) (\<lambda>_.
     bindR (or_panic GNoDelegation (gd_delegate_of s delegator)) (\<lambda>delegatee.
     Inr (gd_publish (GvDelegationRecorded delegator delegatee ''revoked'' (timestamp e))
           (gd_publish (GvDelegationRevoked delegator delegatee)
             (remove_delegator delegatee delegator
               (s\<lparr>gd_delegate_of := (gd_delegate_of s)(delegator := None),
                  gd_delegation_expiry := (gd_delegation_expiry s)(delegator := None)\<rparr>))))))"

definition get_delegate :: "env \<Rightarrow> address \<Rightarrow> ('t, 'v) gd_state \<Rightarrow> address option" where
  "get_delegate e delegator s =
     (if is_delegation_expired e delegator s then None else gd_delegate_of s delegator)"

primrec delegated_balance ::
  "('t, 'v) dao_host \<Rightarrow> address \<Rightarrow> int \<Rightarrow> address list \<Rightarrow> ('t, 'v) gd_state \<Rightarrow> (gd_error, int) result" where
  "delegated_balance h token acc [] s = Inr acc"
| "delegated_balance h token acc (a # rest) s =
     bindR (gd_balance h token a s) (\<lambda>n. delegated_balance h token (sat_i128 (acc + n)) rest s)"

definition get_delegate_info ::
  "('t, 'v) dao_host \<Rightarrow> address \<Rightarrow> ('t, 'v) gd_state \<Rightarrow> (gd_error, delegate_info) result" where
  "get_delegate_info h delegatee s =
     bindR (or_trap (gd_config s)) (\<lambda>config.
     bindR (delegated_balance h (dc_gov_token config) 0 (delegators_of delegatee s) s) (\<lambda>delegated_weight.
     bindR (gd_balance h (dc_gov_token config) delegatee s) (\<lambda>own_weight.
     Inr \<lparr>di_delegate = delegatee, di_delegators = delegators_of delegatee s,
          di_delegated_weight = delegated_weight, di_own_weight = own_weight,
          di_total_weight = sat_i128 (own_weight + delegated_weight)\<rparr>)))"

text \<open>Each delegator with tokens who is not yet counted for the proposal is counted and marked.\<close>

primrec collect_from ::
  "('t, 'v) dao_host \<Rightarrow> env \<Rightarrow> address \<Rightarrow> int \<Rightarrow> address \<Rightarrow> int \<Rightarrow> address list \<Rightarrow> ('t, 'v) gd_state \<Rightarrow>
   (gd_error, int \<times> ('t, 'v) gd_state) result" where
  "collect_from h e voter proposal_id token acc [] s = Inr (acc, s)"
| "collect_from h e voter proposal_id token acc (a # rest) s =
     bindR (gd_balance h token a s) (\<lambda>bal.
     if bal \<le> 0 \<or> (proposal_id, a) \<in> gd_delegated_vote s
     then collect_from h e voter proposal_id token acc rest s
     else bindR (time_weighted e a bal s) (\<lambda>counted.
          collect_from h e voter proposal_id token (sat_i128 (acc + counted)) rest
            (gd_publish (GvDelegationUsed proposal_id voter a counted)
              (s\<lparr>gd_delegated_vote := insert (proposal_id, a) (gd_delegated_vote s)\<rparr>))))"

definition collect_delegated_weight ::
  "('t, 'v) dao_host \<Rightarrow> env \<Rightarrow> address \<Rightarrow> int \<Rightarrow> address \<Rightarrow> ('t, 'v) gd_state \<Rightarrow>
   (gd_error, int \<times> ('t, 'v) gd_state) result" where
  "collect_delegated_weight h e voter proposal_id token s =
     collect_from h e voter proposal_id token 0 (delegators_of voter s) s"

section \<open>Votes\<close>

definition cap_weight :: "dao_config \<Rightarrow> int \<Rightarrow> int" where
  "cap_weight config own_weight =
     (if dc_vote_weight_cap config > 0 then min own_weight (dc_vote_weight_cap config) else own_weight)"

definition add_vote :: "vote_choice \<Rightarrow> int \<Rightarrow> 'v proposal \<Rightarrow> (gd_error, 'v proposal) result" where
  "add_vote choice weight p =
     (case choice of
        For \<Rightarrow> bindR (i128 (pp_votes_for p + weight)) (\<lambda>n. Inr (p\<lparr>pp_votes_for := n\<rparr>))
      | Against \<Rightarrow> bindR (i128 (pp_votes_against p + weight)) (\<lambda>n. Inr (p\<lparr>pp_votes_against := n\<rparr>))
      | Abstain \<Rightarrow> bindR (i128 (pp_votes_abstain p + weight)) (\<lambda>n. Inr (p\<lparr>pp_votes_abstain := n\<rparr>)))"

definition open_for_votes :: "env \<Rightarrow> 'v proposal \<Rightarrow> (gd_error, unit) result" where
  "open_for_votes e p =
     (if pp_status p = Discussion then panic GDiscussionPeriodNotEnded
      else if pp_status p \<noteq> Active then panic GProposalNotActive
      else if timestamp e > pp_vote_end p then panic GVotingClosed
      else Inr ())"

definition store_vote ::
  "int \<Rightarrow> address \<Rightarrow> vote_choice \<Rightarrow> int \<Rightarrow> int \<Rightarrow> 'v proposal \<Rightarrow> ('t, 'v) gd_state \<Rightarrow> ('t, 'v) gd_state" where
  "store_vote proposal_id voter choice weight lock_amount p s =
     gd_publish (GvVoteCast proposal_id voter choice weight)
       (put_proposal proposal_id p
         (s\<lparr>gd_locked_balance := (gd_locked_balance s)((proposal_id, voter) \<mapsto> lock_amount),
            gd_vote_records := (gd_vote_records s)((proposal_id, voter) \<mapsto>
              \<lparr>vr_voter = voter, vr_choice = choice, vr_weight = weight\<rparr>)\<rparr>))"

definition vote ::
  "('t, 'v) dao_host \<Rightarrow> env \<Rightarrow> address \<Rightarrow> int \<Rightarrow> vote_choice \<Rightarrow> ('t, 'v) gd_state \<Rightarrow>
   (gd_error, ('t, 'v) gd_state) result" where
  "vote h e voter proposal_id choice s =
     bindR (require_auth e voter) (\<lambda>_.
     bindR (get_proposal proposal_id s) (\<lambda>p.
     bindR (open_for_votes e p) (\<lambda>_.
     if gd_vote_records s (proposal_id, voter) \<noteq> None then panic GAlreadyVoted
     else bindR (or_trap (gd_config s)) (\<lambda>config.
     if gd_delegate_of s voter \<noteq> None then panic GWeightAlreadyCounted
     else if (proposal_id, voter) \<in> gd_delegated_vote s then panic GWeightAlreadyCounted
     else bindR (gd_balance h (dc_gov_token config) voter s) (\<lambda>own_weight.
     if own_weight \<le> 0 then panic GZeroVoteWeight
     else let capped = cap_weight config own_weight
     in bindR (time_weighted e voter capped s) (\<lambda>own_tally.
        bindR (collect_delegated_weight h e voter proposal_id (dc_gov_token config) s) (\<lambda>(delegated, s1).
        let weight = sat_i128 (own_tally + delegated)
        in if weight \<le> 0 then panic GZeroVoteWeight
        else bindR (gd_transfer h (dc_gov_token config) voter (this e) capped s1) (\<lambda>s2.
             bindR (add_vote choice weight p) (\<lambda>p'.
             Inr (store_vote proposal_id voter choice weight capped p' s2))))))))))"

text \<open>
  A batch is checked first, every proposal against the state before the batch; then the
  voter's tokens are locked once, under the first proposal, and the votes are counted.
\<close>

primrec batch_proposals ::
  "env \<Rightarrow> address \<Rightarrow> int list \<Rightarrow> ('t, 'v) gd_state \<Rightarrow> (gd_error, (int \<times> 'v proposal) list) result" where
  "batch_proposals e voter [] s = Inr []"
| "batch_proposals e voter (proposal_id # rest) s =
     bindR (get_proposal proposal_id s) (\<lambda>p.
     bindR (open_for_votes e p) (\<lambda>_.
     if gd_vote_records s (proposal_id, voter) \<noteq> None then panic GAlreadyVoted
     else if (proposal_id, voter) \<in> gd_delegated_vote s then panic GWeightAlreadyCounted
     else bindR (batch_proposals e voter rest s) (\<lambda>ps. Inr ((proposal_id, p) # ps))))"

primrec tally_batch ::
  "('t, 'v) dao_host \<Rightarrow> env \<Rightarrow> address \<Rightarrow> vote_choice \<Rightarrow> address \<Rightarrow> int \<Rightarrow> int \<Rightarrow> (int \<times> 'v proposal) list \<Rightarrow>
   ('t, 'v) gd_state \<Rightarrow> (gd_error, ('t, 'v) gd_state) result" where
  "tally_batch h e voter choice token own_tally lock_amount [] s = Inr s"
| "tally_batch h e voter choice token own_tally lock_amount (x # rest) s =
     (let (proposal_id, p) = x
      in bindR (collect_delegated_weight h e voter proposal_id token s) (\<lambda>(delegated, s1).
         let weight = sat_i128 (own_tally + delegated)
         in if weight \<le> 0 then panic GZeroVoteWeight
         else bindR (add_vote choice weight p) (\<lambda>p'.
              tally_batch h e voter choice token own_tally 0 rest
                (store_vote proposal_id voter choice weight lock_amount p' s1))))"

definition vote_batch ::
  "('t, 'v) dao_host \<Rightarrow> env \<Rightarrow> address \<Rightarrow> int list \<Rightarrow> vote_choice \<Rightarrow> ('t, 'v) gd_state \<Rightarrow>
   (gd_error, ('t, 'v) gd_state) result" where
  "vote_batch h e voter proposal_ids choice s =
     bindR (require_auth e voter) (\<lambda>_.
     if proposal_ids = [] then panic GNoProposals
     else if \<not> distinct proposal_ids then panic GInvalidInput
     else if gd_delegate_of s voter \<noteq> None then panic GWeightAlreadyCounted
     else bindR (or_trap (gd_config s)) (\<lambda>config.
     bindR (batch_proposals e voter proposal_ids s) (\<lambda>proposals.
     bindR (gd_balance h (dc_gov_token config) voter s) (\<lambda>own_weight.
     if own_weight \<le> 0 then panic GZeroVoteWeight
     else let capped = cap_weight config own_weight
     in bindR (time_weighted e voter capped s) (\<lambda>own_tally.
        bindR (gd_transfer h (dc_gov_token config) voter (this e) capped s) (\<lambda>s1.
        tally_batch h e voter choice (dc_gov_token config) own_tally capped proposals s1))))))"

definition withdraw_tokens ::
  "('t, 'v) dao_host \<Rightarrow> env \<Rightarrow> address \<Rightarrow> int \<Rightarrow> ('t, 'v) gd_state \<Rightarrow> (gd_error, ('t, 'v) gd_state) result" where
  "withdraw_tokens h e voter proposal_id s =
     bindR (require_auth e voter) (\<lambda>_.
     bindR (get_proposal proposal_id s) (\<lambda>p.
     if pp_status p = Active then panic GProposalNotActive
     else let locked = unwrap_or 0 (gd_locked_balance s (proposal_id, voter))
     in if locked \<le> 0
        then if gd_vote_records s (proposal_id, voter) \<noteq> None then Inr s else panic GInsufficientWeight
        else let s1 = s\<lparr>gd_locked_balance := (gd_locked_balance s)((proposal_id, voter) := None)\<rparr>
        in bindR (or_trap (gd_config s1)) (\<lambda>config.
           bindR (gd_transfer h (dc_gov_token config) (this e) voter locked s1) (\<lambda>s2.
           Inr (gd_publish (GvTokensWithdrawn proposal_id voter locked) s2)))))"

definition get_vote :: "int \<Rightarrow> address \<Rightarrow> ('t, 'v) gd_state \<Rightarrow> vote_record option" where
  "get_vote proposal_id voter s = gd_vote_records s (proposal_id, voter)"

end
