(* ===== verification/GD_Proposals.thy ===== *)
theory GD_Proposals
  imports GD_Voting
begin

text \<open>
  The life of a proposal: creation with its deposit, discussion, the settlement of the vote
  one by one and in batches, execution, cancellation, veto, and comments.
\<close>

section \<open>Creation\<close>

definition impact_multipliers_of :: "('t, 'v) gd_state \<Rightarrow> impact_multipliers" where
  "impact_multipliers_of s = unwrap_or
     \<lparr>im_standard_bps = MIN_MULTIPLIER_BPS, im_upgrade_bps = MIN_MULTIPLIER_BPS,
      im_self_target_bps = MIN_MULTIPLIER_BPS\<rparr> (gd_impact_multipliers s)"

definition get_impact_multipliers :: "('t, 'v) gd_state \<Rightarrow> impact_multipliers" where
  "get_impact_multipliers s = impact_multipliers_of s"

definition effective_threshold ::
  "env \<Rightarrow> proposal_kind \<Rightarrow> address \<Rightarrow> ('t, 'v) gd_state \<Rightarrow> (gd_error, int) result" where
  "effective_threshold e kind target s =
     bindR (or_panic GNotInitialized (gd_config s)) (\<lambda>config.
     let mult = impact_multipliers_of s;
         mult_bps = (case kind of
            Upgrade \<Rightarrow> im_upgrade_bps mult
          | Standard \<Rightarrow> if target = this e then im_self_target_bps mult else im_standard_bps mult)
     in Inr (sat_i128 (sat_i128 (dc_proposal_threshold config * mult_bps) sdiv MIN_MULTIPLIER_BPS)))"

definition get_effective_threshold ::
  "env \<Rightarrow> proposal_kind \<Rightarrow> address \<Rightarrow> ('t, 'v) gd_state \<Rightarrow> (gd_error, int) result" where
  "get_effective_threshold e kind target s = effective_threshold e kind target s"

text \<open>A proposal with the same content that is still open blocks a new one.\<close>

definition refuse_duplicate :: "int list \<Rightarrow> ('t, 'v) gd_state \<Rightarrow> (gd_error, unit) result" where
  "refuse_duplicate hash s =
     (case gd_active_proposal_hash s hash of
        Some i \<Rightarrow> (case gd_proposals s i of
          Some existing \<Rightarrow>
            if pp_status existing = Active \<or> pp_status existing = Discussion
            then panic GDuplicateProposal else Inr ()
        | None \<Rightarrow> Inr ())
      | None \<Rightarrow> Inr ())"

text \<open>
  The part the two ways to create a proposal share: the deposit for its kind and target, the
  new entry with the supply of the configuration, the hash, and the transfer of the deposit.
\<close>

definition new_proposal ::
  "env \<Rightarrow> int \<Rightarrow> address \<Rightarrow> bytes \<Rightarrow> address \<Rightarrow> symbol \<Rightarrow> 'v list \<Rightarrow> int \<Rightarrow> proposal_kind \<Rightarrow> bytes \<Rightarrow>
   dao_config \<Rightarrow> 'v proposal" where
  "new_proposal e proposal_id proposer title target func args deposit kind impact config =
     (let now = timestamp e;
          (status, vote_end) =
            (if dc_discussion_period config > 0
             then (Discussion, sat_u64 (sat_u64 (now + dc_discussion_period config) + dc_voting_period config))
             else (Active, sat_u64 (now + dc_voting_period config)))
      in \<lparr>pp_id = proposal_id, pp_proposer = proposer, pp_title = title, pp_target = target,
          pp_function = func, pp_args = args, pp_deposit = deposit, pp_status = status,
          pp_votes_for = 0, pp_votes_against = 0, pp_votes_abstain = 0, pp_created_at = now,
          pp_vote_end = vote_end, pp_execution_time = 0,
          pp_execution_deadline = sat_u64 (sat_u64 (vote_end + FINALIZE_DELAY) + 7 * 24 * 3600),
          pp_total_supply = dc_total_supply config, pp_kind = kind, pp_impact_analysis = impact,
          pp_verification_callback = None, pp_execution_verified = True, pp_is_vetoed = False\<rparr>)"

definition submit_proposal ::
  "('t, 'v) dao_host \<Rightarrow> env \<Rightarrow> address \<Rightarrow> bytes \<Rightarrow> address \<Rightarrow> symbol \<Rightarrow> 'v list \<Rightarrow> proposal_kind \<Rightarrow> bytes \<Rightarrow>
   int list \<Rightarrow> ('t, 'v) gd_state \<Rightarrow> (gd_error, int \<times> ('t, 'v) gd_state) result" where
  "submit_proposal h e proposer title target func args kind impact hash s =
     bindR (or_panic GNotInitialized (gd_config s)) (\<lambda>config.
     bindR (effective_threshold e kind target s) (\<lambda>deposit.
     bindR (gd_balance h (dc_gov_token config) proposer s) (\<lambda>weight.
     if weight < deposit then panic GInsufficientWeight
     else let proposal_id = unwrap_or 0 (gd_next_proposal_id s);
              s1 = put_proposal proposal_id
                     (new_proposal e proposal_id proposer title target func args deposit kind impact config) s
     in bindR (or_panic GLimitReached (checked_u64 (proposal_id + 1))) (\<lambda>next.
        bindR (gd_transfer h (dc_gov_token config) proposer (this e) deposit
                 (s1\<lparr>gd_next_proposal_id := Some next,
                     gd_active_proposal_hash := (gd_active_proposal_hash s1)(hash \<mapsto> proposal_id)\<rparr>)) (\<lambda>s2.
        Inr (proposal_id, gd_publish (GvProposalCreated proposal_id proposer target func) s2))))))"

definition create_proposal ::
  "('t, 'v) dao_host \<Rightarrow> 'v frame \<Rightarrow> env \<Rightarrow> address \<Rightarrow> bytes \<Rightarrow> address \<Rightarrow> symbol \<Rightarrow> 'v list \<Rightarrow> bytes \<Rightarrow>
   ('t, 'v) gd_state \<Rightarrow> (gd_error, int \<times> ('t, 'v) gd_state) result" where
  "create_proposal h fr e proposer title target func args impact s =
     bindR (require_auth e proposer) (\<lambda>_.
     bindR (gd_validate_stellar_address target) (\<lambda>_.
     if title = [] then panic GEmptyDescription
     else if int (length title) > MAX_TITLE_LEN then panic GTitleTooLong
     else if length impact < 5 then panic GEmptyDescription
     else if length impact > 4096 then panic GInvalidInput
     else bindR (proposal_content_hash h fr target func args) (\<lambda>hash.
          bindR (refuse_duplicate hash s) (\<lambda>_.
          submit_proposal h e proposer title target func args Standard impact hash s))))"

definition propose_upgrade ::
  "('t, 'v) dao_host \<Rightarrow> 'v frame \<Rightarrow> env \<Rightarrow> address \<Rightarrow> bytes \<Rightarrow> address \<Rightarrow> wasm_hash \<Rightarrow> bytes \<Rightarrow>
   ('t, 'v) gd_state \<Rightarrow> (gd_error, int \<times> ('t, 'v) gd_state) result" where
  "propose_upgrade h fr e proposer title target new_wasm_hash impact s =
     bindR (require_auth e proposer) (\<lambda>_.
     bindR (gd_validate_stellar_address target) (\<lambda>_.
     if impact = [] then panic GInvalidInput
     else if length impact > 4096 then panic GInvalidInput
     else let args = [address_val h (this e), hash_val h new_wasm_hash]
     in bindR (proposal_content_hash h fr target ''upgrade'' args) (\<lambda>hash.
        bindR (refuse_duplicate hash s) (\<lambda>_.
        submit_proposal h e proposer title target ''upgrade'' args Upgrade impact hash s))))"

definition create_proposal_from_template ::
  "('t, 'v) dao_host \<Rightarrow> 'v frame \<Rightarrow> env \<Rightarrow> address \<Rightarrow> symbol \<Rightarrow> bytes \<Rightarrow> address \<Rightarrow> symbol \<Rightarrow> 'v list \<Rightarrow> bytes \<Rightarrow>
   ('t, 'v) gd_state \<Rightarrow> (gd_error, int \<times> ('t, 'v) gd_state) result" where
  "create_proposal_from_template h fr e proposer template_name title target func args impact s =
     bindR (or_panic GTemplateNotFound (gd_template s template_name)) (\<lambda>template.
     if \<not> pt_active template then panic GTemplateInactive
     else if int (length title) < pt_min_title_len template then panic GTitleTooShort
     else if int (length args) \<noteq> pt_required_arg_count template then panic GArgCountMismatch
     else bindR (create_proposal h fr e proposer title target func args impact s) (\<lambda>(proposal_id, s1).
          Inr (proposal_id, gd_publish (GvProposalCreatedFromTemplate proposal_id template_name) s1)))"

section \<open>Discussion\<close>

definition start_voting :: "env \<Rightarrow> int \<Rightarrow> ('t, 'v) gd_state \<Rightarrow> (gd_error, ('t, 'v) gd_state) result" where
  "start_voting e proposal_id s =
     bindR (get_proposal proposal_id s) (\<lambda>p.
     if pp_status p \<noteq> Discussion then panic GProposalNotActive
     else bindR (or_trap (gd_config s)) (\<lambda>config.
     if dc_discussion_period config = 0 then panic GDiscussionPeriodNotRequired
     else if timestamp e < sat_u64 (pp_created_at p + dc_discussion_period config)
     then panic GDiscussionPeriodNotEnded
     else Inr (gd_publish (GvDiscussionPeriodEnded proposal_id)
                (put_proposal proposal_id (p\<lparr>pp_status := Active\<rparr>) s))))"

section \<open>Settlement of the vote\<close>

definition quorum_needed :: "int \<Rightarrow> int \<Rightarrow> int" where
  "quorum_needed total_supply quorum_bps = unwrap_or i128_max
     (Option.bind (checked_mul total_supply quorum_bps) (\<lambda>v. checked_div v 10000))"

definition for_bps :: "int \<Rightarrow> int \<Rightarrow> int" where
  "for_bps votes_for partisan_votes =
     (if partisan_votes > 0
      then (case checked_mul votes_for 10000 of Some v \<Rightarrow> v sdiv partisan_votes | None \<Rightarrow> 0) else 0)"

definition decide ::
  "env \<Rightarrow> dao_config \<Rightarrow> effective_quorum \<Rightarrow> int \<Rightarrow> 'v proposal \<Rightarrow> (gd_error, 'v proposal) result" where
  "decide e config effective partisan_votes p =
     (if partisan_votes = 0 then Inr (p\<lparr>pp_status := Failed\<rparr>)
      else if partisan_votes < quorum_needed (pp_total_supply p) (eq_quorum_bps effective)
      then Inr (p\<lparr>pp_status := Failed\<rparr>)
      else if for_bps (pp_votes_for p) partisan_votes \<ge> dc_majority_bps config
      then bindR (u64 (timestamp e + dc_proposal_timelock config)) (\<lambda>t.
           Inr (p\<lparr>pp_status := Passed, pp_execution_time := t\<rparr>))
      else Inr (p\<lparr>pp_status := Failed\<rparr>))"

definition announce_decay :: "int \<Rightarrow> effective_quorum \<Rightarrow> ('t, 'v) gd_state \<Rightarrow> ('t, 'v) gd_state" where
  "announce_decay proposal_id effective s =
     (if eq_decayed effective
      then gd_publish (GvQuorumDecayApplied proposal_id (eq_base_bps effective)
             (eq_quorum_bps effective) (eq_avg_participation_bps effective)) s
      else s)"

definition refund_failed ::
  "('t, 'v) dao_host \<Rightarrow> env \<Rightarrow> address \<Rightarrow> 'v proposal \<Rightarrow> ('t, 'v) gd_state \<Rightarrow>
   (gd_error, ('t, 'v) gd_state) result" where
  "refund_failed h e token p s =
     (if pp_status p \<noteq> Passed then gd_transfer h token (this e) (pp_proposer p) (pp_deposit p) s else Inr s)"

definition finalize ::
  "('t, 'v) dao_host \<Rightarrow> 'v frame \<Rightarrow> env \<Rightarrow> int \<Rightarrow> ('t, 'v) gd_state \<Rightarrow> (gd_error, ('t, 'v) gd_state) result" where
  "finalize h fr e proposal_id s =
     bindR (get_proposal proposal_id s) (\<lambda>p.
     if pp_status p \<noteq> Active then panic GProposalNotActive
     else bindR (u64 (pp_vote_end p + FINALIZE_DELAY)) (\<lambda>ready.
     if timestamp e \<le> ready then panic GFinalizeDelayNotMet
     else bindR (or_trap (gd_config s)) (\<lambda>config.
     bindR (i128 (pp_votes_for p + pp_votes_against p)) (\<lambda>partisan_votes.
     bindR (i128 (partisan_votes + pp_votes_abstain p)) (\<lambda>total_votes.
     let effective = effective_quorum_of config s; s1 = announce_decay proposal_id effective s
     in bindR (decide e config effective partisan_votes p) (\<lambda>p'.
        bindR (refund_failed h e (dc_gov_token config) p'
                 (record_participation total_votes (pp_total_supply p) s1)) (\<lambda>s2.
        bindR (clear_proposal_hash h fr p' (put_proposal proposal_id p' s2)) (\<lambda>s3.
        Inr (gd_publish (GvProposalFinalized proposal_id (pp_status p')) s3)))))))))"

text \<open>The batch reads the configuration once and adds up all votes only after the decision.\<close>

primrec finalize_each ::
  "('t, 'v) dao_host \<Rightarrow> 'v frame \<Rightarrow> env \<Rightarrow> dao_config \<Rightarrow> int list \<Rightarrow> ('t, 'v) gd_state \<Rightarrow>
   (gd_error, ('t, 'v) gd_state) result" where
  "finalize_each h fr e config [] s = Inr s"
| "finalize_each h fr e config (pid # rest) s =
     bindR (get_proposal pid s) (\<lambda>p.
     if pp_status p \<noteq> Active then panic GProposalNotActive
     else bindR (u64 (pp_vote_end p + FINALIZE_DELAY)) (\<lambda>ready.
     if timestamp e \<le> ready then panic GFinalizeDelayNotMet
     else bindR (i128 (pp_votes_for p + pp_votes_against p)) (\<lambda>partisan_votes.
     let effective = effective_quorum_of config s; s1 = announce_decay pid effective s
     in bindR (decide e config effective partisan_votes p) (\<lambda>p'.
        bindR (i128 (partisan_votes + pp_votes_abstain p')) (\<lambda>total_votes.
        bindR (refund_failed h e (dc_gov_token config) p'
                 (record_participation total_votes (pp_total_supply p) s1)) (\<lambda>s2.
        bindR (clear_proposal_hash h fr p' (put_proposal pid p' s2)) (\<lambda>s3.
        finalize_each h fr e config rest
          (gd_publish (GvProposalFinalized pid (pp_status p')) s3))))))))"

definition finalize_batch ::
  "('t, 'v) dao_host \<Rightarrow> 'v frame \<Rightarrow> env \<Rightarrow> int list \<Rightarrow> ('t, 'v) gd_state \<Rightarrow> (gd_error, ('t, 'v) gd_state) result" where
  "finalize_batch h fr e proposal_ids s =
     (if proposal_ids = [] then panic GNoProposals
      else if int (length proposal_ids) > MAX_BATCH_FINALIZE then panic GBatchTooLarge
      else bindR (or_trap (gd_config s)) (\<lambda>config. finalize_each h fr e config proposal_ids s))"

definition reclaim_deposit ::
  "('t, 'v) dao_host \<Rightarrow> 'v frame \<Rightarrow> env \<Rightarrow> int \<Rightarrow> ('t, 'v) gd_state \<Rightarrow> (gd_error, ('t, 'v) gd_state) result" where
  "reclaim_deposit h fr e proposal_id s =
     bindR (get_proposal proposal_id s) (\<lambda>p.
     if pp_status p \<noteq> Active then panic GProposalNotActive
     else if timestamp e \<le> sat_u64 (pp_vote_end p + DEPOSIT_RECLAIM_TIMEOUT) then panic GProposalNotExpired
     else let p' = p\<lparr>pp_status := Failed\<rparr>
     in bindR (or_trap (gd_config s)) (\<lambda>config.
        bindR (i128 (pp_votes_for p + pp_votes_against p)) (\<lambda>partisan_votes.
        bindR (i128 (partisan_votes + pp_votes_abstain p)) (\<lambda>total_votes.
        bindR (gd_transfer h (dc_gov_token config) (this e) (pp_proposer p) (pp_deposit p)
                 (record_participation total_votes (pp_total_supply p) s)) (\<lambda>s1.
        bindR (clear_proposal_hash h fr p' (put_proposal proposal_id p' s1)) (\<lambda>s2.
        Inr (gd_publish (GvDepositReclaimed proposal_id (pp_proposer p) (pp_deposit p)) s2)))))))"

section \<open>Execution\<close>

text \<open>
  The host refuses a call of the contract by itself. A returned number above 10000 is refused;
  a result that is no \<^verbatim>\<open>u32\<close> counts as complete.
\<close>

definition invoke_target ::
  "('t, 'v) dao_host \<Rightarrow> env \<Rightarrow> 'v proposal \<Rightarrow> ('t, 'v) gd_state \<Rightarrow>
   (gd_error, int \<times> ('t, 'v) gd_state) result" where
  "invoke_target h e p s =
     (if pp_target p = this e then trap
      else bindR (or_trap (invoke_of h (gd_world s) (this e) (pp_target p) (pp_function p) (pp_args p)))
        (\<lambda>(w, ret). case ret of
           Some bps \<Rightarrow> if bps \<le> 10000 then Inr (bps, s\<lparr>gd_world := w\<rparr>) else panic GInvalidInput
         | None \<Rightarrow> Inr (10000, s\<lparr>gd_world := w\<rparr>)))"

definition refund_amount :: "int \<Rightarrow> int \<Rightarrow> (gd_error, int) result" where
  "refund_amount deposit execution_bps =
     bindR (i128 (deposit sdiv 10000 * execution_bps)) (\<lambda>whole.
     i128 (whole + (deposit smod 10000 * execution_bps) sdiv 10000))"

definition refund_executed ::
  "('t, 'v) dao_host \<Rightarrow> env \<Rightarrow> 'v proposal \<Rightarrow> int \<Rightarrow> ('t, 'v) gd_state \<Rightarrow> (gd_error, ('t, 'v) gd_state) result" where
  "refund_executed h e p refund s =
     (if refund > 0
      then bindR (or_trap (gd_config s)) (\<lambda>config.
           gd_transfer h (dc_gov_token config) (this e) (pp_proposer p) refund s)
      else Inr s)"

definition may_execute :: "env \<Rightarrow> 'v proposal \<Rightarrow> (gd_error, unit) result" where
  "may_execute e p =
     (if pp_status p = Executed then panic GAlreadyExecuted
      else if pp_status p = Cancelled then panic GAlreadyCancelled
      else if pp_status p = Expired then panic GExecutionDeadlineExpired
      else if pp_status p \<noteq> Passed then panic GProposalNotPassed
      else if pp_is_vetoed p then panic GProposalVetoed
      else if timestamp e < pp_execution_time p then panic GTimelockNotExpired
      else Inr ())"

definition execute ::
  "('t, 'v) dao_host \<Rightarrow> 'v frame \<Rightarrow> env \<Rightarrow> int \<Rightarrow> ('t, 'v) gd_state \<Rightarrow> (gd_error, ('t, 'v) gd_state) result" where
  "execute h fr e proposal_id s =
     bindR (get_proposal proposal_id s) (\<lambda>p.
     bindR (may_execute e p) (\<lambda>_.
     if timestamp e > pp_execution_deadline p
     then let p' = p\<lparr>pp_status := Expired\<rparr>
          in bindR (clear_proposal_hash h fr p' (put_proposal proposal_id p' s)) (\<lambda>s1.
             Inr (gd_publish (GvProposalExpired proposal_id) s1))
     else bindR (gd_validate_stellar_address (pp_target p)) (\<lambda>_.
     bindR (invoke_target h e p s) (\<lambda>(execution_bps, s1).
     bindR (refund_amount (pp_deposit p) execution_bps) (\<lambda>refund.
     bindR (refund_executed h e p refund s1) (\<lambda>s2.
     bindR (i128 (pp_deposit p - refund)) (\<lambda>retained.
     Inr (gd_publish (GvProposalExecuted proposal_id (pp_proposer p) (pp_target p) (pp_function p) (timestamp e))
       ((put_proposal proposal_id (p\<lparr>pp_status := Executed\<rparr>)
          (gd_publish (GvProposalDepositRefunded proposal_id (pp_proposer p) (pp_deposit p)
             execution_bps refund retained) s2))
        \<lparr>gd_execution_audit := (gd_execution_audit s2)(proposal_id \<mapsto>
           \<lparr>ea_proposal_id = proposal_id, ea_executor = pp_proposer p, ea_target = pp_target p,
            ea_function = pp_function p, ea_executed_at = timestamp e,
            ea_votes_for = pp_votes_for p, ea_votes_against = pp_votes_against p\<rparr>)\<rparr>)))))))))"

definition execute_proposal ::
  "('t, 'v) dao_host \<Rightarrow> 'v frame \<Rightarrow> env \<Rightarrow> int \<Rightarrow> ('t, 'v) gd_state \<Rightarrow> (gd_error, ('t, 'v) gd_state) result" where
  "execute_proposal h fr e proposal_id s = execute h fr e proposal_id s"

definition get_execution_audit :: "int \<Rightarrow> ('t, 'v) gd_state \<Rightarrow> (gd_error, execution_audit_record) result" where
  "get_execution_audit proposal_id s = or_panic GProposalNotFound (gd_execution_audit s proposal_id)"

section \<open>Cancellation and veto\<close>

definition cancel ::
  "('t, 'v) dao_host \<Rightarrow> 'v frame \<Rightarrow> env \<Rightarrow> address \<Rightarrow> int \<Rightarrow> ('t, 'v) gd_state \<Rightarrow>
   (gd_error, ('t, 'v) gd_state) result" where
  "cancel h fr e admin proposal_id s =
     bindR (gd_require_admin e admin s) (\<lambda>_.
     bindR (get_proposal proposal_id s) (\<lambda>p.
     if pp_status p \<noteq> Active \<and> pp_status p \<noteq> Discussion then panic GProposalNotActive
     else let p' = p\<lparr>pp_status := Cancelled\<rparr>; s1 = put_proposal proposal_id p' s
     in bindR (or_trap (gd_config s1)) (\<lambda>config.
        bindR (gd_transfer h (dc_gov_token config) (this e) (pp_proposer p) (pp_deposit p) s1) (\<lambda>s2.
        bindR (clear_proposal_hash h fr p' s2) (\<lambda>s3.
        Inr (gd_publish (GvProposalCancelled proposal_id) s3))))))"

definition veto_proposal ::
  "env \<Rightarrow> address \<Rightarrow> int \<Rightarrow> symbol \<Rightarrow> ('t, 'v) gd_state \<Rightarrow> (gd_error, ('t, 'v) gd_state) result" where
  "veto_proposal e guardian proposal_id reason s =
     bindR (gd_require_guardian e guardian s) (\<lambda>_.
     bindR (get_proposal proposal_id s) (\<lambda>p.
     if pp_status p = Executed then panic GAlreadyExecuted
     else if pp_is_vetoed p then panic GProposalVetoed
     else Inr (gd_publish (GvProposalVetoed proposal_id guardian reason)
                (put_proposal proposal_id (p\<lparr>pp_is_vetoed := True\<rparr>) s))))"

section \<open>Comments\<close>

definition add_comment ::
  "env \<Rightarrow> address \<Rightarrow> int \<Rightarrow> bytes \<Rightarrow> int option \<Rightarrow> ('t, 'v) gd_state \<Rightarrow>
   (gd_error, int \<times> ('t, 'v) gd_state) result" where
  "add_comment e commenter proposal_id text reply_to s =
     bindR (require_auth e commenter) (\<lambda>_.
     if text = [] \<or> length text > 1024 then panic GInvalidInput
     else bindR (get_proposal proposal_id s) (\<lambda>p.
     if pp_status p \<noteq> Discussion \<and> pp_status p \<noteq> Active then panic GInvalidInput
     else if (case reply_to of Some i \<Rightarrow> gd_comments s i = None | None \<Rightarrow> False) then panic GProposalNotFound
     else let comment_id = unwrap_or 1 (gd_next_comment_id s proposal_id); now = timestamp e
     in Inr (comment_id, gd_publish (GvCommentAdded proposal_id comment_id commenter reply_to now)
          (s\<lparr>gd_comments := (gd_comments s)(comment_id \<mapsto>
               \<lparr>pc_id = comment_id, pc_proposal_id = proposal_id, pc_author = commenter,
                pc_text = text, pc_created_at = now, pc_reply_to = reply_to\<rparr>),
             gd_next_comment_id := (gd_next_comment_id s)
               (proposal_id \<mapsto> min u128_max (comment_id + 1))\<rparr>))))"

definition get_comment :: "int \<Rightarrow> ('t, 'v) gd_state \<Rightarrow> (gd_error, proposal_comment) result" where
  "get_comment comment_id s = or_panic GProposalNotFound (gd_comments s comment_id)"

definition delete_comment ::
  "env \<Rightarrow> address \<Rightarrow> int \<Rightarrow> ('t, 'v) gd_state \<Rightarrow> (gd_error, ('t, 'v) gd_state) result" where
  "delete_comment e admin comment_id s =
     bindR (gd_require_admin e admin s) (\<lambda>_.
     if gd_comments s comment_id = None then panic GProposalNotFound
     else Inr (gd_publish (GvCommentDeleted comment_id)
                (s\<lparr>gd_comments := (gd_comments s)(comment_id := None)\<rparr>)))"

end
