(* ===== verification/GD_Admin.thy ===== *)
theory GD_Admin
  imports GD_Voting
begin

text \<open>
  The administration of the DAO: initialisation and configuration, the multipliers of the
  deposit, proposal templates, guardians, and upgrades of the contract itself.
\<close>

section \<open>Configuration\<close>

definition check_config :: "dao_config \<Rightarrow> (gd_error, unit) result" where
  "check_config config =
     (if dc_voting_period config < MIN_VOTING_PERIOD then panic GVotingPeriodTooShort
      else if dc_voting_period config > MAX_VOTING_PERIOD then panic GVotingPeriodTooLong
      else if dc_quorum_bps config < MIN_QUORUM_BPS then panic GQuorumTooLow
      else if dc_quorum_bps config > MAX_QUORUM_BPS then panic GQuorumTooHigh
      else Inr ())"

definition gd_initialize ::
  "env \<Rightarrow> address \<Rightarrow> dao_config \<Rightarrow> ('t, 'v) gd_state \<Rightarrow> (gd_error, ('t, 'v) gd_state) result" where
  "gd_initialize e admin config s =
     (if gd_initialized s then panic GAlreadyInitialized
      else if \<not> is_account_or_contract admin then panic GInvalidAddress
      else if \<not> is_contract (dc_gov_token config) then panic GInvalidAddress
      else bindR (check_config config) (\<lambda>_.
           Inr (gd_publish (GvInitialized admin (dc_gov_token config))
                 (s\<lparr>gd_initialized := True, gd_admin := Some admin, gd_config := Some config,
                    gd_next_proposal_id := Some 0\<rparr>))))"

definition config_updated :: "dao_config \<Rightarrow> gd_event" where
  "config_updated config = GvDaoConfigUpdated (dc_gov_token config) (dc_proposal_threshold config)
     (dc_total_supply config) (dc_voting_period config) (dc_proposal_timelock config)"

definition update_config ::
  "env \<Rightarrow> address \<Rightarrow> dao_config \<Rightarrow> ('t, 'v) gd_state \<Rightarrow> (gd_error, ('t, 'v) gd_state) result" where
  "update_config e admin config s =
     bindR (gd_require_admin e admin s) (\<lambda>_.
     bindR (check_config config) (\<lambda>_.
     Inr (gd_publish (config_updated config) (s\<lparr>gd_config := Some config\<rparr>))))"

definition set_proposal_threshold ::
  "env \<Rightarrow> address \<Rightarrow> int \<Rightarrow> ('t, 'v) gd_state \<Rightarrow> (gd_error, ('t, 'v) gd_state) result" where
  "set_proposal_threshold e admin new_threshold s =
     bindR (gd_require_admin e admin s) (\<lambda>_.
     if new_threshold \<le> 0 then panic GInvalidInput
     else bindR (or_panic GNotInitialized (gd_config s)) (\<lambda>config.
     let config' = config\<lparr>dc_proposal_threshold := new_threshold\<rparr>
     in Inr (gd_publish (config_updated config') (s\<lparr>gd_config := Some config'\<rparr>))))"

definition set_impact_multipliers ::
  "env \<Rightarrow> address \<Rightarrow> int \<Rightarrow> int \<Rightarrow> int \<Rightarrow> ('t, 'v) gd_state \<Rightarrow> (gd_error, ('t, 'v) gd_state) result" where
  "set_impact_multipliers e admin standard_bps upgrade_bps self_target_bps s =
     bindR (gd_require_admin e admin s) (\<lambda>_.
     if list_ex (\<lambda>m. m < MIN_MULTIPLIER_BPS \<or> m > MAX_MULTIPLIER_BPS)
          [standard_bps, upgrade_bps, self_target_bps]
     then panic GInvalidImpactMultiplier
     else Inr (gd_publish (GvImpactMultipliersUpdated standard_bps upgrade_bps self_target_bps)
            (s\<lparr>gd_impact_multipliers := Some
                 \<lparr>im_standard_bps = standard_bps, im_upgrade_bps = upgrade_bps,
                  im_self_target_bps = self_target_bps\<rparr>\<rparr>)))"

definition set_risk_pool ::
  "env \<Rightarrow> address \<Rightarrow> address \<Rightarrow> ('t, 'v) gd_state \<Rightarrow> (gd_error, ('t, 'v) gd_state) result" where
  "set_risk_pool e admin risk_pool s =
     bindR (gd_require_admin e admin s) (\<lambda>_.
     bindR (gd_validate_stellar_address risk_pool) (\<lambda>_.
     Inr (gd_publish (GvRiskPoolSet risk_pool) (s\<lparr>gd_risk_pool := Some risk_pool\<rparr>))))"

definition gd_get_risk_pool :: "('t, 'v) gd_state \<Rightarrow> address option" where
  "gd_get_risk_pool s = gd_risk_pool s"

definition gd_get_admin :: "('t, 'v) gd_state \<Rightarrow> (gd_error, address) result" where
  "gd_get_admin s = or_panic GNotInitialized (gd_admin s)"

definition proposal_count :: "('t, 'v) gd_state \<Rightarrow> int" where
  "proposal_count s = unwrap_or 0 (gd_next_proposal_id s)"

definition gd_get_version :: "('t, 'v) gd_state \<Rightarrow> int" where
  "gd_get_version s = unwrap_or 1 (gd_version s)"

section \<open>Templates\<close>

definition register_template ::
  "env \<Rightarrow> address \<Rightarrow> symbol \<Rightarrow> bytes \<Rightarrow> int \<Rightarrow> int \<Rightarrow> ('t, 'v) gd_state \<Rightarrow> (gd_error, ('t, 'v) gd_state) result" where
  "register_template e admin name description min_title_len required_arg_count s =
     bindR (gd_require_admin e admin s) (\<lambda>_.
     if description = [] then panic GEmptyDescription
     else if min_title_len = 0 \<or> min_title_len > 256 \<or> required_arg_count > 64 then panic GInvalidParameter
     else if gd_template s name \<noteq> None then panic GDuplicateTemplateName
     else let names = unwrap_or [] (gd_template_list s);
              s1 = s\<lparr>gd_template := (gd_template s)(name \<mapsto>
                     \<lparr>pt_name = name, pt_description = description, pt_min_title_len = min_title_len,
                      pt_required_arg_count = required_arg_count, pt_active = True\<rparr>)\<rparr>;
              s2 = (if name \<in> set names then s1 else s1\<lparr>gd_template_list := Some (names @ [name])\<rparr>)
     in Inr (gd_publish (GvTemplateRegistered name min_title_len required_arg_count) s2))"

definition deactivate_template ::
  "env \<Rightarrow> address \<Rightarrow> symbol \<Rightarrow> ('t, 'v) gd_state \<Rightarrow> (gd_error, ('t, 'v) gd_state) result" where
  "deactivate_template e admin name s =
     bindR (gd_require_admin e admin s) (\<lambda>_.
     bindR (or_panic GTemplateNotFound (gd_template s name)) (\<lambda>template.
     Inr (s\<lparr>gd_template := (gd_template s)(name \<mapsto> template\<lparr>pt_active := False\<rparr>)\<rparr>)))"

definition get_template :: "symbol \<Rightarrow> ('t, 'v) gd_state \<Rightarrow> (gd_error, proposal_template) result" where
  "get_template name s = or_panic GTemplateNotFound (gd_template s name)"

definition list_templates :: "('t, 'v) gd_state \<Rightarrow> symbol list" where
  "list_templates s = unwrap_or [] (gd_template_list s)"

section \<open>Guardians and upgrades\<close>

text \<open>\<^verbatim>\<open>run_migrations\<close> does nothing.\<close>

definition gd_upgrade ::
  "env \<Rightarrow> address \<Rightarrow> wasm_hash \<Rightarrow> int \<Rightarrow> ('t, 'v) gd_state \<Rightarrow> (gd_error, ('t, 'v) gd_state) result" where
  "gd_upgrade e admin new_wasm_hash new_version s =
     bindR (gd_require_admin e admin s) (\<lambda>_.
     let current_version = gd_get_version s
     in if new_version \<le> current_version then panic GVersionNotNewer
        else if gd_threshold s = 0
        then Inr (gd_publish (GvContractUpgraded current_version new_version)
               (s\<lparr>gd_version := Some new_version, gd_wasm := Some new_wasm_hash\<rparr>))
        else Inr (s\<lparr>gd_upgrade_pending := Some
               \<lparr>gu_wasm_hash = new_wasm_hash, gu_version = new_version, gu_approvals = []\<rparr>\<rparr>))"

definition gd_set_guardians ::
  "env \<Rightarrow> address \<Rightarrow> address list \<Rightarrow> int \<Rightarrow> ('t, 'v) gd_state \<Rightarrow> (gd_error, ('t, 'v) gd_state) result" where
  "gd_set_guardians e admin guardians threshold s =
     bindR (gd_require_admin e admin s) (\<lambda>_.
     if \<not> distinct guardians then panic GInvalidInput
     else if threshold = 0 \<or> threshold > int (length guardians) then panic GInvalidThreshold
     else Inr (gd_publish (GvGuardiansUpdated guardians threshold)
            (s\<lparr>gd_guardians := Some guardians, gd_guardian_threshold := Some threshold\<rparr>)))"

definition gd_get_guardians :: "('t, 'v) gd_state \<Rightarrow> address list" where
  "gd_get_guardians s = gd_guardians_of s"

definition gd_get_guardian_threshold :: "('t, 'v) gd_state \<Rightarrow> int" where
  "gd_get_guardian_threshold s = gd_threshold s"

definition gd_get_pending_upgrade :: "('t, 'v) gd_state \<Rightarrow> gd_pending_upgrade option" where
  "gd_get_pending_upgrade s = gd_upgrade_pending s"

definition gd_approve_upgrade ::
  "env \<Rightarrow> address \<Rightarrow> wasm_hash \<Rightarrow> ('t, 'v) gd_state \<Rightarrow> (gd_error, ('t, 'v) gd_state) result" where
  "gd_approve_upgrade e guardian new_wasm_hash s =
     bindR (gd_require_guardian e guardian s) (\<lambda>_.
     bindR (or_panic GNoPendingUpgrade (gd_upgrade_pending s)) (\<lambda>pending.
     if gu_wasm_hash pending \<noteq> new_wasm_hash then panic GNoPendingUpgrade
     else if guardian \<in> set (gu_approvals pending) then panic GAlreadyApprovedAction
     else let approvals = gu_approvals pending @ [guardian]; threshold = gd_threshold s;
              s1 = gd_publish (GvUpgradeApproved new_wasm_hash guardian (int (length approvals)) threshold) s
     in if int (length approvals) \<ge> threshold
        then Inr (gd_publish (GvContractUpgraded (gd_get_version s) (gu_version pending))
               (s1\<lparr>gd_upgrade_pending := None, gd_version := Some (gu_version pending),
                   gd_wasm := Some new_wasm_hash\<rparr>))
        else Inr (s1\<lparr>gd_upgrade_pending := Some (pending\<lparr>gu_approvals := approvals\<rparr>)\<rparr>)))"

definition gd_cancel_pending_upgrade ::
  "env \<Rightarrow> address \<Rightarrow> ('t, 'v) gd_state \<Rightarrow> (gd_error, ('t, 'v) gd_state) result" where
  "gd_cancel_pending_upgrade e admin s =
     bindR (gd_require_admin e admin s) (\<lambda>_.
     if gd_upgrade_pending s = None then panic GNoPendingUpgrade
     else Inr (s\<lparr>gd_upgrade_pending := None\<rparr>))"

end
