(* ===== verification/GD_System.thy ===== *)
theory GD_System
  imports GD_Proposals GD_Admin
begin

text \<open>
  The DAO as a transition system: the entry points that may change its storage as one call
  type with its dispatcher. A call that hashes or hands on values carries the frame in which
  the host represents them. Between the calls the world outside changes.
\<close>

section \<open>Calls\<close>

datatype 'v proposal_call =
    CreateProposal address bytes address symbol "'v list" bytes
  | ProposeUpgrade address bytes address wasm_hash bytes
  | CreateProposalFromTemplate address symbol bytes address symbol "'v list" bytes
  | StartVoting int
  | Finalize int
  | FinalizeBatch "int list"
  | ReclaimDeposit int
  | Execute int
  | ExecuteProposal int
  | Cancel address int
  | VetoProposal address int symbol
  | AddComment address int bytes "int option"
  | DeleteComment address int

datatype voting_call =
    Delegate address address
  | DelegateWithExpiry address address int
  | RevokeDelegation address
  | CheckpointVotingPower address
  | PruneParticipationHistory int
  | Vote address int vote_choice
  | VoteBatch address "int list" vote_choice
  | WithdrawTokens address int

datatype dao_setting_call =
    GdInitialize address dao_config
  | UpdateConfig address dao_config
  | SetProposalThreshold address int
  | SetImpactMultipliers address int int int
  | SetRiskPool address address
  | SetQuorumDecay address bool int int int
  | SetTimeWeight address bool int int
  | RegisterTemplate address symbol bytes int int
  | DeactivateTemplate address symbol
  | GdUpgrade address wasm_hash int
  | GdSetGuardians address "address list" int
  | GdApproveUpgrade address wasm_hash
  | GdCancelPendingUpgrade address

datatype ('t, 'v) gd_call =
    OnProposal "'v frame" "'v proposal_call"
  | Voting voting_call
  | DaoSetting dao_setting_call
  | Outside 't

section \<open>Types of the arguments\<close>

definition is_word :: "int \<Rightarrow> int \<Rightarrow> bool" where
  "is_word mx n \<longleftrightarrow> 0 \<le> n \<and> n \<le> mx"

definition dao_config_typed :: "dao_config \<Rightarrow> bool" where
  "dao_config_typed c \<longleftrightarrow> fits_i128 (dc_proposal_threshold c) \<and> fits_i128 (dc_total_supply c)
     \<and> is_word u32_max (dc_quorum_bps c) \<and> is_word u32_max (dc_majority_bps c)
     \<and> is_word u64_max (dc_voting_period c) \<and> is_word u64_max (dc_proposal_timelock c)
     \<and> is_word u64_max (dc_discussion_period c) \<and> fits_i128 (dc_vote_weight_cap c)"

fun proposal_call_typed :: "'v proposal_call \<Rightarrow> bool" where
  "proposal_call_typed (StartVoting i) \<longleftrightarrow> is_word u64_max i"
| "proposal_call_typed (Finalize i) \<longleftrightarrow> is_word u64_max i"
| "proposal_call_typed (FinalizeBatch is) \<longleftrightarrow> list_all (is_word u64_max) is"
| "proposal_call_typed (ReclaimDeposit i) \<longleftrightarrow> is_word u64_max i"
| "proposal_call_typed (Execute i) \<longleftrightarrow> is_word u64_max i"
| "proposal_call_typed (ExecuteProposal i) \<longleftrightarrow> is_word u64_max i"
| "proposal_call_typed (Cancel a i) \<longleftrightarrow> is_word u64_max i"
| "proposal_call_typed (VetoProposal a i r) \<longleftrightarrow> is_word u64_max i"
| "proposal_call_typed (AddComment a i t r) \<longleftrightarrow> is_word u64_max i
     \<and> (case r of None \<Rightarrow> True | Some j \<Rightarrow> is_word u128_max j)"
| "proposal_call_typed (DeleteComment a i) \<longleftrightarrow> is_word u128_max i"
| "proposal_call_typed _ \<longleftrightarrow> True"

fun voting_call_typed :: "voting_call \<Rightarrow> bool" where
  "voting_call_typed (DelegateWithExpiry a b n) \<longleftrightarrow> is_word u64_max n"
| "voting_call_typed (PruneParticipationHistory n) \<longleftrightarrow> is_word u32_max n"
| "voting_call_typed (Vote a i c) \<longleftrightarrow> is_word u64_max i"
| "voting_call_typed (VoteBatch a is c) \<longleftrightarrow> list_all (is_word u64_max) is"
| "voting_call_typed (WithdrawTokens a i) \<longleftrightarrow> is_word u64_max i"
| "voting_call_typed _ \<longleftrightarrow> True"

fun dao_setting_typed :: "dao_setting_call \<Rightarrow> bool" where
  "dao_setting_typed (GdInitialize a c) \<longleftrightarrow> dao_config_typed c"
| "dao_setting_typed (UpdateConfig a c) \<longleftrightarrow> dao_config_typed c"
| "dao_setting_typed (SetProposalThreshold a n) \<longleftrightarrow> fits_i128 n"
| "dao_setting_typed (SetImpactMultipliers a x y z) \<longleftrightarrow>
     is_word u32_max x \<and> is_word u32_max y \<and> is_word u32_max z"
| "dao_setting_typed (SetQuorumDecay a b x y z) \<longleftrightarrow>
     is_word u32_max x \<and> is_word u32_max y \<and> is_word u32_max z"
| "dao_setting_typed (SetTimeWeight a b x y) \<longleftrightarrow> is_word u64_max x \<and> is_word u32_max y"
| "dao_setting_typed (RegisterTemplate a n d x y) \<longleftrightarrow> is_word u32_max x \<and> is_word u32_max y"
| "dao_setting_typed (GdUpgrade a w n) \<longleftrightarrow> is_word u32_max n"
| "dao_setting_typed (GdSetGuardians a g n) \<longleftrightarrow> is_word u32_max n"
| "dao_setting_typed _ \<longleftrightarrow> True"

fun gd_typed :: "('t, 'v) gd_call \<Rightarrow> bool" where
  "gd_typed (OnProposal fr c) \<longleftrightarrow> proposal_call_typed c"
| "gd_typed (Voting c) \<longleftrightarrow> voting_call_typed c"
| "gd_typed (DaoSetting c) \<longleftrightarrow> dao_setting_typed c"
| "gd_typed (Outside w) \<longleftrightarrow> True"

section \<open>Dispatch\<close>

definition no_result :: "(gd_error, 'a \<times> 's) result \<Rightarrow> (gd_error, 's) result" where
  "no_result r = bindR r (\<lambda>(_, s). Inr s)"

primrec proposal_dispatch ::
  "('t, 'v) dao_host \<Rightarrow> 'v frame \<Rightarrow> env \<Rightarrow> 'v proposal_call \<Rightarrow> ('t, 'v) gd_state \<Rightarrow>
   (gd_error, ('t, 'v) gd_state) result" where
  "proposal_dispatch h fr e (CreateProposal a t g f xs i) s = no_result (create_proposal h fr e a t g f xs i s)"
| "proposal_dispatch h fr e (ProposeUpgrade a t g w i) s = no_result (propose_upgrade h fr e a t g w i s)"
| "proposal_dispatch h fr e (CreateProposalFromTemplate a n t g f xs i) s =
     no_result (create_proposal_from_template h fr e a n t g f xs i s)"
| "proposal_dispatch h fr e (StartVoting i) s = start_voting e i s"
| "proposal_dispatch h fr e (Finalize i) s = finalize h fr e i s"
| "proposal_dispatch h fr e (FinalizeBatch is) s = finalize_batch h fr e is s"
| "proposal_dispatch h fr e (ReclaimDeposit i) s = reclaim_deposit h fr e i s"
| "proposal_dispatch h fr e (Execute i) s = execute h fr e i s"
| "proposal_dispatch h fr e (ExecuteProposal i) s = execute_proposal h fr e i s"
| "proposal_dispatch h fr e (Cancel a i) s = cancel h fr e a i s"
| "proposal_dispatch h fr e (VetoProposal a i r) s = veto_proposal e a i r s"
| "proposal_dispatch h fr e (AddComment a i t r) s = no_result (add_comment e a i t r s)"
| "proposal_dispatch h fr e (DeleteComment a i) s = delete_comment e a i s"

primrec voting_dispatch ::
  "('t, 'v) dao_host \<Rightarrow> env \<Rightarrow> voting_call \<Rightarrow> ('t, 'v) gd_state \<Rightarrow> (gd_error, ('t, 'v) gd_state) result" where
  "voting_dispatch h e (Delegate a b) s = delegate h e a b s"
| "voting_dispatch h e (DelegateWithExpiry a b n) s = delegate_with_expiry h e a b n s"
| "voting_dispatch h e (RevokeDelegation a) s = revoke_delegation e a s"
| "voting_dispatch h e (CheckpointVotingPower a) s = checkpoint_voting_power h e a s"
| "voting_dispatch h e (PruneParticipationHistory n) s = Inr (prune_participation_history n s)"
| "voting_dispatch h e (Vote a i c) s = vote h e a i c s"
| "voting_dispatch h e (VoteBatch a is c) s = vote_batch h e a is c s"
| "voting_dispatch h e (WithdrawTokens a i) s = withdraw_tokens h e a i s"

primrec dao_setting_dispatch ::
  "env \<Rightarrow> dao_setting_call \<Rightarrow> ('t, 'v) gd_state \<Rightarrow> (gd_error, ('t, 'v) gd_state) result" where
  "dao_setting_dispatch e (GdInitialize a c) s = gd_initialize e a c s"
| "dao_setting_dispatch e (UpdateConfig a c) s = update_config e a c s"
| "dao_setting_dispatch e (SetProposalThreshold a n) s = set_proposal_threshold e a n s"
| "dao_setting_dispatch e (SetImpactMultipliers a x y z) s = set_impact_multipliers e a x y z s"
| "dao_setting_dispatch e (SetRiskPool a b) s = set_risk_pool e a b s"
| "dao_setting_dispatch e (SetQuorumDecay a b x y z) s = set_quorum_decay e a b x y z s"
| "dao_setting_dispatch e (SetTimeWeight a b x y) s = set_time_weight e a b x y s"
| "dao_setting_dispatch e (RegisterTemplate a n d x y) s = register_template e a n d x y s"
| "dao_setting_dispatch e (DeactivateTemplate a n) s = deactivate_template e a n s"
| "dao_setting_dispatch e (GdUpgrade a w n) s = gd_upgrade e a w n s"
| "dao_setting_dispatch e (GdSetGuardians a g n) s = gd_set_guardians e a g n s"
| "dao_setting_dispatch e (GdApproveUpgrade a w) s = gd_approve_upgrade e a w s"
| "dao_setting_dispatch e (GdCancelPendingUpgrade a) s = gd_cancel_pending_upgrade e a s"

primrec gd_dispatch ::
  "('t, 'v) dao_host \<Rightarrow> env \<Rightarrow> ('t, 'v) gd_call \<Rightarrow> ('t, 'v) gd_state \<Rightarrow> (gd_error, ('t, 'v) gd_state) result" where
  "gd_dispatch h e (OnProposal fr c) s = proposal_dispatch h fr e c s"
| "gd_dispatch h e (Voting c) s = voting_dispatch h e c s"
| "gd_dispatch h e (DaoSetting c) s = dao_setting_dispatch e c s"
| "gd_dispatch h e (Outside w) s = Inr (s\<lparr>gd_world := w\<rparr>)"

definition gd_exec ::
  "('t, 'v) dao_host \<Rightarrow> env \<Rightarrow> ('t, 'v) gd_call \<Rightarrow> ('t, 'v) gd_state \<Rightarrow> (gd_error, ('t, 'v) gd_state) result" where
  "gd_exec h e c s = (if gd_typed c then gd_dispatch h e c s else trap)"

lemma gd_exec_ok [result_simps]:
  "gd_exec h e c s = Inr s' \<longleftrightarrow> gd_typed c \<and> gd_dispatch h e c s = Inr s'"
  by (auto simp: gd_exec_def)

lemma no_result_ok [result_simps]: "no_result r = Inr s \<longleftrightarrow> (\<exists>x. r = Inr (x, s))"
  by (auto simp: no_result_def result_simps)

end
