(* ===== verification/GD_Ballots.thy ===== *)
theory GD_Ballots
  imports GD_State
begin

text \<open>
  The ballots of the DAO as an abstract machine: proposals, the votes recorded for them, and
  five things that can happen. The theory has the invariant of the machine, what can become
  of a proposal, and the final states a vote leads to.
\<close>

section \<open>The machine\<close>

record 'v ballots =
  bl_count :: int
  bl_proposals :: "int \<Rightarrow> 'v proposal option"
  bl_records :: "int \<times> address \<Rightarrow> vote_record option"

definition no_ballots :: "'v ballots" where
  "no_ballots = \<lparr>bl_count = 0, bl_proposals = Map.empty, bl_records = Map.empty\<rparr>"

text \<open>The status edges of the life of a proposal.\<close>

fun status_edge :: "proposal_status \<Rightarrow> proposal_status \<Rightarrow> bool" where
  "status_edge Discussion st \<longleftrightarrow> st = Active \<or> st = Cancelled"
| "status_edge Active st \<longleftrightarrow> st = Passed \<or> st = Failed \<or> st = Cancelled"
| "status_edge Passed st \<longleftrightarrow> st = Executed \<or> st = Expired"
| "status_edge _ st \<longleftrightarrow> False"

text \<open>
  What passing needs: somebody voted for or against, and they are a tenth of the supply the
  proposal was created with, rounded down.
\<close>

definition carried :: "'v proposal \<Rightarrow> bool" where
  "carried p \<longleftrightarrow> 0 < pp_votes_for p + pp_votes_against p
     \<and> pp_total_supply p div 10 \<le> pp_votes_for p + pp_votes_against p"

definition count_vote :: "vote_choice \<Rightarrow> int \<Rightarrow> 'v proposal \<Rightarrow> 'v proposal" where
  "count_vote choice w p = (case choice of
     For \<Rightarrow> p\<lparr>pp_votes_for := pp_votes_for p + w\<rparr>
   | Against \<Rightarrow> p\<lparr>pp_votes_against := pp_votes_against p + w\<rparr>
   | Abstain \<Rightarrow> p\<lparr>pp_votes_abstain := pp_votes_abstain p + w\<rparr>)"

definition newborn :: "int \<Rightarrow> 'v proposal \<Rightarrow> bool" where
  "newborn i p \<longleftrightarrow> pp_id p = i \<and> (pp_status p = Discussion \<or> pp_status p = Active)
     \<and> pp_votes_for p = 0 \<and> pp_votes_against p = 0 \<and> pp_votes_abstain p = 0
     \<and> \<not> pp_is_vetoed p \<and> pp_execution_time p = 0 \<and> fits_i128 (pp_total_supply p)"

definition same_terms :: "'v proposal \<Rightarrow> 'v proposal \<Rightarrow> bool" where
  "same_terms p q \<longleftrightarrow> pp_id q = pp_id p \<and> pp_proposer q = pp_proposer p \<and> pp_title q = pp_title p
     \<and> pp_target q = pp_target p \<and> pp_function q = pp_function p \<and> pp_args q = pp_args p
     \<and> pp_deposit q = pp_deposit p \<and> pp_created_at q = pp_created_at p \<and> pp_vote_end q = pp_vote_end p
     \<and> pp_execution_deadline q = pp_execution_deadline p \<and> pp_total_supply q = pp_total_supply p
     \<and> pp_kind q = pp_kind p \<and> pp_impact_analysis q = pp_impact_analysis p"

inductive ballot_step :: "'v ballots \<Rightarrow> 'v ballots \<Rightarrow> bool" where
  propose: "newborn (bl_count b) p \<Longrightarrow>
     ballot_step b (b\<lparr>bl_count := bl_count b + 1,
                      bl_proposals := (bl_proposals b)(bl_count b \<mapsto> p)\<rparr>)"
| cast_vote: "bl_proposals b i = Some p \<Longrightarrow> pp_status p = Active \<Longrightarrow> bl_records b (i, a) = None \<Longrightarrow> 0 < w \<Longrightarrow>
     ballot_step b (b\<lparr>bl_proposals := (bl_proposals b)(i \<mapsto> count_vote c w p),
                      bl_records := (bl_records b)((i, a) \<mapsto> \<lparr>vr_voter = a, vr_choice = c, vr_weight = w\<rparr>)\<rparr>)"
| move: "bl_proposals b i = Some p \<Longrightarrow> status_edge (pp_status p) st \<Longrightarrow> st \<noteq> Passed \<Longrightarrow>
     (st = Executed \<longrightarrow> \<not> pp_is_vetoed p) \<Longrightarrow>
     ballot_step b (b\<lparr>bl_proposals := (bl_proposals b)(i \<mapsto> p\<lparr>pp_status := st\<rparr>)\<rparr>)"
| pass: "bl_proposals b i = Some p \<Longrightarrow> pp_status p = Active \<Longrightarrow> carried p \<Longrightarrow>
     ballot_step b (b\<lparr>bl_proposals := (bl_proposals b)(i \<mapsto> p\<lparr>pp_status := Passed, pp_execution_time := t\<rparr>)\<rparr>)"
| veto: "bl_proposals b i = Some p \<Longrightarrow> pp_status p \<noteq> Executed \<Longrightarrow>
     ballot_step b (b\<lparr>bl_proposals := (bl_proposals b)(i \<mapsto> p\<lparr>pp_is_vetoed := True\<rparr>)\<rparr>)"

section \<open>The invariant\<close>

definition cast_for :: "vote_choice \<Rightarrow> vote_record option \<Rightarrow> int" where
  "cast_for c r = (case r of Some v \<Rightarrow> if vr_choice v = c then vr_weight v else 0 | None \<Rightarrow> 0)"

definition tally :: "vote_choice \<Rightarrow> int \<Rightarrow> 'v ballots \<Rightarrow> int" where
  "tally c i b = total (\<lambda>a. cast_for c (bl_records b (i, a)))"

definition tallied :: "int \<Rightarrow> 'v ballots \<Rightarrow> 'v proposal \<Rightarrow> bool" where
  "tallied i b p \<longleftrightarrow> pp_votes_for p = tally For i b \<and> pp_votes_against p = tally Against i b
     \<and> pp_votes_abstain p = tally Abstain i b"

definition sound_at :: "int \<Rightarrow> 'v ballots \<Rightarrow> 'v proposal \<Rightarrow> bool" where
  "sound_at i b p \<longleftrightarrow> pp_id p = i \<and> 0 \<le> i \<and> i < bl_count b \<and> fits_i128 (pp_total_supply p)
     \<and> tallied i b p \<and> (pp_status p \<in> {Passed, Executed, Expired} \<longrightarrow> carried p)"

definition records_ok :: "'v ballots \<Rightarrow> bool" where
  "records_ok b \<longleftrightarrow> (\<forall>i. finite {a. bl_records b (i, a) \<noteq> None})
     \<and> (\<forall>i a r. bl_records b (i, a) = Some r \<longrightarrow>
          bl_proposals b i \<noteq> None \<and> vr_voter r = a \<and> 0 < vr_weight r)"

definition ballots_inv :: "'v ballots \<Rightarrow> bool" where
  "ballots_inv b \<longleftrightarrow> 0 \<le> bl_count b \<and> records_ok b
     \<and> (\<forall>i p. bl_proposals b i = Some p \<longrightarrow> sound_at i b p)"

lemma no_ballots_inv: "ballots_inv no_ballots"
  by (simp add: ballots_inv_def records_ok_def no_ballots_def)

lemma ballotsD:
  assumes "ballots_inv b" "bl_proposals b i = Some p"
  shows "pp_id p = i" "0 \<le> i" "i < bl_count b" "fits_i128 (pp_total_supply p)" "tallied i b p"
    "pp_status p \<in> {Passed, Executed, Expired} \<Longrightarrow> carried p"
  using assms unfolding ballots_inv_def sound_at_def by blast+

lemma cast_for_none [simp]: "cast_for c None = 0"
  by (simp add: cast_for_def)

lemma cast_for_nonneg: "ballots_inv b \<Longrightarrow> 0 \<le> cast_for c (bl_records b (i, a))"
  unfolding ballots_inv_def records_ok_def cast_for_def by (fastforce split: option.splits)

lemma support_casts: "ballots_inv b \<Longrightarrow> finite (support (\<lambda>a. cast_for c (bl_records b (i, a))))"
  by (rule finite_subset[of _ "{a. bl_records b (i, a) \<noteq> None}"])
     (auto simp: support_def ballots_inv_def records_ok_def cast_for_def split: option.splits)

lemma tally_nonneg: "ballots_inv b \<Longrightarrow> 0 \<le> tally c i b"
  by (simp add: tally_def total_nonneg cast_for_nonneg)

text \<open>A vote adds its weight to the tally of its choice and proposal only.\<close>

lemma tally_cast:
  assumes "ballots_inv b" "bl_records b (i, a) = None"
    and "b' = b\<lparr>bl_proposals := ps, bl_records := (bl_records b)((i, a) \<mapsto> \<lparr>vr_voter = a, vr_choice = c, vr_weight = w\<rparr>)\<rparr>"
  shows "tally d j b' = tally d j b + (if j = i \<and> d = c then w else 0)"
proof (cases "j = i")
  case True
  let ?f = "\<lambda>x. cast_for d (bl_records b (i, x))"
  have "(\<lambda>x. cast_for d (bl_records b' (i, x))) = ?f(a := (if d = c then w else 0))"
    by (auto simp: assms(3) cast_for_def)
  then show ?thesis
    using total_upd[OF support_casts[OF assms(1)], of d i a "if d = c then w else 0"] assms(2) True
    by (simp add: tally_def)
next
  case False
  then show ?thesis by (simp add: assms(3) tally_def)
qed

lemma tally_records: "bl_records b' = bl_records b \<Longrightarrow> tally d j b' = tally d j b"
  by (simp add: tally_def)

lemma tally_unvoted: "ballots_inv b \<Longrightarrow> bl_proposals b i = None \<Longrightarrow> tally c i b = 0"
proof -
  assume "ballots_inv b" "bl_proposals b i = None"
  then have "bl_records b (i, a) = None" for a
    unfolding ballots_inv_def records_ok_def by (metis not_Some_eq)
  then show ?thesis by (simp add: tally_def)
qed

lemma replace_inv:
  assumes "ballots_inv b" "bl_proposals b i = Some p"
    and "pp_id q = pp_id p" "pp_total_supply q = pp_total_supply p" "pp_votes_for q = pp_votes_for p"
      "pp_votes_against q = pp_votes_against p" "pp_votes_abstain q = pp_votes_abstain p"
    and "pp_status q \<in> {Passed, Executed, Expired} \<Longrightarrow> carried q"
  shows "ballots_inv (b\<lparr>bl_proposals := (bl_proposals b)(i \<mapsto> q)\<rparr>)"
proof -
  let ?b = "b\<lparr>bl_proposals := (bl_proposals b)(i \<mapsto> q)\<rparr>"
  have t: "tally d j ?b = tally d j b" for d j by (rule tally_records) simp
  have "sound_at i ?b q"
    using ballotsD[OF assms(1,2)] assms(3-8) by (simp add: sound_at_def tallied_def t)
  moreover have "sound_at j ?b r" if "sound_at j b r" for j r
    using that by (simp add: sound_at_def tallied_def t)
  moreover have "records_ok ?b" using assms(1) by (auto simp: ballots_inv_def records_ok_def)
  ultimately show ?thesis using assms(1) by (simp add: ballots_inv_def)
qed

lemma propose_inv:
  assumes "ballots_inv b" "newborn (bl_count b) p"
  shows "ballots_inv (b\<lparr>bl_count := bl_count b + 1, bl_proposals := (bl_proposals b)(bl_count b \<mapsto> p)\<rparr>)"
proof -
  let ?b = "b\<lparr>bl_count := bl_count b + 1, bl_proposals := (bl_proposals b)(bl_count b \<mapsto> p)\<rparr>"
  have "bl_proposals b (bl_count b) = None"
    using assms(1) ballotsD(3) by (metis less_irrefl not_Some_eq)
  then have zero: "tally c (bl_count b) b = 0" for c using tally_unvoted assms(1) by blast
  have t: "tally d j ?b = tally d j b" for d j by (rule tally_records) simp
  have "sound_at (bl_count b) ?b p"
    using assms by (auto simp: sound_at_def tallied_def t zero newborn_def ballots_inv_def)
  moreover have "sound_at j ?b r" if "sound_at j b r" for j r
    using that by (simp add: sound_at_def tallied_def t)
  moreover have "records_ok ?b" using assms(1) by (auto simp: ballots_inv_def records_ok_def)
  ultimately show ?thesis using assms(1) by (simp add: ballots_inv_def)
qed

lemma count_vote_fields [simp]:
  "pp_id (count_vote c w p) = pp_id p" "pp_status (count_vote c w p) = pp_status p"
  "pp_total_supply (count_vote c w p) = pp_total_supply p" "same_terms p (count_vote c w p)"
  "pp_is_vetoed (count_vote c w p) = pp_is_vetoed p"
  by (cases c; simp add: count_vote_def same_terms_def)+

lemma cast_inv:
  assumes "ballots_inv b" "bl_proposals b i = Some p" "pp_status p = Active" "bl_records b (i, a) = None" "0 < w"
  shows "ballots_inv (b\<lparr>bl_proposals := (bl_proposals b)(i \<mapsto> count_vote c w p),
       bl_records := (bl_records b)((i, a) \<mapsto> \<lparr>vr_voter = a, vr_choice = c, vr_weight = w\<rparr>)\<rparr>)"
proof -
  let ?b = "b\<lparr>bl_proposals := (bl_proposals b)(i \<mapsto> count_vote c w p),
       bl_records := (bl_records b)((i, a) \<mapsto> \<lparr>vr_voter = a, vr_choice = c, vr_weight = w\<rparr>)\<rparr>"
  have rec: "records_ok b" using assms(1) by (simp add: ballots_inv_def)
  have t: "tally d j ?b = tally d j b + (if j = i \<and> d = c then w else 0)" for d j
    by (rule tally_cast[OF assms(1,4) refl])
  have "tallied i ?b (count_vote c w p)"
    using ballotsD(5)[OF assms(1,2)] unfolding tallied_def t by (cases c) (simp_all add: count_vote_def)
  then have "sound_at i ?b (count_vote c w p)"
    using ballotsD(1-4)[OF assms(1,2)] assms(3) by (simp add: sound_at_def)
  moreover have "sound_at j ?b r" if "j \<noteq> i" "sound_at j b r" for j r
    using that by (simp add: sound_at_def tallied_def t)
  moreover have "finite {x. bl_records ?b (j, x) \<noteq> None}" for j
    by (rule finite_subset[of _ "insert a {x. bl_records b (j, x) \<noteq> None}"])
       (use rec in \<open>auto simp: records_ok_def\<close>)
  then have "records_ok ?b"
    using rec assms(2,5) unfolding records_ok_def by simp
  ultimately show ?thesis using assms(1) by (simp add: ballots_inv_def)
qed

lemma ballot_step_inv:
  assumes "ballot_step b b'" "ballots_inv b"
  shows "ballots_inv b'"
  using assms
proof (induction rule: ballot_step.induct)
  case (propose b p)
  then show ?case using propose_inv by blast
next
  case (cast_vote b i p a w c)
  then show ?case using cast_inv by blast
next
  case (move b i p st)
  have "carried (p\<lparr>pp_status := st\<rparr>)" if "st \<in> {Passed, Executed, Expired}"
    using that move.hyps(2,3) ballotsD(6)[OF move.prems move.hyps(1)]
    by (cases "pp_status p") (auto simp: carried_def)
  then show ?case using move.hyps(1) move.prems by (intro replace_inv) auto
next
  case (pass b i p t)
  then show ?case by (intro replace_inv) (auto simp: carried_def)
next
  case (veto b i p)
  have "carried (p\<lparr>pp_is_vetoed := True\<rparr>)" if "pp_status p \<in> {Passed, Executed, Expired}"
    using ballotsD(6)[OF veto.prems veto.hyps(1) that] by (simp add: carried_def)
  then show ?case using veto.hyps(1) veto.prems by (intro replace_inv) auto
qed

lemma ballot_steps_inv: "ballot_step\<^sup>*\<^sup>* b b' \<Longrightarrow> ballots_inv b \<Longrightarrow> ballots_inv b'"
  by (induction rule: rtranclp_induct) (auto intro: ballot_step_inv)

section \<open>What can become of a proposal\<close>

text \<open>\<open>leads st st'\<close>: a proposal of status \<open>st\<close> can have status \<open>st'\<close> later.\<close>

fun leads :: "proposal_status \<Rightarrow> proposal_status \<Rightarrow> bool" where
  "leads Discussion st \<longleftrightarrow> True"
| "leads Active st \<longleftrightarrow> st \<noteq> Discussion"
| "leads Passed st \<longleftrightarrow> st = Passed \<or> st = Executed \<or> st = Expired"
| "leads st st' \<longleftrightarrow> st' = st"

definition undecided :: "'v proposal \<Rightarrow> bool" where
  "undecided p \<longleftrightarrow> pp_status p = Discussion \<or> pp_status p = Active"

definition later :: "'v proposal \<Rightarrow> 'v proposal \<Rightarrow> bool" where
  "later p q \<longleftrightarrow> same_terms p q \<and> leads (pp_status p) (pp_status q)
     \<and> pp_votes_for p \<le> pp_votes_for q \<and> pp_votes_against p \<le> pp_votes_against q
     \<and> pp_votes_abstain p \<le> pp_votes_abstain q
     \<and> (\<not> undecided p \<longrightarrow> pp_votes_for q = pp_votes_for p \<and> pp_votes_against q = pp_votes_against p
          \<and> pp_votes_abstain q = pp_votes_abstain p \<and> pp_execution_time q = pp_execution_time p)
     \<and> (pp_is_vetoed p \<longrightarrow> pp_is_vetoed q \<and> (pp_status q = Executed \<longrightarrow> pp_status p = Executed))"

lemma leads_refl: "leads st st"
  by (cases st) auto

lemma leads_trans: "leads a b \<Longrightarrow> leads b c \<Longrightarrow> leads a c"
  by (cases a; cases b; cases c) auto

lemma leads_decided: "leads (pp_status p) (pp_status q) \<Longrightarrow> \<not> undecided p \<Longrightarrow> \<not> undecided q"
  by (cases "pp_status p") (auto simp: undecided_def)

lemma later_refl: "later p p"
  by (simp add: later_def same_terms_def leads_refl)

lemma later_trans: "later p q \<Longrightarrow> later q r \<Longrightarrow> later p r"
  unfolding later_def same_terms_def
  by (elim conjE) (intro conjI impI; (simp add: leads_decided)?; (erule (1) leads_trans)?; linarith?)

lemma edge_later:
  assumes "status_edge (pp_status p) st" "st = Executed \<longrightarrow> \<not> pp_is_vetoed p"
  shows "later p (p\<lparr>pp_status := st\<rparr>)"
  using assms by (cases "pp_status p") (auto simp: later_def same_terms_def)

lemma ballot_step_later:
  assumes "ballot_step b b'" "ballots_inv b" "bl_proposals b i = Some p"
  shows "\<exists>q. bl_proposals b' i = Some q \<and> later p q"
  using assms
proof (induction rule: ballot_step.induct)
  case (propose b q)
  then have "i \<noteq> bl_count b" using ballotsD(3) by blast
  then show ?case using propose.prems(2) by (simp add: later_refl)
next
  case (cast_vote b j q a w c)
  have "later q (count_vote c w q)"
    using cast_vote.hyps(2,4)
    by (cases c) (auto simp: later_def same_terms_def count_vote_def undecided_def)
  then show ?case using cast_vote.hyps(1) cast_vote.prems(2) by (auto simp: later_refl)
next
  case (move b j q st)
  then show ?case using edge_later[OF move.hyps(2,4)] by (auto simp: later_refl)
next
  case (pass b j q t)
  then have "later q (q\<lparr>pp_status := Passed, pp_execution_time := t\<rparr>)"
    by (auto simp: later_def same_terms_def undecided_def)
  then show ?case using pass.hyps(1) pass.prems(2) by (auto simp: later_refl)
next
  case (veto b j q)
  then have "later q (q\<lparr>pp_is_vetoed := True\<rparr>)"
    by (auto simp: later_def same_terms_def leads_refl)
  then show ?case using veto.hyps(1) veto.prems(2) by (auto simp: later_refl)
qed

lemma ballot_steps_later:
  assumes "ballot_step\<^sup>*\<^sup>* b b'" "ballots_inv b" "bl_proposals b i = Some p"
  shows "\<exists>q. bl_proposals b' i = Some q \<and> later p q"
  using assms(1)
proof (induction rule: rtranclp_induct)
  case base
  then show ?case using assms(3) later_refl by blast
next
  case (step b1 b2)
  then obtain q where "bl_proposals b1 i = Some q" "later p q" by blast
  then show ?case
    using ballot_step_later[OF step.hyps(2) ballot_steps_inv[OF step.hyps(1) assms(2)]] later_trans by blast
qed

text \<open>A vote once recorded is never changed.\<close>

lemma ballot_step_records:
  "ballot_step b b' \<Longrightarrow> bl_records b (i, a) = Some r \<Longrightarrow> bl_records b' (i, a) = Some r"
  by (induction rule: ballot_step.induct) auto

lemma ballot_steps_records:
  "ballot_step\<^sup>*\<^sup>* b b' \<Longrightarrow> bl_records b (i, a) = Some r \<Longrightarrow> bl_records b' (i, a) = Some r"
  by (induction rule: rtranclp_induct) (auto intro: ballot_step_records)

end
