(* ===== verification/GD_Refine.thy ===== *)
theory GD_Refine
  imports GD_System GD_Ballots
begin

text \<open>
  The storage of the DAO refines the machine of ballots: every successful call is a sequence
  of ballot steps. The rules of the DAO that the steps depend on (its quorum) are an
  invariant of their own; the delegations are the third view of the storage.
\<close>

section \<open>Views of the storage\<close>

definition ballots_of :: "('t, 'v) gd_state \<Rightarrow> 'v ballots" where
  "ballots_of s = \<lparr>bl_count = proposal_count s, bl_proposals = gd_proposals s,
     bl_records = gd_vote_records s\<rparr>"

definition rules_of :: "('t, 'v) gd_state \<Rightarrow>
  bool \<times> address option \<times> dao_config option \<times> quorum_decay_config option" where
  "rules_of s = (gd_initialized s, gd_admin s, gd_config s, gd_quorum_decay s)"

definition graph_of :: "('t, 'v) gd_state \<Rightarrow> (address \<Rightarrow> address option) \<times> (address \<Rightarrow> address list option)" where
  "graph_of s = (gd_delegate_of s, gd_delegators s)"

lemma ballots_of_fields [simp]:
  "bl_count (ballots_of s) = proposal_count s" "bl_proposals (ballots_of s) = gd_proposals s"
  "bl_records (ballots_of s) = gd_vote_records s"
  by (simp_all add: ballots_of_def)

lemma ballots_eqI:
  "proposal_count s' = proposal_count s \<Longrightarrow> gd_proposals s' = gd_proposals s \<Longrightarrow>
     gd_vote_records s' = gd_vote_records s \<Longrightarrow> ballots_of s' = ballots_of s"
  by (simp add: ballots_of_def)

lemma ballots_of_updates [simp]:
  "ballots_of (gd_initialized_update f1 s) = ballots_of s"
  "ballots_of (gd_admin_update f2 s) = ballots_of s"
  "ballots_of (gd_config_update f3 s) = ballots_of s"
  "ballots_of (gd_locked_balance_update f4 s) = ballots_of s"
  "ballots_of (gd_version_update f5 s) = ballots_of s"
  "ballots_of (gd_guardians_update f6 s) = ballots_of s"
  "ballots_of (gd_guardian_threshold_update f7 s) = ballots_of s"
  "ballots_of (gd_upgrade_pending_update f8 s) = ballots_of s"
  "ballots_of (gd_quorum_decay_update f9 s) = ballots_of s"
  "ballots_of (gd_time_weight_update f10 s) = ballots_of s"
  "ballots_of (gd_weight_checkpoint_update f11 s) = ballots_of s"
  "ballots_of (gd_participation_update f12 s) = ballots_of s"
  "ballots_of (gd_delegate_of_update f13 s) = ballots_of s"
  "ballots_of (gd_delegation_expiry_update f14 s) = ballots_of s"
  "ballots_of (gd_delegators_update f15 s) = ballots_of s"
  "ballots_of (gd_delegated_vote_update f16 s) = ballots_of s"
  "ballots_of (gd_template_update f17 s) = ballots_of s"
  "ballots_of (gd_template_list_update f18 s) = ballots_of s"
  "ballots_of (gd_risk_pool_update f19 s) = ballots_of s"
  "ballots_of (gd_execution_audit_update f20 s) = ballots_of s"
  "ballots_of (gd_comments_update f21 s) = ballots_of s"
  "ballots_of (gd_next_comment_id_update f22 s) = ballots_of s"
  "ballots_of (gd_impact_multipliers_update f23 s) = ballots_of s"
  "ballots_of (gd_active_proposal_hash_update f24 s) = ballots_of s"
  "ballots_of (gd_wasm_update f25 s) = ballots_of s"
  "ballots_of (gd_world_update f26 s) = ballots_of s"
  "ballots_of (gd_events_update f27 s) = ballots_of s"
  "ballots_of (gd_publish ev s) = ballots_of s"
  by (simp_all add: ballots_of_def proposal_count_def gd_publish_def)

lemma rules_of_updates [simp]:
  "rules_of (gd_next_proposal_id_update f1 s) = rules_of s"
  "rules_of (gd_proposals_update f2 s) = rules_of s"
  "rules_of (gd_vote_records_update f3 s) = rules_of s"
  "rules_of (gd_locked_balance_update f4 s) = rules_of s"
  "rules_of (gd_version_update f5 s) = rules_of s"
  "rules_of (gd_guardians_update f6 s) = rules_of s"
  "rules_of (gd_guardian_threshold_update f7 s) = rules_of s"
  "rules_of (gd_upgrade_pending_update f8 s) = rules_of s"
  "rules_of (gd_time_weight_update f10 s) = rules_of s"
  "rules_of (gd_weight_checkpoint_update f11 s) = rules_of s"
  "rules_of (gd_participation_update f12 s) = rules_of s"
  "rules_of (gd_delegate_of_update f13 s) = rules_of s"
  "rules_of (gd_delegation_expiry_update f14 s) = rules_of s"
  "rules_of (gd_delegators_update f15 s) = rules_of s"
  "rules_of (gd_delegated_vote_update f16 s) = rules_of s"
  "rules_of (gd_template_update f17 s) = rules_of s"
  "rules_of (gd_template_list_update f18 s) = rules_of s"
  "rules_of (gd_risk_pool_update f19 s) = rules_of s"
  "rules_of (gd_execution_audit_update f20 s) = rules_of s"
  "rules_of (gd_comments_update f21 s) = rules_of s"
  "rules_of (gd_next_comment_id_update f22 s) = rules_of s"
  "rules_of (gd_impact_multipliers_update f23 s) = rules_of s"
  "rules_of (gd_active_proposal_hash_update f24 s) = rules_of s"
  "rules_of (gd_wasm_update f25 s) = rules_of s"
  "rules_of (gd_world_update f26 s) = rules_of s"
  "rules_of (gd_events_update f27 s) = rules_of s"
  "rules_of (gd_publish ev s) = rules_of s"
  "rules_of (put_proposal i p s) = rules_of s"
  by (simp_all add: rules_of_def gd_publish_def put_proposal_def)

lemma graph_of_updates [simp]:
  "graph_of (gd_initialized_update g1 s) = graph_of s"
  "graph_of (gd_admin_update g2 s) = graph_of s"
  "graph_of (gd_config_update g3 s) = graph_of s"
  "graph_of (gd_quorum_decay_update g4 s) = graph_of s"
  "graph_of (gd_next_proposal_id_update f1 s) = graph_of s"
  "graph_of (gd_proposals_update f2 s) = graph_of s"
  "graph_of (gd_vote_records_update f3 s) = graph_of s"
  "graph_of (gd_locked_balance_update f4 s) = graph_of s"
  "graph_of (gd_version_update f5 s) = graph_of s"
  "graph_of (gd_guardians_update f6 s) = graph_of s"
  "graph_of (gd_guardian_threshold_update f7 s) = graph_of s"
  "graph_of (gd_upgrade_pending_update f8 s) = graph_of s"
  "graph_of (gd_time_weight_update f10 s) = graph_of s"
  "graph_of (gd_weight_checkpoint_update f11 s) = graph_of s"
  "graph_of (gd_participation_update f12 s) = graph_of s"
  "graph_of (gd_delegation_expiry_update f14 s) = graph_of s"
  "graph_of (gd_delegated_vote_update f16 s) = graph_of s"
  "graph_of (gd_template_update f17 s) = graph_of s"
  "graph_of (gd_template_list_update f18 s) = graph_of s"
  "graph_of (gd_risk_pool_update f19 s) = graph_of s"
  "graph_of (gd_execution_audit_update f20 s) = graph_of s"
  "graph_of (gd_comments_update f21 s) = graph_of s"
  "graph_of (gd_next_comment_id_update f22 s) = graph_of s"
  "graph_of (gd_impact_multipliers_update f23 s) = graph_of s"
  "graph_of (gd_active_proposal_hash_update f24 s) = graph_of s"
  "graph_of (gd_wasm_update f25 s) = graph_of s"
  "graph_of (gd_world_update f26 s) = graph_of s"
  "graph_of (gd_events_update f27 s) = graph_of s"
  "graph_of (gd_publish ev s) = graph_of s"
  "graph_of (put_proposal i p s) = graph_of s"
  by (simp_all add: graph_of_def gd_publish_def put_proposal_def)

section \<open>The rules\<close>

definition rules_ok :: "('t, 'v) gd_state \<Rightarrow> bool" where
  "rules_ok s \<longleftrightarrow> (\<forall>c. gd_config s = Some c \<longrightarrow>
        1000 \<le> dc_quorum_bps c \<and> dc_quorum_bps c \<le> 10000 \<and> fits_i128 (dc_total_supply c))
     \<and> 1000 \<le> qd_floor_bps (quorum_decay_config_of s)
     \<and> (\<not> gd_initialized s \<longrightarrow> gd_config s = None \<and> gd_admin s = None \<and> ballots_of s = no_ballots)"

lemma rules_okD:
  assumes "rules_ok s"
  shows "gd_config s = Some c \<Longrightarrow> 1000 \<le> dc_quorum_bps c \<and> dc_quorum_bps c \<le> 10000 \<and> fits_i128 (dc_total_supply c)"
    "1000 \<le> qd_floor_bps (quorum_decay_config_of s)"
    "gd_config s = Some c \<Longrightarrow> gd_initialized s" "gd_admin s = Some a \<Longrightarrow> gd_initialized s"
  using assms by (auto simp: rules_ok_def)

text \<open>The quorum in effect is never below a tenth of the supply.\<close>

lemma effective_quorum_bound:
  assumes "rules_ok s" "gd_config s = Some c"
  shows "1000 \<le> eq_quorum_bps (effective_quorum_of c s)"
  using rules_okD(1)[OF assms] rules_okD(2)[OF assms(1)] by (auto simp: effective_quorum_of_def Let_def)

lemma quorum_needed_bound:
  assumes "1000 \<le> q" "quorum_needed supply q \<le> n" "0 < n" "fits_i128 supply"
  shows "supply div 10 \<le> n"
proof (cases "0 \<le> supply")
  case False
  then show ?thesis using assms(3) by simp
next
  case True
  show ?thesis
  proof (cases "fits_i128 (supply * q)")
    case False
    then have "i128_max \<le> n" using assms(2)
      by (simp add: quorum_needed_def checked_mul_def checked_i128_def)
    then show ?thesis using assms(4) True by (simp add: num_defs)
  next
    case fits: True
    have "(supply * q) sdiv 10000 = supply * q div 10000"
      using True assms(1) by (intro sdiv_nonneg) auto
    moreover have "supply div 10 \<le> supply * q div 10000"
    proof -
      have "supply div 10 = supply * 1000 div 10000"
        using div_mult_mult2[of 1000 "supply" 10] by simp
      also have "\<dots> \<le> supply * q div 10000"
        using True assms(1) by (intro zdiv_mono1 mult_left_mono) auto
      finally show ?thesis .
    qed
    moreover have pos: "0 \<le> supply * q" using True assms(1) by (intro mult_nonneg_nonneg) auto
    have "0 \<le> supply * q div 10000" using zdiv_mono1[OF pos, of 10000] by simp
    moreover have "supply * q div 10000 \<le> supply * q" using zdiv_mono2[OF pos, of 1 10000] by simp
    ultimately show ?thesis using assms(2) fits True assms(1)
      by (simp add: quorum_needed_def checked_mul_def checked_div_def checked_i128_def num_defs split: if_splits)
  qed
qed

lemma decide_ok:
  assumes "decide e c eff n p = Inr p'"
  shows "p' = p\<lparr>pp_status := Failed\<rparr>
    \<or> (\<exists>t. p' = p\<lparr>pp_status := Passed, pp_execution_time := t\<rparr>)
        \<and> n \<noteq> 0 \<and> quorum_needed (pp_total_supply p) (eq_quorum_bps eff) \<le> n"
  using assms by (auto simp: decide_def result_simps split: if_splits)

section \<open>Steps of the calls\<close>

text \<open>A call that keeps the rules and the delegations and is a sequence of ballot steps.\<close>

definition gd_moves :: "('t, 'v) gd_state \<Rightarrow> ('t, 'v) gd_state \<Rightarrow> bool" where
  "gd_moves s s' \<longleftrightarrow> rules_of s' = rules_of s \<and> graph_of s' = graph_of s \<and> ballot_step\<^sup>*\<^sup>* (ballots_of s) (ballots_of s')
     \<and> (gd_initialized s \<or> ballots_of s' = ballots_of s)"

lemma moves_still: "rules_of s' = rules_of s \<Longrightarrow> graph_of s' = graph_of s \<Longrightarrow> ballots_of s' = ballots_of s \<Longrightarrow> gd_moves s s'"
  by (simp add: gd_moves_def)

lemma moves_one:
  "rules_of s' = rules_of s \<Longrightarrow> graph_of s' = graph_of s \<Longrightarrow> gd_initialized s \<Longrightarrow> ballot_step (ballots_of s) (ballots_of s') \<Longrightarrow> gd_moves s s'"
  by (auto simp: gd_moves_def)

lemma moves_trans: "gd_moves s s1 \<Longrightarrow> gd_moves s1 s2 \<Longrightarrow> gd_moves s s2"
  by (auto simp: gd_moves_def rules_of_def intro: rtranclp_trans)

lemma moves_rules:
  assumes "gd_moves s s'" "rules_ok s"
  shows "rules_ok s'"
  using assms unfolding gd_moves_def rules_ok_def rules_of_def quorum_decay_config_of_def by auto

lemma rules_ok_proposal: "rules_ok s \<Longrightarrow> gd_proposals s i = Some p \<Longrightarrow> gd_initialized s"
proof (rule ccontr)
  assume a: "rules_ok s" "gd_proposals s i = Some p" "\<not> gd_initialized s"
  then have "ballots_of s = no_ballots" by (simp add: rules_ok_def)
  then have "bl_proposals (ballots_of s) i = None" by (simp add: no_ballots_def)
  then show False using a(2) by simp
qed

lemma ballots_of_put [simp]:
  "ballots_of (put_proposal i p s) = (ballots_of s)\<lparr>bl_proposals := (gd_proposals s)(i \<mapsto> p)\<rparr>"
  by (simp add: ballots_of_def put_proposal_def proposal_count_def)

lemma helper_views [simp]:
  "ballots_of (record_participation a b s) = ballots_of s" "rules_of (record_participation a b s) = rules_of s"
  "graph_of (record_participation a b s) = graph_of s" "gd_proposals (record_participation a b s) = gd_proposals s"
  "ballots_of (announce_decay i eff s) = ballots_of s" "rules_of (announce_decay i eff s) = rules_of s"
  "graph_of (announce_decay i eff s) = graph_of s" "gd_proposals (announce_decay i eff s) = gd_proposals s"
  "gd_proposals (gd_publish ev s) = gd_proposals s"
  "ballots_of (prune_participation_history n s) = ballots_of s"
  "rules_of (prune_participation_history n s) = rules_of s"
  "graph_of (prune_participation_history n s) = graph_of s"
  by (simp_all add: record_participation_def announce_decay_def prune_participation_history_def Let_def gd_publish_def)

lemma refund_world: "refund_failed h e token p s = Inr s' \<Longrightarrow> \<exists>w. s' = s\<lparr>gd_world := w\<rparr>"
proof -
  assume "refund_failed h e token p s = Inr s'"
  then have "s' = s\<lparr>gd_world := gd_world s\<rparr> \<or> (\<exists>w. s' = s\<lparr>gd_world := w\<rparr>)"
    by (auto simp: refund_failed_def gd_transfer_ok split: if_splits)
  then show ?thesis by blast
qed

lemma refund_executed_world: "refund_executed h e p n s = Inr s' \<Longrightarrow> \<exists>w. s' = s\<lparr>gd_world := w\<rparr>"
proof -
  assume "refund_executed h e p n s = Inr s'"
  then have "s' = s\<lparr>gd_world := gd_world s\<rparr> \<or> (\<exists>w. s' = s\<lparr>gd_world := w\<rparr>)"
    by (auto simp: refund_executed_def result_simps split: if_splits)
  then show ?thesis by blast
qed

text \<open>A change of the status of one proposal along an edge.\<close>

lemma moves_status:
  assumes "rules_ok s" "gd_proposals s i = Some p" "status_edge (pp_status p) st" "st \<noteq> Passed"
    and "st = Executed \<longrightarrow> \<not> pp_is_vetoed p"
    and "ballots_of s' = ballots_of (put_proposal i (p\<lparr>pp_status := st\<rparr>) s)" "rules_of s' = rules_of s"
    and "graph_of s' = graph_of s"
  shows "gd_moves s s'"
  using ballot_step.move[of "ballots_of s" i p st] assms rules_ok_proposal[OF assms(1,2)]
  by (intro moves_one) simp_all

lemma votes_nonneg:
  assumes "ballots_inv (ballots_of s)" "gd_proposals s i = Some p"
  shows "0 \<le> pp_votes_for p" "0 \<le> pp_votes_against p" "0 \<le> pp_votes_abstain p"
  using ballotsD(5)[OF assms(1), of i p] assms(2) tally_nonneg[OF assms(1)] by (simp_all add: tallied_def)

text \<open>The settlement of a vote.\<close>

lemma settle_moves:
  assumes "decide e c (effective_quorum_of c s) (pp_votes_for p + pp_votes_against p) p = Inr p'"
    and "rules_ok s" "ballots_inv (ballots_of s)" "gd_proposals s i = Some p" "pp_status p = Active"
    and "gd_config s = Some c"
    and "ballots_of s' = ballots_of (put_proposal i p' s)" "rules_of s' = rules_of s"
    and "graph_of s' = graph_of s"
  shows "gd_moves s s'"
proof -
  let ?n = "pp_votes_for p + pp_votes_against p"
  from decide_ok[OF assms(1)] show ?thesis
  proof (elim disjE exE conjE)
    assume "p' = p\<lparr>pp_status := Failed\<rparr>"
    then show ?thesis using assms by (intro moves_status[of s i p Failed]) auto
  next
    fix t
    assume p': "p' = p\<lparr>pp_status := Passed, pp_execution_time := t\<rparr>"
      and n: "?n \<noteq> 0" "quorum_needed (pp_total_supply p) (eq_quorum_bps (effective_quorum_of c s)) \<le> ?n"
    note q = effective_quorum_bound[OF assms(2,6)]
    have pos: "0 < ?n" using votes_nonneg[OF assms(3,4)] n(1) by linarith
    have "fits_i128 (pp_total_supply p)" using ballotsD(4)[OF assms(3), of i p] assms(4) by simp
    then have "carried p"
      using quorum_needed_bound[OF q n(2) pos] pos by (simp add: carried_def)
    then have "ballot_step (ballots_of s) (ballots_of s')"
      using ballot_step.pass[of "ballots_of s" i p t] assms(4,5,7) p' by simp
    then show ?thesis using assms(8,9) rules_ok_proposal[OF assms(2,4)] by (intro moves_one)
  qed
qed

end
