(* ===== verification/GD_Steps.thy ===== *)
theory GD_Steps
  imports GD_Refine
begin

text \<open>Every successful call of the DAO keeps its rules and is a sequence of ballot steps.\<close>

lemmas gd_ok = bindR_eq_Inr if_Inl_eq_Inr gd_guards_ok gd_transfer_ok clear_proposal_hash_ok
  or_trap_eq_Inr or_panic_eq_Inr u64_eq_Inr i128_eq_Inr checked_u64_eq_Some

section \<open>Votes\<close>

lemma add_vote_count: "add_vote c w p = Inr p' \<Longrightarrow> p' = count_vote c w p"
  by (cases c) (auto simp: add_vote_def count_vote_def gd_ok)

lemma open_for_votes_ok: "open_for_votes e p = Inr u \<longleftrightarrow> pp_status p = Active \<and> timestamp e \<le> pp_vote_end p"
  by (auto simp: open_for_votes_def)

lemma collect_from_frame:
  "collect_from h e v i token acc as s = Inr (n, s') \<Longrightarrow>
     \<exists>marks evs. s' = s\<lparr>gd_delegated_vote := marks, gd_events := evs\<rparr>"
proof (induction as arbitrary: acc s)
  case Nil
  then show ?case by (intro exI[of _ "gd_delegated_vote s"] exI[of _ "gd_events s"]) simp
next
  case (Cons a as)
  then obtain bal where bal: "gd_balance h token a s = Inr bal"
    by (auto simp: bindR_eq_Inr)
  show ?case
  proof (cases "bal \<le> 0 \<or> (i, a) \<in> gd_delegated_vote s")
    case True
    then show ?thesis using Cons bal by auto
  next
    case False
    then obtain c where "collect_from h e v i token (sat_i128 (acc + c)) as
        (gd_publish (GvDelegationUsed i v a c) (s\<lparr>gd_delegated_vote := insert (i, a) (gd_delegated_vote s)\<rparr>)) = Inr (n, s')"
      using Cons.prems bal by (auto simp: bindR_eq_Inr split: if_splits)
    from Cons.IH[OF this] show ?thesis by (auto simp: gd_publish_def)
  qed
qed

lemma collect_frame:
  "collect_delegated_weight h e v i token s = Inr (n, s') \<Longrightarrow>
     \<exists>marks evs. s' = s\<lparr>gd_delegated_vote := marks, gd_events := evs\<rparr>"
  unfolding collect_delegated_weight_def by (rule collect_from_frame)

lemma store_vote_views [simp]:
  "rules_of (store_vote i a c w n p s) = rules_of s" "graph_of (store_vote i a c w n p s) = graph_of s"
  "ballots_of (store_vote i a c w n p s) = (ballots_of s)\<lparr>bl_proposals := (gd_proposals s)(i \<mapsto> p),
     bl_records := (gd_vote_records s)((i, a) \<mapsto> \<lparr>vr_voter = a, vr_choice = c, vr_weight = w\<rparr>)\<rparr>"
  by (simp_all add: store_vote_def graph_of_def rules_of_def ballots_of_def put_proposal_def gd_publish_def proposal_count_def)

lemma cast_moves:
  assumes "rules_ok s" "gd_proposals s i = Some p" "pp_status p = Active" "gd_vote_records s (i, a) = None" "0 < w"
    and "ballots_of s0 = ballots_of s" "rules_of s0 = rules_of s" "graph_of s0 = graph_of s"
  shows "gd_moves s (store_vote i a c w n (count_vote c w p) s0)"
proof (rule moves_one)
  have b: "gd_proposals s0 = gd_proposals s" "gd_vote_records s0 = gd_vote_records s"
    using assms(6) by (simp_all add: ballots_of_def)
  show "ballot_step (ballots_of s) (ballots_of (store_vote i a c w n (count_vote c w p) s0))"
    using cast_vote[of "ballots_of s" i p a w c] assms b by simp
qed (use assms rules_ok_proposal in auto)

lemma vote_moves:
  assumes "vote h e a i c s = Inr s'" "rules_ok s"
  shows "gd_moves s s'"
proof -
  from assms(1) have "\<exists>p config own tally delegated s1 w p'. gd_proposals s i = Some p \<and> pp_status p = Active
     \<and> gd_vote_records s (i, a) = None
     \<and> collect_delegated_weight h e a i (dc_gov_token config) s = Inr (delegated, s1)
     \<and> 0 < sat_i128 (tally + delegated) \<and> add_vote c (sat_i128 (tally + delegated)) p = Inr p'
     \<and> s' = store_vote i a c (sat_i128 (tally + delegated)) (cap_weight config own) p' (s1\<lparr>gd_world := w\<rparr>)"
    by (clarsimp simp: vote_def gd_ok open_for_votes_ok Let_def not_le split: prod.splits) blast
  then obtain p config own tally delegated s1 w p' where v:
    "gd_proposals s i = Some p" "pp_status p = Active" "gd_vote_records s (i, a) = None"
    "collect_delegated_weight h e a i (dc_gov_token config) s = Inr (delegated, s1)"
    "0 < sat_i128 (tally + delegated)" "add_vote c (sat_i128 (tally + delegated)) p = Inr p'"
    "s' = store_vote i a c (sat_i128 (tally + delegated)) (cap_weight config own) p' (s1\<lparr>gd_world := w\<rparr>)"
    by blast
  obtain marks evs where "s1 = s\<lparr>gd_delegated_vote := marks, gd_events := evs\<rparr>"
    using collect_frame[OF v(4)] by blast
  then show ?thesis
    unfolding v(7) add_vote_count[OF v(6)]
    by (intro cast_moves[OF assms(2) v(1-3,5)]) simp_all
qed

lemma batch_proposals_ok:
  "batch_proposals e a is s = Inr ps \<Longrightarrow> map fst ps = is \<and> (\<forall>(i, p) \<in> set ps.
     gd_proposals s i = Some p \<and> pp_status p = Active \<and> gd_vote_records s (i, a) = None)"
  by (induction "is" arbitrary: ps) (auto simp: gd_ok open_for_votes_ok)

lemma tally_batch_moves:
  assumes "tally_batch h e a c token own n ps s = Inr s'" "rules_ok s" "distinct (map fst ps)"
    and "\<forall>(i, p) \<in> set ps. gd_proposals s i = Some p \<and> pp_status p = Active \<and> gd_vote_records s (i, a) = None"
  shows "gd_moves s s'"
  using assms
proof (induction ps arbitrary: s n)
  case Nil
  then show ?case by (simp add: moves_still)
next
  case (Cons x ps)
  obtain i p where x: "x = (i, p)" by (cases x)
  from Cons.prems(1) obtain delegated s1 p' where v:
    "collect_delegated_weight h e a i token s = Inr (delegated, s1)" "0 < sat_i128 (own + delegated)"
    "add_vote c (sat_i128 (own + delegated)) p = Inr p'"
    "tally_batch h e a c token own 0 ps (store_vote i a c (sat_i128 (own + delegated)) n p' s1) = Inr s'"
    by (auto simp: x gd_ok Let_def split: prod.splits)
  let ?s = "store_vote i a c (sat_i128 (own + delegated)) n p' s1"
  obtain marks evs where s1: "s1 = s\<lparr>gd_delegated_vote := marks, gd_events := evs\<rparr>"
    using collect_frame[OF v(1)] by blast
  have p: "gd_proposals s i = Some p" "pp_status p = Active" "gd_vote_records s (i, a) = None"
    using Cons.prems(4) by (auto simp: x)
  have first: "gd_moves s ?s"
    unfolding add_vote_count[OF v(3)]
    by (rule cast_moves[OF Cons.prems(2) p v(2)]) (simp_all add: s1)
  have "\<forall>(j, q) \<in> set ps. gd_proposals ?s j = Some q \<and> pp_status q = Active \<and> gd_vote_records ?s (j, a) = None"
    using Cons.prems(3,4)
    by (auto simp: x s1 store_vote_def put_proposal_def gd_publish_def image_iff split: prod.splits)
  then have "gd_moves ?s s'"
    using Cons.IH[OF v(4) moves_rules[OF first Cons.prems(2)]] Cons.prems(3) by simp
  then show ?case using first moves_trans by blast
qed

lemma vote_batch_moves:
  assumes "vote_batch h e a is c s = Inr s'" "rules_ok s"
  shows "gd_moves s s'"
proof -
  from assms(1) obtain config ps own tally w where v: "distinct is" "batch_proposals e a is s = Inr ps"
    "tally_batch h e a c (dc_gov_token config) tally (cap_weight config own) ps (s\<lparr>gd_world := w\<rparr>) = Inr s'"
    by (auto simp: vote_batch_def gd_ok Let_def)
  have still: "gd_moves s (s\<lparr>gd_world := w\<rparr>)" by (simp add: moves_still)
  note ps = batch_proposals_ok[OF v(2)]
  have "gd_moves (s\<lparr>gd_world := w\<rparr>) s'"
    by (rule tally_batch_moves[OF v(3) moves_rules[OF still assms(2)]]) (use ps v(1) in auto)
  then show ?thesis using still moves_trans by blast
qed

lemma voting_idle:
  "checkpoint_voting_power h e a s = Inr s' \<Longrightarrow> gd_moves s s'"
  "withdraw_tokens h e a i s = Inr s' \<Longrightarrow> gd_moves s s'"
  by (auto simp: checkpoint_voting_power_def withdraw_tokens_def gd_ok Let_def intro!: moves_still split: if_splits)

text \<open>The calls that change the delegations, and nothing of the ballots or the rules.\<close>

fun is_delegation :: "voting_call \<Rightarrow> bool" where
  "is_delegation (Delegate a b) \<longleftrightarrow> True"
| "is_delegation (DelegateWithExpiry a b n) \<longleftrightarrow> True"
| "is_delegation (RevokeDelegation a) \<longleftrightarrow> True"
| "is_delegation _ \<longleftrightarrow> False"

lemma delegation_idle:
  assumes "voting_dispatch h e c s = Inr s'" "is_delegation c"
  shows "rules_of s' = rules_of s \<and> ballots_of s' = ballots_of s"
proof -
  have d: "delegate h e a b s = Inr s' \<Longrightarrow> rules_of s' = rules_of s \<and> ballots_of s' = ballots_of s" for a b s'
    by (auto simp: delegate_def gd_ok remove_delegator_def Let_def split: option.splits if_splits)
  have "delegate_with_expiry h e a b n s = Inr s' \<Longrightarrow> rules_of s' = rules_of s \<and> ballots_of s' = ballots_of s" for a b n
    by (auto simp: delegate_with_expiry_def gd_ok dest!: d)
  moreover have "revoke_delegation e a s = Inr s' \<Longrightarrow> rules_of s' = rules_of s \<and> ballots_of s' = ballots_of s" for a
    by (auto simp: revoke_delegation_def gd_ok remove_delegator_def Let_def)
  ultimately show ?thesis using assms d by (cases c) auto
qed

lemma voting_moves:
  "voting_dispatch h e c s = Inr s' \<Longrightarrow> \<not> is_delegation c \<Longrightarrow> rules_ok s \<Longrightarrow> gd_moves s s'"
  by (cases c) (auto intro: moves_still dest: voting_idle vote_moves vote_batch_moves)

section \<open>Proposals\<close>

lemma submit_moves:
  assumes "submit_proposal h e proposer title target func args kind impact hash s = Inr (i, s')" "rules_ok s"
  shows "gd_moves s s'"
proof -
  let ?i = "proposal_count s"
  from assms(1) obtain config deposit w where v: "gd_config s = Some config"
    "s' = gd_publish (GvProposalCreated ?i proposer target func)
       (put_proposal ?i (new_proposal e ?i proposer title target func args deposit kind impact config) s
        \<lparr>gd_next_proposal_id := Some (?i + 1),
         gd_active_proposal_hash := (gd_active_proposal_hash s)(hash \<mapsto> ?i), gd_world := w\<rparr>)"
    by (auto simp: submit_proposal_def gd_ok Let_def proposal_count_def put_proposal_def)
  let ?p = "new_proposal e ?i proposer title target func args deposit kind impact config"
  have "newborn ?i ?p"
    using rules_okD(1)[OF assms(2) v(1)]
    by (auto simp: newborn_def new_proposal_def Let_def split: prod.splits if_splits)
  then have "ballot_step (ballots_of s) (ballots_of s')"
    using ballot_step.propose[of "ballots_of s" ?p] unfolding v(2)
    by (simp add: ballots_of_def put_proposal_def proposal_count_def gd_publish_def)
  then show ?thesis
    using rules_okD(3)[OF assms(2) v(1)] by (intro moves_one) (simp_all add: v(2))
qed

lemma create_moves:
  assumes "create_proposal h fr e a t g f xs im s = Inr (i, s')" "rules_ok s"
  shows "gd_moves s s'"
  using assms submit_moves by (auto simp: create_proposal_def gd_ok split: if_splits)

lemma propose_upgrade_moves:
  assumes "propose_upgrade h fr e a t g wh im s = Inr (i, s')" "rules_ok s"
  shows "gd_moves s s'"
  using assms submit_moves by (auto simp: propose_upgrade_def gd_ok Let_def split: if_splits)

lemma from_template_moves:
  assumes "create_proposal_from_template h fr e a n t g f xs im s = Inr (i, s')" "rules_ok s"
  shows "gd_moves s s'"
proof -
  obtain s1 where "create_proposal h fr e a t g f xs im s = Inr (i, s1)"
    "s' = gd_publish (GvProposalCreatedFromTemplate i n) s1"
    using assms(1) by (auto simp: create_proposal_from_template_def gd_ok split: if_splits)
  then show ?thesis
    by (intro moves_trans[OF create_moves[OF _ assms(2)] moves_still[of s' s1]]) simp_all
qed

lemma start_voting_moves:
  assumes "start_voting e i s = Inr s'" "rules_ok s"
  shows "gd_moves s s'"
proof -
  obtain p where p: "gd_proposals s i = Some p" "pp_status p = Discussion"
    "s' = gd_publish (GvDiscussionPeriodEnded i) (put_proposal i (p\<lparr>pp_status := Active\<rparr>) s)"
    using assms(1) by (auto simp: start_voting_def gd_ok split: if_splits)
  then show ?thesis by (intro moves_status[OF assms(2) p(1)]) auto
qed

lemma finalize_moves:
  assumes "finalize h fr e i s = Inr s'" "rules_ok s" "ballots_inv (ballots_of s)"
  shows "gd_moves s s'"
proof -
  from assms(1) obtain p config n p' s2 hash where v: "gd_proposals s i = Some p" "pp_status p = Active"
    "gd_config s = Some config"
    "decide e config (effective_quorum_of config s) (pp_votes_for p + pp_votes_against p) p = Inr p'"
    "refund_failed h e (dc_gov_token config) p' (record_participation n (pp_total_supply p)
       (announce_decay i (effective_quorum_of config s) s)) = Inr s2"
    "s' = gd_publish (GvProposalFinalized i (pp_status p')) (put_proposal i p' s2
       \<lparr>gd_active_proposal_hash := (gd_active_proposal_hash (put_proposal i p' s2))(hash := None)\<rparr>)"
    by (auto simp: finalize_def gd_ok Let_def)
  obtain w where s2: "s2 = record_participation n (pp_total_supply p)
       (announce_decay i (effective_quorum_of config s) s)\<lparr>gd_world := w\<rparr>"
    using refund_world[OF v(5)] by blast
  show ?thesis
    by (rule settle_moves[OF v(4) assms(2,3) v(1,2,3)]) (simp_all add: v(6) s2)
qed

lemma finalize_each_moves:
  assumes "finalize_each h fr e config is s = Inr s'" "rules_ok s" "ballots_inv (ballots_of s)"
    and "gd_config s = Some config"
  shows "gd_moves s s'"
  using assms
proof (induction "is" arbitrary: s)
  case Nil
  then show ?case by (simp add: moves_still)
next
  case (Cons i "is")
  from Cons.prems(1) obtain p n p' s2 hash where v: "gd_proposals s i = Some p" "pp_status p = Active"
    "decide e config (effective_quorum_of config s) (pp_votes_for p + pp_votes_against p) p = Inr p'"
    "refund_failed h e (dc_gov_token config) p' (record_participation n (pp_total_supply p)
       (announce_decay i (effective_quorum_of config s) s)) = Inr s2"
    "finalize_each h fr e config is (gd_publish (GvProposalFinalized i (pp_status p')) (put_proposal i p' s2
       \<lparr>gd_active_proposal_hash := (gd_active_proposal_hash (put_proposal i p' s2))(hash := None)\<rparr>)) = Inr s'"
    by (auto simp: gd_ok Let_def)
  let ?s = "gd_publish (GvProposalFinalized i (pp_status p')) (put_proposal i p' s2
       \<lparr>gd_active_proposal_hash := (gd_active_proposal_hash (put_proposal i p' s2))(hash := None)\<rparr>)"
  obtain w where s2: "s2 = record_participation n (pp_total_supply p)
       (announce_decay i (effective_quorum_of config s) s)\<lparr>gd_world := w\<rparr>"
    using refund_world[OF v(4)] by blast
  have first: "gd_moves s ?s"
    by (rule settle_moves[OF v(3) Cons.prems(2,3) v(1,2) Cons.prems(4)]) (simp_all add: s2)
  have "gd_config ?s = Some config"
    using first Cons.prems(4) by (simp add: gd_moves_def rules_of_def)
  then have "gd_moves ?s s'"
    using Cons.IH[OF v(5) moves_rules[OF first Cons.prems(2)]] first Cons.prems(3) ballot_steps_inv
    by (auto simp: gd_moves_def)
  then show ?case using first moves_trans by blast
qed

lemma finalize_batch_moves:
  assumes "finalize_batch h fr e is s = Inr s'" "rules_ok s" "ballots_inv (ballots_of s)"
  shows "gd_moves s s'"
  using assms finalize_each_moves by (auto simp: finalize_batch_def gd_ok split: if_splits)

lemma reclaim_moves:
  assumes "reclaim_deposit h fr e i s = Inr s'" "rules_ok s"
  shows "gd_moves s s'"
proof -
  from assms(1) obtain p n config w hash where v: "gd_proposals s i = Some p" "pp_status p = Active"
    "s' = gd_publish (GvDepositReclaimed i (pp_proposer p) (pp_deposit p))
      (put_proposal i (p\<lparr>pp_status := Failed\<rparr>) (record_participation n (pp_total_supply p) s\<lparr>gd_world := w\<rparr>)
       \<lparr>gd_active_proposal_hash := hash\<rparr>)"
    by (auto simp: reclaim_deposit_def gd_ok Let_def)
  then show ?thesis by (intro moves_status[OF assms(2) v(1), of Failed]) auto
qed

lemma invoke_world: "invoke_target h e p s = Inr (bps, s') \<Longrightarrow> \<exists>w. s' = s\<lparr>gd_world := w\<rparr>"
  by (auto simp: invoke_target_def gd_ok split: if_splits option.splits)

lemma may_execute_ok:
  "may_execute e p = Inr u \<longleftrightarrow> pp_status p = Passed \<and> \<not> pp_is_vetoed p \<and> pp_execution_time p \<le> timestamp e"
  by (auto simp: may_execute_def)

lemma execute_cases:
  assumes "execute h fr e i s = Inr s'"
  obtains (expired) p hash where "gd_proposals s i = Some p" "pp_status p = Passed" "\<not> pp_is_vetoed p"
      "pp_execution_time p \<le> timestamp e" "pp_execution_deadline p < timestamp e"
      "s' = gd_publish (GvProposalExpired i) (put_proposal i (p\<lparr>pp_status := Expired\<rparr>) s\<lparr>gd_active_proposal_hash := hash\<rparr>)"
  | (executed) p bps s1 refund s2 audit where "gd_proposals s i = Some p" "pp_status p = Passed" "\<not> pp_is_vetoed p"
      "pp_execution_time p \<le> timestamp e" "timestamp e \<le> pp_execution_deadline p"
      "invoke_target h e p s = Inr (bps, s1)" "refund_amount (pp_deposit p) bps = Inr refund"
      "refund_executed h e p refund s1 = Inr s2"
      "s' = gd_publish (GvProposalExecuted i (pp_proposer p) (pp_target p) (pp_function p) (timestamp e))
         (put_proposal i (p\<lparr>pp_status := Executed\<rparr>)
           (gd_publish (GvProposalDepositRefunded i (pp_proposer p) (pp_deposit p) bps refund
              (pp_deposit p - refund)) s2)\<lparr>gd_execution_audit := audit\<rparr>)"
proof -
  obtain p where p: "gd_proposals s i = Some p" "pp_status p = Passed" "\<not> pp_is_vetoed p"
    "pp_execution_time p \<le> timestamp e"
    using assms by (auto simp: execute_def gd_ok may_execute_ok)
  show thesis
  proof (cases "pp_execution_deadline p < timestamp e")
    case True
    then show thesis
      using assms p expired[OF p] by (auto simp: execute_def gd_ok may_execute_ok Let_def)
  next
    case False
    then have "\<exists>bps s1 refund s2 audit. invoke_target h e p s = Inr (bps, s1)
       \<and> refund_amount (pp_deposit p) bps = Inr refund \<and> refund_executed h e p refund s1 = Inr s2
       \<and> s' = gd_publish (GvProposalExecuted i (pp_proposer p) (pp_target p) (pp_function p) (timestamp e))
         (put_proposal i (p\<lparr>pp_status := Executed\<rparr>)
           (gd_publish (GvProposalDepositRefunded i (pp_proposer p) (pp_deposit p) bps refund
              (pp_deposit p - refund)) s2)\<lparr>gd_execution_audit := audit\<rparr>)"
      using assms p by (clarsimp simp: execute_def gd_ok may_execute_ok Let_def) blast
    then show thesis using executed[OF p] False by auto
  qed
qed

lemma execute_moves:
  assumes "execute h fr e i s = Inr s'" "rules_ok s"
  shows "gd_moves s s'"
  using assms(1)
proof (cases rule: execute_cases)
  case (expired p hash)
  then show ?thesis by (intro moves_status[OF assms(2) expired(1), of Expired]) auto
next
  case (executed p bps s1 refund s2 audit)
  obtain w w' where "s2 = s\<lparr>gd_world := w\<rparr>\<lparr>gd_world := w'\<rparr>"
    using invoke_world[OF executed(6)] refund_executed_world[OF executed(8)] by blast
  then show ?thesis
    using executed by (intro moves_status[OF assms(2) executed(1), of Executed]) auto
qed

lemma cancel_moves:
  assumes "cancel h fr e a i s = Inr s'" "rules_ok s"
  shows "gd_moves s s'"
proof -
  from assms(1) obtain p w hash where v: "gd_proposals s i = Some p" "pp_status p = Active \<or> pp_status p = Discussion"
    "s' = gd_publish (GvProposalCancelled i) (put_proposal i (p\<lparr>pp_status := Cancelled\<rparr>) s
       \<lparr>gd_world := w, gd_active_proposal_hash := hash\<rparr>)"
    by (auto simp: cancel_def gd_ok Let_def)
  then show ?thesis by (intro moves_status[OF assms(2) v(1), of Cancelled]) auto
qed

lemma veto_moves:
  assumes "veto_proposal e g i r s = Inr s'" "rules_ok s"
  shows "gd_moves s s'"
proof -
  from assms(1) obtain p where v: "gd_proposals s i = Some p" "pp_status p \<noteq> Executed"
    "s' = gd_publish (GvProposalVetoed i g r) (put_proposal i (p\<lparr>pp_is_vetoed := True\<rparr>) s)"
    by (auto simp: veto_proposal_def gd_ok split: if_splits)
  then show ?thesis
    using ballot_step.veto[of "ballots_of s" i p] rules_ok_proposal[OF assms(2) v(1)]
    by (intro moves_one) auto
qed

lemma comment_idle:
  "add_comment e a i t r s = Inr (n, s') \<Longrightarrow> gd_moves s s'"
  "delete_comment e a n s = Inr s' \<Longrightarrow> gd_moves s s'"
  by (auto simp: add_comment_def delete_comment_def gd_ok Let_def intro!: moves_still split: if_splits)

lemma proposal_moves:
  "proposal_dispatch h fr e c s = Inr s' \<Longrightarrow> rules_ok s \<Longrightarrow> ballots_inv (ballots_of s) \<Longrightarrow> gd_moves s s'"
  by (cases c)
    (auto simp: no_result_ok execute_proposal_def intro: moves_still
      dest: comment_idle create_moves propose_upgrade_moves from_template_moves start_voting_moves
        finalize_moves finalize_batch_moves reclaim_moves execute_moves cancel_moves veto_moves)

end
