(* ===== verification/GD_Invariants.thy ===== *)
theory GD_Invariants
  imports GD_Steps
begin

text \<open>
  The invariant of the DAO: its rules, its ballots, and the graph of delegations. Every call
  keeps it; this is the interpretation of \<open>invariant_system\<close>.
\<close>

section \<open>Settings\<close>

lemma rules_okI:
  assumes "rules_ok s" "ballots_of s' = ballots_of s" "gd_initialized s' = gd_initialized s"
    and "gd_admin s' = gd_admin s" "gd_quorum_decay s' = gd_quorum_decay s"
    and "gd_config s' = gd_config s \<or> gd_initialized s \<and>
      (\<exists>c. gd_config s' = Some c \<and> 1000 \<le> dc_quorum_bps c \<and> dc_quorum_bps c \<le> 10000 \<and> fits_i128 (dc_total_supply c))"
  shows "rules_ok s'"
  using assms unfolding rules_ok_def quorum_decay_config_of_def by auto

lemma check_config_ok:
  "check_config c = Inr u \<longleftrightarrow> MIN_VOTING_PERIOD \<le> dc_voting_period c \<and> dc_voting_period c \<le> MAX_VOTING_PERIOD
     \<and> 1000 \<le> dc_quorum_bps c \<and> dc_quorum_bps c \<le> 10000"
  by (auto simp: check_config_def MIN_QUORUM_BPS_def MAX_QUORUM_BPS_def)

lemma initialize_rules:
  assumes "gd_initialize e a c s = Inr s'" "dao_config_typed c" "rules_ok s"
  shows "rules_ok s' \<and> ballots_of s' = ballots_of s \<and> graph_of s' = graph_of s"
proof -
  have s: "\<not> gd_initialized s" "1000 \<le> dc_quorum_bps c" "dc_quorum_bps c \<le> 10000"
    "s' = gd_publish (GvInitialized a (dc_gov_token c))
       (s\<lparr>gd_initialized := True, gd_admin := Some a, gd_config := Some c, gd_next_proposal_id := Some 0\<rparr>)"
    using assms(1) by (auto simp: gd_initialize_def gd_ok check_config_ok split: if_splits)
  have none: "ballots_of s = no_ballots" using assms(3) s(1) by (simp add: rules_ok_def)
  then have "ballots_of s' = ballots_of s"
    by (simp add: s(4) ballots_of_def no_ballots_def proposal_count_def gd_publish_def)
  moreover have "rules_ok s'"
    using assms(2,3) s by (auto simp: rules_ok_def dao_config_typed_def quorum_decay_config_of_def gd_publish_def)
  ultimately show ?thesis by (simp add: s(4))
qed

lemma quorum_decay_rules:
  assumes "set_quorum_decay e a b x y z s = Inr s'" "rules_ok s"
  shows "rules_ok s' \<and> ballots_of s' = ballots_of s \<and> graph_of s' = graph_of s"
proof -
  have s': "s' = gd_publish (GvQuorumDecayUpdated b (max x MIN_QUORUM_BPS) y z) (s\<lparr>gd_quorum_decay :=
      Some \<lparr>qd_enabled = b, qd_floor_bps = max x MIN_QUORUM_BPS, qd_decay_per_period_bps = y, qd_window = z\<rparr>\<rparr>)"
    using assms(1) by (auto simp: set_quorum_decay_def gd_ok Let_def)
  have views: "ballots_of s' = ballots_of s" "graph_of s' = graph_of s" by (simp_all add: s')
  have "gd_config s' = gd_config s" "gd_admin s' = gd_admin s" "gd_initialized s' = gd_initialized s"
    "qd_floor_bps (quorum_decay_config_of s') = max x 1000"
    by (simp_all add: s' gd_publish_def quorum_decay_config_of_def MIN_QUORUM_BPS_def)
  then show ?thesis using assms(2) views by (simp add: rules_ok_def)
qed

lemma setting_idle:
  "set_impact_multipliers e a x y z s = Inr s' \<Longrightarrow> gd_moves s s'"
  "set_risk_pool e a b s = Inr s' \<Longrightarrow> gd_moves s s'"
  "set_time_weight e a f x y s = Inr s' \<Longrightarrow> gd_moves s s'"
  "register_template e a n d x y s = Inr s' \<Longrightarrow> gd_moves s s'"
  "deactivate_template e a n s = Inr s' \<Longrightarrow> gd_moves s s'"
  "gd_upgrade e a wh x s = Inr s' \<Longrightarrow> gd_moves s s'"
  "gd_set_guardians e a gs x s = Inr s' \<Longrightarrow> gd_moves s s'"
  "gd_approve_upgrade e a wh s = Inr s' \<Longrightarrow> gd_moves s s'"
  "gd_cancel_pending_upgrade e a s = Inr s' \<Longrightarrow> gd_moves s s'"
  by (auto simp: set_impact_multipliers_def gd_ok intro!: moves_still)
     (auto simp: set_risk_pool_def gd_ok intro!: moves_still,
      auto simp: set_time_weight_def gd_ok intro!: moves_still,
      auto simp: register_template_def gd_ok Let_def intro!: moves_still split: if_splits,
      auto simp: deactivate_template_def gd_ok intro!: moves_still,
      auto simp: gd_upgrade_def gd_ok Let_def intro!: moves_still split: if_splits,
      auto simp: gd_set_guardians_def gd_ok intro!: moves_still,
      auto simp: gd_approve_upgrade_def gd_ok Let_def intro!: moves_still split: if_splits,
      auto simp: gd_cancel_pending_upgrade_def gd_ok intro!: moves_still)

lemma config_rules:
  "update_config e a cf s = Inr s' \<Longrightarrow> dao_config_typed cf \<Longrightarrow> rules_ok s \<Longrightarrow>
     rules_ok s' \<and> ballots_of s' = ballots_of s \<and> graph_of s' = graph_of s"
  "set_proposal_threshold e a n s = Inr s' \<Longrightarrow> rules_ok s \<Longrightarrow>
     rules_ok s' \<and> ballots_of s' = ballots_of s \<and> graph_of s' = graph_of s"
proof -
  assume u: "update_config e a cf s = Inr s'" "dao_config_typed cf" "rules_ok s"
  then have "s' = gd_publish (config_updated cf) (s\<lparr>gd_config := Some cf\<rparr>)" "gd_initialized s"
    "1000 \<le> dc_quorum_bps cf" "dc_quorum_bps cf \<le> 10000"
    using rules_okD(4)[OF u(3)] by (auto simp: update_config_def gd_ok check_config_ok)
  then show "rules_ok s' \<and> ballots_of s' = ballots_of s \<and> graph_of s' = graph_of s"
    using u(2,3) rules_okI[OF u(3), of s'] by (simp add: dao_config_typed_def gd_publish_def)
next
  assume u: "set_proposal_threshold e a n s = Inr s'" "rules_ok s"
  then obtain cf where "gd_config s = Some cf"
    "s' = gd_publish (config_updated (cf\<lparr>dc_proposal_threshold := n\<rparr>)) (s\<lparr>gd_config := Some (cf\<lparr>dc_proposal_threshold := n\<rparr>)\<rparr>)"
    by (auto simp: set_proposal_threshold_def gd_ok Let_def)
  then show "rules_ok s' \<and> ballots_of s' = ballots_of s \<and> graph_of s' = graph_of s"
    using rules_okD(1,3)[OF u(2)] rules_okI[OF u(2), of s'] by (simp add: gd_publish_def)
qed

lemma setting_rules:
  assumes "dao_setting_dispatch e c s = Inr s'" "dao_setting_typed c" "rules_ok s"
  shows "rules_ok s' \<and> ballot_step\<^sup>*\<^sup>* (ballots_of s) (ballots_of s') \<and> graph_of s' = graph_of s"
proof -
  have "gd_moves s s' \<or> (rules_ok s' \<and> ballots_of s' = ballots_of s \<and> graph_of s' = graph_of s)"
  proof (cases c)
    case (GdInitialize a cf)
    then show ?thesis using assms initialize_rules[of e a cf s s'] by simp
  next
    case (SetQuorumDecay a b x y z)
    then show ?thesis using assms quorum_decay_rules[of e a b x y z s s'] by simp
  next
    case (UpdateConfig a cf)
    then show ?thesis using assms config_rules(1)[of e a cf s s'] by simp
  next
    case (SetProposalThreshold a n)
    then show ?thesis using assms config_rules(2)[of e a n s s'] by simp
  qed (use assms(1) in \<open>auto dest: setting_idle\<close>)
  then show ?thesis using moves_rules assms(3) by (auto simp: gd_moves_def)
qed

section \<open>The graph of delegations\<close>

text \<open>
  Nobody delegates to somebody who delegates, and the list of a delegate has exactly its
  delegators, each once, at most 50.
\<close>

definition graph_ok :: "(address \<Rightarrow> address option) \<times> (address \<Rightarrow> address list option) \<Rightarrow> bool" where
  "graph_ok g \<longleftrightarrow> (\<forall>a b. fst g a = Some b \<longrightarrow> a \<noteq> b \<and> fst g b = None)
     \<and> (\<forall>b. distinct (unwrap_or [] (snd g b)) \<and> set (unwrap_or [] (snd g b)) = {a. fst g a = Some b}
          \<and> length (unwrap_or [] (snd g b)) \<le> 50)"

lemma graph_of_remove:
  "graph_of (remove_delegator b a s) = (gd_delegate_of s, (gd_delegators s)(b :=
     (if filter (\<lambda>x. x \<noteq> a) (delegators_of b s) = [] then None
      else Some (filter (\<lambda>x. x \<noteq> a) (delegators_of b s)))))"
  by (simp add: graph_of_def remove_delegator_def Let_def)

lemma unwrap_nonempty [simp]: "unwrap_or [] (if xs = [] then None else Some xs) = xs"
  by simp

text \<open>A delegator is taken out of the list of its delegate.\<close>

lemma detach_ok:
  assumes "graph_ok (d, l)" "d a = Some b"
  shows "graph_ok (d(a := None), l(b := (if filter (\<lambda>x. x \<noteq> a) (unwrap_or [] (l b)) = [] then None
     else Some (filter (\<lambda>x. x \<noteq> a) (unwrap_or [] (l b))))))"
proof -
  let ?l = "l(b := (if filter (\<lambda>x. x \<noteq> a) (unwrap_or [] (l b)) = [] then None
     else Some (filter (\<lambda>x. x \<noteq> a) (unwrap_or [] (l b)))))"
  have u: "unwrap_or [] (?l x) = (if x = b then filter (\<lambda>x. x \<noteq> a) (unwrap_or [] (l b)) else unwrap_or [] (l x))" for x
    by simp
  show ?thesis
    using assms unfolding graph_ok_def fst_conv snd_conv u
    by (auto intro: le_trans[OF length_filter_le])
qed

text \<open>A new edge between two who neither delegate nor, for the delegator, are delegates.\<close>

lemma attach_ok:
  assumes "graph_ok (d, l)" "d a = None" "d b = None" "a \<noteq> b" "unwrap_or [] (l a) = []"
    and "length (unwrap_or [] (l b)) < 50"
  shows "graph_ok (d(a \<mapsto> b), l(b \<mapsto> unwrap_or [] (l b) @ [a]))"
proof -
  let ?d = "d(a \<mapsto> b)"
  have list: "distinct (unwrap_or [] (l y))" "set (unwrap_or [] (l y)) = {x. d x = Some y}"
    "length (unwrap_or [] (l y)) \<le> 50" for y
    using assms(1) by (simp_all add: graph_ok_def)
  have edge: "x \<noteq> y \<and> d y = None" if "d x = Some y" for x y
    using that assms(1) by (simp add: graph_ok_def)
  have none: "d x \<noteq> Some a" for x using list(2)[of a] assms(5) by auto
  have new: "x \<noteq> y \<and> ?d y = None" if "?d x = Some y" for x y
    using that edge none assms(3,4) by (cases "x = a") (auto split: if_splits)
  have absent: "a \<notin> set (unwrap_or [] (l b))" using list(2) assms(2) by simp
  let ?l = "l(b \<mapsto> unwrap_or [] (l b) @ [a])"
  have new_list: "distinct (unwrap_or [] (?l y)) \<and> set (unwrap_or [] (?l y)) = {x. ?d x = Some y}
      \<and> length (unwrap_or [] (?l y)) \<le> 50" for y
  proof (cases "y = b")
    case True
    have "{x. ?d x = Some b} = insert a {x. d x = Some b}" using assms(2) by auto
    then show ?thesis using True list[of b] absent assms(6) by simp
  next
    case False
    then have "{x. ?d x = Some y} = {x. d x = Some y}" using assms(2) by auto
    then show ?thesis using False list[of y] by simp
  qed
  show ?thesis
    unfolding graph_ok_def fst_conv snd_conv using new new_list by blast
qed

lemma delegate_graph:
  assumes "delegate h e a b s = Inr s'" "graph_ok (graph_of s)"
  shows "graph_ok (graph_of s')"
proof -
  define s1 where "s1 = (case gd_delegate_of s a of Some c \<Rightarrow> remove_delegator c a s | None \<Rightarrow> s)"
  have d: "a \<noteq> b" "gd_delegate_of s b = None" "delegators_of a s = []" "gd_delegate_of s a \<noteq> Some b"
    "length (delegators_of b s1) < 50"
    "graph_of s' = ((gd_delegate_of s1)(a \<mapsto> b), (gd_delegators s1)(b \<mapsto> delegators_of b s1 @ [a]))"
    using assms(1)
    by (auto simp: delegate_def gd_ok Let_def s1_def[symmetric] graph_of_def gd_publish_def MAX_DELEGATORS_def
        split: option.splits if_splits)
  have one: "gd_delegate_of s1 = gd_delegate_of s" by (simp add: s1_def remove_delegator_def Let_def split: option.split)
  have "graph_ok ((gd_delegate_of s)(a := None), gd_delegators s1)
     \<and> unwrap_or [] (gd_delegators s1 a) = []"
  proof (cases "gd_delegate_of s a")
    case None
    then have "(gd_delegate_of s)(a := None) = gd_delegate_of s" by auto
    then show ?thesis using None assms(2) d(3) by (simp add: s1_def graph_of_def delegators_of_def)
  next
    case (Some c)
    then have "c \<noteq> a" using assms(2) by (auto simp: graph_ok_def graph_of_def)
    then show ?thesis
      using detach_ok[of "gd_delegate_of s" "gd_delegators s" a c] Some assms(2) d(3)
      by (simp add: s1_def graph_of_def delegators_of_def remove_delegator_def Let_def)
  qed
  then have "graph_ok (((gd_delegate_of s)(a := None))(a \<mapsto> b), (gd_delegators s1)(b \<mapsto> delegators_of b s1 @ [a]))"
    using attach_ok[of "(gd_delegate_of s)(a := None)" "gd_delegators s1" a b] d(1,2,5)
    by (simp add: delegators_of_def)
  then show ?thesis using d(6) one by simp
qed

lemma revoke_graph:
  assumes "revoke_delegation e a s = Inr s'" "graph_ok (graph_of s)"
  shows "graph_ok (graph_of s')"
proof -
  obtain b where b: "gd_delegate_of s a = Some b"
    "graph_of s' = ((gd_delegate_of s)(a := None), snd (graph_of (remove_delegator b a s)))"
    using assms(1)
    by (auto simp: revoke_delegation_def gd_ok remove_delegator_def graph_of_def Let_def gd_publish_def delegators_of_def)
  then show ?thesis
    using detach_ok[of "gd_delegate_of s" "gd_delegators s" a b] assms(2)
    by (simp add: graph_of_def remove_delegator_def Let_def delegators_of_def)
qed

lemma delegation_graph:
  assumes "voting_dispatch h e c s = Inr s'" "is_delegation c" "graph_ok (graph_of s)"
  shows "graph_ok (graph_of s')"
  using assms delegate_graph revoke_graph
  by (cases c) (auto simp: delegate_with_expiry_def gd_ok split: if_splits)

section \<open>The invariant of all calls\<close>

definition gd_inv :: "('t, 'v) gd_state \<Rightarrow> bool" where
  "gd_inv s \<longleftrightarrow> rules_ok s \<and> ballots_inv (ballots_of s) \<and> graph_ok (graph_of s)"

text \<open>Every call is a sequence of ballot steps; the storage refines the machine.\<close>

lemma gd_call_steps:
  assumes "gd_exec h e c s = Inr s'" "gd_inv s"
  shows "rules_ok s' \<and> ballot_step\<^sup>*\<^sup>* (ballots_of s) (ballots_of s') \<and> graph_ok (graph_of s')"
proof (cases c)
  case (OnProposal fr x)
  then have "gd_moves s s'" using assms proposal_moves by (auto simp: gd_exec_ok gd_inv_def)
  then show ?thesis using moves_rules assms(2) by (auto simp: gd_moves_def gd_inv_def)
next
  case (Voting x)
  show ?thesis
  proof (cases "is_delegation x")
    case True
    then have "rules_of s' = rules_of s \<and> ballots_of s' = ballots_of s" "graph_ok (graph_of s')"
      using assms Voting True delegation_idle[of h e x s s'] delegation_graph[of h e x s s']
      by (auto simp: gd_exec_ok gd_inv_def)
    moreover from this have "rules_ok s'"
      using assms(2) by (auto simp: gd_inv_def rules_ok_def rules_of_def quorum_decay_config_of_def)
    ultimately show ?thesis by simp
  next
    case False
    then have "gd_moves s s'" using assms voting_moves Voting by (auto simp: gd_exec_ok gd_inv_def)
    then show ?thesis using moves_rules assms(2) by (auto simp: gd_moves_def gd_inv_def)
  qed
next
  case (DaoSetting x)
  then show ?thesis using assms setting_rules[of e x s s'] by (auto simp: gd_exec_ok gd_inv_def)
next
  case (Outside w)
  then have "s' = s\<lparr>gd_world := w\<rparr>" using assms(1) by (simp add: gd_exec_ok)
  then have "gd_moves s s'" by (simp add: moves_still)
  then show ?thesis using moves_rules assms(2) by (auto simp: gd_moves_def gd_inv_def)
qed

lemma gd_fresh_inv: "gd_inv (gd_fresh w :: ('t, 'v) gd_state)"
proof -
  let ?s = "gd_fresh w :: ('t, 'v) gd_state"
  have "ballots_of ?s = no_ballots"
    by (simp add: ballots_of_def gd_fresh_def no_ballots_def proposal_count_def)
  moreover have "graph_ok (graph_of ?s)"
    by (simp add: graph_ok_def graph_of_def gd_fresh_def)
  moreover have "gd_config ?s = None" "gd_admin ?s = None" "gd_quorum_decay ?s = None"
    by (simp_all add: gd_fresh_def)
  ultimately show ?thesis
    using no_ballots_inv by (simp add: gd_inv_def rules_ok_def quorum_decay_config_of_def MIN_QUORUM_BPS_def)
qed

lemma gd_exec_inv: "gd_exec h e c s = Inr s' \<Longrightarrow> gd_inv s \<Longrightarrow> gd_inv s'"
  using gd_call_steps ballot_steps_inv unfolding gd_inv_def by blast

interpretation gd: invariant_system "gd_exec h" "gd_fresh w" "\<lambda>_. gd_inv"
  for h :: "('t, 'v) dao_host" and w :: 't
  by unfold_locales (auto intro: gd_fresh_inv gd_exec_inv)

lemma run_ballots:
  assumes "run (gd_exec h) t s t' s'" "gd_inv s"
  shows "ballot_step\<^sup>*\<^sup>* (ballots_of s) (ballots_of s') \<and> gd_inv s'"
  using assms
proof (induction rule: run.induct)
  case (run_refl t s)
  then show ?case by simp
next
  case (run_step t s t' s' e c s'')
  then show ?case using gd_call_steps[OF run_step.hyps(4)] gd_exec_inv[OF run_step.hyps(4)]
    by (meson rtranclp_trans)
qed

end
