(* ===== verification/GD_Escrow.thy ===== *)
theory GD_Escrow
  imports GD_Invariants
begin

text \<open>
  The DAO as a custodian: the tokens it holds for voters and proposers, and that it owns at
  least as many, in the runs in which nobody outside and no executed proposal takes them.
\<close>

section \<open>What the DAO owes\<close>

definition locked_amount :: "('t, 'v) gd_state \<Rightarrow> int \<times> address \<Rightarrow> int" where
  "locked_amount s k = unwrap_or 0 (gd_locked_balance s k)"

definition held_for :: "'v proposal \<Rightarrow> int" where
  "held_for p = (if pp_status p \<in> {Discussion, Active, Passed} then pp_deposit p else 0)"

definition deposit_held :: "('t, 'v) gd_state \<Rightarrow> int \<Rightarrow> int" where
  "deposit_held s i = (case gd_proposals s i of Some p \<Rightarrow> held_for p | None \<Rightarrow> 0)"

definition gov_token_is :: "address \<Rightarrow> ('t, 'v) gd_state \<Rightarrow> bool" where
  "gov_token_is u s \<longleftrightarrow> (\<forall>c. gd_config s = Some c \<longrightarrow> dc_gov_token c = u)"

definition escrow_ok :: "('t, 'v) dao_host \<Rightarrow> address \<Rightarrow> address \<Rightarrow> ('t, 'v) gd_state \<Rightarrow> bool" where
  "escrow_ok h u me s \<longleftrightarrow> gov_token_is u s
     \<and> finite (support (locked_amount s)) \<and> (\<forall>k. 0 \<le> locked_amount s k)
     \<and> finite (support (deposit_held s)) \<and> (\<forall>i p. gd_proposals s i = Some p \<longrightarrow> 0 \<le> pp_deposit p)
     \<and> total (locked_amount s) + total (deposit_held s) \<le> balance (token_part h) (gd_world s) u me"

lemma locked_amount_upd:
  "gd_locked_balance s' = (gd_locked_balance s)(k := x) \<Longrightarrow> locked_amount s' = (locked_amount s)(k := unwrap_or 0 x)"
  by (auto simp: locked_amount_def)

lemma deposit_held_upd:
  "gd_proposals s' = (gd_proposals s)(i \<mapsto> p) \<Longrightarrow> deposit_held s' = (deposit_held s)(i := held_for p)"
  by (auto simp: deposit_held_def)

lemma held_bounds: "escrow_ok h u me s \<Longrightarrow> 0 \<le> deposit_held s i"
  by (auto simp: escrow_ok_def deposit_held_def held_for_def split: option.split)

text \<open>
  One proposal and one lock change, and the balance makes up for what is owed more; a part
  that does not change is a change to the same value.
\<close>

lemma escrow_change:
  assumes "escrow_ok h u me s" "gov_token_is u s'"
    and "locked_amount s' = (locked_amount s)(k := n)" "0 \<le> n"
    and "deposit_held s' = (deposit_held s)(i := d)" "\<And>j q. gd_proposals s' j = Some q \<Longrightarrow> 0 \<le> pp_deposit q"
    and "n - locked_amount s k + d - deposit_held s i
       \<le> balance (token_part h) (gd_world s') u me - balance (token_part h) (gd_world s) u me"
  shows "escrow_ok h u me s'"
proof -
  have fin: "finite (support (locked_amount s))" "finite (support (deposit_held s))"
    using assms(1) by (simp_all add: escrow_ok_def)
  show ?thesis
    using assms total_upd[OF fin(1), of k n] total_upd[OF fin(2), of i d] support_upd[OF fin(1), of k n]
      support_upd[OF fin(2), of i d]
    by (simp add: escrow_ok_def)
qed

lemma escrow_same:
  assumes "escrow_ok h u me s" "gov_token_is u s'" "gd_locked_balance s' = gd_locked_balance s"
    and "gd_proposals s' = gd_proposals s"
    and "balance (token_part h) (gd_world s) u me \<le> balance (token_part h) (gd_world s') u me"
  shows "escrow_ok h u me s'"
proof -
  have "locked_amount s' = locked_amount s" "deposit_held s' = deposit_held s"
    using assms(3,4) by (simp_all add: locked_amount_def[abs_def] deposit_held_def[abs_def])
  then show ?thesis using assms by (simp add: escrow_ok_def)
qed

lemma escrow_lock:
  assumes "escrow_ok h u me s" "gov_token_is u s'" "gd_locked_balance s' = (gd_locked_balance s)(k := x)"
    and "gd_proposals s' = gd_proposals s" "0 \<le> unwrap_or 0 x"
    and "unwrap_or 0 x - locked_amount s k
       \<le> balance (token_part h) (gd_world s') u me - balance (token_part h) (gd_world s) u me"
  shows "escrow_ok h u me s'"
proof (rule escrow_change[where i = 0 and d = "deposit_held s 0",
    OF assms(1,2) locked_amount_upd[OF assms(3)] assms(5)])
  show "deposit_held s' = (deposit_held s)(0 := deposit_held s 0)"
    using assms(4) by (auto simp: deposit_held_def)
  show "0 \<le> pp_deposit q" if "gd_proposals s' j = Some q" for j q
    using that assms(1,4) by (simp add: escrow_ok_def)
qed (use assms(6) in simp)

text \<open>One proposal changes; \<open>x\<close> leaves the DAO.\<close>

lemma escrow_proposal:
  assumes "escrow_ok h u me s" "gov_token_is u s'" "gd_locked_balance s' = gd_locked_balance s"
    and "gd_proposals s i = Some p" "gd_proposals s' = (gd_proposals s)(i \<mapsto> q)" "pp_deposit q = pp_deposit p"
    and "balance (token_part h) (gd_world s) u me - x \<le> balance (token_part h) (gd_world s') u me"
    and "held_for q + x \<le> held_for p"
  shows "escrow_ok h u me s'"
proof (rule escrow_change[where k = undefined and n = "locked_amount s undefined" and i = i and d = "held_for q", OF assms(1,2)])
  show "locked_amount s' = (locked_amount s)(undefined := locked_amount s undefined)"
    using assms(3) by (auto simp: locked_amount_def)
  show "0 \<le> locked_amount s undefined" using assms(1) unfolding escrow_ok_def by blast
  show "deposit_held s' = (deposit_held s)(i := held_for q)" by (rule deposit_held_upd[OF assms(5)])
  show "0 \<le> pp_deposit r" if "gd_proposals s' j = Some r" for j r
    using that assms(1,4,5,6) by (auto simp: escrow_ok_def split: if_splits)
  show "locked_amount s undefined - locked_amount s undefined + held_for q - deposit_held s i
      \<le> balance (token_part h) (gd_world s') u me - balance (token_part h) (gd_world s) u me"
    using assms(4,7,8) by (simp add: deposit_held_def)
qed

text \<open>What a token transfer does to the balance of the DAO at \<open>me\<close>.\<close>

lemma dao_paid_in:
  assumes "sep41 (token_part h)" "transfer_of (token_part h) w u a me n = Some w'" "a \<noteq> me"
  shows "balance (token_part h) w' u me = balance (token_part h) w u me + n \<and> 0 \<le> n"
  using sep41_moved[OF assms(1,2)] assms(3) moved_balance[OF sep41_moved[OF assms(1,2)], of u me]
  by (simp add: moved_def)

lemma dao_paid_out:
  assumes "sep41 (token_part h)" "transfer_of (token_part h) w u me a n = Some w'"
  shows "balance (token_part h) w u me - n \<le> balance (token_part h) w' u me \<and> 0 \<le> n"
  using sep41_moved[OF assms(1,2)] moved_balance[OF sep41_moved[OF assms(1,2)], of u me]
  by (simp add: moved_def)

section \<open>Runs in which nobody takes the DAO's tokens\<close>

text \<open>
  The calls of the DAO at \<open>me\<close>, which never authorises a call of itself, with the governance
  token \<open>u\<close>: no other token is configured, nobody outside takes tokens from the DAO, and no
  executed proposal does.
\<close>

definition invocation_takes :: "('t, 'v) dao_host \<Rightarrow> address \<Rightarrow> address \<Rightarrow> int \<Rightarrow> ('t, 'v) gd_state \<Rightarrow> bool" where
  "invocation_takes h u me i s =
     (case gd_proposals s i of None \<Rightarrow> False
      | Some p \<Rightarrow> (case invoke_of h (gd_world s) me (pp_target p) (pp_function p) (pp_args p) of
          None \<Rightarrow> False
        | Some (w, _) \<Rightarrow> balance (token_part h) w u me < balance (token_part h) (gd_world s) u me))"

fun takes :: "('t, 'v) dao_host \<Rightarrow> address \<Rightarrow> address \<Rightarrow> ('t, 'v) gd_call \<Rightarrow> ('t, 'v) gd_state \<Rightarrow> bool" where
  "takes h u me (OnProposal fr (Execute i)) s \<longleftrightarrow> invocation_takes h u me i s"
| "takes h u me (OnProposal fr (ExecuteProposal i)) s \<longleftrightarrow> invocation_takes h u me i s"
| "takes h u me (DaoSetting (GdInitialize a c)) s \<longleftrightarrow> dc_gov_token c \<noteq> u"
| "takes h u me (DaoSetting (UpdateConfig a c)) s \<longleftrightarrow> dc_gov_token c \<noteq> u"
| "takes h u me (Outside w) s \<longleftrightarrow>
     balance (token_part h) w u me < balance (token_part h) (gd_world s) u me"
| "takes h u me _ s \<longleftrightarrow> False"

definition in_trust :: "('t, 'v) dao_host \<Rightarrow> address \<Rightarrow> address \<Rightarrow>
    env \<Rightarrow> ('t, 'v) gd_call \<Rightarrow> ('t, 'v) gd_state \<Rightarrow> (gd_error, ('t, 'v) gd_state) result" where
  "in_trust h u me e c s =
     (if takes h u me c s then trap else gd_exec h (e\<lparr>this := me, auth := (\<lambda>a. a \<noteq> me \<and> auth e a)\<rparr>) c s)"

section \<open>Every call keeps the escrow\<close>

lemma held_same [simp]:
  "held_for (count_vote c w p) = held_for p" "pp_deposit (count_vote c w p) = pp_deposit p"
  "held_for (p\<lparr>pp_is_vetoed := b\<rparr>) = held_for p"
  by (cases c; simp add: held_for_def count_vote_def)+

lemma held_status [simp]:
  "held_for (p\<lparr>pp_status := Failed\<rparr>) = 0" "held_for (p\<lparr>pp_status := Cancelled\<rparr>) = 0"
  "held_for (p\<lparr>pp_status := Expired\<rparr>) = 0" "held_for (p\<lparr>pp_status := Executed\<rparr>) = 0"
  "held_for (p\<lparr>pp_status := Active\<rparr>) = pp_deposit p"
  "held_for (p\<lparr>pp_status := Passed, pp_execution_time := t\<rparr>) = pp_deposit p"
  by (simp_all add: held_for_def)

lemma gov_token_same: "gd_config s' = gd_config s \<Longrightarrow> gov_token_is u s \<Longrightarrow> gov_token_is u s'"
  by (simp add: gov_token_is_def)

lemma escrow_token: "escrow_ok h u me s \<Longrightarrow> gov_token_is u s"
  by (simp add: escrow_ok_def)

lemma escrow_token_eq: "escrow_ok h u me s \<Longrightarrow> gd_config s = Some c \<Longrightarrow> dc_gov_token c = u"
  by (simp add: escrow_ok_def gov_token_is_def)

lemma escrow_deposit: "escrow_ok h u me s \<Longrightarrow> gd_proposals s i = Some p \<Longrightarrow> 0 \<le> pp_deposit p"
  by (simp add: escrow_ok_def)

lemma helper_escrow [simp]:
  "gd_locked_balance (record_participation a b s) = gd_locked_balance s"
  "gd_config (record_participation a b s) = gd_config s" "gd_world (record_participation a b s) = gd_world s"
  "gd_locked_balance (announce_decay i eff s) = gd_locked_balance s"
  "gd_config (announce_decay i eff s) = gd_config s" "gd_world (announce_decay i eff s) = gd_world s"
  "gd_locked_balance (gd_publish ev s) = gd_locked_balance s"
  "gd_config (gd_publish ev s) = gd_config s" "gd_world (gd_publish ev s) = gd_world s"
  "gd_locked_balance (put_proposal i p s) = gd_locked_balance s"
  "gd_config (put_proposal i p s) = gd_config s" "gd_world (put_proposal i p s) = gd_world s"
  "gd_proposals (put_proposal i p s) = (gd_proposals s)(i \<mapsto> p)"
  by (simp_all add: record_participation_def announce_decay_def put_proposal_def gd_publish_def Let_def)

lemma submit_escrow:
  assumes "submit_proposal h e proposer title target func args kind impact hash s = Inr (i, s')"
    and "escrow_ok h u me s" "sep41 (token_part h)" "this e = me" "proposer \<noteq> me"
  shows "escrow_ok h u me s'"
proof -
  let ?i = "proposal_count s"
  from assms(1) obtain config deposit w where v: "gd_config s = Some config"
    "transfer_of (token_part h) (gd_world s) (dc_gov_token config) proposer (this e) deposit = Some w"
    "s' = gd_publish (GvProposalCreated ?i proposer target func)
       (put_proposal ?i (new_proposal e ?i proposer title target func args deposit kind impact config) s
        \<lparr>gd_next_proposal_id := Some (?i + 1),
         gd_active_proposal_hash := (gd_active_proposal_hash s)(hash \<mapsto> ?i), gd_world := w\<rparr>)"
    by (auto simp: submit_proposal_def gd_ok Let_def proposal_count_def put_proposal_def)
  let ?p = "new_proposal e ?i proposer title target func args deposit kind impact config"
  have p: "held_for ?p = deposit" "pp_deposit ?p = deposit"
    by (simp_all add: new_proposal_def held_for_def Let_def)
  have pay: "balance (token_part h) w u me = balance (token_part h) (gd_world s) u me + deposit" "0 \<le> deposit"
    using dao_paid_in[OF assms(3) v(2)[unfolded assms(4) escrow_token_eq[OF assms(2) v(1)]] assms(5)] by auto
  have s': "gd_proposals s' = (gd_proposals s)(?i \<mapsto> ?p)" "gd_locked_balance s' = gd_locked_balance s"
    "gd_world s' = w" "gd_config s' = gd_config s"
    by (simp_all add: v(3))
  show ?thesis
  proof (rule escrow_change[where k = undefined and n = "locked_amount s undefined", OF assms(2) gov_token_same[OF s'(4) escrow_token[OF assms(2)]]])
    show "locked_amount s' = (locked_amount s)(undefined := locked_amount s undefined)"
      using s'(2) by (auto simp: locked_amount_def)
    show "0 \<le> locked_amount s undefined" using assms(2) unfolding escrow_ok_def by blast
    show "deposit_held s' = (deposit_held s)(?i := held_for ?p)" by (rule deposit_held_upd[OF s'(1)])
    show "0 \<le> pp_deposit q" if "gd_proposals s' j = Some q" for j q
      using that s'(1) p(2) pay(2) escrow_deposit[OF assms(2)] by (auto split: if_splits)
    show "locked_amount s undefined - locked_amount s undefined + held_for ?p - deposit_held s ?i
        \<le> balance (token_part h) (gd_world s') u me - balance (token_part h) (gd_world s) u me"
      using p(1) pay(1) held_bounds[OF assms(2), of ?i] by (simp add: s'(3))
  qed
qed

text \<open>One vote: a lock of \<open>n\<close> for which the balance of the DAO has grown by \<open>n\<close>.\<close>

lemma store_vote_escrow:
  assumes "escrow_ok h u me s" "gd_proposals s i = Some p" "0 \<le> n"
    and "gd_proposals s0 = gd_proposals s" "gd_locked_balance s0 = gd_locked_balance s" "gd_config s0 = gd_config s"
    and "balance (token_part h) (gd_world s) u me + n \<le> balance (token_part h) (gd_world s0) u me"
  shows "escrow_ok h u me (store_vote i a c w n (count_vote c w p) s0)"
proof -
  let ?s = "store_vote i a c w n (count_vote c w p) s0"
  have s': "gd_proposals ?s = (gd_proposals s)(i \<mapsto> count_vote c w p)" "gd_world ?s = gd_world s0"
    "gd_locked_balance ?s = (gd_locked_balance s)((i, a) := Some n)" "gd_config ?s = gd_config s"
    using assms(4,5,6) by (simp_all add: store_vote_def put_proposal_def gd_publish_def)
  have old: "0 \<le> locked_amount s (i, a)" using assms(1) unfolding escrow_ok_def by blast
  have dep: "0 \<le> pp_deposit q" if "gd_proposals ?s j = Some q" for j q
    using that assms(2) escrow_deposit[OF assms(1)] by (auto simp: s'(1) split: if_splits)
  show ?thesis
    by (rule escrow_change[OF assms(1) gov_token_same[OF s'(4) escrow_token[OF assms(1)]]
        locked_amount_upd[OF s'(3)] _ deposit_held_upd[OF s'(1)] dep])
       (use assms(2,3,7) old in \<open>simp_all add: s'(2) deposit_held_def\<close>)
qed

lemma vote_escrow:
  assumes "vote h e a i c s = Inr s'" "escrow_ok h u me s" "sep41 (token_part h)" "this e = me" "\<not> auth e me"
  shows "escrow_ok h u me s'"
proof -
  from assms(1) have "\<exists>p config own tally delegated s1 w p'. gd_proposals s i = Some p \<and> auth e a
     \<and> gd_config s = Some config
     \<and> collect_delegated_weight h e a i (dc_gov_token config) s = Inr (delegated, s1)
     \<and> transfer_of (token_part h) (gd_world s1) (dc_gov_token config) a (this e) (cap_weight config own) = Some w
     \<and> add_vote c (sat_i128 (tally + delegated)) p = Inr p'
     \<and> s' = store_vote i a c (sat_i128 (tally + delegated)) (cap_weight config own) p' (s1\<lparr>gd_world := w\<rparr>)"
    by (clarsimp simp: vote_def gd_ok require_auth_def Let_def split: prod.splits if_splits) blast
  then obtain p config own tally delegated s1 w p' where v: "gd_proposals s i = Some p" "auth e a"
    "gd_config s = Some config" "collect_delegated_weight h e a i (dc_gov_token config) s = Inr (delegated, s1)"
    "transfer_of (token_part h) (gd_world s1) (dc_gov_token config) a (this e) (cap_weight config own) = Some w"
    "add_vote c (sat_i128 (tally + delegated)) p = Inr p'"
    "s' = store_vote i a c (sat_i128 (tally + delegated)) (cap_weight config own) p' (s1\<lparr>gd_world := w\<rparr>)"
    by blast
  obtain marks evs where s1: "s1 = s\<lparr>gd_delegated_vote := marks, gd_events := evs\<rparr>"
    using collect_frame[OF v(4)] by blast
  have "a \<noteq> me" using v(2) assms(5) by blast
  then have pay: "balance (token_part h) w u me = balance (token_part h) (gd_world s) u me + cap_weight config own"
    "0 \<le> cap_weight config own"
    using dao_paid_in[OF assms(3) v(5)[unfolded assms(4) escrow_token_eq[OF assms(2) v(3)]]] by (auto simp: s1)
  show ?thesis
    unfolding v(7) add_vote_count[OF v(6)]
    by (rule store_vote_escrow[OF assms(2) v(1) pay(2)]) (simp_all add: s1 pay(1))
qed

lemma tally_rest_escrow:
  assumes "tally_batch h e a c token own 0 ps s = Inr s'" "escrow_ok h u me s" "distinct (map fst ps)"
    and "\<forall>(i, p) \<in> set ps. gd_proposals s i = Some p"
  shows "escrow_ok h u me s'"
  using assms
proof (induction ps arbitrary: s)
  case Nil
  then show ?case by simp
next
  case (Cons x ps)
  obtain i p where x: "x = (i, p)" by (cases x)
  from Cons.prems(1) obtain delegated s1 p' where v:
    "collect_delegated_weight h e a i token s = Inr (delegated, s1)"
    "add_vote c (sat_i128 (own + delegated)) p = Inr p'"
    "tally_batch h e a c token own 0 ps (store_vote i a c (sat_i128 (own + delegated)) 0 p' s1) = Inr s'"
    by (auto simp: x gd_ok Let_def split: prod.splits)
  let ?s = "store_vote i a c (sat_i128 (own + delegated)) 0 p' s1"
  obtain marks evs where s1: "s1 = s\<lparr>gd_delegated_vote := marks, gd_events := evs\<rparr>"
    using collect_frame[OF v(1)] by blast
  have p: "gd_proposals s i = Some p" using Cons.prems(4) by (auto simp: x)
  have first: "escrow_ok h u me ?s"
    unfolding add_vote_count[OF v(2)]
    by (rule store_vote_escrow[OF Cons.prems(2) p]) (simp_all add: s1)
  have "\<forall>(j, q) \<in> set ps. gd_proposals ?s j = Some q"
    using Cons.prems(3,4)
    by (auto simp: x s1 store_vote_def put_proposal_def gd_publish_def image_iff split: prod.splits)
  then show ?case using Cons.IH[OF v(3) first] Cons.prems(3) by simp
qed

lemma vote_batch_escrow:
  assumes "vote_batch h e a is c s = Inr s'" "escrow_ok h u me s" "sep41 (token_part h)" "this e = me" "\<not> auth e me"
  shows "escrow_ok h u me s'"
proof -
  from assms(1) obtain config ps own tally w where v: "distinct is" "is \<noteq> []" "auth e a" "gd_config s = Some config"
    "batch_proposals e a is s = Inr ps"
    "transfer_of (token_part h) (gd_world s) (dc_gov_token config) a (this e) (cap_weight config own) = Some w"
    "tally_batch h e a c (dc_gov_token config) tally (cap_weight config own) ps (s\<lparr>gd_world := w\<rparr>) = Inr s'"
    by (auto simp: vote_batch_def gd_ok require_auth_def Let_def split: if_splits)
  note ps = batch_proposals_ok[OF v(5)]
  then obtain i p rest where x: "ps = (i, p) # rest" using v(2) by (cases ps) auto
  have "a \<noteq> me" using v(3) assms(5) by blast
  then have pay: "balance (token_part h) w u me = balance (token_part h) (gd_world s) u me + cap_weight config own"
    "0 \<le> cap_weight config own"
    using dao_paid_in[OF assms(3) v(6)[unfolded assms(4) escrow_token_eq[OF assms(2) v(4)]]] by auto
  from v(7) obtain delegated s1 p' where f:
    "collect_delegated_weight h e a i (dc_gov_token config) (s\<lparr>gd_world := w\<rparr>) = Inr (delegated, s1)"
    "add_vote c (sat_i128 (tally + delegated)) p = Inr p'"
    "tally_batch h e a c (dc_gov_token config) tally 0 rest
       (store_vote i a c (sat_i128 (tally + delegated)) (cap_weight config own) p' s1) = Inr s'"
    by (auto simp: x gd_ok Let_def split: prod.splits)
  let ?s = "store_vote i a c (sat_i128 (tally + delegated)) (cap_weight config own) p' s1"
  obtain marks evs where s1: "s1 = s\<lparr>gd_world := w\<rparr>\<lparr>gd_delegated_vote := marks, gd_events := evs\<rparr>"
    using collect_frame[OF f(1)] by blast
  have p: "gd_proposals s i = Some p" using ps by (auto simp: x)
  have first: "escrow_ok h u me ?s"
    unfolding add_vote_count[OF f(2)]
    by (rule store_vote_escrow[OF assms(2) p pay(2)]) (simp_all add: s1 pay(1))
  have "distinct (map fst ps)" using ps v(1) by simp
  moreover have "\<forall>(j, q) \<in> set rest. gd_proposals ?s j = Some q"
    using ps \<open>distinct (map fst ps)\<close>
    by (auto simp: x s1 store_vote_def put_proposal_def gd_publish_def image_iff split: prod.splits) force
  ultimately show ?thesis using tally_rest_escrow[OF f(3) first] by (simp add: x)
qed

lemma withdraw_escrow:
  assumes "withdraw_tokens h e a i s = Inr s'" "escrow_ok h u me s" "sep41 (token_part h)" "this e = me"
  shows "escrow_ok h u me s'"
proof -
  let ?n = "locked_amount s (i, a)"
  have "s' = s \<or> (\<exists>config w. 0 < ?n \<and> gd_config s = Some config
     \<and> transfer_of (token_part h) (gd_world s) (dc_gov_token config) me a ?n = Some w
     \<and> s' = gd_publish (GvTokensWithdrawn i a ?n)
         (s\<lparr>gd_locked_balance := (gd_locked_balance s)((i, a) := None), gd_world := w\<rparr>))"
    using assms(1,4) by (auto simp: withdraw_tokens_def gd_ok Let_def locked_amount_def split: if_splits)
  then show ?thesis
  proof (elim disjE exE conjE)
    fix config w
    assume v: "gd_config s = Some config"
      "transfer_of (token_part h) (gd_world s) (dc_gov_token config) me a ?n = Some w"
      "s' = gd_publish (GvTokensWithdrawn i a ?n)
         (s\<lparr>gd_locked_balance := (gd_locked_balance s)((i, a) := None), gd_world := w\<rparr>)"
    have pay: "balance (token_part h) (gd_world s) u me - ?n \<le> balance (token_part h) w u me"
      using dao_paid_out[OF assms(3) v(2)[unfolded escrow_token_eq[OF assms(2) v(1)]]] by simp
    have s': "gd_locked_balance s' = (gd_locked_balance s)((i, a) := None)" "gd_proposals s' = gd_proposals s"
      "gd_config s' = gd_config s" "gd_world s' = w"
      by (simp_all add: v(3))
    show ?thesis
      by (rule escrow_lock[OF assms(2) gov_token_same[OF s'(3) escrow_token[OF assms(2)]] s'(1,2)])
         (use pay in \<open>simp_all add: s'(4)\<close>)
  qed (use assms(2) in simp)
qed

lemma settle_escrow:
  assumes "decide e config eff n p = Inr p'" "refund_failed h e u p' s0 = Inr s1"
    and "escrow_ok h u me s" "sep41 (token_part h)" "this e = me" "gd_proposals s i = Some p" "pp_status p = Active"
    and "gd_world s0 = gd_world s" "gd_world s' = gd_world s1" "gd_config s' = gd_config s"
    and "gd_locked_balance s' = gd_locked_balance s" "gd_proposals s' = (gd_proposals s)(i \<mapsto> p')"
  shows "escrow_ok h u me s'"
  using decide_ok[OF assms(1)]
proof (elim disjE exE conjE)
  assume p': "p' = p\<lparr>pp_status := Failed\<rparr>"
  then have "transfer_of (token_part h) (gd_world s) u me (pp_proposer p) (pp_deposit p) = Some (gd_world s1)"
    using assms(2,5,8) by (auto simp: refund_failed_def gd_ok)
  then have "balance (token_part h) (gd_world s) u me - pp_deposit p \<le> balance (token_part h) (gd_world s') u me"
    using dao_paid_out[OF assms(4)] assms(9) by metis
  then show ?thesis
    using assms(7) p'
    by (intro escrow_proposal[OF assms(3) gov_token_same[OF assms(10) escrow_token[OF assms(3)]] assms(11,6,12), of "pp_deposit p"])
       (simp_all add: held_for_def)
next
  fix t
  assume p': "p' = p\<lparr>pp_status := Passed, pp_execution_time := t\<rparr>"
  then have "s1 = s0" using assms(2) by (simp add: refund_failed_def)
  then show ?thesis
    using assms(7,8,9) p'
    by (intro escrow_proposal[OF assms(3) gov_token_same[OF assms(10) escrow_token[OF assms(3)]] assms(11,6,12), of 0])
       (simp_all add: held_for_def)
qed

lemma finalize_escrow:
  assumes "finalize h fr e i s = Inr s'" "escrow_ok h u me s" "sep41 (token_part h)" "this e = me"
  shows "escrow_ok h u me s'"
proof -
  from assms(1) obtain p config n p' s2 hash where v: "gd_proposals s i = Some p" "pp_status p = Active"
    "gd_config s = Some config"
    "decide e config (effective_quorum_of config s) (pp_votes_for p + pp_votes_against p) p = Inr p'"
    "refund_failed h e (dc_gov_token config) p' (record_participation n (pp_total_supply p)
       (announce_decay i (effective_quorum_of config s) s)) = Inr s2"
    "s' = gd_publish (GvProposalFinalized i (pp_status p')) (put_proposal i p' s2
       \<lparr>gd_active_proposal_hash := (gd_active_proposal_hash (put_proposal i p' s2))(hash := None)\<rparr>)"
    by (auto simp: finalize_def gd_ok Let_def)
  obtain w where s2: "s2 = record_participation n (pp_total_supply p)
       (announce_decay i (effective_quorum_of config s) s)\<lparr>gd_world := w\<rparr>"
    using refund_world[OF v(5)] by blast
  show ?thesis
    by (rule settle_escrow[OF v(4) v(5)[unfolded escrow_token_eq[OF assms(2) v(3)]] assms(2,3,4) v(1,2)])
       (simp_all add: v(6) s2)
qed

lemma finalize_each_escrow:
  assumes "finalize_each h fr e config is s = Inr s'" "escrow_ok h u me s" "sep41 (token_part h)" "this e = me"
    and "gd_config s = Some config"
  shows "escrow_ok h u me s'"
  using assms
proof (induction "is" arbitrary: s)
  case Nil
  then show ?case by simp
next
  case (Cons i "is")
  from Cons.prems(1) obtain p n p' s2 hash where v: "gd_proposals s i = Some p" "pp_status p = Active"
    "decide e config (effective_quorum_of config s) (pp_votes_for p + pp_votes_against p) p = Inr p'"
    "refund_failed h e (dc_gov_token config) p' (record_participation n (pp_total_supply p)
       (announce_decay i (effective_quorum_of config s) s)) = Inr s2"
    "finalize_each h fr e config is (gd_publish (GvProposalFinalized i (pp_status p')) (put_proposal i p' s2
       \<lparr>gd_active_proposal_hash := (gd_active_proposal_hash (put_proposal i p' s2))(hash := None)\<rparr>)) = Inr s'"
    by (auto simp: gd_ok Let_def)
  let ?s = "gd_publish (GvProposalFinalized i (pp_status p')) (put_proposal i p' s2
       \<lparr>gd_active_proposal_hash := (gd_active_proposal_hash (put_proposal i p' s2))(hash := None)\<rparr>)"
  obtain w where s2: "s2 = record_participation n (pp_total_supply p)
       (announce_decay i (effective_quorum_of config s) s)\<lparr>gd_world := w\<rparr>"
    using refund_world[OF v(4)] by blast
  have "escrow_ok h u me ?s"
    by (rule settle_escrow[OF v(3) v(4)[unfolded escrow_token_eq[OF Cons.prems(2,5)]] Cons.prems(2,3,4) v(1,2)])
       (simp_all add: s2)
  then show ?case using Cons.IH[OF v(5) _ Cons.prems(3,4)] Cons.prems(5) by (simp add: s2)
qed

lemma finalize_batch_escrow:
  assumes "finalize_batch h fr e is s = Inr s'" "escrow_ok h u me s" "sep41 (token_part h)" "this e = me"
  shows "escrow_ok h u me s'"
proof -
  obtain config where "finalize_each h fr e config is s = Inr s'" "gd_config s = Some config"
    using assms(1) by (auto simp: finalize_batch_def gd_ok)
  then show ?thesis using finalize_each_escrow assms(2-4) by blast
qed

text \<open>A proposal is closed and its deposit paid back.\<close>

lemma close_escrow:
  assumes "escrow_ok h u me s" "sep41 (token_part h)" "gd_proposals s i = Some p" "pp_status p \<in> {Discussion, Active}"
    and "transfer_of (token_part h) (gd_world s) u me (pp_proposer p) (pp_deposit p) = Some w" "gd_world s' = w"
    and "gd_config s' = gd_config s" "gd_locked_balance s' = gd_locked_balance s"
    and "gd_proposals s' = (gd_proposals s)(i \<mapsto> q)" "held_for q = 0" "pp_deposit q = pp_deposit p"
  shows "escrow_ok h u me s'"
  using dao_paid_out[OF assms(2,5)] assms(4,6,10)
  by (intro escrow_proposal[OF assms(1) gov_token_same[OF assms(7) escrow_token[OF assms(1)]] assms(8,3,9,11), of "pp_deposit p"])
     (auto simp: held_for_def)

lemma reclaim_escrow:
  assumes "reclaim_deposit h fr e i s = Inr s'" "escrow_ok h u me s" "sep41 (token_part h)" "this e = me"
  shows "escrow_ok h u me s'"
proof -
  from assms(1) obtain p n config w hash where v: "gd_proposals s i = Some p" "pp_status p = Active"
    "gd_config s = Some config"
    "transfer_of (token_part h) (gd_world s) (dc_gov_token config) (this e) (pp_proposer p) (pp_deposit p) = Some w"
    "s' = gd_publish (GvDepositReclaimed i (pp_proposer p) (pp_deposit p))
      (put_proposal i (p\<lparr>pp_status := Failed\<rparr>) (record_participation n (pp_total_supply p) s\<lparr>gd_world := w\<rparr>)
       \<lparr>gd_active_proposal_hash := hash\<rparr>)"
    by (auto simp: reclaim_deposit_def gd_ok Let_def)
  then show ?thesis
    using escrow_token_eq[OF assms(2) v(3)] assms(4)
    by (intro close_escrow[OF assms(2,3) v(1), of w s' "p\<lparr>pp_status := Failed\<rparr>"]) auto
qed

lemma cancel_escrow:
  assumes "cancel h fr e a i s = Inr s'" "escrow_ok h u me s" "sep41 (token_part h)" "this e = me"
  shows "escrow_ok h u me s'"
proof -
  from assms(1) obtain p config w hash where v: "gd_proposals s i = Some p" "pp_status p \<in> {Discussion, Active}"
    "gd_config s = Some config"
    "transfer_of (token_part h) (gd_world s) (dc_gov_token config) (this e) (pp_proposer p) (pp_deposit p) = Some w"
    "s' = gd_publish (GvProposalCancelled i) (put_proposal i (p\<lparr>pp_status := Cancelled\<rparr>) s
       \<lparr>gd_world := w, gd_active_proposal_hash := hash\<rparr>)"
    by (auto simp: cancel_def gd_ok Let_def)
  then show ?thesis
    using escrow_token_eq[OF assms(2) v(3)] assms(4)
    by (intro close_escrow[OF assms(2,3) v(1,2), of w s' "p\<lparr>pp_status := Cancelled\<rparr>"]) auto
qed

lemma sdiv_nonpos: "a \<le> 0 \<Longrightarrow> 0 < b \<Longrightarrow> a sdiv b \<le> (0 :: int)"
  by (auto simp: signed_divide_int_def sgn_if pos_imp_zdiv_nonneg_iff)

text \<open>The refund of an executed proposal is at most its deposit.\<close>

lemma refund_bound:
  assumes "refund_amount d b = Inr r" "b \<le> 10000" "0 \<le> d"
  shows "r \<le> d"
proof -
  have r: "r = d div 10000 * b + (d mod 10000 * b) sdiv 10000"
    using assms(1,3) by (auto simp: refund_amount_def gd_ok sdiv_nonneg signed_modulo_int_def sgn_if split: if_splits)
  have d: "d = d div 10000 * 10000 + d mod 10000" by simp
  show ?thesis
  proof (cases "0 \<le> b")
    case True
    have "d div 10000 * b \<le> d div 10000 * 10000" using assms(2,3) by (intro mult_left_mono) auto
    moreover have "(d mod 10000 * b) sdiv 10000 = d mod 10000 * b div 10000"
      using True by (intro sdiv_nonneg) auto
    moreover have "d mod 10000 * b div 10000 \<le> d mod 10000 * 10000 div 10000"
      using assms(2) True by (intro zdiv_mono1 mult_left_mono) auto
    ultimately have "r \<le> d div 10000 * 10000 + d mod 10000" using r by linarith
    then show ?thesis using d by linarith
  next
    case False
    then have "d div 10000 * b \<le> 0" "d mod 10000 * b \<le> 0"
      using assms(3) by (simp_all add: mult_nonneg_nonpos)
    moreover from this(2) have "(d mod 10000 * b) sdiv 10000 \<le> 0"
      by (rule sdiv_nonpos) simp
    ultimately show ?thesis using r assms(3) by linarith
  qed
qed

lemma execute_escrow:
  assumes "execute h fr e i s = Inr s'" "escrow_ok h u me s" "sep41 (token_part h)" "this e = me"
    and "\<not> invocation_takes h u me i s"
  shows "escrow_ok h u me s'"
  using assms(1)
proof (cases rule: execute_cases)
  case (expired p hash)
  then show ?thesis
    using escrow_deposit[OF assms(2) expired(1)]
    by (intro escrow_proposal[OF assms(2) gov_token_same[OF _ escrow_token[OF assms(2)]] _ expired(1),
        of _ "p\<lparr>pp_status := Expired\<rparr>" 0]) (simp_all add: held_for_def)
next
  case (executed p bps s1 refund s2 audit)
  obtain w r where w: "invoke_of h (gd_world s) me (pp_target p) (pp_function p) (pp_args p) = Some (w, r)"
    "s1 = s\<lparr>gd_world := w\<rparr>" "bps \<le> 10000"
    using executed(6) assms(4) by (auto simp: invoke_target_def gd_ok split: if_splits option.splits)
  have keep: "balance (token_part h) (gd_world s) u me \<le> balance (token_part h) w u me"
    using assms(5) executed(1) w(1) by (auto simp: invocation_takes_def not_less)
  have "s2 = s1 \<or> (\<exists>w'. transfer_of (token_part h) w u me (pp_proposer p) refund = Some w' \<and> s2 = s1\<lparr>gd_world := w'\<rparr>)"
    using executed(8) escrow_token_eq[OF assms(2)] assms(4)
    by (auto simp: refund_executed_def gd_ok w(2) split: if_splits)
  then have pay: "balance (token_part h) (gd_world s) u me - max 0 refund \<le> balance (token_part h) (gd_world s2) u me"
    "gd_config s2 = gd_config s" "gd_locked_balance s2 = gd_locked_balance s" "gd_proposals s2 = gd_proposals s"
    using keep dao_paid_out[OF assms(3)] by (auto simp: w(2)) fastforce
  have "max 0 refund \<le> pp_deposit p"
    using refund_bound[OF executed(7) w(3)] escrow_deposit[OF assms(2) executed(1)] by simp
  then show ?thesis
    using executed(2) pay
    by (intro escrow_proposal[OF assms(2) gov_token_same[OF _ escrow_token[OF assms(2)]] _ executed(1),
        of _ "p\<lparr>pp_status := Executed\<rparr>" "max 0 refund"]) (simp_all add: executed(9) held_for_def)
qed

lemma status_escrow:
  "start_voting e i s = Inr s' \<Longrightarrow> escrow_ok h u me s \<Longrightarrow> escrow_ok h u me s'"
  "veto_proposal e g i r s = Inr s' \<Longrightarrow> escrow_ok h u me s \<Longrightarrow> escrow_ok h u me s'"
proof -
  assume a: "start_voting e i s = Inr s'" "escrow_ok h u me s"
  then obtain p where p: "gd_proposals s i = Some p" "pp_status p = Discussion"
    "s' = gd_publish (GvDiscussionPeriodEnded i) (put_proposal i (p\<lparr>pp_status := Active\<rparr>) s)"
    by (auto simp: start_voting_def gd_ok split: if_splits)
  then show "escrow_ok h u me s'"
    by (intro escrow_proposal[OF a(2) gov_token_same[OF _ escrow_token[OF a(2)]] _ p(1), of _ "p\<lparr>pp_status := Active\<rparr>" 0])
       (simp_all add: held_for_def)
next
  assume a: "veto_proposal e g i r s = Inr s'" "escrow_ok h u me s"
  then obtain p where p: "gd_proposals s i = Some p"
    "s' = gd_publish (GvProposalVetoed i g r) (put_proposal i (p\<lparr>pp_is_vetoed := True\<rparr>) s)"
    by (auto simp: veto_proposal_def gd_ok split: if_splits)
  then show "escrow_ok h u me s'"
    by (intro escrow_proposal[OF a(2) gov_token_same[OF _ escrow_token[OF a(2)]] _ p(1), of _ "p\<lparr>pp_is_vetoed := True\<rparr>" 0]) simp_all
qed

text \<open>A call that leaves everything the escrow depends on alone.\<close>

definition parked :: "('t, 'v) gd_state \<Rightarrow> ('t, 'v) gd_state \<Rightarrow> bool" where
  "parked s s' \<longleftrightarrow> gd_config s' = gd_config s \<and> gd_locked_balance s' = gd_locked_balance s
     \<and> gd_proposals s' = gd_proposals s \<and> gd_world s' = gd_world s"

lemma idle_escrow:
  assumes "escrow_ok h u me s" "gov_token_is u s'" "gd_locked_balance s' = gd_locked_balance s"
    and "gd_proposals s' = gd_proposals s" "gd_world s' = gd_world s"
  shows "escrow_ok h u me s'"
  by (rule escrow_same[OF assms(1-4)]) (simp add: assms(5))

lemma parked_escrow: "parked s s' \<Longrightarrow> escrow_ok h u me s \<Longrightarrow> escrow_ok h u me s'"
  by (rule idle_escrow) (auto simp: parked_def intro: gov_token_same escrow_token)

lemma creation_escrow:
  "create_proposal h fr e a t g f xs im s = Inr (i, s') \<Longrightarrow> escrow_ok h u me s \<Longrightarrow> sep41 (token_part h) \<Longrightarrow>
     this e = me \<Longrightarrow> \<not> auth e me \<Longrightarrow> escrow_ok h u me s'"
  "propose_upgrade h fr e a t g wh im s = Inr (i, s') \<Longrightarrow> escrow_ok h u me s \<Longrightarrow> sep41 (token_part h) \<Longrightarrow>
     this e = me \<Longrightarrow> \<not> auth e me \<Longrightarrow> escrow_ok h u me s'"
  "create_proposal_from_template h fr e a n t g f xs im s = Inr (i, s') \<Longrightarrow> escrow_ok h u me s \<Longrightarrow>
     sep41 (token_part h) \<Longrightarrow> this e = me \<Longrightarrow> \<not> auth e me \<Longrightarrow> escrow_ok h u me s'"
proof -
  show c: "create_proposal h fr e a t g f xs im s = Inr (i, s') \<Longrightarrow> escrow_ok h u me s \<Longrightarrow>
     sep41 (token_part h) \<Longrightarrow> this e = me \<Longrightarrow> \<not> auth e me \<Longrightarrow> escrow_ok h u me s'" for s'
    by (auto simp: create_proposal_def gd_ok require_auth_def split: if_splits elim: submit_escrow)
  show "propose_upgrade h fr e a t g wh im s = Inr (i, s') \<Longrightarrow> escrow_ok h u me s \<Longrightarrow> sep41 (token_part h) \<Longrightarrow>
     this e = me \<Longrightarrow> \<not> auth e me \<Longrightarrow> escrow_ok h u me s'"
    by (auto simp: propose_upgrade_def gd_ok require_auth_def Let_def split: if_splits elim: submit_escrow)
  show "escrow_ok h u me s'" if ct: "create_proposal_from_template h fr e a n t g f xs im s = Inr (i, s')"
    "escrow_ok h u me s" "sep41 (token_part h)" "this e = me" "\<not> auth e me"
  proof -
    obtain s1 where "create_proposal h fr e a t g f xs im s = Inr (i, s1)"
      "s' = gd_publish (GvProposalCreatedFromTemplate i n) s1"
      using ct(1) by (auto simp: create_proposal_from_template_def gd_ok split: if_splits)
    then show ?thesis
      by (intro parked_escrow[OF _ c[OF _ ct(2-5)], of s1]) (auto simp: parked_def)
  qed
qed

lemma comment_parked:
  "add_comment e a i t r s = Inr (n, s') \<Longrightarrow> parked s s'"
  "delete_comment e a n s = Inr s' \<Longrightarrow> parked s s'"
  by (auto simp: parked_def add_comment_def delete_comment_def gd_ok Let_def split: if_splits)

lemma proposal_escrow:
  assumes "proposal_dispatch h fr e c s = Inr s'" "\<not> takes h u me (OnProposal fr c) s"
    and "escrow_ok h u me s" "sep41 (token_part h)" "this e = me" "\<not> auth e me"
  shows "escrow_ok h u me s'"
proof (cases c)
  case (CreateProposal a t g f xs im)
  then obtain i where "create_proposal h fr e a t g f xs im s = Inr (i, s')" using assms(1) by (auto simp: no_result_ok)
  then show ?thesis by (rule creation_escrow(1)[OF _ assms(3-6)])
next
  case (ProposeUpgrade a t g wh im)
  then obtain i where "propose_upgrade h fr e a t g wh im s = Inr (i, s')" using assms(1) by (auto simp: no_result_ok)
  then show ?thesis by (rule creation_escrow(2)[OF _ assms(3-6)])
next
  case (CreateProposalFromTemplate a n t g f xs im)
  then obtain i where "create_proposal_from_template h fr e a n t g f xs im s = Inr (i, s')"
    using assms(1) by (auto simp: no_result_ok)
  then show ?thesis by (rule creation_escrow(3)[OF _ assms(3-6)])
next
  case (StartVoting i)
  then show ?thesis using assms(1) status_escrow(1)[OF _ assms(3)] by simp
next
  case (Finalize i)
  then show ?thesis using assms(1) finalize_escrow[OF _ assms(3-5)] by simp
next
  case (FinalizeBatch "is")
  then show ?thesis using assms(1) finalize_batch_escrow[OF _ assms(3-5)] by simp
next
  case (ReclaimDeposit i)
  then show ?thesis using assms(1) reclaim_escrow[OF _ assms(3-5)] by simp
next
  case (Execute i)
  then show ?thesis using assms(1,2) execute_escrow[OF _ assms(3-5)] by simp
next
  case (ExecuteProposal i)
  then show ?thesis using assms(1,2) execute_escrow[OF _ assms(3-5)] by (simp add: execute_proposal_def)
next
  case (Cancel a i)
  then show ?thesis using assms(1) cancel_escrow[OF _ assms(3-5)] by simp
next
  case (VetoProposal a i r)
  then show ?thesis using assms(1) status_escrow(2)[OF _ assms(3)] by simp
next
  case (AddComment a i t r)
  then have "parked s s'" using assms(1) comment_parked(1) by (auto simp: no_result_ok)
  then show ?thesis using parked_escrow assms(3) by blast
next
  case (DeleteComment a i)
  then have "parked s s'" using assms(1) comment_parked(2) by simp
  then show ?thesis using parked_escrow assms(3) by blast
qed

lemma remove_delegator_parked: "parked s (remove_delegator b a s)"
  by (simp add: parked_def remove_delegator_def Let_def)

lemma delegation_parked:
  "delegate h e a b s = Inr s' \<Longrightarrow> parked s s'"
  "revoke_delegation e a s = Inr s' \<Longrightarrow> parked s s'"
  "checkpoint_voting_power h e a s = Inr s' \<Longrightarrow> parked s s'"
  "delegate_with_expiry h e a b n s = Inr s' \<Longrightarrow> parked s s'"
proof -
  show d: "delegate h e a b s = Inr s' \<Longrightarrow> parked s s'" for s'
    using remove_delegator_parked[of s _ a]
    by (auto simp: delegate_def gd_ok parked_def Let_def split: option.splits if_splits)
  show "revoke_delegation e a s = Inr s' \<Longrightarrow> parked s s'"
    by (auto simp: revoke_delegation_def gd_ok parked_def remove_delegator_def Let_def)
  show "checkpoint_voting_power h e a s = Inr s' \<Longrightarrow> parked s s'"
    by (auto simp: checkpoint_voting_power_def gd_ok parked_def Let_def)
  show "delegate_with_expiry h e a b n s = Inr s' \<Longrightarrow> parked s s'"
    by (auto simp: delegate_with_expiry_def gd_ok parked_def dest!: d)
qed

lemma voting_escrow:
  assumes "voting_dispatch h e c s = Inr s'"
    and "escrow_ok h u me s" "sep41 (token_part h)" "this e = me" "\<not> auth e me"
  shows "escrow_ok h u me s'"
proof (cases c)
  case (PruneParticipationHistory n)
  then have "parked s s'" using assms(1) by (auto simp: parked_def prune_participation_history_def Let_def)
  then show ?thesis using parked_escrow assms(2) by blast
qed (use assms in \<open>auto intro: parked_escrow[OF delegation_parked(1)] parked_escrow[OF delegation_parked(2)]
    parked_escrow[OF delegation_parked(3)] parked_escrow[OF delegation_parked(4)]
    vote_escrow vote_batch_escrow withdraw_escrow\<close>)

lemma setting_parked:
  "set_quorum_decay e a f x y z s = Inr s' \<Longrightarrow> parked s s'"
  "set_impact_multipliers e a x y z s = Inr s' \<Longrightarrow> parked s s'"
  "set_risk_pool e a b s = Inr s' \<Longrightarrow> parked s s'"
  "set_time_weight e a f x y s = Inr s' \<Longrightarrow> parked s s'"
  "register_template e a n d x y s = Inr s' \<Longrightarrow> parked s s'"
  "deactivate_template e a n s = Inr s' \<Longrightarrow> parked s s'"
  "gd_upgrade e a wh x s = Inr s' \<Longrightarrow> parked s s'"
  "gd_set_guardians e a gs x s = Inr s' \<Longrightarrow> parked s s'"
  "gd_approve_upgrade e a wh s = Inr s' \<Longrightarrow> parked s s'"
  "gd_cancel_pending_upgrade e a s = Inr s' \<Longrightarrow> parked s s'"
  unfolding parked_def
  by (simp add: set_quorum_decay_def gd_ok Let_def)
     (auto simp: set_impact_multipliers_def gd_ok,
      auto simp: set_risk_pool_def gd_ok,
      auto simp: set_time_weight_def gd_ok,
      auto simp: register_template_def gd_ok Let_def,
      auto simp: deactivate_template_def gd_ok,
      auto simp: gd_upgrade_def gd_ok Let_def split: if_splits,
      auto simp: gd_set_guardians_def gd_ok,
      auto simp: gd_approve_upgrade_def gd_ok Let_def split: if_splits,
      auto simp: gd_cancel_pending_upgrade_def gd_ok)

lemma setting_escrow:
  assumes "dao_setting_dispatch e c s = Inr s'" "\<not> takes h u me (DaoSetting c) s" "escrow_ok h u me s"
  shows "escrow_ok h u me s'"
proof -
  have "parked s s' \<or> (gov_token_is u s' \<and> gd_locked_balance s' = gd_locked_balance s
     \<and> gd_proposals s' = gd_proposals s \<and> gd_world s' = gd_world s)"
  proof (cases c)
    case (GdInitialize a cf)
    then show ?thesis using assms by (auto simp: gd_initialize_def gd_ok gov_token_is_def split: if_splits)
  next
    case (UpdateConfig a cf)
    then show ?thesis using assms by (auto simp: update_config_def gd_ok gov_token_is_def)
  next
    case (SetProposalThreshold a n)
    then show ?thesis using assms(1) escrow_token[OF assms(3)]
      by (auto simp: set_proposal_threshold_def gd_ok gov_token_is_def Let_def)
  qed (use assms(1) in \<open>auto dest: setting_parked\<close>)
  then show ?thesis using idle_escrow[OF assms(3)] parked_escrow assms(3) by blast
qed

lemma in_trust_escrow:
  assumes "in_trust h u me e c s = Inr s'" "escrow_ok h u me s" "sep41 (token_part h)"
  shows "escrow_ok h u me s'"
proof -
  let ?e = "e\<lparr>this := me, auth := (\<lambda>a. a \<noteq> me \<and> auth e a)\<rparr>"
  have e: "this ?e = me" "\<not> auth ?e me" by simp_all
  have c: "\<not> takes h u me c s" "gd_dispatch h ?e c s = Inr s'"
    using assms(1) by (auto simp: in_trust_def gd_exec_ok split: if_splits)
  show ?thesis
  proof (cases c)
    case (OnProposal fr x)
    then show ?thesis using c proposal_escrow[of h fr ?e x s s', OF _ _ assms(2,3) e] by simp
  next
    case (Voting x)
    then show ?thesis using c voting_escrow[of h ?e x s s', OF _ assms(2,3) e] by simp
  next
    case (DaoSetting x)
    then show ?thesis using c setting_escrow[of ?e x s s', OF _ _ assms(2)] by simp
  next
    case (Outside w)
    then show ?thesis
      using c by (intro escrow_same[OF assms(2)]) (auto simp: gov_token_same[OF _ escrow_token[OF assms(2)]])
  qed
qed

lemma gd_fresh_escrow:
  "0 \<le> balance (token_part h) w u me \<Longrightarrow> escrow_ok h u me (gd_fresh w)"
  by (simp add: escrow_ok_def gov_token_is_def gd_fresh_def locked_amount_def[abs_def] deposit_held_def[abs_def] support_def)

lemma in_trust_run:
  assumes "run (in_trust h u me) t s t' s'" "escrow_ok h u me s" "sep41 (token_part h)"
  shows "escrow_ok h u me s'"
  using assms by (induction rule: run.induct) (auto intro: in_trust_escrow)

end
