(* ===== verification/GD_Sample.thy ===== *)
theory GD_Sample
  imports GD_Escrow Sample
begin

text \<open>
  A small history of the DAO on which its properties are evaluated: a proposal is made, two
  holders vote, it passes and is executed. The world is a token ledger, the values of the
  host are numbers, and the contract the proposal calls does nothing.
\<close>

definition dao :: address where "dao = ''dao''"
definition shield :: address where "shield = addr CHR ''C'' CHR ''S''"
definition registry_contract :: address where "registry_contract = addr CHR ''C'' CHR ''R''"
definition erin :: address where "erin = ''erin''"
definition frank :: address where "frank = ''frank''"
definition grace :: address where "grace = ''grace''"
definition heidi :: address where "heidi = ''heidi''"

definition plenum :: "int \<Rightarrow> env" where "plenum t = (moment t)\<lparr>this := dao\<rparr>"

definition shields :: "ledger" where
  "shields = (\<lambda>(c, a). if c \<noteq> shield then 0 else if a = erin then 500 else if a = frank then 300
     else if a = grace then 200 else 0)"

definition demo_host :: "(ledger, int) dao_host" where
  "demo_host = \<lparr>token_part = ledger_ops, sha256_of = (\<lambda>bs. bs), address_val = (\<lambda>a. int (length a)),
     hash_val = (\<lambda>w. int (length w)), invoke_of = (\<lambda>w me a f args. Some (w, None))\<rparr>"

definition demo_frame :: "int frame" where
  "demo_frame = \<lparr>symbol_payload = (\<lambda>f. int (length f)), val_payload = (\<lambda>v. v)\<rparr>"

definition charter :: dao_config where
  "charter = \<lparr>dc_gov_token = shield, dc_proposal_threshold = 100, dc_total_supply = 1000,
     dc_quorum_bps = 1000, dc_majority_bps = 5100, dc_voting_period = 3600, dc_proposal_timelock = 600,
     dc_discussion_period = 0, dc_vote_weight_cap = 0\<rparr>"

abbreviation dao_run ::
  "env \<Rightarrow> (ledger, int) gd_call \<Rightarrow> (ledger, int) gd_state \<Rightarrow> (gd_error, (ledger, int) gd_state) result" where
  "dao_run \<equiv> gd_exec demo_host"

abbreviation dao_begin :: "(ledger, int) gd_state" where
  "dao_begin \<equiv> gd_fresh shields"

definition proposed :: "(env \<times> (ledger, int) gd_call) list" where
  "proposed = [
     (plenum 1000, DaoSetting (GdInitialize boss charter)),
     (plenum 1001, DaoSetting (GdSetGuardians boss [heidi] 1)),
     (plenum 2000, OnProposal demo_frame
        (CreateProposal erin ''raise rates'' registry_contract ''set_rate'' [7] ''more income''))]"

definition voted :: "(env \<times> (ledger, int) gd_call) list" where
  "voted = proposed @ [
     (plenum 2100, Voting (Vote frank 0 For)),
     (plenum 2200, Voting (Vote grace 0 Against))]"

definition enacted :: "(env \<times> (ledger, int) gd_call) list" where
  "enacted = voted @ [
     (plenum 6000, OnProposal demo_frame (Finalize 0)),
     (plenum 7000, OnProposal demo_frame (Execute 0))]"

lemma dao_times:
  "timely 0 proposed" "ends 0 proposed = 2000" "timely 0 voted" "ends 0 voted = 2200"
  "timely 0 enacted" "ends 0 enacted = 7000"
  by code_simp+

end
