(* ===== verification/GD_Properties.thy ===== *)
theory GD_Properties
  imports GD_Sample
begin

text \<open>
  The properties of the DAO, each with a witness on the histories of \<open>GD_Sample\<close>.
\<close>

section \<open>The life of a proposal\<close>

text \<open>
  C32. The life of a proposal: between two states of a run a proposal keeps its number,
  proposer, title, call, deposit, dates, supply snapshot, kind and analysis; its status
  moves only forward (Discussion, Active, then Passed, Failed or Cancelled, and from Passed
  to Executed or Expired); its tallies never shrink and are final once it has left Active;
  a veto is never taken back, and a vetoed proposal that is not executed never will be.
  A recorded vote is never changed.
\<close>

theorem proposal_lifecycle:
  assumes "reach (gd_exec h) (gd_fresh w) t s" "run (gd_exec h) t s t' s'" "gd_proposals s i = Some p"
  shows "\<exists>q. gd_proposals s' i = Some q \<and> later p q
     \<and> (pp_is_vetoed p \<and> pp_status p \<noteq> Executed \<longrightarrow> pp_is_vetoed q \<and> pp_status q \<noteq> Executed)
     \<and> (\<forall>a r. gd_vote_records s (i, a) = Some r \<longrightarrow> gd_vote_records s' (i, a) = Some r)"
proof -
  have inv: "gd_inv s" by (rule gd.inv_reach[OF assms(1)])
  have steps: "ballot_step\<^sup>*\<^sup>* (ballots_of s) (ballots_of s')" using run_ballots[OF assms(2) inv] by blast
  have "ballots_inv (ballots_of s)" using inv by (simp add: gd_inv_def)
  then obtain q where q: "gd_proposals s' i = Some q" "later p q"
    using ballot_steps_later[OF steps, of i p] assms(3) by auto
  have "\<forall>a r. gd_vote_records s (i, a) = Some r \<longrightarrow> gd_vote_records s' (i, a) = Some r"
    using ballot_steps_records[OF steps] by simp
  then show ?thesis using q by (auto simp: later_def)
qed

text \<open>A guardian vetoes the proposal after it has passed.\<close>

definition vetoed_first :: "(env \<times> (ledger, int) gd_call) list" where
  "vetoed_first = [(plenum 2300, OnProposal demo_frame (VetoProposal heidi 0 ''danger'')),
     (plenum 6000, OnProposal demo_frame (Finalize 0))]"

theorem proposal_lifecycle_witness:
  "\<exists>s s' p q. reach dao_run dao_begin 2200 s \<and> run dao_run 2200 s 6000 s' \<and> gd_proposals s 0 = Some p
     \<and> pp_status p = Active \<and> gd_proposals s' 0 = Some q \<and> pp_status q = Passed \<and> pp_is_vetoed q \<and> later p q"
proof -
  have "outcome (\<lambda>s. is_at (gd_proposals s 0) (\<lambda>p. pp_status p = Active)
     \<and> outcome (\<lambda>s'. is_at (gd_proposals s' 0) (\<lambda>q. pp_status q = Passed \<and> pp_is_vetoed q))
         (play dao_run vetoed_first s)) (play dao_run voted dao_begin)"
    by code_simp
  then obtain s where s: "reach dao_run dao_begin 2200 s" "is_at (gd_proposals s 0) (\<lambda>p. pp_status p = Active)"
    "outcome (\<lambda>s'. is_at (gd_proposals s' 0) (\<lambda>q. pp_status q = Passed \<and> pp_is_vetoed q)) (play dao_run vetoed_first s)"
    by (rule history_reach[OF _ dao_times(3), unfolded dao_times(4)]) blast
  obtain s' where s': "play dao_run vetoed_first s = Inr s'"
    "is_at (gd_proposals s' 0) (\<lambda>q. pp_status q = Passed \<and> pp_is_vetoed q)"
    using outcome_obtain[OF s(3)] by blast
  have time: "timely 2200 vetoed_first" "ends 2200 vetoed_first = 6000" by code_simp+
  have run: "run dao_run 2200 s 6000 s'" using play_run[OF s'(1) time(1)] by (simp add: time(2))
  obtain p where p: "gd_proposals s 0 = Some p" "pp_status p = Active" using is_atD[OF s(2)] by blast
  then obtain q where q: "gd_proposals s' 0 = Some q" "later p q" using proposal_lifecycle[OF s(1) run p(1)] by blast
  have "pp_status q = Passed" "pp_is_vetoed q" using is_atD[OF s'(2)] q(1) by auto
  then show ?thesis using s(1) run p q by (intro exI[of _ s] exI[of _ s'] exI[of _ p] exI[of _ q]) simp
qed

text \<open>
  C33. Nothing passes without a quorum: in every reachable state the votes for and against a
  proposal that has passed, or has passed and was executed or expired, are more than none and
  at least a tenth, rounded down, of the supply it was created with, whatever the admin has configured and
  however far the adaptive quorum has decayed.
\<close>

theorem passed_has_quorum:
  assumes "reach (gd_exec h) (gd_fresh w) t s" "gd_proposals s i = Some p"
    and "pp_status p \<in> {Passed, Executed, proposal_status.Expired}"
  shows "0 < pp_votes_for p + pp_votes_against p
     \<and> pp_total_supply p \<le> 10 * (pp_votes_for p + pp_votes_against p) + 9"
proof -
  have "ballots_inv (ballots_of s)" using gd.inv_reach[OF assms(1)] by (simp add: gd_inv_def)
  then have c: "carried p" using ballotsD(6)[of "ballots_of s" i p] assms(2,3) by simp
  moreover have "pp_total_supply p \<le> 10 * (pp_total_supply p div 10) + 9" by presburger
  ultimately show ?thesis unfolding carried_def by auto
qed

theorem passed_has_quorum_witness:
  "\<exists>s p. reach dao_run dao_begin 7000 s \<and> gd_proposals s 0 = Some p \<and> pp_status p = Executed
     \<and> pp_votes_for p = 300 \<and> pp_votes_against p = 200 \<and> pp_total_supply p = 1000
     \<and> pp_total_supply p \<le> 10 * (pp_votes_for p + pp_votes_against p) + 9"
proof -
  have "outcome (\<lambda>s. is_at (gd_proposals s 0) (\<lambda>p. pp_status p = Executed \<and> pp_votes_for p = 300
     \<and> pp_votes_against p = 200 \<and> pp_total_supply p = 1000)) (play dao_run enacted dao_begin)"
    by code_simp
  then obtain s where s: "reach dao_run dao_begin 7000 s" "is_at (gd_proposals s 0) (\<lambda>p. pp_status p = Executed
     \<and> pp_votes_for p = 300 \<and> pp_votes_against p = 200 \<and> pp_total_supply p = 1000)"
    by (rule history_reach[OF _ dao_times(5), unfolded dao_times(6)])
  then obtain p where "gd_proposals s 0 = Some p" "pp_status p = Executed" "pp_votes_for p = 300"
    "pp_votes_against p = 200" "pp_total_supply p = 1000" using is_atD[OF s(2)] by blast
  then show ?thesis using s(1) passed_has_quorum[OF s(1), of 0 p] by auto
qed

section \<open>Votes\<close>

text \<open>
  C34. The tallies are exactly the votes: in every reachable state the voters of a proposal
  are finitely many, each has one record with a positive weight, and the tallies for, against
  and abstaining are the sums of the weights recorded with that choice.
\<close>

theorem tallies_exact:
  assumes "reach (gd_exec h) (gd_fresh w) t s" "gd_proposals s i = Some p"
  shows "finite {a. gd_vote_records s (i, a) \<noteq> None}
     \<and> (\<forall>a r. gd_vote_records s (i, a) = Some r \<longrightarrow> vr_voter r = a \<and> 0 < vr_weight r)
     \<and> pp_votes_for p = (\<Sum>a | gd_vote_records s (i, a) \<noteq> None. cast_for For (gd_vote_records s (i, a)))
     \<and> pp_votes_against p = (\<Sum>a | gd_vote_records s (i, a) \<noteq> None. cast_for Against (gd_vote_records s (i, a)))
     \<and> pp_votes_abstain p = (\<Sum>a | gd_vote_records s (i, a) \<noteq> None. cast_for Abstain (gd_vote_records s (i, a)))"
proof -
  have inv: "ballots_inv (ballots_of s)" using gd.inv_reach[OF assms(1)] by (simp add: gd_inv_def)
  then have fin: "finite {a. gd_vote_records s (i, a) \<noteq> None}"
    and rec: "\<forall>a r. gd_vote_records s (i, a) = Some r \<longrightarrow> vr_voter r = a \<and> 0 < vr_weight r"
    by (auto simp: ballots_inv_def records_ok_def)
  have "tally c i (ballots_of s) = (\<Sum>a | gd_vote_records s (i, a) \<noteq> None. cast_for c (gd_vote_records s (i, a)))" for c
    unfolding tally_def ballots_of_fields using fin
    by (intro total_over) (auto simp: support_def cast_for_def split: option.splits)
  then show ?thesis
    using fin rec ballotsD(5)[OF inv, of i p] assms(2) by (simp add: tallied_def)
qed

theorem tallies_exact_witness:
  "\<exists>s p. reach dao_run dao_begin 2200 s \<and> gd_proposals s 0 = Some p \<and> pp_votes_for p = 300
     \<and> (\<Sum>a | gd_vote_records s (0, a) \<noteq> None. cast_for For (gd_vote_records s (0, a))) = 300"
proof -
  have "outcome (\<lambda>s. is_at (gd_proposals s 0) (\<lambda>p. pp_votes_for p = 300)) (play dao_run voted dao_begin)"
    by code_simp
  then obtain s where s: "reach dao_run dao_begin 2200 s" "is_at (gd_proposals s 0) (\<lambda>p. pp_votes_for p = 300)"
    by (rule history_reach[OF _ dao_times(3), unfolded dao_times(4)])
  then obtain p where "gd_proposals s 0 = Some p" "pp_votes_for p = 300" using is_atD[OF s(2)] by blast
  then show ?thesis using s(1) tallies_exact[OF s(1), of 0 p] by auto
qed

text \<open>
  C35. Delegation is one hop: in every reachable state nobody delegates to themselves or to
  somebody who delegates, the list of a delegate has exactly the addresses that delegate to
  it, each once, and at most 50.
\<close>

theorem delegation_one_hop:
  assumes "reach (gd_exec h) (gd_fresh w) t s"
  shows "(gd_delegate_of s a = Some b \<longrightarrow> a \<noteq> b \<and> gd_delegate_of s b = None)
     \<and> distinct (delegators_of b s) \<and> length (delegators_of b s) \<le> 50
     \<and> (a \<in> set (delegators_of b s) \<longleftrightarrow> gd_delegate_of s a = Some b)"
  using gd.inv_reach[OF assms] by (simp add: gd_inv_def graph_ok_def graph_of_def delegators_of_def)

definition entrusted :: "(env \<times> (ledger, int) gd_call) list" where
  "entrusted = proposed @ [(plenum 2050, Voting (Delegate frank heidi)), (plenum 2060, Voting (Delegate grace heidi)),
     (plenum 2070, Voting (Delegate grace erin))]"

theorem delegation_one_hop_witness:
  "\<exists>s. reach dao_run dao_begin 2070 s \<and> delegators_of heidi s = [frank] \<and> gd_delegate_of s frank = Some heidi
     \<and> gd_delegate_of s heidi = None"
proof -
  have time: "timely 0 entrusted" "ends 0 entrusted = 2070" by code_simp+
  have "outcome (\<lambda>s. delegators_of heidi s = [frank]) (play dao_run entrusted dao_begin)"
    by code_simp
  then obtain s where s: "reach dao_run dao_begin 2070 s" "delegators_of heidi s = [frank]"
    by (rule history_reach[OF _ time(1), unfolded time(2)])
  then show ?thesis using delegation_one_hop[OF s(1), of frank heidi] by auto
qed

text \<open>
  The tokens lent to a delegate for a proposal: those of every delegator who has not been
  counted for it yet.
\<close>

definition lent :: "('t, 'v) dao_host \<Rightarrow> address \<Rightarrow> int \<Rightarrow> ('t, 'v) gd_state \<Rightarrow> address \<Rightarrow> int" where
  "lent h u i s a = (if (i, a) \<in> gd_delegated_vote s then 0 else max 0 (balance (token_part h) (gd_world s) u a))"

lemma lent_nonneg: "0 \<le> lent h u i s a"
  by (simp add: lent_def)

lemma time_weighted_plain: "\<not> tw_enabled (time_weight_config_of s) \<Longrightarrow> time_weighted e a n s = Inr n"
  by (simp add: time_weighted_def Let_def)

lemma collect_from_lent:
  assumes "collect_from h e v i u acc as s = Inr (n, s1)" "\<not> tw_enabled (time_weight_config_of s)"
    and "0 \<le> acc" "acc \<le> i128_max" "distinct as"
  shows "n = min i128_max (acc + (\<Sum>a\<leftarrow>as. lent h u i s a))
     \<and> gd_delegated_vote s1 = gd_delegated_vote s
         \<union> {(i, a) | a. a \<in> set as \<and> 0 < balance (token_part h) (gd_world s) u a}"
  using assms
proof (induction as arbitrary: acc s)
  case Nil
  then show ?case by simp
next
  case (Cons a as)
  obtain b where b: "balance_of (token_part h) (gd_world s) u a = Some b"
    using Cons.prems(1) by (auto simp: gd_ok)
  then have bal: "balance (token_part h) (gd_world s) u a = b" by (simp add: balance_def)
  let ?rest = "\<Sum>x\<leftarrow>as. lent h u i s x"
  have rest: "0 \<le> ?rest" by (intro sum_list_nonneg) (auto simp: lent_nonneg)
  show ?case
  proof (cases "b \<le> 0 \<or> (i, a) \<in> gd_delegated_vote s")
    case True
    then have "collect_from h e v i u acc as s = Inr (n, s1)"
      using Cons.prems(1) b by (simp add: gd_balance_def)
    from Cons.IH[OF this Cons.prems(2-4)] show ?thesis
      using True Cons.prems(5) by (auto simp: lent_def bal)
  next
    case False
    let ?s = "gd_publish (GvDelegationUsed i v a b) (s\<lparr>gd_delegated_vote := insert (i, a) (gd_delegated_vote s)\<rparr>)"
    have go: "collect_from h e v i u (sat_i128 (acc + b)) as ?s = Inr (n, s1)"
      using Cons.prems(1,2) False b by (simp add: gd_balance_def time_weighted_plain)
    have same: "time_weight_config_of ?s = time_weight_config_of s" "gd_world ?s = gd_world s"
      "gd_delegated_vote ?s = insert (i, a) (gd_delegated_vote s)"
      by (simp_all add: time_weight_config_of_def gd_publish_def)
    have others: "map (lent h u i ?s) as = map (lent h u i s) as"
      using Cons.prems(5) by (auto simp: lent_def same)
    have acc: "sat_i128 (acc + b) = min i128_max (acc + b)" "0 \<le> sat_i128 (acc + b)" "sat_i128 (acc + b) \<le> i128_max"
      using Cons.prems(3) False by (auto simp: sat_i128_def i128_min_def i128_max_def)
    have off: "\<not> tw_enabled (time_weight_config_of ?s)" using Cons.prems(2) same(1) by simp
    have "distinct as" using Cons.prems(5) by simp
    from Cons.IH[OF go off acc(2,3) this]
    have IH: "n = min i128_max (min i128_max (acc + b) + ?rest)"
      "gd_delegated_vote s1 = insert (i, a) (gd_delegated_vote s)
         \<union> {(i, x) | x. x \<in> set as \<and> 0 < balance (token_part h) (gd_world s) u x}"
      by (simp_all add: same others acc(1))
    have "lent h u i s a = b" using False by (simp add: lent_def bal)
    then have "n = min i128_max (acc + (\<Sum>x\<leftarrow>a # as. lent h u i s x))"
      using IH(1) rest by (simp add: min_def)
    then show ?thesis using IH(2) False by (auto simp: bal)
  qed
qed

text \<open>
  C36. What a vote weighs: with time weighting off, its default, a vote on a reachable state
  weighs the voter's own tokens, up to the cap, and all tokens lent by delegators not yet
  counted for the proposal, which the cap does not limit; the sum saturates. The record and
  the tally of the chosen side get exactly this weight and all delegators with tokens are
  marked as counted. Only the voter's own share is moved to the DAO and recorded as locked: the
  balance of everybody else, the delegators too, stays as it was.
\<close>

theorem vote_weighs_delegation:
  assumes "sep41 (token_part h)" "reach (gd_exec h) (gd_fresh w) t s"
    and "vote h e v i ch s = Inr s'" "gd_config s = Some c"
    and "\<not> tw_enabled (time_weight_config_of s)" "v \<noteq> this e"
  defines "bal \<equiv> \<lambda>x. balance (token_part h) (gd_world x) (dc_gov_token c)"
    and "own \<equiv> cap_weight c (balance (token_part h) (gd_world s) (dc_gov_token c) v)"
  shows "\<exists>p n. gd_proposals s i = Some p \<and> pp_status p = Active \<and> gd_vote_records s (i, v) = None
     \<and> n = min i128_max (own + (\<Sum>a\<leftarrow>delegators_of v s. lent h (dc_gov_token c) i s a)) \<and> 0 < n
     \<and> gd_proposals s' i = Some (count_vote ch n p)
     \<and> gd_vote_records s' (i, v) = Some \<lparr>vr_voter = v, vr_choice = ch, vr_weight = n\<rparr>
     \<and> gd_delegated_vote s' = gd_delegated_vote s \<union> {(i, a) | a. a \<in> set (delegators_of v s) \<and> 0 < bal s a}
     \<and> gd_locked_balance s' (i, v) = Some own \<and> bal s' v = bal s v - own \<and> bal s' (this e) = bal s (this e) + own
     \<and> (\<forall>a. a \<noteq> v \<and> a \<noteq> this e \<longrightarrow> bal s' a = bal s a)"
proof -
  have "\<exists>p b m s1 w p'. gd_proposals s i = Some p \<and> pp_status p = Active \<and> gd_vote_records s (i, v) = None
     \<and> balance_of (token_part h) (gd_world s) (dc_gov_token c) v = Some b \<and> 0 < b
     \<and> collect_delegated_weight h e v i (dc_gov_token c) s = Inr (m, s1)
     \<and> transfer_of (token_part h) (gd_world s1) (dc_gov_token c) v (this e) (cap_weight c b) = Some w
     \<and> 0 < sat_i128 (cap_weight c b + m) \<and> add_vote ch (sat_i128 (cap_weight c b + m)) p = Inr p'
     \<and> s' = store_vote i v ch (sat_i128 (cap_weight c b + m)) (cap_weight c b) p' (s1\<lparr>gd_world := w\<rparr>)"
    using assms(3,4,5)
    by (clarsimp simp: vote_def gd_ok open_for_votes_ok Let_def not_le time_weighted_plain split: prod.splits)
  then obtain p b m s1 w p' where v: "gd_proposals s i = Some p" "pp_status p = Active" "gd_vote_records s (i, v) = None"
    "balance_of (token_part h) (gd_world s) (dc_gov_token c) v = Some b" "0 < b"
    "collect_delegated_weight h e v i (dc_gov_token c) s = Inr (m, s1)"
    "transfer_of (token_part h) (gd_world s1) (dc_gov_token c) v (this e) (cap_weight c b) = Some w"
    "0 < sat_i128 (cap_weight c b + m)" "add_vote ch (sat_i128 (cap_weight c b + m)) p = Inr p'"
    "s' = store_vote i v ch (sat_i128 (cap_weight c b + m)) (cap_weight c b) p' (s1\<lparr>gd_world := w\<rparr>)"
    by blast
  have b: "own = cap_weight c b" using v(4) by (simp add: own_def balance_def)
  let ?sum = "\<Sum>a\<leftarrow>delegators_of v s. lent h (dc_gov_token c) i s a"
  have "distinct (delegators_of v s)"
    using gd.inv_reach[OF assms(2)] by (simp add: gd_inv_def graph_ok_def graph_of_def delegators_of_def)
  from collect_from_lent[OF v(6)[unfolded collect_delegated_weight_def] assms(5) _ _ this]
  have m: "m = min i128_max ?sum"
    "gd_delegated_vote s1 = gd_delegated_vote s \<union> {(i, a) | a. a \<in> set (delegators_of v s) \<and> 0 < bal s a}"
    by (simp_all add: bal_def i128_max_def)
  have sum: "0 \<le> ?sum" by (intro sum_list_nonneg) (auto simp: lent_nonneg)
  have pos: "0 < cap_weight c b" using v(5) by (simp add: cap_weight_def)
  have n: "sat_i128 (own + m) = min i128_max (own + ?sum)"
    using sum pos unfolding m(1) b by (auto simp: sat_i128_def i128_min_def i128_max_def)
  obtain marks evs where s1: "s1 = s\<lparr>gd_delegated_vote := marks, gd_events := evs\<rparr>"
    using collect_frame[OF v(6)] by blast
  have pay: "moved (token_part h) (gd_world s) w (dc_gov_token c) v (this e) own"
    using sep41_moved[OF assms(1) v(7)] by (simp add: s1 b)
  have s': "gd_world s' = w" "gd_proposals s' i = Some p'" "gd_delegated_vote s' = gd_delegated_vote s1"
    "gd_locked_balance s' (i, v) = Some own"
    "gd_vote_records s' (i, v) = Some \<lparr>vr_voter = v, vr_choice = ch, vr_weight = sat_i128 (own + m)\<rparr>"
    by (simp_all add: v(10) store_vote_def put_proposal_def gd_publish_def b)
  show ?thesis
    using v(1,2,3,8) add_vote_count[OF v(9)] n m(2) s' moved_balance[OF pay] assms(6)
    by (intro exI[of _ p] exI[of _ "sat_i128 (own + m)"]) (simp add: bal_def b)
qed

text \<open>Erin, who has 400 left after her deposit, votes also for frank, who has 300.\<close>

theorem vote_weighs_delegation_witness:
  "\<exists>s s'. reach dao_run dao_begin 2050 s \<and> vote demo_host (plenum 2100) erin 0 For s = Inr s'
     \<and> gd_vote_records s' (0, erin) = Some \<lparr>vr_voter = erin, vr_choice = For, vr_weight = 700\<rparr>
     \<and> gd_locked_balance s' (0, erin) = Some 400
     \<and> balance ledger_ops (gd_world s') shield frank = 300 \<and> balance ledger_ops (gd_world s) shield frank = 300"
proof -
  let ?c = "proposed @ [(plenum 2050, Voting (Delegate frank erin))]"
  let ?P = "\<lambda>s. gd_config s = Some charter \<and> \<not> tw_enabled (time_weight_config_of s) \<and> delegators_of erin s = [frank]
    \<and> lent demo_host shield 0 s frank = 300 \<and> balance ledger_ops (gd_world s) shield erin = 400
    \<and> balance ledger_ops (gd_world s) shield frank = 300"
  have time: "timely 0 ?c" "ends 0 ?c = 2050" by code_simp+
  have out: "outcome (\<lambda>s. outcome (\<lambda>s'. ?P s) (vote demo_host (plenum 2100) erin 0 For s)) (play dao_run ?c dao_begin)"
    by code_simp
  obtain s s' where s: "reach dao_run dao_begin 2050 s" "vote demo_host (plenum 2100) erin 0 For s = Inr s'" and P: "?P s"
    by (rule history_then[OF out time(1), unfolded time(2)])
  have tk: "token_part demo_host = ledger_ops" "dc_gov_token charter = shield"
    by (simp_all add: demo_host_def charter_def)
  have ne: "erin \<noteq> this (plenum 2100)" "frank \<noteq> erin" "frank \<noteq> this (plenum 2100)"
    by (simp_all add: plenum_def erin_def frank_def dao_def moment_def)
  have P': "gd_config s = Some charter" "\<not> tw_enabled (time_weight_config_of s)" using P by auto
  show ?thesis
    using vote_weighs_delegation[OF _ s P' ne(1), unfolded tk, OF ledger_sep41] P s ne
    by (auto simp: cap_weight_def charter_def i128_max_def)
qed

text \<open>
  So delegated tokens can vote twice. There is a reachable state in which one proposal has
  more votes for it than there are tokens: erin votes with frank's 300, frank moves them to heidi, and heidi votes
  with them again.
\<close>

definition moved_on :: ledger where
  "moved_on = (\<lambda>(c, a). if c \<noteq> shield then 0 else if a = dao then 500 else if a = heidi then 300
     else if a = grace then 200 else 0)"

definition counted_twice :: "(env \<times> (ledger, int) gd_call) list" where
  "counted_twice = proposed @ [
     (plenum 2050, Voting (Delegate frank erin)),
     (plenum 2100, Voting (Vote erin 0 For)),
     (plenum 2110, Outside moved_on),
     (plenum 2120, Voting (Vote heidi 0 For)),
     (plenum 2130, Voting (Vote grace 0 For))]"

theorem delegated_tokens_vote_twice:
  "\<exists>s p. reach dao_run dao_begin 2130 s \<and> gd_proposals s 0 = Some p \<and> pp_votes_for p = 1200
     \<and> pp_total_supply p = 1000 \<and> (\<Sum>a\<leftarrow>[erin, frank, grace, heidi, dao]. shields (shield, a)) = 1000
     \<and> (\<Sum>a\<leftarrow>[erin, frank, grace, heidi, dao]. gd_world s (shield, a)) = 1000"
proof -
  have time: "timely 0 counted_twice" "ends 0 counted_twice = 2130" by code_simp+
  have issued: "(\<Sum>a\<leftarrow>[erin, frank, grace, heidi, dao]. shields (shield, a)) = 1000" by code_simp
  have "outcome (\<lambda>s. is_at (gd_proposals s 0) (\<lambda>p. pp_votes_for p = 1200 \<and> pp_total_supply p = 1000)
     \<and> (\<Sum>a\<leftarrow>[erin, frank, grace, heidi, dao]. gd_world s (shield, a)) = 1000) (play dao_run counted_twice dao_begin)"
    by code_simp
  then obtain s where s: "reach dao_run dao_begin 2130 s"
    "is_at (gd_proposals s 0) (\<lambda>p. pp_votes_for p = 1200 \<and> pp_total_supply p = 1000)"
    "(\<Sum>a\<leftarrow>[erin, frank, grace, heidi, dao]. gd_world s (shield, a)) = 1000"
    by (rule history_reach[OF _ time(1), unfolded time(2)]) blast
  then show ?thesis using is_atD[OF s(2)] issued by blast
qed

section \<open>Settlement\<close>

text \<open>The proposals are finalized one after the other.\<close>

primrec finalize_in_turn ::
  "('t, 'v) dao_host \<Rightarrow> 'v frame \<Rightarrow> env \<Rightarrow> int list \<Rightarrow> ('t, 'v) gd_state \<Rightarrow> (gd_error, ('t, 'v) gd_state) result" where
  "finalize_in_turn h fr e [] s = Inr s"
| "finalize_in_turn h fr e (i # is) s = bindR (finalize h fr e i s) (finalize_in_turn h fr e is)"

lemma decide_abstain: "decide e c eff n p = Inr p' \<Longrightarrow> pp_votes_abstain p' = pp_votes_abstain p"
  using decide_ok by fastforce

lemma finalize_each_head:
  assumes "gd_config s = Some config"
  shows "finalize_each h fr e config (i # is) s = Inr s' \<longleftrightarrow>
     (\<exists>s1. finalize h fr e i s = Inr s1 \<and> finalize_each h fr e config is s1 = Inr s')"
  using assms by (auto simp: finalize_def gd_ok Let_def decide_abstain)

lemma finalize_config:
  assumes "finalize h fr e i s = Inr s'" shows "gd_config s' = gd_config s"
  using assms by (auto simp: finalize_def gd_ok Let_def dest!: refund_world)

lemma finalize_each_in_turn:
  "gd_config s = Some config \<Longrightarrow>
     finalize_each h fr e config is s = Inr s' \<longleftrightarrow> finalize_in_turn h fr e is s = Inr s'"
proof (induction "is" arbitrary: s)
  case Nil
  then show ?case by simp
next
  case (Cons i "is")
  then show ?case
    using finalize_config[of h fr e i s] unfolding finalize_each_head[OF Cons.prems]
    by (auto simp: bindR_eq_Inr)
qed

text \<open>
  C37. The batch finalizes each: \<^verbatim>\<open>finalize_batch\<close>, which repeats the code of \<^verbatim>\<open>finalize\<close> in its
  loop, reads the configuration once and adds the votes up in another order, succeeds exactly
  when finalizing its 1 to 20 proposals one after the other succeeds, and with the same
  state: the quorum of each proposal depends on the participation of those before it.
\<close>

theorem batch_finalizes_each:
  "finalize_batch h fr e is s = Inr s' \<longleftrightarrow>
     is \<noteq> [] \<and> length is \<le> 20 \<and> finalize_in_turn h fr e is s = Inr s'"
proof (cases "gd_config s")
  case None
  have "finalize h fr e i s \<noteq> Inr s1" for i s1 using None by (auto simp: finalize_def gd_ok)
  then have "finalize_in_turn h fr e is s = Inr s' \<longrightarrow> is = []" by (cases "is") (auto simp: bindR_eq_Inr)
  then show ?thesis using None by (auto simp: finalize_batch_def)
next
  case (Some config)
  then show ?thesis
    using finalize_each_in_turn[OF Some, of h fr e "is" s']
    by (auto simp: finalize_batch_def MAX_BATCH_FINALIZE_def)
qed

section \<open>Execution and the escrow\<close>

lemma executed_refund_exact:
  assumes "refund_amount d b = Inr r" "0 \<le> d" "0 \<le> b"
  shows "r = d * b div 10000"
proof -
  have r: "r = d div 10000 * b + d mod 10000 * b div 10000"
    using assms by (auto simp: refund_amount_def gd_ok sdiv_nonneg signed_modulo_int_def sgn_if split: if_splits)
  have "d * b = d mod 10000 * b + 10000 * (d div 10000 * b)"
    by (metis (no_types) distrib_right mod_mult_div_eq mult.assoc)
  then have "d * b div 10000 = d mod 10000 * b div 10000 + d div 10000 * b" by simp
  then show ?thesis using r by simp
qed

text \<open>
  C38. What an execution does: it succeeds only on a proposal that has passed, is not vetoed,
  and whose time lock is over. After the deadline it only marks the proposal as expired, and
  the deposit stays with the DAO. Before, the target, which is never the DAO itself, has been
  called with the voted function and arguments, and the proposer has been paid back the share
  of the deposit, rounded down, that the target reported, all of it if it reported none.
\<close>

theorem execution_gate:
  assumes "execute h fr e i s = Inr s'"
  shows "\<exists>p q. gd_proposals s i = Some p \<and> gd_proposals s' i = Some q \<and> pp_status p = Passed
     \<and> \<not> pp_is_vetoed p \<and> pp_execution_time p \<le> timestamp e
     \<and> (if pp_execution_deadline p < timestamp e
        then pp_status q = proposal_status.Expired \<and> gd_world s' = gd_world s
        else pp_status q = Executed \<and> pp_target p \<noteq> this e
          \<and> (\<exists>w r. invoke_of h (gd_world s) (this e) (pp_target p) (pp_function p) (pp_args p) = Some (w, r)
               \<and> unwrap_or 10000 r \<le> 10000
               \<and> (0 \<le> pp_deposit p \<and> 0 \<le> unwrap_or 10000 r \<longrightarrow>
                    (let n = pp_deposit p * unwrap_or 10000 r div 10000
                     in n = 0 \<and> gd_world s' = w \<or>
                        (\<exists>c. gd_config s = Some c \<and>
                          transfer_of (token_part h) w (dc_gov_token c) (this e) (pp_proposer p) n = Some (gd_world s'))))))"
  using assms
proof (cases rule: execute_cases)
  case (expired p hash)
  then show ?thesis by (intro exI[of _ p] exI[of _ "p\<lparr>pp_status := proposal_status.Expired\<rparr>"]) simp
next
  case (executed p bps s1 refund s2 audit)
  have "\<exists>w r. invoke_of h (gd_world s) (this e) (pp_target p) (pp_function p) (pp_args p) = Some (w, r)
      \<and> s1 = s\<lparr>gd_world := w\<rparr> \<and> bps = unwrap_or 10000 r \<and> unwrap_or 10000 r \<le> 10000 \<and> pp_target p \<noteq> this e"
    using executed(6) unfolding unwrap_or_def
    by (clarsimp simp: invoke_target_def gd_ok split: if_splits)
      (rename_tac w r, case_tac r; auto simp: gd_ok split: if_splits)
  then obtain w r where w: "invoke_of h (gd_world s) (this e) (pp_target p) (pp_function p) (pp_args p) = Some (w, r)"
    "s1 = s\<lparr>gd_world := w\<rparr>" "bps = unwrap_or 10000 r" "unwrap_or 10000 r \<le> 10000" "pp_target p \<noteq> this e"
    by blast
  have "refund \<le> 0 \<and> gd_world s2 = w \<or> (\<exists>c. gd_config s = Some c \<and>
      transfer_of (token_part h) w (dc_gov_token c) (this e) (pp_proposer p) refund = Some (gd_world s2))"
    using executed(8) by (auto simp: refund_executed_def gd_ok w(2) split: if_splits)
  moreover have "refund = pp_deposit p * bps div 10000 \<and> 0 \<le> refund" if "0 \<le> pp_deposit p" "0 \<le> bps"
    using executed_refund_exact[OF executed(7) that] that by (simp add: pos_imp_zdiv_nonneg_iff)
  ultimately show ?thesis
    using executed(1-5) w by (intro exI[of _ p] exI[of _ "p\<lparr>pp_status := Executed\<rparr>"]) (fastforce simp: executed(9) Let_def)
qed

theorem execution_gate_witness:
  "\<exists>s s' q. reach dao_run dao_begin 6000 s \<and> execute demo_host demo_frame (plenum 7000) 0 s = Inr s'
     \<and> gd_proposals s' 0 = Some q \<and> pp_status q = Executed \<and> gd_world s (shield, erin) = 400
     \<and> gd_world s' (shield, erin) = 500"
proof -
  let ?c = "voted @ [(plenum 6000, OnProposal demo_frame (Finalize 0))]"
  have time: "timely 0 ?c" "ends 0 ?c = 6000" by code_simp+
  have "outcome (\<lambda>s. outcome (\<lambda>s'. gd_world s (shield, erin) = 400 \<and> gd_world s' (shield, erin) = 500)
     (execute demo_host demo_frame (plenum 7000) 0 s)) (play dao_run ?c dao_begin)"
    by code_simp
  then obtain s s' where s: "reach dao_run dao_begin 6000 s" "execute demo_host demo_frame (plenum 7000) 0 s = Inr s'"
    "gd_world s (shield, erin) = 400 \<and> gd_world s' (shield, erin) = 500"
    by (rule history_then[OF _ time(1), unfolded time(2)])
  obtain p q where "gd_proposals s' 0 = Some q" "gd_world s' \<noteq> gd_world s \<longrightarrow> pp_status q = Executed"
    using execution_gate[OF s(2)] by (auto split: if_splits)
  moreover have "gd_world s' \<noteq> gd_world s" using s(3) by auto
  ultimately show ?thesis using s by blast
qed

text \<open>
  C39. The escrow is covered: while the admin keeps one governance token \<open>u\<close>, nobody outside
  takes tokens from the DAO at \<open>me\<close> and no executed proposal does, the DAO owns at least what
  it has locked for voters and holds for proposers together, whatever anybody votes,
  withdraws, finalizes, cancels or reclaims. The token is any that keeps the promises of
  SEP-41.
\<close>

theorem escrow_covered:
  assumes "sep41 (token_part h)" "0 \<le> balance (token_part h) w u me"
    and "reach (in_trust h u me) (gd_fresh w) t s"
  shows "finite (support (locked_amount s)) \<and> finite (support (deposit_held s))
     \<and> (\<forall>k. 0 \<le> locked_amount s k) \<and> (\<forall>i. 0 \<le> deposit_held s i)
     \<and> (\<Sum>k \<in> support (locked_amount s). locked_amount s k) + (\<Sum>i \<in> support (deposit_held s). deposit_held s i)
       \<le> balance (token_part h) (gd_world s) u me"
proof -
  have ok: "escrow_ok h u me s"
    using in_trust_run[OF _ gd_fresh_escrow[OF assms(2)] assms(1)] assms(3) unfolding reach_def by blast
  then show ?thesis using held_bounds[OF ok] by (simp add: escrow_ok_def total_def)
qed

theorem escrow_covered_witness:
  "\<exists>s. reach (in_trust demo_host shield dao) dao_begin 2200 s \<and> locked_amount s (0, frank) = 300
     \<and> locked_amount s (0, grace) = 200 \<and> deposit_held s 0 = 100 \<and> balance ledger_ops (gd_world s) shield dao = 600
     \<and> (\<Sum>k \<in> support (locked_amount s). locked_amount s k) + (\<Sum>i \<in> support (deposit_held s). deposit_held s i)
       \<le> balance ledger_ops (gd_world s) shield dao"
proof -
  have "outcome (\<lambda>s. locked_amount s (0, frank) = 300 \<and> locked_amount s (0, grace) = 200 \<and> deposit_held s 0 = 100
     \<and> balance ledger_ops (gd_world s) shield dao = 600) (play (in_trust demo_host shield dao) voted dao_begin)"
    by code_simp
  then obtain s where s: "reach (in_trust demo_host shield dao) dao_begin 2200 s"
    "locked_amount s (0, frank) = 300" "locked_amount s (0, grace) = 200" "deposit_held s 0 = 100"
    "balance ledger_ops (gd_world s) shield dao = 600"
    by (rule history_reach[OF _ dao_times(3), unfolded dao_times(4)]) blast
  have "token_part demo_host = ledger_ops" by (simp add: demo_host_def)
  moreover have "0 \<le> balance ledger_ops shields shield dao"
    by (simp add: balance_def ledger_ops_def shields_def)
  ultimately show ?thesis using escrow_covered[OF _ _ s(1)] ledger_sep41 s by (intro exI[of _ s]) simp
qed

text \<open>
  C40. A deposit makes the round trip: what the creation of a proposal takes from its proposer
  is exactly what a cancellation pays back, whatever happens in between, also to the
  threshold, as long as the governance token is the same.
\<close>

theorem deposit_round_trip:
  assumes "sep41 (token_part h)" "reach (gd_exec h) (gd_fresh w) t s"
    and "create_proposal h fr e a ti g f xs im s = Inr (i, s1)"
    and "run (gd_exec h) t1 s1 t2 s2" "cancel h fr' e' b i s2 = Inr s3"
    and "a \<noteq> this e" "a \<noteq> this e'" "gd_config s = Some c" "gd_config s2 = Some c'"
    and "dc_gov_token c' = dc_gov_token c"
  shows "\<exists>d \<ge> 0. balance (token_part h) (gd_world s1) (dc_gov_token c) a
         = balance (token_part h) (gd_world s) (dc_gov_token c) a - d
     \<and> balance (token_part h) (gd_world s3) (dc_gov_token c) a
         = balance (token_part h) (gd_world s2) (dc_gov_token c) a + d"
proof -
  have inv: "gd_inv s" by (rule gd.inv_reach[OF assms(2)])
  then have m: "gd_moves s s1" using create_moves[OF assms(3)] by (simp add: gd_inv_def)
  have inv1: "gd_inv s1"
    using m inv moves_rules[OF m] ballot_steps_inv by (auto simp: gd_inv_def gd_moves_def)
  obtain p where p: "gd_proposals s1 i = Some p" "pp_proposer p = a"
    "transfer_of (token_part h) (gd_world s) (dc_gov_token c) a (this e) (pp_deposit p) = Some (gd_world s1)"
    using assms(3,8)
    by (auto simp: create_proposal_def submit_proposal_def new_proposal_def gd_ok Let_def put_proposal_def split: if_splits)
  obtain q where q: "gd_proposals s2 i = Some q" "later p q"
    using ballot_steps_later[of "ballots_of s1" "ballots_of s2" i p] run_ballots[OF assms(4) inv1] inv1 p(1)
    by (auto simp: gd_inv_def)
  have "pp_deposit q = pp_deposit p" "pp_proposer q = a"
    using q(2) p(2) by (auto simp: later_def same_terms_def)
  moreover obtain w3 where "transfer_of (token_part h) (gd_world s2) (dc_gov_token c') (this e') (pp_proposer q) (pp_deposit q) = Some w3"
    "gd_world s3 = w3"
    using assms(5,9) q(1) by (auto simp: cancel_def gd_ok Let_def)
  ultimately have "moved (token_part h) (gd_world s2) (gd_world s3) (dc_gov_token c) (this e') a (pp_deposit p)"
    using sep41_moved[OF assms(1)] assms(10) by simp
  then show ?thesis
    using sep41_moved[OF assms(1) p(3)] assms(6,7) by (intro exI[of _ "pp_deposit p"]) (simp add: moved_def)
qed

theorem deposit_round_trip_witness:
  "\<exists>s s1 s2 s3. reach dao_run dao_begin 1001 s
     \<and> create_proposal demo_host demo_frame (plenum 2000) erin ''raise rates'' registry_contract ''set_rate'' [7] ''more income'' s = Inr (0, s1)
     \<and> run dao_run 2000 s1 2100 s2 \<and> cancel demo_host demo_frame (plenum 2500) boss 0 s2 = Inr s3
     \<and> (\<exists>d \<ge> 0. balance ledger_ops (gd_world s1) shield erin = balance ledger_ops (gd_world s) shield erin - d
          \<and> balance ledger_ops (gd_world s3) shield erin = balance ledger_ops (gd_world s2) shield erin + d)"
proof -
  let ?c = "[(plenum 1000, DaoSetting (GdInitialize boss charter)), (plenum 1001, DaoSetting (GdSetGuardians boss [heidi] 1))]
     :: (env \<times> (ledger, int) gd_call) list"
  let ?d = "[(plenum 2050, DaoSetting (SetProposalThreshold boss 50)), (plenum 2100, Voting (Vote frank 0 For))]
     :: (env \<times> (ledger, int) gd_call) list"
  let ?create = "create_proposal demo_host demo_frame (plenum 2000) erin ''raise rates'' registry_contract ''set_rate'' [7] ''more income''"
  have time: "timely 0 ?c" "ends 0 ?c = 1001" "timely 2000 ?d" "ends 2000 ?d = 2100" by code_simp+
  have "outcome (\<lambda>s. gd_config s = Some charter \<and> outcome (\<lambda>r. fst r = 0 \<and> outcome (\<lambda>s2.
       is_at (gd_config s2) (\<lambda>c. dc_gov_token c = shield)
       \<and> outcome (\<lambda>_. True) (cancel demo_host demo_frame (plenum 2500) boss 0 s2))
         (play dao_run ?d (snd r))) (?create s)) (play dao_run ?c dao_begin)"
    by code_simp
  then obtain s where s: "reach dao_run dao_begin 1001 s" "gd_config s = Some charter"
    "outcome (\<lambda>r. fst r = 0 \<and> outcome (\<lambda>s2. is_at (gd_config s2) (\<lambda>c. dc_gov_token c = shield)
       \<and> outcome (\<lambda>_. True) (cancel demo_host demo_frame (plenum 2500) boss 0 s2)) (play dao_run ?d (snd r))) (?create s)"
    by (rule history_reach[OF _ time(1), unfolded time(2)]) blast
  obtain s1 where s1: "?create s = Inr (0, s1)" "outcome (\<lambda>s2. is_at (gd_config s2) (\<lambda>c. dc_gov_token c = shield)
       \<and> outcome (\<lambda>_. True) (cancel demo_host demo_frame (plenum 2500) boss 0 s2)) (play dao_run ?d s1)"
    using outcome_obtain[OF s(3)] by auto
  obtain s2 where s2: "play dao_run ?d s1 = Inr s2" "is_at (gd_config s2) (\<lambda>c. dc_gov_token c = shield)"
    "outcome (\<lambda>_. True) (cancel demo_host demo_frame (plenum 2500) boss 0 s2)"
    using outcome_obtain[OF s1(2)] by blast
  obtain s3 where s3: "cancel demo_host demo_frame (plenum 2500) boss 0 s2 = Inr s3"
    using outcome_obtain[OF s2(3)] by blast
  obtain c' where c': "gd_config s2 = Some c'" "dc_gov_token c' = shield" using is_atD[OF s2(2)] by blast
  have run: "run dao_run 2000 s1 2100 s2" using play_run[OF s2(1) time(3)] by (simp only: time(4))
  have tk: "token_part demo_host = ledger_ops" "dc_gov_token charter = shield"
    by (simp_all add: demo_host_def charter_def)
  have ne: "erin \<noteq> this (plenum 2000)" "erin \<noteq> this (plenum 2500)"
    by (simp_all add: plenum_def erin_def dao_def moment_def)
  show ?thesis
    using deposit_round_trip[OF _ s(1) s1(1) run s3 ne s(2) c'(1), unfolded tk, OF ledger_sep41 c'(2)] s(1) s1(1) run s3
    by blast
qed

end
