(* ===== verification/Spec2Isabelle.thy ===== *)
theory Spec2Isabelle
  imports PE_Properties RP_Properties CP_Properties Net_Properties OV_Properties OV_Custody
    GD_Properties
begin

text \<open>
  \<^bold>\<open>Parashield: parametric insurance on Soroban, modelled and verified.\<close>

  The program is a workspace of smart contracts in Rust (\<^verbatim>\<open>src/contracts\<close>). The \<^bold>\<open>policy
  engine\<close> keeps the catalogue of products and sells policies for a premium; the \<^bold>\<open>risk pool\<close>
  holds the capital of liquidity providers, locks it for policies, and is paid the premiums;
  the \<^bold>\<open>claims processor\<close> files claims, asks the \<^bold>\<open>oracle verifier\<close> whether a policy's trigger
  is met, lets the engine pay the policy and the pool release its capital; the oracle verifier
  registers oracles with their stakes and reputations, collects readings, and forms a
  consensus of them. The \<^bold>\<open>governance DAO\<close> collects the votes of token holders on proposals,
  each a call of some contract, and executes what has passed. The theories follow the contracts function by function and keep
  their names; a function is a definition, with a prefix where two contracts share a name.

  \<^bold>\<open>Conventions\<close> (\<open>Prelude\<close>, \<open>Contract_System\<close>). A call returns \<open>(error, value) result\<close>: the
  contract's error code (\<open>panic\<close>), a trap of the host (\<open>trap\<close>), or a value with the new state.
  A call that fails leaves no trace, so state passing in \<open>bindR\<close> is exact. Integers of Rust are
  \<open>int\<close> with their width written out: \<open>u32\<close>, \<open>u64\<close>, \<open>i128\<close> for plain arithmetic, which traps
  on overflow (the release profile has overflow checks), \<open>checked_\<close> and \<open>sat_\<close> for the methods
  of these names, \<open>sdiv\<close> for division that truncates. The storage of a contract is a record with
  one field per storage key; a key that was never set is \<open>None\<close>. \<open>env\<close> holds the ledger time,
  the granted authorisations and the contract's own address. Events are a list in the state,
  newest first. Tokens are a parameter \<open>token_ops\<close> with the promises of SEP-41 (\<open>sep41\<close>) as an
  explicit hypothesis where a theorem needs them; the reinsurer is a parameter as well.

  \<^bold>\<open>Contracts as transition systems\<close> (\<open>Contract_System\<close>). All entry points of a contract form one
  call type with a dispatcher (\<open>PE_System\<close>, \<open>RP_System\<close>, \<open>CP_System\<close>, \<open>OV_System\<close>, \<open>GD_System\<close>), which also
  checks that the arguments fit their Rust types. \<open>run\<close> and \<open>reach\<close> are the sequences of
  successful calls, by anybody, at ledger times that do not go back. The locale
  \<open>invariant_system\<close> is the interface between a contract and the theorems about all its states,
  \<open>timelocked_role\<close> extends it for a role that changes hands after a delay; they are
  interpreted for the engine (\<open>pe\<close>, \<open>pe_spaced\<close>, \<open>pe_admin_role\<close>, \<open>pe_oracle_role\<close>), the pool
  (\<open>rp\<close>, \<open>rp_solvent\<close>), the processor (\<open>cp\<close>), the verifier (\<open>ov\<close>), the DAO (\<open>gd\<close>) and the
  deployed system (\<open>net\<close>).

  \<^bold>\<open>Policy engine\<close> (\<^verbatim>\<open>policy-engine/src/lib.rs\<close>, \<^verbatim>\<open>types.rs\<close>). \<open>PE_Types\<close> has the data and the
  storage, \<open>PE_Admin\<close> the roles, pausing and upgrades, \<open>PE_Products\<close> the catalogue, \<open>PE_Policies\<close>
  purchase, batch, transfer, cancellation, payment and expiry, \<open>PE_Queries\<close> the views.
  \<open>PE_Effects\<close> splits every call into effects, \<open>PE_Invariants\<close> proves the invariant once per
  effect, \<open>PE_Book\<close> is the abstract book of policies and the refinement, \<open>PE_Roles\<close> the time
  locks, \<open>PE_Accounts\<close> prices, refunds and statistics.

  \<^bold>\<open>Risk pool\<close> (\<^verbatim>\<open>risk-pool/src/lib.rs\<close>, \<^verbatim>\<open>types.rs\<close>). \<open>RP_Types\<close> has the data, \<open>RP_Positions\<close>
  deposits, withdrawals, the exit queue (a call sweeps at most five slots), liquidation and
  yield, \<open>RP_Capital\<close> locks, premiums, recoveries and ratios, \<open>RP_Admin\<close> the administration.
  \<open>RP_Book\<close> is the abstract book of deposits, shares and locks with its solvency and share
  price, \<open>RP_Refine\<close> and \<open>RP_Ledger\<close> show that every call is a sequence of its moves, \<open>RP_Accounts\<close>
  has the exact behaviour of single operations.

  \<^bold>\<open>Claims processor\<close> (\<^verbatim>\<open>claims-processor/src/lib.rs\<close>, \<^verbatim>\<open>types.rs\<close>). \<open>CP_Types\<close> has the data,
  \<open>CP_Filing\<close> filing and fraud screening, \<open>CP_Processing\<close> the evaluation and settlement,
  \<open>CP_Payouts\<close> delayed and partial payouts, disputes and escalation, \<open>CP_Admin\<close> the
  administration. The contracts it calls are the record \<open>services\<close>. \<open>CP_Docket\<close> is an abstract
  machine of claims, \<open>CP_Refine\<close> and \<open>CP_Simulation\<close> show that every call is a sequence of its
  steps, \<open>CP_Invariants\<close> how each call changes a claim (\<open>status_change\<close>), \<open>CP_Queue\<close> that the bubble sort of the batch is the library's stable sort, and
  \<open>CP_Backing\<close> has the locale \<open>settlement_services\<close>: what the processor relies on in the engine
  and the pool.

  \<^bold>\<open>The deployed contracts\<close> (\<open>Network\<close>, \<open>Net_Liveness\<close>). The models of engine, pool and processor
  over one token ledger, called by anybody in any order; the processor's calls run in the
  models of the others, and a failure of a callee undoes the whole call. \<open>settlement_services\<close>
  is interpreted (\<open>linked\<close>) on these models.

  \<^bold>\<open>Oracle verifier\<close> (\<^verbatim>\<open>oracle-verifier/src/lib.rs\<close>, \<^verbatim>\<open>types.rs\<close>). \<open>OV_Types\<close> and \<open>OV_State\<close> have the
  data and the storage, \<open>OV_Registry\<close> oracles, settings and guardians, \<open>OV_Stakes\<close> stakes,
  slashing and reputations, \<open>OV_Aggregate\<close> the outlier filter and the four averages (at most
  100 readings), \<open>OV_Consensus\<close> the consensus, the triggers and the reports, \<open>OV_Submit\<close> the
  submissions. \<open>OV_Invariants\<close> has the invariant of registry, readings and reputations,
  \<open>OV_Voting\<close> reduces the consensus to a vote, \<open>OV_Custody\<close> is an abstract vault of stakes that
  every call refines.

  \<^bold>\<open>Governance DAO\<close> (\<^verbatim>\<open>governance-dao/src/lib.rs\<close>, \<^verbatim>\<open>types.rs\<close>). \<open>GD_State\<close> has the data and the
  storage, \<open>GD_Voting\<close> the adaptive quorum, time-weighted power, delegation and votes, \<open>GD_Admin\<close>
  configuration, templates, guardians and upgrades, \<open>GD_Proposals\<close> the life of a proposal from
  its creation to its execution, and comments. What the DAO calls and the repository does not
  contain is the record \<open>dao_host\<close>: the token, the hash function, and \<open>invoke_of\<close>, the call a
  proposal makes; \<open>frame\<close> is how the host represents values during one call, which the hash of
  a proposal depends on. A call of the DAO by itself is a trap, since the host refuses
  re-entry; the step \<open>Outside\<close> lets all other contracts change the world between two calls.
  \<open>GD_Ballots\<close> is an abstract machine of ballots, \<open>GD_Refine\<close> and \<open>GD_Steps\<close> show that every call
  is a sequence of its steps, \<open>GD_Invariants\<close> adds the graph of delegations, and \<open>GD_Escrow\<close> has
  the tokens the DAO holds for voters and proposers.

  \<^bold>\<open>What is shown.\<close> The properties, with ids in front of their theorems, are in \<open>PE_Properties\<close>,
  \<open>RP_Properties\<close>, \<open>CP_Properties\<close>, \<open>Net_Properties\<close>, \<open>OV_Properties\<close> and \<open>GD_Properties\<close>: refinement of an abstract
  book or machine by each contract, state invariants, what a policy and a claim can become,
  time locks, exact prices, refunds, shares and totals, the bounds of recoveries, that a
  triggered claim is paid and that every claim recorded as paid is backed by a payment, that
  an honest majority of oracles decides, that reports and settlements agree on the consensus
  among oracles of full reputation, that the tallies of a proposal are the recorded votes, what
  a vote with delegated tokens weighs, that nothing passes without a quorum, that stakes and
  escrowed tokens are covered, and some behaviours that the documentation or the tests of the
  code deny; the texts of these properties say so. Lemmas next to the properties show reachable
  states in which reports and settlements disagree and in which delegated tokens vote twice.
  Each property with hypotheses has a witness, evaluated on the histories of
  \<open>Sample\<close>, \<open>RP_Sample\<close>, \<open>Net_Sample\<close>, \<open>OV_Sample\<close> and \<open>GD_Sample\<close>.

  \<^bold>\<open>Bounds and termination.\<close> No definition uses fuel. Loops over vectors are structural
  recursion; the bubble sort and the statistics loop recurse on their counters.

  \<^bold>\<open>Not modelled.\<close> The lifetimes of storage entries (\<^verbatim>\<open>extend_ttl\<close>): entries do not expire in the
  model. The cost limits of the host. \<^verbatim>\<open>get_delegated_lp_weight\<close> and \<^verbatim>\<open>extend_proposal_ttl\<close> of the
  DAO, which nothing calls. Types that the source declares and never uses. A second request for
  the same authorisation inside one frame is modelled as the failure it is only in the claims
  processor, where it occurs.
\<close>

end
